(* ===== verification/Prelude.thy ===== *)
theory Prelude
  imports Main "HOL-Library.AList"
begin

section \<open>Prelude: Python values, dictionaries, truthiness, results\<close>

text \<open>
  What every component of the model shares: the Python values that the SDK passes around
  untyped (\<open>Any\<close>), dictionaries with Python's insertion order, the truth value of an
  optional string, the exceptions the code raises and the result of an operation that may
  raise after it has changed the state.
\<close>

named_theorems a2a_defs \<open>definitions unfolded by the component proofs\<close>
named_theorems a2a_inv \<open>preservation of the component invariants\<close>

subsection \<open>Python values\<close>

text \<open>
  A value of type \<open>Any\<close>. Floats are finite and kept as mantissa and binary exponent; an
  object of any other class is represented by its \<open>str()\<close> rendering. Dictionary keys are
  strings, as in every dictionary of the data model.
\<close>

datatype pyval =
    PyNone
  | PyBool bool
  | PyInt int
  | PyFloat int int
  | PyStr string
  | PyList "pyval list"
  | PyTuple "pyval list"
  | PyDict "(string \<times> pyval) list"
  | PyObj string

type_synonym pydict = "(string \<times> pyval) list"

fun py_truthy :: "pyval \<Rightarrow> bool" where
  "py_truthy PyNone = False"
| "py_truthy (PyBool b) = b"
| "py_truthy (PyInt i) = (i \<noteq> 0)"
| "py_truthy (PyFloat m e) = (m \<noteq> 0)"
| "py_truthy (PyStr s) = (s \<noteq> [])"
| "py_truthy (PyList xs) = (xs \<noteq> [])"
| "py_truthy (PyTuple xs) = (xs \<noteq> [])"
| "py_truthy (PyDict d) = (d \<noteq> [])"
| "py_truthy (PyObj s) = True"

subsection \<open>Truth of optional values\<close>

text \<open>\<open>if x:\<close> for \<open>x: str | None\<close> and \<open>x: list | None\<close>: both \<open>None\<close> and empty are false.\<close>

fun truthy :: "'a list option \<Rightarrow> bool" where
  "truthy None = False"
| "truthy (Some xs) = (xs \<noteq> [])"

text \<open>\<open>x or default\<close> for an optional string or list.\<close>

definition or_else :: "'a list option \<Rightarrow> 'a list \<Rightarrow> 'a list" where
  "or_else x d = (if truthy x then the x else d)"

text \<open>\<open>x or None\<close> for a string or list that is never \<open>None\<close>.\<close>

definition or_None :: "'a list \<Rightarrow> 'a list option" where
  "or_None xs = (if xs = [] then None else Some xs)"

lemma truthy_iff: "truthy x \<longleftrightarrow> (\<exists>xs. x = Some xs \<and> xs \<noteq> [])"
  by (cases x) auto

lemma not_truthy_iff: "\<not> truthy x \<longleftrightarrow> x = None \<or> x = Some []"
  by (cases x) auto

lemma or_else_simps [simp]:
  "or_else None d = d"
  "or_else (Some []) d = d"
  "or_else (Some (x # xs)) d = x # xs"
  by (simp_all add: or_else_def)

lemma or_None_simps [simp]:
  "or_None [] = None"
  "or_None (x # xs) = Some (x # xs)"
  by (simp_all add: or_None_def)

lemma or_None_eq_None [simp]: "or_None xs = None \<longleftrightarrow> xs = []"
  by (simp add: or_None_def)

lemma or_None_or_else [simp]: "or_None (or_else x []) = (if truthy x then x else None)"
  by (cases x) (auto simp: or_None_def or_else_def)

subsection \<open>Dictionaries\<close>

text \<open>
  A Python \<open>dict\<close> that is iterated over keeps its insertion order: an association list
  with distinct keys. Assigning to an existing key keeps its position, as \<open>AList.update\<close>
  does; \<open>d.update(e)\<close> assigns the entries of \<open>e\<close> in order.
\<close>

definition dict_update :: "('k \<times> 'v) list \<Rightarrow> ('k \<times> 'v) list \<Rightarrow> ('k \<times> 'v) list" where
  "dict_update d e = foldl (\<lambda>acc (k, v). AList.update k v acc) d e"

definition dict_ok :: "('k \<times> 'v) list \<Rightarrow> bool" where
  "dict_ok d \<longleftrightarrow> distinct (map fst d)"

lemma dict_update_Nil [simp]: "dict_update d [] = d"
  by (simp add: dict_update_def)

lemma dict_update_Cons [simp]:
  "dict_update d ((k, v) # e) = dict_update (AList.update k v d) e"
  by (simp add: dict_update_def)

lemma dict_ok_Nil [simp]: "dict_ok []"
  by (simp add: dict_ok_def)

lemma dict_ok_update [simp, intro]: "dict_ok d \<Longrightarrow> dict_ok (AList.update k v d)"
  by (simp add: dict_ok_def distinct_update)

lemma dict_ok_dict_update [simp, intro]: "dict_ok d \<Longrightarrow> dict_ok (dict_update d e)"
proof (induction e arbitrary: d)
  case (Cons p e)
  then show ?case by (cases p) simp
qed simp

lemma map_of_dict_update:
  "dict_ok e \<Longrightarrow> map_of (dict_update d e) k = (case map_of e k of None \<Rightarrow> map_of d k | Some v \<Rightarrow> Some v)"
proof (induction e arbitrary: d)
  case (Cons p e)
  obtain k' v where p: "p = (k', v)" by (cases p)
  from Cons.prems p have e: "dict_ok e" and k': "map_of e k' = None"
    by (simp_all add: dict_ok_def map_of_eq_None_iff)
  show ?case
    using Cons.IH [OF e, of "AList.update k' v d"] k' p
    by (auto simp: update_conv' split: option.splits)
qed simp

lemma dict_update_eq_Nil [simp]: "dict_update d e = [] \<longleftrightarrow> d = [] \<and> e = []"
proof (induction e arbitrary: d)
  case (Cons p e)
  have ne: "AList.update k v d \<noteq> []" for k v and d :: "('a \<times> 'b) list"
    by (cases d) auto
  show ?case by (cases p) (simp add: Cons.IH ne)
qed simp

subsection \<open>Strings\<close>

fun str_join :: "'a list \<Rightarrow> 'a list list \<Rightarrow> 'a list" where
  "str_join d [] = []"
| "str_join d [s] = s"
| "str_join d (s # t # ss) = s @ d @ str_join d (t # ss)"

text \<open>\<open>s.split(c)\<close> for a one-character separator: always at least one field.\<close>

fun str_split :: "'a \<Rightarrow> 'a list \<Rightarrow> 'a list list" where
  "str_split c [] = [[]]"
| "str_split c (x # xs) =
     (if x = c then [] # str_split c xs
      else (case str_split c xs of [] \<Rightarrow> [[x]] | f # fs \<Rightarrow> (x # f) # fs))"

lemma str_split_not_Nil [simp]: "str_split c s \<noteq> []"
  by (cases s) (auto split: list.splits)

lemma str_split_no_sep: "c \<notin> set s \<Longrightarrow> str_split c s = [s]"
  by (induction s) auto

lemma str_split_append: "c \<notin> set s \<Longrightarrow> str_split c (s @ c # t) = s # str_split c t"
  by (induction s) auto

lemma str_split_join:
  "ss \<noteq> [] \<Longrightarrow> \<forall>s \<in> set ss. c \<notin> set s \<Longrightarrow> str_split c (str_join [c] ss) = ss"
  by (induction "[c]" ss rule: str_join.induct) (auto simp: str_split_no_sep str_split_append)

subsection \<open>Sequencing operations that may raise\<close>

text \<open>
  An operation on a state returns an exception or a value, together with the state it
  leaves: a Python exception does not undo the assignments made before it. \<open>try_bind\<close> runs
  the rest of the code only when no exception was raised.
\<close>

definition try_bind :: "('e + 'a) \<times> 's \<Rightarrow> ('a \<Rightarrow> 's \<Rightarrow> ('e + 'b) \<times> 's) \<Rightarrow> ('e + 'b) \<times> 's" where
  "try_bind m f = (case m of (Inl e, s) \<Rightarrow> (Inl e, s) | (Inr a, s) \<Rightarrow> f a s)"

lemma try_bind_simps [simp]:
  "try_bind (Inl e, s) f = (Inl e, s)"
  "try_bind (Inr a, s) f = f a s"
  by (simp_all add: try_bind_def)

lemma try_bind_Inr_iff:
  "try_bind m f = (Inr b, s') \<longleftrightarrow> (\<exists>a s. m = (Inr a, s) \<and> f a s = (Inr b, s'))"
  by (auto simp: try_bind_def split: prod.splits sum.splits)

subsection \<open>Lists\<close>

text \<open>The position of the first element with a property: a loop over \<open>enumerate\<close> with a break.\<close>

fun find_index :: "('a \<Rightarrow> bool) \<Rightarrow> 'a list \<Rightarrow> nat option" where
  "find_index P [] = None"
| "find_index P (x # xs) = (if P x then Some 0 else map_option Suc (find_index P xs))"

lemma find_index_SomeD:
  "find_index P xs = Some i \<Longrightarrow> i < length xs \<and> P (xs ! i) \<and> (\<forall>j < i. \<not> P (xs ! j))"
proof (induction xs arbitrary: i)
  case (Cons x xs)
  then show ?case
    by (auto simp: nth_Cons split: if_splits nat.splits)
qed simp

lemma find_index_None_iff: "find_index P xs = None \<longleftrightarrow> (\<forall>x \<in> set xs. \<not> P x)"
  by (induction xs) auto

text \<open>\<open>xs[-n:]\<close> for a positive \<open>n\<close>: the last \<open>n\<close> elements.\<close>

definition last_n :: "nat \<Rightarrow> 'a list \<Rightarrow> 'a list" where
  "last_n n xs = drop (length xs - n) xs"

lemma length_last_n [simp]: "length (last_n n xs) = min n (length xs)"
  by (simp add: last_n_def)

lemma find_conv_find_index: "find P xs = map_option (\<lambda>i. xs ! i) (find_index P xs)"
  by (induction xs) (auto simp: option.map_comp o_def)

lemma find_of_index:
  "find_index P xs = None \<Longrightarrow> find P xs = None"
  "find_index P xs = Some i \<Longrightarrow> find P xs = Some (xs ! i)"
  by (simp_all add: find_conv_find_index)

lemma find_list_update_other:
  "i < length xs \<Longrightarrow> \<not> P (xs ! i) \<Longrightarrow> \<not> P y \<Longrightarrow> find P (xs[i := y]) = find P xs"
proof (induction xs arbitrary: i)
  case (Cons x xs)
  then show ?case by (cases i) auto
qed simp

lemma find_list_update_first:
  "find_index P xs = Some i \<Longrightarrow> P y \<Longrightarrow> find P (xs[i := y]) = Some y"
proof (induction xs arbitrary: i)
  case (Cons x xs)
  then show ?case by (auto split: if_splits)
qed simp

lemma find_append: "find P (xs @ ys) = (case find P xs of None \<Rightarrow> find P ys | Some x \<Rightarrow> Some x)"
  by (induction xs) auto

lemma find_index_map: "find_index P (map f xs) = find_index (P \<circ> f) xs"
  by (induction xs) auto

lemma map_list_update_same:
  "f y = f (xs ! i) \<Longrightarrow> map f (xs[i := y]) = map f xs"
proof (induction xs arbitrary: i)
  case (Cons x xs)
  then show ?case by (cases i) auto
qed simp

lemma find_key_filter:
  "find (\<lambda>x. k x = i) (filter (\<lambda>x. k x \<noteq> j) xs) = (if i = j then None else find (\<lambda>x. k x = i) xs)"
  by (induction xs) auto

lemma find_Some_key:
  "distinct (map k xs) \<Longrightarrow> find (\<lambda>x. k x = i) xs = Some x \<longleftrightarrow> x \<in> set xs \<and> k x = i"
  by (induction xs) auto

text \<open>Removing the first element with a key, found by a loop, removes the only one.\<close>

lemma remove_found_eq_filter:
  "distinct (map k xs) \<Longrightarrow>
   (case find_index (\<lambda>x. k x = i) xs of Some j \<Rightarrow> remove1 (xs ! j) xs | None \<Rightarrow> xs) =
   filter (\<lambda>x. k x \<noteq> i) xs"
proof (induction xs)
  case (Cons x xs)
  show ?case
  proof (cases "k x = i")
    case True
    with Cons.prems have "\<forall>y \<in> set xs. k y \<noteq> i" by (force simp: image_iff)
    with True show ?thesis by (simp add: filter_id_conv)
  next
    case False
    have "remove1 ((x # xs) ! Suc j) (x # xs) = x # remove1 (xs ! j) xs"
      if "find_index (\<lambda>x. k x = i) xs = Some j" for j
      using find_index_SomeD [OF that] False by auto
    with Cons False show ?thesis by (auto split: option.splits)
  qed
qed simp

subsection \<open>Results\<close>

text \<open>
  A pure operation that may raise returns a sum; \<open>res_bind\<close> sequences, \<open>res_map\<close> is a list
  comprehension whose body may raise (the first exception wins).
\<close>

definition res_bind :: "'e + 'a \<Rightarrow> ('a \<Rightarrow> 'e + 'b) \<Rightarrow> 'e + 'b" where
  "res_bind m f = (case m of Inl e \<Rightarrow> Inl e | Inr a \<Rightarrow> f a)"

fun res_map :: "('a \<Rightarrow> 'e + 'b) \<Rightarrow> 'a list \<Rightarrow> 'e + 'b list" where
  "res_map f [] = Inr []"
| "res_map f (x # xs) = res_bind (f x) (\<lambda>y. res_bind (res_map f xs) (\<lambda>ys. Inr (y # ys)))"

text \<open>The same for an optional argument.\<close>

definition res_option :: "('a \<Rightarrow> 'e + 'b) \<Rightarrow> 'a option \<Rightarrow> 'e + 'b option" where
  "res_option f x = (case x of None \<Rightarrow> Inr None | Some a \<Rightarrow> res_bind (f a) (\<lambda>b. Inr (Some b)))"

lemma res_bind_simps [simp]:
  "res_bind (Inl e) f = Inl e"
  "res_bind (Inr a) f = f a"
  by (simp_all add: res_bind_def)

lemma res_bind_Inr_iff: "res_bind m f = Inr b \<longleftrightarrow> (\<exists>a. m = Inr a \<and> f a = Inr b)"
  by (cases m) auto

lemma res_option_simps [simp]:
  "res_option f None = Inr None"
  "res_option f (Some a) = res_bind (f a) (\<lambda>b. Inr (Some b))"
  by (simp_all add: res_option_def)

lemma res_map_Inr: "\<forall>x \<in> set xs. f x = Inr (g x) \<Longrightarrow> res_map f xs = Inr (map g xs)"
  by (induction xs) auto

lemma res_map_cong [fundef_cong]:
  "xs = ys \<Longrightarrow> (\<And>x. x \<in> set ys \<Longrightarrow> f x = g x) \<Longrightarrow> res_map f xs = res_map g ys"
  by (induction ys arbitrary: xs) auto

text \<open>Two steps that are inverse up to a normal form, over a list.\<close>

lemma res_map_roundtrip:
  assumes "\<And>x. x \<in> set xs \<Longrightarrow> \<exists>y. f x = Inr y \<and> g y = Inr (h x)"
  shows "\<exists>ys. res_map f xs = Inr ys \<and> res_map g ys = Inr (map h xs)"
  using assms
proof (induction xs)
  case (Cons x xs)
  obtain y where "f x = Inr y" "g y = Inr (h x)" using Cons.prems by auto
  moreover obtain ys where "res_map f xs = Inr ys" "res_map g ys = Inr (map h xs)" using Cons by auto
  ultimately show ?case by simp
qed simp

text \<open>\<open>bytes\<close>, as far as \<open>decode('utf-8')\<close> tells: the text, or a decoding error.\<close>

datatype py_bytes = Utf8 string | NotUtf8

text \<open>\<open>str.lower\<close> on ASCII letters\<close>

definition lower_char :: "char \<Rightarrow> char" where
  "lower_char c = (if (of_char c :: nat) \<in> {65..90} then char_of ((of_char c :: nat) + 32) else c)"

definition lower :: "string \<Rightarrow> string" where
  "lower s = map lower_char s"

subsection \<open>Decimal text\<close>

definition digit :: "nat \<Rightarrow> char" where
  "digit d = char_of (48 + d)"

fun nat_str :: "nat \<Rightarrow> string" where
  "nat_str n = (if n < 10 then [digit n] else nat_str (n div 10) @ [digit (n mod 10)])"

declare nat_str.simps [simp del]

definition int_str :: "int \<Rightarrow> string" where
  "int_str i = (if i < 0 then CHR ''-'' # nat_str (nat (- i)) else nat_str (nat i))"

end
