(* ===== verification/A2A_Types.thy ===== *)
theory A2A_Types
  imports Prelude
begin

section \<open>The data model (src/a2a/types.py) and the exceptions (utils/errors.py, client/errors.py)\<close>

text \<open>
  One record per Pydantic class and one datatype per enum or union of
  \<^verbatim>\<open>src/a2a/types.py\<close>, with the fields of the class in the order of the source under a
  prefix per class. The literal discriminators (\<open>kind\<close>, \<open>type\<close>, \<open>jsonrpc\<close>, \<open>method\<close>)
  are carried by the record or constructor itself. \<open>dict[str, Any]\<close> is a \<open>pydict\<close>,
  \<open>T | None\<close> an option. Pydantic's own validation is not modelled: a value of a record type
  is a validated object.
\<close>

subsection \<open>Enums\<close>

datatype In = cookie | header | query

datatype Role = agent | user

datatype TaskState =
    submitted | working | input_required | completed | canceled
  | failed | rejected | auth_required | unknown

fun task_state_value :: "TaskState \<Rightarrow> string" where
  "task_state_value submitted = ''submitted''"
| "task_state_value working = ''working''"
| "task_state_value input_required = ''input-required''"
| "task_state_value completed = ''completed''"
| "task_state_value canceled = ''canceled''"
| "task_state_value failed = ''failed''"
| "task_state_value rejected = ''rejected''"
| "task_state_value auth_required = ''auth-required''"
| "task_state_value unknown = ''unknown''"

datatype TransportProtocol = tp_jsonrpc | tp_grpc | tp_http_json | tp_kafka

text \<open>\<open>TransportProtocol\<close> is a string enum: it is equal to, and hashes as, its value.\<close>

fun transport_value :: "TransportProtocol \<Rightarrow> string" where
  "transport_value tp_jsonrpc = ''JSONRPC''"
| "transport_value tp_grpc = ''GRPC''"
| "transport_value tp_http_json = ''HTTP+JSON''"
| "transport_value tp_kafka = ''KAFKA''"

text \<open>The identifier of a JSON-RPC request: \<open>str | int\<close>.\<close>

datatype rpc_id = IdStr string | IdInt int

subsection \<open>Parts, messages, artifacts\<close>

record TextPart =
  tp_metadata :: "pydict option"
  tp_text :: string

record FileWithBytes =
  fb_bytes :: string
  fb_mime_type :: "string option"
  fb_name :: "string option"

record FileWithUri =
  fu_mime_type :: "string option"
  fu_name :: "string option"
  fu_uri :: string

datatype file_content = FileBytes FileWithBytes | FileUri FileWithUri

record FilePart =
  fp_file :: file_content
  fp_metadata :: "pydict option"

record DataPart =
  dp_data :: pydict
  dp_metadata :: "pydict option"

datatype Part = Part_Text TextPart | Part_File FilePart | Part_Data DataPart

record Message =
  msg_context_id :: "string option"
  msg_extensions :: "string list option"
  msg_message_id :: string
  msg_metadata :: "pydict option"
  msg_parts :: "Part list"
  msg_reference_task_ids :: "string list option"
  msg_role :: Role
  msg_task_id :: "string option"

record Artifact =
  art_artifact_id :: string
  art_description :: "string option"
  art_extensions :: "string list option"
  art_metadata :: "pydict option"
  art_name :: "string option"
  art_parts :: "Part list"

subsection \<open>Tasks and events\<close>

record TaskStatus =
  status_message :: "Message option"
  status_state :: TaskState
  status_timestamp :: "string option"

record Task =
  task_artifacts :: "Artifact list option"
  task_context_id :: string
  task_history :: "Message list option"
  task_id :: string
  task_metadata :: "pydict option"
  task_status :: TaskStatus

record TaskStatusUpdateEvent =
  sue_context_id :: string
  sue_final :: bool
  sue_metadata :: "pydict option"
  sue_status :: TaskStatus
  sue_task_id :: string

record TaskArtifactUpdateEvent =
  aue_append :: "bool option"
  aue_artifact :: Artifact
  aue_context_id :: string
  aue_last_chunk :: "bool option"
  aue_metadata :: "pydict option"
  aue_task_id :: string

text \<open>\<open>Event = Message | Task | TaskStatusUpdateEvent | TaskArtifactUpdateEvent\<close> (event_queue.py).\<close>

datatype Event =
    EvMessage Message
  | EvTask Task
  | EvStatus TaskStatusUpdateEvent
  | EvArtifact TaskArtifactUpdateEvent

text \<open>
  The events a task manager saves (\<open>Task | TaskStatusUpdateEvent | TaskArtifactUpdateEvent\<close>);
  \<open>as_task_event\<close> is the \<open>isinstance\<close> test that selects them.
\<close>

datatype TaskEvent =
    TE_Task Task
  | TE_Status TaskStatusUpdateEvent
  | TE_Artifact TaskArtifactUpdateEvent

fun as_task_event :: "Event \<Rightarrow> TaskEvent option" where
  "as_task_event (EvMessage m) = None"
| "as_task_event (EvTask t) = Some (TE_Task t)"
| "as_task_event (EvStatus e) = Some (TE_Status e)"
| "as_task_event (EvArtifact e) = Some (TE_Artifact e)"

fun te_task_id :: "TaskEvent \<Rightarrow> string" where
  "te_task_id (TE_Task t) = task_id t"
| "te_task_id (TE_Status e) = sue_task_id e"
| "te_task_id (TE_Artifact e) = aue_task_id e"

fun te_context_id :: "TaskEvent \<Rightarrow> string" where
  "te_context_id (TE_Task t) = task_context_id t"
| "te_context_id (TE_Status e) = sue_context_id e"
| "te_context_id (TE_Artifact e) = aue_context_id e"

subsection \<open>Push notification configuration and request parameters\<close>

record PushNotificationAuthenticationInfo =
  pna_credentials :: "string option"
  pna_schemes :: "string list"

record PushNotificationConfig =
  pnc_authentication :: "PushNotificationAuthenticationInfo option"
  pnc_id :: "string option"
  pnc_token :: "string option"
  pnc_url :: string

record TaskPushNotificationConfig =
  tpnc_push_notification_config :: PushNotificationConfig
  tpnc_task_id :: string

record TaskIdParams =
  tip_id :: string
  tip_metadata :: "pydict option"

record TaskQueryParams =
  tqp_history_length :: "int option"
  tqp_id :: string
  tqp_metadata :: "pydict option"

record DeleteTaskPushNotificationConfigParams =
  dtp_id :: string
  dtp_metadata :: "pydict option"
  dtp_push_notification_config_id :: string

record GetTaskPushNotificationConfigParams =
  gtp_id :: string
  gtp_metadata :: "pydict option"
  gtp_push_notification_config_id :: "string option"

record ListTaskPushNotificationConfigParams =
  ltp_id :: string
  ltp_metadata :: "pydict option"

record MessageSendConfiguration =
  msc_accepted_output_modes :: "string list option"
  msc_blocking :: "bool option"
  msc_history_length :: "int option"
  msc_push_notification_config :: "PushNotificationConfig option"

record MessageSendParams =
  msp_configuration :: "MessageSendConfiguration option"
  msp_message :: Message
  msp_metadata :: "pydict option"

subsection \<open>Protocol errors\<close>

text \<open>
  The error classes share the fields \<open>code\<close>, \<open>data\<close> and \<open>message\<close>; the class of an error
  object, which \<open>isinstance\<close> and \<open>match\<close> look at, is its \<open>err_kind\<close>. \<open>JSONRPCError\<close> is the
  generic class with a free code; the others fix the code and a default message, and the
  constant named after the class is the object its constructor builds without arguments
  (\<open>C(message=m)\<close> is \<open>C\<lparr>err_message := Some m\<rparr>\<close>).
\<close>

datatype error_kind =
    K_JSONRPCError
  | K_JSONParseError
  | K_InvalidRequestError
  | K_MethodNotFoundError
  | K_InvalidParamsError
  | K_InternalError
  | K_TaskNotFoundError
  | K_TaskNotCancelableError
  | K_PushNotificationNotSupportedError
  | K_UnsupportedOperationError
  | K_ContentTypeNotSupportedError
  | K_InvalidAgentResponseError
  | K_AuthenticatedExtendedCardNotConfiguredError

record rpc_error =
  err_kind :: error_kind
  err_code :: int
  err_data :: "pyval option"
  err_message :: "string option"

definition JSONRPCError :: "int \<Rightarrow> string \<Rightarrow> rpc_error" where
  "JSONRPCError code message =
     \<lparr>err_kind = K_JSONRPCError, err_code = code, err_data = None, err_message = Some message\<rparr>"

definition JSONParseError :: rpc_error where
  "JSONParseError =
     \<lparr>err_kind = K_JSONParseError, err_code = -32700, err_data = None,
      err_message = Some ''Invalid JSON payload''\<rparr>"

definition InvalidRequestError :: rpc_error where
  "InvalidRequestError =
     \<lparr>err_kind = K_InvalidRequestError, err_code = -32600, err_data = None,
      err_message = Some ''Request payload validation error''\<rparr>"

definition MethodNotFoundError :: rpc_error where
  "MethodNotFoundError =
     \<lparr>err_kind = K_MethodNotFoundError, err_code = -32601, err_data = None,
      err_message = Some ''Method not found''\<rparr>"

definition InvalidParamsError :: rpc_error where
  "InvalidParamsError =
     \<lparr>err_kind = K_InvalidParamsError, err_code = -32602, err_data = None,
      err_message = Some ''Invalid parameters''\<rparr>"

definition InternalError :: rpc_error where
  "InternalError =
     \<lparr>err_kind = K_InternalError, err_code = -32603, err_data = None,
      err_message = Some ''Internal error''\<rparr>"

definition TaskNotFoundError :: rpc_error where
  "TaskNotFoundError =
     \<lparr>err_kind = K_TaskNotFoundError, err_code = -32001, err_data = None,
      err_message = Some ''Task not found''\<rparr>"

definition TaskNotCancelableError :: rpc_error where
  "TaskNotCancelableError =
     \<lparr>err_kind = K_TaskNotCancelableError, err_code = -32002, err_data = None,
      err_message = Some ''Task cannot be canceled''\<rparr>"

definition PushNotificationNotSupportedError :: rpc_error where
  "PushNotificationNotSupportedError =
     \<lparr>err_kind = K_PushNotificationNotSupportedError, err_code = -32003, err_data = None,
      err_message = Some ''Push Notification is not supported''\<rparr>"

definition UnsupportedOperationError :: rpc_error where
  "UnsupportedOperationError =
     \<lparr>err_kind = K_UnsupportedOperationError, err_code = -32004, err_data = None,
      err_message = Some ''This operation is not supported''\<rparr>"

definition ContentTypeNotSupportedError :: rpc_error where
  "ContentTypeNotSupportedError =
     \<lparr>err_kind = K_ContentTypeNotSupportedError, err_code = -32005, err_data = None,
      err_message = Some ''Incompatible content types''\<rparr>"

definition InvalidAgentResponseError :: rpc_error where
  "InvalidAgentResponseError =
     \<lparr>err_kind = K_InvalidAgentResponseError, err_code = -32006, err_data = None,
      err_message = Some ''Invalid agent response''\<rparr>"

definition AuthenticatedExtendedCardNotConfiguredError :: rpc_error where
  "AuthenticatedExtendedCardNotConfiguredError =
     \<lparr>err_kind = K_AuthenticatedExtendedCardNotConfiguredError, err_code = -32007, err_data = None,
      err_message = Some ''Authenticated Extended Card is not configured''\<rparr>"

lemmas error_class_defs =
  JSONRPCError_def JSONParseError_def InvalidRequestError_def MethodNotFoundError_def InvalidParamsError_def InternalError_def TaskNotFoundError_def TaskNotCancelableError_def PushNotificationNotSupportedError_def UnsupportedOperationError_def ContentTypeNotSupportedError_def InvalidAgentResponseError_def AuthenticatedExtendedCardNotConfiguredError_def

lemma err_kind_simps [simp]:
  "err_kind (JSONRPCError c m) = K_JSONRPCError"
  "err_kind JSONParseError = K_JSONParseError"
  "err_kind InvalidRequestError = K_InvalidRequestError"
  "err_kind MethodNotFoundError = K_MethodNotFoundError"
  "err_kind InvalidParamsError = K_InvalidParamsError"
  "err_kind InternalError = K_InternalError"
  "err_kind TaskNotFoundError = K_TaskNotFoundError"
  "err_kind TaskNotCancelableError = K_TaskNotCancelableError"
  "err_kind PushNotificationNotSupportedError = K_PushNotificationNotSupportedError"
  "err_kind UnsupportedOperationError = K_UnsupportedOperationError"
  "err_kind ContentTypeNotSupportedError = K_ContentTypeNotSupportedError"
  "err_kind InvalidAgentResponseError = K_InvalidAgentResponseError"
  "err_kind AuthenticatedExtendedCardNotConfiguredError = K_AuthenticatedExtendedCardNotConfiguredError"
  by (simp_all add: error_class_defs)

lemma err_code_simps [simp]:
  "err_code (JSONRPCError c m) = c"
  "err_code JSONParseError = -32700"
  "err_code InvalidRequestError = -32600"
  "err_code MethodNotFoundError = -32601"
  "err_code InvalidParamsError = -32602"
  "err_code InternalError = -32603"
  "err_code TaskNotFoundError = -32001"
  "err_code TaskNotCancelableError = -32002"
  "err_code PushNotificationNotSupportedError = -32003"
  "err_code UnsupportedOperationError = -32004"
  "err_code ContentTypeNotSupportedError = -32005"
  "err_code InvalidAgentResponseError = -32006"
  "err_code AuthenticatedExtendedCardNotConfiguredError = -32007"
  by (simp_all add: error_class_defs)

subsection \<open>Exceptions\<close>

text \<open>
  The exceptions that the modelled code raises or catches. \<open>OtherException\<close> is any other
  exception of code the SDK calls (the agent executor, a codec), named by its \<open>str()\<close>.
\<close>

datatype exn =
    ServerError "rpc_error option"
  | ServerErrorStr string
  | A2AClientError string
  | A2AClientInvalidArgsError string
  | A2AClientInvalidStateError string
  | A2AClientHTTPError int string
  | A2AClientJSONError string
  | A2AClientTimeoutError string
  | A2AClientJSONRPCError rpc_error string
  | ValueErr string
  | TypeErr string
  | RuntimeErr string
  | AttributeErr string
  | NotImplementedErr string
  | QueueEmpty
  | QueueShutDown
  | TaskQueueExists
  | NoTaskQueue
  | ValidationError
  | CancelledError string
  | OtherException string

abbreviation raise_server :: "rpc_error \<Rightarrow> exn" where
  "raise_server e \<equiv> ServerError (Some e)"

text \<open>
  \<open>ServerError.__str__\<close>: the class name when the error object has no message. The class
  name is read off the kind. A \<open>ServerError\<close> that was given a plain string (which the type
  annotation excludes but the Kafka code does) has no \<open>message\<close> attribute, so rendering it
  raises \<open>AttributeError\<close>; it is kept apart as \<open>ServerErrorStr\<close>.
\<close>

fun error_class_name :: "error_kind \<Rightarrow> string" where
  "error_class_name K_JSONRPCError = ''JSONRPCError''"
| "error_class_name K_JSONParseError = ''JSONParseError''"
| "error_class_name K_InvalidRequestError = ''InvalidRequestError''"
| "error_class_name K_MethodNotFoundError = ''MethodNotFoundError''"
| "error_class_name K_InvalidParamsError = ''InvalidParamsError''"
| "error_class_name K_InternalError = ''InternalError''"
| "error_class_name K_TaskNotFoundError = ''TaskNotFoundError''"
| "error_class_name K_TaskNotCancelableError = ''TaskNotCancelableError''"
| "error_class_name K_PushNotificationNotSupportedError = ''PushNotificationNotSupportedError''"
| "error_class_name K_UnsupportedOperationError = ''UnsupportedOperationError''"
| "error_class_name K_ContentTypeNotSupportedError = ''ContentTypeNotSupportedError''"
| "error_class_name K_InvalidAgentResponseError = ''InvalidAgentResponseError''"
| "error_class_name K_AuthenticatedExtendedCardNotConfiguredError = ''AuthenticatedExtendedCardNotConfiguredError''"

fun server_error_str :: "rpc_error option \<Rightarrow> string" where
  "server_error_str None = ''None''"
| "server_error_str (Some e) =
     (case err_message e of None \<Rightarrow> error_class_name (err_kind e) | Some m \<Rightarrow> m)"

text \<open>
  \<open>str(e)\<close> of an exception, which itself raises for a \<open>ServerError\<close> that holds a string. The
  text of a Pydantic \<open>ValidationError\<close> is the argument \<open>vtext\<close>; an \<open>A2AClientJSONRPCError\<close>
  carries the text of its error object.
\<close>

fun exn_str :: "string \<Rightarrow> exn \<Rightarrow> exn + string" where
  "exn_str vtext (ServerError e) = Inr (server_error_str e)"
| "exn_str vtext (ServerErrorStr s) =
     Inl (AttributeErr ([CHR 0x27] @ ''str' object has no attribute 'message'' @ [CHR 0x27]))"
| "exn_str vtext (A2AClientError s) = Inr s"
| "exn_str vtext (A2AClientInvalidArgsError s) = Inr (''Invalid arguments error: '' @ s)"
| "exn_str vtext (A2AClientInvalidStateError s) = Inr (''Invalid state error: '' @ s)"
| "exn_str vtext (A2AClientHTTPError status s) = Inr (''HTTP Error '' @ int_str status @ '': '' @ s)"
| "exn_str vtext (A2AClientJSONError s) = Inr (''JSON Error: '' @ s)"
| "exn_str vtext (A2AClientTimeoutError s) = Inr (''Timeout Error: '' @ s)"
| "exn_str vtext (A2AClientJSONRPCError e s) = Inr (''JSON-RPC Error '' @ s)"
| "exn_str vtext (ValueErr s) = Inr s"
| "exn_str vtext (TypeErr s) = Inr s"
| "exn_str vtext (RuntimeErr s) = Inr s"
| "exn_str vtext (AttributeErr s) = Inr s"
| "exn_str vtext (NotImplementedErr s) = Inr s"
| "exn_str vtext QueueEmpty = Inr []"
| "exn_str vtext QueueShutDown = Inr []"
| "exn_str vtext TaskQueueExists = Inr []"
| "exn_str vtext NoTaskQueue = Inr []"
| "exn_str vtext ValidationError = Inr vtext"
| "exn_str vtext (CancelledError s) = Inr s"
| "exn_str vtext (OtherException s) = Inr s"

end
