(* ===== verification/Utils.thy ===== *)
theory Utils
  imports A2A_Types
begin

section \<open>Utility functions (src/a2a/utils: parts.py, message.py, artifact.py, task.py, helpers.py)\<close>

text \<open>
  The helpers that build and inspect messages, artifacts and tasks. A call of \<open>uuid4()\<close> is an
  argument of the model (the string it returned). Objects are values here: a helper that
  updates a task in place returns the updated task, and the callers (task managers) store it
  back in the object it came from.
\<close>

subsection \<open>Parts and messages\<close>

definition get_text_parts :: "Part list \<Rightarrow> string list" where
  "get_text_parts parts = concat (map (\<lambda>p. case p of Part_Text t \<Rightarrow> [tp_text t] | _ \<Rightarrow> []) parts)"

definition get_data_parts :: "Part list \<Rightarrow> pydict list" where
  "get_data_parts parts = concat (map (\<lambda>p. case p of Part_Data d \<Rightarrow> [dp_data d] | _ \<Rightarrow> []) parts)"

definition get_file_parts :: "Part list \<Rightarrow> file_content list" where
  "get_file_parts parts = concat (map (\<lambda>p. case p of Part_File f \<Rightarrow> [fp_file f] | _ \<Rightarrow> []) parts)"

definition text_part :: "string \<Rightarrow> Part" where
  "text_part s = Part_Text \<lparr>tp_metadata = None, tp_text = s\<rparr>"

definition new_agent_parts_message ::
  "string \<Rightarrow> Part list \<Rightarrow> string option \<Rightarrow> string option \<Rightarrow> Message" where
  "new_agent_parts_message uuid parts ctx tid =
     \<lparr>msg_context_id = ctx, msg_extensions = None, msg_message_id = uuid, msg_metadata = None,
      msg_parts = parts, msg_reference_task_ids = None, msg_role = agent, msg_task_id = tid\<rparr>"

definition new_agent_text_message ::
  "string \<Rightarrow> string \<Rightarrow> string option \<Rightarrow> string option \<Rightarrow> Message" where
  "new_agent_text_message uuid text ctx tid =
     \<lparr>msg_context_id = ctx, msg_extensions = None, msg_message_id = uuid, msg_metadata = None,
      msg_parts = [text_part text], msg_reference_task_ids = None, msg_role = agent,
      msg_task_id = tid\<rparr>"

definition get_message_text :: "Message \<Rightarrow> string \<Rightarrow> string" where
  "get_message_text m delimiter = str_join delimiter (get_text_parts (msg_parts m))"

subsection \<open>Artifacts\<close>

definition new_artifact :: "string \<Rightarrow> Part list \<Rightarrow> string \<Rightarrow> string option \<Rightarrow> Artifact" where
  "new_artifact uuid parts name description =
     \<lparr>art_artifact_id = uuid, art_description = description, art_extensions = None,
      art_metadata = None, art_name = Some name, art_parts = parts\<rparr>"

definition new_text_artifact :: "string \<Rightarrow> string \<Rightarrow> string \<Rightarrow> string option \<Rightarrow> Artifact" where
  "new_text_artifact uuid name text description =
     new_artifact uuid [text_part text] name description"

definition new_data_artifact :: "string \<Rightarrow> string \<Rightarrow> pydict \<Rightarrow> string option \<Rightarrow> Artifact" where
  "new_data_artifact uuid name data description =
     new_artifact uuid [Part_Data \<lparr>dp_data = data, dp_metadata = None\<rparr>] name description"

definition get_artifact_text :: "Artifact \<Rightarrow> string \<Rightarrow> string" where
  "get_artifact_text a delimiter = str_join delimiter (get_text_parts (art_parts a))"

definition build_text_artifact :: "string \<Rightarrow> string \<Rightarrow> Artifact" where
  "build_text_artifact text artifact_id =
     \<lparr>art_artifact_id = artifact_id, art_description = None, art_extensions = None,
      art_metadata = None, art_name = None, art_parts = [text_part text]\<rparr>"

subsection \<open>Tasks\<close>

definition plain_status :: "TaskState \<Rightarrow> TaskStatus" where
  "plain_status st = \<lparr>status_message = None, status_state = st, status_timestamp = None\<rparr>"

definition empty_text_part :: "Part \<Rightarrow> bool" where
  "empty_text_part p = (case p of Part_Text t \<Rightarrow> tp_text t = [] | _ \<Rightarrow> False)"

definition new_task :: "string \<Rightarrow> string \<Rightarrow> Message \<Rightarrow> exn + Task" where
  "new_task uuid_task uuid_context request =
     (if msg_parts request = [] then Inl (ValueErr ''Message parts cannot be empty'')
      else if list_ex empty_text_part (msg_parts request)
      then Inl (ValueErr ''TextPart content cannot be empty'')
      else Inr \<lparr>task_artifacts = None,
                task_context_id = or_else (msg_context_id request) uuid_context,
                task_history = Some [request],
                task_id = or_else (msg_task_id request) uuid_task,
                task_metadata = None,
                task_status = plain_status submitted\<rparr>)"

definition completed_task ::
  "string \<Rightarrow> string \<Rightarrow> Artifact list \<Rightarrow> Message list option \<Rightarrow> exn + Task" where
  "completed_task tid ctx artifacts history =
     (if artifacts = [] then Inl (ValueErr ''artifacts must be a non-empty list of Artifact objects'')
      else Inr \<lparr>task_artifacts = Some artifacts, task_context_id = ctx,
                task_history = Some (case history of None \<Rightarrow> [] | Some h \<Rightarrow> h),
                task_id = tid, task_metadata = None, task_status = plain_status completed\<rparr>)"

definition apply_history_length :: "Task \<Rightarrow> int option \<Rightarrow> Task" where
  "apply_history_length task history_length =
     (case history_length of
        None \<Rightarrow> task
      | Some n \<Rightarrow>
          if n > 0 \<and> truthy (task_history task)
          then task\<lparr>task_history := Some (last_n (nat n) (the (task_history task)))\<rparr>
          else task)"

text \<open>\<open>create_task_obj\<close> assigns a generated context id to the message it was given.\<close>

definition create_task_obj :: "string \<Rightarrow> string \<Rightarrow> MessageSendParams \<Rightarrow> Task \<times> MessageSendParams" where
  "create_task_obj uuid_context uuid_task params =
     (let m = msp_message params;
          m' = (if truthy (msg_context_id m) then m else m\<lparr>msg_context_id := Some uuid_context\<rparr>)
      in (\<lparr>task_artifacts = None, task_context_id = the (msg_context_id m'),
           task_history = Some [m'], task_id = uuid_task, task_metadata = None,
           task_status = plain_status submitted\<rparr>,
          params\<lparr>msp_message := m'\<rparr>))"

subsection \<open>helpers.py\<close>

definition append_artifact_to_task :: "Task \<Rightarrow> TaskArtifactUpdateEvent \<Rightarrow> Task" where
  "append_artifact_to_task task event =
     (let artifacts = or_else (task_artifacts task) [];
          new_artifact_data = aue_artifact event;
          append_parts = (aue_append event = Some True);
          existing = find_index (\<lambda>art. art_artifact_id art = art_artifact_id new_artifact_data) artifacts
      in task\<lparr>task_artifacts := Some
           (if \<not> append_parts
            then (case existing of
                    Some i \<Rightarrow> artifacts[i := new_artifact_data]
                  | None \<Rightarrow> artifacts @ [new_artifact_data])
            else (case existing of
                    Some i \<Rightarrow> artifacts[i := (artifacts ! i)\<lparr>art_parts :=
                                 art_parts (artifacts ! i) @ art_parts new_artifact_data\<rparr>]
                  | None \<Rightarrow> artifacts))\<rparr>)"

definition are_modalities_compatible :: "string list option \<Rightarrow> string list option \<Rightarrow> bool" where
  "are_modalities_compatible server_output_modes client_output_modes =
     (if \<not> truthy client_output_modes then True
      else if \<not> truthy server_output_modes then True
      else list_ex (\<lambda>x. x \<in> set (the server_output_modes)) (the client_output_modes))"

text \<open>
  The decorators \<open>validate\<close> and \<open>validate_async_generator\<close>: the wrapped call runs only when
  the guard holds; otherwise the state is untouched and the error is raised.
\<close>

definition validate_call :: "bool \<Rightarrow> string \<Rightarrow> ('s \<Rightarrow> (exn + 'a) \<times> 's) \<Rightarrow> 's \<Rightarrow> (exn + 'a) \<times> 's" where
  "validate_call guard error_message call s =
     (if \<not> guard
      then (Inl (raise_server (UnsupportedOperationError\<lparr>err_message := Some error_message\<rparr>)), s)
      else call s)"

subsection \<open>Artifact assembly\<close>

text \<open>
  What a task's artifact list promises: under each artifact id the parts of the last complete
  chunk (one without \<open>append\<close>) followed by those of the appended chunks, in order.
  \<open>assemble\<close> states it for one id, without lists of artifacts or positions.
\<close>

definition artifact_list :: "Task \<Rightarrow> Artifact list" where
  "artifact_list t = or_else (task_artifacts t) []"

definition artifact_ids :: "Task \<Rightarrow> string list" where
  "artifact_ids t = map art_artifact_id (artifact_list t)"

definition parts_of :: "Task \<Rightarrow> string \<Rightarrow> Part list option" where
  "parts_of t aid = map_option art_parts (find (\<lambda>a. art_artifact_id a = aid) (artifact_list t))"

definition assemble_step :: "string \<Rightarrow> TaskArtifactUpdateEvent \<Rightarrow> Part list option \<Rightarrow> Part list option" where
  "assemble_step aid e acc =
     (if art_artifact_id (aue_artifact e) \<noteq> aid then acc
      else if aue_append e = Some True
      then map_option (\<lambda>ps. ps @ art_parts (aue_artifact e)) acc
      else Some (art_parts (aue_artifact e)))"

definition assemble :: "string \<Rightarrow> Part list option \<Rightarrow> TaskArtifactUpdateEvent list \<Rightarrow> Part list option" where
  "assemble aid acc es = foldl (\<lambda>a e. assemble_step aid e a) acc es"

lemma artifact_list_append_artifact:
  "artifact_list (append_artifact_to_task t e) =
     (let new = aue_artifact e;
          i = find_index (\<lambda>a. art_artifact_id a = art_artifact_id new) (artifact_list t)
      in (if aue_append e \<noteq> Some True
          then (case i of Some i \<Rightarrow> (artifact_list t)[i := new] | None \<Rightarrow> artifact_list t @ [new])
          else (case i of
                  Some i \<Rightarrow> (artifact_list t)[i := (artifact_list t ! i)\<lparr>art_parts :=
                              art_parts (artifact_list t ! i) @ art_parts new\<rparr>]
                | None \<Rightarrow> artifact_list t)))"
  by (auto simp: artifact_list_def append_artifact_to_task_def Let_def or_else_def not_truthy_iff
      split: option.splits)

lemma append_artifact_other_fields [simp]:
  "task_id (append_artifact_to_task t e) = task_id t"
  "task_context_id (append_artifact_to_task t e) = task_context_id t"
  "task_history (append_artifact_to_task t e) = task_history t"
  "task_metadata (append_artifact_to_task t e) = task_metadata t"
  "task_status (append_artifact_to_task t e) = task_status t"
  by (simp_all add: append_artifact_to_task_def Let_def)

lemma artifact_ids_append_artifact:
  "artifact_ids (append_artifact_to_task t e) =
     (if aue_append e \<noteq> Some True \<and> art_artifact_id (aue_artifact e) \<notin> set (artifact_ids t)
      then artifact_ids t @ [art_artifact_id (aue_artifact e)]
      else artifact_ids t)"
proof (cases "find_index (\<lambda>a. art_artifact_id a = art_artifact_id (aue_artifact e)) (artifact_list t)")
  case None
  then have "art_artifact_id (aue_artifact e) \<notin> set (artifact_ids t)"
    by (auto simp: find_index_None_iff artifact_ids_def)
  with None show ?thesis
    by (simp add: artifact_ids_def artifact_list_append_artifact Let_def)
next
  case (Some i)
  from find_index_SomeD [OF Some]
  have i: "i < length (artifact_list t)"
    and id: "art_artifact_id (artifact_list t ! i) = art_artifact_id (aue_artifact e)" by simp_all
  then have "art_artifact_id (aue_artifact e) \<in> set (artifact_ids t)"
    by (metis artifact_ids_def length_map nth_map nth_mem)
  with Some id show ?thesis
    by (simp add: artifact_ids_def artifact_list_append_artifact Let_def map_list_update_same)
qed

lemma distinct_artifact_ids_append_artifact [a2a_inv]:
  "distinct (artifact_ids t) \<Longrightarrow> distinct (artifact_ids (append_artifact_to_task t e))"
  by (simp add: artifact_ids_append_artifact)

lemma parts_of_append_artifact:
  "parts_of (append_artifact_to_task t e) aid = assemble_step aid e (parts_of t aid)"
proof -
  let ?new = "aue_artifact e"
  let ?i = "find_index (\<lambda>a. art_artifact_id a = art_artifact_id ?new) (artifact_list t)"
  show ?thesis
  proof (cases ?i)
    case None
    then show ?thesis
      unfolding parts_of_def artifact_list_append_artifact assemble_step_def
      by (auto simp: Let_def find_append find_of_index split: option.splits)
  next
    case (Some i)
    from find_index_SomeD [OF Some]
    have i: "i < length (artifact_list t)"
      and id: "art_artifact_id (artifact_list t ! i) = art_artifact_id ?new" by simp_all
    show ?thesis
    proof (cases "art_artifact_id ?new = aid")
      case True
      with Some id show ?thesis
        unfolding parts_of_def artifact_list_append_artifact assemble_step_def
        by (simp add: Let_def find_list_update_first find_of_index)
    next
      case False
      with Some i id show ?thesis
        unfolding parts_of_def artifact_list_append_artifact assemble_step_def
        by (simp add: Let_def find_list_update_other)
    qed
  qed
qed

lemma parts_of_fold_append_artifact:
  "parts_of (foldl append_artifact_to_task t es) aid = assemble aid (parts_of t aid) es"
  unfolding assemble_def
  by (induction es arbitrary: t) (simp_all add: parts_of_append_artifact)

lemma distinct_artifact_ids_fold [a2a_inv]:
  "distinct (artifact_ids t) \<Longrightarrow> distinct (artifact_ids (foldl append_artifact_to_task t es))"
  by (induction es arbitrary: t) (simp_all add: distinct_artifact_ids_append_artifact)

subsection \<open>History truncation\<close>

lemma apply_history_length_other_fields [simp]:
  "task_id (apply_history_length t n) = task_id t"
  "task_status (apply_history_length t n) = task_status t"
  "task_artifacts (apply_history_length t n) = task_artifacts t"
  "task_context_id (apply_history_length t n) = task_context_id t"
  "task_metadata (apply_history_length t n) = task_metadata t"
  by (simp_all add: apply_history_length_def split: option.split)

subsection \<open>Properties\<close>

text \<open>
  Claim C14. Artifact assembly: after any sequence of artifact update events has been applied to
  a task, the parts stored under an artifact id are those of the last replacing event for that id
  followed by the parts of the appending events after it, in order (an append to an
  unknown id is dropped), and the artifact ids of the task stay pairwise distinct when they
  were so before.
\<close>

theorem artifact_assembly:
  assumes "distinct (artifact_ids t)"
  shows "parts_of (foldl append_artifact_to_task t es) aid = assemble aid (parts_of t aid) es \<and>
         distinct (artifact_ids (foldl append_artifact_to_task t es))"
  using assms by (simp add: parts_of_fold_append_artifact distinct_artifact_ids_fold)

definition sample_artifact :: "string \<Rightarrow> string \<Rightarrow> Artifact" where
  "sample_artifact aid text = build_text_artifact text aid"

definition sample_chunk :: "bool option \<Rightarrow> string \<Rightarrow> string \<Rightarrow> TaskArtifactUpdateEvent" where
  "sample_chunk app aid text =
     \<lparr>aue_append = app, aue_artifact = sample_artifact aid text, aue_context_id = ''c'',
      aue_last_chunk = None, aue_metadata = None, aue_task_id = ''t''\<rparr>"

definition sample_task :: "Task" where
  "sample_task = \<lparr>task_artifacts = None, task_context_id = ''c'', task_history = None, task_id = ''t'',
     task_metadata = None, task_status = plain_status working\<rparr>"

lemmas sample_defs = sample_artifact_def sample_chunk_def sample_task_def build_text_artifact_def
  text_part_def plain_status_def

theorem artifact_assembly_witness:
  "parts_of (foldl append_artifact_to_task sample_task
       [sample_chunk None ''a'' ''x'', sample_chunk (Some True) ''b'' ''lost'', sample_chunk (Some True) ''a'' ''y'']) ''a''
     = Some [text_part ''x'', text_part ''y'']"
proof -
  have d: "distinct (artifact_ids sample_task)"
    by (simp add: artifact_ids_def artifact_list_def sample_defs)
  show ?thesis
    using artifact_assembly [OF d, of "[sample_chunk None ''a'' ''x'', sample_chunk (Some True) ''b'' ''lost'',
        sample_chunk (Some True) ''a'' ''y'']" "''a''"]
    by (simp add: assemble_def assemble_step_def sample_defs)
qed

text \<open>
  History truncation keeps a suffix of the history, of length
  \<open>min n (length of the history)\<close>, when the requested length is positive, leaves the task alone when no
  length, zero or a negative length is asked for, and never touches another field.
\<close>

theorem apply_history_length_suffix:
  "(case n of
      Some k \<Rightarrow>
        (if k > 0 \<and> truthy (task_history t)
         then \<exists>h. the (task_history t) = h @ the (task_history (apply_history_length t n)) \<and>
                  length (the (task_history (apply_history_length t n))) =
                    min (nat k) (length (the (task_history t)))
         else apply_history_length t n = t)
    | None \<Rightarrow> apply_history_length t n = t) \<and>
   apply_history_length t n = t\<lparr>task_history := task_history (apply_history_length t n)\<rparr>"
proof -
  have "\<exists>h. xs = h @ last_n k xs" for k and xs :: "Message list"
    unfolding last_n_def by (metis append_take_drop_id)
  then show ?thesis
    by (auto simp: apply_history_length_def split: option.splits)
qed

end
