(* ===== verification/TaskStore.thy ===== *)
theory TaskStore
  imports Utils
begin

section \<open>Task stores (server/tasks/task_store.py, inmemory_task_store.py, database_task_store.py)\<close>

text \<open>
  A \<open>Task\<close> is a mutable object: the task manager changes \<open>task.history\<close>, \<open>task.metadata\<close>
  and \<open>task.status\<close> of the object it holds, and the in-memory store keeps a reference to that
  same object, whereas the database store keeps a copy and builds a fresh object on every
  read. Task objects therefore live on an explicit heap (an address is an index), a store
  holds addresses or values, and the operations of a store are passed to its clients as a
  record of functions. Messages, artifacts and statuses inside a task are values.

  \<open>view w i\<close> is what a reader of the store would find under the id \<open>i\<close>. The locale
  \<open>task_store\<close> states what the clients rely on; it is interpreted for both stores.
\<close>

type_synonym addr = nat

record 'st store_state =
  heap :: "Task list"
  st :: 'st

record 'st store_ops =
  ts_get :: "string \<Rightarrow> 'st store_state \<Rightarrow> addr option \<times> 'st store_state"
  ts_save :: "addr \<Rightarrow> 'st store_state \<Rightarrow> 'st store_state"
  ts_delete :: "string \<Rightarrow> 'st store_state \<Rightarrow> 'st store_state"

definition obj :: "'st store_state \<Rightarrow> addr \<Rightarrow> Task" where
  "obj w r = heap w ! r"

definition set_obj :: "addr \<Rightarrow> Task \<Rightarrow> 'st store_state \<Rightarrow> 'st store_state" where
  "set_obj r t w = w\<lparr>heap := (heap w)[r := t]\<rparr>"

definition alloc :: "Task \<Rightarrow> 'st store_state \<Rightarrow> addr \<times> 'st store_state" where
  "alloc t w = (length (heap w), w\<lparr>heap := heap w @ [t]\<rparr>)"

definition live :: "'st store_state \<Rightarrow> addr \<Rightarrow> bool" where
  "live w r \<longleftrightarrow> r < length (heap w)"

lemma obj_set_obj [simp]: "live w r \<Longrightarrow> obj (set_obj r t w) r = t"
  by (simp add: obj_def set_obj_def live_def)

lemma live_set_obj [simp]: "live (set_obj r t w) r' = live w r'"
  by (simp add: live_def set_obj_def)

lemma st_set_obj [simp]: "st (set_obj r t w) = st w"
  by (simp add: set_obj_def)

lemma obj_st_update [simp]: "obj (w\<lparr>st := s\<rparr>) = obj w"
  by (simp add: obj_def fun_eq_iff)

lemma live_st_update [simp]: "live (w\<lparr>st := s\<rparr>) = live w"
  by (simp add: live_def fun_eq_iff)

lemma set_obj_same [simp]: "set_obj r (obj w r) w = w"
  by (simp add: set_obj_def obj_def)

subsection \<open>The interface\<close>

locale task_store =
  fixes ops :: "'st store_ops"
    and view :: "'st store_state \<Rightarrow> string \<Rightarrow> Task option"
    and inv :: "'st store_state \<Rightarrow> bool"
  assumes get_None: "inv w \<Longrightarrow> view w i = None \<Longrightarrow> ts_get ops i w = (None, w)"
    and get_Some: "inv w \<Longrightarrow> view w i = Some t \<Longrightarrow>
        \<exists>r w'. ts_get ops i w = (Some r, w') \<and> live w' r \<and> obj w' r = t \<and> view w' = view w \<and>
               inv w' \<and> (\<exists>ts. heap w' = heap w @ ts)"
    and save: "inv w \<Longrightarrow> live w r \<Longrightarrow>
        inv (ts_save ops r w) \<and> heap (ts_save ops r w) = heap w \<and>
        view (ts_save ops r w) = (view w)(task_id (obj w r) \<mapsto> obj w r)"
    and delete: "inv w \<Longrightarrow> inv (ts_delete ops i w) \<and> view (ts_delete ops i w) = (view w)(i := None)"
    and mutate: "inv w \<Longrightarrow> live w r \<Longrightarrow> task_id t = task_id (obj w r) \<Longrightarrow>
        inv (set_obj r t w) \<and> (\<forall>i. i \<noteq> task_id t \<longrightarrow> view (set_obj r t w) i = view w i)"
    and allocate: "inv w \<Longrightarrow> inv (snd (alloc t w)) \<and> view (snd (alloc t w)) = view w"
    and view_id: "inv w \<Longrightarrow> view w i = Some t \<Longrightarrow> task_id t = i"
begin

text \<open>Changing an object and saving it: the store holds the new value, nothing else changes.\<close>

lemma view_mutate_save:
  assumes "inv w" and "live w r" and "task_id t = task_id (obj w r)"
  shows "view (ts_save ops r (set_obj r t w)) = (view w)(task_id t \<mapsto> t)"
    and "inv (ts_save ops r (set_obj r t w))"
    and "heap (ts_save ops r (set_obj r t w)) = (heap w)[r := t]"
proof -
  from mutate [OF assms] have i: "inv (set_obj r t w)"
    and v: "\<And>i. i \<noteq> task_id t \<Longrightarrow> view (set_obj r t w) i = view w i" by auto
  from assms(2) have l: "live (set_obj r t w) r" by simp
  note s = save [OF i l]
  from s assms(2) v show "view (ts_save ops r (set_obj r t w)) = (view w)(task_id t \<mapsto> t)"
    by (auto simp: fun_eq_iff)
  from s show "inv (ts_save ops r (set_obj r t w))" by simp
  from s show "heap (ts_save ops r (set_obj r t w)) = (heap w)[r := t]"
    by (simp add: set_obj_def)
qed

text \<open>Allocating an object and saving it.\<close>

lemma view_alloc_save:
  assumes "inv w"
  shows "view (ts_save ops (length (heap w)) (snd (alloc t w))) = (view w)(task_id t \<mapsto> t)"
    and "inv (ts_save ops (length (heap w)) (snd (alloc t w)))"
    and "heap (ts_save ops (length (heap w)) (snd (alloc t w))) = heap w @ [t]"
proof -
  from allocate [OF assms, of t] have i: "inv (snd (alloc t w))" and v: "view (snd (alloc t w)) = view w"
    by auto
  have l: "live (snd (alloc t w)) (length (heap w))" by (simp add: alloc_def live_def)
  have o: "obj (snd (alloc t w)) (length (heap w)) = t" by (simp add: alloc_def obj_def)
  note s = save [OF i l]
  from s v o show "view (ts_save ops (length (heap w)) (snd (alloc t w))) = (view w)(task_id t \<mapsto> t)"
    by simp
  from s show "inv (ts_save ops (length (heap w)) (snd (alloc t w)))" by simp
  from s show "heap (ts_save ops (length (heap w)) (snd (alloc t w))) = heap w @ [t]"
    by (simp add: alloc_def)
qed

lemma get_view:
  assumes "inv w" and "ts_get ops i w = (res, w')"
  shows "view w' = view w" and "inv w'"
    and "(case res of None \<Rightarrow> view w i = None | Some r \<Rightarrow> live w' r \<and> view w i = Some (obj w' r))"
    and "\<exists>ts. heap w' = heap w @ ts"
proof -
  have "view w' = view w \<and> inv w' \<and>
      (case res of None \<Rightarrow> view w i = None | Some r \<Rightarrow> live w' r \<and> view w i = Some (obj w' r)) \<and>
      (\<exists>ts. heap w' = heap w @ ts)"
  proof (cases "view w i")
    case None
    with get_None [OF assms(1) None] assms show ?thesis by simp
  next
    case (Some t)
    with get_Some [OF assms(1) Some] assms(2) show ?thesis by auto
  qed
  then show "view w' = view w" and "inv w'"
    and "(case res of None \<Rightarrow> view w i = None | Some r \<Rightarrow> live w' r \<and> view w i = Some (obj w' r))"
    and "\<exists>ts. heap w' = heap w @ ts" by blast+
qed

end

subsection \<open>The in-memory store\<close>

text \<open>\<open>self.tasks: dict[str, Task]\<close>, a dictionary of references.\<close>

type_synonym mem_store = "string \<rightharpoonup> addr"

definition mem_init :: "mem_store store_state" where
  "mem_init = \<lparr>heap = [], st = Map.empty\<rparr>"

definition mem_save :: "addr \<Rightarrow> mem_store store_state \<Rightarrow> mem_store store_state" where
  "mem_save r w = w\<lparr>st := (st w)(task_id (obj w r) \<mapsto> r)\<rparr>"

definition mem_get :: "string \<Rightarrow> mem_store store_state \<Rightarrow> addr option \<times> mem_store store_state" where
  "mem_get i w = (st w i, w)"

definition mem_delete :: "string \<Rightarrow> mem_store store_state \<Rightarrow> mem_store store_state" where
  "mem_delete i w = (if i \<in> dom (st w) then w\<lparr>st := (st w)(i := None)\<rparr> else w)"

definition mem_ops :: "mem_store store_ops" where
  "mem_ops = \<lparr>ts_get = mem_get, ts_save = mem_save, ts_delete = mem_delete\<rparr>"

definition mem_view :: "mem_store store_state \<Rightarrow> string \<Rightarrow> Task option" where
  "mem_view w i = map_option (obj w) (st w i)"

definition mem_inv :: "mem_store store_state \<Rightarrow> bool" where
  "mem_inv w \<longleftrightarrow> (\<forall>i r. st w i = Some r \<longrightarrow> live w r \<and> task_id (obj w r) = i)"

lemmas mem_defs = mem_save_def mem_get_def mem_delete_def mem_ops_def mem_view_def mem_inv_def

lemma mem_inv_init [simp]: "mem_inv mem_init"
  by (simp add: mem_inv_def mem_init_def)

interpretation mem: task_store mem_ops mem_view mem_inv
proof unfold_locales
  show "mem_inv w \<Longrightarrow> mem_view w i = None \<Longrightarrow> ts_get mem_ops i w = (None, w)" for w i
    by (auto simp: mem_defs)
  show "mem_inv w \<Longrightarrow> mem_view w i = Some t \<Longrightarrow>
      \<exists>r w'. ts_get mem_ops i w = (Some r, w') \<and> live w' r \<and> obj w' r = t \<and>
             mem_view w' = mem_view w \<and> mem_inv w' \<and> (\<exists>ts. heap w' = heap w @ ts)" for w i t
    by (auto simp: mem_defs)
  show "mem_inv w \<Longrightarrow> live w r \<Longrightarrow>
      mem_inv (ts_save mem_ops r w) \<and> heap (ts_save mem_ops r w) = heap w \<and>
      mem_view (ts_save mem_ops r w) = (mem_view w)(task_id (obj w r) \<mapsto> obj w r)" for w r
    by (auto simp: mem_defs fun_eq_iff obj_def live_def)
  show "mem_inv w \<Longrightarrow> mem_inv (ts_delete mem_ops i w) \<and>
      mem_view (ts_delete mem_ops i w) = (mem_view w)(i := None)" for w i
    by (auto simp: mem_defs fun_eq_iff obj_def live_def dom_def)
  show "mem_inv w \<Longrightarrow> live w r \<Longrightarrow> task_id t = task_id (obj w r) \<Longrightarrow>
      mem_inv (set_obj r t w) \<and>
      (\<forall>i. i \<noteq> task_id t \<longrightarrow> mem_view (set_obj r t w) i = mem_view w i)" for w r t
    by (auto simp: mem_defs obj_def live_def set_obj_def nth_list_update intro!: option.map_cong)
  show "mem_inv w \<Longrightarrow> mem_inv (snd (alloc t w)) \<and> mem_view (snd (alloc t w)) = mem_view w" for w t
    by (auto simp: mem_defs fun_eq_iff obj_def live_def alloc_def nth_append
        intro!: option.map_cong less_SucI)
  show "mem_inv w \<Longrightarrow> mem_view w i = Some t \<Longrightarrow> task_id t = i" for w i t
    by (auto simp: mem_defs)
qed

subsection \<open>The database store\<close>

text \<open>
  One row per task. \<open>_to_orm\<close> and \<open>_from_orm\<close> copy the fields between the task and the
  columns (\<open>metadata\<close> is the column \<open>task_metadata\<close>); the columns' own JSON codecs are
  Pydantic's and SQLAlchemy's, and a column is modelled by the value it holds. \<open>session.merge\<close>
  inserts or replaces the row of the primary key.
\<close>

record TaskModel =
  tmod_id :: string
  tmod_context_id :: string
  tmod_status :: TaskStatus
  tmod_artifacts :: "Artifact list option"
  tmod_history :: "Message list option"
  tmod_task_metadata :: "pydict option"

type_synonym db_store = "string \<rightharpoonup> TaskModel"

definition to_orm :: "Task \<Rightarrow> TaskModel" where
  "to_orm t = \<lparr>tmod_id = task_id t, tmod_context_id = task_context_id t,
     tmod_status = task_status t, tmod_artifacts = task_artifacts t,
     tmod_history = task_history t, tmod_task_metadata = task_metadata t\<rparr>"

definition from_orm :: "TaskModel \<Rightarrow> Task" where
  "from_orm m = \<lparr>task_artifacts = tmod_artifacts m, task_context_id = tmod_context_id m,
     task_history = tmod_history m, task_id = tmod_id m, task_metadata = tmod_task_metadata m,
     task_status = tmod_status m\<rparr>"

lemma from_to_orm [simp]: "from_orm (to_orm t) = t"
  by (simp add: from_orm_def to_orm_def)

definition db_init :: "db_store store_state" where
  "db_init = \<lparr>heap = [], st = Map.empty\<rparr>"

definition db_save :: "addr \<Rightarrow> db_store store_state \<Rightarrow> db_store store_state" where
  "db_save r w = (let db_task = to_orm (obj w r) in w\<lparr>st := (st w)(tmod_id db_task \<mapsto> db_task)\<rparr>)"

definition db_get :: "string \<Rightarrow> db_store store_state \<Rightarrow> addr option \<times> db_store store_state" where
  "db_get i w =
     (case st w i of
        None \<Rightarrow> (None, w)
      | Some m \<Rightarrow> (let (r, w') = alloc (from_orm m) w in (Some r, w')))"

definition db_delete :: "string \<Rightarrow> db_store store_state \<Rightarrow> db_store store_state" where
  "db_delete i w = w\<lparr>st := (st w)(i := None)\<rparr>"

definition db_ops :: "db_store store_ops" where
  "db_ops = \<lparr>ts_get = db_get, ts_save = db_save, ts_delete = db_delete\<rparr>"

definition db_view :: "db_store store_state \<Rightarrow> string \<Rightarrow> Task option" where
  "db_view w i = map_option from_orm (st w i)"

definition db_inv :: "db_store store_state \<Rightarrow> bool" where
  "db_inv w \<longleftrightarrow> (\<forall>i m. st w i = Some m \<longrightarrow> tmod_id m = i)"

lemmas db_defs = db_save_def db_get_def db_delete_def db_ops_def db_view_def db_inv_def

lemma db_inv_init [simp]: "db_inv db_init"
  by (simp add: db_inv_def db_init_def)

interpretation db: task_store db_ops db_view db_inv
proof unfold_locales
  show "db_inv w \<Longrightarrow> db_view w i = None \<Longrightarrow> ts_get db_ops i w = (None, w)" for w i
    by (auto simp: db_defs)
  show "db_inv w \<Longrightarrow> db_view w i = Some t \<Longrightarrow>
      \<exists>r w'. ts_get db_ops i w = (Some r, w') \<and> live w' r \<and> obj w' r = t \<and>
             db_view w' = db_view w \<and> db_inv w' \<and> (\<exists>ts. heap w' = heap w @ ts)" for w i t
    by (auto simp: db_defs alloc_def live_def obj_def fun_eq_iff)
  show "db_inv w \<Longrightarrow> live w r \<Longrightarrow>
      db_inv (ts_save db_ops r w) \<and> heap (ts_save db_ops r w) = heap w \<and>
      db_view (ts_save db_ops r w) = (db_view w)(task_id (obj w r) \<mapsto> obj w r)" for w r
    by (auto simp: db_defs Let_def fun_eq_iff to_orm_def from_orm_def)
  show "db_inv w \<Longrightarrow> db_inv (ts_delete db_ops i w) \<and>
      db_view (ts_delete db_ops i w) = (db_view w)(i := None)" for w i
    by (auto simp: db_defs fun_eq_iff)
  show "db_inv w \<Longrightarrow> live w r \<Longrightarrow> task_id t = task_id (obj w r) \<Longrightarrow>
      db_inv (set_obj r t w) \<and>
      (\<forall>i. i \<noteq> task_id t \<longrightarrow> db_view (set_obj r t w) i = db_view w i)" for w r t
    by (auto simp: db_defs set_obj_def)
  show "db_inv w \<Longrightarrow> db_inv (snd (alloc t w)) \<and> db_view (snd (alloc t w)) = db_view w" for w t
    by (auto simp: db_defs alloc_def fun_eq_iff)
  show "db_inv w \<Longrightarrow> db_view w i = Some t \<Longrightarrow> task_id t = i" for w i t
    by (auto simp: db_defs from_orm_def)
qed

subsection \<open>Properties\<close>

text \<open>
  Aliasing of the two stores. Both return from \<open>get\<close> a task object equal to the
  stored one; an object got from the in-memory store is the stored object, so changing it in
  place changes what every later reader of the store sees, while an object got from the
  database store is a private copy and changing it leaves the store as it was.
\<close>

theorem get_then_mutate:
  assumes "mem_inv w" and "db_inv v" and "mem_view w i = Some t" and "db_view v i = Some t"
    and "task_id t' = i"
  shows "\<exists>r q v'. mem_get i w = (Some r, w) \<and> obj w r = t \<and>
           mem_view (set_obj r t' w) = (mem_view w)(i \<mapsto> t') \<and>
           db_get i v = (Some q, v') \<and> obj v' q = t \<and>
           db_view (set_obj q t' v') = db_view v"
proof -
  from assms(1,3) obtain r where r: "st w i = Some r" "obj w r = t" "live w r" "task_id t = i"
    by (auto simp: mem_defs)
  have "mem_view (set_obj r t' w) i = Some t'"
    using r by (simp add: mem_view_def)
  moreover have "mem_view (set_obj r t' w) j = mem_view w j" if "j \<noteq> i" for j
    using mem.mutate [OF assms(1) r(3), of t'] r assms(5) that by simp
  ultimately have m: "mem_view (set_obj r t' w) = (mem_view w)(i \<mapsto> t')"
    by (auto simp: fun_eq_iff)
  from db.get_Some [OF assms(2,4)] obtain q v' where
    q: "db_get i v = (Some q, v')" "obj v' q = t" "db_view v' = db_view v"
    by (auto simp: db_ops_def)
  have "db_view (set_obj q t' v') = db_view v"
    using q(3) by (simp add: db_view_def fun_eq_iff)
  with m q r show ?thesis by (auto simp: mem_get_def)
qed

definition sample_mem :: "mem_store store_state" where
  "sample_mem = \<lparr>heap = [sample_task], st = [''t'' \<mapsto> 0]\<rparr>"

definition sample_db :: "db_store store_state" where
  "sample_db = \<lparr>heap = [], st = [''t'' \<mapsto> to_orm sample_task]\<rparr>"

lemma sample_stores [simp]:
  "mem_inv sample_mem" "db_inv sample_db"
  "mem_view sample_mem ''t'' = Some sample_task" "db_view sample_db ''t'' = Some sample_task"
  by (auto simp: sample_mem_def sample_db_def mem_defs db_defs live_def obj_def sample_task_def to_orm_def
      from_orm_def split: if_splits)

theorem get_then_mutate_witness:
  "\<exists>r q v'. mem_get ''t'' sample_mem = (Some r, sample_mem) \<and> obj sample_mem r = sample_task \<and>
     mem_view (set_obj r (sample_task\<lparr>task_metadata := Some []\<rparr>) sample_mem) =
       (mem_view sample_mem)(''t'' \<mapsto> sample_task\<lparr>task_metadata := Some []\<rparr>) \<and>
     db_get ''t'' sample_db = (Some q, v') \<and> obj v' q = sample_task \<and>
     db_view (set_obj q (sample_task\<lparr>task_metadata := Some []\<rparr>) v') = db_view sample_db"
  by (rule get_then_mutate) (simp_all add: sample_task_def)

end
