(* ===== verification/TaskManager.thy ===== *)
theory TaskManager
  imports TaskStore
begin

section \<open>The task manager (server/tasks/task_manager.py)\<close>

text \<open>
  A \<open>TaskManager\<close> turns the events of one task into updates of the stored task. Its state
  is the record below; \<open>_current_task\<close> is a reference to a task object on the heap. Every
  method takes the store it was constructed with (a record of operations), its own state and
  the world, and returns the new ones; a raised exception keeps the assignments made before
  it. The call context is not modelled: both stores ignore it.

  \<open>apply_task_event\<close> is the specification: what one event makes of the stored task. The
  lemmas show, for any store that satisfies the interface \<open>task_store\<close>, that
  \<open>save_task_event\<close> implements it.
\<close>

record TaskManager =
  tm_task_id :: "string option"
  tm_context_id :: "string option"
  tm_initial_message :: "Message option"
  tm_current_task :: "addr option"

definition tm_init :: "string option \<Rightarrow> string option \<Rightarrow> Message option \<Rightarrow> exn + TaskManager" where
  "tm_init tid ctx initial_message =
     (if tid \<noteq> None \<and> \<not> truthy tid
      then Inl (ValueErr ''Task ID must be a non-empty string'')
      else Inr \<lparr>tm_task_id = tid, tm_context_id = ctx, tm_initial_message = initial_message,
                tm_current_task = None\<rparr>)"

definition tm_get_task ::
  "'st store_ops \<Rightarrow> TaskManager \<Rightarrow> 'st store_state \<Rightarrow> addr option \<times> TaskManager \<times> 'st store_state" where
  "tm_get_task ops tm w =
     (if \<not> truthy (tm_task_id tm) then (None, tm, w)
      else (case tm_current_task tm of
              Some r \<Rightarrow> (Some r, tm, w)
            | None \<Rightarrow>
                (let (r, w') = ts_get ops (the (tm_task_id tm)) w
                 in (r, tm\<lparr>tm_current_task := r\<rparr>, w'))))"

definition init_task_obj :: "Message option \<Rightarrow> string \<Rightarrow> string \<Rightarrow> Task" where
  "init_task_obj initial_message tid ctx =
     \<lparr>task_artifacts = None, task_context_id = ctx,
      task_history = Some (case initial_message of Some m \<Rightarrow> [m] | None \<Rightarrow> []),
      task_id = tid, task_metadata = None, task_status = plain_status submitted\<rparr>"

definition save_task ::
  "'st store_ops \<Rightarrow> addr \<Rightarrow> TaskManager \<Rightarrow> 'st store_state \<Rightarrow> TaskManager \<times> 'st store_state" where
  "save_task ops r tm w =
     (let w' = ts_save ops r w;
          tm1 = tm\<lparr>tm_current_task := Some r\<rparr>;
          tm2 = (if \<not> truthy (tm_task_id tm1)
                 then tm1\<lparr>tm_task_id := Some (task_id (obj w r)),
                          tm_context_id := Some (task_context_id (obj w r))\<rparr>
                 else tm1)
      in (tm2, w'))"

definition ensure_task ::
  "'st store_ops \<Rightarrow> TaskEvent \<Rightarrow> TaskManager \<Rightarrow> 'st store_state \<Rightarrow> addr \<times> TaskManager \<times> 'st store_state" where
  "ensure_task ops event tm w =
     (let (task, w1) =
            (case tm_current_task tm of
               Some r \<Rightarrow> (Some r, w)
             | None \<Rightarrow> if truthy (tm_task_id tm) then ts_get ops (the (tm_task_id tm)) w else (None, w))
      in case task of
           Some r \<Rightarrow> (r, tm, w1)
         | None \<Rightarrow>
             (let (r, w2) = alloc (init_task_obj (tm_initial_message tm) (te_task_id event)
                                     (te_context_id event)) w1;
                  (tm', w3) = save_task ops r tm w2
              in (r, tm', w3)))"

text \<open>\<open>task.history = [m]\<close> when there is none, \<open>task.history.append(m)\<close> otherwise.\<close>

definition push_history :: "Message \<Rightarrow> Task \<Rightarrow> Task" where
  "push_history m t = t\<lparr>task_history := Some (or_else (task_history t) [] @ [m])\<rparr>"

definition merge_metadata :: "pydict option \<Rightarrow> Task \<Rightarrow> Task" where
  "merge_metadata md t =
     (if truthy md
      then t\<lparr>task_metadata := Some (dict_update (or_else (task_metadata t) []) (the md))\<rparr>
      else t)"

text \<open>The status branch of \<open>save_task_event\<close>: the old status message moves to the history.\<close>

definition apply_status_update :: "Task \<Rightarrow> TaskStatusUpdateEvent \<Rightarrow> Task" where
  "apply_status_update task event =
     (let t1 = (case status_message (task_status task) of
                  Some m \<Rightarrow> push_history m task | None \<Rightarrow> task);
          t2 = merge_metadata (sue_metadata event) t1
      in t2\<lparr>task_status := sue_status event\<rparr>)"

definition tm_id_mismatch :: "string \<Rightarrow> string \<Rightarrow> exn" where
  "tm_id_mismatch own other = raise_server (InvalidParamsError\<lparr>err_message :=
     Some (''Task in event doesn'' @ [CHR 0x27] @ ''t match TaskManager '' @ own @ '' : '' @ other)\<rparr>)"

definition tm_context_mismatch :: "string \<Rightarrow> string \<Rightarrow> exn" where
  "tm_context_mismatch own other = raise_server (InvalidParamsError\<lparr>err_message :=
     Some (''Context in event doesn'' @ [CHR 0x27] @ ''t match TaskManager '' @ own @ '' : '' @ other)\<rparr>)"

definition save_task_event ::
  "'st store_ops \<Rightarrow> TaskEvent \<Rightarrow> TaskManager \<Rightarrow> 'st store_state \<Rightarrow>
   (exn + addr) \<times> TaskManager \<times> 'st store_state" where
  "save_task_event ops event tm w =
     (let tid = te_task_id event; ctx = te_context_id event in
      if truthy (tm_task_id tm) \<and> tm_task_id tm \<noteq> Some tid
      then (Inl (tm_id_mismatch (the (tm_task_id tm)) tid), tm, w)
      else
        let tm1 = (if \<not> truthy (tm_task_id tm) then tm\<lparr>tm_task_id := Some tid\<rparr> else tm) in
        if truthy (tm_context_id tm1) \<and> tm_context_id tm1 \<noteq> Some ctx
        then (Inl (tm_context_mismatch (the (tm_context_id tm1)) ctx), tm1, w)
        else
          let tm2 = (if \<not> truthy (tm_context_id tm1) then tm1\<lparr>tm_context_id := Some ctx\<rparr> else tm1) in
          case event of
            TE_Task t \<Rightarrow>
              (let (r, w1) = alloc t w; (tm3, w2) = save_task ops r tm2 w1 in (Inr r, tm3, w2))
          | TE_Status e \<Rightarrow>
              (let (r, tm3, w1) = ensure_task ops event tm2 w;
                   w2 = set_obj r (apply_status_update (obj w1 r) e) w1;
                   (tm4, w3) = save_task ops r tm3 w2
               in (Inr r, tm4, w3))
          | TE_Artifact e \<Rightarrow>
              (let (r, tm3, w1) = ensure_task ops event tm2 w;
                   w2 = set_obj r (append_artifact_to_task (obj w1 r) e) w1;
                   (tm4, w3) = save_task ops r tm3 w2
               in (Inr r, tm4, w3)))"

definition tm_process ::
  "'st store_ops \<Rightarrow> Event \<Rightarrow> TaskManager \<Rightarrow> 'st store_state \<Rightarrow>
   (exn + Event) \<times> TaskManager \<times> 'st store_state" where
  "tm_process ops event tm w =
     (case as_task_event event of
        None \<Rightarrow> (Inr event, tm, w)
      | Some te \<Rightarrow>
          (case save_task_event ops te tm w of
             (Inl e, tm', w') \<Rightarrow> (Inl e, tm', w')
           | (Inr r, tm', w') \<Rightarrow> (Inr event, tm', w')))"

text \<open>\<open>update_with_message\<close> changes the object in place and does not save it.\<close>

definition task_with_message :: "Message \<Rightarrow> Task \<Rightarrow> Task" where
  "task_with_message message task =
     (let t1 = (case status_message (task_status task) of
                  Some m \<Rightarrow> (push_history m task)\<lparr>task_status := (task_status task)\<lparr>status_message := None\<rparr>\<rparr>
                | None \<Rightarrow> task)
      in push_history message t1)"

definition update_with_message ::
  "Message \<Rightarrow> addr \<Rightarrow> TaskManager \<Rightarrow> 'st store_state \<Rightarrow> addr \<times> TaskManager \<times> 'st store_state" where
  "update_with_message message r tm w =
     (r, tm\<lparr>tm_current_task := Some r\<rparr>, set_obj r (task_with_message message (obj w r)) w)"

text \<open>The events of a stream, one after the other, until one is refused.\<close>

fun tm_process_all ::
  "'st store_ops \<Rightarrow> Event list \<Rightarrow> TaskManager \<Rightarrow> 'st store_state \<Rightarrow>
   (exn + unit) \<times> TaskManager \<times> 'st store_state" where
  "tm_process_all ops [] tm w = (Inr (), tm, w)"
| "tm_process_all ops (ev # evs) tm w =
     (case tm_process ops ev tm w of
        (Inl e, tm', w') \<Rightarrow> (Inl e, tm', w')
      | (Inr _, tm', w') \<Rightarrow> tm_process_all ops evs tm' w')"

subsection \<open>Specification\<close>

fun apply_task_event :: "Message option \<Rightarrow> Task option \<Rightarrow> TaskEvent \<Rightarrow> Task" where
  "apply_task_event msg prev (TE_Task t) = t"
| "apply_task_event msg prev (TE_Status e) =
     apply_status_update
       (case prev of Some t \<Rightarrow> t | None \<Rightarrow> init_task_obj msg (sue_task_id e) (sue_context_id e)) e"
| "apply_task_event msg prev (TE_Artifact e) =
     append_artifact_to_task
       (case prev of Some t \<Rightarrow> t | None \<Rightarrow> init_task_obj msg (aue_task_id e) (aue_context_id e)) e"

text \<open>The in-memory task of the manager is the stored one.\<close>

definition tm_synced ::
  "('st store_state \<Rightarrow> string \<Rightarrow> Task option) \<Rightarrow> TaskManager \<Rightarrow> 'st store_state \<Rightarrow> bool" where
  "tm_synced view tm w \<longleftrightarrow>
     (case tm_current_task tm of
        None \<Rightarrow> True
      | Some r \<Rightarrow> live w r \<and> task_id (obj w r) \<noteq> [] \<and> tm_task_id tm = Some (task_id (obj w r)) \<and>
                  view w (task_id (obj w r)) = Some (obj w r))"

definition tm_accepts :: "TaskManager \<Rightarrow> TaskEvent \<Rightarrow> bool" where
  "tm_accepts tm ev \<longleftrightarrow>
     (truthy (tm_task_id tm) \<longrightarrow> tm_task_id tm = Some (te_task_id ev)) \<and>
     (truthy (tm_context_id tm) \<longrightarrow> tm_context_id tm = Some (te_context_id ev))"

text \<open>An event that belongs to the given task and context, or is a message.\<close>

definition stream_of :: "string \<Rightarrow> string \<Rightarrow> Event \<Rightarrow> bool" where
  "stream_of tid ctx ev \<longleftrightarrow>
     (case as_task_event ev of None \<Rightarrow> True | Some te \<Rightarrow> te_task_id te = tid \<and> te_context_id te = ctx)"

subsection \<open>Lemmas\<close>

lemma init_task_obj_simps [simp]:
  "task_id (init_task_obj m i c) = i"
  "task_context_id (init_task_obj m i c) = c"
  "task_artifacts (init_task_obj m i c) = None"
  "task_history (init_task_obj m i c) = Some (case m of Some x \<Rightarrow> [x] | None \<Rightarrow> [])"
  "task_metadata (init_task_obj m i c) = None"
  "task_status (init_task_obj m i c) = plain_status submitted"
  by (simp_all add: init_task_obj_def)

lemma push_history_simps [simp]:
  "task_id (push_history m t) = task_id t"
  "task_context_id (push_history m t) = task_context_id t"
  "task_artifacts (push_history m t) = task_artifacts t"
  "task_metadata (push_history m t) = task_metadata t"
  "task_status (push_history m t) = task_status t"
  "task_history (push_history m t) = Some (or_else (task_history t) [] @ [m])"
  by (simp_all add: push_history_def)

lemma merge_metadata_simps [simp]:
  "task_id (merge_metadata md t) = task_id t"
  "task_context_id (merge_metadata md t) = task_context_id t"
  "task_artifacts (merge_metadata md t) = task_artifacts t"
  "task_history (merge_metadata md t) = task_history t"
  "task_status (merge_metadata md t) = task_status t"
  by (simp_all add: merge_metadata_def)

lemma apply_status_update_simps [simp]:
  "task_id (apply_status_update t e) = task_id t"
  "task_context_id (apply_status_update t e) = task_context_id t"
  "task_artifacts (apply_status_update t e) = task_artifacts t"
  "task_status (apply_status_update t e) = sue_status e"
  by (simp_all add: apply_status_update_def Let_def split: option.split)

lemma task_with_message_simps [simp]:
  "task_id (task_with_message m t) = task_id t"
  "task_context_id (task_with_message m t) = task_context_id t"
  "task_artifacts (task_with_message m t) = task_artifacts t"
  "task_metadata (task_with_message m t) = task_metadata t"
  by (simp_all add: task_with_message_def Let_def split: option.split)

lemma task_id_apply_task_event:
  "(\<And>t. prev = Some t \<Longrightarrow> task_id t = te_task_id ev) \<Longrightarrow>
   task_id (apply_task_event msg prev ev) = te_task_id ev"
  by (cases ev) (auto split: option.splits)

lemma apply_task_event_base:
  "apply_task_event msg prev ev =
     (let base = (case prev of Some t \<Rightarrow> t | None \<Rightarrow> init_task_obj msg (te_task_id ev) (te_context_id ev))
      in case ev of TE_Task t \<Rightarrow> t | TE_Status e \<Rightarrow> apply_status_update base e
                  | TE_Artifact e \<Rightarrow> append_artifact_to_task base e)"
  by (cases ev) (auto simp: Let_def split: option.split)

lemma tm_synced_init: "tm_init tid ctx m = Inr tm \<Longrightarrow> tm_synced view tm w"
  by (auto simp: tm_init_def tm_synced_def split: if_splits)

text \<open>A refused event changes neither the store nor the heap.\<close>

lemma save_task_event_refused:
  "\<not> tm_accepts tm ev \<Longrightarrow>
   \<exists>e tm'. save_task_event ops ev tm w = (Inl (raise_server e), tm', w) \<and>
           err_kind e = K_InvalidParamsError \<and> tm_current_task tm' = tm_current_task tm"
  by (cases "truthy (tm_task_id tm)"; cases "truthy (tm_context_id tm)")
    (auto simp: tm_accepts_def save_task_event_def Let_def tm_id_mismatch_def
      tm_context_mismatch_def)

lemma save_task_id [simp]:
  "save_task ops r tm w =
     ((if truthy (tm_task_id tm) then tm\<lparr>tm_current_task := Some r\<rparr>
       else tm\<lparr>tm_current_task := Some r, tm_task_id := Some (task_id (obj w r)),
               tm_context_id := Some (task_context_id (obj w r))\<rparr>), ts_save ops r w)"
  by (simp add: save_task_def Let_def)

lemma append_artifact_task_id: "task_id (append_artifact_to_task t e) = task_id t"
  by simp

text \<open>The manager after the identifiers of an accepted event have been adopted.\<close>

definition tm_adopt :: "TaskEvent \<Rightarrow> TaskManager \<Rightarrow> TaskManager" where
  "tm_adopt ev tm =
     tm\<lparr>tm_task_id := (if truthy (tm_task_id tm) then tm_task_id tm else Some (te_task_id ev)),
        tm_context_id := (if truthy (tm_context_id tm) then tm_context_id tm else Some (te_context_id ev))\<rparr>"

lemma tm_adopt_simps:
  "tm_accepts tm ev \<Longrightarrow> tm_task_id (tm_adopt ev tm) = Some (te_task_id ev)"
  "tm_context_id (tm_adopt ev tm) =
     Some (if truthy (tm_context_id tm) then the (tm_context_id tm) else te_context_id ev)"
  "tm_initial_message (tm_adopt ev tm) = tm_initial_message tm"
  "tm_current_task (tm_adopt ev tm) = tm_current_task tm"
  by (auto simp: tm_adopt_def tm_accepts_def truthy_iff)

lemma save_task_event_accepts:
  assumes "tm_accepts tm ev"
  shows "save_task_event ops ev tm w =
     (case ev of
        TE_Task t \<Rightarrow>
          (let (r, w1) = alloc t w; (tm3, w2) = save_task ops r (tm_adopt ev tm) w1 in (Inr r, tm3, w2))
      | TE_Status e \<Rightarrow>
          (let (r, tm3, w1) = ensure_task ops ev (tm_adopt ev tm) w;
               w2 = set_obj r (apply_status_update (obj w1 r) e) w1;
               (tm4, w3) = save_task ops r tm3 w2 in (Inr r, tm4, w3))
      | TE_Artifact e \<Rightarrow>
          (let (r, tm3, w1) = ensure_task ops ev (tm_adopt ev tm) w;
               w2 = set_obj r (append_artifact_to_task (obj w1 r) e) w1;
               (tm4, w3) = save_task ops r tm3 w2 in (Inr r, tm4, w3)))"
  using assms
  by (cases tm; cases ev; cases "truthy (tm_task_id tm)"; cases "truthy (tm_context_id tm)")
    (simp_all add: save_task_event_def tm_accepts_def tm_adopt_def Let_def del: save_task_id)

context task_store
begin

lemma ensure_task_spec:
  assumes i: "inv w" and s: "tm_synced view tm w" and ne: "te_task_id ev \<noteq> []"
    and tid: "tm_task_id tm = Some (te_task_id ev)"
    and e: "ensure_task ops ev tm w = (r, tm', w')"
  shows "inv w'" and "live w' r"
    and "obj w' r = (case view w (te_task_id ev) of Some t \<Rightarrow> t
           | None \<Rightarrow> init_task_obj (tm_initial_message tm) (te_task_id ev) (te_context_id ev))"
    and "task_id (obj w' r) = te_task_id ev"
    and "\<forall>i. i \<noteq> te_task_id ev \<longrightarrow> view w' i = view w i"
    and "tm' = tm \<or> tm' = tm\<lparr>tm_current_task := Some r\<rparr>"
proof -
  have "inv w' \<and> live w' r \<and>
     obj w' r = (case view w (te_task_id ev) of Some t \<Rightarrow> t
        | None \<Rightarrow> init_task_obj (tm_initial_message tm) (te_task_id ev) (te_context_id ev)) \<and>
     task_id (obj w' r) = te_task_id ev \<and> (\<forall>i. i \<noteq> te_task_id ev \<longrightarrow> view w' i = view w i) \<and>
     (tm' = tm \<or> tm' = tm\<lparr>tm_current_task := Some r\<rparr>)"
  proof (cases "tm_current_task tm")
    case (Some q)
    with e s i tid ne show ?thesis by (auto simp: ensure_task_def tm_synced_def)
  next
    case None
    show ?thesis
    proof (cases "view w (te_task_id ev)")
      case (Some t)
      from get_Some [OF i Some] view_id [OF i Some] e tid ne None Some
      show ?thesis by (auto simp: ensure_task_def)
    next
      case N: None
      let ?t = "init_task_obj (tm_initial_message tm) (te_task_id ev) (te_context_id ev)"
      from get_None [OF i N] e tid ne None
      have eq: "r = length (heap w)" "w' = ts_save ops r (snd (alloc ?t w))"
        "tm' = tm\<lparr>tm_current_task := Some r\<rparr>"
        by (auto simp: ensure_task_def Let_def alloc_def)
      from view_alloc_save [OF i, of ?t] eq N show ?thesis
        by (auto simp: live_def obj_def nth_append)
    qed
  qed
  then show "inv w'" and "live w' r"
    and "obj w' r = (case view w (te_task_id ev) of Some t \<Rightarrow> t
           | None \<Rightarrow> init_task_obj (tm_initial_message tm) (te_task_id ev) (te_context_id ev))"
    and "task_id (obj w' r) = te_task_id ev"
    and "\<forall>i. i \<noteq> te_task_id ev \<longrightarrow> view w' i = view w i"
    and "tm' = tm \<or> tm' = tm\<lparr>tm_current_task := Some r\<rparr>" by blast+
qed

text \<open>The store after an accepted event: one entry changed, to what the specification says.\<close>

lemma mutate_save_synced:
  assumes "inv w" and "live w r" and "task_id t = task_id (obj w r)" and "task_id t \<noteq> []"
    and "tm_task_id tm = Some (task_id t)" and "tm_current_task tm = Some r"
  shows "tm_synced view tm (ts_save ops r (set_obj r t w))"
  using view_mutate_save [OF assms(1-3)] assms
  by (simp add: tm_synced_def live_def obj_def)

definition saved_as :: "TaskManager \<Rightarrow> 'st store_state \<Rightarrow> TaskEvent \<Rightarrow> TaskManager \<Rightarrow> 'st store_state \<Rightarrow> bool" where
  "saved_as tm w ev tm' w' \<longleftrightarrow>
     inv w' \<and> tm_synced view tm' w' \<and>
     view w' = (view w)(te_task_id ev \<mapsto>
        apply_task_event (tm_initial_message tm) (view w (te_task_id ev)) ev) \<and>
     tm_task_id tm' = Some (te_task_id ev) \<and>
     tm_context_id tm' = Some (if truthy (tm_context_id tm) then the (tm_context_id tm) else te_context_id ev) \<and>
     tm_initial_message tm' = tm_initial_message tm"

lemma save_task_event_accepted:
  assumes i: "inv w" and s: "tm_synced view tm w" and ne: "te_task_id ev \<noteq> []"
    and acc: "tm_accepts tm ev"
  shows "\<exists>r tm' w'. save_task_event ops ev tm w = (Inr r, tm', w') \<and> saved_as tm w ev tm' w'"
proof -
  let ?tid = "te_task_id ev"
  let ?tm2 = "tm_adopt ev tm"
  note tid2 = tm_adopt_simps(1) [OF acc] and im2 = tm_adopt_simps(3) [of ev tm]
    and cx2 = tm_adopt_simps(2) [of ev tm] and un = save_task_event_accepts [OF acc]
  have s2: "tm_synced view ?tm2 w"
    using s acc by (simp add: tm_synced_def tm_accepts_def tm_adopt_simps split: option.splits)
  show ?thesis
  proof (cases "\<exists>t. ev = TE_Task t")
    case True
    then obtain t where ev: "ev = TE_Task t" by blast
    let ?w' = "ts_save ops (length (heap w)) (snd (alloc t w))"
    let ?tm' = "?tm2\<lparr>tm_current_task := Some (length (heap w))\<rparr>"
    have eq: "save_task_event ops ev tm w = (Inr (length (heap w)), ?tm', ?w')"
      using tid2 ne ev unfolding un by (simp add: Let_def alloc_def split del: if_split)
    have "saved_as tm w ev ?tm' ?w'"
      using view_alloc_save [OF i, of t] ne ev tid2 im2 cx2
      by (simp add: saved_as_def tm_synced_def live_def obj_def)
    with eq show ?thesis by blast
  next
    case False
    obtain r tm3 w1 where e: "ensure_task ops ev ?tm2 w = (r, tm3, w1)" by (cases "ensure_task ops ev ?tm2 w")
    note es = ensure_task_spec [OF i s2 ne tid2 e]
    let ?t = "apply_task_event (tm_initial_message tm) (view w ?tid) ev"
    have t: "?t = (case ev of TE_Task t \<Rightarrow> t | TE_Status e \<Rightarrow> apply_status_update (obj w1 r) e
                  | TE_Artifact e \<Rightarrow> append_artifact_to_task (obj w1 r) e)"
      unfolding apply_task_event_base es(3) im2 Let_def by (rule refl)
    have idt: "task_id ?t = task_id (obj w1 r)"
      using False t by (cases ev) auto
    have tm3: "tm_task_id tm3 = Some ?tid" "tm_context_id tm3 = tm_context_id ?tm2"
      "tm_initial_message tm3 = tm_initial_message tm"
      using es(6) tid2 im2 by auto
    let ?w' = "ts_save ops r (set_obj r ?t w1)"
    let ?tm' = "tm3\<lparr>tm_current_task := Some r\<rparr>"
    have eq: "save_task_event ops ev tm w = (Inr r, ?tm', ?w')"
      using False e t tm3 ne unfolding un by (cases ev) (simp_all add: Let_def)
    note ms = view_mutate_save [OF es(1) es(2) idt]
    have v: "view ?w' = (view w)(?tid \<mapsto> ?t)"
      using ms(1) idt es(4,5) by (auto simp: fun_eq_iff)
    have "tm_synced view ?tm' ?w'"
      using idt es(4) ne tm3 by (intro mutate_save_synced [OF es(1) es(2) idt]) simp_all
    with ms v tm3 cx2 have "saved_as tm w ev ?tm' ?w'"
      by (simp add: saved_as_def)
    with eq show ?thesis by blast
  qed
qed

text \<open>A whole stream.\<close>

lemma tm_process_refused:
  "as_task_event ev = Some te \<Longrightarrow> \<not> tm_accepts tm te \<Longrightarrow>
   \<exists>e tm'. tm_process ops ev tm w = (Inl (raise_server e), tm', w)"
  using save_task_event_refused [of tm te ops w] by (auto simp: tm_process_def)

lemma tm_process_accepted:
  assumes "inv w" and "tm_synced view tm w" and "as_task_event ev = Some te"
    and "te_task_id te \<noteq> []" and "tm_accepts tm te"
  shows "\<exists>tm' w'. tm_process ops ev tm w = (Inr ev, tm', w') \<and> saved_as tm w te tm' w'"
  using save_task_event_accepted [OF assms(1,2,4,5)] assms(3) by (auto simp: tm_process_def)

lemma tm_process_all_spec:
  assumes "inv w" and "tm_synced view tm w" and "tid \<noteq> []"
    and "tm_task_id tm = Some tid" and "truthy (tm_context_id tm) \<longrightarrow> tm_context_id tm = Some ctx"
    and "\<forall>ev \<in> set evs. stream_of tid ctx ev"
  shows "\<exists>tm' w'. tm_process_all ops evs tm w = (Inr (), tm', w') \<and> inv w' \<and> tm_synced view tm' w' \<and>
      tm_task_id tm' = Some tid \<and>
      view w' = (view w)(tid := foldl (\<lambda>p te. Some (apply_task_event (tm_initial_message tm) p te))
                                   (view w tid) (List.map_filter as_task_event evs))"
  using assms
proof (induction evs arbitrary: tm w)
  case Nil
  then show ?case by (auto simp: map_filter_simps)
next
  case (Cons ev evs)
  show ?case
  proof (cases "as_task_event ev")
    case None
    with Cons show ?thesis by (simp add: tm_process_def map_filter_simps)
  next
    case (Some te)
    with Cons.prems(6) have te: "te_task_id te = tid" "te_context_id te = ctx"
      by (auto simp: stream_of_def)
    with Cons.prems have "tm_accepts tm te" "te_task_id te \<noteq> []"
      by (auto simp: tm_accepts_def)
    with tm_process_accepted [OF Cons.prems(1,2) Some] obtain tm1 w1 where
      p: "tm_process ops ev tm w = (Inr ev, tm1, w1)" and sv: "saved_as tm w te tm1 w1" by blast
    have prems1: "inv w1" "tm_synced view tm1 w1" "tid \<noteq> []" "tm_task_id tm1 = Some tid"
      "truthy (tm_context_id tm1) \<longrightarrow> tm_context_id tm1 = Some ctx"
      "\<forall>ev \<in> set evs. stream_of tid ctx ev"
      using sv te Cons.prems by (auto simp: saved_as_def)
    have msg: "tm_initial_message tm1 = tm_initial_message tm"
      and v1: "view w1 = (view w)(tid \<mapsto> apply_task_event (tm_initial_message tm) (view w tid) te)"
      using sv te by (simp_all add: saved_as_def)
    from Cons.IH [OF prems1] p Some msg v1 show ?thesis
      by (simp add: map_filter_simps cong: if_cong)
  qed
qed

end

subsection \<open>Properties\<close>

text \<open>
  Claim C3. A task manager created for a task id turns any stream of events of that task into
  exactly the stored task that the specification \<open>apply_task_event\<close> computes by folding over
  the stream: every event is accepted, no other task of the store changes, and the in-memory
  and the database store end with the same result.
\<close>

theorem task_stream_both_stores:
  assumes "tm_init (Some tid) ctx msg = Inr tm" and "truthy ctx \<longrightarrow> ctx = Some c"
    and "\<forall>ev \<in> set evs. stream_of tid c ev" and "mem_inv w" and "db_inv v"
  shows "(\<exists>tm' w'. tm_process_all mem_ops evs tm w = (Inr (), tm', w') \<and> mem_inv w' \<and>
            mem_view w' = (mem_view w)(tid := foldl (\<lambda>p te. Some (apply_task_event msg p te))
                             (mem_view w tid) (List.map_filter as_task_event evs))) \<and>
         (\<exists>tm' v'. tm_process_all db_ops evs tm v = (Inr (), tm', v') \<and> db_inv v' \<and>
            db_view v' = (db_view v)(tid := foldl (\<lambda>p te. Some (apply_task_event msg p te))
                             (db_view v tid) (List.map_filter as_task_event evs)))"
proof -
  from assms(1) have tm: "tid \<noteq> []" "tm_task_id tm = Some tid" "tm_context_id tm = ctx"
    "tm_initial_message tm = msg" "tm_synced mem_view tm w" "tm_synced db_view tm v"
    by (auto simp: tm_init_def tm_synced_def split: if_splits)
  have c: "truthy (tm_context_id tm) \<longrightarrow> tm_context_id tm = Some c"
    using assms(2) tm by simp
  from mem.tm_process_all_spec [OF assms(4) tm(5,1,2) c assms(3)]
    db.tm_process_all_spec [OF assms(5) tm(6,1,2) c assms(3)] tm(4)
  show ?thesis by blast
qed

definition sample_status :: "TaskState \<Rightarrow> Message option \<Rightarrow> TaskStatusUpdateEvent" where
  "sample_status state m = \<lparr>sue_context_id = ''c'', sue_final = False, sue_metadata = None,
     sue_status = \<lparr>status_message = m, status_state = state, status_timestamp = None\<rparr>, sue_task_id = ''t''\<rparr>"

definition sample_manager :: TaskManager where
  "sample_manager = \<lparr>tm_task_id = Some ''t'', tm_context_id = None, tm_initial_message = None,
     tm_current_task = None\<rparr>"

theorem task_stream_both_stores_witness:
  "(\<exists>tm' w'. tm_process_all mem_ops [EvStatus (sample_status working None), EvArtifact (sample_chunk None ''a'' ''x'')]
       sample_manager mem_init = (Inr (), tm', w') \<and> mem_inv w' \<and>
     mem_view w' = [''t'' \<mapsto> append_artifact_to_task
       (apply_status_update (init_task_obj None ''t'' ''c'') (sample_status working None)) (sample_chunk None ''a'' ''x'')])"
proof -
  have i: "tm_init (Some ''t'') None None = Inr sample_manager"
    by (simp add: tm_init_def sample_manager_def)
  have v: "mem_view mem_init = Map.empty"
    by (simp add: mem_view_def mem_init_def fun_eq_iff)
  show ?thesis
    using task_stream_both_stores [OF i, of "''c''"
        "[EvStatus (sample_status working None), EvArtifact (sample_chunk None ''a'' ''x'')]" mem_init db_init]
    by (simp add: stream_of_def sample_status_def sample_chunk_def map_filter_simps v)
qed

text \<open>
  An event whose task id or context id differs from the one the manager is bound to
  is refused with an InvalidParamsError, whatever the store: the store, the task objects and
  the manager's current task are left exactly as they were.
\<close>

theorem foreign_event_refused:
  assumes "as_task_event ev = Some te"
    and "(truthy (tm_task_id tm) \<and> tm_task_id tm \<noteq> Some (te_task_id te)) \<or>
         (truthy (tm_context_id tm) \<and> tm_context_id tm \<noteq> Some (te_context_id te))"
  shows "\<exists>e tm'. tm_process ops ev tm w = (Inl (raise_server e), tm', w) \<and>
           err_kind e = K_InvalidParamsError \<and> tm_current_task tm' = tm_current_task tm"
proof -
  have "\<not> tm_accepts tm te" using assms(2) by (auto simp: tm_accepts_def)
  from save_task_event_refused [OF this, of ops w] assms(1) show ?thesis
    by (auto simp: tm_process_def)
qed

theorem foreign_event_refused_witness:
  "\<exists>e tm'. tm_process mem_ops (EvTask (sample_task\<lparr>task_id := ''other''\<rparr>)) sample_manager sample_mem =
       (Inl (raise_server e), tm', sample_mem) \<and> err_kind e = K_InvalidParamsError \<and>
     tm_current_task tm' = None"
  using foreign_event_refused [of "EvTask (sample_task\<lparr>task_id := ''other''\<rparr>)"
      "TE_Task (sample_task\<lparr>task_id := ''other''\<rparr>)" sample_manager mem_ops sample_mem]
  by (simp add: sample_manager_def)

definition status_log :: "Task \<Rightarrow> Message list" where
  "status_log t = or_else (task_history t) [] @
     (case status_message (task_status t) of None \<Rightarrow> [] | Some m \<Rightarrow> [m])"

definition status_event_message :: "TaskStatusUpdateEvent \<Rightarrow> Message list" where
  "status_event_message e = (case status_message (sue_status e) of None \<Rightarrow> [] | Some m \<Rightarrow> [m])"

lemma or_else_append_one [simp]: "or_else (Some (xs @ [x])) d = xs @ [x]"
  by (simp add: or_else_def)

lemma status_log_apply:
  "status_log (apply_status_update t e) = status_log t @ status_event_message e"
  by (auto simp: status_log_def status_event_message_def apply_status_update_def Let_def
      split: option.split)

text \<open>
  No status message is lost: the history of a task followed by its current status
  message grows, over any sequence of status updates, by exactly the messages of these
  updates, in order; the task ends in the last status.
\<close>

theorem status_messages_logged:
  "status_log (foldl apply_status_update t es) = status_log t @ concat (map status_event_message es) \<and>
   task_status (foldl apply_status_update t es) = (if es = [] then task_status t else sue_status (last es))"
proof (induction es rule: rev_induct)
  case (snoc e es)
  then show ?case by (simp add: status_log_apply)
qed simp

text \<open>
  A message added with \<open>update_with_message\<close> is not saved: with the in-memory
  store it is visible at once (the task object is the stored one), with the database store
  the stored task is unchanged until an event is processed.
\<close>

theorem update_with_message_visibility:
  assumes "tm_task_id tm = Some tid" and "tid \<noteq> []" and "tm_current_task tm = None"
    and "mem_inv w" and "db_inv v" and "mem_view w tid = Some t" and "db_view v tid = Some t"
  shows "(\<exists>r tm1 tm2 w'. tm_get_task mem_ops tm w = (Some r, tm1, w) \<and>
            update_with_message m r tm1 w = (r, tm2, w') \<and>
            mem_view w' = (mem_view w)(tid \<mapsto> task_with_message m t)) \<and>
         (\<exists>q tm3 v1 tm4 v'. tm_get_task db_ops tm v = (Some q, tm3, v1) \<and>
            update_with_message m q tm3 v1 = (q, tm4, v') \<and> obj v' q = task_with_message m t \<and>
            db_view v' = db_view v)"
proof (rule conjI)
  from assms(4,6) obtain r where r: "st w tid = Some r" "obj w r = t" "live w r" "task_id t = tid"
    by (auto simp: mem_defs)
  let ?t = "task_with_message m t"
  have g: "tm_get_task mem_ops tm w = (Some r, tm\<lparr>tm_current_task := Some r\<rparr>, w)"
    using assms(1-3) r by (simp add: tm_get_task_def mem_defs)
  have "mem_view (set_obj r ?t w) tid = Some ?t"
    using r by (simp add: mem_view_def)
  moreover have "mem_view (set_obj r ?t w) j = mem_view w j" if "j \<noteq> tid" for j
    using mem.mutate [OF assms(4) r(3), of ?t] r that by simp
  ultimately have "mem_view (set_obj r ?t w) = (mem_view w)(tid \<mapsto> ?t)" by (auto simp: fun_eq_iff)
  with g r show "\<exists>r tm1 tm2 w'. tm_get_task mem_ops tm w = (Some r, tm1, w) \<and>
            update_with_message m r tm1 w = (r, tm2, w') \<and>
            mem_view w' = (mem_view w)(tid \<mapsto> task_with_message m t)"
    by (simp add: update_with_message_def)
  from db.get_Some [OF assms(5,7)] obtain q v1 where
    q: "db_get tid v = (Some q, v1)" "obj v1 q = t" "live v1 q" "db_view v1 = db_view v"
    by (auto simp: db_ops_def)
  then have "tm_get_task db_ops tm v = (Some q, tm\<lparr>tm_current_task := Some q\<rparr>, v1)"
    using assms(1-3) by (simp add: tm_get_task_def db_ops_def)
  moreover have "db_view (set_obj q ?t v1) = db_view v"
    using q(4) by (simp add: db_view_def fun_eq_iff)
  ultimately show "\<exists>q tm3 v1 tm4 v'. tm_get_task db_ops tm v = (Some q, tm3, v1) \<and>
            update_with_message m q tm3 v1 = (q, tm4, v') \<and> obj v' q = task_with_message m t \<and>
            db_view v' = db_view v"
    using q by (auto simp: update_with_message_def)
qed

theorem update_with_message_visibility_witness:
  "\<exists>q tm3 v1 tm4 v'. tm_get_task db_ops sample_manager sample_db = (Some q, tm3, v1) \<and>
     update_with_message (new_agent_text_message ''u'' ''x'' None None) q tm3 v1 = (q, tm4, v') \<and>
     obj v' q = task_with_message (new_agent_text_message ''u'' ''x'' None None) sample_task \<and>
     db_view v' = db_view sample_db"
  using update_with_message_visibility [of sample_manager "''t''" sample_mem sample_db sample_task
      "new_agent_text_message ''u'' ''x'' None None"]
  by (simp add: sample_manager_def)

text \<open>
  Two task managers over the in-memory store that consume the same events (the
  stream that runs the agent and a resubscription that taps its queue) both apply each event:
  an appended artifact chunk is stored twice.
\<close>

theorem resubscription_applies_chunk_twice:
  assumes "mem_inv w" and "tm_synced mem_view tm1 w" and "tm_task_id tm1 = Some tid" and "tid \<noteq> []"
    and "tm_context_id tm1 = Some ctx"
    and "tm_init (Some tid) (Some ctx) None = Inr tm2"
    and "aue_task_id e = tid" and "aue_context_id e = ctx" and "aue_append e = Some True"
    and "mem_view w tid = Some t" and "parts_of t (art_artifact_id (aue_artifact e)) = Some ps"
  shows "\<exists>tm1' tm2' w1 w2 t2.
           tm_process mem_ops (EvArtifact e) tm1 w = (Inr (EvArtifact e), tm1', w1) \<and>
           tm_process mem_ops (EvArtifact e) tm2 w1 = (Inr (EvArtifact e), tm2', w2) \<and>
           mem_view w2 tid = Some t2 \<and>
           parts_of t2 (art_artifact_id (aue_artifact e)) =
             Some (ps @ art_parts (aue_artifact e) @ art_parts (aue_artifact e))"
proof -
  have te: "as_task_event (EvArtifact e) = Some (TE_Artifact e)" "te_task_id (TE_Artifact e) \<noteq> []"
    "tm_accepts tm1 (TE_Artifact e)" "tm_accepts tm2 (TE_Artifact e)" "tm_synced mem_view tm2 w1" for w1
    using assms by (auto simp: tm_accepts_def tm_init_def tm_synced_def split: if_splits)
  from mem.tm_process_accepted [OF assms(1,2) te(1,2,3)] obtain tm1' w1 where
    p1: "tm_process mem_ops (EvArtifact e) tm1 w = (Inr (EvArtifact e), tm1', w1)"
    and s1: "mem.saved_as tm1 w (TE_Artifact e) tm1' w1" by blast
  from s1 have "mem_inv w1" by (simp add: mem.saved_as_def)
  from mem.tm_process_accepted [OF this te(5,1,2,4)] obtain tm2' w2 where
    p2: "tm_process mem_ops (EvArtifact e) tm2 w1 = (Inr (EvArtifact e), tm2', w2)"
    and s2: "mem.saved_as tm2 w1 (TE_Artifact e) tm2' w2" by blast
  have "mem_view w2 tid = Some (append_artifact_to_task (append_artifact_to_task t e) e)"
    using s1 s2 assms(7,10) by (simp add: mem.saved_as_def)
  with p1 p2 assms(9,11) show ?thesis
    by (auto simp: parts_of_append_artifact assemble_step_def)
qed

theorem resubscription_applies_chunk_twice_witness:
  "\<exists>tm1' tm2' w1 w2 t2.
     tm_process mem_ops (EvArtifact (sample_chunk (Some True) ''a'' ''y''))
        (sample_manager\<lparr>tm_context_id := Some ''c''\<rparr>)
        \<lparr>heap = [append_artifact_to_task sample_task (sample_chunk None ''a'' ''x'')], st = [''t'' \<mapsto> 0]\<rparr> =
       (Inr (EvArtifact (sample_chunk (Some True) ''a'' ''y'')), tm1', w1) \<and>
     tm_process mem_ops (EvArtifact (sample_chunk (Some True) ''a'' ''y''))
        (sample_manager\<lparr>tm_context_id := Some ''c''\<rparr>) w1 =
       (Inr (EvArtifact (sample_chunk (Some True) ''a'' ''y'')), tm2', w2) \<and>
     mem_view w2 ''t'' = Some t2 \<and>
     parts_of t2 ''a'' = Some [text_part ''x'', text_part ''y'', text_part ''y'']"
proof -
  let ?w = "\<lparr>heap = [append_artifact_to_task sample_task (sample_chunk None ''a'' ''x'')], st = [''t'' \<mapsto> 0]\<rparr>"
  have a: "mem_inv ?w"
    by (simp add: mem_inv_def live_def obj_def sample_task_def)
  have b: "tm_synced mem_view (sample_manager\<lparr>tm_context_id := Some ''c''\<rparr>) ?w"
    by (simp add: tm_synced_def sample_manager_def)
  have c: "tm_init (Some ''t'') (Some ''c'') None = Inr (sample_manager\<lparr>tm_context_id := Some ''c''\<rparr>)"
    by (simp add: tm_init_def sample_manager_def)
  have d: "mem_view ?w ''t'' = Some (append_artifact_to_task sample_task (sample_chunk None ''a'' ''x''))"
    by (simp add: mem_view_def obj_def)
  have f: "parts_of (append_artifact_to_task sample_task (sample_chunk None ''a'' ''x'')) ''a'' = Some [text_part ''x'']"
    unfolding parts_of_append_artifact by (simp add: assemble_step_def sample_defs)
  show ?thesis
    using resubscription_applies_chunk_twice [OF a b _ _ _ c _ _ _ d, of "sample_chunk (Some True) ''a'' ''y''"
        "[text_part ''x'']"] f
    by (simp add: sample_chunk_def sample_artifact_def build_text_artifact_def sample_manager_def)
qed

end
