(* ===== verification/EventQueue.thy ===== *)
theory EventQueue
  imports A2A_Types
begin

section \<open>Event queues (server/events/event_queue.py)\<close>

text \<open>
  An \<open>EventQueue\<close> owns an \<open>asyncio.Queue\<close> and the child queues that were tapped from it: a
  tree. Its constructor keeps the pending items, the capacity, the count of unfinished tasks
  and the shutdown flag of the \<open>asyncio.Queue\<close>, then \<open>_is_closed\<close> and the children in tapping
  order. The parameter \<open>py313\<close> is \<open>sys.version_info >= (3, 13)\<close>.

  A coroutine either completes, waits or raises (\<open>await\<close>). An operation that has to wait
  returns \<open>Blocked\<close> with the state it has reached; nothing in it happens until another
  coroutine changes that state.
\<close>

datatype 'a await = Done 'a | Blocked | Raised exn

datatype EventQueue =
  EQ (eq_items: "Event list") (eq_maxsize: nat) (eq_unfinished: nat) (eq_shutdown: bool)
     (eq_closed: bool) (eq_children: "EventQueue list")

definition DEFAULT_MAX_QUEUE_SIZE :: int where
  "DEFAULT_MAX_QUEUE_SIZE = 1024"

definition eq_init :: "int \<Rightarrow> exn + EventQueue" where
  "eq_init max_queue_size =
     (if max_queue_size \<le> 0 then Inl (ValueErr ''max_queue_size must be greater than 0'')
      else Inr (EQ [] (nat max_queue_size) 0 False False []))"

definition eq_new :: EventQueue where
  "eq_new = EQ [] (nat DEFAULT_MAX_QUEUE_SIZE) 0 False False []"

lemma eq_init_default: "eq_init DEFAULT_MAX_QUEUE_SIZE = Inr eq_new"
  by (simp add: eq_init_def eq_new_def DEFAULT_MAX_QUEUE_SIZE_def)

subsection \<open>Operations\<close>

text \<open>\<open>put\<close> on the own queue, then \<open>enqueue_event\<close> on each child in order.\<close>

fun enqueue_event :: "Event \<Rightarrow> EventQueue \<Rightarrow> unit await \<times> EventQueue"
  and enqueue_children :: "Event \<Rightarrow> EventQueue list \<Rightarrow> unit await \<times> EventQueue list" where
  "enqueue_event ev (EQ items mx unf sd cl ch) =
     (if cl then (Done (), EQ items mx unf sd cl ch)
      else if sd then (Raised QueueShutDown, EQ items mx unf sd cl ch)
      else if mx \<le> length items then (Blocked, EQ items mx unf sd cl ch)
      else (let (r, ch') = enqueue_children ev ch
            in (r, EQ (items @ [ev]) mx (Suc unf) sd cl ch')))"
| "enqueue_children ev [] = (Done (), [])"
| "enqueue_children ev (c # cs) =
     (case enqueue_event ev c of
        (Done _, c') \<Rightarrow> (let (r, cs') = enqueue_children ev cs in (r, c' # cs'))
      | (Blocked, c') \<Rightarrow> (Blocked, c' # cs)
      | (Raised e, c') \<Rightarrow> (Raised e, c' # cs))"

fun dequeue_event :: "bool \<Rightarrow> bool \<Rightarrow> EventQueue \<Rightarrow> Event await \<times> EventQueue" where
  "dequeue_event py313 no_wait (EQ items mx unf sd cl ch) =
     (if \<not> py313 \<and> cl \<and> items = [] then (Raised QueueEmpty, EQ items mx unf sd cl ch)
      else (case items of
              ev # rest \<Rightarrow> (Done ev, EQ rest mx unf sd cl ch)
            | [] \<Rightarrow>
                ((if sd then Raised QueueShutDown
                  else if no_wait then Raised QueueEmpty else Blocked), EQ items mx unf sd cl ch)))"

fun task_done :: "EventQueue \<Rightarrow> (exn + unit) \<times> EventQueue" where
  "task_done (EQ items mx unf sd cl ch) =
     (if unf = 0 then (Inl (ValueErr ''task_done() called too many times''), EQ items mx unf sd cl ch)
      else (Inr (), EQ items mx (unf - 1) sd cl ch))"

text \<open>\<open>tap\<close> returns the new queue; its position is the last among the children.\<close>

fun tap :: "EventQueue \<Rightarrow> nat \<times> EventQueue" where
  "tap (EQ items mx unf sd cl ch) = (length ch, EQ items mx unf sd cl (ch @ [eq_new]))"

fun is_closed :: "EventQueue \<Rightarrow> bool" where
  "is_closed (EQ items mx unf sd cl ch) = cl"

text \<open>The loop of \<open>clear_events\<close>: \<open>get_nowait\<close> and \<open>task_done\<close> until the queue is empty.\<close>

fun clear_loop :: "Event list \<Rightarrow> nat \<Rightarrow> (exn + unit) \<times> Event list \<times> nat" where
  "clear_loop [] unf = (Inr (), [], unf)"
| "clear_loop (ev # items) unf =
     (if unf = 0 then (Inl (ValueErr ''task_done() called too many times''), items, 0)
      else clear_loop items (unf - 1))"

fun clear_events :: "bool \<Rightarrow> EventQueue \<Rightarrow> (exn + unit) \<times> EventQueue" where
  "clear_events clear_child_queues (EQ items mx unf sd cl ch) =
     (case clear_loop items unf of
        (Inl e, items', unf') \<Rightarrow> (Inl e, EQ items' mx unf' sd cl ch)
      | (Inr _, items', unf') \<Rightarrow>
          (Inr (), EQ items' mx unf' sd cl
             (if clear_child_queues then map (\<lambda>c. snd (clear_events True c)) ch else ch)))"

text \<open>
  \<open>asyncio.Queue.shutdown\<close>: an immediate shutdown discards the items and counts them as done.
\<close>

fun queue_shutdown :: "bool \<Rightarrow> EventQueue \<Rightarrow> EventQueue" where
  "queue_shutdown immediate (EQ items mx unf sd cl ch) =
     (if immediate then EQ [] mx (unf - length items) True cl ch else EQ items mx unf True cl ch)"

text \<open>\<open>close(immediate=True)\<close>.\<close>

definition close_own_now :: "bool \<Rightarrow> EventQueue \<Rightarrow> (exn + unit) \<times> EventQueue" where
  "close_own_now py313 q =
     (case q of EQ items mx unf sd cl ch \<Rightarrow>
        let q1 = EQ items mx unf sd True ch;
            q2 = (if py313 then queue_shutdown True q1 else q1)
        in clear_events True q2)"

lemma size_clear_events [simp]: "size (snd (clear_events b q)) \<le> size q"
proof (induction q arbitrary: b)
  case (EQ items mx unf sd cl ch)
  have "size_list size (map (\<lambda>c. snd (clear_events True c)) ch) \<le> size_list size ch"
    using EQ.IH by (induction ch) (auto intro: add_mono)
  then show ?case by (auto split: sum.split prod.split)
qed

lemma size_close_own_now: "size (snd (close_own_now py313 q)) \<le> size q"
proof (cases q)
  case (EQ items mx unf sd cl ch)
  have "size (snd (clear_events True (if py313 then queue_shutdown True (EQ items mx unf sd True ch)
        else EQ items mx unf sd True ch)))
      \<le> size (if py313 then queue_shutdown True (EQ items mx unf sd True ch) else EQ items mx unf sd True ch)"
    by (rule size_clear_events)
  also have "\<dots> \<le> size q" using EQ by simp
  finally show ?thesis using EQ by (simp add: close_own_now_def Let_def)
qed

lemma size_close_own_now_children:
  "close_own_now py313 q = (r, EQ items mx unf sd cl ch) \<Longrightarrow> size_list size ch < size q"
  using size_close_own_now [of py313 q] by simp

function close_now :: "bool \<Rightarrow> EventQueue \<Rightarrow> (exn + unit) \<times> EventQueue"
  and close_now_children :: "bool \<Rightarrow> EventQueue list \<Rightarrow> (exn + unit) \<times> EventQueue list" where
  "close_now py313 q =
     (case close_own_now py313 q of
        (Inl e, q') \<Rightarrow> (Inl e, q')
      | (Inr _, EQ items mx unf sd cl ch) \<Rightarrow>
          (let (r, ch') = close_now_children py313 ch in (r, EQ items mx unf sd cl ch')))"
| "close_now_children py313 [] = (Inr (), [])"
| "close_now_children py313 (c # cs) =
     (case close_now py313 c of
        (Inl e, c') \<Rightarrow> (Inl e, c' # cs)
      | (Inr _, c') \<Rightarrow> (let (r, cs') = close_now_children py313 cs in (r, c' # cs')))"
  by pat_completeness auto

termination
  by (relation "measure (case_sum (\<lambda>(py, q). 2 * size q) (\<lambda>(py, qs). Suc (2 * size_list size qs)))")
    (auto dest!: size_close_own_now_children sym [of "(_, _)"])

text \<open>
  \<open>close()\<close>: mark the queue closed, close the children, then wait until the queue and the
  children have been drained.
\<close>

fun close_graceful :: "bool \<Rightarrow> EventQueue \<Rightarrow> unit await \<times> EventQueue" where
  "close_graceful py313 (EQ items mx unf sd cl ch) =
     (if cl then (Done (), EQ items mx unf sd cl ch)
      else (let rs = map (close_graceful py313) ch
            in ((if unf = 0 \<and> list_all (\<lambda>r. fst r = Done ()) rs then Done () else Blocked),
                EQ items mx unf (sd \<or> py313) True (map snd rs))))"

definition close_queue :: "bool \<Rightarrow> bool \<Rightarrow> EventQueue \<Rightarrow> unit await \<times> EventQueue" where
  "close_queue py313 immediate q =
     (if immediate
      then (case close_now py313 q of (Inl e, q') \<Rightarrow> (Raised e, q') | (Inr _, q') \<Rightarrow> (Done (), q'))
      else close_graceful py313 q)"

text \<open>The queue at a position of the tree, and an operation on it.\<close>

fun eq_at :: "nat list \<Rightarrow> EventQueue \<Rightarrow> EventQueue option" where
  "eq_at [] q = Some q"
| "eq_at (i # p) (EQ items mx unf sd cl ch) = (if i < length ch then eq_at p (ch ! i) else None)"

fun eq_update :: "nat list \<Rightarrow> (EventQueue \<Rightarrow> EventQueue) \<Rightarrow> EventQueue \<Rightarrow> EventQueue" where
  "eq_update [] f q = f q"
| "eq_update (i # p) f (EQ items mx unf sd cl ch) =
     (if i < length ch then EQ items mx unf sd cl (ch[i := eq_update p f (ch ! i)])
      else EQ items mx unf sd cl ch)"

lemma eq_at_update_same: "eq_at p q = Some n \<Longrightarrow> eq_at p (eq_update p f q) = Some (f n)"
proof (induction p arbitrary: q)
  case (Cons i p)
  then show ?case by (cases q) (auto split: if_splits)
qed simp

subsection \<open>Invariant\<close>

fun eq_wf :: "bool \<Rightarrow> EventQueue \<Rightarrow> bool" where
  "eq_wf py313 (EQ items mx unf sd cl ch) \<longleftrightarrow>
     0 < mx \<and> length items \<le> mx \<and> length items \<le> unf \<and> (sd \<longleftrightarrow> py313 \<and> cl) \<and>
     list_all (eq_wf py313) ch"

lemma eq_wf_new [simp]: "eq_wf py313 eq_new"
  by (simp add: eq_new_def DEFAULT_MAX_QUEUE_SIZE_def)

lemma eq_wf_at: "eq_wf py313 q \<Longrightarrow> eq_at p q = Some n \<Longrightarrow> eq_wf py313 n"
proof (induction p arbitrary: q)
  case (Cons i p)
  then show ?case by (cases q) (auto simp: list_all_length split: if_splits)
qed simp

lemma eq_wf_update:
  "eq_wf py313 q \<Longrightarrow> eq_at p q = Some n \<Longrightarrow> eq_wf py313 (f n) \<Longrightarrow> eq_wf py313 (eq_update p f q)"
proof (induction p arbitrary: q)
  case (Cons i p)
  then show ?case
    by (cases q) (auto simp: list_all_length nth_list_update split: if_splits)
qed simp

lemma eq_wf_enqueue [a2a_inv]:
  "eq_wf py313 q \<Longrightarrow> eq_wf py313 (snd (enqueue_event ev q))"
  "list_all (eq_wf py313) qs \<Longrightarrow> list_all (eq_wf py313) (snd (enqueue_children ev qs))"
  by (induction ev q and ev qs rule: enqueue_event_enqueue_children.induct)
    (auto split: prod.splits await.splits simp: Let_def)

lemma eq_wf_dequeue [a2a_inv]: "eq_wf py313 q \<Longrightarrow> eq_wf py313 (snd (dequeue_event py no_wait q))"
  by (cases q) (auto split: list.split)

lemma eq_wf_tap [a2a_inv]: "eq_wf py313 q \<Longrightarrow> eq_wf py313 (snd (tap q))"
  by (cases q) auto

lemma eq_wf_close_graceful [a2a_inv]: "eq_wf py313 q \<Longrightarrow> eq_wf py313 (snd (close_graceful py313 q))"
  by (induction py313 q rule: close_graceful.induct) (auto simp: Let_def list_all_iff)

lemma clear_loop_enough: "length items \<le> unf \<Longrightarrow> clear_loop items unf = (Inr (), [], unf - length items)"
  by (induction items arbitrary: unf) auto

text \<open>What clearing leaves of a well-formed queue.\<close>

fun emptied :: "bool \<Rightarrow> EventQueue \<Rightarrow> EventQueue" where
  "emptied deep (EQ items mx unf sd cl ch) =
     EQ [] mx (unf - length items) sd cl (if deep then map (emptied True) ch else ch)"

lemma clear_events_wf: "eq_wf py313 q \<Longrightarrow> clear_events deep q = (Inr (), emptied deep q)"
proof (induction q arbitrary: deep)
  case (EQ items mx unf sd cl ch)
  have "snd (clear_events True c) = emptied True c" if "c \<in> set ch" for c
    using EQ that by (auto simp: list_all_iff)
  with EQ.prems show ?case by (auto simp: clear_loop_enough)
qed

lemma eq_wf_emptied: "eq_wf py313 q \<Longrightarrow> eq_wf py313 (emptied deep q)"
  by (induction q arbitrary: deep) (auto simp: list_all_iff)

lemma eq_wf_clear [a2a_inv]: "eq_wf py313 q \<Longrightarrow> eq_wf py313 (snd (clear_events deep q))"
  by (simp add: clear_events_wf eq_wf_emptied)

text \<open>What an immediate close leaves: every queue of the tree closed and empty.\<close>

fun closed_empty :: "bool \<Rightarrow> EventQueue \<Rightarrow> EventQueue" where
  "closed_empty py313 (EQ items mx unf sd cl ch) =
     EQ [] mx (unf - length items) (sd \<or> py313) True (map (closed_empty py313) ch)"

lemma closed_empty_emptied: "closed_empty py313 (emptied True q) = closed_empty py313 q"
  by (induction q) auto

lemma close_own_now_wf:
  "eq_wf py313 (EQ items mx unf sd cl ch) \<Longrightarrow>
   close_own_now py313 (EQ items mx unf sd cl ch) =
     (Inr (), EQ [] mx (unf - length items) (sd \<or> py313) True (map (emptied True) ch))"
proof -
  assume wf: "eq_wf py313 (EQ items mx unf sd cl ch)"
  let ?q = "if py313 then queue_shutdown True (EQ items mx unf sd True ch) else EQ items mx unf sd True ch"
  have "eq_wf py313 ?q" using wf by auto
  from clear_events_wf [OF this, of True] wf show ?thesis
    by (auto simp: close_own_now_def Let_def simp del: clear_events.simps)
qed

lemma close_now_wf:
  "eq_wf py313 q \<Longrightarrow> close_now py313 q = (Inr (), closed_empty py313 q)"
  "list_all (eq_wf py313) qs \<Longrightarrow> close_now_children py313 qs = (Inr (), map (closed_empty py313) qs)"
proof (induction py313 q and py313 qs rule: close_now_close_now_children.induct)
  case (1 py313 q)
  obtain items mx unf sd cl ch where q: "q = EQ items mx unf sd cl ch" by (cases q)
  note own = close_own_now_wf [OF 1(2) [unfolded q]]
  have "list_all (eq_wf py313) (map (emptied True) ch)"
    using 1(2) q by (auto simp: list_all_iff eq_wf_emptied)
  with 1(1) own q
  have "close_now_children py313 (map (emptied True) ch) = (Inr (), map (closed_empty py313) (map (emptied True) ch))"
    by simp
  with own q show ?case
    by (simp add: closed_empty_emptied o_def del: close_now.simps)
      (subst close_now.simps, simp)
qed auto

declare close_now.simps [simp del]

lemma eq_wf_closed_empty: "eq_wf py313 q \<Longrightarrow> eq_wf py313 (closed_empty py313 q)"
  by (induction q) (auto simp: list_all_iff)

lemma eq_wf_close [a2a_inv]: "eq_wf py313 q \<Longrightarrow> eq_wf py313 (snd (close_queue py313 immediate q))"
  by (simp add: close_queue_def close_now_wf eq_wf_closed_empty eq_wf_close_graceful)

subsection \<open>Broadcast\<close>

text \<open>
  The contract of \<open>enqueue_event\<close>: it completes exactly when every queue it reaches (the open
  ones, down from the root through open queues) has room, and then each of them has the event at
  its end and nothing else has changed.
\<close>

fun has_room :: "EventQueue \<Rightarrow> bool" where
  "has_room (EQ items mx unf sd cl ch) \<longleftrightarrow> cl \<or> (\<not> sd \<and> length items < mx \<and> list_all has_room ch)"

fun broadcast :: "Event \<Rightarrow> EventQueue \<Rightarrow> EventQueue" where
  "broadcast ev (EQ items mx unf sd cl ch) =
     (if cl then EQ items mx unf sd cl ch
      else EQ (items @ [ev]) mx (Suc unf) sd cl (map (broadcast ev) ch))"

lemma enqueue_room:
  "has_room q \<Longrightarrow> enqueue_event ev q = (Done (), broadcast ev q)"
  "list_all has_room qs \<Longrightarrow> enqueue_children ev qs = (Done (), map (broadcast ev) qs)"
  by (induction ev q and ev qs rule: enqueue_event_enqueue_children.induct) auto

lemma enqueue_no_room:
  "eq_wf py313 q \<Longrightarrow> \<not> has_room q \<Longrightarrow> fst (enqueue_event ev q) = Blocked"
  "list_all (eq_wf py313) qs \<Longrightarrow> \<not> list_all has_room qs \<Longrightarrow> fst (enqueue_children ev qs) = Blocked"
proof (induction ev q and ev qs rule: enqueue_event_enqueue_children.induct)
  case (1 ev items mx unf sd cl ch)
  from 1(2,3) have f: "\<not> cl" "\<not> sd" "list_all (eq_wf py313) ch"
    and r: "length items < mx \<Longrightarrow> \<not> list_all has_room ch" by auto
  show ?case
  proof (cases "mx \<le> length items")
    case True
    with f show ?thesis by simp
  next
    case False
    with r have "\<not> list_all has_room ch" by simp
    with 1(1) [OF f(1,2) False f(3)] have "fst (enqueue_children ev ch) = Blocked" by blast
    with False f(1,2) show ?thesis by (cases "enqueue_children ev ch") (simp add: Let_def)
  qed
next
  case (3 ev c cs)
  show ?case
  proof (cases "has_room c")
    case True
    with 3 have "fst (enqueue_children ev cs) = Blocked" by (auto simp: enqueue_room)
    with True show ?thesis by (cases "enqueue_children ev cs") (simp add: enqueue_room)
  next
    case False
    with 3 have "fst (enqueue_event ev c) = Blocked" by simp
    then show ?thesis by (cases "enqueue_event ev c") simp
  qed
qed simp

subsection \<open>Steps and reachable queues\<close>

text \<open>
  One coroutine step of the tree: an operation of \<open>EventQueue\<close> on the queue at some position.
  A consumer calls \<open>task_done\<close> once for each event it dequeued, so the two are one step.
\<close>

datatype queue_op =
    Op_Enqueue Event
  | Op_Consume bool
  | Op_Tap
  | Op_Close bool
  | Op_Clear bool

fun apply_op :: "bool \<Rightarrow> queue_op \<Rightarrow> EventQueue \<Rightarrow> EventQueue" where
  "apply_op py313 (Op_Enqueue ev) q = snd (enqueue_event ev q)"
| "apply_op py313 (Op_Consume no_wait) q =
     (case dequeue_event py313 no_wait q of
        (Done ev, q') \<Rightarrow> snd (task_done q')
      | (Blocked, q') \<Rightarrow> q'
      | (Raised e, q') \<Rightarrow> q')"
| "apply_op py313 Op_Tap q = snd (tap q)"
| "apply_op py313 (Op_Close immediate) q = snd (close_queue py313 immediate q)"
| "apply_op py313 (Op_Clear deep) q = snd (clear_events deep q)"

inductive queue_step :: "bool \<Rightarrow> nat list \<Rightarrow> queue_op \<Rightarrow> EventQueue \<Rightarrow> EventQueue \<Rightarrow> bool" where
  step_at: "eq_at p q = Some n \<Longrightarrow> queue_step py313 p op q (eq_update p (apply_op py313 op) q)"

inductive_cases queue_stepE: "queue_step py313 p op q q'"

inductive queue_reachable :: "bool \<Rightarrow> EventQueue \<Rightarrow> bool" where
  reach_new: "eq_init mx = Inr q \<Longrightarrow> queue_reachable py313 q"
| reach_step: "queue_reachable py313 q \<Longrightarrow> queue_step py313 p op q q' \<Longrightarrow> queue_reachable py313 q'"

lemma eq_wf_consume [a2a_inv]: "eq_wf py313 q \<Longrightarrow> eq_wf py313 (apply_op py313 (Op_Consume no_wait) q)"
  by (cases q) (auto split: list.splits)

lemma eq_wf_apply_op: "eq_wf py313 q \<Longrightarrow> eq_wf py313 (apply_op py313 op q)"
proof (cases op)
  case (Op_Consume x2)
  then show "eq_wf py313 q \<Longrightarrow> eq_wf py313 (apply_op py313 op q)" using eq_wf_consume by blast
qed (simp_all add: a2a_inv)

lemma reachable_eq_wf: "queue_reachable py313 q \<Longrightarrow> eq_wf py313 q"
proof (induction rule: queue_reachable.induct)
  case (reach_new mx q py313)
  then show ?case by (auto simp: eq_init_def split: if_splits)
next
  case (reach_step py313 q p op q')
  from reach_step(2) obtain n where n: "eq_at p q = Some n"
    and q': "q' = eq_update p (apply_op py313 op) q" by (rule queue_stepE)
  have "eq_wf py313 (apply_op py313 op n)"
    by (rule eq_wf_apply_op, rule eq_wf_at [OF reach_step.IH n])
  from eq_wf_update [of py313 q p n "apply_op py313 op", OF reach_step.IH n this] show ?case unfolding q' .
qed

text \<open>
  The life of one queue under its own operations other than clearing: the events it accepted
  and the events it delivered.
\<close>

inductive queue_trace :: "bool \<Rightarrow> EventQueue \<Rightarrow> Event list \<Rightarrow> Event list \<Rightarrow> EventQueue \<Rightarrow> bool" where
  trace_refl: "queue_trace py313 q [] [] q"
| trace_enqueue: "queue_trace py313 q ins outs q1 \<Longrightarrow> enqueue_event ev q1 = (r, q2) \<Longrightarrow>
    queue_trace py313 q (ins @ (if eq_items q2 = eq_items q1 then [] else [ev])) outs q2"
| trace_dequeue: "queue_trace py313 q ins outs q1 \<Longrightarrow> dequeue_event py313 no_wait q1 = (Done ev, q2) \<Longrightarrow>
    queue_trace py313 q ins (outs @ [ev]) q2"
| trace_dequeue_none: "queue_trace py313 q ins outs q1 \<Longrightarrow> dequeue_event py313 no_wait q1 = (r, q2) \<Longrightarrow>
    r = Blocked \<or> r = Raised e \<Longrightarrow> queue_trace py313 q ins outs q2"
| trace_task_done: "queue_trace py313 q ins outs q1 \<Longrightarrow> task_done q1 = (r, q2) \<Longrightarrow>
    queue_trace py313 q ins outs q2"
| trace_tap: "queue_trace py313 q ins outs q1 \<Longrightarrow> tap q1 = (i, q2) \<Longrightarrow> queue_trace py313 q ins outs q2"
| trace_close: "queue_trace py313 q ins outs q1 \<Longrightarrow> close_graceful py313 q1 = (r, q2) \<Longrightarrow>
    queue_trace py313 q ins outs q2"

lemma items_enqueue:
  "enqueue_event ev q = (r, q') \<Longrightarrow> eq_items q' = eq_items q \<or> eq_items q' = eq_items q @ [ev]"
  by (cases q) (auto simp: Let_def split: if_splits prod.splits)

lemma items_dequeue: "dequeue_event py313 no_wait q = (Done ev, q') \<Longrightarrow> eq_items q = ev # eq_items q'"
  by (cases q) (auto split: if_splits list.splits)

lemma items_dequeue_none:
  "dequeue_event py313 no_wait q = (r, q') \<Longrightarrow> r = Blocked \<or> r = Raised e \<Longrightarrow> q' = q"
  by (cases q) (auto split: if_splits list.splits)

lemma items_other:
  "task_done q = (r, q') \<Longrightarrow> eq_items q' = eq_items q"
  "tap q = (i, q') \<Longrightarrow> eq_items q' = eq_items q"
  "close_graceful py313 q = (r2, q') \<Longrightarrow> eq_items q' = eq_items q"
  by (cases q; auto simp: Let_def split: if_splits)+

lemma trace_conserves_events:
  "queue_trace py313 q ins outs q' \<Longrightarrow> eq_items q @ ins = outs @ eq_items q'"
proof (induction rule: queue_trace.induct)
  case (trace_enqueue py313 q ins outs q1 ev r q2)
  then show ?case using items_enqueue [of ev q1 r q2] by auto
next
  case (trace_dequeue py313 q ins outs q1 no_wait ev q2)
  then show ?case using items_dequeue [of py313 no_wait q1 ev q2] by simp
next
  case (trace_dequeue_none py313 q ins outs q1 no_wait r q2 e)
  then show ?case using items_dequeue_none [of py313 no_wait q1 r q2 e] by simp
qed (auto simp: items_other)

subsection \<open>Taps\<close>

text \<open>A queue that was just tapped receives what is enqueued from then on, and nothing else.\<close>

lemma broadcast_children:
  "\<not> eq_closed q \<Longrightarrow> eq_children (broadcast ev q) = map (broadcast ev) (eq_children q)"
  by (cases q) simp

lemma eq_closed_broadcast [simp]: "eq_closed (broadcast ev q) = eq_closed q"
  by (cases q) simp

lemma eq_items_broadcast: "\<not> eq_closed q \<Longrightarrow> eq_items (broadcast ev q) = eq_items q @ [ev]"
  by (cases q) simp

lemma fold_broadcast:
  "\<not> eq_closed q \<Longrightarrow>
   eq_items (foldl (\<lambda>q ev. broadcast ev q) q evs) = eq_items q @ evs \<and>
   eq_children (foldl (\<lambda>q ev. broadcast ev q) q evs) =
     map (\<lambda>c. foldl (\<lambda>q ev. broadcast ev q) c evs) (eq_children q)"
  by (induction evs arbitrary: q) (auto simp: eq_items_broadcast broadcast_children)

fun enqueue_all :: "Event list \<Rightarrow> EventQueue \<Rightarrow> unit await \<times> EventQueue" where
  "enqueue_all [] q = (Done (), q)"
| "enqueue_all (ev # evs) q =
     (case enqueue_event ev q of
        (Done _, q') \<Rightarrow> enqueue_all evs q'
      | (Blocked, q') \<Rightarrow> (Blocked, q')
      | (Raised e, q') \<Rightarrow> (Raised e, q'))"

lemma enqueue_all_done:
  "eq_wf py313 q \<Longrightarrow> enqueue_all evs q = (Done (), q') \<Longrightarrow> q' = foldl (\<lambda>q ev. broadcast ev q) q evs"
proof (induction evs arbitrary: q)
  case (Cons ev evs)
  show ?case
  proof (cases "has_room q")
    case True
    with Cons.prems(2) have e: "enqueue_all evs (broadcast ev q) = (Done (), q')"
      by (simp add: enqueue_room)
    have "eq_wf py313 (broadcast ev q)"
      using eq_wf_enqueue(1) [OF Cons.prems(1), of ev] True by (simp add: enqueue_room)
    from Cons.IH [OF this e] show ?thesis by simp
  next
    case False
    from enqueue_no_room(1) [OF Cons.prems(1) False, of ev] Cons.prems(2) show ?thesis
      by (cases "enqueue_event ev q") simp
  qed
qed simp

subsection \<open>Properties\<close>

text \<open>
  Claim C21. In every reachable tree of queues, every queue respects its capacity, has at least as
  many unfinished tasks as pending events (so clearing never fails), and its \<open>asyncio.Queue\<close> is
  shut down exactly when it was closed on Python 3.13.
\<close>

theorem reachable_queue_bounds:
  assumes "queue_reachable py313 q" and "eq_at p q = Some n"
  shows "length (eq_items n) \<le> eq_maxsize n \<and> 0 < eq_maxsize n \<and>
         length (eq_items n) \<le> eq_unfinished n \<and> (eq_shutdown n \<longleftrightarrow> py313 \<and> eq_closed n)"
proof -
  have "eq_wf py313 n" using eq_wf_at [OF reachable_eq_wf [OF assms(1)] assms(2)] .
  then show ?thesis by (cases n) auto
qed

definition sample_message :: Message where
  "sample_message = \<lparr>msg_context_id = Some ''c'', msg_extensions = None, msg_message_id = ''m'',
     msg_metadata = None, msg_parts = [], msg_reference_task_ids = None, msg_role = user, msg_task_id = None\<rparr>"

lemma reachable_tapped: "queue_reachable py313 (snd (tap eq_new))"
proof -
  have a: "queue_reachable py313 eq_new" by (rule reach_new [OF eq_init_default])
  have "queue_step py313 [] Op_Tap eq_new (eq_update [] (apply_op py313 Op_Tap) eq_new)"
    by (rule step_at) simp
  from reach_step [OF a this] show ?thesis by simp
qed

lemma tapped_new: "tap eq_new = (0, EQ [] 1024 0 False False [eq_new])"
  by (simp add: eq_new_def DEFAULT_MAX_QUEUE_SIZE_def)

theorem reachable_queue_bounds_witness:
  "0 < eq_maxsize (EQ [] 1024 0 False False [eq_new]) \<and>
   length (eq_items eq_new) \<le> eq_maxsize eq_new"
  using reachable_queue_bounds [OF reachable_tapped [of True, unfolded tapped_new snd_conv], of "[]"]
    reachable_queue_bounds [OF reachable_tapped [of True, unfolded tapped_new snd_conv], of "[0]"]
  by simp

text \<open>
  Claim C23. \<open>enqueue_event\<close> completes exactly when every queue it reaches has room; then every
  open queue of the tree below open queues has the event at its end and nothing else changed,
  and an event offered to a closed queue is dropped. Otherwise it waits; it never raises.
\<close>

theorem enqueue_broadcasts:
  assumes "queue_reachable py313 q"
  shows "(case has_room q of
            True \<Rightarrow> enqueue_event ev q = (Done (), broadcast ev q)
          | False \<Rightarrow> fst (enqueue_event ev q) = Blocked) \<and>
         eq_closed (broadcast ev q) = eq_closed q \<and>
         (if eq_closed q then broadcast ev q = q
          else eq_items (broadcast ev q) = eq_items q @ [ev] \<and>
               eq_children (broadcast ev q) = map (broadcast ev) (eq_children q))"
  using enqueue_room(1) [of q ev] enqueue_no_room(1) [OF reachable_eq_wf [OF assms], of ev]
  by (cases q) (auto split: bool.split)

theorem enqueue_broadcasts_witness:
  "fst (enqueue_event (EvMessage sample_message) (snd (tap eq_new))) = Done () \<and>
   map eq_items (eq_children (snd (enqueue_event (EvMessage sample_message) (snd (tap eq_new))))) =
     [[EvMessage sample_message]]"
  using enqueue_broadcasts [OF reachable_tapped, of "EvMessage sample_message"]
  by (simp add: eq_new_def DEFAULT_MAX_QUEUE_SIZE_def)

text \<open>
  Claim C22. A queue is first-in first-out and neither loses nor duplicates events: over any
  run of enqueues, dequeues, taps and graceful closes, the events delivered so far followed by those
  pending are the events accepted, in the order of acceptance.
\<close>

theorem queue_fifo:
  assumes "queue_trace py313 eq_new accepted delivered q"
  shows "accepted = delivered @ eq_items q"
  using trace_conserves_events [OF assms] by (simp add: eq_new_def)

theorem queue_fifo_witness:
  "\<exists>q. queue_trace False eq_new [EvMessage sample_message] [EvMessage sample_message] q \<and>
       [EvMessage sample_message] = [EvMessage sample_message] @ eq_items q"
proof -
  let ?ev = "EvMessage sample_message"
  let ?q1 = "EQ [?ev] 1024 1 False False []"
  have "enqueue_event ?ev eq_new = (Done (), ?q1)"
    by (simp add: eq_new_def DEFAULT_MAX_QUEUE_SIZE_def)
  from trace_enqueue [OF trace_refl this, of False] have "queue_trace False eq_new [?ev] [] ?q1"
    by (simp add: eq_new_def)
  from trace_dequeue [OF this, of False ?ev "EQ [] 1024 1 False False []"]
  have "queue_trace False eq_new [?ev] [?ev] (EQ [] 1024 1 False False [])" by simp
  from this queue_fifo [OF this] show ?thesis by blast
qed

lemma eq_at_one: "eq_at [i] q = (if i < length (eq_children q) then Some (eq_children q ! i) else None)"
  by (cases q) simp

text \<open>
  A tapped queue receives exactly the events that are enqueued to its parent after
  the tap, in order, while the parent keeps receiving them too.
\<close>

theorem tap_receives_later_events:
  assumes "queue_reachable py313 q" and "\<not> eq_closed q" and "tap q = (i, q1)"
    and "enqueue_all evs q1 = (Done (), q2)"
  shows "eq_items q2 = eq_items q @ evs \<and> map_option eq_items (eq_at [i] q2) = Some evs"
proof -
  have w: "eq_wf py313 q1"
    using eq_wf_tap [OF reachable_eq_wf [OF assms(1)]] assms(3) by simp
  have q1: "eq_items q1 = eq_items q" "eq_closed q1 = eq_closed q" "eq_children q1 = eq_children q @ [eq_new]"
    "i = length (eq_children q)"
    using assms(3) by (cases q; auto)+
  have q2: "q2 = foldl (\<lambda>q ev. broadcast ev q) q1 evs" using enqueue_all_done [OF w assms(4)] .
  have n: "\<not> eq_closed eq_new" by (simp add: eq_new_def)
  from fold_broadcast [of q1 evs] fold_broadcast [OF n, of evs] q1 assms(2) q2
  show ?thesis by (simp add: eq_at_one nth_append eq_new_def)
qed

theorem tap_receives_later_events_witness:
  "\<exists>q2. enqueue_all [EvMessage sample_message] (snd (tap eq_new)) = (Done (), q2) \<and>
     map_option eq_items (eq_at [0] q2) = Some [EvMessage sample_message]"
proof -
  have a: "queue_reachable True eq_new" by (rule reach_new [OF eq_init_default])
  have b: "enqueue_all [EvMessage sample_message] (snd (tap eq_new)) =
      (Done (), EQ [EvMessage sample_message] 1024 1 False False [EQ [EvMessage sample_message] 1024 1 False False []])"
    by (simp add: eq_new_def DEFAULT_MAX_QUEUE_SIZE_def)
  show ?thesis
    using tap_receives_later_events [OF a _ tapped_new b [unfolded tapped_new snd_conv]] b by (simp add: eq_new_def)
qed

lemma eq_at_closed_empty:
  "eq_at p (closed_empty py313 q) = Some n \<Longrightarrow> eq_closed n \<and> eq_items n = []"
proof (induction p arbitrary: q)
  case Nil
  then show ?case by (cases q) auto
next
  case (Cons i p)
  then show ?case by (cases q) (auto split: if_splits)
qed

lemma closed_queue_facts:
  assumes "eq_wf py313 q" and "eq_closed q"
  shows "enqueue_event ev q = (Done (), q)"
    and "fst (dequeue_event py313 no_wait q) =
      (case eq_items q of x # xs \<Rightarrow> Done x | [] \<Rightarrow> Raised (if py313 then QueueShutDown else QueueEmpty))"
  using assms by (cases q; auto split: list.split)+

text \<open>
  Claim C24. After \<open>close\<close> a queue is closed for good: later events are dropped; what was pending
  can still be dequeued after a graceful close and is gone after an immediate one, which
  also closes and empties every queue tapped below it; and once it is empty a consumer
  sees the closed signal of its Python version instead of waiting.
\<close>

theorem close_semantics:
  assumes "queue_reachable py313 q"
  shows "eq_closed (snd (close_queue py313 immediate q)) \<and>
         enqueue_event ev (snd (close_queue py313 immediate q)) = (Done (), snd (close_queue py313 immediate q)) \<and>
         eq_items (snd (close_queue py313 immediate q)) = (if immediate then [] else eq_items q) \<and>
         fst (dequeue_event py313 no_wait (snd (close_queue py313 immediate q))) =
           (case eq_items (snd (close_queue py313 immediate q)) of
              x # xs \<Rightarrow> Done x
            | [] \<Rightarrow> Raised (if py313 then QueueShutDown else QueueEmpty)) \<and>
         (\<forall>p n. eq_at p (snd (close_queue py313 True q)) = Some n \<longrightarrow> eq_closed n \<and> eq_items n = [])"
proof -
  let ?q = "snd (close_queue py313 immediate q)"
  have w: "eq_wf py313 q" using reachable_eq_wf [OF assms] .
  have n: "snd (close_queue py313 True q) = closed_empty py313 q"
    using close_now_wf(1) [OF w] by (simp add: close_queue_def)
  have c: "eq_closed ?q" and i: "eq_items ?q = (if immediate then [] else eq_items q)"
    using n by (cases immediate; cases q; simp add: close_queue_def Let_def)+
  from closed_queue_facts [OF eq_wf_close [OF w] c] c i n show ?thesis
    by (auto dest: eq_at_closed_empty)
qed

theorem close_semantics_witness:
  "fst (dequeue_event True False (snd (close_queue True True (snd (tap eq_new))))) = Raised QueueShutDown \<and>
   map_option eq_closed (eq_at [0] (snd (close_queue True True (snd (tap eq_new))))) = Some True"
proof -
  have n: "snd (close_queue True True (snd (tap eq_new))) = closed_empty True (snd (tap eq_new))"
    using close_now_wf(1) [OF reachable_eq_wf [OF reachable_tapped]] by (simp add: close_queue_def)
  obtain m where m: "eq_at [0] (snd (close_queue True True (snd (tap eq_new)))) = Some m"
    unfolding n by (simp add: eq_new_def)
  from close_semantics [OF reachable_tapped, of True True undefined False] m show ?thesis by auto
qed

end
