(* ===== verification/EventConsumer.thy ===== *)
theory EventConsumer
  imports EventQueue
begin

section \<open>The event consumer (server/events/event_consumer.py)\<close>

text \<open>
  \<open>consume_all\<close> is a polling loop over one queue. One pass of the loop is \<open>consume_pass\<close>: it
  looks at \<open>_exception\<close>, then at what \<open>dequeue_event\<close> does within the timeout (a wait that does
  not end in time is the \<open>TimeoutError\<close> that continues the loop). What other coroutines do
  between two passes is explicit: a schedule gives, for each pass, the queue operations
  performed since the last one and the call of \<open>agent_task_callback\<close>, if any. The loop over a
  finite schedule either ended, raised, or is still polling.
\<close>

definition is_final_event :: "Event \<Rightarrow> bool" where
  "is_final_event event =
     (case event of
        EvStatus e \<Rightarrow> sue_final e
      | EvMessage m \<Rightarrow> True
      | EvTask t \<Rightarrow> status_state (task_status t) \<in>
          {completed, canceled, failed, rejected, unknown, input_required}
      | EvArtifact e \<Rightarrow> False)"

definition consume_one :: "bool \<Rightarrow> EventQueue \<Rightarrow> (exn + Event) \<times> EventQueue" where
  "consume_one py313 q =
     (case dequeue_event py313 True q of
        (Done ev, q1) \<Rightarrow> (case task_done q1 of (Inl e, q2) \<Rightarrow> (Inl e, q2) | (Inr _, q2) \<Rightarrow> (Inr ev, q2))
      | (Blocked, q1) \<Rightarrow> (Inl QueueEmpty, q1)
      | (Raised e, q1) \<Rightarrow>
          (if e = QueueEmpty
           then (Inl (raise_server (InternalError\<lparr>err_message := Some ''Agent did not return any response''\<rparr>)), q1)
           else (Inl e, q1)))"

datatype consume_result = C_Yield Event | C_Last Event | C_Stop | C_Again | C_Raise exn

definition consume_pass ::
  "bool \<Rightarrow> exn option \<Rightarrow> EventQueue \<Rightarrow> consume_result \<times> exn option \<times> EventQueue" where
  "consume_pass py313 exc q =
     (case exc of
        Some e \<Rightarrow> (C_Raise e, exc, q)
      | None \<Rightarrow>
          (case dequeue_event py313 False q of
             (Done ev, q1) \<Rightarrow>
               (case task_done q1 of
                  (Inl e, q2) \<Rightarrow> (C_Again, Some e, q2)
                | (Inr _, q2) \<Rightarrow>
                    if is_final_event ev
                    then (case close_now py313 q2 of
                            (Inl e, q3) \<Rightarrow> (C_Again, Some e, q3)
                          | (Inr _, q3) \<Rightarrow> (C_Last ev, None, q3))
                    else (C_Yield ev, None, q2))
           | (Blocked, q1) \<Rightarrow> (C_Again, None, q1)
           | (Raised e, q1) \<Rightarrow>
               if e = QueueEmpty \<or> (py313 \<and> e = QueueShutDown)
               then (if is_closed q1 then (C_Stop, None, q1) else (C_Again, None, q1))
               else (C_Again, Some e, q1)))"

text \<open>\<open>agent_task_callback\<close>: the exception of the finished agent task, or \<open>None\<close>.\<close>

definition agent_task_callback :: "bool \<Rightarrow> bool \<Rightarrow> exn option \<Rightarrow> exn option \<Rightarrow> exn option" where
  "agent_task_callback cancelled done exception exc = (if \<not> cancelled \<and> done then exception else exc)"

datatype consume_end = C_Ended | C_Failed exn | C_Polling

type_synonym schedule = "(queue_op list \<times> (bool \<times> bool \<times> exn option) option) list"

definition disturb ::
  "bool \<Rightarrow> queue_op list \<times> (bool \<times> bool \<times> exn option) option \<Rightarrow> exn option \<Rightarrow> EventQueue \<Rightarrow>
   exn option \<times> EventQueue" where
  "disturb py313 s exc q =
     ((case snd s of None \<Rightarrow> exc | Some (cancelled, done, e) \<Rightarrow> agent_task_callback cancelled done e exc),
      foldl (\<lambda>q op. apply_op py313 op q) q (fst s))"

fun consume_all ::
  "bool \<Rightarrow> schedule \<Rightarrow> exn option \<Rightarrow> EventQueue \<Rightarrow> Event list \<times> consume_end \<times> EventQueue" where
  "consume_all py313 [] exc q = ([], C_Polling, q)"
| "consume_all py313 (s # sched) exc q =
     (let (exc1, q1) = disturb py313 s exc q in
      case consume_pass py313 exc1 q1 of
        (C_Raise e, exc2, q2) \<Rightarrow> ([], C_Failed e, q2)
      | (C_Stop, exc2, q2) \<Rightarrow> ([], C_Ended, q2)
      | (C_Last ev, exc2, q2) \<Rightarrow> ([ev], C_Ended, q2)
      | (C_Yield ev, exc2, q2) \<Rightarrow>
          (let (evs, r, q3) = consume_all py313 sched exc2 q2 in (ev # evs, r, q3))
      | (C_Again, exc2, q2) \<Rightarrow> consume_all py313 sched exc2 q2)"

subsection \<open>Specification\<close>

text \<open>The events a consumer of the list \<open>evs\<close> sees: up to and including the first final one.\<close>

fun upto_final :: "Event list \<Rightarrow> Event list" where
  "upto_final [] = []"
| "upto_final (ev # evs) = (if is_final_event ev then [ev] else ev # upto_final evs)"

lemma upto_final_prefix: "\<exists>rest. evs = upto_final evs @ rest"
  by (induction evs) auto

lemma upto_final_no_final: "list_ex is_final_event evs = False \<Longrightarrow> upto_final evs = evs"
  by (induction evs) auto

definition finals_last :: "Event list \<Rightarrow> bool" where
  "finals_last evs \<longleftrightarrow> list_ex is_final_event (butlast evs) = False"

lemma finals_last_Cons: "\<not> is_final_event ev \<Longrightarrow> finals_last evs \<Longrightarrow> finals_last (ev # evs)"
  by (auto simp: finals_last_def)

lemma consume_pass_yield: "consume_pass py313 exc q = (C_Yield ev, exc2, q2) \<Longrightarrow> \<not> is_final_event ev"
  by (auto simp: consume_pass_def split: option.splits prod.splits await.splits sum.splits if_splits)

lemma consume_pass_last:
  "consume_pass py313 exc q = (C_Last ev, exc2, q2) \<Longrightarrow>
   is_final_event ev \<and> (\<exists>q1. close_now py313 q1 = (Inr (), q2))"
  by (auto simp: consume_pass_def split: option.splits prod.splits await.splits sum.splits if_splits)

lemma consume_all_finals_last:
  "consume_all py313 sched exc q = (evs, r, q') \<Longrightarrow>
   finals_last evs \<and> (evs \<noteq> [] \<longrightarrow> is_final_event (last evs) \<longrightarrow> r = C_Ended)"
proof (induction py313 sched exc q arbitrary: evs r q' rule: consume_all.induct)
  case (2 py313 s sched exc q)
  obtain exc1 q1 where d: "disturb py313 s exc q = (exc1, q1)" by (cases "disturb py313 s exc q")
  obtain c exc2 q2 where p: "consume_pass py313 exc1 q1 = (c, exc2, q2)"
    by (cases "consume_pass py313 exc1 q1")
  show ?case
  proof (cases c)
    case (C_Yield ev)
    obtain evs1 r1 q3 where rec: "consume_all py313 sched exc2 q2 = (evs1, r1, q3)"
      by (cases "consume_all py313 sched exc2 q2")
    from "2.prems" d p C_Yield rec have e: "evs = ev # evs1" "r = r1" by auto
    note ih = "2.IH"(1) [OF d [symmetric] refl p [unfolded C_Yield, symmetric] refl refl rec]
    have "\<not> is_final_event ev" using consume_pass_yield [of py313 exc1 q1 ev] p C_Yield by simp
    with ih e finals_last_Cons show ?thesis by auto
  next
    case C_Again
    with "2.prems" d p have "consume_all py313 sched exc2 q2 = (evs, r, q')" by simp
    from "2.IH"(2) [OF d [symmetric] refl p [unfolded C_Again, symmetric] refl refl this] show ?thesis .
  qed (use "2.prems" d p in \<open>auto simp: finals_last_def\<close>)
qed (simp add: finals_last_def)

subsection \<open>An undisturbed consumer\<close>

text \<open>Polling passes between which nothing else runs.\<close>

definition quiet :: "nat \<Rightarrow> schedule" where
  "quiet n = replicate n ([], None)"

lemma disturb_quiet [simp]: "disturb py313 ([], None) exc q = (exc, q)"
  by (simp add: disturb_def)

lemma consume_pass_item:
  assumes "eq_wf py313 q" and "eq_items q = ev # rest"
  shows "\<exists>q2. eq_wf py313 q2 \<and> eq_items q2 = rest \<and> eq_closed q2 = eq_closed q \<and>
      consume_pass py313 None q =
        (if is_final_event ev then (C_Last ev, None, closed_empty py313 q2) else (C_Yield ev, None, q2))"
proof (cases q)
  case (EQ items mx unf sd cl ch)
  let ?q2 = "EQ rest mx (unf - 1) sd cl ch"
  have w: "eq_wf py313 ?q2" using assms EQ by auto
  have "consume_pass py313 None q =
      (if is_final_event ev then (C_Last ev, None, closed_empty py313 ?q2) else (C_Yield ev, None, ?q2))"
    using assms EQ close_now_wf(1) [OF w] by (auto simp: consume_pass_def)
  moreover have "eq_items ?q2 = rest" "eq_closed ?q2 = eq_closed q" using EQ by simp_all
  ultimately show ?thesis using w by blast
qed

lemma consume_pass_empty:
  assumes "eq_wf py313 q" and "eq_items q = []"
  shows "consume_pass py313 None q = (if eq_closed q then (C_Stop, None, q) else (C_Again, None, q))"
  using assms by (cases q) (auto simp: consume_pass_def)

lemma consume_quiet_empty:
  "eq_wf py313 q \<Longrightarrow> eq_items q = [] \<Longrightarrow>
   consume_all py313 (quiet (Suc n)) None q = ([], if eq_closed q then C_Ended else C_Polling, q)"
proof (induction n)
  case 0
  then show ?case by (simp add: quiet_def consume_pass_empty)
next
  case (Suc n)
  from Suc.IH [OF Suc.prems] Suc.prems show ?case
    by (cases "eq_closed q") (simp_all add: quiet_def consume_pass_empty)
qed

lemma consume_quiet:
  "eq_wf py313 q \<Longrightarrow> length (eq_items q) < n \<Longrightarrow>
   \<exists>q'. consume_all py313 (quiet n) None q =
     (upto_final (eq_items q),
      if list_ex is_final_event (eq_items q) \<or> eq_closed q then C_Ended else C_Polling, q')"
proof (induction "eq_items q" arbitrary: q n)
  case Nil
  then obtain m where "n = Suc m" by (cases n) auto
  with consume_quiet_empty [of py313 q m] Nil show ?case by simp
next
  case (Cons ev rest)
  from Cons.prems(2) Cons.hyps(2) obtain m where n: "n = Suc m" by (cases n) auto
  from consume_pass_item [OF Cons.prems(1) Cons.hyps(2) [symmetric]] obtain q2 where
    q2: "eq_wf py313 q2" "eq_items q2 = rest" "eq_closed q2 = eq_closed q"
    and p: "consume_pass py313 None q =
      (if is_final_event ev then (C_Last ev, None, closed_empty py313 q2) else (C_Yield ev, None, q2))"
    by blast
  have l: "length (eq_items q2) < m" using Cons.prems(2) q2(2) n unfolding Cons.hyps(2) [symmetric] by simp
  show ?case
  proof (cases "is_final_event ev")
    case True
    with p n Cons.hyps(2) [symmetric] show ?thesis by (simp add: quiet_def)
  next
    case False
    from Cons.hyps(1) [OF q2(2) [symmetric] q2(1) l] False p n Cons.hyps(2) [symmetric] q2 show ?thesis
      by (auto simp: quiet_def)
  qed
qed

subsection \<open>Properties\<close>

text \<open>
  Whatever other coroutines do between its passes, a consumer never yields an event
  after a final one, and it ends as soon as it has yielded a final event.
\<close>

theorem nothing_after_final_event:
  assumes "consume_all py313 sched exc q = (evs, r, q')"
  shows "list_ex is_final_event (butlast evs) = False \<and>
         (if evs \<noteq> [] \<and> is_final_event (last evs) then r = C_Ended else True)"
  using consume_all_finals_last [OF assms] by (auto simp: finals_last_def)

theorem nothing_after_final_event_witness:
  "\<exists>evs r q'. consume_all True [([Op_Enqueue (EvMessage sample_message)], None), ([], None)] None eq_new = (evs, r, q') \<and>
     evs = [EvMessage sample_message] \<and> r = C_Ended"
proof -
  obtain evs r q' where c: "consume_all True [([Op_Enqueue (EvMessage sample_message)], None), ([], None)] None eq_new = (evs, r, q')"
    by (cases "consume_all True [([Op_Enqueue (EvMessage sample_message)], None), ([], None)] None eq_new")
  let ?q = "EQ [EvMessage sample_message] 1024 1 False False []"
  have w: "eq_wf True ?q" by simp
  have d: "disturb True ([Op_Enqueue (EvMessage sample_message)], None) None eq_new = (None, ?q)"
    by (simp add: disturb_def eq_new_def DEFAULT_MAX_QUEUE_SIZE_def)
  from consume_pass_item [OF w] obtain q2 where
    p: "consume_pass True None ?q = (C_Last (EvMessage sample_message), None, closed_empty True q2)"
    by (auto simp: is_final_event_def)
  have e: "evs = [EvMessage sample_message]" using c unfolding consume_all.simps d Let_def prod.case p by simp
  from nothing_after_final_event [OF c] e have "r = C_Ended" by (simp add: is_final_event_def)
  with c e show ?thesis by simp
qed

text \<open>
  Claim C16. Left alone with a queue, a consumer yields the pending events in order up to and
  including the first final one, and ends if there is one or if the queue is closed; otherwise
  it keeps polling. One pass more than there are events is enough.
\<close>

theorem consumer_drains_queue:
  assumes "queue_reachable py313 q" and "length (eq_items q) < n"
  shows "\<exists>q'. consume_all py313 (quiet n) None q =
     (upto_final (eq_items q),
      if list_ex is_final_event (eq_items q) \<or> eq_closed q then C_Ended else C_Polling, q')"
  by (rule consume_quiet [OF reachable_eq_wf [OF assms(1)] assms(2)])

theorem consumer_drains_queue_witness:
  "\<exists>q'. consume_all True (quiet 3) None (snd (close_queue True False eq_new)) = ([], C_Ended, q')"
proof -
  have a: "queue_reachable True eq_new" by (rule reach_new [OF eq_init_default])
  have "queue_step True [] (Op_Close False) eq_new (eq_update [] (apply_op True (Op_Close False)) eq_new)"
    by (rule step_at) simp
  from reach_step [OF a this] have b: "queue_reachable True (snd (close_queue True False eq_new))" by simp
  have c: "eq_items (snd (close_queue True False eq_new)) = []" "eq_closed (snd (close_queue True False eq_new))"
    by (simp_all add: close_queue_def eq_new_def)
  show ?thesis using consumer_drains_queue [OF b, of 3] c by simp
qed

text \<open>
  An exception of the agent overtakes its events: once the callback has stored it, the
  next pass raises it, and whatever is still in the queue, a final event included, is not
  yielded.
\<close>

theorem agent_exception_overtakes_events:
  "consume_all py313 ((ops, Some (False, True, Some e)) # sched) exc q =
     ([], C_Failed e, foldl (\<lambda>q op. apply_op py313 op q) q ops) \<and>
   consume_all py313 ((ops, Some (True, done, x)) # sched) exc q = consume_all py313 ((ops, None) # sched) exc q"
  by (simp add: disturb_def agent_task_callback_def consume_pass_def)

text \<open>
  \<open>consume_one\<close> never waits: on a reachable queue it returns the oldest event and marks it
  done, or, when there is none, reports that the agent did not respond (on Python 3.13 a
  closed queue reports the shutdown).
\<close>

theorem consume_one_total:
  assumes "queue_reachable py313 q"
  shows "(case eq_items q of
            ev # rest \<Rightarrow> fst (consume_one py313 q) = Inr ev \<and> eq_items (snd (consume_one py313 q)) = rest \<and>
                         Suc (eq_unfinished (snd (consume_one py313 q))) = eq_unfinished q
          | [] \<Rightarrow> snd (consume_one py313 q) = q \<and>
                 fst (consume_one py313 q) =
                   Inl (if py313 \<and> eq_closed q then QueueShutDown
                        else raise_server (InternalError\<lparr>err_message := Some ''Agent did not return any response''\<rparr>)))"
  using reachable_eq_wf [OF assms] by (cases q) (auto simp: consume_one_def split: list.splits)

theorem consume_one_total_witness:
  "fst (consume_one True eq_new) =
     Inl (raise_server (InternalError\<lparr>err_message := Some ''Agent did not return any response''\<rparr>))"
  using consume_one_total [OF reach_new [OF eq_init_default], of True] by (simp add: eq_new_def)

end
