(* ===== verification/ResultAggregator.thy ===== *)
theory ResultAggregator
  imports TaskManager EventConsumer
begin

section \<open>The result aggregator (server/tasks/result_aggregator.py)\<close>

text \<open>
  The aggregator feeds the events that a consumer yields to a task manager. A consumption is
  given by the events it yields and how it ends (\<open>consume_all\<close> of the consumer): it ended, it
  raised, or it is still polling, in which case the aggregator waits too. The state is the
  task manager and the message seen last.
\<close>

record ResultAggregator =
  ra_task_manager :: TaskManager
  ra_message :: "Message option"

definition ra_init :: "TaskManager \<Rightarrow> ResultAggregator" where
  "ra_init tm = \<lparr>ra_task_manager = tm, ra_message = None\<rparr>"

text \<open>\<open>Task | Message | None\<close>, the task by reference.\<close>

datatype agg_result = AR_Message Message | AR_Task addr | AR_None

definition ra_get_task ::
  "'st store_ops \<Rightarrow> ResultAggregator \<Rightarrow> 'st store_state \<Rightarrow> agg_result \<times> ResultAggregator \<times> 'st store_state" where
  "ra_get_task ops ra w =
     (let (r, tm, w') = tm_get_task ops (ra_task_manager ra) w
      in (case r of None \<Rightarrow> AR_None | Some a \<Rightarrow> AR_Task a, ra\<lparr>ra_task_manager := tm\<rparr>, w'))"

definition current_result ::
  "'st store_ops \<Rightarrow> ResultAggregator \<Rightarrow> 'st store_state \<Rightarrow> agg_result \<times> ResultAggregator \<times> 'st store_state" where
  "current_result ops ra w =
     (case ra_message ra of Some m \<Rightarrow> (AR_Message m, ra, w) | None \<Rightarrow> ra_get_task ops ra w)"

definition ra_process ::
  "'st store_ops \<Rightarrow> Event \<Rightarrow> ResultAggregator \<Rightarrow> 'st store_state \<Rightarrow>
   (exn + Event) \<times> ResultAggregator \<times> 'st store_state" where
  "ra_process ops ev ra w =
     (let (r, tm, w') = tm_process ops ev (ra_task_manager ra) w in (r, ra\<lparr>ra_task_manager := tm\<rparr>, w'))"

text \<open>What the end of the stream means for a loop over it.\<close>

fun end_await :: "consume_end \<Rightarrow> 'a \<Rightarrow> 'a await" where
  "end_await C_Ended x = Done x"
| "end_await (C_Failed e) x = Raised e"
| "end_await C_Polling x = Blocked"

fun consume_and_emit ::
  "'st store_ops \<Rightarrow> Event list \<Rightarrow> consume_end \<Rightarrow> ResultAggregator \<Rightarrow> 'st store_state \<Rightarrow>
   (Event list \<times> unit await) \<times> ResultAggregator \<times> 'st store_state" where
  "consume_and_emit ops [] en ra w = (([], end_await en ()), ra, w)"
| "consume_and_emit ops (ev # evs) en ra w =
     (case ra_process ops ev ra w of
        (Inl e, ra', w') \<Rightarrow> (([], Raised e), ra', w')
      | (Inr _, ra', w') \<Rightarrow>
          (let ((out, r), s) = consume_and_emit ops evs en ra' w' in ((ev # out, r), s)))"

fun ra_consume_all ::
  "'st store_ops \<Rightarrow> Event list \<Rightarrow> consume_end \<Rightarrow> ResultAggregator \<Rightarrow> 'st store_state \<Rightarrow>
   agg_result await \<times> ResultAggregator \<times> 'st store_state" where
  "ra_consume_all ops [] en ra w =
     (case en of
        C_Ended \<Rightarrow> (let (r, s) = ra_get_task ops ra w in (Done r, s))
      | C_Failed e \<Rightarrow> (Raised e, ra, w)
      | C_Polling \<Rightarrow> (Blocked, ra, w))"
| "ra_consume_all ops (ev # evs) en ra w =
     (case ev of
        EvMessage m \<Rightarrow> (Done (AR_Message m), ra\<lparr>ra_message := Some m\<rparr>, w)
      | _ \<Rightarrow>
          (case ra_process ops ev ra w of
             (Inl e, ra', w') \<Rightarrow> (Raised e, ra', w')
           | (Inr _, ra', w') \<Rightarrow> ra_consume_all ops evs en ra' w'))"

definition is_auth_required :: "Event \<Rightarrow> bool" where
  "is_auth_required ev =
     (case ev of
        EvTask t \<Rightarrow> status_state (task_status t) = auth_required
      | EvStatus e \<Rightarrow> status_state (sue_status e) = auth_required
      | _ \<Rightarrow> False)"

text \<open>
  The result, whether the call was interrupted, and the events that the background task
  started by an interruption still has to consume.
\<close>

fun consume_and_break_on_interrupt ::
  "'st store_ops \<Rightarrow> bool \<Rightarrow> Event list \<Rightarrow> consume_end \<Rightarrow> ResultAggregator \<Rightarrow> 'st store_state \<Rightarrow>
   ((agg_result \<times> bool) await \<times> Event list) \<times> ResultAggregator \<times> 'st store_state" where
  "consume_and_break_on_interrupt ops blocking [] en ra w =
     (case en of
        C_Ended \<Rightarrow> (let (r, s) = ra_get_task ops ra w in ((Done (r, False), []), s))
      | C_Failed e \<Rightarrow> ((Raised e, []), ra, w)
      | C_Polling \<Rightarrow> ((Blocked, []), ra, w))"
| "consume_and_break_on_interrupt ops blocking (ev # evs) en ra w =
     (case ev of
        EvMessage m \<Rightarrow> ((Done (AR_Message m, False), []), ra\<lparr>ra_message := Some m\<rparr>, w)
      | _ \<Rightarrow>
          (case ra_process ops ev ra w of
             (Inl e, ra', w') \<Rightarrow> ((Raised e, []), ra', w')
           | (Inr _, ra', w') \<Rightarrow>
               if is_auth_required ev \<or> \<not> blocking
               then (let (r, s) = ra_get_task ops ra' w' in ((Done (r, True), evs), s))
               else consume_and_break_on_interrupt ops blocking evs en ra' w'))"

text \<open>The background task: it processes the rest and calls back after each event.\<close>

fun continue_consuming ::
  "'st store_ops \<Rightarrow> (ResultAggregator \<Rightarrow> 'st store_state \<Rightarrow> 'c \<Rightarrow> ResultAggregator \<times> 'st store_state \<times> 'c) \<Rightarrow>
   Event list \<Rightarrow> consume_end \<Rightarrow> ResultAggregator \<Rightarrow> 'st store_state \<Rightarrow> 'c \<Rightarrow>
   unit await \<times> ResultAggregator \<times> 'st store_state \<times> 'c" where
  "continue_consuming ops callback [] en ra w c = (end_await en (), ra, w, c)"
| "continue_consuming ops callback (ev # evs) en ra w c =
     (case ra_process ops ev ra w of
        (Inl e, ra', w') \<Rightarrow> (Raised e, ra', w', c)
      | (Inr _, ra', w') \<Rightarrow>
          (let (ra2, w2, c2) = callback ra' w' c in continue_consuming ops callback evs en ra2 w2 c2))"

subsection \<open>Lemmas\<close>

definition no_message :: "Event list \<Rightarrow> bool" where
  "no_message evs = list_all (\<lambda>ev. as_task_event ev \<noteq> None) evs"

lemma ra_process_simp:
  "tm_process ops ev (ra_task_manager ra) w = (r, tm, w') \<Longrightarrow>
   ra_process ops ev ra w = (r, ra\<lparr>ra_task_manager := tm\<rparr>, w')"
  by (simp add: ra_process_def)

lemma consume_all_processes:
  "no_message evs \<Longrightarrow>
   ra_consume_all ops evs en ra w =
     (case tm_process_all ops evs (ra_task_manager ra) w of
        (Inl e, tm, w') \<Rightarrow> (Raised e, ra\<lparr>ra_task_manager := tm\<rparr>, w')
      | (Inr _, tm, w') \<Rightarrow> ra_consume_all ops [] en (ra\<lparr>ra_task_manager := tm\<rparr>) w')"
proof (induction evs arbitrary: ra w)
  case (Cons ev evs)
  obtain r tm w1 where p: "tm_process ops ev (ra_task_manager ra) w = (r, tm, w1)"
    by (cases "tm_process ops ev (ra_task_manager ra) w")
  from Cons.prems have n: "no_message evs" and "as_task_event ev \<noteq> None"
    by (simp_all add: no_message_def)
  then have "ra_consume_all ops (ev # evs) en ra w =
      (case ra_process ops ev ra w of
         (Inl e, ra', w') \<Rightarrow> (Raised e, ra', w')
       | (Inr _, ra', w') \<Rightarrow> ra_consume_all ops evs en ra' w')"
    by (cases ev) simp_all
  with p ra_process_simp [OF p] Cons.IH [OF n] show ?case
    by (cases r) (simp_all del: ra_consume_all.simps split: sum.split prod.split)
qed simp

lemma break_processes:
  "no_message evs \<Longrightarrow> \<not> list_ex is_auth_required evs \<Longrightarrow>
   consume_and_break_on_interrupt ops True evs en ra w =
     (case tm_process_all ops evs (ra_task_manager ra) w of
        (Inl e, tm, w') \<Rightarrow> ((Raised e, []), ra\<lparr>ra_task_manager := tm\<rparr>, w')
      | (Inr _, tm, w') \<Rightarrow> consume_and_break_on_interrupt ops True [] en (ra\<lparr>ra_task_manager := tm\<rparr>) w')"
proof (induction evs arbitrary: ra w)
  case (Cons ev evs)
  obtain r tm w1 where p: "tm_process ops ev (ra_task_manager ra) w = (r, tm, w1)"
    by (cases "tm_process ops ev (ra_task_manager ra) w")
  from Cons.prems have n: "no_message evs" "\<not> list_ex is_auth_required evs" "\<not> is_auth_required ev"
    and "as_task_event ev \<noteq> None"
    by (simp_all add: no_message_def)
  then have "consume_and_break_on_interrupt ops True (ev # evs) en ra w =
      (case ra_process ops ev ra w of
         (Inl e, ra', w') \<Rightarrow> ((Raised e, []), ra', w')
       | (Inr _, ra', w') \<Rightarrow> consume_and_break_on_interrupt ops True evs en ra' w')"
    by (cases ev) (simp_all add: is_auth_required_def split: sum.split prod.split)
  with p ra_process_simp [OF p] Cons.IH [OF n(1,2)] show ?case
    by (cases r) (simp_all del: consume_and_break_on_interrupt.simps split: sum.split prod.split)
qed simp

lemma tm_process_all_append:
  "tm_process_all ops (xs @ ys) tm w =
     (case tm_process_all ops xs tm w of
        (Inl e, tm', w') \<Rightarrow> (Inl e, tm', w')
      | (Inr _, tm', w') \<Rightarrow> tm_process_all ops ys tm' w')"
  by (induction xs arbitrary: tm w) (auto split: sum.splits prod.splits)

lemma emit_processes:
  "consume_and_emit ops evs en ra w = ((out, r), ra', w') \<Longrightarrow>
   tm_process_all ops evs (ra_task_manager ra) w =
     (case r of Raised e \<Rightarrow> (if out = evs \<and> en = C_Failed e then Inr () else Inl e) | _ \<Rightarrow> Inr (),
      ra_task_manager ra', w') \<and>
   (\<exists>rest. evs = out @ rest) \<and> ra_message ra' = ra_message ra"
proof (induction evs arbitrary: ra w out r ra' w')
  case Nil
  then show ?case by (cases en) auto
next
  case (Cons ev evs)
  obtain r1 tm w1 where p: "tm_process ops ev (ra_task_manager ra) w = (r1, tm, w1)"
    by (cases "tm_process ops ev (ra_task_manager ra) w")
  show ?case
  proof (cases r1)
    case (Inl e)
    with Cons.prems p ra_process_simp [OF p] show ?thesis by auto
  next
    case (Inr x)
    obtain out1 r2 ra2 w2 where c: "consume_and_emit ops evs en (ra\<lparr>ra_task_manager := tm\<rparr>) w1 = ((out1, r2), ra2, w2)"
      by (metis prod.exhaust)
    from Cons.IH [OF c] Cons.prems p ra_process_simp [OF p] Inr c show ?thesis
      by (auto split: await.splits)
  qed
qed

text \<open>
  The callback of a message call (\<open>push_notification_callback\<close>): look up the current result and,
  when it is a task, notify with the task as it is now.
\<close>

definition push_callback ::
  "'st store_ops \<Rightarrow> bool \<Rightarrow> ResultAggregator \<Rightarrow> 'st store_state \<Rightarrow> Task list \<Rightarrow>
   ResultAggregator \<times> 'st store_state \<times> Task list" where
  "push_callback ops enabled ra w sent =
     (if enabled
      then (let (r, ra', w') = current_result ops ra w
            in (ra', w', case r of AR_Task a \<Rightarrow> sent @ [obj w' a] | _ \<Rightarrow> sent))
      else (ra, w, sent))"

text \<open>The stored task that a list of events makes of a stored task.\<close>

definition spec_fold :: "Message option \<Rightarrow> Task option \<Rightarrow> Event list \<Rightarrow> Task option" where
  "spec_fold msg t evs = foldl (\<lambda>p te. Some (apply_task_event msg p te)) t (List.map_filter as_task_event evs)"

lemma spec_fold_simps:
  "spec_fold msg t [] = t"
  "spec_fold msg t (ev # evs) =
     spec_fold msg (case as_task_event ev of None \<Rightarrow> t | Some te \<Rightarrow> Some (apply_task_event msg t te)) evs"
  by (simp_all add: spec_fold_def map_filter_simps split: option.split)

context task_store
begin

lemma get_task_spec:
  assumes "inv w" and "tm_synced view tm w" and "tm_task_id tm = Some tid" and "tid \<noteq> []"
    and "view w tid = Some t"
  shows "\<exists>r tm' w'. tm_get_task ops tm w = (Some r, tm', w') \<and> obj w' r = t \<and> view w' = view w \<and> inv w' \<and>
     tm_synced view tm' w' \<and> tm_task_id tm' = tm_task_id tm \<and> tm_context_id tm' = tm_context_id tm \<and>
     tm_initial_message tm' = tm_initial_message tm"
proof (cases "tm_current_task tm")
  case None
  from get_Some [OF assms(1,5)] obtain r w' where
    g: "ts_get ops tid w = (Some r, w')" "live w' r" "obj w' r = t" "view w' = view w" "inv w'" by blast
  from view_id [OF assms(1,5)] have "task_id t = tid" .
  with g None assms show ?thesis
    by (auto simp: tm_get_task_def tm_synced_def)
next
  case (Some r)
  with assms show ?thesis by (auto simp: tm_get_task_def tm_synced_def)
qed

definition tm_for :: "string \<Rightarrow> string \<Rightarrow> Message option \<Rightarrow> TaskManager \<Rightarrow> 'st store_state \<Rightarrow> bool" where
  "tm_for tid ctx msg tm w \<longleftrightarrow>
     inv w \<and> tid \<noteq> [] \<and> tm_synced view tm w \<and> (truthy (tm_task_id tm) \<longrightarrow> tm_task_id tm = Some tid) \<and>
     (truthy (tm_context_id tm) \<longrightarrow> tm_context_id tm = Some ctx) \<and> tm_initial_message tm = msg"

lemma tm_process_step:
  assumes "tm_for tid ctx msg tm w" and "stream_of tid ctx ev"
  shows "\<exists>tm' w'. tm_process ops ev tm w = (Inr ev, tm', w') \<and> tm_for tid ctx msg tm' w' \<and>
     (as_task_event ev \<noteq> None \<longrightarrow> tm_task_id tm' = Some tid) \<and>
     view w' = (case as_task_event ev of None \<Rightarrow> view w
                | Some te \<Rightarrow> (view w)(tid \<mapsto> apply_task_event msg (view w tid) te))"
proof (cases "as_task_event ev")
  case None
  with assms show ?thesis by (auto simp: tm_process_def)
next
  case (Some te)
  with assms(2) have te: "te_task_id te = tid" "te_context_id te = ctx" by (auto simp: stream_of_def)
  with assms(1) have a: "te_task_id te \<noteq> []" "tm_accepts tm te"
    by (auto simp: tm_for_def tm_accepts_def)
  from assms(1) have i: "inv w" "tm_synced view tm w" by (simp_all add: tm_for_def)
  from tm_process_accepted [OF i Some a] obtain tm' w' where
    "tm_process ops ev tm w = (Inr ev, tm', w')" "saved_as tm w te tm' w'" by blast
  with assms(1) te Some show ?thesis by (auto simp: saved_as_def tm_for_def)
qed

lemma tm_for_init:
  "inv w \<Longrightarrow> tm_init (Some tid) ctx msg = Inr tm \<Longrightarrow> truthy ctx \<longrightarrow> ctx = Some c \<Longrightarrow> tm_for tid c msg tm w"
  by (auto simp: tm_init_def tm_for_def tm_synced_def split: if_splits)

text \<open>A background consumption with the notification callback.\<close>

lemma continue_spec:
  assumes "tm_for tid ctx msg (ra_task_manager ra) w" and "list_all (stream_of tid ctx) evs"
    and "no_message evs" and "ra_message ra = None"
  shows "\<exists>ra' w' sent'. continue_consuming ops (push_callback ops enabled) evs en ra w sent =
            (end_await en (), ra', w', sent') \<and>
         view w' = (view w)(tid := spec_fold msg (view w tid) evs) \<and>
         length sent' = length sent + (if enabled then length evs else 0)"
  using assms
proof (induction evs arbitrary: ra w sent)
  case Nil
  then show ?case by (simp add: spec_fold_simps)
next
  case (Cons ev evs)
  from Cons.prems obtain te where te: "as_task_event ev = Some te" by (auto simp: no_message_def)
  from Cons.prems have so: "stream_of tid ctx ev" by simp
  from tm_process_step [OF Cons.prems(1) so] te obtain tm1 w1 where
    p: "tm_process ops ev (ra_task_manager ra) w = (Inr ev, tm1, w1)" and f: "tm_for tid ctx msg tm1 w1"
    and ti: "tm_task_id tm1 = Some tid"
    and v: "view w1 = (view w)(tid \<mapsto> apply_task_event msg (view w tid) te)" by auto
  let ?ra1 = "ra\<lparr>ra_task_manager := tm1\<rparr>"
  let ?t = "apply_task_event msg (view w tid) te"
  have vt: "view w1 tid = Some ?t" using v by simp
  from f ti have g: "inv w1" "tm_synced view tm1 w1" "tm_task_id tm1 = Some tid" "tid \<noteq> []" by (simp_all add: tm_for_def)
  from get_task_spec [OF g vt] obtain r tm2 w2 where
    q: "tm_get_task ops tm1 w1 = (Some r, tm2, w2)" "obj w2 r = ?t" "view w2 = view w1"
    and f2: "tm_for tid ctx msg tm2 w2" using f by (auto simp: tm_for_def)
  obtain ra2 w3 sent2 where cb: "push_callback ops enabled ?ra1 w1 sent = (ra2, w3, sent2)"
    and ok: "tm_for tid ctx msg (ra_task_manager ra2) w3" "view w3 = view w1" "ra_message ra2 = None"
      "length sent2 = length sent + (if enabled then 1 else 0)"
  proof (cases enabled)
    case True
    have "push_callback ops enabled ?ra1 w1 sent = (?ra1\<lparr>ra_task_manager := tm2\<rparr>, w2, sent @ [?t])"
      using True q Cons.prems(4) by (simp add: push_callback_def current_result_def ra_get_task_def)
    with that f2 q(3) Cons.prems(4) True show ?thesis by simp
  next
    case False
    with that f Cons.prems(4) show ?thesis by (simp add: push_callback_def)
  qed
  from Cons.prems have "list_all (stream_of tid ctx) evs" "no_message evs" by (simp_all add: no_message_def)
  from Cons.IH [OF ok(1) this ok(3), of sent2] obtain ra' w' sent' where
    c: "continue_consuming ops (push_callback ops enabled) evs en ra2 w3 sent2 = (end_await en (), ra', w', sent')"
    and v': "view w' = (view w3)(tid := spec_fold msg (view w3 tid) evs)"
    and l: "length sent' = length sent2 + (if enabled then length evs else 0)" by blast
  have "continue_consuming ops (push_callback ops enabled) (ev # evs) en ra w sent = (end_await en (), ra', w', sent')"
    using ra_process_simp [OF p] cb c by simp
  moreover have "view w' = (view w)(tid := spec_fold msg (view w tid) (ev # evs))"
    using v' ok(2) v te by (simp add: spec_fold_simps cong: if_cong)
  ultimately show ?case using l ok(4) by auto
qed

lemma break_spec:
  assumes "tm_for tid ctx msg (ra_task_manager ra) w" and "list_all (stream_of tid ctx) evs"
    and "no_message evs" and "ra_message ra = None"
    and "evs = [] \<longrightarrow> view w tid \<noteq> None \<and> tm_task_id (ra_task_manager ra) = Some tid"
  shows "\<exists>pre rest r ra' w'.
           consume_and_break_on_interrupt ops blocking evs C_Ended ra w =
             ((Done (AR_Task r, pre \<noteq> [] \<and> (is_auth_required (last pre) \<or> \<not> blocking)), rest), ra', w') \<and>
           evs = pre @ rest \<and> (rest = [] \<or> pre \<noteq> [] \<and> (is_auth_required (last pre) \<or> \<not> blocking)) \<and>
           (blocking \<and> \<not> list_ex is_auth_required evs \<longrightarrow> rest = []) \<and>
           Some (obj w' r) = spec_fold msg (view w tid) pre \<and>
           view w' = (view w)(tid := spec_fold msg (view w tid) pre) \<and>
           tm_for tid ctx msg (ra_task_manager ra') w' \<and> ra_message ra' = None"
  using assms
proof (induction evs arbitrary: ra w)
  case Nil
  then obtain t where t: "view w tid = Some t" by auto
  from Nil.prems(1,5) have g: "inv w" "tm_synced view (ra_task_manager ra) w"
    "tm_task_id (ra_task_manager ra) = Some tid" "tid \<noteq> []" by (simp_all add: tm_for_def)
  from get_task_spec [OF g t] obtain r tm' w' where
    q: "tm_get_task ops (ra_task_manager ra) w = (Some r, tm', w')" "obj w' r = t" "view w' = view w"
    and f: "tm_for tid ctx msg tm' w'" using Nil.prems(1) by (auto simp: tm_for_def)
  with t Nil.prems(4) show ?case
    by (intro exI [of _ "[]"] exI [of _ r] exI [of _ "ra\<lparr>ra_task_manager := tm'\<rparr>"] exI [of _ w'])
      (simp add: ra_get_task_def spec_fold_simps fun_upd_idem)
next
  case (Cons ev evs)
  from Cons.prems obtain te where te: "as_task_event ev = Some te" by (auto simp: no_message_def)
  from Cons.prems have so: "stream_of tid ctx ev" by simp
  from tm_process_step [OF Cons.prems(1) so] te obtain tm1 w1 where
    p: "tm_process ops ev (ra_task_manager ra) w = (Inr ev, tm1, w1)" and f: "tm_for tid ctx msg tm1 w1"
    and ti: "tm_task_id tm1 = Some tid"
    and v: "view w1 = (view w)(tid \<mapsto> apply_task_event msg (view w tid) te)" by auto
  let ?ra1 = "ra\<lparr>ra_task_manager := tm1\<rparr>"
  let ?t = "apply_task_event msg (view w tid) te"
  have unf: "consume_and_break_on_interrupt ops blocking (ev # evs) C_Ended ra w =
      (if is_auth_required ev \<or> \<not> blocking
       then (let (r, s) = ra_get_task ops ?ra1 w1 in ((Done (r, True), evs), s))
       else consume_and_break_on_interrupt ops blocking evs C_Ended ?ra1 w1)"
    using te ra_process_simp [OF p] by (cases ev) (simp_all split: prod.split)
  show ?case
  proof (cases "is_auth_required ev \<or> \<not> blocking")
    case True
    have vt: "view w1 tid = Some ?t" using v by simp
    from f ti have g: "inv w1" "tm_synced view tm1 w1" "tm_task_id tm1 = Some tid" "tid \<noteq> []" by (simp_all add: tm_for_def)
    from get_task_spec [OF g vt] obtain r tm2 w2 where
      q: "tm_get_task ops tm1 w1 = (Some r, tm2, w2)" "obj w2 r = ?t" "view w2 = view w1"
      and f2: "tm_for tid ctx msg tm2 w2" using f by (auto simp: tm_for_def)
    with True unf v te Cons.prems(4) show ?thesis
      by (intro exI [of _ "[ev]"] exI [of _ evs] exI [of _ r] exI [of _ "?ra1\<lparr>ra_task_manager := tm2\<rparr>"] exI [of _ w2])
        (auto simp: ra_get_task_def spec_fold_simps)
  next
    case False
    have fold1: "spec_fold msg (view w1 tid) es = spec_fold msg (view w tid) (ev # es)" for es
      using v te by (simp add: spec_fold_simps)
    have prems: "tm_for tid ctx msg (ra_task_manager ?ra1) w1" "list_all (stream_of tid ctx) evs"
      "no_message evs" "ra_message ?ra1 = None"
      "evs = [] \<longrightarrow> view w1 tid \<noteq> None \<and> tm_task_id (ra_task_manager ?ra1) = Some tid"
      using Cons.prems f v ti by (simp_all add: no_message_def)
    from Cons.IH [OF prems] obtain pre rest r ra' w' where
      c: "consume_and_break_on_interrupt ops blocking evs C_Ended ?ra1 w1 =
             ((Done (AR_Task r, pre \<noteq> [] \<and> (is_auth_required (last pre) \<or> \<not> blocking)), rest), ra', w')"
      and e: "evs = pre @ rest" "rest = [] \<or> pre \<noteq> [] \<and> (is_auth_required (last pre) \<or> \<not> blocking)"
        "blocking \<and> \<not> list_ex is_auth_required evs \<longrightarrow> rest = []"
      and o: "Some (obj w' r) = spec_fold msg (view w1 tid) pre"
        "view w' = (view w1)(tid := spec_fold msg (view w1 tid) pre)"
        "tm_for tid ctx msg (ra_task_manager ra') w'" "ra_message ra' = None" by blast
    have "view w' = (view w)(tid := spec_fold msg (view w tid) (ev # pre))"
      using o(2) v fold1 by (simp cong: if_cong)
    note v' = this
    have flag: "(ev # pre \<noteq> [] \<and> (is_auth_required (last (ev # pre)) \<or> \<not> blocking)) =
        (pre \<noteq> [] \<and> (is_auth_required (last pre) \<or> \<not> blocking))"
      using False by auto
    have eq: "consume_and_break_on_interrupt ops blocking (ev # evs) C_Ended ra w =
        ((Done (AR_Task r, ev # pre \<noteq> [] \<and> (is_auth_required (last (ev # pre)) \<or> \<not> blocking)), rest), ra', w')"
      unfolding unf flag using False c by (simp del: consume_and_break_on_interrupt.simps)
    have "ev # evs = (ev # pre) @ rest" using e(1) by simp
    moreover have "rest = [] \<or> ev # pre \<noteq> [] \<and> (is_auth_required (last (ev # pre)) \<or> \<not> blocking)"
      using e(2) unfolding flag .
    moreover have "blocking \<and> \<not> list_ex is_auth_required (ev # evs) \<longrightarrow> rest = []"
      using e(3) by simp
    moreover have "Some (obj w' r) = spec_fold msg (view w tid) (ev # pre)"
      using o(1) fold1 by simp
    ultimately show ?thesis using eq v' o(3,4) by blast
  qed
qed

lemma blocking_spec:
  assumes "tm_for tid ctx msg (ra_task_manager ra) w" and "list_all (stream_of tid ctx) evs"
    and "no_message evs" and "ra_message ra = None" and "evs \<noteq> []" and "\<not> list_ex is_auth_required evs"
  shows "\<exists>r ra' w'. consume_and_break_on_interrupt ops True evs C_Ended ra w =
             ((Done (AR_Task r, False), []), ra', w') \<and>
           Some (obj w' r) = spec_fold msg (view w tid) evs \<and>
           view w' = (view w)(tid := spec_fold msg (view w tid) evs) \<and>
           tm_for tid ctx msg (ra_task_manager ra') w'"
proof -
  from break_spec [OF assms(1-4), of True] assms(5) obtain pre rest r ra' w' where
    c: "consume_and_break_on_interrupt ops True evs C_Ended ra w =
          ((Done (AR_Task r, pre \<noteq> [] \<and> (is_auth_required (last pre) \<or> \<not> True)), rest), ra', w')"
    and e: "evs = pre @ rest" "True \<and> \<not> list_ex is_auth_required evs \<longrightarrow> rest = []"
    and o: "Some (obj w' r) = spec_fold msg (view w tid) pre"
      "view w' = (view w)(tid := spec_fold msg (view w tid) pre)"
      "tm_for tid ctx msg (ra_task_manager ra') w'" by blast
  from e assms(6) have p: "rest = []" "pre = evs" by simp_all
  have "\<not> is_auth_required (last evs)" using assms(5,6) by (auto simp: list_ex_iff)
  with c o p show ?thesis by (intro exI [of _ r] exI [of _ ra'] exI [of _ w']) (simp del: consume_and_break_on_interrupt.simps)
qed

end

lemma spec_fold_append: "spec_fold msg t (xs @ ys) = spec_fold msg (spec_fold msg t xs) ys"
  by (induction xs arbitrary: t) (simp_all add: spec_fold_simps)

subsection \<open>Properties\<close>

text \<open>
  The result of a message call on a stream of task events is the task as the events
  consumed so far make it, and that is what the store then holds. A blocking call without an
  auth-required event consumes the whole stream and is not interrupted; any other call is
  interrupted at an event that is auth-required or not awaited, and leaves the rest.
\<close>

theorem message_call_result:
  assumes "mem_inv w" and "tm_init (Some tid) ctx msg = Inr tm" and "truthy ctx \<longrightarrow> ctx = Some c"
    and "list_all (stream_of tid c) evs" and "no_message evs" and "evs \<noteq> []"
  shows "\<exists>pre rest r ra' w'.
           consume_and_break_on_interrupt mem_ops blocking evs C_Ended (ra_init tm) w =
             ((Done (AR_Task r, pre \<noteq> [] \<and> (is_auth_required (last pre) \<or> \<not> blocking)), rest), ra', w') \<and>
           evs = pre @ rest \<and> (rest = [] \<or> is_auth_required (last pre) \<or> \<not> blocking) \<and>
           (blocking \<and> \<not> list_ex is_auth_required evs \<longrightarrow> rest = []) \<and>
           Some (obj w' r) = spec_fold msg (mem_view w tid) pre \<and>
           mem_view w' = (mem_view w)(tid := spec_fold msg (mem_view w tid) pre)"
proof -
  have f: "mem.tm_for tid c msg (ra_task_manager (ra_init tm)) w" "ra_message (ra_init tm) = None"
    using mem.tm_for_init [OF assms(1,2,3)] by (simp_all add: ra_init_def)
  from mem.break_spec [OF f(1) assms(4,5) f(2), of blocking] assms(6) show ?thesis by blast
qed

theorem message_call_result_witness:
  "\<exists>r ra' w'. consume_and_break_on_interrupt mem_ops True [EvStatus (sample_status completed None)] C_Ended
      (ra_init sample_manager) mem_init = ((Done (AR_Task r, False), []), ra', w') \<and>
     status_state (task_status (obj w' r)) = completed"
proof -
  have i: "tm_init (Some ''t'') None None = Inr sample_manager"
    by (simp add: tm_init_def sample_manager_def)
  have h: "list_all (stream_of ''t'' ''c'') [EvStatus (sample_status completed None)]"
    "no_message [EvStatus (sample_status completed None)]"
    by (simp_all add: stream_of_def sample_status_def no_message_def)
  have t: "truthy None \<longrightarrow> None = Some ''c''" by simp
  from message_call_result [OF mem_inv_init i t h, of True] obtain pre rest r ra' w' where
    c: "consume_and_break_on_interrupt mem_ops True [EvStatus (sample_status completed None)] C_Ended
          (ra_init sample_manager) mem_init =
        ((Done (AR_Task r, pre \<noteq> [] \<and> (is_auth_required (last pre) \<or> \<not> True)), rest), ra', w')"
    and e: "[EvStatus (sample_status completed None)] = pre @ rest"
      "True \<and> \<not> list_ex is_auth_required [EvStatus (sample_status completed None)] \<longrightarrow> rest = []"
    and o: "Some (obj w' r) = spec_fold None (mem_view mem_init ''t'') pre" by blast
  have "\<not> is_auth_required (EvStatus (sample_status completed None))"
    by (simp add: is_auth_required_def sample_status_def)
  with e have "rest = []" "pre = [EvStatus (sample_status completed None)]" by auto
  with c o show ?thesis
    by (intro exI [of _ r] exI [of _ ra'] exI [of _ w'])
      (simp del: consume_and_break_on_interrupt.simps add: spec_fold_simps is_auth_required_def sample_status_def)
qed

text \<open>
  Claim C37. An interrupted call loses nothing, with the in-memory store: when the background task has consumed the events
  that were left, the store holds what the whole stream makes of the task, as if the call had
  not been interrupted, and each of these events was followed by one notification (when they are enabled).
\<close>

theorem interrupted_call_completes:
  assumes "mem_inv w" and "tm_init (Some tid) ctx msg = Inr tm" and "truthy ctx \<longrightarrow> ctx = Some c"
    and "list_all (stream_of tid c) evs" and "no_message evs" and "evs \<noteq> []"
  shows "\<exists>res rest ra1 w1 ra2 w2 sent.
           consume_and_break_on_interrupt mem_ops blocking evs C_Ended (ra_init tm) w = ((Done res, rest), ra1, w1) \<and>
           continue_consuming mem_ops (push_callback mem_ops enabled) rest C_Ended ra1 w1 [] = (Done (), ra2, w2, sent) \<and>
           mem_view w2 = (mem_view w)(tid := spec_fold msg (mem_view w tid) evs) \<and>
           length sent = (if enabled then length rest else 0)"
proof -
  have f: "mem.tm_for tid c msg (ra_task_manager (ra_init tm)) w" "ra_message (ra_init tm) = None"
    using mem.tm_for_init [OF assms(1,2,3)] by (simp_all add: ra_init_def)
  from mem.break_spec [OF f(1) assms(4,5) f(2), of blocking] assms(6)
  obtain pre rest r ra1 w1 where
    b: "consume_and_break_on_interrupt mem_ops blocking evs C_Ended (ra_init tm) w =
             ((Done (AR_Task r, pre \<noteq> [] \<and> (is_auth_required (last pre) \<or> \<not> blocking)), rest), ra1, w1)"
    and e: "evs = pre @ rest" and v: "mem_view w1 = (mem_view w)(tid := spec_fold msg (mem_view w tid) pre)"
    and g: "mem.tm_for tid c msg (ra_task_manager ra1) w1" "ra_message ra1 = None" by blast
  from assms(4,5) e have h: "list_all (stream_of tid c) rest" "no_message rest"
    by (simp_all add: no_message_def)
  from mem.continue_spec [OF g(1) h g(2), of enabled C_Ended "[]"] obtain ra2 w2 sent where
    k: "continue_consuming mem_ops (push_callback mem_ops enabled) rest C_Ended ra1 w1 [] = (Done (), ra2, w2, sent)"
    and v2: "mem_view w2 = (mem_view w1)(tid := spec_fold msg (mem_view w1 tid) rest)"
    and l: "length sent = (if enabled then length rest else 0)" by auto
  have "mem_view w2 = (mem_view w)(tid := spec_fold msg (mem_view w tid) evs)"
    using v2 v e by (simp add: spec_fold_append)
  with b k l show ?thesis by blast
qed

theorem interrupted_call_completes_witness:
  "\<exists>res rest ra1 w1 ra2 w2 sent.
     consume_and_break_on_interrupt mem_ops False
       [EvStatus (sample_status working None), EvStatus (sample_status completed None)] C_Ended
       (ra_init sample_manager) mem_init = ((Done res, rest), ra1, w1) \<and>
     continue_consuming mem_ops (push_callback mem_ops True) rest C_Ended ra1 w1 [] = (Done (), ra2, w2, sent) \<and>
     mem_view w2 ''t'' = spec_fold None None
       [EvStatus (sample_status working None), EvStatus (sample_status completed None)]"
proof -
  let ?evs = "[EvStatus (sample_status working None), EvStatus (sample_status completed None)]"
  have i: "tm_init (Some ''t'') None None = Inr sample_manager"
    by (simp add: tm_init_def sample_manager_def)
  have h: "list_all (stream_of ''t'' ''c'') ?evs" "no_message ?evs"
    by (simp_all add: stream_of_def sample_status_def no_message_def)
  have v: "mem_view mem_init ''t'' = None" by (simp add: mem_view_def mem_init_def)
  from interrupted_call_completes [OF mem_inv_init i _ h, of False True] obtain res rest ra1 w1 ra2 w2 sent where
    "consume_and_break_on_interrupt mem_ops False ?evs C_Ended (ra_init sample_manager) mem_init = ((Done res, rest), ra1, w1)"
    "continue_consuming mem_ops (push_callback mem_ops True) rest C_Ended ra1 w1 [] = (Done (), ra2, w2, sent)"
    "mem_view w2 = (mem_view mem_init)(''t'' := spec_fold None (mem_view mem_init ''t'') ?evs)" by auto
  with v show ?thesis by (intro exI conjI) auto
qed

text \<open>
  Streaming emits an event only after it has been applied to the stored task: what a
  stream of task events has emitted is a prefix of the events consumed, and, when the
  consumption ended, all of them; the store holds what the emitted events make of the task.
\<close>

theorem stream_emits_after_saving:
  assumes "mem_inv w" and "tm_init (Some tid) ctx msg = Inr tm" and "truthy ctx \<longrightarrow> ctx = Some c"
    and "list_all (stream_of tid c) evs"
    and "consume_and_emit mem_ops evs en (ra_init tm) w = ((out, r), ra', w')"
  shows "out = evs \<and> r = end_await en () \<and>
         mem_view w' = (mem_view w)(tid := spec_fold msg (mem_view w tid) evs)"
proof -
  have "out = evs \<and> r = end_await en () \<and> mem_view w' = (mem_view w)(tid := spec_fold msg (mem_view w tid) evs)"
    if "mem.tm_for tid c msg (ra_task_manager ra) w" "list_all (stream_of tid c) evs"
      "consume_and_emit mem_ops evs en ra w = ((out, r), ra', w')" for ra w out r ra' w'
    using that
  proof (induction evs arbitrary: ra w out r ra' w')
    case Nil
    then show ?case by (simp add: spec_fold_simps)
  next
    case (Cons ev evs)
    from Cons.prems have so: "stream_of tid c ev" by simp
    from mem.tm_process_step [OF Cons.prems(1) so] obtain tm1 w1 where
      p: "tm_process mem_ops ev (ra_task_manager ra) w = (Inr ev, tm1, w1)" and f: "mem.tm_for tid c msg tm1 w1"
      and v: "mem_view w1 = (case as_task_event ev of None \<Rightarrow> mem_view w
                | Some te \<Rightarrow> (mem_view w)(tid \<mapsto> apply_task_event msg (mem_view w tid) te))" by blast
    obtain out1 r1 ra2 w2 where c: "consume_and_emit mem_ops evs en (ra\<lparr>ra_task_manager := tm1\<rparr>) w1 = ((out1, r1), ra2, w2)"
      by (metis prod.exhaust)
    have f': "mem.tm_for tid c msg (ra_task_manager (ra\<lparr>ra_task_manager := tm1\<rparr>)) w1" using f by simp
    from Cons.prems have l: "list_all (stream_of tid c) evs" by simp
    from Cons.IH [OF f' l c] Cons.prems(3) c ra_process_simp [OF p] v show ?case
      by (auto simp: spec_fold_simps split: option.splits)
  qed
  from this [of "ra_init tm", OF _ assms(4,5)] mem.tm_for_init [OF assms(1,2,3)] show ?thesis
    by (simp add: ra_init_def)
qed

theorem stream_emits_after_saving_witness:
  "fst (fst (consume_and_emit mem_ops [EvStatus (sample_status working None)] C_Polling (ra_init sample_manager) mem_init)) =
     [EvStatus (sample_status working None)]"
proof -
  obtain out r ra' w' where c: "consume_and_emit mem_ops [EvStatus (sample_status working None)] C_Polling
      (ra_init sample_manager) mem_init = ((out, r), ra', w')"
    by (metis prod.exhaust)
  have i: "tm_init (Some ''t'') None None = Inr sample_manager"
    by (simp add: tm_init_def sample_manager_def)
  have h: "list_all (stream_of ''t'' ''c'') [EvStatus (sample_status working None)]"
    by (simp add: stream_of_def sample_status_def)
  from stream_emits_after_saving [OF mem_inv_init i _ h c] c show ?thesis by simp
qed

end
