(* ===== verification/RequestContext.thy ===== *)
theory RequestContext
  imports TaskStore
begin

section \<open>Request contexts (server/context.py, extensions/common.py, agent_execution/context.py,
  simple_request_context_builder.py)\<close>

text \<open>
  What the agent executor is given. \<open>RequestContext.__init__\<close> settles the task and context id
  of a request and writes them into the message it holds: the message object is shared with
  the caller, so the updated parameters are returned even when the constructor raises. The
  ids that the generators would produce are arguments.
\<close>

record User =
  user_is_authenticated :: bool
  user_name :: string

definition UnauthenticatedUser :: User where
  "UnauthenticatedUser = \<lparr>user_is_authenticated = False, user_name = []\<rparr>"

record ServerCallContext =
  scc_state :: pydict
  scc_user :: User
  scc_requested_extensions :: "string set"
  scc_activated_extensions :: "string set"

definition default_call_context :: ServerCallContext where
  "default_call_context = \<lparr>scc_state = [], scc_user = UnauthenticatedUser,
     scc_requested_extensions = {}, scc_activated_extensions = {}\<rparr>"

subsection \<open>Extensions\<close>

definition is_space :: "char \<Rightarrow> bool" where
  "is_space c \<longleftrightarrow> c \<in> {CHR '' '', CHR 0x09, CHR 0x0A, CHR 0x0B, CHR 0x0C, CHR 0x0D,
     CHR 0x1C, CHR 0x1D, CHR 0x1E, CHR 0x1F, CHR 0x85, CHR 0xA0}"

definition strip :: "string \<Rightarrow> string" where
  "strip s = rev (dropWhile is_space (rev (dropWhile is_space s)))"

text \<open>The values of the \<open>X-A2A-Extensions\<close> header, each a comma-separated list (Latin-1 white space).\<close>

definition get_requested_extensions :: "string list \<Rightarrow> string set" where
  "get_requested_extensions values =
     set (filter (\<lambda>s. s \<noteq> []) (map strip (concat (map (str_split (CHR '','')) values))))"

definition update_extension_header ::
  "(string \<times> string) list option \<Rightarrow> string list option \<Rightarrow> (string \<times> string) list option" where
  "update_extension_header headers extensions =
     (case extensions of
        None \<Rightarrow> headers
      | Some exts \<Rightarrow> Some (AList.update ''X-A2A-Extensions'' (str_join '','' exts)
                            (case headers of None \<Rightarrow> [] | Some h \<Rightarrow> h)))"

subsection \<open>The request context\<close>

record RequestContext =
  rc_params :: "MessageSendParams option"
  rc_task_id :: "string option"
  rc_context_id :: "string option"
  rc_current_task :: "Task option"
  rc_related_tasks :: "Task list"
  rc_call_context :: "ServerCallContext option"

definition set_msg_task_id :: "string option \<Rightarrow> MessageSendParams \<Rightarrow> MessageSendParams" where
  "set_msg_task_id i p = p\<lparr>msp_message := (msp_message p)\<lparr>msg_task_id := i\<rparr>\<rparr>"

definition set_msg_context_id :: "string option \<Rightarrow> MessageSendParams \<Rightarrow> MessageSendParams" where
  "set_msg_context_id i p = p\<lparr>msp_message := (msp_message p)\<lparr>msg_context_id := i\<rparr>\<rparr>"

text \<open>\<open>_check_or_generate_task_id\<close> and \<open>_check_or_generate_context_id\<close>: the settled id and the message.\<close>

definition check_or_generate_task_id ::
  "string \<Rightarrow> string option \<Rightarrow> MessageSendParams \<Rightarrow> string option \<times> MessageSendParams" where
  "check_or_generate_task_id generated own p =
     (let p1 = (if \<not> truthy own \<and> \<not> truthy (msg_task_id (msp_message p))
                then set_msg_task_id (Some generated) p else p)
      in (if truthy (msg_task_id (msp_message p1)) then msg_task_id (msp_message p1) else own, p1))"

definition check_or_generate_context_id ::
  "string \<Rightarrow> string option \<Rightarrow> MessageSendParams \<Rightarrow> string option \<times> MessageSendParams" where
  "check_or_generate_context_id generated own p =
     (let p1 = (if \<not> truthy own \<and> \<not> truthy (msg_context_id (msp_message p))
                then set_msg_context_id (Some generated) p else p)
      in (if truthy (msg_context_id (msp_message p1)) then msg_context_id (msp_message p1) else own, p1))"

definition bad_id :: "string \<Rightarrow> exn" where
  "bad_id text = raise_server (InvalidParamsError\<lparr>err_message := Some text\<rparr>)"

definition rc_init ::
  "MessageSendParams option \<Rightarrow> string option \<Rightarrow> string option \<Rightarrow> Task option \<Rightarrow> Task list option \<Rightarrow>
   ServerCallContext option \<Rightarrow> string \<Rightarrow> string \<Rightarrow> (exn + RequestContext) \<times> MessageSendParams option" where
  "rc_init request tid ctx task related call generated_task generated_context =
     (let rc = (\<lambda>p t c. \<lparr>rc_params = p, rc_task_id = t, rc_context_id = c, rc_current_task = task,
                          rc_related_tasks = (case related of None \<Rightarrow> [] | Some ts \<Rightarrow> ts),
                          rc_call_context = call\<rparr>) in
      case request of
        None \<Rightarrow> (Inr (rc None tid ctx), None)
      | Some p \<Rightarrow>
          let (tid1, p1) = (if truthy tid then (tid, set_msg_task_id tid p)
                            else check_or_generate_task_id generated_task tid p) in
          if truthy tid \<and> (case task of None \<Rightarrow> False | Some t \<Rightarrow> Some (task_id t) \<noteq> tid)
          then (Inl (bad_id ''bad task id''), Some p1)
          else
            let (ctx1, p2) = (if truthy ctx then (ctx, set_msg_context_id ctx p1)
                              else check_or_generate_context_id generated_context ctx p1) in
            if truthy ctx \<and> (case task of None \<Rightarrow> False | Some t \<Rightarrow> Some (task_context_id t) \<noteq> ctx)
            then (Inl (bad_id ''bad context id''), Some p2)
            else (Inr (rc (Some p2) tid1 ctx1), Some p2))"

definition get_user_input :: "RequestContext \<Rightarrow> string \<Rightarrow> string" where
  "get_user_input rc delimiter =
     (case rc_params rc of None \<Rightarrow> [] | Some p \<Rightarrow> get_message_text (msp_message p) delimiter)"

definition attach_related_task :: "Task \<Rightarrow> RequestContext \<Rightarrow> RequestContext" where
  "attach_related_task t rc = rc\<lparr>rc_related_tasks := rc_related_tasks rc @ [t]\<rparr>"

definition rc_metadata :: "RequestContext \<Rightarrow> pydict" where
  "rc_metadata rc = (case rc_params rc of None \<Rightarrow> [] | Some p \<Rightarrow> or_else (msp_metadata p) [])"

definition add_activated_extension :: "string \<Rightarrow> RequestContext \<Rightarrow> RequestContext" where
  "add_activated_extension uri rc =
     rc\<lparr>rc_call_context := map_option (\<lambda>c. c\<lparr>scc_activated_extensions :=
        insert uri (scc_activated_extensions c)\<rparr>) (rc_call_context rc)\<rparr>"

definition requested_extensions :: "RequestContext \<Rightarrow> string set" where
  "requested_extensions rc =
     (case rc_call_context rc of None \<Rightarrow> {} | Some c \<Rightarrow> scc_requested_extensions c)"

subsection \<open>The simple builder\<close>

text \<open>The referenced tasks that the store knows, in the order of the references.\<close>

fun get_tasks :: "'st store_ops \<Rightarrow> string list \<Rightarrow> 'st store_state \<Rightarrow> Task list \<times> 'st store_state" where
  "get_tasks ops [] w = ([], w)"
| "get_tasks ops (i # is) w =
     (let (r, w1) = ts_get ops i w;
          (ts, w2) = get_tasks ops is w1
      in ((case r of None \<Rightarrow> ts | Some a \<Rightarrow> obj w1 a # ts), w2))"

definition build_context ::
  "bool \<Rightarrow> 'st store_ops \<Rightarrow> MessageSendParams option \<Rightarrow> string option \<Rightarrow> string option \<Rightarrow> Task option \<Rightarrow>
   ServerCallContext option \<Rightarrow> string \<Rightarrow> string \<Rightarrow> 'st store_state \<Rightarrow>
   ((exn + RequestContext) \<times> MessageSendParams option) \<times> 'st store_state" where
  "build_context should_populate_referred_tasks ops params tid ctx task call gen_task gen_ctx w =
     (let (related, w') =
        (case params of
           None \<Rightarrow> (None, w)
         | Some p \<Rightarrow>
             if should_populate_referred_tasks \<and> truthy (msg_reference_task_ids (msp_message p))
             then (let (ts, w') = get_tasks ops (the (msg_reference_task_ids (msp_message p))) w in (Some ts, w'))
             else (None, w))
      in (rc_init params tid ctx task related call gen_task gen_ctx, w'))"

context task_store
begin

lemma get_tasks_view:
  "inv w \<Longrightarrow> get_tasks ops is w = (ts, w') \<Longrightarrow>
   ts = List.map_filter (view w) is \<and> view w' = view w \<and> inv w'"
proof (induction "is" arbitrary: w ts w')
  case Nil
  then show ?case by (simp add: map_filter_simps)
next
  case (Cons i "is")
  obtain r w1 where g: "ts_get ops i w = (r, w1)" by (cases "ts_get ops i w")
  obtain us w2 where u: "get_tasks ops is w1 = (us, w2)" by (cases "get_tasks ops is w1")
  note v = get_view [OF Cons.prems(1) g]
  from Cons.IH [OF v(2) u] v Cons.prems(2) g u show ?case
    by (cases r) (auto simp: map_filter_simps)
qed

end

subsection \<open>Properties\<close>

lemma truthy_Some [simp]: "xs \<noteq> [] \<Longrightarrow> truthy (Some xs)"
  by simp

text \<open>
  A request context for a message has a task id and a context id, the message it
  passes to the agent carries the same two ids, and nothing else of the request has changed;
  ids that were given are kept.
\<close>

theorem request_context_ids:
  assumes "rc_init (Some p) tid ctx task related call gen_task gen_ctx = (Inr rc, p')"
    and "gen_task \<noteq> []" and "gen_ctx \<noteq> []"
  shows "truthy (rc_task_id rc) \<and> truthy (rc_context_id rc) \<and> p' = rc_params rc \<and>
         p' = Some (p\<lparr>msp_message := (msp_message p)\<lparr>msg_task_id := rc_task_id rc,
                                                     msg_context_id := rc_context_id rc\<rparr>\<rparr>) \<and>
         rc_task_id rc = (if truthy tid then tid
                          else if truthy (msg_task_id (msp_message p)) then msg_task_id (msp_message p)
                          else Some gen_task) \<and>
         rc_context_id rc = (if truthy ctx then ctx
                             else if truthy (msg_context_id (msp_message p)) then msg_context_id (msp_message p)
                             else Some gen_ctx)"
  using assms
  by (auto simp: rc_init_def Let_def check_or_generate_task_id_def check_or_generate_context_id_def
      set_msg_task_id_def set_msg_context_id_def split: if_splits option.splits)

definition sample_params :: MessageSendParams where
  "sample_params = \<lparr>msp_configuration = None,
     msp_message = (new_agent_text_message ''m'' ''hello'' None (Some ''t''))\<lparr>msg_role := user\<rparr>,
     msp_metadata = None\<rparr>"

theorem request_context_ids_witness:
  "\<exists>rc. fst (rc_init (Some sample_params) None None None None None ''gt'' ''gc'') = Inr rc \<and>
     rc_task_id rc = Some ''t'' \<and> rc_context_id rc = Some ''gc''"
proof -
  obtain rc p' where r: "rc_init (Some sample_params) None None None None None ''gt'' ''gc'' = (Inr rc, p')"
    by (simp add: rc_init_def Let_def split_def)
  from request_context_ids [OF r] r show ?thesis
    by (simp add: sample_params_def new_agent_text_message_def)
qed

text \<open>
  A follow-up message that names only its task gets a freshly generated context id,
  not the context of the task: the ids are compared only when the message has a context id,
  and then a different one is refused.
\<close>

theorem follow_up_without_context:
  assumes "tid = Some (task_id t)" and "task_id t \<noteq> []"
  shows "(if truthy (msg_context_id (msp_message p))
          then (if msg_context_id (msp_message p) = Some (task_context_id t)
                then \<exists>rc. fst (rc_init (Some p) tid (msg_context_id (msp_message p)) (Some t) related call gt gc) = Inr rc \<and>
                          rc_context_id rc = Some (task_context_id t)
                else \<exists>e. fst (rc_init (Some p) tid (msg_context_id (msp_message p)) (Some t) related call gt gc) =
                          Inl (raise_server e) \<and> err_kind e = K_InvalidParamsError)
          else \<exists>rc. fst (rc_init (Some p) tid (msg_context_id (msp_message p)) (Some t) related call gt gc) = Inr rc \<and>
                    (gc \<noteq> [] \<longrightarrow> rc_context_id rc = Some gc))"
  using assms
  by (auto simp: rc_init_def Let_def check_or_generate_context_id_def set_msg_task_id_def
      set_msg_context_id_def bad_id_def split: option.splits)

theorem follow_up_without_context_witness:
  "\<exists>rc. fst (rc_init (Some sample_params) (Some ''t'') None (Some sample_task) None None ''gt'' ''gc'') = Inr rc \<and>
     rc_context_id rc = Some ''gc'' \<and> Some ''gc'' \<noteq> Some (task_context_id sample_task)"
  using follow_up_without_context [of "Some ''t''" sample_task sample_params None None "''gt''" "''gc''"]
  by (simp add: sample_task_def sample_params_def new_agent_text_message_def)

text \<open>
  With the in-memory store the builder attaches exactly the tasks of the store that the message refers to, in
  the order of its references, and does not change the store.
\<close>

theorem related_tasks_from_store:
  assumes "mem_inv w" and "truthy (msg_reference_task_ids (msp_message p))"
    and "build_context True mem_ops (Some p) tid ctx task call gt gc w = ((Inr rc, p'), w')"
  shows "rc_related_tasks rc = List.map_filter (mem_view w) (the (msg_reference_task_ids (msp_message p))) \<and>
         mem_view w' = mem_view w"
proof -
  obtain ts w1 where g: "get_tasks mem_ops (the (msg_reference_task_ids (msp_message p))) w = (ts, w1)"
    by (cases "get_tasks mem_ops (the (msg_reference_task_ids (msp_message p))) w")
  note v = mem.get_tasks_view [OF assms(1) g]
  have b: "rc_init (Some p) tid ctx task (Some ts) call gt gc = (Inr rc, p')" "w' = w1"
    using assms(2,3) g by (auto simp: build_context_def)
  from b(1) have "rc_related_tasks rc = ts"
    by (auto simp: rc_init_def Let_def split: if_splits option.splits prod.splits)
  with v b show ?thesis by simp
qed

theorem related_tasks_from_store_witness:
  "\<exists>rc p' w'. build_context True mem_ops
      (Some (sample_params\<lparr>msp_message := (msp_message sample_params)\<lparr>msg_reference_task_ids := Some [''t'', ''x'']\<rparr>\<rparr>))
      None None None None ''gt'' ''gc'' sample_mem = ((Inr rc, p'), w') \<and> rc_related_tasks rc = [sample_task]"
proof -
  let ?p = "sample_params\<lparr>msp_message := (msp_message sample_params)\<lparr>msg_reference_task_ids := Some [''t'', ''x'']\<rparr>\<rparr>"
  obtain rc p' w' where b: "build_context True mem_ops (Some ?p) None None None None ''gt'' ''gc'' sample_mem = ((Inr rc, p'), w')"
    by (simp add: build_context_def rc_init_def Let_def split_def)
  have "mem_view sample_mem ''x'' = None" by (simp add: mem_view_def sample_mem_def)
  with related_tasks_from_store [OF sample_stores(1) _ b] b show ?thesis by (simp add: map_filter_simps)
qed

lemma header_value_read:
  assumes "\<forall>e \<in> set exts. e \<noteq> [] \<and> CHR '','' \<notin> set e \<and> strip e = e"
  shows "get_requested_extensions [str_join '','' exts] = set exts"
proof (cases "exts = []")
  case True
  then show ?thesis by (simp add: get_requested_extensions_def strip_def)
next
  case False
  with assms have "str_split (CHR '','') (str_join '','' exts) = exts" by (intro str_split_join) auto
  moreover have "map strip exts = exts" using assms by (induction exts) auto
  moreover have "filter (\<lambda>s. s \<noteq> []) exts = exts" using assms by (induction exts) auto
  ultimately show ?thesis by (simp add: get_requested_extensions_def)
qed

end
