(* ===== verification/QueueManager.thy ===== *)
theory QueueManager
  imports EventQueue
begin

section \<open>The queue manager (server/events/queue_manager.py, in_memory_queue_manager.py)\<close>

text \<open>
  The manager maps task ids to queues. Queue objects live in a table of trees: a queue is
  referred to by the index of its tree and its position in it, so that consumers keep their
  reference when the manager forgets a queue. \<open>close\<close> waits for the queue to drain while it
  holds the manager's lock: \<open>qm_closing\<close> are then the queues it waits for, and every other
  operation waits as well. The locale \<open>queue_manager\<close> is the interface that the request
  handler uses.
\<close>

type_synonym qref = "nat \<times> nat list"

record queue_world =
  qm_roots :: "EventQueue list"
  qm_task_queue :: "string \<rightharpoonup> qref"
  qm_closing :: "qref list option"

definition qm_init :: queue_world where
  "qm_init = \<lparr>qm_roots = [], qm_task_queue = Map.empty, qm_closing = None\<rparr>"

definition q_valid :: "queue_world \<Rightarrow> qref \<Rightarrow> bool" where
  "q_valid w r \<longleftrightarrow> fst r < length (qm_roots w) \<and> eq_at (snd r) (qm_roots w ! fst r) \<noteq> None"

definition q_at :: "queue_world \<Rightarrow> qref \<Rightarrow> EventQueue" where
  "q_at w r = the (eq_at (snd r) (qm_roots w ! fst r))"

definition q_set :: "qref \<Rightarrow> EventQueue \<Rightarrow> queue_world \<Rightarrow> queue_world" where
  "q_set r q w = w\<lparr>qm_roots := (qm_roots w)[fst r := eq_update (snd r) (\<lambda>_. q) (qm_roots w ! fst r)]\<rparr>"

text \<open>\<open>EventQueue()\<close>: a new tree.\<close>

definition q_new :: "queue_world \<Rightarrow> qref \<times> queue_world" where
  "q_new w = ((length (qm_roots w), []), w\<lparr>qm_roots := qm_roots w @ [eq_new]\<rparr>)"

definition q_tap :: "qref \<Rightarrow> queue_world \<Rightarrow> qref \<times> queue_world" where
  "q_tap r w = (let (i, q') = tap (q_at w r) in ((fst r, snd r @ [i]), q_set r q' w))"

text \<open>The queues whose \<open>join\<close> a graceful close awaits: the open ones below open ones.\<close>

fun join_paths :: "EventQueue \<Rightarrow> nat list list" where
  "join_paths (EQ items mx unf sd cl ch) =
     (if cl then [] else [] # concat (map (\<lambda>(i, ps). map ((#) i) ps) (enumerate 0 (map join_paths ch))))"

definition joined :: "queue_world \<Rightarrow> qref list \<Rightarrow> bool" where
  "joined w rs \<longleftrightarrow> list_all (\<lambda>r. eq_unfinished (q_at w r) = 0) rs"

subsection \<open>Operations\<close>

text \<open>Every operation takes the manager's lock; it waits while a \<open>close\<close> holds it.\<close>

definition with_lock :: "(queue_world \<Rightarrow> 'a await \<times> queue_world) \<Rightarrow> queue_world \<Rightarrow> 'a await \<times> queue_world" where
  "with_lock f w = (if qm_closing w \<noteq> None then (Blocked, w) else f w)"

definition qm_add :: "string \<Rightarrow> qref \<Rightarrow> queue_world \<Rightarrow> unit await \<times> queue_world" where
  "qm_add tid q = with_lock (\<lambda>w.
     if tid \<in> dom (qm_task_queue w) then (Raised TaskQueueExists, w)
     else (Done (), w\<lparr>qm_task_queue := (qm_task_queue w)(tid \<mapsto> q)\<rparr>))"

definition qm_get :: "string \<Rightarrow> queue_world \<Rightarrow> qref option await \<times> queue_world" where
  "qm_get tid = with_lock (\<lambda>w. (Done (qm_task_queue w tid), w))"

definition qm_tap :: "string \<Rightarrow> queue_world \<Rightarrow> qref option await \<times> queue_world" where
  "qm_tap tid = with_lock (\<lambda>w.
     case qm_task_queue w tid of
       None \<Rightarrow> (Done None, w)
     | Some r \<Rightarrow> (let (r', w') = q_tap r w in (Done (Some r'), w')))"

definition qm_close :: "bool \<Rightarrow> string \<Rightarrow> queue_world \<Rightarrow> unit await \<times> queue_world" where
  "qm_close py313 tid = with_lock (\<lambda>w.
     case qm_task_queue w tid of
       None \<Rightarrow> (Raised NoTaskQueue, w)
     | Some r \<Rightarrow>
         (let w1 = w\<lparr>qm_task_queue := (qm_task_queue w)(tid := None)\<rparr>;
              waits = map (\<lambda>p. (fst r, snd r @ p)) (join_paths (q_at w r));
              (res, q') = close_graceful py313 (q_at w r);
              w2 = q_set r q' w1
          in case res of
               Blocked \<Rightarrow> (Blocked, w2\<lparr>qm_closing := Some waits\<rparr>)
             | _ \<Rightarrow> (res, w2)))"

text \<open>The close resumes once all joined queues have been drained.\<close>

definition qm_close_resume :: "queue_world \<Rightarrow> unit await \<times> queue_world" where
  "qm_close_resume w =
     (case qm_closing w of
        None \<Rightarrow> (Done (), w)
      | Some rs \<Rightarrow> if joined w rs then (Done (), w\<lparr>qm_closing := None\<rparr>) else (Blocked, w))"

definition qm_create_or_tap :: "string \<Rightarrow> queue_world \<Rightarrow> qref await \<times> queue_world" where
  "qm_create_or_tap tid = with_lock (\<lambda>w.
     case qm_task_queue w tid of
       None \<Rightarrow> (let (r, w') = q_new w in (Done r, w'\<lparr>qm_task_queue := (qm_task_queue w')(tid \<mapsto> r)\<rparr>))
     | Some r \<Rightarrow> (let (r', w') = q_tap r w in (Done r', w')))"

subsection \<open>The interface\<close>

record 'w qm_ops =
  qmo_add :: "string \<Rightarrow> qref \<Rightarrow> 'w \<Rightarrow> unit await \<times> 'w"
  qmo_get :: "string \<Rightarrow> 'w \<Rightarrow> qref option await \<times> 'w"
  qmo_tap :: "string \<Rightarrow> 'w \<Rightarrow> qref option await \<times> 'w"
  qmo_close :: "string \<Rightarrow> 'w \<Rightarrow> unit await \<times> 'w"
  qmo_create_or_tap :: "string \<Rightarrow> 'w \<Rightarrow> qref await \<times> 'w"

locale queue_manager =
  fixes ops :: "'w qm_ops"
    and known :: "'w \<Rightarrow> string set"
    and free :: "'w \<Rightarrow> bool"
  assumes add_law: "free w \<Longrightarrow> (if i \<in> known w then qmo_add ops i r w = (Raised TaskQueueExists, w)
        else (\<exists>w'. qmo_add ops i r w = (Done (), w') \<and> free w' \<and> known w' = insert i (known w)))"
    and tap_law: "free w \<Longrightarrow> (if i \<in> known w
        then (\<exists>r w'. qmo_tap ops i w = (Done (Some r), w') \<and> free w' \<and> known w' = known w)
        else qmo_tap ops i w = (Done None, w))"
    and create_law: "free w \<Longrightarrow>
        \<exists>r w'. qmo_create_or_tap ops i w = (Done r, w') \<and> free w' \<and> known w' = insert i (known w)"
    and close_law: "free w \<Longrightarrow> (if i \<in> known w
        then known (snd (qmo_close ops i w)) = known w - {i} \<and> (\<forall>e. fst (qmo_close ops i w) \<noteq> Raised e) \<and>
             (fst (qmo_close ops i w) = Done () \<longrightarrow> free (snd (qmo_close ops i w)))
        else qmo_close ops i w = (Raised NoTaskQueue, w))"
begin

lemma close_twice:
  assumes "free w" and "i \<in> known w" and "qmo_close ops i w = (Done (), w1)"
  shows "qmo_close ops i w1 = (Raised NoTaskQueue, w1)"
  using close_law [OF assms(1), of i] close_law [of w1 i] assms by simp

lemma tap_after_create:
  assumes "free w" and "qmo_create_or_tap ops i w = (Done r, w1)"
  shows "\<exists>r' w2. qmo_tap ops i w1 = (Done (Some r'), w2)"
  using create_law [OF assms(1), of i] tap_law [of w1 i] assms(2) by auto

lemma tap_after_close:
  assumes "free w" and "i \<in> known w" and "qmo_close ops i w = (Done (), w1)"
  shows "qmo_tap ops i w1 = (Done None, w1)"
  using close_law [OF assms(1), of i] tap_law [of w1 i] assms by simp

end

definition qm_ops :: "bool \<Rightarrow> queue_world qm_ops" where
  "qm_ops py313 = \<lparr>qmo_add = qm_add, qmo_get = qm_get, qmo_tap = qm_tap, qmo_close = qm_close py313,
     qmo_create_or_tap = qm_create_or_tap\<rparr>"

definition qm_known :: "queue_world \<Rightarrow> string set" where
  "qm_known w = dom (qm_task_queue w)"

definition qm_free :: "queue_world \<Rightarrow> bool" where
  "qm_free w \<longleftrightarrow> qm_closing w = None"

lemma q_set_simps [simp]:
  "qm_task_queue (q_set r q w) = qm_task_queue w" "qm_closing (q_set r q w) = qm_closing w"
  by (simp_all add: q_set_def)

lemma q_tap_simps:
  "qm_task_queue (snd (q_tap r w)) = qm_task_queue w" "qm_closing (snd (q_tap r w)) = qm_closing w"
  by (simp_all add: q_tap_def split: prod.split)

lemma close_graceful_not_raised: "fst (close_graceful py313 q) \<noteq> Raised e"
  by (cases q) (auto simp: Let_def)

interpretation imqm: queue_manager "qm_ops py313" qm_known qm_free
proof unfold_locales
  fix w i r
  assume f: "qm_free w"
  show "if i \<in> qm_known w then qmo_add (qm_ops py313) i r w = (Raised TaskQueueExists, w)
        else (\<exists>w'. qmo_add (qm_ops py313) i r w = (Done (), w') \<and> qm_free w' \<and> qm_known w' = insert i (qm_known w))"
    using f by (auto simp: qm_ops_def qm_add_def with_lock_def qm_free_def qm_known_def)
next
  fix w i
  assume f: "qm_free w"
  show "if i \<in> qm_known w
        then (\<exists>r w'. qmo_tap (qm_ops py313) i w = (Done (Some r), w') \<and> qm_free w' \<and> qm_known w' = qm_known w)
        else qmo_tap (qm_ops py313) i w = (Done None, w)"
  proof (cases "qm_task_queue w i")
    case (Some r)
    with f q_tap_simps [of r w] show ?thesis
      by (cases "q_tap r w")
        (auto simp: qm_ops_def qm_tap_def with_lock_def qm_free_def qm_known_def)
  qed (use f in \<open>auto simp: qm_ops_def qm_tap_def with_lock_def qm_free_def qm_known_def\<close>)
next
  fix w i
  assume f: "qm_free w"
  show "\<exists>r w'. qmo_create_or_tap (qm_ops py313) i w = (Done r, w') \<and> qm_free w' \<and>
          qm_known w' = insert i (qm_known w)"
  proof (cases "qm_task_queue w i")
    case (Some r)
    with f q_tap_simps [of r w] show ?thesis
      by (cases "q_tap r w")
        (auto simp: qm_ops_def qm_create_or_tap_def with_lock_def qm_free_def qm_known_def)
  qed (use f in \<open>auto simp: qm_ops_def qm_create_or_tap_def with_lock_def qm_free_def qm_known_def q_new_def\<close>)
next
  fix w i
  assume f: "qm_free w"
  show "if i \<in> qm_known w
        then qm_known (snd (qmo_close (qm_ops py313) i w)) = qm_known w - {i} \<and>
             (\<forall>e. fst (qmo_close (qm_ops py313) i w) \<noteq> Raised e) \<and>
             (fst (qmo_close (qm_ops py313) i w) = Done () \<longrightarrow> qm_free (snd (qmo_close (qm_ops py313) i w)))
        else qmo_close (qm_ops py313) i w = (Raised NoTaskQueue, w)"
  proof (cases "qm_task_queue w i")
    case (Some r)
    obtain res q' where c: "close_graceful py313 (q_at w r) = (res, q')" by (cases "close_graceful py313 (q_at w r)")
    from close_graceful_not_raised [of py313 "q_at w r"] c have "\<And>e. res \<noteq> Raised e" by auto
    with Some f c show ?thesis
      by (cases res)
        (auto simp: qm_ops_def qm_close_def with_lock_def qm_free_def qm_known_def)
  qed (use f in \<open>auto simp: qm_ops_def qm_close_def with_lock_def qm_free_def qm_known_def\<close>)
qed

subsection \<open>Properties\<close>

lemma set_join_paths:
  "set (join_paths (EQ items mx unf sd cl ch)) =
     (if cl then {} else insert [] {i # p |i p. i < length ch \<and> p \<in> set (join_paths (ch ! i))})"
  by (force simp: in_set_enumerate_eq)

lemma close_graceful_done_iff:
  "fst (close_graceful py313 q) = Done () \<longleftrightarrow>
   (\<forall>p \<in> set (join_paths q). map_option eq_unfinished (eq_at p q) = Some 0)"
proof (induction q)
  case (EQ items mx unf sd cl ch)
  show ?case
  proof (cases cl)
    case False
    have "list_all (\<lambda>r. fst r = Done ()) (map (close_graceful py313) ch) \<longleftrightarrow>
        (\<forall>i < length ch. \<forall>p \<in> set (join_paths (ch ! i)). map_option eq_unfinished (eq_at p (ch ! i)) = Some 0)"
      using EQ.IH by (simp add: list_all_length)
    note l = this
    have b: "(\<forall>p \<in> set (join_paths (EQ items mx unf sd cl ch)). P p) \<longleftrightarrow>
        P [] \<and> (\<forall>i < length ch. \<forall>p \<in> set (join_paths (ch ! i)). P (i # p))" for P
      unfolding set_join_paths using False by auto
    show ?thesis unfolding b using l False by (simp add: Let_def)
  qed simp
qed

text \<open>
  Claim C39. Closing a task's queue forgets it at once, and completes at once exactly when the
  queue and all queues tapped from it have no unfinished event; otherwise the manager keeps
  its lock, and every operation of the manager (add, get, tap, create or tap, close), for any task, waits until those
  queues have been drained.
\<close>

theorem close_holds_manager_until_drained:
  assumes "qm_free w" and "qm_task_queue w tid = Some r"
  shows "qm_task_queue (snd (qm_close py313 tid w)) = (qm_task_queue w)(tid := None) \<and>
         (if \<forall>p \<in> set (join_paths (q_at w r)). map_option eq_unfinished (eq_at p (q_at w r)) = Some 0
          then fst (qm_close py313 tid w) = Done () \<and> qm_free (snd (qm_close py313 tid w))
          else fst (qm_close py313 tid w) = Blocked \<and>
               (let w' = snd (qm_close py313 tid w)
                in fst (qm_add other q w') = Blocked \<and>
                   fst (qm_create_or_tap other w') = Blocked \<and> fst (qm_tap other w') = Blocked \<and>
                   fst (qm_get other w') = Blocked \<and> fst (qm_close py313 other w') = Blocked))"
proof -
  obtain res q' where c: "close_graceful py313 (q_at w r) = (res, q')" by (cases "close_graceful py313 (q_at w r)")
  have d: "res = Done () \<longleftrightarrow>
      (\<forall>p \<in> set (join_paths (q_at w r)). map_option eq_unfinished (eq_at p (q_at w r)) = Some 0)"
    using close_graceful_done_iff [of py313 "q_at w r"] c by simp
  have nr: "res \<noteq> Raised e" for e
    using close_graceful_not_raised [of py313 "q_at w r" e] c by simp
  have b: "fst (qm_add other q w') = Blocked \<and> fst (qm_close py313 other w') = Blocked \<and> fst (qm_create_or_tap other w') = Blocked \<and>
      fst (qm_tap other w') = Blocked \<and> fst (qm_get other w') = Blocked" if "qm_closing w' \<noteq> None" for w'
    using that by (simp add: qm_add_def qm_close_def qm_create_or_tap_def qm_tap_def qm_get_def with_lock_def)
  show ?thesis
  proof (cases res)
    case (Done u)
    have "qm_close py313 tid w = (Done (), q_set r q' (w\<lparr>qm_task_queue := (qm_task_queue w)(tid := None)\<rparr>))"
      using assms c Done by (simp add: qm_close_def with_lock_def qm_free_def)
    with d Done assms(1) show ?thesis by (simp add: qm_free_def)
  next
    case Blocked
    let ?w = "(q_set r q' (w\<lparr>qm_task_queue := (qm_task_queue w)(tid := None)\<rparr>))\<lparr>qm_closing :=
        Some (map (\<lambda>p. (fst r, snd r @ p)) (join_paths (q_at w r)))\<rparr>"
    have "qm_close py313 tid w = (Blocked, ?w)"
      using assms c Blocked by (simp add: qm_close_def with_lock_def qm_free_def)
    with d Blocked b [of ?w] show ?thesis by (auto simp: Let_def)
  next
    case (Raised e)
    with nr show ?thesis by blast
  qed
qed

definition sample_queues :: "bool \<Rightarrow> queue_world" where
  "sample_queues pending = \<lparr>qm_roots = [EQ [] 8 0 False False
       [if pending then EQ [EvMessage sample_message] 8 1 False False [] else eq_new]],
     qm_task_queue = [''t'' \<mapsto> (0, [])], qm_closing = None\<rparr>"

theorem close_holds_manager_until_drained_witness:
  "fst (qm_close True ''t'' (sample_queues True)) = Blocked \<and>
   fst (qm_add ''u'' (0, []) (snd (qm_close True ''t'' (sample_queues True)))) = Blocked \<and>
   fst (qm_create_or_tap ''u'' (snd (qm_close True ''t'' (sample_queues True)))) = Blocked"
proof -
  have a: "qm_free (sample_queues True)" "qm_task_queue (sample_queues True) ''t'' = Some (0, [])"
    by (simp_all add: sample_queues_def qm_free_def)
  have q: "q_at (sample_queues True) (0, []) = EQ [] 8 0 False False [EQ [EvMessage sample_message] 8 1 False False []]"
    by (simp add: sample_queues_def q_at_def)
  have p: "[0] \<in> set (join_paths (q_at (sample_queues True) (0, [])))"
    "map_option eq_unfinished (eq_at [0] (q_at (sample_queues True) (0, []))) \<noteq> Some 0"
    by (simp_all add: q)
  from close_holds_manager_until_drained [OF a, of True "''u''" "(0, [])"] p show ?thesis
    by (auto simp: Let_def split: if_splits)
qed

text \<open>
  A queue can be cleaned up once: after a completed close, closing the same task's queue again raises
  NoTaskQueue and tapping it finds nothing, until \<open>create_or_tap\<close> makes a new one.
\<close>

theorem second_close_raises:
  assumes "qm_free w" and "qm_task_queue w tid = Some r" and "qm_close py313 tid w = (Done (), w1)"
  shows "qm_close py313 tid w1 = (Raised NoTaskQueue, w1) \<and> qm_tap tid w1 = (Done None, w1) \<and>
         (\<exists>r' w2. qm_create_or_tap tid w1 = (Done r', w2) \<and> r' = (length (qm_roots w1), []))"
proof -
  have k: "tid \<in> qm_known w" using assms(2) by (auto simp: qm_known_def)
  have o: "qmo_close (qm_ops py313) tid w = (Done (), w1)" using assms(3) by (simp add: qm_ops_def)
  have n: "qm_task_queue w1 tid = None" "qm_closing w1 = None"
    using imqm.close_law [OF assms(1), of tid py313] o k by (auto simp: qm_known_def qm_free_def)
  from imqm.close_twice [OF assms(1) k o] imqm.tap_after_close [OF assms(1) k o] n
  show ?thesis
    by (auto simp: qm_ops_def qm_create_or_tap_def with_lock_def q_new_def)
qed

theorem second_close_raises_witness:
  "\<exists>w1. qm_close True ''t'' (sample_queues False) = (Done (), w1) \<and> qm_close True ''t'' w1 = (Raised NoTaskQueue, w1)"
proof -
  have a: "qm_free (sample_queues False)" "qm_task_queue (sample_queues False) ''t'' = Some (0, [])"
    by (simp_all add: sample_queues_def qm_free_def)
  have "fst (qm_close True ''t'' (sample_queues False)) = Done ()"
    by (simp add: qm_close_def with_lock_def sample_queues_def q_at_def eq_new_def)
  then obtain w1 where c: "qm_close True ''t'' (sample_queues False) = (Done (), w1)"
    by (cases "qm_close True ''t'' (sample_queues False)") simp
  with second_close_raises [OF a c] show ?thesis by blast
qed

end
