(* ===== verification/PushConfigStore.thy ===== *)
theory PushConfigStore
  imports A2A_Types Utils
begin

section \<open>Push notification configurations (push_notification_config_store.py, its in-memory and database
  implementations, base_push_notification_sender.py)\<close>

text \<open>
  A store keeps, for each task id, the push notification configurations under their ids. The
  locale \<open>push_store\<close> is the interface: \<open>view s t\<close> is the finite map from configuration ids
  to configurations. The in-memory store is a dictionary of lists and fills the missing id
  of the configuration object it was given in place, so \<open>set_info\<close> also returns that object;
  the database store copies it. In the database store the serialisation and the encryption
  are functions of the store's state (Pydantic and Fernet); its invariant states that
  what they wrote they read back. The order of the rows of a query is that of their insertion.
\<close>

record 's push_ops =
  ps_set :: "string \<Rightarrow> PushNotificationConfig \<Rightarrow> 's \<Rightarrow> PushNotificationConfig \<times> 's"
  ps_get :: "string \<Rightarrow> 's \<Rightarrow> PushNotificationConfig list"
  ps_delete :: "string \<Rightarrow> string option \<Rightarrow> 's \<Rightarrow> 's"

definition with_default_id :: "string \<Rightarrow> PushNotificationConfig \<Rightarrow> PushNotificationConfig" where
  "with_default_id tid c = (if pnc_id c = None then c\<lparr>pnc_id := Some tid\<rparr> else c)"

definition effective_id :: "string \<Rightarrow> PushNotificationConfig \<Rightarrow> string" where
  "effective_id tid c = (case pnc_id c of None \<Rightarrow> tid | Some i \<Rightarrow> i)"

lemma pnc_id_with_default_id [simp]: "pnc_id (with_default_id tid c) = Some (effective_id tid c)"
  by (simp add: with_default_id_def effective_id_def split: option.split)

subsection \<open>The interface\<close>

locale push_store =
  fixes ops :: "'s push_ops"
    and view :: "'s \<Rightarrow> string \<Rightarrow> string \<Rightarrow> PushNotificationConfig option"
    and inv :: "'s \<Rightarrow> bool"
  assumes set_law: "inv s \<Longrightarrow>
      inv (snd (ps_set ops t c s)) \<and>
      view (snd (ps_set ops t c s)) = (view s)(t := (view s t)(effective_id t c \<mapsto> with_default_id t c))"
    and get_law: "inv s \<Longrightarrow>
      distinct (map pnc_id (ps_get ops t s)) \<and> set (ps_get ops t s) = ran (view s t)"
    and delete_law: "inv s \<Longrightarrow>
      inv (ps_delete ops t (Some i) s) \<and>
      view (ps_delete ops t (Some i) s) = (view s)(t := (view s t)(i := None))"
    and view_key: "inv s \<Longrightarrow> view s t i = Some c \<Longrightarrow> pnc_id c = Some i"
begin

text \<open>A configuration is in the list of its task exactly when it is the one stored under its id.\<close>

lemma get_iff_view:
  assumes "inv s"
  shows "c \<in> set (ps_get ops t s) \<longleftrightarrow> (\<exists>i. pnc_id c = Some i \<and> view s t i = Some c)"
  using get_law [OF assms] view_key [OF assms] by (auto simp: ran_def)

lemma set_then_get:
  assumes "inv s"
  shows "set (ps_get ops t (snd (ps_set ops t c s))) =
     insert (with_default_id t c) {d \<in> set (ps_get ops t s). pnc_id d \<noteq> Some (effective_id t c)}"
proof -
  from set_law [OF assms, of t c] have i: "inv (snd (ps_set ops t c s))"
    and v: "view (snd (ps_set ops t c s)) t = (view s t)(effective_id t c \<mapsto> with_default_id t c)"
    by simp_all
  have "d \<in> set (ps_get ops t (snd (ps_set ops t c s))) \<longleftrightarrow>
      d = with_default_id t c \<or> (d \<in> set (ps_get ops t s) \<and> pnc_id d \<noteq> Some (effective_id t c))" for d
    unfolding get_iff_view [OF i] get_iff_view [OF assms] v by (cases "pnc_id d") auto
  then show ?thesis by auto
qed

lemma set_other_task:
  assumes "inv s" and "t' \<noteq> t"
  shows "set (ps_get ops t' (snd (ps_set ops t c s))) = set (ps_get ops t' s)"
  using set_law [OF assms(1), of t c] get_law assms by (metis fun_upd_other)

lemma delete_then_get:
  assumes "inv s"
  shows "set (ps_get ops t (ps_delete ops t (Some i) s)) =
     {d \<in> set (ps_get ops t s). pnc_id d \<noteq> Some i}"
proof -
  from delete_law [OF assms, of t i] have j: "inv (ps_delete ops t (Some i) s)"
    and v: "view (ps_delete ops t (Some i) s) t = (view s t)(i := None)" by simp_all
  have "d \<in> set (ps_get ops t (ps_delete ops t (Some i) s)) \<longleftrightarrow>
      d \<in> set (ps_get ops t s) \<and> pnc_id d \<noteq> Some i" for d
    unfolding get_iff_view [OF j] get_iff_view [OF assms] v by (cases "pnc_id d") auto
  then show ?thesis by auto
qed

lemma set_then_delete:
  assumes "inv s" and "view s t (effective_id t c) = None"
  shows "view (ps_delete ops t (Some (effective_id t c)) (snd (ps_set ops t c s))) = view s"
proof -
  have "inv (snd (ps_set ops t c s))" using set_law [OF assms(1)] by simp
  from delete_law [OF this, of t "effective_id t c"] set_law [OF assms(1), of t c] assms(2)
  show ?thesis by (simp add: fun_upd_idem)
qed

end

subsection \<open>The in-memory store\<close>

type_synonym mem_push = "string \<rightharpoonup> PushNotificationConfig list"

definition mem_infos :: "mem_push \<Rightarrow> string \<Rightarrow> PushNotificationConfig list" where
  "mem_infos s t = (case s t of None \<Rightarrow> [] | Some l \<Rightarrow> l)"

definition mem_set_info ::
  "string \<Rightarrow> PushNotificationConfig \<Rightarrow> mem_push \<Rightarrow> PushNotificationConfig \<times> mem_push" where
  "mem_set_info tid notification_config s =
     (let infos = mem_infos s tid;
          config = with_default_id tid notification_config;
          rest = (case find_index (\<lambda>c. pnc_id c = pnc_id config) infos of
                    Some j \<Rightarrow> remove1 (infos ! j) infos | None \<Rightarrow> infos)
      in (config, s(tid \<mapsto> rest @ [config])))"

definition mem_get_info :: "string \<Rightarrow> mem_push \<Rightarrow> PushNotificationConfig list" where
  "mem_get_info tid s = or_else (s tid) []"

definition mem_delete_info :: "string \<Rightarrow> string option \<Rightarrow> mem_push \<Rightarrow> mem_push" where
  "mem_delete_info tid config_id s =
     (let cid = (case config_id of None \<Rightarrow> tid | Some i \<Rightarrow> i) in
      case s tid of
        None \<Rightarrow> s
      | Some configurations \<Rightarrow>
          if configurations = [] then s
          else (let rest = (case find_index (\<lambda>c. pnc_id c = Some cid) configurations of
                              Some j \<Rightarrow> remove1 (configurations ! j) configurations
                            | None \<Rightarrow> configurations)
                in if rest = [] then s(tid := None) else s(tid \<mapsto> rest)))"

definition mem_push_ops :: "mem_push push_ops" where
  "mem_push_ops = \<lparr>ps_set = mem_set_info, ps_get = mem_get_info, ps_delete = mem_delete_info\<rparr>"

definition mem_push_view :: "mem_push \<Rightarrow> string \<Rightarrow> string \<Rightarrow> PushNotificationConfig option" where
  "mem_push_view s t i = find (\<lambda>c. pnc_id c = Some i) (mem_infos s t)"

definition mem_push_inv :: "mem_push \<Rightarrow> bool" where
  "mem_push_inv s \<longleftrightarrow>
     (\<forall>t. distinct (map pnc_id (mem_infos s t)) \<and> None \<notin> pnc_id ` set (mem_infos s t))"

lemma mem_get_info_eq: "mem_get_info t s = mem_infos s t"
  by (auto simp: mem_get_info_def mem_infos_def or_else_def not_truthy_iff split: option.splits)

lemma mem_infos_set:
  "mem_push_inv s \<Longrightarrow> mem_infos (snd (mem_set_info t c s)) =
     (mem_infos s)(t := filter (\<lambda>d. pnc_id d \<noteq> Some (effective_id t c)) (mem_infos s t) @ [with_default_id t c])"
  by (auto simp: mem_set_info_def Let_def mem_push_inv_def remove_found_eq_filter mem_infos_def fun_eq_iff)

lemma mem_infos_delete:
  assumes "mem_push_inv s"
  shows "mem_infos (mem_delete_info t i s) =
     (mem_infos s)(t := filter (\<lambda>d. pnc_id d \<noteq> Some (case i of None \<Rightarrow> t | Some j \<Rightarrow> j)) (mem_infos s t))"
proof (cases "s t")
  case None
  then show ?thesis by (auto simp: mem_delete_info_def mem_infos_def fun_eq_iff)
next
  case (Some l)
  with assms have d: "distinct (map pnc_id l)"
    unfolding mem_push_inv_def mem_infos_def by (metis option.simps(5))
  show ?thesis
    unfolding mem_delete_info_def Let_def Some option.case remove_found_eq_filter [OF d]
    using Some by (auto simp: mem_infos_def fun_eq_iff)
qed

lemma mem_push_inv_update:
  assumes "mem_push_inv s" and "distinct (map pnc_id l)" and "None \<notin> pnc_id ` set l"
    and "mem_infos s' = (mem_infos s)(t := l)"
  shows "mem_push_inv s'"
  using assms by (simp add: mem_push_inv_def)

interpretation memp: push_store mem_push_ops mem_push_view mem_push_inv
proof unfold_locales
  fix s t c
  assume i: "mem_push_inv s"
  then have d: "distinct (map pnc_id (mem_infos s t))" "None \<notin> pnc_id ` set (mem_infos s t)"
    by (simp_all add: mem_push_inv_def)
  have "mem_push_inv (snd (mem_set_info t c s))"
    using d by (intro mem_push_inv_update [OF i _ _ mem_infos_set [OF i]]) (auto simp: distinct_map_filter)
  moreover have "mem_push_view (snd (mem_set_info t c s)) =
      (mem_push_view s)(t := (mem_push_view s t)(effective_id t c \<mapsto> with_default_id t c))"
    by (auto simp: mem_push_view_def mem_infos_set [OF i] fun_eq_iff find_append find_key_filter
        split: option.splits)
  ultimately show "mem_push_inv (snd (ps_set mem_push_ops t c s)) \<and>
      mem_push_view (snd (ps_set mem_push_ops t c s)) =
        (mem_push_view s)(t := (mem_push_view s t)(effective_id t c \<mapsto> with_default_id t c))"
    by (simp add: mem_push_ops_def)
next
  fix s t
  assume "mem_push_inv s"
  then have d: "distinct (map pnc_id (mem_infos s t))" "None \<notin> pnc_id ` set (mem_infos s t)"
    by (simp_all add: mem_push_inv_def)
  then show "distinct (map pnc_id (ps_get mem_push_ops t s)) \<and>
      set (ps_get mem_push_ops t s) = ran (mem_push_view s t)"
    by (auto simp: mem_push_ops_def mem_get_info_eq mem_push_view_def ran_def find_Some_key)
      (metis image_eqI not_Some_eq)
next
  fix s t i
  assume inv: "mem_push_inv s"
  then have d: "distinct (map pnc_id (mem_infos s t))" "None \<notin> pnc_id ` set (mem_infos s t)"
    by (simp_all add: mem_push_inv_def)
  have "mem_push_inv (mem_delete_info t (Some i) s)"
    using d by (intro mem_push_inv_update [OF inv _ _ mem_infos_delete [OF inv]]) (auto simp: distinct_map_filter)
  moreover have "mem_push_view (mem_delete_info t (Some i) s) = (mem_push_view s)(t := (mem_push_view s t)(i := None))"
    by (auto simp: mem_push_view_def mem_infos_delete [OF inv] fun_eq_iff find_key_filter)
  ultimately show "mem_push_inv (ps_delete mem_push_ops t (Some i) s) \<and>
      mem_push_view (ps_delete mem_push_ops t (Some i) s) =
        (mem_push_view s)(t := (mem_push_view s t)(i := None))"
    by (simp add: mem_push_ops_def)
next
  show "mem_push_inv s \<Longrightarrow> mem_push_view s t i = Some c \<Longrightarrow> pnc_id c = Some i" for s t i c
    by (auto simp: mem_push_view_def mem_push_inv_def find_Some_key)
qed

subsection \<open>The database store\<close>

record 'b fernet =
  fernet_encrypt :: "'b \<Rightarrow> 'b"
  fernet_decrypt :: "'b \<Rightarrow> 'b option"

text \<open>\<open>pdb_dump\<close> and \<open>pdb_parse\<close> are \<open>model_dump_json\<close> and \<open>model_validate_json\<close>.\<close>

record 'b push_db =
  pdb_dump :: "PushNotificationConfig \<Rightarrow> 'b"
  pdb_parse :: "'b \<Rightarrow> PushNotificationConfig option"
  pdb_fernet :: "'b fernet option"
  pdb_rows :: "((string \<times> string) \<times> 'b) list"

definition push_to_orm :: "'b push_db \<Rightarrow> string \<Rightarrow> PushNotificationConfig \<Rightarrow> (string \<times> string) \<times> 'b" where
  "push_to_orm s tid config =
     (let json_payload = pdb_dump s config;
          data_to_store = (case pdb_fernet s of Some f \<Rightarrow> fernet_encrypt f json_payload | None \<Rightarrow> json_payload)
      in ((tid, the (pnc_id config)), data_to_store))"

text \<open>\<open>None\<close> stands for the \<open>ValueError\<close>, which \<open>get_info\<close> catches.\<close>

definition push_from_orm :: "'b push_db \<Rightarrow> 'b \<Rightarrow> PushNotificationConfig option" where
  "push_from_orm s payload =
     (case pdb_fernet s of
        Some f \<Rightarrow> (case fernet_decrypt f payload of
                    Some decrypted_payload \<Rightarrow> pdb_parse s decrypted_payload
                  | None \<Rightarrow> pdb_parse s payload)
      | None \<Rightarrow> pdb_parse s payload)"

definition db_set_info ::
  "string \<Rightarrow> PushNotificationConfig \<Rightarrow> 'b push_db \<Rightarrow> PushNotificationConfig \<times> 'b push_db" where
  "db_set_info tid notification_config s =
     (let config_to_save = with_default_id tid notification_config;
          (k, data) = push_to_orm s tid config_to_save
      in (notification_config, s\<lparr>pdb_rows := AList.update k data (pdb_rows s)\<rparr>))"

definition db_get_info :: "string \<Rightarrow> 'b push_db \<Rightarrow> PushNotificationConfig list" where
  "db_get_info tid s =
     List.map_filter (\<lambda>(k, payload). push_from_orm s payload) (filter (\<lambda>(k, payload). fst k = tid) (pdb_rows s))"

definition db_delete_info :: "string \<Rightarrow> string option \<Rightarrow> 'b push_db \<Rightarrow> 'b push_db" where
  "db_delete_info tid config_id s =
     s\<lparr>pdb_rows := filter (\<lambda>(k, payload). \<not> (fst k = tid \<and>
        (case config_id of None \<Rightarrow> True | Some i \<Rightarrow> snd k = i))) (pdb_rows s)\<rparr>"

definition db_push_ops :: "'b push_db push_ops" where
  "db_push_ops = \<lparr>ps_set = db_set_info, ps_get = db_get_info, ps_delete = db_delete_info\<rparr>"

definition db_push_view :: "'b push_db \<Rightarrow> string \<Rightarrow> string \<Rightarrow> PushNotificationConfig option" where
  "db_push_view s t i = Option.bind (map_of (pdb_rows s) (t, i)) (push_from_orm s)"

definition codec_ok :: "'b push_db \<Rightarrow> bool" where
  "codec_ok s \<longleftrightarrow> (\<forall>c. pdb_parse s (pdb_dump s c) = Some c) \<and>
     (case pdb_fernet s of None \<Rightarrow> True
      | Some f \<Rightarrow> \<forall>b. fernet_decrypt f (fernet_encrypt f b) = Some b)"

definition db_push_inv :: "'b push_db \<Rightarrow> bool" where
  "db_push_inv s \<longleftrightarrow> codec_ok s \<and> distinct (map fst (pdb_rows s)) \<and>
     (\<forall>t i b. ((t, i), b) \<in> set (pdb_rows s) \<longrightarrow> (\<exists>c. push_from_orm s b = Some c \<and> pnc_id c = Some i))"

lemma push_from_to_orm:
  "codec_ok s \<Longrightarrow> push_from_orm s (snd (push_to_orm s t c)) = Some c"
  by (auto simp: codec_ok_def push_from_orm_def push_to_orm_def Let_def split: option.splits)

lemma push_from_orm_rows [simp]: "push_from_orm (s\<lparr>pdb_rows := rs\<rparr>) = push_from_orm s"
  by (simp add: push_from_orm_def fun_eq_iff split: option.split)

lemma codec_ok_rows [simp]: "codec_ok (s\<lparr>pdb_rows := rs\<rparr>) = codec_ok s"
  by (simp add: codec_ok_def)

lemma db_push_view_iff:
  assumes "db_push_inv s"
  shows "db_push_view s t i = Some c \<longleftrightarrow> (\<exists>b. ((t, i), b) \<in> set (pdb_rows s) \<and> push_from_orm s b = Some c)"
  using assms by (auto simp: db_push_view_def db_push_inv_def bind_eq_Some_conv dest: map_of_SomeD)

lemma db_set_info_rows:
  "pdb_rows (snd (db_set_info t c s)) =
     AList.update (t, effective_id t c) (snd (push_to_orm s t (with_default_id t c))) (pdb_rows s)"
  "snd (db_set_info t c s) = s\<lparr>pdb_rows := pdb_rows (snd (db_set_info t c s))\<rparr>"
  by (simp_all add: db_set_info_def push_to_orm_def Let_def)

lemma db_push_inv_set:
  assumes "db_push_inv s"
  shows "db_push_inv (snd (db_set_info t c s))"
proof -
  have ok: "codec_ok s" and d: "distinct (map fst (pdb_rows s))" using assms by (simp_all add: db_push_inv_def)
  let ?rs = "AList.update (t, effective_id t c) (snd (push_to_orm s t (with_default_id t c))) (pdb_rows s)"
  have "\<exists>c'. push_from_orm s b = Some c' \<and> pnc_id c' = Some i" if "((t', i), b) \<in> set ?rs" for t' i b
  proof -
    have "distinct (map fst ?rs)" using d by (rule distinct_update)
    from this that have "map_of ?rs (t', i) = Some b" by simp
    then have "((t', i), b) \<in> set (pdb_rows s) \<or> (i = effective_id t c \<and> b = snd (push_to_orm s t (with_default_id t c)))"
      by (auto simp: update_conv' split: if_splits dest: map_of_SomeD)
    then show ?thesis using assms push_from_to_orm [OF ok] by (auto simp: db_push_inv_def)
  qed
  with ok d have "db_push_inv (s\<lparr>pdb_rows := ?rs\<rparr>)" by (simp add: db_push_inv_def distinct_update)
  then show ?thesis using db_set_info_rows [of t c s] by metis
qed

lemma db_push_view_set:
  assumes "db_push_inv s"
  shows "db_push_view (snd (db_set_info t c s)) =
     (db_push_view s)(t := (db_push_view s t)(effective_id t c \<mapsto> with_default_id t c))"
proof -
  have ok: "codec_ok s" using assms by (simp add: db_push_inv_def)
  have "push_from_orm (snd (db_set_info t c s)) = push_from_orm s"
    by (subst db_set_info_rows(2)) simp
  note eq = this
  show ?thesis
    unfolding db_push_view_def eq db_set_info_rows(1)
    by (auto simp: fun_eq_iff update_conv' push_from_to_orm [OF ok])
qed

lemma db_push_inv_delete: "db_push_inv s \<Longrightarrow> db_push_inv (db_delete_info t i s)"
  by (auto simp: db_push_inv_def db_delete_info_def distinct_map_filter)

lemma db_push_view_delete:
  assumes "db_push_inv s"
  shows "db_push_view (db_delete_info t i s) =
     (db_push_view s)(t := (case i of None \<Rightarrow> Map.empty | Some j \<Rightarrow> (db_push_view s t)(j := None)))"
proof -
  have "db_push_view (db_delete_info t i s) t' j = Some c \<longleftrightarrow>
      ((db_push_view s)(t := (case i of None \<Rightarrow> Map.empty | Some j \<Rightarrow> (db_push_view s t)(j := None)))) t' j = Some c"
    for t' j c
    using db_push_view_iff [OF assms] db_push_view_iff [OF db_push_inv_delete [OF assms, of t i]]
    by (auto simp: db_delete_info_def split: option.splits if_splits)
  then show ?thesis by (intro ext) (metis option.exhaust)
qed

lemma map_filter_cong:
  "(\<And>x. x \<in> set xs \<Longrightarrow> f x \<noteq> None) \<Longrightarrow> List.map_filter f xs = map (the \<circ> f) xs"
  by (induction xs) (auto simp: map_filter_simps split: option.splits)

interpretation dbp: push_store db_push_ops db_push_view db_push_inv
proof unfold_locales
  show "db_push_inv s \<Longrightarrow> db_push_inv (snd (ps_set db_push_ops t c s)) \<and>
      db_push_view (snd (ps_set db_push_ops t c s)) =
        (db_push_view s)(t := (db_push_view s t)(effective_id t c \<mapsto> with_default_id t c))" for s t c
    by (simp add: db_push_ops_def db_push_inv_set db_push_view_set)
  show "db_push_inv s \<Longrightarrow> db_push_inv (ps_delete db_push_ops t (Some i) s) \<and>
      db_push_view (ps_delete db_push_ops t (Some i) s) =
        (db_push_view s)(t := (db_push_view s t)(i := None))" for s t i
    by (simp add: db_push_ops_def db_push_inv_delete db_push_view_delete)
  show "db_push_inv s \<Longrightarrow> db_push_view s t i = Some c \<Longrightarrow> pnc_id c = Some i" for s t i c
    by (auto simp: db_push_view_iff) (metis db_push_inv_def option.inject)
next
  fix s :: "'b push_db" and t
  assume i: "db_push_inv s"
  let ?rs = "filter (\<lambda>(k, payload). fst k = t) (pdb_rows s)"
  have rows: "\<exists>c. push_from_orm s (snd r) = Some c \<and> pnc_id c = Some (snd (fst r)) \<and> fst (fst r) = t"
    if "r \<in> set ?rs" for r using i that by (cases r) (auto simp: db_push_inv_def)
  have eq: "db_get_info t s = map (the \<circ> (\<lambda>(k, payload). push_from_orm s payload)) ?rs"
    unfolding db_get_info_def by (rule map_filter_cong) (use rows in fastforce)
  have "map (Some \<circ> snd \<circ> fst) ?rs = map pnc_id (db_get_info t s)"
    unfolding eq using rows by (fastforce simp: o_def)
  moreover have "distinct (map (Some \<circ> snd \<circ> fst) ?rs)"
  proof -
    have "distinct (map fst ?rs)" using i by (simp add: db_push_inv_def distinct_map_filter)
    moreover have "inj_on (Some \<circ> snd) (set (map fst ?rs))"
      using rows by (fastforce simp: inj_on_def prod_eq_iff)
    ultimately have "distinct (map (Some \<circ> snd) (map fst ?rs))"
      unfolding distinct_map [of "Some \<circ> snd"] by blast
    then show ?thesis by (simp add: o_assoc)
  qed
  ultimately have d: "distinct (map pnc_id (db_get_info t s))" by simp
  have "c \<in> set (db_get_info t s) \<longleftrightarrow> (\<exists>j. db_push_view s t j = Some c)" for c
    unfolding eq db_push_view_iff [OF i] using rows by (fastforce simp: image_iff)
  with d show "distinct (map pnc_id (ps_get db_push_ops t s)) \<and>
      set (ps_get db_push_ops t s) = ran (db_push_view s t)"
    by (auto simp: db_push_ops_def ran_def)
qed

subsection \<open>Sending notifications\<close>

record http_post =
  post_url :: string
  post_token_header :: "string option"
  post_task :: Task

definition dispatch_notification :: "Task \<Rightarrow> PushNotificationConfig \<Rightarrow> http_post" where
  "dispatch_notification task push_info =
     \<lparr>post_url = pnc_url push_info,
      post_token_header = (if truthy (pnc_token push_info) then pnc_token push_info else None),
      post_task = task\<rparr>"

text \<open>
  The requests of \<open>send_notification\<close>. The answers do not matter: a request that fails is
  logged, and the result says whether all succeeded (\<open>post_ok\<close> is the HTTP client).
\<close>

definition send_notification ::
  "'s push_ops \<Rightarrow> (http_post \<Rightarrow> bool) \<Rightarrow> Task \<Rightarrow> 's \<Rightarrow> http_post list \<times> bool" where
  "send_notification ops post_ok task s =
     (let push_configs = ps_get ops (task_id task) s in
      if push_configs = [] then ([], True)
      else (let posts = map (dispatch_notification task) push_configs
            in (posts, list_all post_ok posts)))"

subsection \<open>Properties\<close>

text \<open>
  After \<open>set_info\<close> a task's configurations are the given one, under its own id or,
  when it has none, the task's id, and the earlier ones with another id: one configuration
  per id, in both stores. Other tasks keep theirs.
\<close>

theorem set_info_listed:
  assumes "mem_push_inv s" and "db_push_inv d"
  shows "set (mem_get_info t (snd (mem_set_info t c s))) =
           insert (with_default_id t c) {e \<in> set (mem_get_info t s). pnc_id e \<noteq> Some (effective_id t c)} \<and>
         set (db_get_info t (snd (db_set_info t c d))) =
           insert (with_default_id t c) {e \<in> set (db_get_info t d). pnc_id e \<noteq> Some (effective_id t c)} \<and>
         distinct (map pnc_id (mem_get_info t (snd (mem_set_info t c s)))) \<and>
         distinct (map pnc_id (db_get_info t (snd (db_set_info t c d)))) \<and>
         (t' = t \<or> set (mem_get_info t' (snd (mem_set_info t c s))) = set (mem_get_info t' s) \<and>
                   set (db_get_info t' (snd (db_set_info t c d))) = set (db_get_info t' d))"
proof -
  have i: "mem_push_inv (snd (mem_set_info t c s))" "db_push_inv (snd (db_set_info t c d))"
    using memp.set_law [OF assms(1)] dbp.set_law [OF assms(2)]
    by (simp_all add: mem_push_ops_def db_push_ops_def)
  from memp.get_law [OF i(1), of t] dbp.get_law [OF i(2), of t]
    memp.set_then_get [OF assms(1), of t c] dbp.set_then_get [OF assms(2), of t c]
    memp.set_other_task [OF assms(1), of t' t c] dbp.set_other_task [OF assms(2), of t' t c]
  show ?thesis by (auto simp: mem_push_ops_def db_push_ops_def)
qed

definition sample_config :: "string option \<Rightarrow> string \<Rightarrow> PushNotificationConfig" where
  "sample_config i url = \<lparr>pnc_authentication = None, pnc_id = i, pnc_token = None, pnc_url = url\<rparr>"

definition sample_push_db :: "PushNotificationConfig push_db" where
  "sample_push_db = \<lparr>pdb_dump = (\<lambda>c. c), pdb_parse = Some, pdb_fernet = None, pdb_rows = []\<rparr>"

lemma sample_push_stores [simp]:
  "mem_push_inv Map.empty" "db_push_inv sample_push_db"
  "mem_push_view Map.empty = db_push_view sample_push_db"
  by (auto simp: mem_push_inv_def mem_infos_def db_push_inv_def sample_push_db_def codec_ok_def
      mem_push_view_def db_push_view_def fun_eq_iff)

theorem set_info_listed_witness:
  "set (mem_get_info ''t'' (snd (mem_set_info ''t'' (sample_config None ''http://x'') Map.empty))) =
     {sample_config (Some ''t'') ''http://x''}"
  using set_info_listed [OF sample_push_stores(1,2), of "''t''" "sample_config None ''http://x''" "''u''"]
  by (simp add: with_default_id_def sample_config_def mem_get_info_def)

text \<open>
  The in-memory and the database store implement the same map of configurations:
  started from equal contents they stay equal under \<open>set_info\<close> and under \<open>delete_info\<close> with a
  configuration id, and \<open>get_info\<close> lists the same configurations.
\<close>

theorem push_stores_agree:
  assumes "mem_push_inv s" and "db_push_inv d" and "mem_push_view s = db_push_view d"
  shows "mem_push_view (snd (mem_set_info t c s)) = db_push_view (snd (db_set_info t c d)) \<and>
         mem_push_view (mem_delete_info t (Some i) s) = db_push_view (db_delete_info t (Some i) d) \<and>
         set (mem_get_info t s) = set (db_get_info t d)"
  using memp.set_law [OF assms(1), of t c] dbp.set_law [OF assms(2), of t c]
    memp.delete_law [OF assms(1), of t i] dbp.delete_law [OF assms(2), of t i]
    memp.get_law [OF assms(1), of t] dbp.get_law [OF assms(2), of t] assms(3)
  by (simp add: mem_push_ops_def db_push_ops_def)

theorem push_stores_agree_witness:
  "mem_push_view (snd (mem_set_info ''t'' (sample_config None ''http://x'') Map.empty)) =
   db_push_view (snd (db_set_info ''t'' (sample_config None ''http://x'') sample_push_db))"
  using push_stores_agree [OF sample_push_stores] by blast

text \<open>
  \<open>delete_info\<close> without a configuration id means different things in the two stores:
  the in-memory store deletes only the configuration whose id is the task's id, the database
  store deletes every configuration of the task.
\<close>

theorem delete_info_without_id:
  assumes "mem_push_inv s" and "db_push_inv d"
  shows "set (mem_get_info t (mem_delete_info t None s)) = {c \<in> set (mem_get_info t s). pnc_id c \<noteq> Some t} \<and>
         db_get_info t (db_delete_info t None d) = []"
proof -
  have "mem_get_info t (mem_delete_info t None s) = filter (\<lambda>c. pnc_id c \<noteq> Some t) (mem_get_info t s)"
    by (simp add: mem_get_info_eq mem_infos_delete [OF assms(1)])
  moreover have "db_get_info t (db_delete_info t None d) = []"
  proof -
    have "filter (\<lambda>(k, payload). fst k = t) (pdb_rows (db_delete_info t None d)) = []"
      by (auto simp: db_delete_info_def filter_empty_conv)
    then show ?thesis by (simp add: db_get_info_def map_filter_simps)
  qed
  ultimately show ?thesis by simp
qed

theorem delete_info_without_id_witness:
  "set (mem_get_info ''t'' (mem_delete_info ''t'' None [''t'' \<mapsto> [sample_config (Some ''a'') ''u'']])) =
     {sample_config (Some ''a'') ''u''} \<and>
   db_get_info ''t'' (db_delete_info ''t'' None (snd (db_set_info ''t'' (sample_config (Some ''a'') ''u'') sample_push_db))) = []"
proof -
  have m: "mem_push_inv [''t'' \<mapsto> [sample_config (Some ''a'') ''u'']]"
    by (simp add: mem_push_inv_def mem_infos_def sample_config_def)
  have d: "db_push_inv (snd (db_set_info ''t'' (sample_config (Some ''a'') ''u'') sample_push_db))"
    by (simp add: db_push_inv_set)
  have g: "{c \<in> set (mem_get_info ''t'' [''t'' \<mapsto> [sample_config (Some ''a'') ''u'']]). pnc_id c \<noteq> Some ''t''} =
      {sample_config (Some ''a'') ''u''}"
    by (auto simp: mem_get_info_def sample_config_def)
  show ?thesis
    using delete_info_without_id [OF m d, of "''t''"] unfolding g .
qed

text \<open>
  A notification about a task goes once to the URL of each configuration that was set
  for the task and not replaced or deleted, with the token header exactly when the
  configuration has a non-empty token, and carries the task.
\<close>

theorem send_notification_reaches_all:
  assumes "mem_push_inv s"
  shows "length (fst (send_notification mem_push_ops ok task s)) = length (mem_get_info (task_id task) s) \<and>
         set (fst (send_notification mem_push_ops ok task s)) =
           {dispatch_notification task c |c i. mem_push_view s (task_id task) i = Some c} \<and>
         (\<forall>p \<in> set (fst (send_notification mem_push_ops ok task s)).
            post_task p = task \<and> post_token_header p \<noteq> Some [])"
proof -
  have p: "fst (send_notification mem_push_ops ok task s) =
      map (dispatch_notification task) (mem_get_info (task_id task) s)"
    by (simp add: send_notification_def mem_push_ops_def Let_def)
  have r: "set (mem_get_info (task_id task) s) = ran (mem_push_view s (task_id task))"
    using memp.get_law [OF assms, of "task_id task"] by (simp add: mem_push_ops_def)
  show ?thesis unfolding p by (auto simp: r ran_def dispatch_notification_def)
qed

theorem send_notification_reaches_all_witness:
  "set (fst (send_notification mem_push_ops (\<lambda>p. True) sample_task
      (snd (mem_set_info ''t'' (sample_config None ''http://x'') Map.empty)))) =
     {dispatch_notification sample_task (sample_config (Some ''t'') ''http://x'')}"
proof -
  let ?s = "snd (mem_set_info ''t'' (sample_config None ''http://x'') Map.empty)"
  have i: "mem_push_inv ?s"
    using memp.set_law [OF sample_push_stores(1)] by (simp add: mem_push_ops_def)
  have v: "mem_push_view ?s ''t'' i = (if i = ''t'' then Some (sample_config (Some ''t'') ''http://x'') else None)" for i
    by (simp add: mem_push_view_def mem_infos_set mem_infos_def sample_config_def effective_id_def with_default_id_def)
  show ?thesis
    using send_notification_reaches_all [OF i, of "\<lambda>p. True" sample_task] v
    by (auto simp: sample_task_def split: if_splits)
qed

end
