(* ===== verification/A2A_Protocol.thy ===== *)
theory A2A_Protocol
  imports A2A_Types
begin

section \<open>The data model (src/a2a/types.py), second part: agent cards, requests, responses\<close>

text \<open>
  The agent card with its security schemes, the JSON-RPC request and response classes. Every
  success response class has the fields \<open>id\<close> and \<open>result\<close>: one polymorphic record carries
  them, and a response (the \<open>RootModel\<close> classes) is an error response or such a record.
\<close>

subsection \<open>Security schemes\<close>

record APIKeySecurityScheme =
  aks_description :: "string option"
  aks_in :: In
  aks_name :: string

record HTTPAuthSecurityScheme =
  has_bearer_format :: "string option"
  has_description :: "string option"
  has_scheme :: string

record AuthorizationCodeOAuthFlow =
  acf_authorization_url :: string
  acf_refresh_url :: "string option"
  acf_scopes :: "(string \<times> string) list"
  acf_token_url :: string

record ClientCredentialsOAuthFlow =
  ccf_refresh_url :: "string option"
  ccf_scopes :: "(string \<times> string) list"
  ccf_token_url :: string

record ImplicitOAuthFlow =
  imf_authorization_url :: string
  imf_refresh_url :: "string option"
  imf_scopes :: "(string \<times> string) list"

record PasswordOAuthFlow =
  pwf_refresh_url :: "string option"
  pwf_scopes :: "(string \<times> string) list"
  pwf_token_url :: string

record OAuthFlows =
  oaf_authorization_code :: "AuthorizationCodeOAuthFlow option"
  oaf_client_credentials :: "ClientCredentialsOAuthFlow option"
  oaf_implicit :: "ImplicitOAuthFlow option"
  oaf_password :: "PasswordOAuthFlow option"

record OAuth2SecurityScheme =
  oas_description :: "string option"
  oas_flows :: OAuthFlows
  oas_oauth2_metadata_url :: "string option"

record OpenIdConnectSecurityScheme =
  oid_description :: "string option"
  oid_open_id_connect_url :: string

record MutualTLSSecurityScheme =
  mts_description :: "string option"

datatype SecurityScheme =
    APIKeyScheme APIKeySecurityScheme
  | HTTPAuthScheme HTTPAuthSecurityScheme
  | OAuth2Scheme OAuth2SecurityScheme
  | OpenIdConnectScheme OpenIdConnectSecurityScheme
  | MutualTLSScheme MutualTLSSecurityScheme

subsection \<open>Agent cards\<close>

record AgentCardSignature =
  acs_header :: "pydict option"
  acs_protected :: string
  acs_signature :: string

record AgentExtension =
  ext_description :: "string option"
  ext_params :: "pydict option"
  ext_required :: "bool option"
  ext_uri :: string

record AgentInterface =
  aif_transport :: string
  aif_url :: string

record AgentProvider =
  prv_organization :: string
  prv_url :: string

record AgentSkill =
  skl_description :: string
  skl_examples :: "string list option"
  skl_id :: string
  skl_input_modes :: "string list option"
  skl_name :: string
  skl_output_modes :: "string list option"
  skl_security :: "(string \<times> string list) list list option"
  skl_tags :: "string list"

record AgentCapabilities =
  cap_extensions :: "AgentExtension list option"
  cap_push_notifications :: "bool option"
  cap_state_transition_history :: "bool option"
  cap_streaming :: "bool option"

record AgentCard =
  card_additional_interfaces :: "AgentInterface list option"
  card_capabilities :: AgentCapabilities
  card_default_input_modes :: "string list"
  card_default_output_modes :: "string list"
  card_description :: string
  card_documentation_url :: "string option"
  card_icon_url :: "string option"
  card_name :: string
  card_preferred_transport :: "string option"
  card_protocol_version :: "string option"
  card_provider :: "AgentProvider option"
  card_security :: "(string \<times> string list) list list option"
  card_security_schemes :: "(string \<times> SecurityScheme) list option"
  card_signatures :: "AgentCardSignature list option"
  card_skills :: "AgentSkill list"
  card_supports_authenticated_extended_card :: "bool option"
  card_url :: string
  card_version :: string

subsection \<open>JSON-RPC requests\<close>

record SendMessageRequest =
  smr_id :: rpc_id
  smr_params :: MessageSendParams

record SendStreamingMessageRequest =
  ssr_id :: rpc_id
  ssr_params :: MessageSendParams

record GetTaskRequest =
  gtr_id :: rpc_id
  gtr_params :: TaskQueryParams

record CancelTaskRequest =
  ctr_id :: rpc_id
  ctr_params :: TaskIdParams

record SetTaskPushNotificationConfigRequest =
  spr_id :: rpc_id
  spr_params :: TaskPushNotificationConfig

text \<open>\<open>params: TaskIdParams | GetTaskPushNotificationConfigParams\<close>\<close>

datatype get_config_params =
    GCP_TaskId TaskIdParams
  | GCP_Config GetTaskPushNotificationConfigParams

record GetTaskPushNotificationConfigRequest =
  gpr_id :: rpc_id
  gpr_params :: get_config_params

record ListTaskPushNotificationConfigRequest =
  lpr_id :: rpc_id
  lpr_params :: ListTaskPushNotificationConfigParams

record DeleteTaskPushNotificationConfigRequest =
  dpr_id :: rpc_id
  dpr_params :: DeleteTaskPushNotificationConfigParams

record TaskResubscriptionRequest =
  trr_id :: rpc_id
  trr_params :: TaskIdParams

record GetAuthenticatedExtendedCardRequest =
  gar_id :: rpc_id

datatype A2ARequest =
    Req_SendMessage SendMessageRequest
  | Req_SendStreamingMessage SendStreamingMessageRequest
  | Req_GetTask GetTaskRequest
  | Req_CancelTask CancelTaskRequest
  | Req_SetPushConfig SetTaskPushNotificationConfigRequest
  | Req_GetPushConfig GetTaskPushNotificationConfigRequest
  | Req_Resubscribe TaskResubscriptionRequest
  | Req_ListPushConfig ListTaskPushNotificationConfigRequest
  | Req_DeletePushConfig DeleteTaskPushNotificationConfigRequest
  | Req_GetExtendedCard GetAuthenticatedExtendedCardRequest

text \<open>The literal of the \<open>method\<close> field of each request class.\<close>

fun request_method :: "A2ARequest \<Rightarrow> string" where
  "request_method (Req_SendMessage r) = ''message/send''"
| "request_method (Req_SendStreamingMessage r) = ''message/stream''"
| "request_method (Req_GetTask r) = ''tasks/get''"
| "request_method (Req_CancelTask r) = ''tasks/cancel''"
| "request_method (Req_SetPushConfig r) = ''tasks/pushNotificationConfig/set''"
| "request_method (Req_GetPushConfig r) = ''tasks/pushNotificationConfig/get''"
| "request_method (Req_Resubscribe r) = ''tasks/resubscribe''"
| "request_method (Req_ListPushConfig r) = ''tasks/pushNotificationConfig/list''"
| "request_method (Req_DeletePushConfig r) = ''tasks/pushNotificationConfig/delete''"
| "request_method (Req_GetExtendedCard r) = ''agent/getAuthenticatedExtendedCard''"

fun request_rpc_id :: "A2ARequest \<Rightarrow> rpc_id" where
  "request_rpc_id (Req_SendMessage r) = smr_id r"
| "request_rpc_id (Req_SendStreamingMessage r) = ssr_id r"
| "request_rpc_id (Req_GetTask r) = gtr_id r"
| "request_rpc_id (Req_CancelTask r) = ctr_id r"
| "request_rpc_id (Req_SetPushConfig r) = spr_id r"
| "request_rpc_id (Req_GetPushConfig r) = gpr_id r"
| "request_rpc_id (Req_Resubscribe r) = trr_id r"
| "request_rpc_id (Req_ListPushConfig r) = lpr_id r"
| "request_rpc_id (Req_DeletePushConfig r) = dpr_id r"
| "request_rpc_id (Req_GetExtendedCard r) = gar_id r"

subsection \<open>JSON-RPC responses\<close>

record JSONRPCErrorResponse =
  ers_error :: rpc_error
  ers_id :: "rpc_id option"

record 'r success_response =
  srs_id :: "rpc_id option"
  srs_result :: 'r

datatype 'r rpc_response =
    Rsp_Error JSONRPCErrorResponse
  | Rsp_Success "'r success_response"

text \<open>What a handler can return to the response helpers (\<open>EventTypes\<close>, response_helpers.py), and the
  results of the methods that do without the helpers (a card, \<open>None\<close>).\<close>

datatype handler_result =
    HR_Task Task
  | HR_Message Message
  | HR_ArtifactUpdate TaskArtifactUpdateEvent
  | HR_StatusUpdate TaskStatusUpdateEvent
  | HR_PushConfig TaskPushNotificationConfig
  | HR_PushConfigList "TaskPushNotificationConfig list"
  | HR_Card AgentCard
  | HR_Error rpc_error
  | HR_None

fun event_result :: "Event \<Rightarrow> handler_result" where
  "event_result (EvMessage m) = HR_Message m"
| "event_result (EvTask t) = HR_Task t"
| "event_result (EvStatus e) = HR_StatusUpdate e"
| "event_result (EvArtifact e) = HR_ArtifactUpdate e"

text \<open>A small card for concrete runs.\<close>

definition sample_card :: "bool option \<Rightarrow> AgentCard" where
  "sample_card flag =
     \<lparr>card_additional_interfaces = None,
      card_capabilities = \<lparr>cap_extensions = None, cap_push_notifications = flag, cap_state_transition_history = None,
                           cap_streaming = flag\<rparr>,
      card_default_input_modes = [], card_default_output_modes = [], card_description = [],
      card_documentation_url = None, card_icon_url = None, card_name = ''agent'', card_preferred_transport = None,
      card_protocol_version = None, card_provider = None, card_security = None, card_security_schemes = None,
      card_signatures = None, card_skills = [], card_supports_authenticated_extended_card = flag,
      card_url = [], card_version = []\<rparr>"

end
