(* ===== verification/RequestHandler.thy ===== *)
theory RequestHandler
  imports ResultAggregator RequestContext QueueManager PushConfigStore A2A_Protocol
begin

section \<open>The default request handler (server/request_handlers/default_request_handler.py)\<close>

text \<open>
  The handler composes the components: it keeps the task store, the queue manager, the push
  configurations and the table of running agents. What it was constructed with is the record
  \<open>handler_cfg\<close>; what its operations change is \<open>handler_state\<close>. The agent executor is not part of the SDK:
  what it does to its queue is the schedule of the consumer, how its task ends is the
  argument \<open>producer\<close>, and ids and asyncio tasks that the code creates are arguments.
\<close>

record ('st, 'ps) handler_cfg =
  hc_store_ops :: "'st store_ops"
  hc_push_store :: "'ps push_ops option"
  hc_push_sender :: "(Task \<Rightarrow> 'ps \<Rightarrow> http_post list) option"
  hc_populate_referred_tasks :: bool
  hc_py313 :: bool
  hc_state_str :: "TaskState \<Rightarrow> string"

record ('st, 'ps) handler_state =
  hs_store :: "'st store_state"
  hs_queues :: queue_world
  hs_push :: 'ps
  hs_running_agents :: "string \<rightharpoonup> nat"
  hs_cancelled :: "nat list"
  hs_posts :: "http_post list"

definition TERMINAL_TASK_STATES :: "TaskState set" where
  "TERMINAL_TASK_STATES = {completed, canceled, failed, rejected}"

definition in_terminal_state :: "Task \<Rightarrow> bool" where
  "in_terminal_state t \<longleftrightarrow> status_state (task_status t) \<in> TERMINAL_TASK_STATES"

text \<open>\<open>task = await self.task_store.get(id)\<close>, the task by reference.\<close>

definition store_get ::
  "('st, 'ps) handler_cfg \<Rightarrow> string \<Rightarrow> ('st, 'ps) handler_state \<Rightarrow> addr option \<times> ('st, 'ps) handler_state" where
  "store_get cfg i s = (let (r, w) = ts_get (hc_store_ops cfg) i (hs_store s) in (r, s\<lparr>hs_store := w\<rparr>))"

definition hs_obj :: "('st, 'ps) handler_state \<Rightarrow> addr \<Rightarrow> Task" where
  "hs_obj s r = obj (hs_store s) r"

definition server_err :: "rpc_error \<Rightarrow> string \<Rightarrow> exn" where
  "server_err e text = raise_server (e\<lparr>err_message := Some text\<rparr>)"

subsection \<open>Tasks\<close>

definition on_get_task ::
  "('st, 'ps) handler_cfg \<Rightarrow> TaskQueryParams \<Rightarrow> ('st, 'ps) handler_state \<Rightarrow>
   (exn + Task) \<times> ('st, 'ps) handler_state" where
  "on_get_task cfg params s =
     (case store_get cfg (tqp_id params) s of
        (None, s') \<Rightarrow> (Inl (raise_server TaskNotFoundError), s')
      | (Some r, s') \<Rightarrow> (Inr (apply_history_length (hs_obj s' r) (tqp_history_length params)), s'))"

definition terminal_task_error :: "Task \<Rightarrow> exn" where
  "terminal_task_error t = server_err InvalidParamsError
     (''Task '' @ task_id t @ '' is in terminal state: '' @ task_state_value (status_state (task_status t)))"

definition not_cancelable :: "('st, 'ps) handler_cfg \<Rightarrow> TaskState \<Rightarrow> exn" where
  "not_cancelable cfg state = server_err TaskNotCancelableError
     (''Task cannot be canceled - current state: '' @ hc_state_str cfg state)"

text \<open>The consumer over a queue of the manager's world.\<close>

definition consume_queue ::
  "('st, 'ps) handler_cfg \<Rightarrow> qref \<Rightarrow> schedule \<Rightarrow> ('st, 'ps) handler_state \<Rightarrow>
   (Event list \<times> consume_end) \<times> ('st, 'ps) handler_state" where
  "consume_queue cfg q sched s =
     (let (evs, en, q') = consume_all (hc_py313 cfg) sched None (q_at (hs_queues s) q)
      in ((evs, en), s\<lparr>hs_queues := q_set q q' (hs_queues s)\<rparr>))"

text \<open>
  \<open>on_cancel_task\<close>: \<open>agent_cancel\<close> is what \<open>agent_executor.cancel\<close> does to the queue it is
  given, or the exception it raises.
\<close>

definition on_cancel_task ::
  "('st, 'ps) handler_cfg \<Rightarrow> TaskIdParams \<Rightarrow> (RequestContext \<Rightarrow> exn + queue_op list) \<Rightarrow> schedule \<Rightarrow>
   ('st, 'ps) handler_state \<Rightarrow> Task await \<times> ('st, 'ps) handler_state" where
  "on_cancel_task cfg params agent_cancel sched s =
     (case store_get cfg (tip_id params) s of
        (None, s1) \<Rightarrow> (Raised (raise_server TaskNotFoundError), s1)
      | (Some r, s1) \<Rightarrow>
          let task = hs_obj s1 r in
          if in_terminal_state task
          then (Raised (not_cancelable cfg (status_state (task_status task))), s1)
          else
            case tm_init (Some (task_id task)) (Some (task_context_id task)) None of
              Inl e \<Rightarrow> (Raised e, s1)
            | Inr tm \<Rightarrow>
                (case qm_tap (task_id task) (hs_queues s1) of
                   (Blocked, w) \<Rightarrow> (Blocked, s1\<lparr>hs_queues := w\<rparr>)
                 | (Raised e, w) \<Rightarrow> (Raised e, s1\<lparr>hs_queues := w\<rparr>)
                 | (Done tapped, w) \<Rightarrow>
                     let (q, w') = (case tapped of Some q \<Rightarrow> (q, w) | None \<Rightarrow> q_new w);
                         s2 = s1\<lparr>hs_queues := w'\<rparr>
                     in case fst (rc_init None (Some (task_id task)) (Some (task_context_id task))
                                    (Some task) None None [] []) of
                          Inl e \<Rightarrow> (Raised e, s2)
                        | Inr rc \<Rightarrow>
                            (case agent_cancel rc of
                               Inl e \<Rightarrow> (Raised e, s2)
                             | Inr ops \<Rightarrow>
                                 let s3 = s2\<lparr>hs_queues := q_set q (foldl (\<lambda>x op. apply_op (hc_py313 cfg) op x)
                                                                  (q_at (hs_queues s2) q) ops) (hs_queues s2)\<rparr>;
                                     s3' = (case hs_running_agents s3 (task_id task) of
                                              None \<Rightarrow> s3
                                            | Some p \<Rightarrow> s3\<lparr>hs_cancelled := hs_cancelled s3 @ [p]\<rparr>);
                                     ((evs, en), s4) = consume_queue cfg q sched s3';
                                     (res, ra, w4) = ra_consume_all (hc_store_ops cfg) evs en (ra_init tm) (hs_store s4);
                                     s5 = s4\<lparr>hs_store := w4\<rparr>
                                 in (case res of
                                       Blocked \<Rightarrow> (Blocked, s5)
                                     | Raised e \<Rightarrow> (Raised e, s5)
                                     | Done (AR_Task a) \<Rightarrow>
                                         (let t = obj w4 a in
                                          if status_state (task_status t) \<noteq> canceled
                                          then (Raised (not_cancelable cfg (status_state (task_status t))), s5)
                                          else (Done t, s5))
                                     | Done _ \<Rightarrow>
                                         (Raised (server_err InternalError
                                            ''Agent did not return valid response for cancel''), s5)))))"

subsection \<open>Messages\<close>

text \<open>
  The message object of the request is shared: once it has been appended to the history of the
  task, the ids that the request context writes into it appear there too.
\<close>

definition refresh_last_message :: "Message \<Rightarrow> Task \<Rightarrow> Task" where
  "refresh_last_message m t =
     (case task_history t of
        Some h \<Rightarrow> if h = [] then t else t\<lparr>task_history := Some (butlast h @ [m])\<rparr>
      | None \<Rightarrow> t)"

record execution =
  ex_task_manager :: TaskManager
  ex_task_id :: string
  ex_queue :: qref
  ex_context :: RequestContext
  ex_params :: MessageSendParams

definition task_not_found_named :: "string \<Rightarrow> exn" where
  "task_not_found_named i = server_err TaskNotFoundError (''Task '' @ i @ '' was specified but does not exist'')"

text \<open>The first part of \<open>_setup_message_execution\<close>: the task manager and the validated task.\<close>

definition setup_task ::
  "('st, 'ps) handler_cfg \<Rightarrow> MessageSendParams \<Rightarrow> ('st, 'ps) handler_state \<Rightarrow>
   (exn + TaskManager \<times> addr option) \<times> ('st, 'ps) handler_state" where
  "setup_task cfg params s =
     (let m = msp_message params in
      case tm_init (msg_task_id m) (msg_context_id m) (Some m) of
        Inl e \<Rightarrow> (Inl e, s)
      | Inr tm \<Rightarrow>
          (let (r, tm1, w1) = tm_get_task (hc_store_ops cfg) tm (hs_store s);
               s1 = s\<lparr>hs_store := w1\<rparr>
           in case r of
                Some a \<Rightarrow>
                  if in_terminal_state (obj w1 a) then (Inl (terminal_task_error (obj w1 a)), s1)
                  else (let (a', tm2, w2) = update_with_message m a tm1 w1
                        in (Inr (tm2, Some a'), s1\<lparr>hs_store := w2\<rparr>))
              | None \<Rightarrow>
                  if truthy (msg_task_id m) then (Inl (task_not_found_named (the (msg_task_id m))), s1)
                  else (Inr (tm1, None), s1)))"

text \<open>The second part: request context, push configuration, queue and running agent.\<close>

definition setup_execution ::
  "('st, 'ps) handler_cfg \<Rightarrow> MessageSendParams \<Rightarrow> ServerCallContext option \<Rightarrow> string \<Rightarrow> string \<Rightarrow> nat \<Rightarrow>
   TaskManager \<Rightarrow> addr option \<Rightarrow> ('st, 'ps) handler_state \<Rightarrow> execution await \<times> ('st, 'ps) handler_state" where
  "setup_execution cfg params call gen_task gen_ctx producer_id tm task s =
     (let cur = map_option (hs_obj s) task;
          ((rcr, params1), w1) = build_context (hc_populate_referred_tasks cfg) (hc_store_ops cfg) (Some params)
             (map_option task_id cur) (msg_context_id (msp_message params)) cur call gen_task gen_ctx (hs_store s);
          params2 = (case params1 of Some p \<Rightarrow> p | None \<Rightarrow> params);
          w2 = (case task of None \<Rightarrow> w1
                | Some a \<Rightarrow> set_obj a (refresh_last_message (msp_message params2) (obj w1 a)) w1);
          s2 = s\<lparr>hs_store := w2\<rparr>;
          tm2 = tm\<lparr>tm_initial_message := Some (msp_message params2)\<rparr>
      in case rcr of
           Inl e \<Rightarrow> (Raised e, s2)
         | Inr rc \<Rightarrow>
             (let tid = the (rc_task_id rc);
                  (params3, s3) =
                    (case (hc_push_store cfg, Option.bind (msp_configuration params2) msc_push_notification_config) of
                       (Some ps, Some c) \<Rightarrow>
                         (let (c', p) = ps_set ps tid c (hs_push s2)
                          in (params2\<lparr>msp_configuration := map_option
                                (\<lambda>x. x\<lparr>msc_push_notification_config := Some c'\<rparr>) (msp_configuration params2)\<rparr>,
                              s2\<lparr>hs_push := p\<rparr>))
                     | _ \<Rightarrow> (params2, s2))
              in case qm_create_or_tap tid (hs_queues s3) of
                   (Blocked, w) \<Rightarrow> (Blocked, s3\<lparr>hs_queues := w\<rparr>)
                 | (Raised e, w) \<Rightarrow> (Raised e, s3\<lparr>hs_queues := w\<rparr>)
                 | (Done q, w) \<Rightarrow>
                     (Done \<lparr>ex_task_manager = tm2, ex_task_id = tid, ex_queue = q, ex_context = rc,
                            ex_params = params3\<rparr>,
                      s3\<lparr>hs_queues := w, hs_running_agents := (hs_running_agents s3)(tid \<mapsto> producer_id)\<rparr>)))"

definition setup_message_execution ::
  "('st, 'ps) handler_cfg \<Rightarrow> MessageSendParams \<Rightarrow> ServerCallContext option \<Rightarrow> string \<Rightarrow> string \<Rightarrow> nat \<Rightarrow>
   ('st, 'ps) handler_state \<Rightarrow> execution await \<times> ('st, 'ps) handler_state" where
  "setup_message_execution cfg params call gen_task gen_ctx producer_id s =
     (case setup_task cfg params s of
        (Inl e, s1) \<Rightarrow> (Raised e, s1)
      | (Inr (tm, task), s1) \<Rightarrow> setup_execution cfg params call gen_task gen_ctx producer_id tm task s1)"

definition validate_task_id_match :: "string \<Rightarrow> string \<Rightarrow> exn + unit" where
  "validate_task_id_match tid event_task_id =
     (if tid \<noteq> event_task_id then Inl (server_err InternalError ''Task ID mismatch in agent response'')
      else Inr ())"

definition send_push_notification_if_needed ::
  "('st, 'ps) handler_cfg \<Rightarrow> string \<Rightarrow> ResultAggregator \<Rightarrow> ('st, 'ps) handler_state \<Rightarrow>
   ResultAggregator \<times> ('st, 'ps) handler_state" where
  "send_push_notification_if_needed cfg tid ra s =
     (case hc_push_sender cfg of
        None \<Rightarrow> (ra, s)
      | Some send \<Rightarrow>
          if tid = [] then (ra, s)
          else (let (res, ra', w) = current_result (hc_store_ops cfg) ra (hs_store s);
                    s' = s\<lparr>hs_store := w\<rparr>
                in case res of
                     AR_Task a \<Rightarrow> (ra', s'\<lparr>hs_posts := hs_posts s' @ send (obj w a) (hs_push s')\<rparr>)
                   | _ \<Rightarrow> (ra', s')))"

text \<open>\<open>_cleanup_producer\<close>: await the producer, close the queue, forget the running agent.\<close>

definition cleanup_producer ::
  "('st, 'ps) handler_cfg \<Rightarrow> unit await \<Rightarrow> string \<Rightarrow> ('st, 'ps) handler_state \<Rightarrow>
   unit await \<times> ('st, 'ps) handler_state" where
  "cleanup_producer cfg producer tid s =
     (case producer of
        Blocked \<Rightarrow> (Blocked, s)
      | Raised e \<Rightarrow> (Raised e, s)
      | Done _ \<Rightarrow>
          (case qm_close (hc_py313 cfg) tid (hs_queues s) of
             (Blocked, w) \<Rightarrow> (Blocked, s\<lparr>hs_queues := w\<rparr>)
           | (Raised e, w) \<Rightarrow> (Raised e, s\<lparr>hs_queues := w\<rparr>)
           | (Done _, w) \<Rightarrow>
               (Done (), s\<lparr>hs_queues := w, hs_running_agents := (hs_running_agents s)(tid := None)\<rparr>)))"

text \<open>
  The answer of \<open>on_message_send\<close>: \<open>producer\<close> is the state of the agent's task when the
  clean-up awaits it. An interrupted call leaves the clean-up to a background task.
\<close>

datatype send_result = SR_Message Message | SR_Task Task

definition send_answer ::
  "('st, 'ps) handler_cfg \<Rightarrow> execution \<Rightarrow> agg_result \<Rightarrow> ResultAggregator \<Rightarrow> ('st, 'ps) handler_state \<Rightarrow>
   send_result await \<times> ('st, 'ps) handler_state" where
  "send_answer cfg ex res ra s =
     (case res of
        AR_None \<Rightarrow> (Raised (raise_server InternalError), s)
      | AR_Message m \<Rightarrow>
          (let (ra', s') = send_push_notification_if_needed cfg (ex_task_id ex) ra s in (Done (SR_Message m), s'))
      | AR_Task a \<Rightarrow>
          (case validate_task_id_match (ex_task_id ex) (task_id (hs_obj s a)) of
             Inl e \<Rightarrow> (Raised e, s)
           | Inr _ \<Rightarrow>
               (let result = (case msp_configuration (ex_params ex) of
                                None \<Rightarrow> hs_obj s a
                              | Some c \<Rightarrow> apply_history_length (hs_obj s a) (msc_history_length c));
                    (ra', s') = send_push_notification_if_needed cfg (ex_task_id ex) ra s
                in (Done (SR_Task result), s'))))"

definition is_blocking :: "MessageSendParams \<Rightarrow> bool" where
  "is_blocking params =
     (case msp_configuration params of
        None \<Rightarrow> True
      | Some c \<Rightarrow> msc_blocking c \<noteq> Some False)"

text \<open>The result and, for an interrupted call, the events left to the background task.\<close>

definition on_message_send ::
  "('st, 'ps) handler_cfg \<Rightarrow> MessageSendParams \<Rightarrow> ServerCallContext option \<Rightarrow> string \<Rightarrow> string \<Rightarrow> nat \<Rightarrow>
   schedule \<Rightarrow> unit await \<Rightarrow> ('st, 'ps) handler_state \<Rightarrow>
   (send_result await \<times> Event list) \<times> ('st, 'ps) handler_state" where
  "on_message_send cfg params call gen_task gen_ctx producer_id sched producer s =
     (case setup_message_execution cfg params call gen_task gen_ctx producer_id s of
        (Blocked, s1) \<Rightarrow> ((Blocked, []), s1)
      | (Raised e, s1) \<Rightarrow> ((Raised e, []), s1)
      | (Done ex, s1) \<Rightarrow>
          let ((evs, en), s2) = consume_queue cfg (ex_queue ex) sched s1;
              ((res, rest), ra, w3) =
                consume_and_break_on_interrupt (hc_store_ops cfg) (is_blocking (ex_params ex)) evs en
                  (ra_init (ex_task_manager ex)) (hs_store s2);
              s3 = s2\<lparr>hs_store := w3\<rparr>
          in case res of
               Blocked \<Rightarrow> ((Blocked, rest), s3)
             | Raised e \<Rightarrow>
                 (case cleanup_producer cfg producer (ex_task_id ex) s3 of
                    (Blocked, s4) \<Rightarrow> ((Blocked, rest), s4)
                  | (Raised e', s4) \<Rightarrow> ((Raised e', rest), s4)
                  | (Done _, s4) \<Rightarrow> ((Raised e, rest), s4))
             | Done (result, interrupted) \<Rightarrow>
                 if interrupted
                 then (let (r, s4) = send_answer cfg ex result ra s3 in ((r, rest), s4))
                 else (case cleanup_producer cfg producer (ex_task_id ex) s3 of
                         (Blocked, s4) \<Rightarrow> ((Blocked, rest), s4)
                       | (Raised e', s4) \<Rightarrow> ((Raised e', rest), s4)
                       | (Done _, s4) \<Rightarrow> (let (r, s5) = send_answer cfg ex result ra s4 in ((r, rest), s5))))"

text \<open>The loop of \<open>on_message_send_stream\<close>: each event is applied, checked, notified and yielded.\<close>

fun stream_loop ::
  "('st, 'ps) handler_cfg \<Rightarrow> string \<Rightarrow> Event list \<Rightarrow> consume_end \<Rightarrow> ResultAggregator \<Rightarrow>
   ('st, 'ps) handler_state \<Rightarrow> (Event list \<times> unit await) \<times> ('st, 'ps) handler_state" where
  "stream_loop cfg tid [] en ra s = (([], end_await en ()), s)"
| "stream_loop cfg tid (ev # evs) en ra s =
     (case ra_process (hc_store_ops cfg) ev ra (hs_store s) of
        (Inl e, ra', w) \<Rightarrow> (([], Raised e), s\<lparr>hs_store := w\<rparr>)
      | (Inr _, ra', w) \<Rightarrow>
          (let s1 = s\<lparr>hs_store := w\<rparr> in
           case (case ev of EvTask t \<Rightarrow> validate_task_id_match tid (task_id t) | _ \<Rightarrow> Inr ()) of
             Inl e \<Rightarrow> (([], Raised e), s1)
           | Inr _ \<Rightarrow>
               (let (ra2, s2) = send_push_notification_if_needed cfg tid ra' s1;
                    ((out, r), s3) = stream_loop cfg tid evs en ra2 s2
                in ((ev # out, r), s3))))"

definition on_message_send_stream ::
  "('st, 'ps) handler_cfg \<Rightarrow> MessageSendParams \<Rightarrow> ServerCallContext option \<Rightarrow> string \<Rightarrow> string \<Rightarrow> nat \<Rightarrow>
   schedule \<Rightarrow> ('st, 'ps) handler_state \<Rightarrow> (Event list \<times> unit await) \<times> ('st, 'ps) handler_state" where
  "on_message_send_stream cfg params call gen_task gen_ctx producer_id sched s =
     (case setup_message_execution cfg params call gen_task gen_ctx producer_id s of
        (Blocked, s1) \<Rightarrow> (([], Blocked), s1)
      | (Raised e, s1) \<Rightarrow> (([], Raised e), s1)
      | (Done ex, s1) \<Rightarrow>
          (let ((evs, en), s2) = consume_queue cfg (ex_queue ex) sched s1
           in stream_loop cfg (ex_task_id ex) evs en (ra_init (ex_task_manager ex)) s2))"

definition on_resubscribe_to_task ::
  "('st, 'ps) handler_cfg \<Rightarrow> TaskIdParams \<Rightarrow> schedule \<Rightarrow> ('st, 'ps) handler_state \<Rightarrow>
   (Event list \<times> unit await) \<times> ('st, 'ps) handler_state" where
  "on_resubscribe_to_task cfg params sched s =
     (case store_get cfg (tip_id params) s of
        (None, s1) \<Rightarrow> (([], Raised (raise_server TaskNotFoundError)), s1)
      | (Some r, s1) \<Rightarrow>
          let task = hs_obj s1 r in
          if in_terminal_state task then (([], Raised (terminal_task_error task)), s1)
          else
            case tm_init (Some (task_id task)) (Some (task_context_id task)) None of
              Inl e \<Rightarrow> (([], Raised e), s1)
            | Inr tm \<Rightarrow>
                (case qm_tap (task_id task) (hs_queues s1) of
                   (Blocked, w) \<Rightarrow> (([], Blocked), s1\<lparr>hs_queues := w\<rparr>)
                 | (Raised e, w) \<Rightarrow> (([], Raised e), s1\<lparr>hs_queues := w\<rparr>)
                 | (Done None, w) \<Rightarrow> (([], Raised (raise_server TaskNotFoundError)), s1\<lparr>hs_queues := w\<rparr>)
                 | (Done (Some q), w) \<Rightarrow>
                     (let ((evs, en), s2) = consume_queue cfg q sched (s1\<lparr>hs_queues := w\<rparr>);
                          (out, ra, w3) = consume_and_emit (hc_store_ops cfg) evs en (ra_init tm) (hs_store s2)
                      in (out, s2\<lparr>hs_store := w3\<rparr>))))"

subsection \<open>Push notification configurations\<close>

text \<open>The guards shared by the four operations: a store is configured and the task exists.\<close>

definition with_push_store ::
  "('st, 'ps) handler_cfg \<Rightarrow> string \<Rightarrow>
   ('ps push_ops \<Rightarrow> ('st, 'ps) handler_state \<Rightarrow> (exn + 'a) \<times> ('st, 'ps) handler_state) \<Rightarrow>
   ('st, 'ps) handler_state \<Rightarrow> (exn + 'a) \<times> ('st, 'ps) handler_state" where
  "with_push_store cfg tid f s =
     (case hc_push_store cfg of
        None \<Rightarrow> (Inl (raise_server UnsupportedOperationError), s)
      | Some ps \<Rightarrow>
          (case store_get cfg tid s of
             (None, s1) \<Rightarrow> (Inl (raise_server TaskNotFoundError), s1)
           | (Some r, s1) \<Rightarrow> f ps s1))"

definition on_set_task_push_notification_config ::
  "('st, 'ps) handler_cfg \<Rightarrow> TaskPushNotificationConfig \<Rightarrow> ('st, 'ps) handler_state \<Rightarrow>
   (exn + TaskPushNotificationConfig) \<times> ('st, 'ps) handler_state" where
  "on_set_task_push_notification_config cfg params =
     with_push_store cfg (tpnc_task_id params) (\<lambda>ps s.
       let (c, p) = ps_set ps (tpnc_task_id params) (tpnc_push_notification_config params) (hs_push s)
       in (Inr (params\<lparr>tpnc_push_notification_config := c\<rparr>), s\<lparr>hs_push := p\<rparr>))"

definition get_config_task_id :: "get_config_params \<Rightarrow> string" where
  "get_config_task_id params = (case params of GCP_TaskId p \<Rightarrow> tip_id p | GCP_Config p \<Rightarrow> gtp_id p)"

definition on_get_task_push_notification_config ::
  "('st, 'ps) handler_cfg \<Rightarrow> get_config_params \<Rightarrow> ('st, 'ps) handler_state \<Rightarrow>
   (exn + TaskPushNotificationConfig) \<times> ('st, 'ps) handler_state" where
  "on_get_task_push_notification_config cfg params =
     with_push_store cfg (get_config_task_id params) (\<lambda>ps s.
       case ps_get ps (get_config_task_id params) (hs_push s) of
         [] \<Rightarrow> (Inl (server_err InternalError ''Push notification config not found''), s)
       | c # cs \<Rightarrow> (Inr \<lparr>tpnc_push_notification_config = c, tpnc_task_id = get_config_task_id params\<rparr>, s))"

definition on_list_task_push_notification_config ::
  "('st, 'ps) handler_cfg \<Rightarrow> ListTaskPushNotificationConfigParams \<Rightarrow> ('st, 'ps) handler_state \<Rightarrow>
   (exn + TaskPushNotificationConfig list) \<times> ('st, 'ps) handler_state" where
  "on_list_task_push_notification_config cfg params =
     with_push_store cfg (ltp_id params) (\<lambda>ps s.
       (Inr (map (\<lambda>c. \<lparr>tpnc_push_notification_config = c, tpnc_task_id = ltp_id params\<rparr>)
               (ps_get ps (ltp_id params) (hs_push s))), s))"

definition on_delete_task_push_notification_config ::
  "('st, 'ps) handler_cfg \<Rightarrow> DeleteTaskPushNotificationConfigParams \<Rightarrow> ('st, 'ps) handler_state \<Rightarrow>
   (exn + unit) \<times> ('st, 'ps) handler_state" where
  "on_delete_task_push_notification_config cfg params =
     with_push_store cfg (dtp_id params) (\<lambda>ps s.
       (Inr (), s\<lparr>hs_push := ps_delete ps (dtp_id params) (Some (dtp_push_notification_config_id params)) (hs_push s)\<rparr>))"

subsection \<open>Lemmas\<close>

lemma store_get_mem:
  assumes "hc_store_ops cfg = mem_ops" and "mem_inv (hs_store s)"
  shows "mem_view (hs_store s) i = None \<Longrightarrow> store_get cfg i s = (None, s)"
    and "mem_view (hs_store s) i = Some t \<Longrightarrow> \<exists>r. store_get cfg i s = (Some r, s) \<and> hs_obj s r = t \<and>
           live (hs_store s) r \<and> st (hs_store s) i = Some r"
  using assms by (auto simp: store_get_def mem_defs hs_obj_def)

lemma mem_get_task_None:
  "mem_view w tid = None \<Longrightarrow> tm_init (Some tid) ctx msg = Inr tm \<Longrightarrow> tm_get_task mem_ops tm w = (None, tm, w)"
  by (auto simp: tm_get_task_def tm_init_def mem_defs split: if_splits)

lemma setup_execution_registers:
  assumes "setup_execution cfg params call gt gc p tm task s = (Done ex, s')"
  shows "hs_running_agents s' (ex_task_id ex) = Some p \<and> ex_task_id ex \<in> qm_known (hs_queues s')"
proof -
  have k: "i \<in> qm_known w'" if "qm_create_or_tap i w = (Done q, w')" for i w q w'
  proof -
    have f: "qm_free w" using that by (auto simp: qm_create_or_tap_def with_lock_def qm_free_def split: if_splits)
    from imqm.create_law [OF f, of True i] that show ?thesis by (auto simp: qm_ops_def)
  qed
  show ?thesis
    using assms
    by (auto simp: setup_execution_def Let_def k split: prod.splits sum.splits await.splits option.splits)
qed

lemma consume_queue_fields [simp]:
  "hs_store (snd (consume_queue cfg q sched s)) = hs_store s"
  "hs_running_agents (snd (consume_queue cfg q sched s)) = hs_running_agents s"
  "qm_known (hs_queues (snd (consume_queue cfg q sched s))) = qm_known (hs_queues s)"
  "qm_free (hs_queues (snd (consume_queue cfg q sched s))) = qm_free (hs_queues s)"
  "hs_push (snd (consume_queue cfg q sched s)) = hs_push s"
  by (simp_all add: consume_queue_def qm_known_def qm_free_def split: prod.split)

subsection \<open>Properties\<close>

text \<open>
  Claim C15. A task in a terminal state of the in-memory store is frozen: a message to it, a resubscription and a
  cancellation are refused with the documented errors, and neither the store, the queues, the
  running agents nor the push configurations change.
\<close>

theorem terminal_task_frozen:
  assumes "hc_store_ops cfg = mem_ops" and "mem_inv (hs_store s)" and "tid \<noteq> []"
    and "mem_view (hs_store s) tid = Some t" and "in_terminal_state t"
    and "msg_task_id (msp_message params) = Some tid"
  shows "on_message_send cfg params call gt gc p sched producer s = ((Raised (terminal_task_error t), []), s) \<and>
         on_message_send_stream cfg params call gt gc p sched s = (([], Raised (terminal_task_error t)), s) \<and>
         on_resubscribe_to_task cfg \<lparr>tip_id = tid, tip_metadata = md\<rparr> sched s =
           (([], Raised (terminal_task_error t)), s) \<and>
         on_cancel_task cfg \<lparr>tip_id = tid, tip_metadata = md\<rparr> agent_cancel sched s =
           (Raised (not_cancelable cfg (status_state (task_status t))), s)"
proof -
  from store_get_mem(2) [OF assms(1,2,4)] obtain r where
    r: "store_get cfg tid s = (Some r, s)" "hs_obj s r = t" "st (hs_store s) tid = Some r" by blast
  have "setup_task cfg params s = (Inl (terminal_task_error t), s)"
    using assms r by (simp add: setup_task_def tm_init_def tm_get_task_def mem_ops_def mem_get_def hs_obj_def)
  then have m: "setup_message_execution cfg params call gt gc p s = (Raised (terminal_task_error t), s)"
    by (simp add: setup_message_execution_def)
  show ?thesis
    using m r assms(5)
    by (simp add: on_message_send_def on_message_send_stream_def on_resubscribe_to_task_def on_cancel_task_def)
qed

definition sample_cfg :: "(mem_store, mem_push) handler_cfg" where
  "sample_cfg = \<lparr>hc_store_ops = mem_ops, hc_push_store = Some mem_push_ops, hc_push_sender = None,
     hc_populate_referred_tasks = False, hc_py313 = True, hc_state_str = task_state_value\<rparr>"

definition sample_handler :: "TaskState \<Rightarrow> (mem_store, mem_push) handler_state" where
  "sample_handler state = \<lparr>hs_store = \<lparr>heap = [sample_task\<lparr>task_status := plain_status state\<rparr>], st = [''t'' \<mapsto> 0]\<rparr>,
     hs_queues = qm_init, hs_push = Map.empty, hs_running_agents = Map.empty, hs_cancelled = [], hs_posts = []\<rparr>"

lemma sample_handler_store [simp]:
  "mem_inv (hs_store (sample_handler state))"
  "mem_view (hs_store (sample_handler state)) ''t'' = Some (sample_task\<lparr>task_status := plain_status state\<rparr>)"
  "mem_view (hs_store (sample_handler state)) ''x'' = None"
  "hc_store_ops sample_cfg = mem_ops" "hc_push_store sample_cfg = Some mem_push_ops"
  by (auto simp: sample_handler_def sample_cfg_def mem_inv_def mem_view_def live_def obj_def sample_task_def)

theorem terminal_task_frozen_witness:
  "\<exists>e. fst (on_message_send sample_cfg sample_params None ''g'' ''h'' 0 [] Blocked (sample_handler failed)) =
     (Raised (raise_server e), []) \<and> err_kind e = K_InvalidParamsError"
proof -
  have t: "in_terminal_state (sample_task\<lparr>task_status := plain_status failed\<rparr>)"
    by (simp add: in_terminal_state_def TERMINAL_TASK_STATES_def plain_status_def)
  have m: "msg_task_id (msp_message sample_params) = Some ''t''"
    by (simp add: sample_params_def new_agent_text_message_def)
  from terminal_task_frozen [OF sample_handler_store(4) sample_handler_store(1) _ sample_handler_store(2) t m,
      of None "''g''" "''h''" 0 "[]" Blocked]
  show ?thesis by (simp add: terminal_task_error_def server_err_def)
qed

definition task_not_found :: "exn \<Rightarrow> bool" where
  "task_not_found e \<longleftrightarrow> (\<exists>r. e = raise_server r \<and> err_kind r = K_TaskNotFoundError \<and> err_code r = -32001)"

lemma task_not_found_simps [simp]:
  "task_not_found (raise_server TaskNotFoundError)" "task_not_found (task_not_found_named i)"
  by (simp_all add: task_not_found_def task_not_found_named_def server_err_def)

text \<open>
  Every operation on a task that the store does not know answers TaskNotFoundError and
  changes nothing: get, cancel, resubscribe, a message that names it, and the four push
  configuration operations.
\<close>

theorem unknown_task_not_found:
  assumes "hc_store_ops cfg = mem_ops" and "mem_inv (hs_store s)" and "tid \<noteq> []"
    and "mem_view (hs_store s) tid = None" and "msg_task_id (msp_message params) = Some tid"
    and "hc_push_store cfg = Some ps"
  shows "\<exists>e1 e2 e3 e4 e5 e6 e7 e8. list_all task_not_found [e1, e2, e3, e4, e5, e6, e7, e8] \<and>
     on_get_task cfg \<lparr>tqp_history_length = n, tqp_id = tid, tqp_metadata = md\<rparr> s = (Inl e1, s) \<and>
     on_cancel_task cfg \<lparr>tip_id = tid, tip_metadata = md\<rparr> agent_cancel sched s = (Raised e2, s) \<and>
     on_resubscribe_to_task cfg \<lparr>tip_id = tid, tip_metadata = md\<rparr> sched s = (([], Raised e3), s) \<and>
     on_message_send cfg params call gt gc p sched producer s = ((Raised e4, []), s) \<and>
     on_set_task_push_notification_config cfg \<lparr>tpnc_push_notification_config = c, tpnc_task_id = tid\<rparr> s = (Inl e5, s) \<and>
     on_get_task_push_notification_config cfg (GCP_TaskId \<lparr>tip_id = tid, tip_metadata = md\<rparr>) s = (Inl e6, s) \<and>
     on_list_task_push_notification_config cfg \<lparr>ltp_id = tid, ltp_metadata = md\<rparr> s = (Inl e7, s) \<and>
     on_delete_task_push_notification_config cfg
       \<lparr>dtp_id = tid, dtp_metadata = md, dtp_push_notification_config_id = i\<rparr> s = (Inl e8, s)"
proof -
  note g = store_get_mem(1) [OF assms(1,2,4)]
  have n: "st (hs_store s) tid = None" using assms(4) by (simp add: mem_view_def)
  have "setup_task cfg params s = (Inl (task_not_found_named tid), s)"
    using assms n by (simp add: setup_task_def tm_init_def tm_get_task_def mem_ops_def mem_get_def)
  then have m: "on_message_send cfg params call gt gc p sched producer s = ((Raised (task_not_found_named tid), []), s)"
    by (simp add: on_message_send_def setup_message_execution_def)
  let ?e = "raise_server TaskNotFoundError"
  show ?thesis
    by (rule exI [of _ ?e], rule exI [of _ ?e], rule exI [of _ ?e], rule exI [of _ "task_not_found_named tid"],
        rule exI [of _ ?e], rule exI [of _ ?e], rule exI [of _ ?e], rule exI [of _ ?e])
      (simp add: m g assms(6) on_get_task_def on_cancel_task_def on_resubscribe_to_task_def
        on_set_task_push_notification_config_def on_get_task_push_notification_config_def
        on_list_task_push_notification_config_def on_delete_task_push_notification_config_def
        with_push_store_def get_config_task_id_def)
qed

theorem unknown_task_not_found_witness:
  "\<exists>e. on_cancel_task sample_cfg \<lparr>tip_id = ''x'', tip_metadata = None\<rparr> (\<lambda>rc. Inr []) [] (sample_handler working) =
     (Raised e, sample_handler working) \<and> task_not_found e"
proof -
  let ?p = "set_msg_task_id (Some ''x'') sample_params"
  have m: "msg_task_id (msp_message ?p) = Some ''x''" by (simp add: set_msg_task_id_def)
  from unknown_task_not_found [OF sample_handler_store(4) sample_handler_store(1) [of working] _
      sample_handler_store(3) m sample_handler_store(5), where md = None and agent_cancel = "\<lambda>rc. Inr []"
      and sched = "[]"]
  obtain e where "task_not_found e"
    "on_cancel_task sample_cfg \<lparr>tip_id = ''x'', tip_metadata = None\<rparr> (\<lambda>rc. Inr []) [] (sample_handler working) =
       (Raised e, sample_handler working)" by (simp only: list.pred_inject) blast
  then show ?thesis by blast
qed

subsection \<open>A message that starts a task\<close>

lemma close_own_now_closed: "close_own_now py313 q = (Inr (), q') \<Longrightarrow> eq_closed q'"
  by (cases q) (auto simp: close_own_now_def Let_def split: sum.splits prod.splits if_splits)

lemma close_now_closed: "close_now py313 q = (Inr (), q') \<Longrightarrow> eq_closed q'"
  by (subst (asm) close_now.simps)
    (auto dest: close_own_now_closed split: sum.splits prod.splits EventQueue.splits)

lemma consume_pass_ends_closed:
  "consume_pass py313 exc q = (C_Stop, exc2, q') \<Longrightarrow> eq_closed q'"
  "consume_pass py313 exc q = (C_Last ev, exc2, q') \<Longrightarrow> eq_closed q'"
proof -
  have c: "is_closed q = eq_closed q" for q by (cases q) simp
  show "consume_pass py313 exc q = (C_Stop, exc2, q') \<Longrightarrow> eq_closed q'"
    by (auto simp: consume_pass_def c split: option.splits prod.splits await.splits sum.splits if_splits)
  show "consume_pass py313 exc q = (C_Last ev, exc2, q') \<Longrightarrow> eq_closed q'"
    using consume_pass_last [of py313 exc q ev exc2 q'] close_now_closed by blast
qed

lemma consume_all_ends_closed:
  "consume_all py313 sched exc q = (evs, C_Ended, q') \<Longrightarrow> eq_closed q'"
proof (induction sched arbitrary: exc q evs)
  case (Cons s sched)
  obtain exc1 q1 where d: "disturb py313 s exc q = (exc1, q1)" by (cases "disturb py313 s exc q")
  obtain c exc2 q2 where p: "consume_pass py313 exc1 q1 = (c, exc2, q2)"
    by (cases "consume_pass py313 exc1 q1")
  show ?case
  proof (cases c)
    case (C_Yield ev)
    obtain evs1 r1 q3 where rec: "consume_all py313 sched exc2 q2 = (evs1, r1, q3)"
      by (cases "consume_all py313 sched exc2 q2")
    with Cons.prems d p C_Yield have "r1 = C_Ended" "q3 = q'" by auto
    with Cons.IH rec show ?thesis by blast
  next
    case C_Again
    with Cons.prems d p have "consume_all py313 sched exc2 q2 = (evs, C_Ended, q')" by simp
    with Cons.IH show ?thesis by blast
  qed (use Cons.prems d p consume_pass_ends_closed in auto)
qed simp

definition fresh_message :: "MessageSendParams \<Rightarrow> bool" where
  "fresh_message params \<longleftrightarrow>
     msg_task_id (msp_message params) = None \<and> msg_context_id (msp_message params) = None \<and>
     Option.bind (msp_configuration params) msc_push_notification_config = None"

definition bound_message :: "string \<Rightarrow> string \<Rightarrow> MessageSendParams \<Rightarrow> Message" where
  "bound_message tid ctx params = (msp_message params)\<lparr>msg_task_id := Some tid, msg_context_id := Some ctx\<rparr>"

lemma setup_fresh:
  assumes "fresh_message params" and "\<not> hc_populate_referred_tasks cfg" and "gt \<noteq> []" and "gc \<noteq> []"
    and "qm_free (hs_queues s)" and "gt \<notin> qm_known (hs_queues s)"
  shows "\<exists>rc. setup_message_execution cfg params call gt gc p s =
     (Done \<lparr>ex_task_manager = \<lparr>tm_task_id = None, tm_context_id = None,
              tm_initial_message = Some (bound_message gt gc params), tm_current_task = None\<rparr>,
            ex_task_id = gt, ex_queue = (length (qm_roots (hs_queues s)), []), ex_context = rc,
            ex_params = params\<lparr>msp_message := bound_message gt gc params\<rparr>\<rparr>,
      s\<lparr>hs_queues := (hs_queues s)\<lparr>qm_roots := qm_roots (hs_queues s) @ [eq_new],
                                   qm_task_queue := (qm_task_queue (hs_queues s))
                                     (gt \<mapsto> (length (qm_roots (hs_queues s)), []))\<rparr>,
        hs_running_agents := (hs_running_agents s)(gt \<mapsto> p)\<rparr>)"
proof -
  from assms(1) have m: "msg_task_id (msp_message params) = None" "msg_context_id (msp_message params) = None"
    and nc: "Option.bind (msp_configuration params) msc_push_notification_config = None"
    by (simp_all add: fresh_message_def)
  let ?p2 = "params\<lparr>msp_message := bound_message gt gc params\<rparr>"
  let ?tm = "\<lparr>tm_task_id = None, tm_context_id = None, tm_initial_message = Some (msp_message params),
              tm_current_task = None\<rparr>"
  have a: "setup_task cfg params s = (Inr (?tm, None), s)"
    using m by (simp add: setup_task_def tm_init_def tm_get_task_def)
  obtain rc where rc: "rc_init (Some params) None None None None call gt gc = (Inr rc, Some ?p2)" "rc_task_id rc = Some gt"
    using m assms(3,4) by (simp add: rc_init_def Let_def check_or_generate_task_id_def
        check_or_generate_context_id_def set_msg_task_id_def set_msg_context_id_def bound_message_def)
  have b: "build_context (hc_populate_referred_tasks cfg) (hc_store_ops cfg) (Some params) None None None
      call gt gc (hs_store s) = ((Inr rc, Some ?p2), hs_store s)"
    using assms(2) rc by (simp add: build_context_def)
  have n: "Option.bind (msp_configuration ?p2) msc_push_notification_config = None" using nc by simp
  have q: "qm_create_or_tap gt (hs_queues s) = (Done (length (qm_roots (hs_queues s)), []),
      (hs_queues s)\<lparr>qm_roots := qm_roots (hs_queues s) @ [eq_new],
        qm_task_queue := (qm_task_queue (hs_queues s))(gt \<mapsto> (length (qm_roots (hs_queues s)), []))\<rparr>)"
  proof -
    have "qm_task_queue (hs_queues s) gt = None" using assms(6)
      by (cases "qm_task_queue (hs_queues s) gt") (auto simp: qm_known_def)
    then show ?thesis
      using assms(5) by (simp add: qm_create_or_tap_def with_lock_def qm_free_def q_new_def)
  qed
  have "setup_execution cfg params call gt gc p ?tm None s =
     (Done \<lparr>ex_task_manager = ?tm\<lparr>tm_initial_message := Some (bound_message gt gc params)\<rparr>,
            ex_task_id = gt, ex_queue = (length (qm_roots (hs_queues s)), []), ex_context = rc, ex_params = ?p2\<rparr>,
      s\<lparr>hs_queues := (hs_queues s)\<lparr>qm_roots := qm_roots (hs_queues s) @ [eq_new],
          qm_task_queue := (qm_task_queue (hs_queues s))(gt \<mapsto> (length (qm_roots (hs_queues s)), []))\<rparr>,
        hs_running_agents := (hs_running_agents s)(gt \<mapsto> p)\<rparr>)"
    using m b n q rc(2)
    by (simp add: setup_execution_def Let_def split: option.splits)
  with a show ?thesis by (auto simp: setup_message_execution_def)
qed

lemma qm_close_closed:
  assumes "qm_free w" and "qm_task_queue w tid = Some (n, [])" and "n < length (qm_roots w)"
    and "eq_closed (qm_roots w ! n)"
  shows "qm_close py313 tid w = (Done (), w\<lparr>qm_task_queue := (qm_task_queue w)(tid := None)\<rparr>)"
proof -
  have q: "q_at w (n, []) = qm_roots w ! n" by (simp add: q_at_def)
  have "close_graceful py313 (qm_roots w ! n) = (Done (), qm_roots w ! n)"
    using assms(4) by (cases "qm_roots w ! n") simp
  then show ?thesis
    using assms(1,2) by (simp add: qm_close_def with_lock_def qm_free_def q q_set_def)
qed

text \<open>The world after an agent has run on the new queue of a task and its consumption has ended.\<close>

definition ran_on_new_queue :: "string \<Rightarrow> nat \<Rightarrow> EventQueue \<Rightarrow> ('st, 'ps) handler_state \<Rightarrow> ('st, 'ps) handler_state" where
  "ran_on_new_queue tid p q s =
     s\<lparr>hs_queues := (hs_queues s)\<lparr>qm_roots := qm_roots (hs_queues s) @ [q],
                                 qm_task_queue := (qm_task_queue (hs_queues s))
                                   (tid \<mapsto> (length (qm_roots (hs_queues s)), []))\<rparr>,
       hs_running_agents := (hs_running_agents s)(tid \<mapsto> p)\<rparr>"

lemma ran_on_new_queue_store [simp]: "hs_store (ran_on_new_queue tid p q s) = hs_store s"
  by (simp add: ran_on_new_queue_def)

lemma consume_new_queue:
  assumes "consume_all (hc_py313 cfg) sched None eq_new = (evs, en, q')"
  shows "consume_queue cfg (length (qm_roots (hs_queues s)), []) sched (ran_on_new_queue tid p eq_new s) =
     ((evs, en), ran_on_new_queue tid p q' s)"
  using assms by (simp add: consume_queue_def ran_on_new_queue_def q_at_def q_set_def)

lemma cleanup_new_queue:
  assumes "qm_free (hs_queues s)" and "eq_closed q"
  shows "\<exists>s'. cleanup_producer cfg (Done ()) tid ((ran_on_new_queue tid p q s)\<lparr>hs_store := w\<rparr>) = (Done (), s') \<and>
     hs_store s' = w \<and> tid \<notin> qm_known (hs_queues s') \<and> qm_free (hs_queues s') \<and> hs_running_agents s' tid = None"
proof -
  let ?s = "(ran_on_new_queue tid p q s)\<lparr>hs_store := w\<rparr>"
  have "qm_close (hc_py313 cfg) tid (hs_queues ?s) =
      (Done (), (hs_queues ?s)\<lparr>qm_task_queue := (qm_task_queue (hs_queues ?s))(tid := None)\<rparr>)"
    by (rule qm_close_closed [where n = "length (qm_roots (hs_queues s))"])
      (use assms in \<open>simp_all add: ran_on_new_queue_def qm_free_def\<close>)
  with assms(1) show ?thesis
    by (simp add: cleanup_producer_def ran_on_new_queue_def qm_free_def qm_known_def)
qed

lemma send_answer_task:
  assumes "hc_push_sender cfg = None" and "obj (hs_store s) r = t" and "task_id t = ex_task_id ex"
  shows "send_answer cfg ex (AR_Task r) ra s =
     (Done (SR_Task (case msp_configuration (ex_params ex) of None \<Rightarrow> t
              | Some c \<Rightarrow> apply_history_length t (msc_history_length c))), s)"
  using assms by (simp add: send_answer_def validate_task_id_match_def send_push_notification_if_needed_def
      hs_obj_def split: option.split)

lemma fresh_message_run:
  assumes "hc_store_ops cfg = mem_ops" and "hc_push_sender cfg = None" and "\<not> hc_populate_referred_tasks cfg"
    and "mem_inv (hs_store s)" and "qm_free (hs_queues s)" and "gt \<notin> qm_known (hs_queues s)"
    and "fresh_message params" and "gt \<noteq> []" and "gc \<noteq> []" and "is_blocking params"
    and "consume_all (hc_py313 cfg) sched None eq_new = (evs, C_Ended, q')"
    and "list_all (stream_of gt gc) evs" and "no_message evs" and "evs \<noteq> []"
    and "\<not> list_ex is_auth_required evs"
  shows "\<exists>t s'. on_message_send cfg params call gt gc p sched (Done ()) s =
           ((Done (SR_Task (case msp_configuration params of None \<Rightarrow> t
                            | Some c \<Rightarrow> apply_history_length t (msc_history_length c))), []), s') \<and>
         Some t = spec_fold (Some (bound_message gt gc params)) (mem_view (hs_store s) gt) evs \<and>
         mem_view (hs_store s') = (mem_view (hs_store s))(gt \<mapsto> t) \<and>
         gt \<notin> qm_known (hs_queues s') \<and> qm_free (hs_queues s') \<and> hs_running_agents s' gt = None"
proof -
  let ?m = "Some (bound_message gt gc params)"
  let ?tm = "\<lparr>tm_task_id = None, tm_context_id = None, tm_initial_message = ?m, tm_current_task = None\<rparr>"
  from setup_fresh [OF assms(7,3,8,9,5,6)] obtain ex where
    a: "setup_message_execution cfg params call gt gc p s = (Done ex, ran_on_new_queue gt p eq_new s)"
    and ex: "ex_task_manager ex = ?tm" "ex_task_id ex = gt" "ex_queue ex = (length (qm_roots (hs_queues s)), [])"
      "msp_configuration (ex_params ex) = msp_configuration params"
    by (fastforce simp: ran_on_new_queue_def)
  have bl: "is_blocking (ex_params ex)" using assms(10) ex(4) by (simp add: is_blocking_def)
  have f: "mem.tm_for gt gc ?m (ra_task_manager (ra_init ?tm)) (hs_store s)"
    using assms(4,8) by (simp add: mem.tm_for_def ra_init_def tm_synced_def)
  have rm: "ra_message (ra_init ?tm) = None" by (simp add: ra_init_def)
  from mem.blocking_spec [OF f assms(12,13) rm assms(14,15)] obtain r ra' w' where
    c: "consume_and_break_on_interrupt mem_ops True evs C_Ended (ra_init ?tm) (hs_store s) =
          ((Done (AR_Task r, False), []), ra', w')"
    and o: "Some (obj w' r) = spec_fold ?m (mem_view (hs_store s) gt) evs"
      "mem_view w' = (mem_view (hs_store s))(gt := spec_fold ?m (mem_view (hs_store s) gt) evs)"
      "mem_inv w'" by (auto simp: mem.tm_for_def)
  from o(1,2) obtain t where t: "obj w' r = t" "mem_view w' gt = Some t" by simp
  from mem.view_id [OF o(3) t(2)] have ti: "task_id t = ex_task_id ex" unfolding ex(2) .
  from cleanup_new_queue [OF assms(5) consume_all_ends_closed [OF assms(11)], where cfg = cfg and tid = gt and p = p and w = w'] obtain s' where
    d: "cleanup_producer cfg (Done ()) gt ((ran_on_new_queue gt p q' s)\<lparr>hs_store := w'\<rparr>) = (Done (), s')"
    and s': "hs_store s' = w'" "gt \<notin> qm_known (hs_queues s')" "qm_free (hs_queues s')"
      "hs_running_agents s' gt = None" by blast
  have "on_message_send cfg params call gt gc p sched (Done ()) s =
      ((Done (SR_Task (case msp_configuration params of None \<Rightarrow> t
              | Some c \<Rightarrow> apply_history_length t (msc_history_length c))), []), s')"
    using a consume_new_queue [OF assms(11), where s = s and tid = gt and p = p] ex bl c d assms(1)
      send_answer_task [OF assms(2) _ ti, of s' r ra'] t(1) s'(1)
    by (simp add: on_message_send_def)
  with o(1,2) t s' show ?thesis by (intro exI [of _ t] exI [of _ s']) simp
qed

text \<open>
  Claim C8. The life of a task that a blocking message starts, with the in-memory store and without a push sender or
  referred tasks: if the agent succeeds, its events are all of the generated task, none of them a message or a demand
  for authentication, and the queue is closed after the last, then the caller gets the task that the events make of a
  new task whose history starts with the message under its new ids (truncated as the configuration asks), the store holds
  that task and no other task changes, the queue is gone and no agent is registered any more. For an agent that
  raises, the queue and the agent stay behind (\<open>failed_agent_not_cleaned_up\<close>).
\<close>

theorem message_starts_task:
  assumes "hc_store_ops cfg = mem_ops" and "hc_push_sender cfg = None" and "\<not> hc_populate_referred_tasks cfg"
    and "mem_inv (hs_store s)" and "qm_free (hs_queues s)" and "gt \<notin> qm_known (hs_queues s)"
    and "fresh_message params" and "gt \<noteq> []" and "gc \<noteq> []" and "is_blocking params"
    and "consume_all (hc_py313 cfg) sched None eq_new = (evs, C_Ended, q')"
    and "list_all (stream_of gt gc) evs" and "no_message evs" and "evs \<noteq> []"
    and "\<not> list_ex is_auth_required evs"
  shows "\<exists>t s'. on_message_send cfg params call gt gc p sched (Done ()) s =
           ((Done (SR_Task (case msp_configuration params of None \<Rightarrow> t
                            | Some c \<Rightarrow> apply_history_length t (msc_history_length c))), []), s') \<and>
         Some t = spec_fold (Some (bound_message gt gc params)) (mem_view (hs_store s) gt) evs \<and>
         mem_view (hs_store s') = (mem_view (hs_store s))(gt \<mapsto> t) \<and>
         gt \<notin> qm_known (hs_queues s') \<and> qm_free (hs_queues s') \<and> hs_running_agents s' gt = None"
  by (rule fresh_message_run [OF assms])

theorem message_starts_task_witness:
  "\<exists>t s'. on_message_send sample_cfg (set_msg_task_id None sample_params) None ''t'' ''c'' 0
       [([Op_Enqueue (EvStatus ((sample_status completed None)\<lparr>sue_final := True\<rparr>))], None)] (Done ())
       ((sample_handler working)\<lparr>hs_store := mem_init\<rparr>) = ((Done (SR_Task t), []), s') \<and>
     status_state (task_status t) = completed \<and> hs_running_agents s' ''t'' = None"
proof -
  let ?ev = "EvStatus ((sample_status completed None)\<lparr>sue_final := True\<rparr>)"
  let ?s = "(sample_handler working)\<lparr>hs_store := mem_init\<rparr>"
  let ?p = "set_msg_task_id None sample_params"
  let ?sched = "[([Op_Enqueue ?ev], None)] :: schedule"
  let ?q = "EQ [?ev] 1024 1 False False []"
  have d: "disturb True ([Op_Enqueue ?ev], None) None eq_new = (None, ?q)"
    by (simp add: disturb_def eq_new_def DEFAULT_MAX_QUEUE_SIZE_def)
  have w: "eq_wf True ?q" by simp
  have fe: "is_final_event ?ev" by (simp add: is_final_event_def)
  from consume_pass_item [OF w] fe obtain q2 where "consume_pass True None ?q = (C_Last ?ev, None, closed_empty True q2)"
    by auto
  then have c: "consume_all True ?sched None eq_new = ([?ev], C_Ended, closed_empty True q2)"
    unfolding consume_all.simps d Let_def prod.case by simp
  have h: "hc_store_ops sample_cfg = mem_ops" "hc_push_sender sample_cfg = None"
    "\<not> hc_populate_referred_tasks sample_cfg" "hc_py313 sample_cfg = True" by (simp_all add: sample_cfg_def)
  have g: "mem_inv (hs_store ?s)" "qm_free (hs_queues ?s)" "''t'' \<notin> qm_known (hs_queues ?s)"
    by (simp_all add: sample_handler_def qm_init_def qm_free_def qm_known_def)
  have f: "fresh_message ?p" "is_blocking ?p" "msp_configuration ?p = None"
    by (simp_all add: fresh_message_def is_blocking_def set_msg_task_id_def sample_params_def new_agent_text_message_def)
  have e: "list_all (stream_of ''t'' ''c'') [?ev]" "no_message [?ev]" "\<not> list_ex is_auth_required [?ev]"
    by (simp_all add: stream_of_def no_message_def is_auth_required_def sample_status_def)
  have c': "consume_all (hc_py313 sample_cfg) ?sched None eq_new = ([?ev], C_Ended, closed_empty True q2)"
    using c h(4) by simp
  from message_starts_task [OF h(1-3) g f(1) _ _ f(2) c' e(1,2) _ e(3), of None 0]
  obtain t s' where
    r: "on_message_send sample_cfg ?p None ''t'' ''c'' 0 ?sched (Done ()) ?s = ((Done (SR_Task t), []), s')"
    and t: "Some t = spec_fold (Some (bound_message ''t'' ''c'' ?p)) (mem_view (hs_store ?s) ''t'') [?ev]"
    and x: "hs_running_agents s' ''t'' = None"
    using f(3) by auto
  from t have "status_state (task_status t) = completed"
    by (simp add: spec_fold_simps sample_status_def)
  with r x show ?thesis by blast
qed

text \<open>
  When the agent fails, the caller gets the agent's exception and the clean-up stops
  at it: the queue of the task is not closed and the failed agent stays registered as running.
\<close>

theorem failed_agent_not_cleaned_up:
  assumes "setup_message_execution cfg params call gt gc p s = (Done ex, s1)"
    and "consume_queue cfg (ex_queue ex) sched s1 = (([], C_Failed e), s2)"
  shows "on_message_send cfg params call gt gc p sched (Raised e) s = ((Raised e, []), s2) \<and>
         hs_running_agents s2 (ex_task_id ex) = Some p \<and> ex_task_id ex \<in> qm_known (hs_queues s2)"
proof -
  have st: "s2 = snd (consume_queue cfg (ex_queue ex) sched s1)" using assms(2) by simp
  from assms(1) have "\<exists>tm task s0. setup_execution cfg params call gt gc p tm task s0 = (Done ex, s1)"
    by (auto simp: setup_message_execution_def split: prod.splits sum.splits)
  then have "hs_running_agents s1 (ex_task_id ex) = Some p \<and> ex_task_id ex \<in> qm_known (hs_queues s1)"
    using setup_execution_registers by blast
  then have "hs_running_agents s2 (ex_task_id ex) = Some p \<and> ex_task_id ex \<in> qm_known (hs_queues s2)"
    unfolding st by simp
  with assms show ?thesis by (simp add: on_message_send_def cleanup_producer_def)
qed

lemma sample_setup:
  "\<exists>ex s1. setup_message_execution sample_cfg (set_msg_task_id None sample_params) None ''t'' ''c'' 7
     ((sample_handler working)\<lparr>hs_store := mem_init\<rparr>) = (Done ex, s1) \<and> ex_task_id ex = ''t''"
proof -
  have f: "fresh_message (set_msg_task_id None sample_params)" "\<not> hc_populate_referred_tasks sample_cfg"
    by (simp_all add: fresh_message_def set_msg_task_id_def sample_params_def new_agent_text_message_def sample_cfg_def)
  have g: "qm_free (hs_queues ((sample_handler working)\<lparr>hs_store := mem_init\<rparr>))"
    "''t'' \<notin> qm_known (hs_queues ((sample_handler working)\<lparr>hs_store := mem_init\<rparr>))"
    by (simp_all add: sample_handler_def qm_init_def qm_free_def qm_known_def)
  from setup_fresh [OF f _ _ g, of "''c''" None 7] show ?thesis by auto
qed

theorem failed_agent_not_cleaned_up_witness:
  "\<exists>s2. on_message_send sample_cfg (set_msg_task_id None sample_params) None ''t'' ''c'' 7
      [([], Some (False, True, Some (OtherException ''boom'')))] (Raised (OtherException ''boom''))
      ((sample_handler working)\<lparr>hs_store := mem_init\<rparr>) = ((Raised (OtherException ''boom''), []), s2) \<and>
    hs_running_agents s2 ''t'' = Some 7"
proof -
  from sample_setup obtain ex s1 where
    a: "setup_message_execution sample_cfg (set_msg_task_id None sample_params) None ''t'' ''c'' 7
      ((sample_handler working)\<lparr>hs_store := mem_init\<rparr>) = (Done ex, s1)" "ex_task_id ex = ''t''" by blast
  obtain s2 where b: "consume_queue sample_cfg (ex_queue ex) [([], Some (False, True, Some (OtherException ''boom'')))] s1 =
      (([], C_Failed (OtherException ''boom'')), s2)"
    by (simp add: consume_queue_def disturb_def agent_task_callback_def consume_pass_def)
  from failed_agent_not_cleaned_up [OF a(1) b] a(2) show ?thesis by auto
qed

text \<open>
  Two executions of the same task share one registration: after the clean-up of one
  of them has completed, the clean-up of the other raises NoTaskQueue, and in between no agent
  is registered although one may still run.
\<close>

theorem second_cleanup_fails:
  assumes "qm_free (hs_queues s)" and "tid \<in> qm_known (hs_queues s)"
    and "cleanup_producer cfg (Done ()) tid s = (Done (), s1)"
  shows "hs_running_agents s1 tid = None \<and> cleanup_producer cfg (Done ()) tid s1 = (Raised NoTaskQueue, s1)"
proof -
  obtain w where c: "qm_close (hc_py313 cfg) tid (hs_queues s) = (Done (), w)"
    and s1: "s1 = s\<lparr>hs_queues := w, hs_running_agents := (hs_running_agents s)(tid := None)\<rparr>"
    using assms(3) by (auto simp: cleanup_producer_def split: prod.splits await.splits)
  have "qm_close (hc_py313 cfg) tid w = (Raised NoTaskQueue, w)"
    using imqm.close_twice [OF assms(1,2), of "hc_py313 cfg" w] c by (simp add: qm_ops_def)
  then show ?thesis by (simp add: s1 cleanup_producer_def)
qed

theorem second_cleanup_fails_witness:
  "\<exists>s1. cleanup_producer sample_cfg (Done ()) ''t'' ((sample_handler working)\<lparr>hs_queues := sample_queues False\<rparr>) = (Done (), s1) \<and>
     cleanup_producer sample_cfg (Done ()) ''t'' s1 = (Raised NoTaskQueue, s1)"
proof -
  let ?s = "(sample_handler working)\<lparr>hs_queues := sample_queues False\<rparr>"
  have a: "qm_free (hs_queues ?s)" "''t'' \<in> qm_known (hs_queues ?s)"
    by (simp_all add: sample_queues_def qm_free_def qm_known_def)
  have "fst (cleanup_producer sample_cfg (Done ()) ''t'' ?s) = Done ()"
    by (simp add: cleanup_producer_def qm_close_def with_lock_def sample_queues_def q_at_def eq_new_def)
  then obtain s1 where c: "cleanup_producer sample_cfg (Done ()) ''t'' ?s = (Done (), s1)"
    by (cases "cleanup_producer sample_cfg (Done ()) ''t'' ?s") simp
  from second_cleanup_fails [OF a c] c show ?thesis by blast
qed

text \<open>
  The push configuration operations of the handler act on the store of the task: set
  returns the configuration with its id filled in, list then shows it and the earlier ones
  with another id, delete removes it; but get ignores the configuration id it is asked for and
  returns the first of the task's configurations.
\<close>

theorem push_config_operations:
  assumes "hc_store_ops cfg = mem_ops" and "hc_push_store cfg = Some mem_push_ops"
    and "mem_inv (hs_store s)" and "mem_push_inv (hs_push s)" and "mem_view (hs_store s) tid = Some t"
  shows "(\<exists>s1. on_set_task_push_notification_config cfg \<lparr>tpnc_push_notification_config = c, tpnc_task_id = tid\<rparr> s =
              (Inr \<lparr>tpnc_push_notification_config = with_default_id tid c, tpnc_task_id = tid\<rparr>, s1) \<and>
            (\<exists>cs. on_list_task_push_notification_config cfg \<lparr>ltp_id = tid, ltp_metadata = None\<rparr> s1 = (Inr cs, s1) \<and>
               set (map tpnc_push_notification_config cs) =
                 insert (with_default_id tid c) {e \<in> set (mem_get_info tid (hs_push s)). pnc_id e \<noteq> Some (effective_id tid c)})) \<and>
         (\<exists>s2. on_delete_task_push_notification_config cfg
                 \<lparr>dtp_id = tid, dtp_metadata = None, dtp_push_notification_config_id = i\<rparr> s = (Inr (), s2) \<and>
            set (mem_get_info tid (hs_push s2)) = {e \<in> set (mem_get_info tid (hs_push s)). pnc_id e \<noteq> Some i}) \<and>
         fst (on_get_task_push_notification_config cfg
                (GCP_Config \<lparr>gtp_id = tid, gtp_metadata = None, gtp_push_notification_config_id = Some i\<rparr>) s) =
           (case mem_get_info tid (hs_push s) of
              [] \<Rightarrow> Inl (server_err InternalError ''Push notification config not found'')
            | d # ds \<Rightarrow> Inr \<lparr>tpnc_push_notification_config = d, tpnc_task_id = tid\<rparr>)"
proof -
  from store_get_mem(2) [OF assms(1,3,5)] obtain r where r: "store_get cfg tid s = (Some r, s)" by blast
  have r': "\<exists>r'. store_get cfg tid (s\<lparr>hs_push := p\<rparr>) = (Some r', s\<lparr>hs_push := p\<rparr>)" for p
    using store_get_mem(2) [of cfg "s\<lparr>hs_push := p\<rparr>" tid t] assms by auto
  have c': "fst (mem_set_info tid c (hs_push s)) = with_default_id tid c"
    by (simp add: mem_set_info_def Let_def)
  let ?p = "snd (mem_set_info tid c (hs_push s))"
  have set: "on_set_task_push_notification_config cfg \<lparr>tpnc_push_notification_config = c, tpnc_task_id = tid\<rparr> s =
      (Inr \<lparr>tpnc_push_notification_config = with_default_id tid c, tpnc_task_id = tid\<rparr>, s\<lparr>hs_push := ?p\<rparr>)"
    using r assms(2) c' by (simp add: on_set_task_push_notification_config_def with_push_store_def mem_push_ops_def split_def)
  have list: "on_list_task_push_notification_config cfg \<lparr>ltp_id = tid, ltp_metadata = None\<rparr> (s\<lparr>hs_push := ?p\<rparr>) =
      (Inr (map (\<lambda>c. \<lparr>tpnc_push_notification_config = c, tpnc_task_id = tid\<rparr>) (mem_get_info tid ?p)), s\<lparr>hs_push := ?p\<rparr>)"
    using r' [of ?p] assms(2) by (auto simp: on_list_task_push_notification_config_def with_push_store_def mem_push_ops_def)
  have listed: "set (mem_get_info tid ?p) =
      insert (with_default_id tid c) {e \<in> set (mem_get_info tid (hs_push s)). pnc_id e \<noteq> Some (effective_id tid c)}"
    using memp.set_then_get [OF assms(4), of tid c] by (simp add: mem_push_ops_def)
  have del: "set (mem_get_info tid (mem_delete_info tid (Some i) (hs_push s))) =
      {e \<in> set (mem_get_info tid (hs_push s)). pnc_id e \<noteq> Some i}"
    using memp.delete_then_get [OF assms(4), of tid i] by (simp add: mem_push_ops_def)
  have delete: "on_delete_task_push_notification_config cfg
      \<lparr>dtp_id = tid, dtp_metadata = None, dtp_push_notification_config_id = i\<rparr> s =
      (Inr (), s\<lparr>hs_push := mem_delete_info tid (Some i) (hs_push s)\<rparr>)"
    using r assms(2) by (simp add: on_delete_task_push_notification_config_def with_push_store_def mem_push_ops_def)
  have get: "fst (on_get_task_push_notification_config cfg
      (GCP_Config \<lparr>gtp_id = tid, gtp_metadata = None, gtp_push_notification_config_id = Some i\<rparr>) s) =
      (case mem_get_info tid (hs_push s) of
         [] \<Rightarrow> Inl (server_err InternalError ''Push notification config not found'')
       | d # ds \<Rightarrow> Inr \<lparr>tpnc_push_notification_config = d, tpnc_task_id = tid\<rparr>)"
    using r assms(2) by (simp add: on_get_task_push_notification_config_def with_push_store_def mem_push_ops_def
        get_config_task_id_def split: list.split)
  from set list listed delete del get show ?thesis by (simp add: o_def image_image)
qed

theorem push_config_operations_witness:
  "fst (on_get_task_push_notification_config sample_cfg
      (GCP_Config \<lparr>gtp_id = ''t'', gtp_metadata = None, gtp_push_notification_config_id = Some ''b''\<rparr>)
      ((sample_handler working)\<lparr>hs_push := [''t'' \<mapsto> [sample_config (Some ''a'') ''u'', sample_config (Some ''b'') ''v'']]\<rparr>)) =
     Inr \<lparr>tpnc_push_notification_config = sample_config (Some ''a'') ''u'', tpnc_task_id = ''t''\<rparr>"
proof -
  let ?p = "[''t'' \<mapsto> [sample_config (Some ''a'') ''u'', sample_config (Some ''b'') ''v'']]"
  let ?s = "(sample_handler working)\<lparr>hs_push := ?p\<rparr>"
  have p: "mem_push_inv (hs_push ?s)" by (auto simp: mem_push_inv_def mem_infos_def sample_config_def)
  have q: "mem_inv (hs_store ?s)" "mem_view (hs_store ?s) ''t'' = Some (sample_task\<lparr>task_status := plain_status working\<rparr>)"
    by simp_all
  from push_config_operations [OF sample_handler_store(4,5) q(1) p q(2), of undefined "''b''"]
  show ?thesis by (simp add: mem_get_info_def)
qed

text \<open>
  A cancellation succeeds only with a task that the agent has brought to the canceled
  state, and it answers with the task of the store; whatever else happens it raises (or waits).
\<close>

theorem cancel_returns_canceled:
  assumes "hc_store_ops cfg = mem_ops" and "on_cancel_task cfg params agent_cancel sched s = (Done t, s')"
  shows "status_state (task_status t) = canceled \<and> (\<exists>r. hs_obj s' r = t) \<and>
         (\<exists>t0. mem_view (hs_store s) (tip_id params) = Some t0 \<and> \<not> in_terminal_state t0)"
proof -
  have g: "(case store_get cfg i s of (None, s1) \<Rightarrow> True
      | (Some r, s1) \<Rightarrow> s1 = s \<and> mem_view (hs_store s) i = Some (hs_obj s r))" for i
    by (simp add: store_get_def assms(1) mem_ops_def mem_get_def mem_view_def hs_obj_def split: option.split)
  from assms(2) g [of "tip_id params"] show ?thesis
    unfolding on_cancel_task_def hs_obj_def
    by (auto simp: Let_def split: prod.splits option.splits if_splits sum.splits await.splits agg_result.splits)
qed

theorem cancel_returns_canceled_witness:
  "\<exists>t s'. on_cancel_task sample_cfg \<lparr>tip_id = ''t'', tip_metadata = None\<rparr>
       (\<lambda>rc. Inr [Op_Enqueue (EvStatus ((sample_status canceled None)\<lparr>sue_final := True\<rparr>))]) (quiet 2)
       (sample_handler working) = (Done t, s') \<and> status_state (task_status t) = canceled"
proof -
  let ?ev = "EvStatus ((sample_status canceled None)\<lparr>sue_final := True\<rparr>)"
  let ?c = "on_cancel_task sample_cfg \<lparr>tip_id = ''t'', tip_metadata = None\<rparr> (\<lambda>rc. Inr [Op_Enqueue ?ev]) (quiet 2)
       (sample_handler working)"
  have "\<exists>t. fst ?c = Done t"
    by (simp add: on_cancel_task_def store_get_def sample_handler_def sample_cfg_def mem_defs obj_def
        sample_task_def in_terminal_state_def TERMINAL_TASK_STATES_def plain_status_def tm_init_def
        qm_tap_def with_lock_def qm_init_def q_new_def rc_init_def Let_def consume_queue_def hs_obj_def
        quiet_def q_at_def q_set_def eq_new_def DEFAULT_MAX_QUEUE_SIZE_def disturb_def consume_pass_def
        is_final_event_def close_now.simps close_own_now_def numeral_2_eq_2 ra_process_def ra_init_def
        tm_process_def save_task_event_def sample_status_def ensure_task_def set_obj_def apply_status_update_def
        merge_metadata_def ra_get_task_def tm_get_task_def)
  then obtain t s' where c: "?c = (Done t, s')" by (cases ?c) auto
  from cancel_returns_canceled [OF sample_handler_store(4) c] c show ?thesis by blast
qed

end
