(* ===== verification/HandlerInvariant.thy ===== *)
theory HandlerInvariant
  imports RequestHandler
begin

section \<open>The request handler over all its requests\<close>

text \<open>
  The default request handler as a transition system: a step is a request that runs, an agent that works on its queue, a
  background task of an interrupted call, or a clean-up. The state invariant of the handler is shown for every reachable
  state and for every task store and push configuration store that satisfies its interface.
\<close>

subsection \<open>The store under the task manager's operations\<close>

text \<open>The task a manager holds on to exists.\<close>

definition tm_live :: "TaskManager \<Rightarrow> 'st store_state \<Rightarrow> bool" where
  "tm_live tm w \<longleftrightarrow> (\<forall>r. tm_current_task tm = Some r \<longrightarrow> live w r)"

text \<open>Objects are only ever added.\<close>

definition grows :: "'st store_state \<Rightarrow> 'st store_state \<Rightarrow> bool" where
  "grows w w' \<longleftrightarrow> length (heap w) \<le> length (heap w')"

lemma grows_refl [simp]: "grows w w"
  by (simp add: grows_def)

lemma grows_trans [trans]: "grows w w1 \<Longrightarrow> grows w1 w2 \<Longrightarrow> grows w w2"
  by (simp add: grows_def)

lemma live_grows: "live w r \<Longrightarrow> grows w w' \<Longrightarrow> live w' r"
  by (simp add: live_def grows_def)

lemma tm_live_grows: "tm_live tm w \<Longrightarrow> grows w w' \<Longrightarrow> tm_live tm w'"
  by (auto simp: tm_live_def intro: live_grows)

lemma tm_live_init: "tm_init tid ctx m = Inr tm \<Longrightarrow> tm_live tm w"
  by (auto simp: tm_init_def tm_live_def split: if_splits)

lemma tm_live_fields [simp]:
  "tm_live (tm\<lparr>tm_task_id := x\<rparr>) w = tm_live tm w" "tm_live (tm\<lparr>tm_context_id := y\<rparr>) w = tm_live tm w"
  "tm_live (tm\<lparr>tm_initial_message := z\<rparr>) w = tm_live tm w" "tm_live (tm\<lparr>tm_current_task := Some r\<rparr>) w = live w r"
  "tm_live (tm\<lparr>tm_current_task := None\<rparr>) w"
  "tm_live (tm\<lparr>tm_current_task := q, tm_task_id := x, tm_context_id := y\<rparr>) w = tm_live (tm\<lparr>tm_current_task := q\<rparr>) w"
  by (simp_all add: tm_live_def)

context task_store
begin

definition kept :: "TaskManager \<Rightarrow> 'st store_state \<Rightarrow> TaskManager \<Rightarrow> 'st store_state \<Rightarrow> bool" where
  "kept tm w tm' w' \<longleftrightarrow> inv w' \<and> tm_live tm' w' \<and> grows w w'"

lemma kept_refl: "inv w \<Longrightarrow> tm_live tm w \<Longrightarrow> kept tm w tm w"
  by (simp add: kept_def)

lemma kept_trans: "kept tm w tm1 w1 \<Longrightarrow> kept tm1 w1 tm2 w2 \<Longrightarrow> kept tm w tm2 w2"
  by (auto simp: kept_def intro: grows_trans)

lemma get_grows:
  assumes "inv w" and "ts_get ops i w = (r, w')"
  shows "inv w'" and "grows w w'" and "\<And>a. r = Some a \<Longrightarrow> live w' a"
  using get_view [OF assms] by (auto simp: grows_def split: option.splits)

lemma save_kept:
  assumes "inv w" and "live w r"
  shows "kept tm w (fst (save_task ops r tm w)) (snd (save_task ops r tm w))"
  using save [OF assms] assms(2) by (simp add: kept_def grows_def live_def tm_live_def)

lemma alloc_live:
  assumes "inv w" and "alloc t w = (r, w')"
  shows "inv w'" and "live w' r" and "grows w w'"
  using allocate [OF assms(1), of t] assms(2) by (auto simp: alloc_def live_def grows_def)

lemma get_task_kept:
  assumes "inv w" and "tm_live tm w" and "tm_get_task ops tm w = (r, tm', w')"
  shows "kept tm w tm' w'" and "\<And>a. r = Some a \<Longrightarrow> live w' a"
proof -
  have "kept tm w tm' w' \<and> (\<forall>a. r = Some a \<longrightarrow> live w' a)"
  proof (cases "truthy (tm_task_id tm) \<and> tm_current_task tm = None")
    case True
    obtain r1 w1 where g: "ts_get ops (the (tm_task_id tm)) w = (r1, w1)" by (cases "ts_get ops (the (tm_task_id tm)) w")
    with True assms(3) have "r = r1" "w' = w1" "tm' = tm\<lparr>tm_current_task := r1\<rparr>" by (auto simp: tm_get_task_def)
    with get_grows [OF assms(1) g] show ?thesis by (cases r1) (auto simp: kept_def)
  next
    case False
    with assms show ?thesis by (auto simp: tm_get_task_def kept_def tm_live_def split: option.splits if_splits)
  qed
  then show "kept tm w tm' w'" and "\<And>a. r = Some a \<Longrightarrow> live w' a" by auto
qed

lemma ensure_kept:
  assumes "inv w" and "tm_live tm w" and "ensure_task ops ev tm w = (r, tm', w')"
  shows "kept tm w tm' w'" and "live w' r"
proof -
  define look where "look = (case tm_current_task tm of
      Some r \<Rightarrow> (Some r, w)
    | None \<Rightarrow> if truthy (tm_task_id tm) then ts_get ops (the (tm_task_id tm)) w else (None, w))"
  obtain q w1 where l: "look = (q, w1)" by (cases look)
  have i: "inv w1" "grows w w1" "\<And>a. q = Some a \<Longrightarrow> live w1 a"
    using assms(1,2) l get_grows [OF assms(1)]
    by (auto simp: look_def tm_live_def split: option.splits if_splits)
  have "kept tm w tm' w' \<and> live w' r"
  proof (cases q)
    case (Some a)
    with assms l have "r = a" "tm' = tm" "w' = w1" by (auto simp: ensure_task_def look_def)
    with i Some assms(2) show ?thesis by (auto simp: kept_def intro: tm_live_grows)
  next
    case None
    obtain a w2 where a: "alloc (init_task_obj (tm_initial_message tm) (te_task_id ev) (te_context_id ev)) w1 = (a, w2)"
      by (cases "alloc (init_task_obj (tm_initial_message tm) (te_task_id ev) (te_context_id ev)) w1")
    note al = alloc_live [OF i(1) a]
    have "r = a" "tm' = fst (save_task ops a tm w2)" "w' = snd (save_task ops a tm w2)"
      using assms(3) l a None by (auto simp: ensure_task_def look_def Let_def)
    with save_kept [OF al(1,2), of tm] al i(2) show ?thesis
      by (auto simp: kept_def intro: grows_trans live_grows)
  qed
  then show "kept tm w tm' w'" and "live w' r" by auto
qed

lemma mutate_save_kept:
  assumes "inv w" and "live w r" and "task_id t = task_id (obj w r)"
  shows "kept tm w (fst (save_task ops r tm (set_obj r t w))) (snd (save_task ops r tm (set_obj r t w)))"
proof -
  have "inv (set_obj r t w)" using mutate [OF assms] by simp
  moreover have "live (set_obj r t w) r" and "grows w (set_obj r t w)"
    using assms(2) by (simp_all add: grows_def set_obj_def live_def)
  ultimately show ?thesis using save_kept [of "set_obj r t w" r tm] unfolding kept_def by (blast intro: grows_trans)
qed

lemma save_task_event_kept:
  assumes "inv w" and "tm_live tm w" and "save_task_event ops ev tm w = (res, tm', w')"
  shows "kept tm w tm' w'" and "\<And>a. res = Inr a \<Longrightarrow> live w' a"
proof -
  have "kept tm w tm' w' \<and> (\<forall>a. res = Inr a \<longrightarrow> live w' a)"
  proof (cases "tm_accepts tm ev")
    case False
    from save_task_event_refused [OF this, of ops w] assms show ?thesis
      by (auto simp: kept_def tm_live_def)
  next
    case True
    have l: "tm_live (tm_adopt ev tm) w" using assms(2) by (simp add: tm_adopt_def)
    have upd: "kept tm w tm' w' \<and> (\<forall>a. res = Inr a \<longrightarrow> live w' a)"
      if f: "\<And>t. task_id (f t) = task_id t"
        and eq: "(let (r, tm3, w1) = ensure_task ops ev (tm_adopt ev tm) w; w2 = set_obj r (f (obj w1 r)) w1;
                   (tm4, w3) = save_task ops r tm3 w2 in (Inr r, tm4, w3)) = (res, tm', w')" for f
    proof -
      obtain r tm3 w1 where e: "ensure_task ops ev (tm_adopt ev tm) w = (r, tm3, w1)"
        by (cases "ensure_task ops ev (tm_adopt ev tm) w")
      note k = ensure_kept [OF assms(1) l e]
      have "kept tm3 w1 (fst (save_task ops r tm3 (set_obj r (f (obj w1 r)) w1))) (snd (save_task ops r tm3 (set_obj r (f (obj w1 r)) w1)))"
        using k f by (intro mutate_save_kept) (auto simp: kept_def)
      moreover have "(fst (save_task ops r tm3 (set_obj r (f (obj w1 r)) w1))) = tm'"
        "snd (save_task ops r tm3 (set_obj r (f (obj w1 r)) w1)) = w'" "res = Inr r"
        using eq e by (auto simp: Let_def)
      ultimately show ?thesis using k by (auto simp: kept_def intro: grows_trans live_grows)
    qed
    show ?thesis
    proof (cases ev)
      case (TE_Task t)
      obtain r w1 where a: "alloc t w = (r, w1)" by (cases "alloc t w")
      note al = alloc_live [OF assms(1) a]
      from save_kept [OF al(1,2), of "tm_adopt ev tm"] al TE_Task True assms(3) a show ?thesis
        by (auto simp: save_task_event_accepts kept_def Let_def intro: grows_trans live_grows)
    next
      case (TE_Status e)
      show ?thesis by (rule upd [of "\<lambda>t. apply_status_update t e"])
        (use assms(3) True TE_Status in \<open>simp_all add: save_task_event_accepts del: save_task_id\<close>)
    next
      case (TE_Artifact e)
      show ?thesis by (rule upd [of "\<lambda>t. append_artifact_to_task t e"])
        (use assms(3) True TE_Artifact in \<open>simp_all add: save_task_event_accepts del: save_task_id\<close>)
    qed
  qed
  then show "kept tm w tm' w'" and "\<And>a. res = Inr a \<Longrightarrow> live w' a" by auto
qed

lemma process_kept:
  assumes "inv w" and "tm_live tm w" and "tm_process ops ev tm w = (res, tm', w')"
  shows "kept tm w tm' w'"
  using assms save_task_event_kept(1) [OF assms(1,2)]
  by (auto simp: tm_process_def kept_refl split: option.splits prod.splits sum.splits)

lemma ra_process_kept:
  assumes "inv w" and "tm_live (ra_task_manager ra) w" and "ra_process ops ev ra w = (res, ra', w')"
  shows "kept (ra_task_manager ra) w (ra_task_manager ra') w'"
  using assms process_kept [OF assms(1,2)] by (auto simp: ra_process_def split: prod.splits)

lemma ra_get_task_kept:
  assumes "inv w" and "tm_live (ra_task_manager ra) w" and "ra_get_task ops ra w = (res, ra', w')"
  shows "kept (ra_task_manager ra) w (ra_task_manager ra') w'" and "\<And>a. res = AR_Task a \<Longrightarrow> live w' a"
proof -
  obtain r tm1 w1 where g: "tm_get_task ops (ra_task_manager ra) w = (r, tm1, w1)"
    by (cases "tm_get_task ops (ra_task_manager ra) w")
  with assms(3) have "ra_task_manager ra' = tm1" "w' = w1" "res = (case r of None \<Rightarrow> AR_None | Some a \<Rightarrow> AR_Task a)"
    by (auto simp: ra_get_task_def)
  with get_task_kept [OF assms(1,2) g]
  show "kept (ra_task_manager ra) w (ra_task_manager ra') w'" and "\<And>a. res = AR_Task a \<Longrightarrow> live w' a"
    by (auto split: option.splits)
qed

lemma current_result_kept:
  assumes "inv w" and "tm_live (ra_task_manager ra) w" and "current_result ops ra w = (res, ra', w')"
  shows "kept (ra_task_manager ra) w (ra_task_manager ra') w'"
  using assms ra_get_task_kept [OF assms(1,2)] by (auto simp: current_result_def kept_refl split: option.splits)

lemma consume_and_emit_kept:
  assumes "inv w" and "tm_live (ra_task_manager ra) w" and "consume_and_emit ops evs en ra w = (res, ra', w')"
  shows "kept (ra_task_manager ra) w (ra_task_manager ra') w'"
  using assms
proof (induction evs arbitrary: ra w res)
  case (Cons ev evs)
  obtain r1 ra1 w1 where p: "ra_process ops ev ra w = (r1, ra1, w1)" by (cases "ra_process ops ev ra w")
  note k = ra_process_kept [OF Cons.prems(1,2) p]
  show ?case
  proof (cases r1)
    case (Inr e)
    obtain res' ra2 w2 where e: "consume_and_emit ops evs en ra1 w1 = (res', ra2, w2)"
      by (cases "consume_and_emit ops evs en ra1 w1")
    with Cons.prems(3) p Inr have "ra2 = ra'" "w2 = w'" by (auto split: prod.splits)
    with e k Cons.IH [of w1 ra1 res'] show ?thesis using kept_trans by (auto simp: kept_def intro: grows_trans)
  qed (use Cons.prems(3) p k in auto)
qed (auto simp: kept_refl)

lemma ra_consume_all_kept:
  assumes "inv w" and "tm_live (ra_task_manager ra) w" and "ra_consume_all ops evs en ra w = (res, ra', w')"
  shows "kept (ra_task_manager ra) w (ra_task_manager ra') w'"
  using assms
proof (induction evs arbitrary: ra w)
  case Nil
  show ?case
  proof (cases en)
    case C_Ended
    obtain r ra1 w1 where g: "ra_get_task ops ra w = (r, ra1, w1)" by (cases "ra_get_task ops ra w")
    with ra_get_task_kept(1) [OF Nil.prems(1,2) g] Nil.prems(3) C_Ended show ?thesis by auto
  qed (use Nil.prems kept_refl in auto)
next
  case (Cons ev evs)
  obtain r1 ra1 w1 where p: "ra_process ops ev ra w = (r1, ra1, w1)" by (cases "ra_process ops ev ra w")
  note k = ra_process_kept [OF Cons.prems(1,2) p]
  have m: "kept (ra_task_manager ra) w (ra_task_manager ra') w'" if "ev = EvMessage m" for m
    using that Cons.prems by (auto simp: kept_refl)
  have o: "kept (ra_task_manager ra) w (ra_task_manager ra') w'" if "\<nexists>m. ev = EvMessage m"
  proof (cases r1)
    case (Inl e)
    with Cons.prems(3) p that k show ?thesis by (cases ev) auto
  next
    case (Inr e)
    with Cons.prems(3) p that have "ra_consume_all ops evs en ra1 w1 = (res, ra', w')" by (cases ev) auto
    with Cons.IH [OF _ _ this] k show ?thesis using kept_trans by (fastforce simp: kept_def)
  qed
  show ?case using m o by blast
qed

lemma break_kept:
  assumes "inv w" and "tm_live (ra_task_manager ra) w"
    and "consume_and_break_on_interrupt ops blocking evs en ra w = ((res, rest), ra', w')"
  shows "kept (ra_task_manager ra) w (ra_task_manager ra') w'"
  using assms
proof (induction evs arbitrary: ra w)
  case Nil
  show ?case
  proof (cases en)
    case C_Ended
    obtain r ra1 w1 where g: "ra_get_task ops ra w = (r, ra1, w1)" by (cases "ra_get_task ops ra w")
    with ra_get_task_kept(1) [OF Nil.prems(1,2) g] Nil.prems(3) C_Ended show ?thesis by auto
  qed (use Nil.prems kept_refl in auto)
next
  case (Cons ev evs)
  obtain r1 ra1 w1 where p: "ra_process ops ev ra w = (r1, ra1, w1)" by (cases "ra_process ops ev ra w")
  note k = ra_process_kept [OF Cons.prems(1,2) p]
  have m: "kept (ra_task_manager ra) w (ra_task_manager ra') w'" if "ev = EvMessage m" for m
    using that Cons.prems by (auto simp: kept_refl)
  have o: "kept (ra_task_manager ra) w (ra_task_manager ra') w'" if n: "\<nexists>m. ev = EvMessage m"
  proof (cases r1)
    case (Inl e)
    with Cons.prems(3) p n k show ?thesis by (cases ev) auto
  next
    case (Inr e)
    show ?thesis
    proof (cases "is_auth_required ev \<or> \<not> blocking")
      case True
      obtain r ra2 w2 where g: "ra_get_task ops ra1 w1 = (r, ra2, w2)" by (cases "ra_get_task ops ra1 w1")
      have "ra2 = ra'" "w2 = w'" using Cons.prems(3) p n Inr True g by (cases ev; auto)+
      with ra_get_task_kept(1) [OF _ _ g] k show ?thesis using kept_trans by (fastforce simp: kept_def)
    next
      case False
      with Cons.prems(3) p n Inr have "consume_and_break_on_interrupt ops blocking evs en ra1 w1 = ((res, rest), ra', w')"
        by (cases ev) auto
      with Cons.IH [OF _ _ this] k show ?thesis using kept_trans by (fastforce simp: kept_def)
    qed
  qed
  show ?case using m o by blast
qed

lemma continue_kept:
  assumes "inv w" and "tm_live (ra_task_manager ra) w"
    and "\<And>ra w c ra' w' c'. inv w \<Longrightarrow> tm_live (ra_task_manager ra) w \<Longrightarrow> callback ra w c = (ra', w', c') \<Longrightarrow>
           kept (ra_task_manager ra) w (ra_task_manager ra') w'"
    and "continue_consuming ops callback evs en ra w c = (res, ra', w', c')"
  shows "kept (ra_task_manager ra) w (ra_task_manager ra') w'"
  using assms(1,2,4)
proof (induction evs arbitrary: ra w c)
  case (Cons ev evs)
  obtain r1 ra1 w1 where p: "ra_process ops ev ra w = (r1, ra1, w1)" by (cases "ra_process ops ev ra w")
  note k = ra_process_kept [OF Cons.prems(1,2) p]
  show ?case
  proof (cases r1)
    case (Inr e)
    obtain ra2 w2 c2 where cb: "callback ra1 w1 c = (ra2, w2, c2)" by (cases "callback ra1 w1 c")
    with assms(3) [OF _ _ cb] k have k2: "kept (ra_task_manager ra1) w1 (ra_task_manager ra2) w2" by (simp add: kept_def)
    have "continue_consuming ops callback evs en ra2 w2 c2 = (res, ra', w', c')" using Cons.prems(3) p Inr cb by simp
    with Cons.IH [of w2 ra2 c2] k2 have "kept (ra_task_manager ra2) w2 (ra_task_manager ra') w'" by (simp add: kept_def)
    with k k2 show ?thesis using kept_trans by blast
  qed (use Cons.prems(3) p k in auto)
qed (auto simp: kept_refl)

end

subsection \<open>The queues and the running agents\<close>

text \<open>
  What holds of the queue manager: it has the root queue of each of its tasks, no two tasks share one, and every task with
  a queue has a running agent.
\<close>

definition queues_ok :: "queue_world \<Rightarrow> bool" where
  "queues_ok w \<longleftrightarrow>
     (\<forall>i r. qm_task_queue w i = Some r \<longrightarrow> snd r = [] \<and> fst r < length (qm_roots w)) \<and>
     (\<forall>i j r. qm_task_queue w i = Some r \<longrightarrow> qm_task_queue w j = Some r \<longrightarrow> i = j)"

lemma queues_ok_init [simp]: "queues_ok qm_init"
  by (simp add: queues_ok_def qm_init_def)

lemma q_set_length [simp]: "length (qm_roots (q_set r q w)) = length (qm_roots w)"
  by (simp add: q_set_def)

lemma queues_ok_same:
  "queues_ok w \<Longrightarrow> qm_task_queue w' = qm_task_queue w \<Longrightarrow> length (qm_roots w) \<le> length (qm_roots w') \<Longrightarrow> queues_ok w'"
  by (fastforce simp: queues_ok_def)

lemma queues_ok_set [simp]: "queues_ok w \<Longrightarrow> queues_ok (q_set r q w)"
  by (erule queues_ok_same) simp_all

lemma q_tap_ok:
  assumes "queues_ok w" and "q_tap r w = (r', w')"
  shows "queues_ok w'" and "qm_task_queue w' = qm_task_queue w"
proof -
  have "w' = q_set r (snd (tap (q_at w r))) w" using assms(2) by (auto simp: q_tap_def split: prod.splits)
  with assms(1) show "queues_ok w'" and "qm_task_queue w' = qm_task_queue w" by simp_all
qed

lemma q_new_ok:
  assumes "queues_ok w" and "q_new w = (r, w')"
  shows "queues_ok w'" and "qm_task_queue w' = qm_task_queue w"
proof -
  have w': "w' = w\<lparr>qm_roots := qm_roots w @ [eq_new]\<rparr>" using assms(2) by (simp add: q_new_def)
  with queues_ok_same [OF assms(1), of w'] show "queues_ok w'" by simp
  from w' show "qm_task_queue w' = qm_task_queue w" by simp
qed

lemma queues_ok_add:
  assumes "queues_ok w"
  shows "queues_ok (w\<lparr>qm_roots := qm_roots w @ [q], qm_task_queue := (qm_task_queue w)(i \<mapsto> (length (qm_roots w), []))\<rparr>)"
proof -
  have b: "snd r = [] \<and> fst r < length (qm_roots w)" if "qm_task_queue w j = Some r" for j r
    using assms that unfolding queues_ok_def by blast
  have "qm_task_queue w j \<noteq> Some (length (qm_roots w), [])" for j
    using b [of j "(length (qm_roots w), [])"] by auto
  moreover have "j = k" if "qm_task_queue w j = Some r" "qm_task_queue w k = Some r" for j k r
    using assms that unfolding queues_ok_def by blast
  ultimately show ?thesis using b by (fastforce simp: queues_ok_def less_Suc_eq)
qed

lemma qm_tap_ok:
  assumes "queues_ok w" and "qm_tap i w = (res, w')"
  shows "queues_ok w'" and "qm_known w' = qm_known w"
proof -
  have "queues_ok w' \<and> qm_known w' = qm_known w"
  proof (cases "qm_closing w = None")
    case True
    show ?thesis
    proof (cases "qm_task_queue w i")
      case (Some r)
      obtain r' w1 where t: "q_tap r w = (r', w1)" by (cases "q_tap r w")
      with assms(2) True Some have "w' = w1" by (auto simp: qm_tap_def with_lock_def)
      with q_tap_ok [OF assms(1) t] show ?thesis by (simp add: qm_known_def)
    qed (use assms True in \<open>auto simp: qm_tap_def with_lock_def\<close>)
  qed (use assms in \<open>auto simp: qm_tap_def with_lock_def\<close>)
  then show "queues_ok w'" and "qm_known w' = qm_known w" by auto
qed

lemma qm_create_or_tap_ok:
  assumes "queues_ok w" and "qm_create_or_tap i w = (res, w')"
  shows "queues_ok w'" and "qm_known w' \<subseteq> insert i (qm_known w)" and "(\<nexists>q. res = Done q) \<Longrightarrow> w' = w"
proof -
  have "queues_ok w' \<and> qm_known w' \<subseteq> insert i (qm_known w) \<and> ((\<nexists>q. res = Done q) \<longrightarrow> w' = w)"
  proof (cases "qm_closing w = None")
    case True
    show ?thesis
    proof (cases "qm_task_queue w i")
      case None
      with assms(2) True have "w' = w\<lparr>qm_roots := qm_roots w @ [eq_new],
          qm_task_queue := (qm_task_queue w)(i \<mapsto> (length (qm_roots w), []))\<rparr>" "\<exists>q. res = Done q"
        by (auto simp: qm_create_or_tap_def with_lock_def q_new_def)
      with queues_ok_add [OF assms(1)] show ?thesis by (auto simp: qm_known_def)
    next
      case (Some r)
      obtain r' w1 where t: "q_tap r w = (r', w1)" by (cases "q_tap r w")
      with assms(2) True Some have "w' = w1" "res = Done r'" by (auto simp: qm_create_or_tap_def with_lock_def)
      with q_tap_ok [OF assms(1) t] show ?thesis by (auto simp: qm_known_def)
    qed
  qed (use assms in \<open>auto simp: qm_create_or_tap_def with_lock_def\<close>)
  then show "queues_ok w'" and "qm_known w' \<subseteq> insert i (qm_known w)" and "(\<nexists>q. res = Done q) \<Longrightarrow> w' = w" by auto
qed

lemma qm_close_ok:
  assumes "queues_ok w" and "qm_close py i w = (res, w')"
  shows "queues_ok w'" and "qm_known w' \<subseteq> qm_known w" and "res = Done () \<Longrightarrow> i \<notin> qm_known w'"
proof -
  have "queues_ok w' \<and> qm_known w' \<subseteq> qm_known w \<and> (res = Done () \<longrightarrow> i \<notin> qm_known w')"
  proof (cases "qm_closing w = None")
    case True
    show ?thesis
    proof (cases "qm_task_queue w i")
      case (Some r)
      define w1 where "w1 = w\<lparr>qm_task_queue := (qm_task_queue w)(i := None)\<rparr>"
      obtain r1 q' where c: "close_graceful py (q_at w r) = (r1, q')" by (cases "close_graceful py (q_at w r)")
      have w': "\<exists>c. w' = (q_set r q' w1)\<lparr>qm_closing := c\<rparr> \<or> w' = q_set r q' w1"
        using assms(2) True Some c by (cases r1) (auto simp: qm_close_def with_lock_def Let_def w1_def)
      have "queues_ok w1" using assms(1) by (auto simp: queues_ok_def w1_def split: if_splits)
      then have ok: "queues_ok (q_set r q' w1)" by simp
      have kn: "qm_task_queue w' = (qm_task_queue w)(i := None)" using w' by (auto simp: w1_def)
      have "length (qm_roots w') = length (qm_roots (q_set r q' w1))" "qm_task_queue w' = qm_task_queue (q_set r q' w1)"
        using w' by auto
      with ok have "queues_ok w'" by (auto intro: queues_ok_same)
      with kn show ?thesis by (auto simp: qm_known_def)
    qed (use assms True in \<open>auto simp: qm_close_def with_lock_def qm_known_def\<close>)
  qed (use assms in \<open>auto simp: qm_close_def with_lock_def\<close>)
  then show "queues_ok w'" and "qm_known w' \<subseteq> qm_known w" and "res = Done () \<Longrightarrow> i \<notin> qm_known w'" by auto
qed

subsection \<open>The steps of the handler\<close>

text \<open>
  The background task of an interrupted call: it goes on consuming and sends a notification after every event.
\<close>

definition push_notification_callback ::
  "('st, 'ps) handler_cfg \<Rightarrow> string \<Rightarrow> ('st, 'ps) handler_state \<Rightarrow> ResultAggregator \<Rightarrow> 'st store_state \<Rightarrow> http_post list \<Rightarrow>
   ResultAggregator \<times> 'st store_state \<times> http_post list" where
  "push_notification_callback cfg tid s ra w posts =
     (let (ra', s') = send_push_notification_if_needed cfg tid ra (s\<lparr>hs_store := w, hs_posts := posts\<rparr>)
      in (ra', hs_store s', hs_posts s'))"

definition background_consume ::
  "('st, 'ps) handler_cfg \<Rightarrow> string \<Rightarrow> Event list \<Rightarrow> consume_end \<Rightarrow> ResultAggregator \<Rightarrow> ('st, 'ps) handler_state \<Rightarrow>
   unit await \<times> ('st, 'ps) handler_state" where
  "background_consume cfg tid evs en ra s =
     (let (r, ra', w', posts') =
            continue_consuming (hc_store_ops cfg) (push_notification_callback cfg tid s) evs en ra (hs_store s) (hs_posts s)
      in (r, s\<lparr>hs_store := w', hs_posts := posts'\<rparr>))"

text \<open>
  One step: a request with any arguments, any schedule of its consumer and any end of its agent; an agent that works on a
  queue between the requests; a background task with a task manager whose task exists; a clean-up of its own; the end of
  a graceful close, after which the clean-up that asked for it forgets the running agent.
\<close>

inductive handler_step :: "('st, 'ps) handler_cfg \<Rightarrow> ('st, 'ps) handler_state \<Rightarrow> ('st, 'ps) handler_state \<Rightarrow> bool"
  for cfg :: "('st, 'ps) handler_cfg" where
  HS_GetTask: "handler_step cfg s (snd (on_get_task cfg gparams s))"
| HS_Cancel: "handler_step cfg s (snd (on_cancel_task cfg iparams agent_cancel sched s))"
| HS_Send: "handler_step cfg s (snd (on_message_send cfg params call gen_task gen_ctx producer_id sched producer s))"
| HS_Stream: "handler_step cfg s (snd (on_message_send_stream cfg params call gen_task gen_ctx producer_id sched s))"
| HS_Resubscribe: "handler_step cfg s (snd (on_resubscribe_to_task cfg iparams sched s))"
| HS_SetPush: "handler_step cfg s (snd (on_set_task_push_notification_config cfg sparams s))"
| HS_GetPush: "handler_step cfg s (snd (on_get_task_push_notification_config cfg cparams s))"
| HS_ListPush: "handler_step cfg s (snd (on_list_task_push_notification_config cfg lparams s))"
| HS_DeletePush: "handler_step cfg s (snd (on_delete_task_push_notification_config cfg dparams s))"
| HS_Agent: "handler_step cfg s (s\<lparr>hs_queues := q_set q (apply_op (hc_py313 cfg) oper (q_at (hs_queues s) q)) (hs_queues s)\<rparr>)"
| HS_Background: "tm_live (ra_task_manager ra) (hs_store s) \<Longrightarrow> handler_step cfg s (snd (background_consume cfg tid evs en ra s))"
| HS_Cleanup: "handler_step cfg s (snd (cleanup_producer cfg producer tid s))"
| HS_Resume: "qm_close_resume (hs_queues s) = (Done (), w) \<Longrightarrow> tid \<notin> qm_known w \<Longrightarrow>
    handler_step cfg s (s\<lparr>hs_queues := w, hs_running_agents := (hs_running_agents s)(tid := None)\<rparr>)"

inductive handler_reachable :: "('st, 'ps) handler_cfg \<Rightarrow> ('st, 'ps) handler_state \<Rightarrow> ('st, 'ps) handler_state \<Rightarrow> bool"
  for cfg :: "('st, 'ps) handler_cfg" and s0 :: "('st, 'ps) handler_state" where
  HR_start: "handler_reachable cfg s0 s0"
| HR_step: "handler_reachable cfg s0 s \<Longrightarrow> handler_step cfg s s' \<Longrightarrow> handler_reachable cfg s0 s'"

definition handler_inv ::
  "('st store_state \<Rightarrow> bool) \<Rightarrow> ('ps \<Rightarrow> bool) \<Rightarrow> ('st, 'ps) handler_state \<Rightarrow> bool" where
  "handler_inv store_inv push_inv s \<longleftrightarrow>
     store_inv (hs_store s) \<and> push_inv (hs_push s) \<and> queues_ok (hs_queues s) \<and>
     qm_known (hs_queues s) \<subseteq> dom (hs_running_agents s)"

lemma handler_inv_posts [simp]:
  "handler_inv si pi (s\<lparr>hs_posts := ps\<rparr>) = handler_inv si pi s"
  "handler_inv si pi (s\<lparr>hs_cancelled := cs\<rparr>) = handler_inv si pi s"
  by (simp_all add: handler_inv_def)

lemma handler_inv_store:
  "handler_inv si pi s \<Longrightarrow> si w \<Longrightarrow> handler_inv si pi (s\<lparr>hs_store := w\<rparr>)"
  by (simp add: handler_inv_def)

lemma handler_inv_queues:
  "handler_inv si pi s \<Longrightarrow> queues_ok w \<Longrightarrow> qm_known w \<subseteq> qm_known (hs_queues s) \<Longrightarrow> handler_inv si pi (s\<lparr>hs_queues := w\<rparr>)"
  by (auto simp: handler_inv_def)

lemma handler_inv_q_set:
  "handler_inv si pi s \<Longrightarrow> handler_inv si pi (s\<lparr>hs_queues := q_set r q (hs_queues s)\<rparr>)"
  by (rule handler_inv_queues) (simp_all add: handler_inv_def qm_known_def)

lemma consume_queue_inv:
  "handler_inv si pi s \<Longrightarrow> handler_inv si pi (snd (consume_queue cfg q sched s))"
  by (simp add: consume_queue_def handler_inv_q_set split: prod.split)

lemma cleanup_inv:
  assumes "handler_inv si pi s"
  shows "handler_inv si pi (snd (cleanup_producer cfg producer tid s))"
proof (cases producer)
  case (Done u)
  obtain r w where c: "qm_close (hc_py313 cfg) tid (hs_queues s) = (r, w)" by (cases "qm_close (hc_py313 cfg) tid (hs_queues s)")
  have "queues_ok (hs_queues s)" using assms by (simp add: handler_inv_def)
  note k = qm_close_ok [OF this c]
  have "handler_inv si pi (s\<lparr>hs_queues := w\<rparr>)" using handler_inv_queues [OF assms k(1,2)] .
  with k(3) show ?thesis using Done c
    by (cases r) (auto simp: cleanup_producer_def handler_inv_def)
qed (use assms in \<open>simp_all add: cleanup_producer_def\<close>)

definition push_lawful :: "('st, 'ps) handler_cfg \<Rightarrow> ('ps \<Rightarrow> bool) \<Rightarrow> bool" where
  "push_lawful cfg push_inv \<longleftrightarrow> (\<forall>ps. hc_push_store cfg = Some ps \<longrightarrow> (\<exists>view. push_store ps view push_inv))"

lemma push_lawful_set:
  assumes "push_lawful cfg pi" and "hc_push_store cfg = Some ps" and "pi p"
  shows "pi (snd (ps_set ps t c p))" and "pi (ps_delete ps t (Some i) p)"
proof -
  obtain view where "push_store ps view pi" using assms(1,2) by (auto simp: push_lawful_def)
  then have l: "push_store ps view pi" .
  show "pi (snd (ps_set ps t c p))" and "pi (ps_delete ps t (Some i) p)"
    using push_store.set_law [OF l assms(3)] push_store.delete_law [OF l assms(3)] by blast+
qed

context task_store
begin

lemma store_get_inv:
  assumes "hc_store_ops cfg = ops" and "handler_inv inv pi s" and "store_get cfg i s = (r, s')"
  shows "handler_inv inv pi s'" and "\<And>a. r = Some a \<Longrightarrow> live (hs_store s') a"
    and "hs_queues s' = hs_queues s" and "hs_push s' = hs_push s"
proof -
  obtain r1 w where g: "ts_get ops i (hs_store s) = (r1, w)" by (cases "ts_get ops i (hs_store s)")
  have "inv (hs_store s)" using assms(2) by (simp add: handler_inv_def)
  note k = get_grows [OF this g]
  have "r = r1" "s' = s\<lparr>hs_store := w\<rparr>" using assms(1,3) g by (auto simp: store_get_def)
  with k assms(2) show "handler_inv inv pi s'" and "\<And>a. r = Some a \<Longrightarrow> live (hs_store s') a"
    and "hs_queues s' = hs_queues s" and "hs_push s' = hs_push s"
    by (auto simp: handler_inv_def)
qed

lemma send_push_inv:
  assumes "hc_store_ops cfg = ops" and "handler_inv inv pi s" and "tm_live (ra_task_manager ra) (hs_store s)"
    and "send_push_notification_if_needed cfg tid ra s = (ra', s')"
  shows "handler_inv inv pi s'" and "kept (ra_task_manager ra) (hs_store s) (ra_task_manager ra') (hs_store s')"
proof -
  have i: "inv (hs_store s)" using assms(2) by (simp add: handler_inv_def)
  obtain res ra1 w where c: "current_result ops ra (hs_store s) = (res, ra1, w)" by (cases "current_result ops ra (hs_store s)")
  note k = current_result_kept [OF i assms(3) c]
  have "(ra', s') = (ra, s) \<or> (\<exists>ps. ra' = ra1 \<and> s' = s\<lparr>hs_store := w, hs_posts := ps\<rparr>) \<or> ra' = ra1 \<and> s' = s\<lparr>hs_store := w\<rparr>"
    using assms(1,4) c
    by (auto simp: send_push_notification_if_needed_def Let_def split: option.splits if_splits agg_result.splits)
  with k i assms(2,3) show "handler_inv inv pi s'"
    and "kept (ra_task_manager ra) (hs_store s) (ra_task_manager ra') (hs_store s')"
    by (auto simp: kept_def handler_inv_def)
qed

lemma setup_task_inv:
  assumes "hc_store_ops cfg = ops" and "handler_inv inv pi s" and "setup_task cfg params s = (r, s')"
  shows "handler_inv inv pi s'"
    and "\<And>tm a. r = Inr (tm, a) \<Longrightarrow> tm_live tm (hs_store s') \<and> (\<forall>x. a = Some x \<longrightarrow> live (hs_store s') x)"
proof -
  let ?m = "msp_message params"
  have i: "inv (hs_store s)" using assms(2) by (simp add: handler_inv_def)
  have "handler_inv inv pi s' \<and>
    (\<forall>tm a. r = Inr (tm, a) \<longrightarrow> tm_live tm (hs_store s') \<and> (\<forall>x. a = Some x \<longrightarrow> live (hs_store s') x))"
  proof (cases "tm_init (msg_task_id ?m) (msg_context_id ?m) (Some ?m)")
    case (Inl e)
    with assms show ?thesis by (auto simp: setup_task_def)
  next
    case (Inr tm)
    obtain q tm1 w1 where g: "tm_get_task ops tm (hs_store s) = (q, tm1, w1)" by (cases "tm_get_task ops tm (hs_store s)")
    note k = get_task_kept [OF i tm_live_init [OF Inr] g]
    have k1: "inv w1" "tm_live tm1 w1" using k(1) by (simp_all add: kept_def)
    show ?thesis
    proof (cases q)
      case None
      with assms Inr g k1 show ?thesis by (auto simp: setup_task_def handler_inv_store Let_def split: if_splits)
    next
      case (Some a)
      have m: "inv (set_obj a (task_with_message ?m (obj w1 a)) w1)"
        using mutate [OF k1(1) k(2) [OF Some], of "task_with_message ?m (obj w1 a)"] by simp
      with assms Inr g k1 Some k(2) [OF Some] show ?thesis
        by (auto simp: setup_task_def update_with_message_def handler_inv_store Let_def split: if_splits)
    qed
  qed
  then show "handler_inv inv pi s'"
    and "\<And>tm a. r = Inr (tm, a) \<Longrightarrow> tm_live tm (hs_store s') \<and> (\<forall>x. a = Some x \<longrightarrow> live (hs_store s') x)" by auto
qed

lemma get_tasks_grows: "inv w \<Longrightarrow> get_tasks ops is w = (ts, w') \<Longrightarrow> inv w' \<and> grows w w'"
proof (induction "is" arbitrary: w ts w')
  case (Cons i "is")
  obtain r w1 where g: "ts_get ops i w = (r, w1)" by (cases "ts_get ops i w")
  obtain us w2 where u: "get_tasks ops is w1 = (us, w2)" by (cases "get_tasks ops is w1")
  note k = get_grows [OF Cons.prems(1) g]
  from Cons.IH [OF k(1) u] k Cons.prems(2) g u show ?case by (auto intro: grows_trans)
qed simp

lemma build_context_grows:
  assumes "inv w" and "build_context pop ops params tid ctx task call gt gc w = (r, w')"
  shows "inv w'" and "grows w w'"
proof -
  have "inv w' \<and> grows w w'"
    using assms get_tasks_grows [OF assms(1)]
    by (auto simp: build_context_def split: option.splits if_splits prod.splits)
  then show "inv w'" and "grows w w'" by auto
qed

lemma setup_execution_inv:
  assumes "hc_store_ops cfg = ops" and "push_lawful cfg pi" and "handler_inv inv pi s" and "tm_live tm (hs_store s)"
    and "\<And>x. task = Some x \<Longrightarrow> live (hs_store s) x"
    and "setup_execution cfg params call gt gc p tm task s = (r, s')"
  shows "handler_inv inv pi s'" and "\<And>ex. r = Done ex \<Longrightarrow> tm_live (ex_task_manager ex) (hs_store s')"
proof -
  define cur where "cur = map_option (hs_obj s) task"
  obtain rcr params1 w1 where b: "build_context (hc_populate_referred_tasks cfg) (hc_store_ops cfg) (Some params)
      (map_option task_id cur) (msg_context_id (msp_message params)) cur call gt gc (hs_store s) = ((rcr, params1), w1)"
    by (metis prod.collapse)
  define params2 where "params2 = (case params1 of Some p \<Rightarrow> p | None \<Rightarrow> params)"
  define w2 where "w2 = (case task of None \<Rightarrow> w1
      | Some a \<Rightarrow> set_obj a (refresh_last_message (msp_message params2) (obj w1 a)) w1)"
  have "inv (hs_store s)" using assms(3) by (simp add: handler_inv_def)
  note g = build_context_grows [OF this b [unfolded assms(1)]]
  have w2: "inv w2 \<and> grows (hs_store s) w2"
  proof (cases task)
    case (Some a)
    have l: "live w1 a" using live_grows [OF assms(5) [OF Some] g(2)] .
    have "task_id (refresh_last_message (msp_message params2) (obj w1 a)) = task_id (obj w1 a)"
      by (simp add: refresh_last_message_def split: option.split)
    from mutate [OF g(1) l this] g(2) Some show ?thesis by (simp add: w2_def grows_def set_obj_def)
  qed (use g in \<open>simp add: w2_def\<close>)
  define s2 where "s2 = s\<lparr>hs_store := w2\<rparr>"
  have i2: "handler_inv inv pi s2" using assms(3) w2 by (simp add: s2_def handler_inv_store)
  show "handler_inv inv pi s'" and "\<And>ex. r = Done ex \<Longrightarrow> tm_live (ex_task_manager ex) (hs_store s')"
  proof -
    have "handler_inv inv pi s' \<and> (\<forall>ex. r = Done ex \<longrightarrow> tm_live (ex_task_manager ex) (hs_store s'))"
    proof (cases rcr)
      case (Inl e)
      have "r = Raised e" "s' = s2"
        unfolding s2_def w2_def params2_def using assms(6) b [unfolded cur_def] Inl
        by (auto simp: setup_execution_def Let_def)
      with i2 show ?thesis by simp
    next
      case (Inr rc)
      define tid where "tid = the (rc_task_id rc)"
      define ps3 where "ps3 = (case (hc_push_store cfg, Option.bind (msp_configuration params2) msc_push_notification_config) of
            (Some ps, Some c) \<Rightarrow>
              (let (c', p) = ps_set ps tid c (hs_push s2)
               in (params2\<lparr>msp_configuration := map_option
                     (\<lambda>x. x\<lparr>msc_push_notification_config := Some c'\<rparr>) (msp_configuration params2)\<rparr>,
                   s2\<lparr>hs_push := p\<rparr>))
          | _ \<Rightarrow> (params2, s2))"
      obtain params3 s3 where s3: "ps3 = (params3, s3)" by (cases ps3)
      have i3: "handler_inv inv pi s3 \<and> hs_store s3 = w2"
        using s3 i2 push_lawful_set(1) [OF assms(2)]
        by (auto simp: ps3_def s2_def handler_inv_def split: option.splits prod.splits) (metis snd_conv)+
      obtain q w where q: "qm_create_or_tap tid (hs_queues s3) = (q, w)" by (cases "qm_create_or_tap tid (hs_queues s3)")
      have "queues_ok (hs_queues s3)" using i3 by (simp add: handler_inv_def)
      note c = qm_create_or_tap_ok [OF this q]
      have res: "(r, s') = (case q of
          Blocked \<Rightarrow> (Blocked, s3\<lparr>hs_queues := w\<rparr>) | Raised e \<Rightarrow> (Raised e, s3\<lparr>hs_queues := w\<rparr>)
        | Done q \<Rightarrow> (Done \<lparr>ex_task_manager = tm\<lparr>tm_initial_message := Some (msp_message params2)\<rparr>, ex_task_id = tid, ex_queue = q,
             ex_context = rc, ex_params = params3\<rparr>,
             s3\<lparr>hs_queues := w, hs_running_agents := (hs_running_agents s3)(tid \<mapsto> p)\<rparr>))"
        unfolding params2_def tid_def using assms(6) b [unfolded cur_def] Inr s3 [unfolded ps3_def s2_def w2_def params2_def tid_def] q [unfolded tid_def]
        by (cases q) (simp_all add: setup_execution_def Let_def)
      have tl: "tm_live tm w2" using tm_live_grows [OF assms(4)] w2 by blast
      show ?thesis
      proof (cases q)
        case (Done x)
        with res c i3 tl show ?thesis by (auto simp: handler_inv_def)
      qed (use res c i3 in \<open>auto simp: handler_inv_def\<close>)
    qed
    then show "handler_inv inv pi s'" and "\<And>ex. r = Done ex \<Longrightarrow> tm_live (ex_task_manager ex) (hs_store s')" by auto
  qed
qed

lemma setup_message_inv:
  assumes "hc_store_ops cfg = ops" and "push_lawful cfg pi" and "handler_inv inv pi s"
    and "setup_message_execution cfg params call gt gc p s = (r, s')"
  shows "handler_inv inv pi s'" and "\<And>ex. r = Done ex \<Longrightarrow> tm_live (ex_task_manager ex) (hs_store s')"
proof -
  obtain r1 s1 where t: "setup_task cfg params s = (r1, s1)" by (cases "setup_task cfg params s")
  note k = setup_task_inv [OF assms(1,3) t]
  have "handler_inv inv pi s' \<and> (\<forall>ex. r = Done ex \<longrightarrow> tm_live (ex_task_manager ex) (hs_store s'))"
  proof (cases r1)
    case (Inl e)
    with assms(4) t k show ?thesis by (auto simp: setup_message_execution_def)
  next
    case (Inr x)
    obtain tm task where x: "x = (tm, task)" by (cases x)
    with assms(4) t Inr have e: "setup_execution cfg params call gt gc p tm task s1 = (r, s')"
      by (simp add: setup_message_execution_def)
    have "tm_live tm (hs_store s1)" "\<And>y. task = Some y \<Longrightarrow> live (hs_store s1) y" using k(2) Inr x by blast+
    from setup_execution_inv [OF assms(1,2) k(1) this e] show ?thesis by blast
  qed
  then show "handler_inv inv pi s'" and "\<And>ex. r = Done ex \<Longrightarrow> tm_live (ex_task_manager ex) (hs_store s')" by auto
qed

lemma send_answer_inv:
  assumes "hc_store_ops cfg = ops" and "handler_inv inv pi s" and "tm_live (ra_task_manager ra) (hs_store s)"
  shows "handler_inv inv pi (snd (send_answer cfg ex res ra s))"
proof -
  obtain ra' s' where p: "send_push_notification_if_needed cfg (ex_task_id ex) ra s = (ra', s')"
    by (cases "send_push_notification_if_needed cfg (ex_task_id ex) ra s")
  have "snd (send_answer cfg ex res ra s) \<in> {s, s'}"
    using p by (cases res) (auto simp: send_answer_def split: sum.split)
  with send_push_inv(1) [OF assms p] assms(2) show ?thesis by auto
qed

lemma cleanup_store [simp]: "hs_store (snd (cleanup_producer cfg producer tid s)) = hs_store s"
  by (cases producer) (auto simp: cleanup_producer_def split: prod.splits await.splits)

lemma message_send_inv:
  assumes "hc_store_ops cfg = ops" and "push_lawful cfg pi" and "handler_inv inv pi s"
  shows "handler_inv inv pi (snd (on_message_send cfg params call gt gc p sched producer s))"
proof -
  obtain r s1 where st: "setup_message_execution cfg params call gt gc p s = (r, s1)"
    by (cases "setup_message_execution cfg params call gt gc p s")
  note k = setup_message_inv [OF assms st]
  show ?thesis
  proof (cases r)
    case (Done ex)
    obtain evs en s2 where c: "consume_queue cfg (ex_queue ex) sched s1 = ((evs, en), s2)"
      by (metis prod.collapse)
    have i2: "handler_inv inv pi s2" and st2: "hs_store s2 = hs_store s1"
      using consume_queue_inv [OF k(1), of cfg "ex_queue ex" sched] consume_queue_fields(1) [of cfg "ex_queue ex" sched s1] c
      by simp_all
    obtain res rest ra w3 where b: "consume_and_break_on_interrupt (hc_store_ops cfg) (is_blocking (ex_params ex)) evs en
        (ra_init (ex_task_manager ex)) (hs_store s2) = ((res, rest), ra, w3)" by (metis prod.collapse)
    have l: "tm_live (ra_task_manager (ra_init (ex_task_manager ex))) (hs_store s2)"
      using k(2) [OF Done] st2 by (simp add: ra_init_def)
    have "inv (hs_store s2)" using i2 by (simp add: handler_inv_def)
    from break_kept [OF this l b [unfolded assms(1)]] have w3: "inv w3" "tm_live (ra_task_manager ra) w3" by (simp_all add: kept_def)
    define s3 where "s3 = s2\<lparr>hs_store := w3\<rparr>"
    have i3: "handler_inv inv pi s3" "tm_live (ra_task_manager ra) (hs_store s3)"
      using i2 w3 by (simp_all add: s3_def handler_inv_store)
    obtain cr s4 where cl: "cleanup_producer cfg producer (ex_task_id ex) s3 = (cr, s4)"
      by (cases "cleanup_producer cfg producer (ex_task_id ex) s3")
    have i4: "handler_inv inv pi s4" "hs_store s4 = hs_store s3"
      using cleanup_inv [OF i3(1), of cfg producer "ex_task_id ex"] cleanup_store [of cfg producer "ex_task_id ex" s3] cl by simp_all
    have "\<exists>x. snd (on_message_send cfg params call gt gc p sched producer s) \<in>
        {s3, s4, snd (send_answer cfg ex x ra s3), snd (send_answer cfg ex x ra s4)}"
    proof (cases res)
      case (Done y)
      obtain a i where "y = (a, i)" by (cases y)
      with st \<open>r = Done ex\<close> c b cl Done show ?thesis
        by (intro exI [of _ a], cases i; cases cr)
          (simp_all add: on_message_send_def Let_def s3_def [symmetric] split: prod.split)
    qed (use st Done c b cl in \<open>cases cr; simp add: on_message_send_def Let_def s3_def [symmetric]\<close>)+
    moreover have "handler_inv inv pi (snd (send_answer cfg ex x ra s3))" for x
      by (rule send_answer_inv [OF assms(1) i3])
    moreover have "handler_inv inv pi (snd (send_answer cfg ex x ra s4))" for x
      using i3(2) i4 by (intro send_answer_inv [OF assms(1)]) simp_all
    ultimately show ?thesis using i3(1) i4(1) by auto
  qed (use st k in \<open>simp_all add: on_message_send_def\<close>)
qed

lemma stream_loop_inv:
  assumes "hc_store_ops cfg = ops" and "handler_inv inv pi s" and "tm_live (ra_task_manager ra) (hs_store s)"
  shows "handler_inv inv pi (snd (stream_loop cfg tid evs en ra s))"
  using assms(2,3)
proof (induction evs arbitrary: ra s)
  case (Cons ev evs)
  have i: "inv (hs_store s)" using Cons.prems(1) by (simp add: handler_inv_def)
  obtain r ra' w where p: "ra_process ops ev ra (hs_store s) = (r, ra', w)" by (cases "ra_process ops ev ra (hs_store s)")
  note k = ra_process_kept [OF i Cons.prems(2) p]
  define s1 where "s1 = s\<lparr>hs_store := w\<rparr>"
  have i1: "handler_inv inv pi s1" "tm_live (ra_task_manager ra') (hs_store s1)"
    using Cons.prems(1) k by (simp_all add: s1_def kept_def handler_inv_store)
  obtain ra2 s2 where n: "send_push_notification_if_needed cfg tid ra' s1 = (ra2, s2)"
    by (cases "send_push_notification_if_needed cfg tid ra' s1")
  note k2 = send_push_inv [OF assms(1) i1 n]
  have i2: "tm_live (ra_task_manager ra2) (hs_store s2)" using k2(2) by (simp add: kept_def)
  have "snd (stream_loop cfg tid (ev # evs) en ra s) \<in> {s1, snd (stream_loop cfg tid evs en ra2 s2)}"
    using p n assms(1)
    by (cases r) (auto simp: s1_def [symmetric] Let_def split: sum.split prod.split)
  with i1(1) Cons.IH [OF k2(1) i2] show ?case by auto
qed simp

lemma message_stream_inv:
  assumes "hc_store_ops cfg = ops" and "push_lawful cfg pi" and "handler_inv inv pi s"
  shows "handler_inv inv pi (snd (on_message_send_stream cfg params call gt gc p sched s))"
proof -
  obtain r s1 where st: "setup_message_execution cfg params call gt gc p s = (r, s1)"
    by (cases "setup_message_execution cfg params call gt gc p s")
  note k = setup_message_inv [OF assms st]
  show ?thesis
  proof (cases r)
    case (Done ex)
    obtain evs en s2 where c: "consume_queue cfg (ex_queue ex) sched s1 = ((evs, en), s2)" by (metis prod.collapse)
    have "handler_inv inv pi s2" and "hs_store s2 = hs_store s1"
      using consume_queue_inv [OF k(1), of cfg "ex_queue ex" sched] consume_queue_fields(1) [of cfg "ex_queue ex" sched s1] c
      by simp_all
    with k(2) [OF Done] stream_loop_inv [OF assms(1), of pi s2 "ra_init (ex_task_manager ex)"] st Done c
    show ?thesis by (simp add: on_message_send_stream_def ra_init_def)
  qed (use st k in \<open>simp_all add: on_message_send_stream_def\<close>)
qed

lemma background_inv:
  assumes "hc_store_ops cfg = ops" and "handler_inv inv pi s" and "tm_live (ra_task_manager ra) (hs_store s)"
  shows "handler_inv inv pi (snd (background_consume cfg tid evs en ra s))"
proof -
  let ?cb = "push_notification_callback cfg tid s"
  obtain r ra' w' posts' where c: "continue_consuming ops ?cb evs en ra (hs_store s) (hs_posts s) = (r, ra', w', posts')"
    by (metis prod.collapse)
  have i: "inv (hs_store s)" using assms(2) by (simp add: handler_inv_def)
  have cbk: "kept (ra_task_manager ra) w (ra_task_manager ra') w'"
    if h: "inv w" "tm_live (ra_task_manager ra) w" "?cb ra w c = (ra', w', c')" for ra w c ra' w' c'
  proof -
    obtain ra1 s1 where n: "send_push_notification_if_needed cfg tid ra (s\<lparr>hs_store := w, hs_posts := c\<rparr>) = (ra1, s1)"
      by (cases "send_push_notification_if_needed cfg tid ra (s\<lparr>hs_store := w, hs_posts := c\<rparr>)")
    have "handler_inv inv pi (s\<lparr>hs_store := w, hs_posts := c\<rparr>)" using assms(2) h(1) by (simp add: handler_inv_def)
    from send_push_inv(2) [OF assms(1) this _ n] h n show ?thesis by (simp add: push_notification_callback_def)
  qed
  have "inv w'" using continue_kept [OF i assms(3) cbk c] by (simp add: kept_def)
  with assms c show ?thesis
    by (simp add: background_consume_def Let_def handler_inv_def)
qed

lemma resubscribe_inv:
  assumes "hc_store_ops cfg = ops" and "handler_inv inv pi s"
  shows "handler_inv inv pi (snd (on_resubscribe_to_task cfg params sched s))"
proof -
  obtain r s1 where g: "store_get cfg (tip_id params) s = (r, s1)" by (cases "store_get cfg (tip_id params) s")
  note k = store_get_inv [OF assms g]
  show ?thesis
  proof (cases r)
    case (Some a)
    define task where "task = hs_obj s1 a"
    obtain q w where t: "qm_tap (task_id task) (hs_queues s1) = (q, w)" by (cases "qm_tap (task_id task) (hs_queues s1)")
    have "queues_ok (hs_queues s1)" using k(1) by (simp add: handler_inv_def)
    note qk = qm_tap_ok [OF this t]
    define s2 where "s2 = s1\<lparr>hs_queues := w\<rparr>"
    have i2: "handler_inv inv pi s2" unfolding s2_def using qk by (intro handler_inv_queues [OF k(1)]) simp_all
    show ?thesis
    proof (cases "in_terminal_state task \<or> (\<exists>e. tm_init (Some (task_id task)) (Some (task_context_id task)) None = Inl e) \<or> (\<nexists>x. q = Done (Some x))")
      case True
      then have "snd (on_resubscribe_to_task cfg params sched s) \<in> {s1, s2}"
        using g Some t
        by (auto simp: on_resubscribe_to_task_def Let_def task_def s2_def split: sum.split await.split option.split)
      with k(1) i2 show ?thesis by auto
    next
      case False
      then obtain tm x where tm: "tm_init (Some (task_id task)) (Some (task_context_id task)) None = Inr tm"
          and x: "q = Done (Some x)" and nt: "\<not> in_terminal_state task"
        by (metis sum.exhaust_sel)
      obtain evs en s3 where c: "consume_queue cfg x sched s2 = ((evs, en), s3)" by (metis prod.collapse)
      have i3: "handler_inv inv pi s3"
        using consume_queue_inv [OF i2, of cfg x sched] c by simp
      obtain out ra w3 where e: "consume_and_emit ops evs en (ra_init tm) (hs_store s3) = (out, ra, w3)" by (metis prod.collapse)
      have "inv (hs_store s3)" using i3 by (simp add: handler_inv_def)
      from consume_and_emit_kept [OF this _ e] have "inv w3"
        using tm_live_init [OF tm, of "hs_store s3"] by (simp add: kept_def ra_init_def)
      moreover have "snd (on_resubscribe_to_task cfg params sched s) = s3\<lparr>hs_store := w3\<rparr>"
        using g Some t tm x nt c e assms(1) by (simp add: on_resubscribe_to_task_def Let_def task_def s2_def)
      ultimately show ?thesis using i3 by (simp add: handler_inv_store)
    qed
  qed (use g k in \<open>simp add: on_resubscribe_to_task_def\<close>)
qed

lemma cancel_inv:
  assumes "hc_store_ops cfg = ops" and "handler_inv inv pi s"
  shows "handler_inv inv pi (snd (on_cancel_task cfg params agent_cancel sched s))"
proof -
  obtain r s1 where g: "store_get cfg (tip_id params) s = (r, s1)" by (cases "store_get cfg (tip_id params) s")
  note k = store_get_inv [OF assms g]
  show ?thesis
  proof (cases r)
    case (Some a)
    define task where "task = hs_obj s1 a"
    obtain q w where t: "qm_tap (task_id task) (hs_queues s1) = (q, w)" by (cases "qm_tap (task_id task) (hs_queues s1)")
    have "queues_ok (hs_queues s1)" using k(1) by (simp add: handler_inv_def)
    note qk = qm_tap_ok [OF this t]
    have i1: "handler_inv inv pi (s1\<lparr>hs_queues := w\<rparr>)" using qk by (intro handler_inv_queues [OF k(1)]) simp_all
    show ?thesis
    proof (cases "in_terminal_state task \<or> (\<exists>e. tm_init (Some (task_id task)) (Some (task_context_id task)) None = Inl e) \<or> (\<nexists>x. q = Done x)")
      case True
      then have "snd (on_cancel_task cfg params agent_cancel sched s) \<in> {s1, s1\<lparr>hs_queues := w\<rparr>}"
        using g Some t by (auto simp: on_cancel_task_def Let_def task_def split: sum.split await.split)
      with k(1) i1 show ?thesis by auto
    next
      case False
      then obtain tm tapped where tm: "tm_init (Some (task_id task)) (Some (task_context_id task)) None = Inr tm"
          and x: "q = Done tapped" and nt: "\<not> in_terminal_state task"
        by (metis sum.exhaust_sel)
      obtain q' w' where q': "(case tapped of Some q \<Rightarrow> (q, w) | None \<Rightarrow> q_new w) = (q', w')"
        by (metis prod.collapse)
      have w': "queues_ok w'" "qm_known w' = qm_known w"
        using q' qk(1) q_new_ok [OF qk(1)] by (auto simp: qm_known_def split: option.splits)
      define s2 where "s2 = s1\<lparr>hs_queues := w'\<rparr>"
      have i2: "handler_inv inv pi s2"
        unfolding s2_def using w' qk(2) by (intro handler_inv_queues [OF k(1)]) simp_all
      show ?thesis
      proof (cases "\<exists>rc ops. fst (rc_init None (Some (task_id task)) (Some (task_context_id task)) (Some task) None None [] []) = Inr rc \<and>
          agent_cancel rc = Inr ops")
        case False
        then have "snd (on_cancel_task cfg params agent_cancel sched s) = s2"
          using g Some t tm x nt q' by (auto simp: on_cancel_task_def Let_def task_def s2_def split: sum.split)
        with i2 show ?thesis by simp
      next
        case True
        then obtain rc opers where rc: "fst (rc_init None (Some (task_id task)) (Some (task_context_id task)) (Some task) None None [] []) = Inr rc"
          and opers: "agent_cancel rc = Inr opers" by blast
        define s3 where "s3 = s2\<lparr>hs_queues := q_set q' (foldl (\<lambda>x op. apply_op (hc_py313 cfg) op x)
            (q_at (hs_queues s2) q') opers) (hs_queues s2)\<rparr>"
        define s3' where "s3' = (case hs_running_agents s3 (task_id task) of
            None \<Rightarrow> s3 | Some p \<Rightarrow> s3\<lparr>hs_cancelled := hs_cancelled s3 @ [p]\<rparr>)"
        have "handler_inv inv pi s3" unfolding s3_def by (rule handler_inv_q_set [OF i2])
        then have i3: "handler_inv inv pi s3'" by (simp add: s3'_def split: option.split)
        obtain evs en s4 where c: "consume_queue cfg q' sched s3' = ((evs, en), s4)" by (metis prod.collapse)
        have i4: "handler_inv inv pi s4" using consume_queue_inv [OF i3, of cfg q' sched] c by simp
        obtain res ra w4 where e: "ra_consume_all (hc_store_ops cfg) evs en (ra_init tm) (hs_store s4) = (res, ra, w4)"
          by (metis prod.collapse)
        have "inv (hs_store s4)" using i4 by (simp add: handler_inv_def)
        from ra_consume_all_kept [OF this _ e [unfolded assms(1)]] have "inv w4"
          using tm_live_init [OF tm, of "hs_store s4"] by (simp add: kept_def ra_init_def)
        moreover have "snd (on_cancel_task cfg params agent_cancel sched s) = s4\<lparr>hs_store := w4\<rparr>"
          using g Some t [unfolded task_def] tm [unfolded task_def] x nt [unfolded task_def] q' rc [unfolded task_def] opers
            c [unfolded s3'_def s3_def s2_def task_def] e
          by (simp add: on_cancel_task_def Let_def split: await.split agg_result.split)
        ultimately show ?thesis using i4 by (simp add: handler_inv_store)
      qed
    qed
  qed (use g k in \<open>simp add: on_cancel_task_def\<close>)
qed

lemma get_task_inv:
  assumes "hc_store_ops cfg = ops" and "handler_inv inv pi s"
  shows "handler_inv inv pi (snd (on_get_task cfg params s))"
proof -
  obtain r s1 where g: "store_get cfg (tqp_id params) s = (r, s1)" by (cases "store_get cfg (tqp_id params) s")
  with store_get_inv(1) [OF assms g] show ?thesis by (cases r) (simp_all add: on_get_task_def)
qed

lemma with_push_store_inv:
  assumes "hc_store_ops cfg = ops" and "handler_inv inv pi s"
    and "\<And>ps s. hc_push_store cfg = Some ps \<Longrightarrow> handler_inv inv pi s \<Longrightarrow> handler_inv inv pi (snd (f ps s))"
  shows "handler_inv inv pi (snd (with_push_store cfg tid f s))"
proof -
  obtain r s1 where g: "store_get cfg tid s = (r, s1)" by (cases "store_get cfg tid s")
  with store_get_inv(1) [OF assms(1,2) g] assms(2,3) show ?thesis
    by (cases r) (auto simp: with_push_store_def split: option.split)
qed

lemma push_ops_inv:
  assumes "hc_store_ops cfg = ops" and "push_lawful cfg pi" and "handler_inv inv pi s"
  shows "handler_inv inv pi (snd (on_set_task_push_notification_config cfg sp s))"
    and "handler_inv inv pi (snd (on_get_task_push_notification_config cfg gp s))"
    and "handler_inv inv pi (snd (on_list_task_push_notification_config cfg lp s))"
    and "handler_inv inv pi (snd (on_delete_task_push_notification_config cfg dp s))"
proof -
  have p: "handler_inv inv pi (s\<lparr>hs_push := snd (ps_set ps t c (hs_push s))\<rparr>)"
    "handler_inv inv pi (s\<lparr>hs_push := ps_delete ps t (Some i) (hs_push s)\<rparr>)"
    if "hc_push_store cfg = Some ps" "handler_inv inv pi s" for ps t c i s
    using that push_lawful_set [OF assms(2)] by (auto simp: handler_inv_def)
  show "handler_inv inv pi (snd (on_set_task_push_notification_config cfg sp s))"
    unfolding on_set_task_push_notification_config_def
    by (rule with_push_store_inv [OF assms(1,3)]) (simp add: case_prod_beta Let_def p)
  show "handler_inv inv pi (snd (on_get_task_push_notification_config cfg gp s))"
    unfolding on_get_task_push_notification_config_def
    by (rule with_push_store_inv [OF assms(1,3)]) (simp split: list.split)
  show "handler_inv inv pi (snd (on_list_task_push_notification_config cfg lp s))"
    unfolding on_list_task_push_notification_config_def
    by (rule with_push_store_inv [OF assms(1,3)]) simp
  show "handler_inv inv pi (snd (on_delete_task_push_notification_config cfg dp s))"
    unfolding on_delete_task_push_notification_config_def
    by (rule with_push_store_inv [OF assms(1,3)]) (simp add: p)
qed

lemma handler_step_inv:
  assumes "hc_store_ops cfg = ops" and "push_lawful cfg pi" and "handler_inv inv pi s" and "handler_step cfg s s'"
  shows "handler_inv inv pi s'"
  using assms(4)
proof (cases rule: handler_step.cases)
  case (HS_Resume w tid)
  have "queues_ok w" and k: "qm_known w = qm_known (hs_queues s)"
    using HS_Resume(2) assms(3)
    by (auto simp: qm_close_resume_def handler_inv_def qm_known_def split: option.splits if_splits intro: queues_ok_same)
  with assms(3) HS_Resume(1,3) show ?thesis by (auto simp: handler_inv_def)
qed (use assms get_task_inv cancel_inv message_send_inv message_stream_inv resubscribe_inv push_ops_inv handler_inv_q_set
       background_inv cleanup_inv in \<open>simp_all\<close>)

lemma handler_reachable_inv:
  assumes "hc_store_ops cfg = ops" and "push_lawful cfg pi" and "handler_inv inv pi s0" and "handler_reachable cfg s0 s"
  shows "handler_inv inv pi s"
  using assms(4) by induction (use assms(1-3) handler_step_inv in blast)+

end

subsection \<open>What holds in every reachable state\<close>

lemma queues_isolated:
  assumes "queues_ok w" and "qm_task_queue w i = Some r" and "qm_task_queue w j = Some r'" and "i \<noteq> j"
  shows "q_at (q_set r q w) r' = q_at w r'"
proof -
  have "snd r = []" "snd r' = []" using assms(1-3) unfolding queues_ok_def by blast+
  moreover have "r \<noteq> r'" using assms unfolding queues_ok_def by blast
  ultimately have "fst r \<noteq> fst r'" by (metis prod.collapse)
  then show ?thesis by (simp add: q_at_def q_set_def)
qed

text \<open>
  Claim C5. Whatever requests, agents, background tasks and clean-ups a handler runs, over any task store and any push configuration
  store that keep their contracts: every stored task stands under its own id, every queue of the manager belongs to a task
  with a running agent, and what an agent does to the queue of one task leaves the queue of every other task alone.
\<close>

theorem reachable_handler_invariant:
  assumes "task_store (hc_store_ops cfg) view store_inv" and "push_lawful cfg push_inv"
    and "handler_inv store_inv push_inv s0" and "handler_reachable cfg s0 s"
  shows "handler_inv store_inv push_inv s \<and>
         (\<forall>i t. view (hs_store s) i = Some t \<longrightarrow> task_id t = i) \<and>
         (\<forall>i r. qm_task_queue (hs_queues s) i = Some r \<longrightarrow> hs_running_agents s i \<noteq> None) \<and>
         (\<forall>i j r r' q. qm_task_queue (hs_queues s) i = Some r \<longrightarrow> qm_task_queue (hs_queues s) j = Some r' \<longrightarrow> i \<noteq> j \<longrightarrow>
            q_at (q_set r q (hs_queues s)) r' = q_at (hs_queues s) r')"
proof -
  have h: "handler_inv store_inv push_inv s"
    by (rule task_store.handler_reachable_inv [OF assms(1) refl assms(2-4)])
  then have i: "store_inv (hs_store s)" and q: "queues_ok (hs_queues s)"
    and d: "qm_known (hs_queues s) \<subseteq> dom (hs_running_agents s)" by (simp_all add: handler_inv_def)
  have "\<forall>i t. view (hs_store s) i = Some t \<longrightarrow> task_id t = i" using task_store.view_id [OF assms(1) i] by blast
  moreover have "\<forall>i r. qm_task_queue (hs_queues s) i = Some r \<longrightarrow> hs_running_agents s i \<noteq> None"
    using d unfolding qm_known_def by blast
  ultimately show ?thesis using h queues_isolated [OF q] by blast
qed

text \<open>A message and a resubscription to a handler that starts empty, with the in-memory stores.\<close>

definition empty_handler :: "(mem_store, mem_push) handler_state" where
  "empty_handler = \<lparr>hs_store = mem_init, hs_queues = qm_init, hs_push = Map.empty, hs_running_agents = Map.empty,
     hs_cancelled = [], hs_posts = []\<rparr>"

definition busy_handler :: "(mem_store, mem_push) handler_state" where
  "busy_handler = snd (on_message_send_stream sample_cfg (set_msg_task_id None sample_params) None ''t'' ''c'' 0
     [([Op_Enqueue (EvTask sample_task)], None)] empty_handler)"

lemma empty_handler_inv: "handler_inv mem_inv mem_push_inv empty_handler"
  by (simp add: handler_inv_def empty_handler_def mem_push_inv_def mem_infos_def qm_known_def qm_init_def)
    (simp add: qm_init_def [symmetric])

theorem reachable_handler_invariant_witness:
  "handler_inv mem_inv mem_push_inv (snd (on_get_task_push_notification_config sample_cfg (GCP_TaskId \<lparr>tip_id = ''t'', tip_metadata = None\<rparr>)
     busy_handler))"
proof -
  have "task_store (hc_store_ops sample_cfg) mem_view mem_inv" using mem.task_store_axioms by (simp add: sample_cfg_def)
  moreover have "push_lawful sample_cfg mem_push_inv"
    using memp.push_store_axioms by (auto simp: push_lawful_def sample_cfg_def)
  moreover have "handler_reachable sample_cfg empty_handler busy_handler"
    unfolding busy_handler_def by (rule HR_step [OF HR_start HS_Stream])
  then have "handler_reachable sample_cfg empty_handler
      (snd (on_get_task_push_notification_config sample_cfg (GCP_TaskId \<lparr>tip_id = ''t'', tip_metadata = None\<rparr>) busy_handler))"
    by (rule HR_step) (rule HS_GetPush)
  ultimately show ?thesis using reachable_handler_invariant [OF _ _ empty_handler_inv] by blast
qed

subsection \<open>A task of someone else\<close>

text \<open>
  The check that an agent answers with its own task comes after the task has been saved: an agent whose first event is a
  task with another id replaces the stored task of that id, and the caller gets an error.
\<close>

theorem foreign_task_overwritten:
  assumes "hc_store_ops cfg = mem_ops" and "\<not> hc_populate_referred_tasks cfg"
    and "mem_inv (hs_store s)" and "qm_free (hs_queues s)" and "gt \<notin> qm_known (hs_queues s)"
    and "fresh_message params" and "gt \<noteq> []" and "gc \<noteq> []" and "is_blocking params"
    and "consume_all (hc_py313 cfg) sched None eq_new = ([EvTask t], C_Ended, q')"
    and "task_id t \<noteq> []" and "task_id t \<noteq> gt" and "status_state (task_status t) \<noteq> auth_required"
  shows "\<exists>s'. on_message_send cfg params call gt gc p sched (Done ()) s =
           ((Raised (server_err InternalError ''Task ID mismatch in agent response''), []), s') \<and>
         mem_view (hs_store s') = (mem_view (hs_store s))(task_id t \<mapsto> t)"
proof -
  let ?m = "Some (bound_message gt gc params)"
  let ?tm = "\<lparr>tm_task_id = None, tm_context_id = None, tm_initial_message = ?m, tm_current_task = None\<rparr>"
  from setup_fresh [OF assms(6,2,7,8,4,5)] obtain ex where
    a: "setup_message_execution cfg params call gt gc p s = (Done ex, ran_on_new_queue gt p eq_new s)"
    and ex: "ex_task_manager ex = ?tm" "ex_task_id ex = gt" "ex_queue ex = (length (qm_roots (hs_queues s)), [])"
      "msp_configuration (ex_params ex) = msp_configuration params"
    by (fastforce simp: ran_on_new_queue_def)
  have bl: "is_blocking (ex_params ex)" using assms(9) ex(4) by (simp add: is_blocking_def)
  have f: "mem.tm_for (task_id t) (task_context_id t) ?m (ra_task_manager (ra_init ?tm)) (hs_store s)"
    using assms(3,11) by (simp add: mem.tm_for_def ra_init_def tm_synced_def)
  have rm: "ra_message (ra_init ?tm) = None" by (simp add: ra_init_def)
  have e: "list_all (stream_of (task_id t) (task_context_id t)) [EvTask t]" "no_message [EvTask t]"
    "\<not> list_ex is_auth_required [EvTask t]"
    using assms(13) by (simp_all add: stream_of_def no_message_def is_auth_required_def)
  from mem.blocking_spec [OF f e(1,2) rm _ e(3)] obtain r ra' w' where
    c: "consume_and_break_on_interrupt mem_ops True [EvTask t] C_Ended (ra_init ?tm) (hs_store s) =
          ((Done (AR_Task r, False), []), ra', w')"
    and o: "obj w' r = t" "mem_view w' = (mem_view (hs_store s))(task_id t \<mapsto> t)"
    by (auto simp: mem.tm_for_def spec_fold_simps)
  from cleanup_new_queue [OF assms(4) consume_all_ends_closed [OF assms(10)], where cfg = cfg and tid = gt and p = p and w = w'] obtain s' where
    d: "cleanup_producer cfg (Done ()) gt ((ran_on_new_queue gt p q' s)\<lparr>hs_store := w'\<rparr>) = (Done (), s')"
    and s': "hs_store s' = w'" by blast
  have "send_answer cfg ex (AR_Task r) ra' s' = (Raised (server_err InternalError ''Task ID mismatch in agent response''), s')"
    using assms(12) o(1) s' ex(2) by (simp add: send_answer_def validate_task_id_match_def hs_obj_def)
  then have "on_message_send cfg params call gt gc p sched (Done ()) s =
      ((Raised (server_err InternalError ''Task ID mismatch in agent response''), []), s')"
    using a consume_new_queue [OF assms(10), where s = s and tid = gt and p = p] ex bl c d assms(1)
    by (simp add: on_message_send_def)
  with o(2) s' show ?thesis by auto
qed

theorem foreign_task_overwritten_witness:
  "\<exists>s'. on_message_send sample_cfg (set_msg_task_id None sample_params) None ''g'' ''h'' 0
       [([Op_Enqueue (EvTask (sample_task\<lparr>task_status := plain_status completed\<rparr>))], None)] (Done ()) (sample_handler working) =
       ((Raised (server_err InternalError ''Task ID mismatch in agent response''), []), s') \<and>
     mem_view (hs_store s') ''t'' = Some (sample_task\<lparr>task_status := plain_status completed\<rparr>)"
proof -
  let ?t = "sample_task\<lparr>task_status := plain_status completed\<rparr>"
  let ?ev = "EvTask ?t"
  let ?sched = "[([Op_Enqueue ?ev], None)] :: schedule"
  let ?q = "EQ [?ev] 1024 1 False False []"
  have d: "disturb True ([Op_Enqueue ?ev], None) None eq_new = (None, ?q)"
    by (simp add: disturb_def eq_new_def DEFAULT_MAX_QUEUE_SIZE_def)
  have w: "eq_wf True ?q" by simp
  have fe: "is_final_event ?ev" by (simp add: is_final_event_def plain_status_def)
  from consume_pass_item [OF w] fe obtain q2 where "consume_pass True None ?q = (C_Last ?ev, None, closed_empty True q2)"
    by auto
  then have c: "consume_all True ?sched None eq_new = ([?ev], C_Ended, closed_empty True q2)"
    unfolding consume_all.simps d Let_def prod.case by simp
  have c': "consume_all (hc_py313 sample_cfg) ?sched None eq_new = ([?ev], C_Ended, closed_empty True q2)"
    using c by (simp add: sample_cfg_def)
  have f: "fresh_message (set_msg_task_id None sample_params)" "is_blocking (set_msg_task_id None sample_params)"
    by (simp_all add: fresh_message_def is_blocking_def set_msg_task_id_def sample_params_def new_agent_text_message_def)
  have g: "\<not> hc_populate_referred_tasks sample_cfg" "qm_free (hs_queues (sample_handler working))"
    "''g'' \<notin> qm_known (hs_queues (sample_handler working))"
    by (simp_all add: sample_cfg_def sample_handler_def qm_init_def qm_free_def qm_known_def)
  from foreign_task_overwritten [OF sample_handler_store(4) g(1) sample_handler_store(1) g(2,3) f(1) _ _ f(2) c', of "''h''" None 0]
  show ?thesis by (auto simp: sample_task_def plain_status_def)
qed

end
