(* ===== verification/TaskUpdater.thy ===== *)
theory TaskUpdater
  imports EventConsumer Utils
begin

section \<open>The task updater (server/tasks/task_updater.py)\<close>

text \<open>
  The helper with which an agent publishes the events of one task. Its state is the record
  below; the ids of an id generator and the current time are arguments. An operation builds
  an event and enqueues it, which may wait; the updater's lock is then still held, so no
  other operation runs in between.
\<close>

record TaskUpdater =
  tu_task_id :: string
  tu_context_id :: string
  tu_terminal_state_reached :: bool

definition tu_init :: "string \<Rightarrow> string \<Rightarrow> TaskUpdater" where
  "tu_init tid ctx = \<lparr>tu_task_id = tid, tu_context_id = ctx, tu_terminal_state_reached = False\<rparr>"

definition tu_terminal_states :: "TaskState set" where
  "tu_terminal_states = {completed, canceled, failed, rejected}"

definition tu_status_event ::
  "TaskUpdater \<Rightarrow> TaskState \<Rightarrow> Message option \<Rightarrow> bool \<Rightarrow> string \<Rightarrow> pydict option \<Rightarrow> Event" where
  "tu_status_event tu state message final timestamp metadata =
     EvStatus \<lparr>sue_context_id = tu_context_id tu, sue_final = final, sue_metadata = metadata,
       sue_status = \<lparr>status_message = message, status_state = state, status_timestamp = Some timestamp\<rparr>,
       sue_task_id = tu_task_id tu\<rparr>"

definition update_status ::
  "TaskState \<Rightarrow> Message option \<Rightarrow> bool \<Rightarrow> string option \<Rightarrow> pydict option \<Rightarrow> string \<Rightarrow>
   TaskUpdater \<times> EventQueue \<Rightarrow> unit await \<times> TaskUpdater \<times> EventQueue" where
  "update_status state message final timestamp metadata now s =
     (case s of (tu, q) \<Rightarrow>
        if tu_terminal_state_reached tu
        then (Raised (RuntimeErr (''Task '' @ tu_task_id tu @ '' is already in a terminal state.'')), tu, q)
        else
          let terminal = (state \<in> tu_terminal_states);
              tu' = (if terminal then tu\<lparr>tu_terminal_state_reached := True\<rparr> else tu);
              final' = (if terminal then True else final);
              current_timestamp = or_else timestamp now;
              (r, q') = enqueue_event (tu_status_event tu state message final' current_timestamp metadata) q
          in (r, tu', q'))"

definition add_artifact ::
  "Part list \<Rightarrow> string option \<Rightarrow> string option \<Rightarrow> pydict option \<Rightarrow> bool option \<Rightarrow> bool option \<Rightarrow>
   string list option \<Rightarrow> string \<Rightarrow> TaskUpdater \<times> EventQueue \<Rightarrow> unit await \<times> TaskUpdater \<times> EventQueue" where
  "add_artifact parts artifact_id name metadata append_flag last_chunk extensions generated s =
     (case s of (tu, q) \<Rightarrow>
        let aid = or_else artifact_id generated;
            (r, q') = enqueue_event
              (EvArtifact \<lparr>aue_append = append_flag,
                 aue_artifact = \<lparr>art_artifact_id = aid, art_description = None, art_extensions = extensions,
                   art_metadata = metadata, art_name = name, art_parts = parts\<rparr>,
                 aue_context_id = tu_context_id tu, aue_last_chunk = last_chunk, aue_metadata = None,
                 aue_task_id = tu_task_id tu\<rparr>) q
        in (r, tu, q'))"

definition tu_complete where "tu_complete m = update_status completed m True None None"
definition tu_failed where "tu_failed m = update_status failed m True None None"
definition tu_reject where "tu_reject m = update_status rejected m True None None"
definition tu_submit where "tu_submit m = update_status submitted m False None None"
definition tu_start_work where "tu_start_work m = update_status working m False None None"
definition tu_cancel where "tu_cancel m = update_status canceled m True None None"
definition tu_requires_input where "tu_requires_input m final = update_status input_required m final None None"
definition tu_requires_auth where "tu_requires_auth m final = update_status auth_required m final None None"

definition new_agent_message ::
  "Part list \<Rightarrow> pydict option \<Rightarrow> string \<Rightarrow> TaskUpdater \<Rightarrow> Message" where
  "new_agent_message parts metadata generated tu =
     \<lparr>msg_context_id = Some (tu_context_id tu), msg_extensions = None, msg_message_id = generated,
      msg_metadata = metadata, msg_parts = parts, msg_reference_task_ids = None, msg_role = agent,
      msg_task_id = Some (tu_task_id tu)\<rparr>"

subsection \<open>A run of the agent\<close>

datatype updater_call =
    U_Status TaskState "Message option" bool "string option" "pydict option" string
  | U_Artifact "Part list" "string option" "string option" "pydict option" "bool option" "bool option"
      "string list option" string

fun updater_step :: "updater_call \<Rightarrow> TaskUpdater \<times> EventQueue \<Rightarrow> unit await \<times> TaskUpdater \<times> EventQueue" where
  "updater_step (U_Status state message final timestamp metadata now) s =
     update_status state message final timestamp metadata now s"
| "updater_step (U_Artifact parts aid name metadata app last_chunk extensions generated) s =
     add_artifact parts aid name metadata app last_chunk extensions generated s"

text \<open>An agent that ignores the errors of its updates and stops when it has to wait.\<close>

fun updater_run :: "updater_call list \<Rightarrow> TaskUpdater \<times> EventQueue \<Rightarrow> bool \<times> TaskUpdater \<times> EventQueue" where
  "updater_run [] s = (True, s)"
| "updater_run (c # cs) s =
     (case updater_step c s of
        (Blocked, s') \<Rightarrow> (False, s')
      | (Done _, s') \<Rightarrow> updater_run cs s'
      | (Raised e, s') \<Rightarrow> updater_run cs s')"

definition terminal_status :: "Event \<Rightarrow> bool" where
  "terminal_status ev = (case ev of EvStatus e \<Rightarrow> status_state (sue_status e) \<in> tu_terminal_states | _ \<Rightarrow> False)"

definition is_status :: "Event \<Rightarrow> bool" where
  "is_status ev = (case ev of EvStatus e \<Rightarrow> True | _ \<Rightarrow> False)"

text \<open>
  What the updater promises of the events it puts on a queue, given whether a terminal state
  has already been reached: no status after a terminal one, a terminal status is final, and
  every event names the updater's task and context.
\<close>

fun updater_events_ok :: "string \<Rightarrow> string \<Rightarrow> bool \<Rightarrow> Event list \<Rightarrow> bool" where
  "updater_events_ok tid ctx terminal [] \<longleftrightarrow> True"
| "updater_events_ok tid ctx terminal (ev # evs) \<longleftrightarrow>
     (case ev of
        EvStatus e \<Rightarrow> \<not> terminal \<and> sue_task_id e = tid \<and> sue_context_id e = ctx \<and>
                      (terminal_status ev \<longrightarrow> sue_final e)
      | EvArtifact e \<Rightarrow> aue_task_id e = tid \<and> aue_context_id e = ctx
      | _ \<Rightarrow> False) \<and>
     updater_events_ok tid ctx (terminal \<or> terminal_status ev) evs"

lemma updater_events_ok_append:
  "updater_events_ok tid ctx b (xs @ ys) \<longleftrightarrow>
   updater_events_ok tid ctx b xs \<and> updater_events_ok tid ctx (b \<or> list_ex terminal_status xs) ys"
  by (induction xs arbitrary: b) (auto simp: disj_assoc)

lemma updater_events_ok_terminal:
  "updater_events_ok tid ctx True xs \<Longrightarrow> list_ex is_status xs = False \<and> list_ex terminal_status xs = False"
  by (induction xs) (auto simp: is_status_def terminal_status_def split: Event.splits)

lemma updater_events_ok_one_terminal:
  "updater_events_ok tid ctx b xs \<Longrightarrow> length (filter terminal_status xs) \<le> 1"
proof (induction xs arbitrary: b)
  case (Cons ev xs)
  show ?case
  proof (cases "terminal_status ev")
    case True
    with Cons.prems have "list_ex terminal_status xs = False"
      using updater_events_ok_terminal [of tid ctx xs] by simp
    then have "filter terminal_status xs = []" by (induction xs) auto
    then show ?thesis by simp
  next
    case False
    with Cons show ?thesis by auto
  qed
qed simp

lemma updater_step_events:
  assumes "updater_step c (tu, q) = (r, tu', q')"
  shows "tu_task_id tu' = tu_task_id tu \<and> tu_context_id tu' = tu_context_id tu \<and>
    (tu_terminal_state_reached tu \<longrightarrow> tu_terminal_state_reached tu') \<and>
    (\<exists>evs. eq_items q' = eq_items q @ evs \<and>
       updater_events_ok (tu_task_id tu) (tu_context_id tu) (tu_terminal_state_reached tu) evs \<and>
       (list_ex terminal_status evs \<longrightarrow> tu_terminal_state_reached tu'))"
proof (cases c)
  case (U_Status state message final timestamp metadata now)
  show ?thesis
  proof (cases "tu_terminal_state_reached tu")
    case True
    with assms U_Status show ?thesis
      by (auto simp: update_status_def intro!: exI [of _ "[]"])
  next
    case False
    let ?ev = "tu_status_event tu state message (state \<in> tu_terminal_states \<or> final) (or_else timestamp now) metadata"
    from assms U_Status False have e: "enqueue_event ?ev q = (r, q')"
      and tu': "tu' = (if state \<in> tu_terminal_states then tu\<lparr>tu_terminal_state_reached := True\<rparr> else tu)"
      by (auto simp: update_status_def Let_def split: prod.splits if_splits)
    have ok: "updater_events_ok (tu_task_id tu) (tu_context_id tu) False [?ev]"
      by (auto simp: tu_status_event_def terminal_status_def)
    have t: "terminal_status ?ev \<longrightarrow> tu_terminal_state_reached tu'"
      using tu' by (auto simp: terminal_status_def tu_status_event_def)
    from items_enqueue [OF e] show ?thesis
    proof
      assume "eq_items q' = eq_items q"
      with tu' False show ?thesis by (auto intro!: exI [of _ "[]"])
    next
      assume "eq_items q' = eq_items q @ [?ev]"
      with ok t tu' False show ?thesis by (auto intro!: exI [of _ "[?ev]"])
    qed
  qed
next
  case (U_Artifact parts aid name metadata app last_chunk extensions generated)
  with assms obtain ev where e: "enqueue_event ev q = (r, q')" and tu': "tu' = tu"
    and ok: "updater_events_ok (tu_task_id tu) (tu_context_id tu) (tu_terminal_state_reached tu) [ev]"
    and t: "\<not> terminal_status ev"
    by (auto simp: add_artifact_def Let_def terminal_status_def split: prod.splits)
  from items_enqueue [OF e] show ?thesis
  proof
    assume "eq_items q' = eq_items q"
    with tu' show ?thesis by (auto intro!: exI [of _ "[]"])
  next
    assume "eq_items q' = eq_items q @ [ev]"
    with ok t tu' show ?thesis by (auto intro!: exI [of _ "[ev]"])
  qed
qed

lemma updater_events_ok_weaken:
  "updater_events_ok tid ctx b xs \<Longrightarrow> (b' \<longrightarrow> b) \<Longrightarrow> updater_events_ok tid ctx b' xs"
  by (induction xs arbitrary: b b') (auto split: Event.splits)

lemma updater_run_events:
  "updater_run cs (tu, q) = (r, tu', q') \<Longrightarrow>
   \<exists>evs. eq_items q' = eq_items q @ evs \<and>
     updater_events_ok (tu_task_id tu) (tu_context_id tu) (tu_terminal_state_reached tu) evs"
proof (induction cs arbitrary: tu q)
  case Nil
  then show ?case by (auto intro!: exI [of _ "[]"])
next
  case (Cons c cs)
  obtain r1 tu1 q1 where s: "updater_step c (tu, q) = (r1, tu1, q1)" by (cases "updater_step c (tu, q)")
  from updater_step_events [OF s] obtain evs where
    e: "eq_items q1 = eq_items q @ evs" "tu_task_id tu1 = tu_task_id tu" "tu_context_id tu1 = tu_context_id tu"
    "updater_events_ok (tu_task_id tu) (tu_context_id tu) (tu_terminal_state_reached tu) evs"
    "tu_terminal_state_reached tu \<or> list_ex terminal_status evs \<longrightarrow> tu_terminal_state_reached tu1" by blast
  show ?case
  proof (cases r1)
    case Blocked
    with Cons.prems s e show ?thesis by auto
  next
    case (Done u)
    with Cons.prems s have "updater_run cs (tu1, q1) = (r, tu', q')" by simp
    from Cons.IH [OF this] e obtain evs' where
      "eq_items q' = eq_items q1 @ evs'"
      "updater_events_ok (tu_task_id tu) (tu_context_id tu) (tu_terminal_state_reached tu1) evs'" by auto
    with e updater_events_ok_weaken show ?thesis
      by (intro exI [of _ "evs @ evs'"]) (auto simp: updater_events_ok_append)
  next
    case (Raised x)
    with Cons.prems s have "updater_run cs (tu1, q1) = (r, tu', q')" by simp
    from Cons.IH [OF this] e obtain evs' where
      "eq_items q' = eq_items q1 @ evs'"
      "updater_events_ok (tu_task_id tu) (tu_context_id tu) (tu_terminal_state_reached tu1) evs'" by auto
    with e updater_events_ok_weaken show ?thesis
      by (intro exI [of _ "evs @ evs'"]) (auto simp: updater_events_ok_append)
  qed
qed

subsection \<open>Properties\<close>

lemma updater_events_ok_ids:
  "updater_events_ok tid ctx b evs \<Longrightarrow> ev \<in> set evs \<Longrightarrow>
   (\<exists>e. ev = EvStatus e \<and> sue_task_id e = tid \<and> sue_context_id e = ctx) \<or>
   (\<exists>e. ev = EvArtifact e \<and> aue_task_id e = tid \<and> aue_context_id e = ctx)"
  by (induction evs arbitrary: b) (auto split: Event.splits)

lemma updater_events_ok_after_terminal:
  "updater_events_ok tid ctx b (xs @ ev # ys) \<Longrightarrow> terminal_status ev \<Longrightarrow>
   list_ex is_status ys = False \<and> is_final_event ev"
  using updater_events_ok_terminal [of tid ctx ys]
  by (auto simp: updater_events_ok_append is_final_event_def terminal_status_def split: Event.splits)

text \<open>
  Claim C38. Whatever sequence of updates an agent makes through one updater, the events that
  reach the queue contain at most one terminal status; it is marked final and no status
  follows it; and every event is a status or artifact update of the updater's task and context.
\<close>

theorem one_terminal_status:
  assumes "updater_run cs (tu_init tid ctx, q) = (r, tu', q')"
  shows "\<exists>evs. eq_items q' = eq_items q @ evs \<and> length (filter terminal_status evs) \<le> 1 \<and>
     (\<forall>xs ev ys. evs = xs @ ev # ys \<and> terminal_status ev \<longrightarrow>
        list_ex is_status ys = False \<and> is_final_event ev) \<and>
     (\<forall>ev \<in> set evs. (\<exists>e. ev = EvStatus e \<and> sue_task_id e = tid \<and> sue_context_id e = ctx) \<or>
        (\<exists>e. ev = EvArtifact e \<and> aue_task_id e = tid \<and> aue_context_id e = ctx))"
proof -
  from updater_run_events [OF assms] obtain evs where
    e: "eq_items q' = eq_items q @ evs" and ok: "updater_events_ok tid ctx False evs"
    by (auto simp: tu_init_def)
  have "list_ex is_status ys = False \<and> is_final_event ev" if "evs = xs @ ev # ys" "terminal_status ev" for xs ev ys
    using updater_events_ok_after_terminal [of tid ctx False xs ev ys] ok that by simp
  with e updater_events_ok_one_terminal [OF ok] updater_events_ok_ids [OF ok] show ?thesis by blast
qed

theorem one_terminal_status_witness:
  "\<exists>evs. eq_items (snd (snd (updater_run
      [U_Status completed None False None None ''now'', U_Status working None False None None ''now'']
      (tu_init ''t'' ''c'', eq_new)))) = eq_items eq_new @ evs \<and> length (filter terminal_status evs) \<le> 1"
proof -
  obtain r tu' q' where u: "updater_run
      [U_Status completed None False None None ''now'', U_Status working None False None None ''now'']
      (tu_init ''t'' ''c'', eq_new) = (r, tu', q')"
    by (cases "updater_run
      [U_Status completed None False None None ''now'', U_Status working None False None None ''now'']
      (tu_init ''t'' ''c'', eq_new)")
  from one_terminal_status [OF u] show ?thesis unfolding u snd_conv by blast
qed

text \<open>
  Once a terminal state has been reached every status update raises RuntimeError and
  leaves the updater and the queue alone, and each of the four terminal operations reaches it
  even when its event has to wait for room.
\<close>

theorem updates_after_terminal_refused:
  "(\<forall>m now. tu_terminal_state_reached (fst (snd (tu_complete m now s))) \<and>
            tu_terminal_state_reached (fst (snd (tu_failed m now s))) \<and>
            tu_terminal_state_reached (fst (snd (tu_reject m now s))) \<and>
            tu_terminal_state_reached (fst (snd (tu_cancel m now s)))) \<and>
   (if tu_terminal_state_reached (fst s)
    then (\<exists>text. update_status state message final timestamp metadata now s = (Raised (RuntimeErr text), s))
    else (tu_terminal_state_reached (fst (snd (update_status state message final timestamp metadata now s)))
            \<longleftrightarrow> state \<in> tu_terminal_states))"
  by (cases s) (auto simp: tu_complete_def tu_failed_def tu_reject_def tu_cancel_def update_status_def
      tu_terminal_states_def Let_def split: prod.splits)

text \<open>
  An artifact that an agent adds after it has completed its task is accepted by the
  queue but never reaches the consumer, which stops at the terminal status.
\<close>

theorem late_artifact_not_delivered:
  assumes "queue_reachable py313 q" and "list_ex is_final_event (eq_items q) = False" and "\<not> eq_closed q"
    and "tu_complete m now (tu, q) = (Done (), tu1, q1)"
    and "add_artifact parts aid name metadata app last_chunk extensions generated (tu1, q1) = (Done (), tu2, q2)"
    and "length (eq_items q2) < n"
  shows "\<exists>ev q'. terminal_status ev \<and> consume_all py313 (quiet n) None q2 = (eq_items q @ [ev], C_Ended, q') \<and>
     length (eq_items q2) = Suc (Suc (length (eq_items q)))"
proof -
  let ?ev = "tu_status_event tu completed m True now None"
  have w: "eq_wf py313 q" using reachable_eq_wf [OF assms(1)] .
  have t: "\<not> tu_terminal_state_reached tu" using assms(4) by (auto simp: tu_complete_def update_status_def)
  with assms(4) have e1: "enqueue_event ?ev q = (Done (), q1)"
    by (auto simp: tu_complete_def update_status_def tu_terminal_states_def Let_def split: prod.splits)
  obtain ev2 where e2: "enqueue_event ev2 q1 = (Done (), q2)"
    using assms(5) by (auto simp: add_artifact_def Let_def split: prod.splits)
  have w1: "eq_wf py313 q1" and w2: "eq_wf py313 q2"
    using eq_wf_enqueue(1) [OF w, of ?ev] e1 eq_wf_enqueue(1) [of py313 q1 ev2] e2 by simp_all
  have "enqueue_all [?ev, ev2] q = (Done (), q2)" using e1 e2 by simp
  from enqueue_all_done [OF w this] fold_broadcast [OF assms(3), of "[?ev, ev2]"]
  have i: "eq_items q2 = eq_items q @ [?ev, ev2]" by simp
  have f: "is_final_event ?ev" "terminal_status ?ev"
    by (simp_all add: is_final_event_def terminal_status_def tu_status_event_def tu_terminal_states_def)
  have u: "upto_final (xs @ ev # ys) = xs @ [ev]" if "list_ex is_final_event xs = False" "is_final_event ev" for xs ev ys
    using that by (induction xs) auto
  from consume_quiet [OF w2 assms(6)] i f u [OF assms(2) f(1), of "[ev2]"] show ?thesis
    by (intro exI [of _ ?ev]) auto
qed

theorem late_artifact_not_delivered_witness:
  "\<exists>ev q'. terminal_status ev \<and> consume_all True (quiet 3) None
     (snd (snd (add_artifact [] None None None None None None ''a''
        (snd (tu_complete None ''now'' (tu_init ''t'' ''c'', eq_new)))))) = ([ev], C_Ended, q')"
proof -
  have a: "queue_reachable True eq_new" by (rule reach_new [OF eq_init_default])
  let ?ev = "tu_status_event (tu_init ''t'' ''c'') completed None True ''now'' None"
  let ?q1 = "EQ [?ev] 1024 1 False False []"
  have b: "tu_complete None ''now'' (tu_init ''t'' ''c'', eq_new) =
      (Done (), (tu_init ''t'' ''c'')\<lparr>tu_terminal_state_reached := True\<rparr>, ?q1)"
    by (simp add: tu_complete_def update_status_def tu_init_def tu_terminal_states_def eq_new_def
        DEFAULT_MAX_QUEUE_SIZE_def tu_status_event_def)
  obtain r tu2 q2 where c: "add_artifact [] None None None None None None ''a''
      ((tu_init ''t'' ''c'')\<lparr>tu_terminal_state_reached := True\<rparr>, ?q1) = (r, tu2, q2)"
    by (cases "add_artifact [] None None None None None None ''a''
      ((tu_init ''t'' ''c'')\<lparr>tu_terminal_state_reached := True\<rparr>, ?q1)")
  have d: "r = Done ()" "length (eq_items q2) < 3"
    using c by (auto simp: add_artifact_def Let_def)
  have n: "eq_items eq_new = []" "\<not> eq_closed eq_new" by (simp_all add: eq_new_def)
  show ?thesis
    using late_artifact_not_delivered [OF a _ n(2) b c [unfolded d(1)] d(2)] n(1) unfolding b snd_conv c by auto
qed

end
