(* ===== verification/KafkaCorrelation.thy ===== *)
theory KafkaCorrelation
  imports EventQueue
begin

section \<open>Correlation of Kafka replies (client/transports/kafka_correlation.py)\<close>

text \<open>
  Replies reach the client over one topic; the correlation manager finds the future or the
  stream that waits for a reply by its correlation id. The callers keep the futures that
  \<open>register\<close> returns, so futures and streams are objects of a store (\<open>cm_futures\<close>,
  \<open>cm_streams\<close>) and the two dictionaries hold references to them.
\<close>

subsection \<open>Streaming futures\<close>

record StreamingFuture =
  sf_queue :: "Event list"
  sf_done :: bool
  sf_exception :: "exn option"

definition sf_new :: StreamingFuture where
  "sf_new = \<lparr>sf_queue = [], sf_done = False, sf_exception = None\<rparr>"

definition sf_put :: "Event \<Rightarrow> StreamingFuture \<Rightarrow> StreamingFuture" where
  "sf_put item s = (if \<not> sf_done s then s\<lparr>sf_queue := sf_queue s @ [item]\<rparr> else s)"

definition sf_get :: "StreamingFuture \<Rightarrow> Event await \<times> StreamingFuture" where
  "sf_get s =
     (case sf_exception s of
        Some e \<Rightarrow> (Raised e, s)
      | None \<Rightarrow> (case sf_queue s of [] \<Rightarrow> (Blocked, s) | ev # q \<Rightarrow> (Done ev, s\<lparr>sf_queue := q\<rparr>)))"

definition sf_set_exception :: "exn \<Rightarrow> StreamingFuture \<Rightarrow> StreamingFuture" where
  "sf_set_exception e s = s\<lparr>sf_exception := Some e, sf_done := True\<rparr>"

definition sf_set_done :: "StreamingFuture \<Rightarrow> StreamingFuture" where
  "sf_set_done s = s\<lparr>sf_done := True\<rparr>"

definition sf_empty :: "StreamingFuture \<Rightarrow> bool" where
  "sf_empty s \<longleftrightarrow> sf_queue s = []"

subsection \<open>The manager\<close>

text \<open>The states of an \<open>asyncio.Future\<close>.\<close>

datatype fut = FPending | FResult Event | FError exn | FCancelled

definition fut_done :: "fut \<Rightarrow> bool" where
  "fut_done f \<longleftrightarrow> f \<noteq> FPending"

record CorrelationManager =
  cm_futures :: "fut list"
  cm_streams :: "StreamingFuture list"
  cm_pending :: "(string \<times> nat) list"
  cm_streaming :: "(string \<times> nat) list"

definition cm_new :: CorrelationManager where
  "cm_new = \<lparr>cm_futures = [], cm_streams = [], cm_pending = [], cm_streaming = []\<rparr>"

definition cm_register :: "string \<Rightarrow> CorrelationManager \<Rightarrow> nat \<times> CorrelationManager" where
  "cm_register cid m =
     (let f = length (cm_futures m)
      in (f, m\<lparr>cm_futures := cm_futures m @ [FPending], cm_pending := AList.update cid f (cm_pending m)\<rparr>))"

definition cm_register_streaming :: "string \<Rightarrow> CorrelationManager \<Rightarrow> nat \<times> CorrelationManager" where
  "cm_register_streaming cid m =
     (let g = length (cm_streams m)
      in (g, m\<lparr>cm_streams := cm_streams m @ [sf_new], cm_streaming := AList.update cid g (cm_streaming m)\<rparr>))"

text \<open>
  \<open>future = self._pending_requests.pop(cid, None); if future and not future.done(): ...\<close>:
  the entry is removed in any case; the future is settled when it is still pending.
\<close>

definition settle_pending :: "string \<Rightarrow> fut \<Rightarrow> CorrelationManager \<Rightarrow> bool \<times> CorrelationManager" where
  "settle_pending cid v m =
     (let m' = m\<lparr>cm_pending := AList.delete cid (cm_pending m)\<rparr>
      in case map_of (cm_pending m) cid of
           Some f \<Rightarrow> (if \<not> fut_done (cm_futures m ! f)
                      then (True, m'\<lparr>cm_futures := (cm_futures m)[f := v]\<rparr>) else (False, m'))
         | None \<Rightarrow> (False, m'))"

definition update_stream :: "nat \<Rightarrow> (StreamingFuture \<Rightarrow> StreamingFuture) \<Rightarrow> CorrelationManager \<Rightarrow> CorrelationManager" where
  "update_stream g h m = m\<lparr>cm_streams := (cm_streams m)[g := h (cm_streams m ! g)]\<rparr>"

definition cm_complete :: "string \<Rightarrow> Event \<Rightarrow> CorrelationManager \<Rightarrow> bool \<times> CorrelationManager" where
  "cm_complete cid result m =
     (case settle_pending cid (FResult result) m of
        (True, m') \<Rightarrow> (True, m')
      | (False, m') \<Rightarrow>
          (case map_of (cm_streaming m') cid of
             Some g \<Rightarrow> (if \<not> sf_done (cm_streams m' ! g)
                        then (True, update_stream g (sf_put result) m') else (False, m'))
           | None \<Rightarrow> (False, m')))"

definition cm_complete_streaming :: "string \<Rightarrow> CorrelationManager \<Rightarrow> bool \<times> CorrelationManager" where
  "cm_complete_streaming cid m =
     (let m' = m\<lparr>cm_streaming := AList.delete cid (cm_streaming m)\<rparr>
      in case map_of (cm_streaming m) cid of
           Some g \<Rightarrow> (True, update_stream g sf_set_done m')
         | None \<Rightarrow> (False, m'))"

definition cm_complete_with_exception :: "string \<Rightarrow> exn \<Rightarrow> CorrelationManager \<Rightarrow> bool \<times> CorrelationManager" where
  "cm_complete_with_exception cid e m =
     (case settle_pending cid (FError e) m of
        (True, m') \<Rightarrow> (True, m')
      | (False, m') \<Rightarrow>
          (let m'' = m'\<lparr>cm_streaming := AList.delete cid (cm_streaming m')\<rparr>
           in case map_of (cm_streaming m') cid of
                Some g \<Rightarrow> (True, update_stream g (sf_set_exception e) m'')
              | None \<Rightarrow> (False, m'')))"

definition cancel_future :: "nat \<Rightarrow> CorrelationManager \<Rightarrow> CorrelationManager" where
  "cancel_future f m =
     (if \<not> fut_done (cm_futures m ! f) then m\<lparr>cm_futures := (cm_futures m)[f := FCancelled]\<rparr> else m)"

definition cm_cancel_all :: "CorrelationManager \<Rightarrow> CorrelationManager" where
  "cm_cancel_all m =
     (let m1 = foldl (\<lambda>m f. cancel_future f m) m (map snd (cm_pending m));
          m2 = m1\<lparr>cm_pending := []\<rparr>;
          m3 = foldl (\<lambda>m g. update_stream g (sf_set_exception (CancelledError ''Request cancelled'')) m) m2
                 (map snd (cm_streaming m2))
      in m3\<lparr>cm_streaming := []\<rparr>)"

definition cm_get_pending_count :: "CorrelationManager \<Rightarrow> nat" where
  "cm_get_pending_count m = length (cm_pending m) + length (cm_streaming m)"

subsection \<open>Sequences of operations\<close>

text \<open>
  Every operation takes the manager's lock, so concurrent callers are a sequence of
  operations. \<open>CancelFuture\<close> is \<open>asyncio.wait_for\<close> cancelling a future whose time is up.
\<close>

datatype corr_op =
    Register string
  | RegisterStreaming string
  | Complete string Event
  | CompleteStreaming string
  | CompleteException string exn
  | CancelAll
  | CancelFuture nat

fun corr_apply :: "corr_op \<Rightarrow> CorrelationManager \<Rightarrow> CorrelationManager" where
  "corr_apply (Register cid) m = snd (cm_register cid m)"
| "corr_apply (RegisterStreaming cid) m = snd (cm_register_streaming cid m)"
| "corr_apply (Complete cid r) m = snd (cm_complete cid r m)"
| "corr_apply (CompleteStreaming cid) m = snd (cm_complete_streaming cid m)"
| "corr_apply (CompleteException cid e) m = snd (cm_complete_with_exception cid e m)"
| "corr_apply CancelAll m = cm_cancel_all m"
| "corr_apply (CancelFuture f) m = cancel_future f m"

definition corr_run :: "corr_op list \<Rightarrow> CorrelationManager \<Rightarrow> CorrelationManager" where
  "corr_run ops m = foldl (\<lambda>m op. corr_apply op m) m ops"

lemma corr_run_simps [simp]:
  "corr_run [] m = m"
  "corr_run (op # ops) m = corr_run ops (corr_apply op m)"
  "corr_run (ops @ ops') m = corr_run ops' (corr_run ops m)"
  by (simp_all add: corr_run_def)

text \<open>Well-formed: dictionaries have distinct keys and point to objects; entries do not share one.\<close>

definition refs_below :: "nat \<Rightarrow> (string \<times> nat) list \<Rightarrow> bool" where
  "refs_below n al \<longleftrightarrow> (\<forall>f \<in> snd ` set al. f < n)"

definition corr_ok :: "CorrelationManager \<Rightarrow> bool" where
  "corr_ok m \<longleftrightarrow>
     dict_ok (cm_pending m) \<and> dict_ok (cm_streaming m) \<and>
     distinct (map snd (cm_pending m)) \<and> distinct (map snd (cm_streaming m)) \<and>
     refs_below (length (cm_futures m)) (cm_pending m) \<and>
     refs_below (length (cm_streams m)) (cm_streaming m)"

subsection \<open>What an operation touches\<close>

lemma delete_snd_subset: "snd ` set (AList.delete k al) \<subseteq> snd ` set al"
  by (auto simp: AList.delete_eq)

lemma distinct_snd_delete [simp, intro]: "distinct (map snd al) \<Longrightarrow> distinct (map snd (AList.delete k al))"
  by (simp add: AList.delete_eq distinct_map_filter)

lemma dict_ok_delete [simp, intro]: "dict_ok al \<Longrightarrow> dict_ok (AList.delete k al)"
  by (simp add: dict_ok_def distinct_delete)

lemma update_snd_subset: "snd ` set (AList.update k v al) \<subseteq> insert v (snd ` set al)"
  by (induction al) (auto split: if_splits)

lemma distinct_snd_update:
  "distinct (map snd al) \<Longrightarrow> v \<notin> snd ` set al \<Longrightarrow> distinct (map snd (AList.update k v al))"
proof (induction al)
  case (Cons p al)
  then show ?case
    using update_snd_subset [of k v al] by (cases p) auto
qed simp

lemma refs_below_Nil [simp]: "refs_below n []"
  by (simp add: refs_below_def)

lemma refs_below_delete [simp, intro]: "refs_below n al \<Longrightarrow> refs_below n (AList.delete k al)"
  unfolding refs_below_def using delete_snd_subset [of k al] by blast

lemma refs_below_update [simp, intro]: "refs_below n al \<Longrightarrow> refs_below (Suc n) (AList.update k n al)"
  using update_snd_subset [of k n al] by (fastforce simp: refs_below_def)

lemma refs_below_fresh: "refs_below n al \<Longrightarrow> n \<notin> snd ` set al"
  by (auto simp: refs_below_def)

lemma map_of_snd_mem: "map_of al k = Some v \<Longrightarrow> v \<in> snd ` set al"
  by (force dest: map_of_SomeD)

lemma map_of_snd_inj:
  assumes "distinct (map snd al)" and "map_of al k = Some v" and "map_of al k' = Some v"
  shows "k = k'"
proof -
  have "inj_on snd (set al)" using assms(1) by (simp add: distinct_map)
  moreover have "(k, v) \<in> set al" "(k', v) \<in> set al" using assms(2,3) by (simp_all add: map_of_SomeD)
  ultimately have "(k, v) = (k', v)" using inj_onD [of snd "set al" "(k, v)" "(k', v)"] by simp
  then show ?thesis by simp
qed

lemma nth_update_other_value: "xs ! i = a \<Longrightarrow> xs ! j \<noteq> a \<Longrightarrow> xs[i := v] ! j = xs ! j"
  by (cases "i = j") auto

lemma update_stream_simps [simp]:
  "cm_futures (update_stream g h m) = cm_futures m"
  "cm_pending (update_stream g h m) = cm_pending m"
  "cm_streaming (update_stream g h m) = cm_streaming m"
  "length (cm_streams (update_stream g h m)) = length (cm_streams m)"
  by (simp_all add: update_stream_def)

lemma update_stream_nth:
  "g' < length (cm_streams m) \<Longrightarrow>
   cm_streams (update_stream g h m) ! g' = (if g = g' then h (cm_streams m ! g) else cm_streams m ! g')"
  by (simp add: update_stream_def nth_list_update)

lemma settle_pending_simps [simp]:
  "cm_streams (snd (settle_pending cid v m)) = cm_streams m"
  "cm_streaming (snd (settle_pending cid v m)) = cm_streaming m"
  "cm_pending (snd (settle_pending cid v m)) = AList.delete cid (cm_pending m)"
  "length (cm_futures (snd (settle_pending cid v m))) = length (cm_futures m)"
  by (simp_all add: settle_pending_def Let_def split: option.splits)

lemma settle_pending_futures:
  "f < length (cm_futures m) \<Longrightarrow>
   cm_futures (snd (settle_pending cid v m)) ! f =
     (if map_of (cm_pending m) cid = Some f \<and> cm_futures m ! f = FPending then v else cm_futures m ! f)"
  by (auto simp: settle_pending_def fut_done_def nth_list_update nth_update_other_value Let_def split: option.splits)

lemma settle_pending_fst:
  "fst (settle_pending cid v m) \<longleftrightarrow> (\<exists>f. map_of (cm_pending m) cid = Some f \<and> cm_futures m ! f = FPending)"
  by (auto simp: settle_pending_def fut_done_def Let_def split: option.splits)

lemma complete_projections [simp]:
  "cm_futures (snd (cm_complete cid r m)) = cm_futures (snd (settle_pending cid (FResult r) m))"
  "cm_pending (snd (cm_complete cid r m)) = AList.delete cid (cm_pending m)"
  "cm_streaming (snd (cm_complete cid r m)) = cm_streaming m"
  "length (cm_streams (snd (cm_complete cid r m))) = length (cm_streams m)"
  using settle_pending_simps [of cid "FResult r" m]
  by (cases "settle_pending cid (FResult r) m"; auto simp: cm_complete_def split: bool.splits option.splits)+

lemma complete_exception_projections [simp]:
  "cm_futures (snd (cm_complete_with_exception cid e m)) = cm_futures (snd (settle_pending cid (FError e) m))"
  "cm_pending (snd (cm_complete_with_exception cid e m)) = AList.delete cid (cm_pending m)"
  "length (cm_streams (snd (cm_complete_with_exception cid e m))) = length (cm_streams m)"
  using settle_pending_simps [of cid "FError e" m]
  by (cases "settle_pending cid (FError e) m";
      auto simp: cm_complete_with_exception_def Let_def split: bool.splits option.splits)+

lemma complete_streaming_projections [simp]:
  "cm_futures (snd (cm_complete_streaming cid m)) = cm_futures m"
  "cm_pending (snd (cm_complete_streaming cid m)) = cm_pending m"
  "cm_streaming (snd (cm_complete_streaming cid m)) = AList.delete cid (cm_streaming m)"
  "length (cm_streams (snd (cm_complete_streaming cid m))) = length (cm_streams m)"
  by (auto simp: cm_complete_streaming_def Let_def split: option.splits)

lemma cancel_future_simps [simp]:
  "cm_pending (cancel_future f m) = cm_pending m"
  "cm_streaming (cancel_future f m) = cm_streaming m"
  "cm_streams (cancel_future f m) = cm_streams m"
  "length (cm_futures (cancel_future f m)) = length (cm_futures m)"
  by (simp_all add: cancel_future_def)

lemma cancel_future_nth:
  "f' < length (cm_futures m) \<Longrightarrow>
   cm_futures (cancel_future f m) ! f' =
     (if f = f' \<and> cm_futures m ! f' = FPending then FCancelled else cm_futures m ! f')"
  by (auto simp: cancel_future_def fut_done_def nth_list_update nth_update_other_value)

lemma cancel_futures_fold:
  "cm_pending (foldl (\<lambda>m f. cancel_future f m) m fs) = cm_pending m \<and>
   cm_streaming (foldl (\<lambda>m f. cancel_future f m) m fs) = cm_streaming m \<and>
   cm_streams (foldl (\<lambda>m f. cancel_future f m) m fs) = cm_streams m \<and>
   length (cm_futures (foldl (\<lambda>m f. cancel_future f m) m fs)) = length (cm_futures m) \<and>
   (f < length (cm_futures m) \<longrightarrow>
    cm_futures (foldl (\<lambda>m f. cancel_future f m) m fs) ! f =
      (if f \<in> set fs \<and> cm_futures m ! f = FPending then FCancelled else cm_futures m ! f))"
  by (induction fs arbitrary: m) (auto simp: cancel_future_nth)

lemma update_streams_fold:
  "cm_pending (foldl (\<lambda>m g. update_stream g h m) m gs) = cm_pending m \<and>
   cm_futures (foldl (\<lambda>m g. update_stream g h m) m gs) = cm_futures m \<and>
   cm_streaming (foldl (\<lambda>m g. update_stream g h m) m gs) = cm_streaming m \<and>
   length (cm_streams (foldl (\<lambda>m g. update_stream g h m) m gs)) = length (cm_streams m) \<and>
   (g < length (cm_streams m) \<longrightarrow> distinct gs \<longrightarrow>
    cm_streams (foldl (\<lambda>m g. update_stream g h m) m gs) ! g =
      (if g \<in> set gs then h (cm_streams m ! g) else cm_streams m ! g))"
  by (induction gs arbitrary: m) (auto simp: update_stream_nth)

lemma cancel_all_futures:
  "f < length (cm_futures m) \<Longrightarrow>
   cm_futures (cm_cancel_all m) ! f =
     (if f \<in> snd ` set (cm_pending m) \<and> cm_futures m ! f = FPending then FCancelled else cm_futures m ! f)"
  by (simp add: cm_cancel_all_def Let_def update_streams_fold cancel_futures_fold)

lemma cancel_all_projections [simp]:
  "cm_pending (cm_cancel_all m) = []"
  "cm_streaming (cm_cancel_all m) = []"
  "length (cm_futures (cm_cancel_all m)) = length (cm_futures m)"
  "length (cm_streams (cm_cancel_all m)) = length (cm_streams m)"
  by (simp_all add: cm_cancel_all_def Let_def update_streams_fold cancel_futures_fold)

subsection \<open>Well-formedness\<close>

lemma corr_ok_new: "corr_ok cm_new"
  by (simp add: corr_ok_def cm_new_def)

lemma corr_ok_register: "corr_ok m \<Longrightarrow> corr_ok (snd (cm_register cid m))"
  by (simp add: corr_ok_def cm_register_def Let_def distinct_snd_update refs_below_fresh refs_below_update)

lemma corr_ok_register_streaming: "corr_ok m \<Longrightarrow> corr_ok (snd (cm_register_streaming cid m))"
  by (simp add: corr_ok_def cm_register_streaming_def Let_def distinct_snd_update refs_below_fresh refs_below_update)

lemma complete_exception_streaming:
  "cm_streaming (snd (cm_complete_with_exception cid e m)) \<in> {cm_streaming m, AList.delete cid (cm_streaming m)}"
  using settle_pending_simps [of cid "FError e" m]
  by (cases "settle_pending cid (FError e) m")
     (auto simp: cm_complete_with_exception_def Let_def split: bool.splits option.splits)

lemma corr_ok_apply [a2a_inv]:
  assumes "corr_ok m" shows "corr_ok (corr_apply op m)"
proof (cases op)
  case (CompleteException cid e)
  with assms complete_exception_streaming [of cid e m] show ?thesis by (auto simp: corr_ok_def)
next
  case (Register cid)
  with corr_ok_register [OF assms] show ?thesis by simp
next
  case (RegisterStreaming cid)
  with corr_ok_register_streaming [OF assms] show ?thesis by simp
qed (use assms in \<open>auto simp: corr_ok_def cancel_future_def\<close>)

lemma corr_ok_run [a2a_inv]: "corr_ok m \<Longrightarrow> corr_ok (corr_run ops m)"
  by (induction ops arbitrary: m) (auto intro: corr_ok_apply)

subsection \<open>The outcome of a request\<close>

text \<open>
  The contract: the future registered under an id is settled by the first operation that
  names its id, cancels everything, or cancels this future; later ones do not change it.
\<close>

fun outcome_of :: "string \<Rightarrow> nat \<Rightarrow> corr_op \<Rightarrow> fut" where
  "outcome_of cid f (Complete c r) = (if c = cid then FResult r else FPending)"
| "outcome_of cid f (CompleteException c e) = (if c = cid then FError e else FPending)"
| "outcome_of cid f CancelAll = FCancelled"
| "outcome_of cid f (CancelFuture f') = (if f' = f then FCancelled else FPending)"
| "outcome_of cid f op = FPending"

fun first_outcome :: "string \<Rightarrow> nat \<Rightarrow> corr_op list \<Rightarrow> fut" where
  "first_outcome cid f [] = FPending"
| "first_outcome cid f (op # ops) =
     (if fut_done (outcome_of cid f op) then outcome_of cid f op else first_outcome cid f ops)"

definition waiting :: "string \<Rightarrow> nat \<Rightarrow> CorrelationManager \<Rightarrow> bool" where
  "waiting cid f m \<longleftrightarrow>
     corr_ok m \<and> map_of (cm_pending m) cid = Some f \<and> f < length (cm_futures m) \<and> cm_futures m ! f = FPending"

lemma waiting_register: "corr_ok m \<Longrightarrow> waiting cid (fst (cm_register cid m)) (snd (cm_register cid m))"
  using corr_ok_register [of m cid] by (auto simp: waiting_def cm_register_def Let_def update_conv')

lemma length_futures_apply: "length (cm_futures m) \<le> length (cm_futures (corr_apply op m))"
  by (cases op) (auto simp: cm_register_def cm_register_streaming_def Let_def)

lemma length_futures_run: "length (cm_futures m) \<le> length (cm_futures (corr_run ops m))"
proof (induction ops arbitrary: m)
  case (Cons op ops)
  show ?case using length_futures_apply [of m op] Cons.IH [of "corr_apply op m"] by simp
qed simp

lemma settled_apply:
  "f < length (cm_futures m) \<Longrightarrow> fut_done (cm_futures m ! f) \<Longrightarrow> cm_futures (corr_apply op m) ! f = cm_futures m ! f"
  by (cases op)
     (auto simp: cm_register_def cm_register_streaming_def Let_def nth_append settle_pending_futures
        cancel_all_futures cancel_future_nth fut_done_def)

lemma settled_run:
  "f < length (cm_futures m) \<Longrightarrow> fut_done (cm_futures m ! f) \<Longrightarrow> cm_futures (corr_run ops m) ! f = cm_futures m ! f"
proof (induction ops arbitrary: m)
  case (Cons op ops)
  have "f < length (cm_futures (corr_apply op m))"
    using Cons.prems(1) length_futures_apply [of m op] by simp
  with Cons settled_apply [of f m op] show ?case by simp
qed simp

lemma waiting_apply:
  assumes "waiting cid f m" and "op \<noteq> Register cid"
  shows "cm_futures (corr_apply op m) ! f = outcome_of cid f op \<and>
         (\<not> fut_done (outcome_of cid f op) \<longrightarrow> waiting cid f (corr_apply op m))"
proof -
  have w: "corr_ok m" "map_of (cm_pending m) cid = Some f" "f < length (cm_futures m)" "cm_futures m ! f = FPending"
    using assms(1) by (simp_all add: waiting_def)
  have other: "map_of (cm_pending m) c = Some f \<longleftrightarrow> c = cid" for c
    using w(1,2) map_of_snd_inj [of "cm_pending m"] by (auto simp: corr_ok_def)
  have "f \<in> snd ` set (cm_pending m)" using w(2) by (rule map_of_snd_mem)
  with w other assms(2) show ?thesis
    using corr_ok_apply [OF w(1), of op]
    by (cases op)
       (auto simp: waiting_def fut_done_def cm_register_def cm_register_streaming_def Let_def nth_append
          settle_pending_futures cancel_all_futures cancel_future_nth update_conv' delete_conv')
qed

lemma waiting_run:
  "waiting cid f m \<Longrightarrow> Register cid \<notin> set ops \<Longrightarrow> cm_futures (corr_run ops m) ! f = first_outcome cid f ops"
proof (induction ops arbitrary: m)
  case Nil
  then show ?case by (simp add: waiting_def)
next
  case (Cons op ops)
  note step = waiting_apply [OF Cons.prems(1), of op]
  show ?case
  proof (cases "fut_done (outcome_of cid f op)")
    case True
    have "f < length (cm_futures (corr_apply op m))"
      using Cons.prems(1) length_futures_apply [of m op] by (simp add: waiting_def)
    with True step Cons.prems(2) settled_run [of f "corr_apply op m" ops] show ?thesis by auto
  next
    case False
    with step Cons show ?thesis by auto
  qed
qed

text \<open>
  Claim C17. A registered request is settled by the first reply, error, cancellation or time-out that
  concerns it, whatever happens to other requests before and after, and never changes again.
\<close>

theorem request_settled_by_first:
  assumes "corr_ok m" and "cm_register cid m = (f, m')" and "Register cid \<notin> set ops"
  shows "cm_futures (corr_run ops m') ! f = first_outcome cid f ops \<and>
         (first_outcome cid f ops \<noteq> FPending \<longrightarrow>
            cm_futures (corr_run (ops @ ops') m') ! f = first_outcome cid f ops)"
proof -
  have w: "waiting cid f m'" using waiting_register [OF assms(1), of cid] assms(2) by simp
  have "f < length (cm_futures (corr_run ops m'))" 
    using w length_futures_run [of m' ops] by (simp add: waiting_def)
  with waiting_run [OF w assms(3)] show ?thesis
    by (auto simp: settled_run fut_done_def)
qed

text \<open>Sample values for the theorems of this theory and the Kafka transport.\<close>

definition sample_reply :: "string \<Rightarrow> Event" where
  "sample_reply i = EvMessage (sample_message\<lparr>msg_message_id := i\<rparr>)"

theorem request_settled_by_first_witness:
  "cm_futures (corr_run ([CancelFuture 7, Complete ''r2'' (sample_reply ''m2''), Complete ''r1'' (sample_reply ''m1'')] @
       [CompleteException ''r1'' QueueEmpty, CancelAll]) (snd (cm_register ''r1'' cm_new))) ! 0 =
   FResult (sample_reply ''m1'')"
  using request_settled_by_first
    [of cm_new "''r1''" 0 "snd (cm_register ''r1'' cm_new)"
      "[CancelFuture 7, Complete ''r2'' (sample_reply ''m2''), Complete ''r1'' (sample_reply ''m1'')]"
      "[CompleteException ''r1'' QueueEmpty, CancelAll]"]
    corr_ok_new
  by (simp add: cm_register_def cm_new_def fut_done_def Let_def)

subsection \<open>The state of a stream\<close>

text \<open>
  What one operation does to the stream registered under an id. Once a stream is done its
  entry is gone from the dictionary and nothing reaches it any more.
\<close>

fun stream_effect :: "string \<Rightarrow> corr_op \<Rightarrow> StreamingFuture \<Rightarrow> StreamingFuture" where
  "stream_effect cid (Complete c r) s = (if c = cid then sf_put r s else s)"
| "stream_effect cid (CompleteStreaming c) s = (if c = cid then sf_set_done s else s)"
| "stream_effect cid (CompleteException c e) s = (if c = cid then sf_set_exception e s else s)"
| "stream_effect cid CancelAll s = sf_set_exception (CancelledError ''Request cancelled'') s"
| "stream_effect cid op s = s"

fun stream_run :: "string \<Rightarrow> corr_op list \<Rightarrow> StreamingFuture \<Rightarrow> StreamingFuture" where
  "stream_run cid [] s = s"
| "stream_run cid (op # ops) s = (if sf_done s then s else stream_run cid ops (stream_effect cid op s))"

definition stream_at :: "CorrelationManager \<Rightarrow> nat \<Rightarrow> StreamingFuture" where
  "stream_at m g = cm_streams m ! g"

definition stream_known :: "string \<Rightarrow> nat \<Rightarrow> CorrelationManager \<Rightarrow> bool" where
  "stream_known cid g m \<longleftrightarrow>
     corr_ok m \<and> g < length (cm_streams m) \<and>
     (if sf_done (stream_at m g) then g \<notin> snd ` set (cm_streaming m)
      else map_of (cm_streaming m) cid = Some g \<and> map_of (cm_pending m) cid = None)"

lemma stream_known_register:
  assumes "corr_ok m" and "map_of (cm_pending m) cid = None"
  shows "stream_known cid (fst (cm_register_streaming cid m)) (snd (cm_register_streaming cid m)) \<and>
         stream_at (snd (cm_register_streaming cid m)) (fst (cm_register_streaming cid m)) = sf_new"
  using corr_ok_register_streaming [OF assms(1), of cid] assms(2)
  by (auto simp: stream_known_def stream_at_def cm_register_streaming_def Let_def update_conv' sf_new_def)

lemma complete_streams_nth:
  assumes "g < length (cm_streams m)" and "map_of (cm_pending m) cid = None"
  shows "stream_at (snd (cm_complete cid r m)) g =
    (if map_of (cm_streaming m) cid = Some g then sf_put r (stream_at m g) else stream_at m g)"
  using assms
  by (auto simp: cm_complete_def settle_pending_def Let_def stream_at_def update_stream_def sf_put_def nth_list_update
      split: option.splits)

lemma complete_streams_nth_other:
  assumes "g < length (cm_streams m)" and "map_of (cm_streaming m) cid \<noteq> Some g"
  shows "stream_at (snd (cm_complete cid r m)) g = stream_at m g"
  using assms settle_pending_simps(1,2) [of cid "FResult r" m]
  by (cases "settle_pending cid (FResult r) m")
     (auto simp: cm_complete_def stream_at_def update_stream_def nth_list_update split: bool.splits option.splits)

lemma complete_streaming_nth:
  assumes "g < length (cm_streams m)"
  shows "stream_at (snd (cm_complete_streaming cid m)) g =
    (if map_of (cm_streaming m) cid = Some g then sf_set_done (stream_at m g) else stream_at m g)"
  using assms
  by (auto simp: cm_complete_streaming_def Let_def stream_at_def update_stream_def nth_list_update split: option.splits)

lemma complete_exception_nth:
  assumes "g < length (cm_streams m)" and "map_of (cm_pending m) cid = None"
  shows "stream_at (snd (cm_complete_with_exception cid e m)) g =
    (if map_of (cm_streaming m) cid = Some g then sf_set_exception e (stream_at m g) else stream_at m g)
    \<and> cm_streaming (snd (cm_complete_with_exception cid e m)) = AList.delete cid (cm_streaming m)"
  using assms
  by (auto simp: cm_complete_with_exception_def settle_pending_def Let_def stream_at_def update_stream_def nth_list_update
      split: option.splits)

lemma complete_exception_nth_other:
  assumes "g < length (cm_streams m)" and "map_of (cm_streaming m) cid \<noteq> Some g"
  shows "stream_at (snd (cm_complete_with_exception cid e m)) g = stream_at m g"
  using assms settle_pending_simps(1,2) [of cid "FError e" m]
  by (cases "settle_pending cid (FError e) m")
     (auto simp: cm_complete_with_exception_def Let_def stream_at_def update_stream_def nth_list_update
       split: bool.splits option.splits)

lemma cancel_all_streams:
  assumes "corr_ok m" and "g < length (cm_streams m)"
  shows "stream_at (cm_cancel_all m) g =
    (if g \<in> snd ` set (cm_streaming m) then sf_set_exception (CancelledError ''Request cancelled'') (stream_at m g)
     else stream_at m g)"
  using assms by (simp add: cm_cancel_all_def Let_def update_streams_fold cancel_futures_fold stream_at_def corr_ok_def)

lemma stream_at_register [simp]:
  "stream_at (snd (cm_register cid m)) g = stream_at m g"
  "g < length (cm_streams m) \<Longrightarrow> stream_at (snd (cm_register_streaming cid m)) g = stream_at m g"
  by (simp_all add: stream_at_def cm_register_def cm_register_streaming_def Let_def nth_append)

lemma stream_at_cancel_future [simp]: "stream_at (cancel_future f m) g = stream_at m g"
  by (simp add: stream_at_def cancel_future_def)

lemma length_streams_apply: "length (cm_streams m) \<le> length (cm_streams (corr_apply op m))"
  by (cases op) (auto simp: cm_register_def cm_register_streaming_def Let_def)

text \<open>A finished stream is out of reach.\<close>

lemma detached_apply:
  assumes "corr_ok m" and g: "g < length (cm_streams m)" and d: "g \<notin> snd ` set (cm_streaming m)"
  shows "stream_at (corr_apply op m) g = stream_at m g \<and> g \<notin> snd ` set (cm_streaming (corr_apply op m))"
proof -
  have n: "map_of (cm_streaming m) c \<noteq> Some g" for c
    using d map_of_snd_mem by fastforce
  have del: "g \<notin> snd ` set (AList.delete c (cm_streaming m))" for c
    using d subsetD [OF delete_snd_subset, of g c "cm_streaming m"] by metis
  show ?thesis
  proof (cases op)
    case (RegisterStreaming c)
    have "g \<notin> snd ` set (AList.update c (length (cm_streams m)) (cm_streaming m))"
      using d g subsetD [OF update_snd_subset, of g c "length (cm_streams m)" "cm_streaming m"]
      by (metis insertE less_irrefl)
    with RegisterStreaming g show ?thesis
      by (simp add: cm_register_streaming_def Let_def stream_at_def nth_append)
  next
    case (Register c)
    then show ?thesis using d by (simp add: cm_register_def Let_def stream_at_def)
  next
    case (Complete c r)
    with d n [of c] complete_streams_nth_other [OF g, of c r] show ?thesis by simp
  next
    case (CompleteStreaming c)
    with del [of c] n [of c] complete_streaming_nth [OF g, of c] show ?thesis by simp
  next
    case (CompleteException c e)
    with d del [of c] n [of c] complete_exception_nth_other [OF g, of c e] complete_exception_streaming [of c e m]
    show ?thesis by auto
  next
    case CancelAll
    with d cancel_all_streams [OF assms(1) g] show ?thesis by simp
  qed (use d in \<open>simp_all\<close>)
qed

lemma stream_known_apply:
  assumes k: "stream_known cid g m" and op: "op \<noteq> Register cid" "op \<noteq> RegisterStreaming cid"
  shows "stream_at (corr_apply op m) g = (if sf_done (stream_at m g) then stream_at m g else stream_effect cid op (stream_at m g))
    \<and> stream_known cid g (corr_apply op m)"
proof (cases "sf_done (stream_at m g)")
  case True
  have g: "g < length (cm_streams m)" and ok: "corr_ok m" and d: "g \<notin> snd ` set (cm_streaming m)"
    using k True by (simp_all add: stream_known_def)
  have "g < length (cm_streams (corr_apply op m))" using g length_streams_apply [of m op] by simp
  with detached_apply [OF ok g d, of op] True corr_ok_apply [OF ok, of op] show ?thesis
    by (simp add: stream_known_def)
next
  case False
  have g: "g < length (cm_streams m)" and ok: "corr_ok m" and e: "map_of (cm_streaming m) cid = Some g"
    and p: "map_of (cm_pending m) cid = None"
    using k False by (simp_all add: stream_known_def)
  have g': "g < length (cm_streams (corr_apply op m))" using g length_streams_apply [of m op] by simp
  have other: "map_of (cm_streaming m) c = Some g \<longleftrightarrow> c = cid" for c
    using ok e map_of_snd_inj [of "cm_streaming m"] by (auto simp: corr_ok_def)
  have mem: "g \<in> snd ` set (cm_streaming m)" using e by (rule map_of_snd_mem)
  have gone: "g \<notin> snd ` set (AList.delete cid (cm_streaming m))"
  proof
    assume "g \<in> snd ` set (AList.delete cid (cm_streaming m))"
    then obtain c where c: "(c, g) \<in> set (cm_streaming m)" "c \<noteq> cid" by (auto simp: AList.delete_eq)
    with ok have "map_of (cm_streaming m) c = Some g" by (simp add: corr_ok_def dict_ok_def)
    with other c(2) show False by simp
  qed
  note facts = g g' ok e p False other mem gone corr_ok_apply [OF ok, of op]
  show ?thesis
  proof (cases op)
    case (Complete c r)
    with facts complete_streams_nth [OF g, of c r] complete_streams_nth_other [OF g, of c r]
    show ?thesis by (cases "c = cid") (auto simp: stream_known_def sf_put_def delete_conv')
  next
    case (CompleteStreaming c)
    with facts complete_streaming_nth [OF g, of c] show ?thesis
      by (cases "c = cid") (auto simp: stream_known_def sf_set_done_def delete_conv')
  next
    case (CompleteException c ex)
    with facts complete_exception_nth [OF g, of c ex] complete_exception_nth_other [OF g, of c ex]
      complete_exception_streaming [of c ex m]
    show ?thesis by (cases "c = cid") (auto simp: stream_known_def sf_set_exception_def delete_conv')
  next
    case CancelAll
    with facts cancel_all_streams [OF ok g] show ?thesis by (auto simp: stream_known_def sf_set_exception_def)
  qed (use facts op in \<open>auto simp: stream_known_def cm_register_def cm_register_streaming_def update_conv' Let_def
                          stream_at_def nth_append\<close>)
qed

text \<open>An id is fresh when no later operation registers it again (ids are random UUIDs).\<close>

definition id_fresh :: "string \<Rightarrow> corr_op list \<Rightarrow> bool" where
  "id_fresh cid ops \<longleftrightarrow> Register cid \<notin> set ops \<and> RegisterStreaming cid \<notin> set ops"

lemma id_fresh_simps [simp]:
  "id_fresh cid []"
  "id_fresh cid (op # ops) \<longleftrightarrow> op \<noteq> Register cid \<and> op \<noteq> RegisterStreaming cid \<and> id_fresh cid ops"
  "id_fresh cid (ops @ ops') \<longleftrightarrow> id_fresh cid ops \<and> id_fresh cid ops'"
  by (auto simp: id_fresh_def)

lemma stream_known_run:
  "stream_known cid g m \<Longrightarrow> id_fresh cid ops \<Longrightarrow>
   stream_at (corr_run ops m) g = stream_run cid ops (stream_at m g) \<and> stream_known cid g (corr_run ops m)"
proof (induction ops arbitrary: m)
  case (Cons op ops)
  have n: "stream_run cid ops s = s" if "sf_done s" for s
    using that by (cases ops) auto
  from Cons stream_known_apply [of cid g m op] show ?case by (auto simp: n)
qed simp

lemma stream_run_append:
  "stream_run cid (ops @ ops') s = stream_run cid ops' (stream_run cid ops s)"
proof (induction ops arbitrary: s)
  case (Cons op ops)
  have n: "stream_run cid ops s = s" if "sf_done s" for s ops
    using that by (cases ops) auto
  from Cons show ?case by (auto simp: n)
qed simp

end
