(* ===== verification/KafkaTransport.thy ===== *)
theory KafkaTransport
  imports KafkaCorrelation A2A_Protocol Utils "HOL-Library.Char_ord" "HOL-Library.Sublist"
begin

section \<open>The Kafka client transport (client/transports/kafka.py)\<close>

text \<open>
  The transport sends a request record to the request topic and waits for the reply records
  that carry its correlation id. Kafka (aiokafka) and Pydantic are not part of the SDK: whether a
  producer or consumer starts and a record is acknowledged are arguments, and what
  \<open>model_validate\<close> and \<open>model_dump\<close> do is the record \<open>codec\<close>. Other coroutines run while a
  method awaits: what they do to the correlation manager is the argument \<open>ce_sending\<close>
  (while the request is sent) and \<open>ce_waiting\<close> (while the reply is awaited).
\<close>

subsection \<open>Records\<close>

record kafka_record =
  rec_topic :: string
  rec_headers :: "(string \<times> py_bytes) list"
  rec_value :: pyval

definition find_header :: "string \<Rightarrow> (string \<times> py_bytes) list \<Rightarrow> py_bytes option" where
  "find_header key hs = map_option snd (find (\<lambda>h. fst h = key) hs)"

record codec =
  cd_task :: "pyval \<Rightarrow> exn + Task"
  cd_status :: "pyval \<Rightarrow> exn + TaskStatusUpdateEvent"
  cd_artifact :: "pyval \<Rightarrow> exn + TaskArtifactUpdateEvent"
  cd_message :: "pyval \<Rightarrow> exn + Message"
  cd_send_params :: "pyval \<Rightarrow> exn + MessageSendParams"
  cd_query_params :: "pyval \<Rightarrow> exn + TaskQueryParams"
  cd_id_params :: "pyval \<Rightarrow> exn + TaskIdParams"
  cd_get_config :: "pyval \<Rightarrow> exn + GetTaskPushNotificationConfigParams"
  cd_list_config :: "pyval \<Rightarrow> exn + ListTaskPushNotificationConfigParams"
  cd_delete_config :: "pyval \<Rightarrow> exn + DeleteTaskPushNotificationConfigParams"
  dump_event :: "Event \<Rightarrow> pyval"
  dump_config :: "TaskPushNotificationConfig \<Rightarrow> pyval"
  dump_send_params :: "MessageSendParams \<Rightarrow> pyval"
  dump_query_params :: "TaskQueryParams \<Rightarrow> pyval"
  dump_id_params :: "TaskIdParams \<Rightarrow> pyval"
  dump_get_config :: "GetTaskPushNotificationConfigParams \<Rightarrow> pyval"
  dump_list_config :: "ListTaskPushNotificationConfigParams \<Rightarrow> pyval"
  dump_delete_config :: "DeleteTaskPushNotificationConfigParams \<Rightarrow> pyval"
  cd_str :: "pyval \<Rightarrow> string"
  cd_validation_str :: string

subsection \<open>Replies\<close>

text \<open>\<open>data.get('type', 'message')\<close>\<close>

definition reply_type :: "pydict \<Rightarrow> pyval" where
  "reply_type d = (case map_of d ''type'' of None \<Rightarrow> PyStr ''message'' | Some v \<Rightarrow> v)"

definition parse_response :: "codec \<Rightarrow> pydict \<Rightarrow> exn + Event" where
  "parse_response cd d =
     (case map_of d ''data'' of
        None \<Rightarrow> Inl (OtherException ''data'')
      | Some v \<Rightarrow>
          if reply_type d = PyStr ''task'' then map_sum id EvTask (cd_task cd v)
          else if reply_type d = PyStr ''task_status_update'' then map_sum id EvStatus (cd_status cd v)
          else if reply_type d = PyStr ''task_artifact_update'' then map_sum id EvArtifact (cd_artifact cd v)
          else map_sum id EvMessage (cd_message cd v))"

text \<open>
  One record in the loop of \<open>_consume_responses\<close>: the operation that it makes on the
  correlation manager, if any. Every exception is logged and the record is skipped.
\<close>

definition error_reply :: "codec \<Rightarrow> pydict \<Rightarrow> exn + exn" where
  "error_reply cd d =
     (case map_of d ''data'' of
        None \<Rightarrow> Inr (A2AClientError ''Unknown error'')
      | Some (PyDict e) \<Rightarrow>
          (case map_of e ''error'' of
             None \<Rightarrow> Inr (A2AClientError ''Unknown error'')
           | Some (PyStr s) \<Rightarrow> Inr (A2AClientError s)
           | Some v \<Rightarrow> Inr (A2AClientError (cd_str cd v)))
      | Some v \<Rightarrow> Inl (AttributeErr ''get''))"

definition response_op :: "codec \<Rightarrow> kafka_record \<Rightarrow> corr_op option" where
  "response_op cd r =
     (case find_header ''correlation_id'' (rec_headers r) of
        Some (Utf8 cid) \<Rightarrow>
          if cid = [] then None
          else (case rec_value r of
                  PyDict d \<Rightarrow>
                    if reply_type d = PyStr ''stream_complete'' then Some (CompleteStreaming cid)
                    else if reply_type d = PyStr ''error'' then
                      (case error_reply cd d of Inl _ \<Rightarrow> None | Inr e \<Rightarrow> Some (CompleteException cid e))
                    else (case parse_response cd d of Inl _ \<Rightarrow> None | Inr ev \<Rightarrow> Some (Complete cid ev))
                | _ \<Rightarrow> None)
      | _ \<Rightarrow> None)"

definition consume_responses :: "codec \<Rightarrow> kafka_record list \<Rightarrow> corr_op list" where
  "consume_responses cd rs = List.map_filter (response_op cd) rs"

lemma consume_responses_simps [simp]:
  "consume_responses cd [] = []"
  "consume_responses cd (r # rs) =
     (case response_op cd r of None \<Rightarrow> consume_responses cd rs | Some op \<Rightarrow> op # consume_responses cd rs)"
  "consume_responses cd (rs @ rs') = consume_responses cd rs @ consume_responses cd rs'"
  by (simp_all add: consume_responses_def List.map_filter_def split: option.splits)

subsection \<open>Topics and addresses\<close>

definition topic_char :: "char \<Rightarrow> bool" where
  "topic_char c \<longleftrightarrow>
     (CHR ''a'' \<le> c \<and> c \<le> CHR ''z'') \<or> (CHR ''A'' \<le> c \<and> c \<le> CHR ''Z'') \<or> (CHR ''0'' \<le> c \<and> c \<le> CHR ''9'') \<or>
     c = CHR ''.'' \<or> c = CHR ''_'' \<or> c = CHR ''-''"

definition sanitize_topic_name :: "string \<Rightarrow> string" where
  "sanitize_topic_name name =
     (let sanitized = map (\<lambda>c. if topic_char c then c else CHR ''_'') name;
          sanitized = (if sanitized = [] then ''unknown_agent'' else sanitized)
      in if length sanitized > 200 then take 200 sanitized else sanitized)"

text \<open>\<open>create\<close>: the bootstrap servers and the request topic of a \<open>kafka://\<close> URL.\<close>

definition kafka_scheme :: string where
  "kafka_scheme = ''kafka://''"

definition parse_kafka_url :: "string \<Rightarrow> exn + (string \<times> string)" where
  "parse_kafka_url url =
     (if take 8 url \<noteq> kafka_scheme then Inl (ValueErr (''Kafka URL must start with '' @ [CHR 0x27] @ ''kafka://'' @ [CHR 0x27]))
      else
        let kafka_part = drop 8 url
        in if CHR ''/'' \<in> set kafka_part
           then Inr (takeWhile (\<lambda>c. c \<noteq> CHR ''/'') kafka_part,
                     tl (dropWhile (\<lambda>c. c \<noteq> CHR ''/'') kafka_part))
           else Inr (kafka_part, ''a2a-requests''))"

subsection \<open>The transport\<close>

datatype endpoint = NoEndpoint | Created | Started | Stopped

record kafka_client =
  kc_agent_name :: string
  kc_card :: pyval
  kc_request_topic :: string
  kc_reply_topic_prefix :: string
  kc_reply_topic :: "string option"
  kc_consumer_group_id :: "string option"
  kc_instance_id :: string
  kc_producer :: endpoint
  kc_consumer :: endpoint
  kc_consuming :: bool
  kc_running :: bool
  kc_corr :: CorrelationManager
  kc_sent :: "kafka_record list"

definition kc_new :: "string \<Rightarrow> pyval \<Rightarrow> string \<Rightarrow> string \<Rightarrow> string option \<Rightarrow> string option \<Rightarrow> string \<Rightarrow> kafka_client" where
  "kc_new name agent_card request_topic reply_prefix reply group_id instance_id =
     \<lparr>kc_agent_name = name, kc_card = agent_card, kc_request_topic = request_topic, kc_reply_topic_prefix = reply_prefix,
      kc_reply_topic = reply, kc_consumer_group_id = group_id, kc_instance_id = instance_id,
      kc_producer = NoEndpoint, kc_consumer = NoEndpoint, kc_consuming = False, kc_running = False,
      kc_corr = cm_new, kc_sent = []\<rparr>"

text \<open>How an aiokafka object comes up: its constructor or its \<open>start()\<close> may raise.\<close>

datatype launch = Launched | CtorFails exn | StartFails exn

fun launched_endpoint :: "launch \<Rightarrow> endpoint \<Rightarrow> endpoint" where
  "launched_endpoint Launched old = Started"
| "launched_endpoint (CtorFails e) old = old"
| "launched_endpoint (StartFails e) old = Created"

fun launch_error :: "launch \<Rightarrow> exn option" where
  "launch_error Launched = None"
| "launch_error (CtorFails e) = Some e"
| "launch_error (StartFails e) = Some e"

definition stop_endpoint :: "endpoint \<Rightarrow> endpoint" where
  "stop_endpoint e = (if e = NoEndpoint then NoEndpoint else Stopped)"

text \<open>
  \<open>stop\<close> with what the producer's and the consumer's own \<open>stop()\<close> raise, if they raise; \<open>kc_stop\<close> is the run
  in which neither does. It is one step of the model: no call registers a request while it runs.
\<close>

definition kc_stop_with :: "exn option \<Rightarrow> exn option \<Rightarrow> kafka_client \<Rightarrow> (exn + unit) \<times> kafka_client" where
  "kc_stop_with producer_stop consumer_stop c =
     (if \<not> kc_running c then (Inr (), c)
      else
        let c1 = c\<lparr>kc_running := False, kc_consuming := False, kc_corr := cm_cancel_all (kc_corr c)\<rparr>
        in case (if kc_producer c1 = NoEndpoint then None else producer_stop) of
             Some e \<Rightarrow> (Inl e, c1)
           | None \<Rightarrow>
               (let c2 = c1\<lparr>kc_producer := stop_endpoint (kc_producer c1)\<rparr>
                in case (if kc_consumer c2 = NoEndpoint then None else consumer_stop) of
                     Some e \<Rightarrow> (Inl e, c2)
                   | None \<Rightarrow> (Inr (), c2\<lparr>kc_consumer := stop_endpoint (kc_consumer c2)\<rparr>)))"

definition kc_stop :: "kafka_client \<Rightarrow> kafka_client" where
  "kc_stop c = snd (kc_stop_with None None c)"

lemma kc_stop_eq:
  "kc_stop c =
     (if \<not> kc_running c then c
      else c\<lparr>kc_running := False, kc_consuming := False, kc_corr := cm_cancel_all (kc_corr c),
             kc_producer := stop_endpoint (kc_producer c), kc_consumer := stop_endpoint (kc_consumer c)\<rparr>)"
  by (simp add: kc_stop_def kc_stop_with_def Let_def)

definition kc_prepare :: "kafka_client \<Rightarrow> kafka_client" where
  "kc_prepare c =
     (let agent_name = sanitize_topic_name (kc_agent_name c);
          c1 = (if truthy (kc_reply_topic c) then c
                else c\<lparr>kc_reply_topic := Some (kc_reply_topic_prefix c @ ''-'' @ agent_name @ ''-'' @ kc_instance_id c)\<rparr>)
      in if truthy (kc_consumer_group_id c1) then c1
         else c1\<lparr>kc_consumer_group_id := Some (''a2a-client-'' @ agent_name @ ''-'' @ kc_instance_id c)\<rparr>)"

definition start_failure :: "codec \<Rightarrow> exn \<Rightarrow> kafka_client \<Rightarrow> (exn + unit) \<times> kafka_client" where
  "start_failure cd e c =
     (let c' = kc_stop c
      in case exn_str (cd_validation_str cd) e of
           Inl x \<Rightarrow> (Inl x, c')
         | Inr s \<Rightarrow> (Inl (A2AClientError (''Failed to start Kafka client transport: '' @ s)), c'))"

definition kc_start :: "codec \<Rightarrow> launch \<Rightarrow> launch \<Rightarrow> kafka_client \<Rightarrow> (exn + unit) \<times> kafka_client" where
  "kc_start cd producer consumer c =
     (if kc_running c then (Inr (), c)
      else
        let c1 = kc_prepare c;
            c2 = c1\<lparr>kc_producer := launched_endpoint producer (kc_producer c1)\<rparr>
        in case launch_error producer of
             Some e \<Rightarrow> start_failure cd e c2
           | None \<Rightarrow>
               (let c3 = c2\<lparr>kc_consumer := launched_endpoint consumer (kc_consumer c2)\<rparr>
                in case launch_error consumer of
                     Some e \<Rightarrow> start_failure cd e c3
                   | None \<Rightarrow> (Inr (), c3\<lparr>kc_consuming := True, kc_running := True\<rparr>)))"

definition kc_set_reply_topic :: "string \<Rightarrow> kafka_client \<Rightarrow> kafka_client" where
  "kc_set_reply_topic topic c = (if kc_running c then c else c\<lparr>kc_reply_topic := Some topic\<rparr>)"

definition kc_get_card :: "kafka_client \<Rightarrow> pyval" where
  "kc_get_card c = kc_card c"

definition kc_create :: "string \<Rightarrow> pyval \<Rightarrow> string \<Rightarrow> string \<Rightarrow> exn + (string \<times> kafka_client)" where
  "kc_create name agent_card url instance_id =
     map_sum id (\<lambda>(servers, topic). (servers, kc_new name agent_card topic ''a2a-reply'' None None instance_id))
       (parse_kafka_url url)"

subsection \<open>Requests\<close>

text \<open>The circumstances of one call.\<close>

datatype send_outcome = Acknowledged | KafkaErr string | SendRaises exn

record call_env =
  ce_cid :: string
  ce_trace_id :: "string option"
  ce_outcome :: send_outcome
  ce_sending :: "corr_op list"
  ce_waiting :: "corr_op list"
  ce_timeout :: string

definition request_record :: "string \<Rightarrow> pyval \<Rightarrow> bool \<Rightarrow> call_env \<Rightarrow> kafka_client \<Rightarrow> kafka_record" where
  "request_record method params streaming env c =
     \<lparr>rec_topic = kc_request_topic c,
      rec_headers =
        [(''correlation_id'', Utf8 (ce_cid env)), (''reply_topic'', Utf8 (or_else (kc_reply_topic c) [])),
         (''agent_id'', Utf8 (kc_agent_name c))] @
        (if truthy (ce_trace_id env) then [(''trace_id'', Utf8 (the (ce_trace_id env)))] else []),
      rec_value = PyDict
        [(''method'', PyStr method), (''params'', params), (''streaming'', PyBool streaming),
         (''agent_card'', kc_card c)]\<rparr>"

definition send_request ::
  "string \<Rightarrow> pyval \<Rightarrow> bool \<Rightarrow> call_env \<Rightarrow> kafka_client \<Rightarrow> (exn + string) \<times> kafka_client" where
  "send_request method params streaming env c =
     (if kc_producer c = NoEndpoint \<or> \<not> kc_running c
      then (Inl (A2AClientError ''Kafka client transport not started''), c)
      else
        let c' = c\<lparr>kc_corr := corr_run (ce_sending env) (kc_corr c)\<rparr>
        in case ce_outcome env of
             Acknowledged \<Rightarrow> (Inr (ce_cid env), c'\<lparr>kc_sent := kc_sent c @ [request_record method params streaming env c]\<rparr>)
           | KafkaErr s \<Rightarrow> (Inl (A2AClientError (''Failed to send Kafka message: '' @ s)), c')
           | SendRaises e \<Rightarrow> (Inl e, c'))"

text \<open>
  \<open>register\<close>, then \<open>asyncio.wait_for(future, timeout)\<close>: when the time is up the future is
  cancelled, and the handler of \<open>TimeoutError\<close> removes the registration.
\<close>

definition await_reply :: "string \<Rightarrow> call_env \<Rightarrow> CorrelationManager \<Rightarrow> (exn + Event) \<times> CorrelationManager" where
  "await_reply what env m =
     (let (f, m1) = cm_register (ce_cid env) m;
          m2 = corr_run (ce_waiting env) m1;
          timed_out = A2AClientError (what @ '' timed out after '' @ ce_timeout env @ '' seconds'')
      in case cm_futures m2 ! f of
           FResult r \<Rightarrow> (Inr r, m2)
         | FError e \<Rightarrow> (Inl e, m2)
         | FCancelled \<Rightarrow> (Inl (CancelledError []), m2)
         | FPending \<Rightarrow>
             (Inl timed_out, snd (cm_complete_with_exception (ce_cid env) timed_out (cancel_future f m2))))"

definition kafka_call ::
  "string \<Rightarrow> string \<Rightarrow> pyval \<Rightarrow> call_env \<Rightarrow> kafka_client \<Rightarrow> (exn + Event) \<times> kafka_client" where
  "kafka_call what method params env c =
     (case send_request method params False env c of
        (Inl e, c1) \<Rightarrow> (Inl e, c1)
      | (Inr cid, c1) \<Rightarrow> (let (r, m) = await_reply what env (kc_corr c1) in (r, c1\<lparr>kc_corr := m\<rparr>)))"

definition kc_send_message ::
  "codec \<Rightarrow> MessageSendParams \<Rightarrow> call_env \<Rightarrow> kafka_client \<Rightarrow> (exn + Event) \<times> kafka_client" where
  "kc_send_message cd request = kafka_call ''Request'' ''message_send'' (dump_send_params cd request)"

text \<open>\<open>isinstance\<close> checks of the reply; \<open>event_type_str\<close> is how Python prints its class.\<close>

fun event_type_str :: "Event \<Rightarrow> string" where
  "event_type_str (EvMessage m) = ''<class 'a2a.types.Message'>''"
| "event_type_str (EvTask t) = ''<class 'a2a.types.Task'>''"
| "event_type_str (EvStatus e) = ''<class 'a2a.types.TaskStatusUpdateEvent'>''"
| "event_type_str (EvArtifact e) = ''<class 'a2a.types.TaskArtifactUpdateEvent'>''"

fun as_task :: "Event \<Rightarrow> Task option" where
  "as_task (EvMessage m) = None"
| "as_task (EvTask t) = Some t"
| "as_task (EvStatus e) = None"
| "as_task (EvArtifact e) = None"

definition expect_reply ::
  "(Event \<Rightarrow> 'a option) \<Rightarrow> string \<Rightarrow> (exn + Event) \<times> kafka_client \<Rightarrow> (exn + 'a) \<times> kafka_client" where
  "expect_reply test wanted r =
     (case r of
        (Inl e, c) \<Rightarrow> (Inl e, c)
      | (Inr ev, c) \<Rightarrow>
          (case test ev of
             Some v \<Rightarrow> (Inr v, c)
           | None \<Rightarrow> (Inl (A2AClientError (''Expected '' @ wanted @ '', got '' @ event_type_str ev)), c)))"

definition kc_get_task ::
  "codec \<Rightarrow> TaskQueryParams \<Rightarrow> call_env \<Rightarrow> kafka_client \<Rightarrow> (exn + Task) \<times> kafka_client" where
  "kc_get_task cd request env c =
     expect_reply as_task ''Task'' (kafka_call ''Get task request'' ''task_get'' (dump_query_params cd request) env c)"

definition kc_cancel_task ::
  "codec \<Rightarrow> TaskIdParams \<Rightarrow> call_env \<Rightarrow> kafka_client \<Rightarrow> (exn + Task) \<times> kafka_client" where
  "kc_cancel_task cd request env c =
     expect_reply as_task ''Task'' (kafka_call ''Cancel task request'' ''task_cancel'' (dump_id_params cd request) env c)"

text \<open>
  The push notification methods test for classes that \<open>_parse_response\<close> never makes: the
  \<open>isinstance\<close> tests on the four event classes fail.
\<close>

fun as_push_config :: "Event \<Rightarrow> TaskPushNotificationConfig option option" where
  "as_push_config (EvMessage m) = None"
| "as_push_config (EvTask t) = None"
| "as_push_config (EvStatus e) = None"
| "as_push_config (EvArtifact e) = None"

fun as_config_list :: "Event \<Rightarrow> TaskPushNotificationConfig list option" where
  "as_config_list (EvMessage m) = None"
| "as_config_list (EvTask t) = None"
| "as_config_list (EvStatus e) = None"
| "as_config_list (EvArtifact e) = None"

definition kc_get_task_push_notification_config ::
  "codec \<Rightarrow> GetTaskPushNotificationConfigParams \<Rightarrow> call_env \<Rightarrow> kafka_client \<Rightarrow>
   (exn + TaskPushNotificationConfig option) \<times> kafka_client" where
  "kc_get_task_push_notification_config cd request env c =
     expect_reply as_push_config ''TaskPushNotificationConfig or None''
       (kafka_call ''Get push notification config request'' ''task_push_notification_config_get''
          (dump_get_config cd request) env c)"

definition kc_list_task_push_notification_configs ::
  "codec \<Rightarrow> ListTaskPushNotificationConfigParams \<Rightarrow> call_env \<Rightarrow> kafka_client \<Rightarrow>
   (exn + TaskPushNotificationConfig list) \<times> kafka_client" where
  "kc_list_task_push_notification_configs cd request env c =
     expect_reply as_config_list ''list''
       (kafka_call ''List push notification configs request'' ''task_push_notification_config_list''
          (dump_list_config cd request) env c)"

definition kc_delete_task_push_notification_config ::
  "codec \<Rightarrow> DeleteTaskPushNotificationConfigParams \<Rightarrow> call_env \<Rightarrow> kafka_client \<Rightarrow> (exn + unit) \<times> kafka_client" where
  "kc_delete_task_push_notification_config cd request env c =
     (let (r, c') = kafka_call ''Delete push notification config request'' ''task_push_notification_config_delete''
                      (dump_delete_config cd request) env c
      in (map_sum id (\<lambda>_. ()) r, c'))"

definition kc_set_task_callback ::
  "TaskPushNotificationConfig \<Rightarrow> kafka_client \<Rightarrow> (exn + TaskPushNotificationConfig) \<times> kafka_client" where
  "kc_set_task_callback request c = (Inr request, c)"

definition kc_get_task_callback ::
  "codec \<Rightarrow> GetTaskPushNotificationConfigParams \<Rightarrow> call_env \<Rightarrow> kafka_client \<Rightarrow>
   (exn + TaskPushNotificationConfig option) \<times> kafka_client" where
  "kc_get_task_callback = kc_get_task_push_notification_config"

text \<open>\<open>resubscribe\<close> reads \<open>request.task_id\<close>; the field of \<open>TaskIdParams\<close> is \<open>id\<close>.\<close>

definition kc_resubscribe :: "TaskIdParams \<Rightarrow> kafka_client \<Rightarrow> (exn + Event list) \<times> kafka_client" where
  "kc_resubscribe request c = (Inl (AttributeErr ([CHR 0x27] @ ''TaskIdParams' object has no attribute 'task_id'' @ [CHR 0x27])), c)"

subsection \<open>Streaming\<close>

text \<open>
  One turn of the loop \<open>while not streaming_future.is_done()\<close>: what other coroutines do before
  the test, between the test and the start of \<open>get()\<close> (from Python 3.12 on \<open>wait_for\<close> runs it
  directly and nothing happens in between), and while \<open>get()\<close> waits. When nothing arrives within five
  seconds the loop tests \<open>is_done()\<close> and goes on. The total timeout of the context is read by
  the code but used by no test. A schedule ends where the loop still waits.
\<close>

record stream_turn =
  tn_before :: "corr_op list"
  tn_start :: "corr_op list"
  tn_wait :: "corr_op list"

datatype stream_end = StreamEnded | StreamWaiting | StreamRaised exn

definition pop_stream :: "StreamingFuture \<Rightarrow> StreamingFuture" where
  "pop_stream s = s\<lparr>sf_queue := tl (sf_queue s)\<rparr>"

text \<open>The \<open>except Exception\<close> clause; \<open>CancelledError\<close> is not an \<open>Exception\<close>.\<close>

definition stream_failure :: "codec \<Rightarrow> string \<Rightarrow> exn \<Rightarrow> CorrelationManager \<Rightarrow> stream_end \<times> CorrelationManager" where
  "stream_failure cd cid e m =
     (case e of
        CancelledError t \<Rightarrow> (StreamRaised e, m)
      | _ \<Rightarrow>
        (case exn_str (cd_validation_str cd) e of
           Inl x \<Rightarrow> (StreamRaised x, m)
         | Inr s \<Rightarrow>
             let err = A2AClientError (''Streaming request failed: '' @ s)
             in (StreamRaised err, snd (cm_complete_with_exception cid err m))))"

fun stream_iterate ::
  "codec \<Rightarrow> string \<Rightarrow> nat \<Rightarrow> stream_turn list \<Rightarrow> CorrelationManager \<Rightarrow>
   Event list \<times> stream_end \<times> CorrelationManager" where
  "stream_iterate cd cid g [] m = ([], StreamWaiting, m)"
| "stream_iterate cd cid g (tn # tns) m =
     (let m1 = corr_run (tn_before tn) m
      in if sf_done (stream_at m1 g) then ([], StreamEnded, m1)
         else
           let m2 = corr_run (tn_start tn) m1
           in case fst (sf_get (stream_at m2 g)) of
                Raised e \<Rightarrow> ([], stream_failure cd cid e m2)
              | _ \<Rightarrow>
                (let m3 = corr_run (tn_wait tn) m2
                 in case sf_queue (stream_at m3 g) of
                      ev # q \<Rightarrow>
                        (let (out, rest) = stream_iterate cd cid g tns (update_stream g pop_stream m3)
                         in (ev # out, rest))
                    | [] \<Rightarrow>
                        if sf_done (stream_at m3 g) then ([], StreamEnded, m3)
                        else stream_iterate cd cid g tns m3))"

definition kc_send_message_streaming ::
  "codec \<Rightarrow> MessageSendParams \<Rightarrow> call_env \<Rightarrow> stream_turn list \<Rightarrow> kafka_client \<Rightarrow>
   (Event list \<times> stream_end) \<times> kafka_client" where
  "kc_send_message_streaming cd request env turns c =
     (case send_request ''message_send'' (dump_send_params cd request) True env c of
        (Inl e, c1) \<Rightarrow> (([], StreamRaised e), c1)
      | (Inr cid, c1) \<Rightarrow>
          (let (g, m) = cm_register_streaming cid (kc_corr c1);
               (out, en, m') = stream_iterate cd cid g turns m
           in ((out, en), c1\<lparr>kc_corr := m'\<rparr>)))"

subsection \<open>Lemmas on topics\<close>

definition valid_topic :: "string \<Rightarrow> bool" where
  "valid_topic t \<longleftrightarrow> t \<noteq> [] \<and> length t \<le> 249 \<and> list_all topic_char t"

lemma topic_char_underscore: "topic_char CHR ''_''"
  by (simp add: topic_char_def)

lemma topic_chars_default: "list_all topic_char ''unknown_agent''"
  by code_simp

lemma list_all_default_take:
  "list_all P d \<Longrightarrow> list_all P xs \<Longrightarrow>
   list_all P (let s = xs; s = (if s = [] then d else s) in if length s > n then take n s else s)"
  by (auto simp: Let_def list_all_iff dest: in_set_takeD)

lemma sanitize_topic_chars: "list_all topic_char (sanitize_topic_name name)"
proof -
  have "list_all topic_char (map (\<lambda>c. if topic_char c then c else CHR ''_'') name)"
    by (induction name) (simp_all add: topic_char_underscore)
  from list_all_default_take [OF topic_chars_default this] show ?thesis
    unfolding sanitize_topic_name_def .
qed

lemma sanitize_topic_length: "sanitize_topic_name name \<noteq> [] \<and> length (sanitize_topic_name name) \<le> 200"
  by (auto simp: sanitize_topic_name_def Let_def)

lemma sanitize_topic_each:
  "if name = [] then sanitize_topic_name name = ''unknown_agent''
   else length (sanitize_topic_name name) = min 200 (length name) \<and>
        (\<forall>i < length (sanitize_topic_name name).
           sanitize_topic_name name ! i = (if topic_char (name ! i) then name ! i else CHR ''_''))"
  by (auto simp: sanitize_topic_name_def Let_def)

lemma sanitize_topic_unchanged:
  "name \<noteq> [] \<Longrightarrow> length name \<le> 200 \<Longrightarrow> list_all topic_char name \<Longrightarrow> sanitize_topic_name name = name"
  by (auto simp: sanitize_topic_name_def Let_def list_all_iff intro: map_idI)

lemma sanitize_topic_idempotent: "sanitize_topic_name (sanitize_topic_name name) = sanitize_topic_name name"
  using sanitize_topic_chars sanitize_topic_length by (intro sanitize_topic_unchanged) auto

subsection \<open>Lemmas on single calls\<close>

lemma truthy_Some_append [simp]: "truthy (Some (xs @ x # ys))"
  by simp

lemma await_reply_outcome:
  assumes "corr_ok m" and "Register (ce_cid env) \<notin> set (ce_waiting env)"
  shows "fst (await_reply what env m) =
    (case first_outcome (ce_cid env) (length (cm_futures m)) (ce_waiting env) of
       FResult r \<Rightarrow> Inr r
     | FError e \<Rightarrow> Inl e
     | FCancelled \<Rightarrow> Inl (CancelledError [])
     | FPending \<Rightarrow> Inl (A2AClientError (what @ '' timed out after '' @ ce_timeout env @ '' seconds'')))"
proof -
  have f: "fst (cm_register (ce_cid env) m) = length (cm_futures m)"
    by (simp add: cm_register_def Let_def)
  have "cm_futures (corr_run (ce_waiting env) (snd (cm_register (ce_cid env) m))) ! length (cm_futures m) =
      first_outcome (ce_cid env) (length (cm_futures m)) (ce_waiting env)"
    using waiting_run [OF waiting_register [OF assms(1), of "ce_cid env"] assms(2)] f by simp
  with f show ?thesis
    by (cases "cm_register (ce_cid env) m")
       (auto simp: await_reply_def Let_def split: fut.splits prod.splits)
qed

lemma await_reply_ok: "corr_ok m \<Longrightarrow> corr_ok (snd (await_reply what env m))"
  using corr_ok_register [of m "ce_cid env"]
    corr_ok_run [of "snd (cm_register (ce_cid env) m)" "ce_waiting env"]
    corr_ok_apply [of _ "CancelFuture (length (cm_futures m))"]
    corr_ok_apply [of _ "CompleteException (ce_cid env) _"]
  by (cases "cm_register (ce_cid env) m")
     (auto simp: await_reply_def cm_register_def Let_def split: fut.splits)

definition kc_ready :: "kafka_client \<Rightarrow> bool" where
  "kc_ready c \<longleftrightarrow> kc_running c \<and> kc_producer c \<noteq> NoEndpoint \<and> corr_ok (kc_corr c)"

lemma kafka_call_outcome:
  assumes "kc_ready c" and "ce_outcome env = Acknowledged" and "Register (ce_cid env) \<notin> set (ce_waiting env)"
  shows "fst (kafka_call what method params env c) =
    (case first_outcome (ce_cid env) (length (cm_futures (corr_run (ce_sending env) (kc_corr c)))) (ce_waiting env) of
       FResult r \<Rightarrow> Inr r
     | FError e \<Rightarrow> Inl e
     | FCancelled \<Rightarrow> Inl (CancelledError [])
     | FPending \<Rightarrow> Inl (A2AClientError (what @ '' timed out after '' @ ce_timeout env @ '' seconds'')))"
proof -
  have "corr_ok (corr_run (ce_sending env) (kc_corr c))"
    using assms(1) by (simp add: kc_ready_def corr_ok_run)
  from await_reply_outcome [OF this assms(3), of what] assms(1,2) show ?thesis
    by (simp add: kafka_call_def send_request_def kc_ready_def Let_def split_beta)
qed

subsection \<open>Lemmas on streams\<close>

fun closes :: "string \<Rightarrow> corr_op \<Rightarrow> bool" where
  "closes cid (CompleteStreaming c) \<longleftrightarrow> c = cid"
| "closes cid (CompleteException c e) \<longleftrightarrow> c = cid"
| "closes cid CancelAll \<longleftrightarrow> True"
| "closes cid op \<longleftrightarrow> False"

text \<open>The replies that reach the stream: those before it is closed.\<close>

fun stream_accepted :: "string \<Rightarrow> corr_op list \<Rightarrow> Event list" where
  "stream_accepted cid [] = []"
| "stream_accepted cid (op # ops) =
     (if closes cid op then []
      else (case op of
              Complete c r \<Rightarrow> if c = cid then r # stream_accepted cid ops else stream_accepted cid ops
            | _ \<Rightarrow> stream_accepted cid ops))"

definition turn_ops :: "stream_turn \<Rightarrow> corr_op list" where
  "turn_ops tn = tn_before tn @ tn_start tn @ tn_wait tn"

definition schedule_ops :: "stream_turn list \<Rightarrow> corr_op list" where
  "schedule_ops tns = concat (map turn_ops tns)"

lemma schedule_ops_simps [simp]:
  "schedule_ops [] = []"
  "schedule_ops (tn # tns) = turn_ops tn @ schedule_ops tns"
  by (simp_all add: schedule_ops_def)

lemma stream_run_done [simp]: "sf_done s \<Longrightarrow> stream_run cid ops s = s"
  by (cases ops) auto

lemma effect_open:
  "\<not> closes cid op \<Longrightarrow> sf_done (stream_effect cid op s) = sf_done s \<and>
     sf_exception (stream_effect cid op s) = sf_exception s"
  by (cases op) (auto simp: sf_put_def)

lemma effect_closes: "closes cid op \<Longrightarrow> sf_done (stream_effect cid op s) \<and> sf_queue (stream_effect cid op s) = sf_queue s"
  by (cases op) (auto simp: sf_set_done_def sf_set_exception_def)

lemma stream_run_queue:
  "sf_queue (stream_run cid ops s) = sf_queue s @ (if sf_done s then [] else stream_accepted cid ops)"
proof (induction ops arbitrary: s)
  case (Cons op ops)
  show ?case
  proof (cases "sf_done s")
    case False
    show ?thesis
    proof (cases "closes cid op")
      case True
      with False effect_closes [OF True, of s] show ?thesis by simp
    next
      case o: False
      with False effect_open [OF o, of s] Cons.IH [of "stream_effect cid op s"] show ?thesis
        by (cases op) (auto simp: sf_put_def)
    qed
  qed simp
qed simp

lemma stream_run_open:
  "\<forall>op \<in> set ops. \<not> closes cid op \<Longrightarrow>
   sf_done (stream_run cid ops s) = sf_done s \<and> sf_exception (stream_run cid ops s) = sf_exception s"
proof (induction ops arbitrary: s)
  case (Cons op ops)
  with effect_open [of cid op s] show ?case by simp
qed simp

lemma stream_run_sound:
  "(sf_exception s \<noteq> None \<longrightarrow> sf_done s) \<Longrightarrow>
   sf_exception (stream_run cid ops s) \<noteq> None \<Longrightarrow> sf_done (stream_run cid ops s)"
proof (induction ops arbitrary: s)
  case (Cons op ops)
  show ?case
  proof (cases "sf_done s")
    case False
    have "sf_exception (stream_effect cid op s) \<noteq> None \<longrightarrow> sf_done (stream_effect cid op s)"
      using Cons.prems(1) False effect_closes [of cid op s] effect_open [of cid op s] by (cases "closes cid op") auto
    with Cons.IH [of "stream_effect cid op s"] Cons.prems(2) False show ?thesis by simp
  qed simp
qed simp

lemma pop_stream_simps [simp]:
  "sf_done (pop_stream s) = sf_done s"
  "sf_exception (pop_stream s) = sf_exception s"
  "sf_queue (pop_stream s) = tl (sf_queue s)"
  by (simp_all add: pop_stream_def)

lemma stream_known_pop:
  "stream_known cid g m \<Longrightarrow>
   stream_known cid g (update_stream g pop_stream m) \<and>
   stream_at (update_stream g pop_stream m) g = pop_stream (stream_at m g)"
  by (auto simp: stream_known_def stream_at_def update_stream_nth corr_ok_def)

text \<open>One turn, seen through the state of the stream.\<close>

lemma turn_streams:
  assumes "stream_known cid g m" and "id_fresh cid (turn_ops tn)"
  defines "s \<equiv> stream_at m g" and "m1 \<equiv> corr_run (tn_before tn) m"
  defines "m2 \<equiv> corr_run (tn_start tn) m1"
  defines "m3 \<equiv> corr_run (tn_wait tn) m2"
  shows "stream_at m1 g = stream_run cid (tn_before tn) s \<and> stream_known cid g m1"
    and "stream_at m2 g = stream_run cid (tn_before tn @ tn_start tn) s \<and> stream_known cid g m2"
    and "stream_at m3 g = stream_run cid (turn_ops tn) s \<and> stream_known cid g m3"
  using assms stream_known_run [of cid g m "tn_before tn"]
    stream_known_run [of cid g m1 "tn_start tn"] stream_known_run [of cid g m2 "tn_wait tn"]
  by (auto simp: turn_ops_def stream_run_append)

lemma stream_iterate_prefix:
  "stream_known cid g m \<Longrightarrow> id_fresh cid (schedule_ops tns) \<Longrightarrow>
   prefix (fst (stream_iterate cd cid g tns m)) (sf_queue (stream_run cid (schedule_ops tns) (stream_at m g)))"
proof (induction tns arbitrary: m)
  case (Cons tn tns)
  let ?s = "stream_at m g"
  let ?m2 = "corr_run (tn_start tn) (corr_run (tn_before tn) m)"
  let ?m3 = "corr_run (tn_wait tn) ?m2"
  have fresh: "id_fresh cid (turn_ops tn)" "id_fresh cid (schedule_ops tns)" using Cons.prems(2) by simp_all
  note t = turn_streams [OF Cons.prems(1) fresh(1)]
  have s3: "stream_run cid (schedule_ops (tn # tns)) ?s = stream_run cid (schedule_ops tns) (stream_at ?m3 g)"
    using t(3) by (simp add: stream_run_append)
  have pop: "prefix (fst (stream_iterate cd cid g tns (update_stream g pop_stream ?m3)))
      (tl (sf_queue (stream_at ?m3 g)) @ (if sf_done (stream_at ?m3 g) then [] else stream_accepted cid (schedule_ops tns)))"
    using Cons.IH [of "update_stream g pop_stream ?m3"] stream_known_pop [of cid g ?m3] t(3) fresh(2)
    by (simp add: stream_run_queue)
  have go: "prefix (fst (stream_iterate cd cid g tns ?m3)) (sf_queue (stream_run cid (schedule_ops tns) (stream_at ?m3 g)))"
    using Cons.IH [of ?m3] t(3) fresh(2) by simp
  show ?case
    unfolding s3 using pop go
    by (auto simp: Let_def stream_run_queue split_beta split: await.splits list.splits)
qed simp

lemma stream_iterate_no_error:
  "stream_known cid g m \<Longrightarrow> id_fresh cid (schedule_ops tns) \<Longrightarrow>
   (sf_exception (stream_at m g) \<noteq> None \<longrightarrow> sf_done (stream_at m g)) \<Longrightarrow> \<forall>tn \<in> set tns. tn_start tn = [] \<Longrightarrow>
   fst (snd (stream_iterate cd cid g tns m)) \<in> {StreamEnded, StreamWaiting}"
proof (induction tns arbitrary: m)
  case (Cons tn tns)
  let ?m1 = "corr_run (tn_before tn) m"
  let ?m3 = "corr_run (tn_wait tn) ?m1"
  have fresh: "id_fresh cid (turn_ops tn)" "id_fresh cid (schedule_ops tns)" using Cons.prems(2) by simp_all
  have st: "tn_start tn = []" "\<forall>tn \<in> set tns. tn_start tn = []" using Cons.prems(4) by simp_all
  note t = turn_streams [OF Cons.prems(1) fresh(1), unfolded st corr_run_simps]
  have sound: "sf_exception (stream_at ?m1 g) \<noteq> None \<longrightarrow> sf_done (stream_at ?m1 g)"
      "sf_exception (stream_at ?m3 g) \<noteq> None \<longrightarrow> sf_done (stream_at ?m3 g)"
    using t(1,3) stream_run_sound [OF Cons.prems(3)] by simp_all
  have go: "fst (snd (stream_iterate cd cid g tns m')) \<in> {StreamEnded, StreamWaiting}"
    if "m' = ?m3 \<or> m' = update_stream g pop_stream ?m3" for m'
    using Cons.IH [of m'] that t(3) stream_known_pop [of cid g ?m3] fresh(2) sound(2) st(2) by auto
  show ?case
    using go [of ?m3] go [of "update_stream g pop_stream ?m3"] sound(1) st(1)
    by (auto simp: Let_def split_beta sf_get_def split: await.splits list.splits option.splits)
qed simp

text \<open>A turn that delivers one reply.\<close>

definition delivers :: "string \<Rightarrow> Event \<Rightarrow> stream_turn \<Rightarrow> bool" where
  "delivers cid ev tn \<longleftrightarrow>
     (\<forall>op \<in> set (turn_ops tn). \<not> closes cid op) \<and> stream_accepted cid (turn_ops tn) = [ev]"

lemma turn_delivers:
  assumes "stream_known cid g m" and "id_fresh cid (turn_ops tn)" and "delivers cid ev tn"
    and "\<not> sf_done (stream_at m g)" and "sf_exception (stream_at m g) = None" and "sf_queue (stream_at m g) = []"
  shows "\<exists>m'. stream_iterate cd cid g (tn # tns) m =
      (let (out, rest) = stream_iterate cd cid g tns m' in (ev # out, rest)) \<and>
    stream_known cid g m' \<and> \<not> sf_done (stream_at m' g) \<and> sf_exception (stream_at m' g) = None \<and>
    sf_queue (stream_at m' g) = []"
proof -
  let ?m1 = "corr_run (tn_before tn) m"
  let ?m2 = "corr_run (tn_start tn) ?m1"
  let ?m3 = "corr_run (tn_wait tn) ?m2"
  note t = turn_streams [OF assms(1,2)]
  have no: "\<forall>op \<in> set (tn_before tn). \<not> closes cid op" "\<forall>op \<in> set (tn_before tn @ tn_start tn). \<not> closes cid op"
      "\<forall>op \<in> set (turn_ops tn). \<not> closes cid op"
    using assms(3) by (auto simp: delivers_def turn_ops_def)
  have d: "\<not> sf_done (stream_at ?m1 g)" "sf_exception (stream_at ?m2 g) = None"
    "\<not> sf_done (stream_at ?m3 g)" "sf_exception (stream_at ?m3 g) = None"
    using t stream_run_open [OF no(1)] stream_run_open [OF no(2)] stream_run_open [OF no(3)] assms(4,5) by simp_all
  have q: "sf_queue (stream_at ?m3 g) = [ev]"
    using t(3) assms(3,4,6) by (simp add: stream_run_queue delivers_def)
  have g: "fst (sf_get (stream_at ?m2 g)) \<noteq> Raised e" for e
    using d(2) by (simp add: sf_get_def split: list.splits)
  show ?thesis
    using d q g stream_known_pop [of cid g ?m3] t(3)
    by (intro exI [of _ "update_stream g pop_stream ?m3"])
       (auto simp: Let_def split: await.splits)
qed

definition open_empty :: "string \<Rightarrow> nat \<Rightarrow> CorrelationManager \<Rightarrow> bool" where
  "open_empty cid g m \<longleftrightarrow>
     stream_known cid g m \<and> \<not> sf_done (stream_at m g) \<and> sf_exception (stream_at m g) = None \<and>
     sf_queue (stream_at m g) = []"

lemma stream_iterate_paced:
  "list_all2 (delivers cid) evs turns \<Longrightarrow> open_empty cid g m \<Longrightarrow> id_fresh cid (schedule_ops turns) \<Longrightarrow>
   (\<And>m. open_empty cid g m \<Longrightarrow> \<exists>m'. stream_iterate cd cid g rest m = ([], StreamEnded, m')) \<Longrightarrow>
   \<exists>m'. stream_iterate cd cid g (turns @ rest) m = (evs, StreamEnded, m')"
proof (induction evs turns arbitrary: m rule: list_all2_induct)
  case (Cons ev evs tn turns)
  have fresh: "id_fresh cid (turn_ops tn)" "id_fresh cid (schedule_ops turns)" using Cons.prems by simp_all
  from turn_delivers [OF _ fresh(1) Cons.hyps(1), of g m cd "turns @ rest"] Cons.prems(1)
  obtain m' where m': "stream_iterate cd cid g ((tn # turns) @ rest) m =
      (let (out, rest) = stream_iterate cd cid g (turns @ rest) m' in (ev # out, rest))"
    "open_empty cid g m'" unfolding open_empty_def by auto
  from Cons.IH [OF m'(2) fresh(2) Cons.prems(3)] m'(1) show ?case by auto
qed simp

text \<open>The last turn: the stream is closed before the test or while \<open>get()\<close> waits.\<close>

lemma closing_run:
  "\<exists>op \<in> set ops. closes cid op \<Longrightarrow> sf_done (stream_run cid ops s)"
proof (induction ops arbitrary: s)
  case (Cons op ops)
  then show ?case using effect_closes [of cid op s] by (cases "closes cid op") auto
qed simp

lemma last_turn_ends:
  assumes "open_empty cid g m" and "closes cid op" and "op \<noteq> Register cid" "op \<noteq> RegisterStreaming cid"
    and "tn = \<lparr>tn_before = [op], tn_start = [], tn_wait = []\<rparr> \<or> tn = \<lparr>tn_before = [], tn_start = [], tn_wait = [op]\<rparr>"
  shows "\<exists>m'. stream_iterate cd cid g [tn] m = ([], StreamEnded, m')"
proof -
  have k: "stream_known cid g m" "\<not> sf_done (stream_at m g)" "sf_exception (stream_at m g) = None"
    "sf_queue (stream_at m g) = []" using assms(1) by (simp_all add: open_empty_def)
  have "id_fresh cid [op]" using assms(3,4) by simp
  from stream_known_run [OF k(1) this] k closing_run [of "[op]" cid] assms(2) effect_closes [OF assms(2), of "stream_at m g"]
  have "sf_done (stream_at (corr_apply op m) g)" "sf_queue (stream_at (corr_apply op m) g) = []" by simp_all
  with assms(5) k(2-4) show ?thesis by (auto simp: Let_def sf_get_def)
qed

lemma stream_iterate_closed:
  assumes "stream_known cid g m" and "id_fresh cid (turn_ops tn)" and "\<exists>op \<in> set (tn_before tn). closes cid op"
  shows "\<exists>m'. stream_iterate cd cid g (tn # tns) m = ([], StreamEnded, m')"
proof -
  from closing_run [OF assms(3)] turn_streams(1) [OF assms(1,2)] show ?thesis by (simp add: Let_def)
qed

subsection \<open>Registrations are released\<close>

lemma unregistered_run:
  "map_of (cm_pending m) cid = None \<Longrightarrow> Register cid \<notin> set ops \<Longrightarrow> map_of (cm_pending (corr_run ops m)) cid = None"
proof (induction ops arbitrary: m)
  case (Cons op ops)
  have "map_of (cm_pending (corr_apply op m)) cid = None"
    using Cons.prems
    by (cases op) (auto simp: cm_register_def cm_register_streaming_def Let_def update_conv' delete_conv')
  with Cons show ?case by simp
qed simp

lemma released_run:
  "waiting cid f m \<Longrightarrow> Register cid \<notin> set ops \<Longrightarrow> CancelFuture f \<notin> set ops \<Longrightarrow>
   fut_done (first_outcome cid f ops) \<Longrightarrow> map_of (cm_pending (corr_run ops m)) cid = None"
proof (induction ops arbitrary: m)
  case (Cons op ops)
  show ?case
  proof (cases "fut_done (outcome_of cid f op)")
    case True
    have "map_of (cm_pending (corr_apply op m)) cid = None"
      using True Cons.prems(3) by (cases op) (auto simp: fut_done_def delete_conv' split: if_splits)
    with unregistered_run [of "corr_apply op m" cid ops] Cons.prems(2) show ?thesis by simp
  next
    case False
    moreover have "op \<noteq> Register cid" using Cons.prems(2) by auto
    ultimately show ?thesis using Cons waiting_apply [OF Cons.prems(1), of op] by simp
  qed
qed (simp add: fut_done_def)

lemma await_reply_released:
  assumes "corr_ok m" and "Register (ce_cid env) \<notin> set (ce_waiting env)"
    and "CancelFuture (length (cm_futures m)) \<notin> set (ce_waiting env)"
  shows "map_of (cm_pending (snd (await_reply what env m))) (ce_cid env) = None"
proof -
  obtain f m1 where r: "cm_register (ce_cid env) m = (f, m1)" by fastforce
  have f: "f = length (cm_futures m)" using r by (simp add: cm_register_def Let_def)
  have w: "waiting (ce_cid env) f m1" using waiting_register [OF assms(1), of "ce_cid env"] r by simp
  show ?thesis
  proof (cases "fut_done (first_outcome (ce_cid env) f (ce_waiting env))")
    case True
    with released_run [OF w assms(2)] assms(3) f waiting_run [OF w assms(2)] show ?thesis
      by (auto simp: await_reply_def r fut_done_def Let_def split: fut.splits)
  next
    case False
    with waiting_run [OF w assms(2)] show ?thesis
      by (auto simp: await_reply_def r fut_done_def Let_def delete_conv')
  qed
qed

definition timed_out :: "string \<Rightarrow> call_env \<Rightarrow> exn" where
  "timed_out what env = A2AClientError (what @ '' timed out after '' @ ce_timeout env @ '' seconds'')"

fun call_result :: "exn \<Rightarrow> fut \<Rightarrow> exn + Event" where
  "call_result late (FResult r) = Inr r"
| "call_result late (FError e) = Inl e"
| "call_result late FCancelled = Inl (CancelledError [])"
| "call_result late FPending = Inl late"

definition call_future :: "call_env \<Rightarrow> kafka_client \<Rightarrow> nat" where
  "call_future env c = length (cm_futures (corr_run (ce_sending env) (kc_corr c)))"

lemma kafka_call_result:
  assumes "kc_ready c" and "ce_outcome env = Acknowledged" and "Register (ce_cid env) \<notin> set (ce_waiting env)"
  shows "fst (kafka_call what method params env c) =
    call_result (timed_out what env) (first_outcome (ce_cid env) (call_future env c) (ce_waiting env))"
  using kafka_call_outcome [OF assms, of what "method" "params"]
  by (simp add: call_future_def timed_out_def split: fut.splits)

lemma kafka_call_frame:
  assumes "kc_ready c" and "ce_outcome env = Acknowledged" and "Register (ce_cid env) \<notin> set (ce_waiting env)"
    and "CancelFuture (call_future env c) \<notin> set (ce_waiting env)"
  shows "kc_sent (snd (kafka_call what method params env c)) = kc_sent c @ [request_record method params False env c] \<and>
    map_of (cm_pending (kc_corr (snd (kafka_call what method params env c)))) (ce_cid env) = None \<and>
    kc_ready (snd (kafka_call what method params env c))"
proof -
  have ok: "corr_ok (corr_run (ce_sending env) (kc_corr c))"
    using assms(1) by (simp add: kc_ready_def corr_ok_run)
  from await_reply_released [OF ok assms(3)] await_reply_ok [OF ok, of what env] assms show ?thesis
    by (auto simp: kafka_call_def send_request_def kc_ready_def Let_def split_beta call_future_def)
qed

subsection \<open>Sample client\<close>

definition sample_codec :: codec where
  "sample_codec =
     \<lparr>cd_task = (\<lambda>v. if v = PyStr ''task'' then Inr sample_task else Inl ValidationError),
      cd_status = (\<lambda>v. Inl ValidationError), cd_artifact = (\<lambda>v. Inl ValidationError),
      cd_message = (\<lambda>v. if v = PyStr ''message'' then Inr sample_message else Inl ValidationError),
      cd_send_params = (\<lambda>v. if v = PyStr ''params''
        then Inr \<lparr>msp_configuration = None, msp_message = sample_message, msp_metadata = None\<rparr>
        else Inl ValidationError),
      cd_query_params = (\<lambda>v. Inl ValidationError), cd_id_params = (\<lambda>v. Inl ValidationError),
      cd_get_config = (\<lambda>v. Inl ValidationError), cd_list_config = (\<lambda>v. Inl ValidationError),
      cd_delete_config = (\<lambda>v. Inl ValidationError),
      dump_event = (\<lambda>ev. case ev of EvTask t \<Rightarrow> PyStr ''task'' | EvMessage m \<Rightarrow> PyStr ''message'' | _ \<Rightarrow> PyNone),
      dump_config = (\<lambda>c. PyNone), dump_send_params = (\<lambda>p. PyStr ''params''), dump_query_params = (\<lambda>p. PyNone),
      dump_id_params = (\<lambda>p. PyNone), dump_get_config = (\<lambda>p. PyNone), dump_list_config = (\<lambda>p. PyNone),
      dump_delete_config = (\<lambda>p. PyNone), cd_str = (\<lambda>v. []), cd_validation_str = ''invalid''\<rparr>"

definition sample_client :: kafka_client where
  "sample_client =
     snd (kc_start sample_codec Launched Launched
           (kc_new ''my agent'' PyNone ''a2a-requests'' ''a2a-reply'' None None ''abcd1234''))"

definition sample_env :: "corr_op list \<Rightarrow> corr_op list \<Rightarrow> call_env" where
  "sample_env sending waiting_ops =
     \<lparr>ce_cid = ''r1'', ce_trace_id = None, ce_outcome = Acknowledged, ce_sending = sending,
      ce_waiting = waiting_ops, ce_timeout = ''30.0''\<rparr>"

lemma sample_env_simps [simp]:
  "ce_cid (sample_env a b) = ''r1''" "ce_outcome (sample_env a b) = Acknowledged"
  "ce_sending (sample_env a b) = a" "ce_waiting (sample_env a b) = b"
  by (simp_all add: sample_env_def)

lemma kc_prepare_simps [simp]:
  "kc_running (kc_prepare c) = kc_running c" "kc_corr (kc_prepare c) = kc_corr c"
  "kc_producer (kc_prepare c) = kc_producer c" "kc_consumer (kc_prepare c) = kc_consumer c"
  "kc_sent (kc_prepare c) = kc_sent c"
  by (simp_all add: kc_prepare_def Let_def)

lemma sample_client_ready [simp]: "kc_ready sample_client" "kc_corr sample_client = cm_new" "kc_running sample_client"
  by (simp_all add: sample_client_def kc_start_def kc_new_def kc_ready_def corr_ok_new Let_def)

definition sample_request :: MessageSendParams where
  "sample_request = \<lparr>msp_configuration = None, msp_message = sample_message, msp_metadata = None\<rparr>"

definition turn :: "corr_op list \<Rightarrow> corr_op list \<Rightarrow> stream_turn" where
  "turn before waits = \<lparr>tn_before = before, tn_start = [], tn_wait = waits\<rparr>"

lemma streaming_call:
  assumes "kc_ready c" and "ce_outcome env = Acknowledged"
    and "map_of (cm_pending (corr_run (ce_sending env) (kc_corr c))) (ce_cid env) = None"
  shows "\<exists>g m. open_empty (ce_cid env) g m \<and>
    (\<forall>turns. fst (kc_send_message_streaming cd request env turns c) =
       (fst (stream_iterate cd (ce_cid env) g turns m), fst (snd (stream_iterate cd (ce_cid env) g turns m))))"
proof -
  let ?m0 = "corr_run (ce_sending env) (kc_corr c)"
  obtain g m where r: "cm_register_streaming (ce_cid env) ?m0 = (g, m)" by fastforce
  have "corr_ok ?m0" using assms(1) by (simp add: kc_ready_def corr_ok_run)
  from stream_known_register [OF this assms(3)] r
  have "open_empty (ce_cid env) g m" by (simp add: open_empty_def sf_new_def)
  moreover have "fst (kc_send_message_streaming cd request env turns c) =
       (fst (stream_iterate cd (ce_cid env) g turns m), fst (snd (stream_iterate cd (ce_cid env) g turns m)))" for turns
    using assms(1,2) r
    by (simp add: kc_send_message_streaming_def send_request_def kc_ready_def Let_def split_beta)
  ultimately show ?thesis by blast
qed

subsection \<open>Properties\<close>

text \<open>
  A unary call over Kafka sends one record and answers with the first outcome that concerns its
  correlation id while it waits: the reply, the error of an error reply, cancellation when the
  transport stops, or the time-out. Afterwards its registration is gone.
\<close>

theorem unary_call_outcome:
  assumes "kc_ready c" and "ce_outcome env = Acknowledged" and "Register (ce_cid env) \<notin> set (ce_waiting env)"
    and "CancelFuture (call_future env c) \<notin> set (ce_waiting env)"
    and "kc_send_message cd request env c = (r, c')"
  shows "r = call_result (timed_out ''Request'' env)
                (first_outcome (ce_cid env) (call_future env c) (ce_waiting env)) \<and>
         kc_sent c' = kc_sent c @ [request_record ''message_send'' (dump_send_params cd request) False env c] \<and>
         map_of (cm_pending (kc_corr c')) (ce_cid env) = None \<and> kc_ready c'"
  using kafka_call_result [OF assms(1-3)] kafka_call_frame [OF assms(1-4)] assms(5)
  by (metis fst_conv kc_send_message_def snd_conv)

theorem unary_call_outcome_witness:
  "fst (kc_send_message sample_codec sample_request
          (sample_env [] [Complete ''r2'' (sample_reply ''m2''), Complete ''r1'' (sample_reply ''m1'')]) sample_client) =
   Inr (sample_reply ''m1'')"
proof -
  let ?env = "sample_env [] [Complete ''r2'' (sample_reply ''m2''), Complete ''r1'' (sample_reply ''m1'')]"
  obtain r c' where "kc_send_message sample_codec sample_request ?env sample_client = (r, c')" by fastforce
  with unary_call_outcome [of sample_client ?env sample_codec sample_request r c'] show ?thesis
    by (simp add: fut_done_def)
qed

text \<open>
  A reply that the consumer processes before the call has registered its correlation id, which
  happens only after the broker acknowledged the request, is lost: whatever was processed
  while the request was being sent, the call waits for a later reply and otherwise times out.
\<close>

theorem early_reply_lost:
  assumes "kc_ready c" and "ce_outcome env = Acknowledged" and "Complete (ce_cid env) ev \<in> set (ce_sending env)"
    and "Register (ce_cid env) \<notin> set (ce_waiting env)"
    and "\<forall>op \<in> set (ce_waiting env). outcome_of (ce_cid env) (call_future env c) op = FPending"
  shows "fst (kc_send_message cd request env c) = Inl (timed_out ''Request'' env)"
proof -
  have "first_outcome cid f ops = FPending" if "\<forall>op \<in> set ops. outcome_of cid f op = FPending" for cid f ops
    using that by (induction ops) (auto simp: fut_done_def)
  with kafka_call_result [OF assms(1,2,4), of "''Request''"] assms(5) show ?thesis
    by (simp add: kc_send_message_def)
qed

theorem early_reply_lost_witness:
  "fst (kc_send_message sample_codec sample_request (sample_env [Complete ''r1'' (sample_reply ''m1'')] []) sample_client) =
   Inl (timed_out ''Request'' (sample_env [Complete ''r1'' (sample_reply ''m1'')] []))"
  by (rule early_reply_lost [of _ _ "sample_reply ''m1''"]) simp_all

text \<open>
  Claim C19. A stream yields, in order and without repetition, a prefix of the replies that reached its
  correlation id before it was closed; when \<open>wait_for\<close> starts \<open>get()\<close> at once (Python 3.12 on), an
  error reply never raises in the caller: the stream just ends.
\<close>

theorem stream_yields_prefix:
  assumes "kc_ready c" and "ce_outcome env = Acknowledged"
    and "map_of (cm_pending (corr_run (ce_sending env) (kc_corr c))) (ce_cid env) = None"
    and "id_fresh (ce_cid env) (schedule_ops turns)"
    and "kc_send_message_streaming cd request env turns c = ((out, en), c')"
  shows "prefix out (stream_accepted (ce_cid env) (schedule_ops turns)) \<and>
         ((\<forall>tn \<in> set turns. tn_start tn = []) \<longrightarrow> en \<in> {StreamEnded, StreamWaiting})"
proof -
  obtain g m where o: "open_empty (ce_cid env) g m" and "fst (kc_send_message_streaming cd request env turns c) =
      (fst (stream_iterate cd (ce_cid env) g turns m), fst (snd (stream_iterate cd (ce_cid env) g turns m)))"
    using streaming_call [OF assms(1-3)] by blast
  with assms(5) have it: "fst (stream_iterate cd (ce_cid env) g turns m) = out"
    "fst (snd (stream_iterate cd (ce_cid env) g turns m)) = en" by simp_all
  have k: "stream_known (ce_cid env) g m" using o by (simp add: open_empty_def)
  show ?thesis
    using stream_iterate_prefix [OF k assms(4), of cd] stream_iterate_no_error [OF k assms(4), of cd] it o
    by (simp add: stream_run_queue open_empty_def)
qed

theorem stream_yields_prefix_witness:
  "\<exists>out en c'. kc_send_message_streaming sample_codec sample_request (sample_env [] [])
       [turn [] [Complete ''r1'' (sample_reply ''m1'')], turn [CompleteException ''r1'' (A2AClientError ''no'')] []]
       sample_client = ((out, en), c') \<and>
     prefix out [sample_reply ''m1''] \<and> en \<in> {StreamEnded, StreamWaiting}"
proof -
  let ?turns = "[turn [] [Complete ''r1'' (sample_reply ''m1'')], turn [CompleteException ''r1'' (A2AClientError ''no'')] []]"
  obtain out en c' where
    r: "kc_send_message_streaming sample_codec sample_request (sample_env [] []) ?turns sample_client = ((out, en), c')"
    by (metis prod.exhaust)
  from stream_yields_prefix [OF _ _ _ _ r] show ?thesis
    using r by (simp add: cm_new_def turn_ops_def turn_def)
qed

text \<open>
  A stream whose replies are taken one at a time and whose completion signal comes after the
  last was taken yields all of them and ends; but when the completion signal (or an error reply)
  is processed before the caller's next test, whatever is still queued is dropped: a burst that
  arrives at once yields nothing.
\<close>

theorem stream_completion_drops_pending:
  assumes "kc_ready c" and "ce_outcome env = Acknowledged"
    and "map_of (cm_pending (corr_run (ce_sending env) (kc_corr c))) (ce_cid env) = None"
    and "id_fresh (ce_cid env) (schedule_ops turns)" and "list_all2 (delivers (ce_cid env)) evs turns"
  shows "fst (kc_send_message_streaming cd request env (turns @ [turn [CompleteStreaming (ce_cid env)] []]) c) =
           (evs, StreamEnded) \<and>
         fst (kc_send_message_streaming cd request env
                [turn (map (Complete (ce_cid env)) evs @ [CompleteStreaming (ce_cid env)]) []] c) =
           ([], StreamEnded)"
proof -
  let ?cid = "ce_cid env"
  obtain g m where o: "open_empty ?cid g m" and call: "\<And>ts. fst (kc_send_message_streaming cd request env ts c) =
      (fst (stream_iterate cd ?cid g ts m), fst (snd (stream_iterate cd ?cid g ts m)))"
    using streaming_call [OF assms(1-3)] by blast
  have "\<exists>m'. stream_iterate cd ?cid g [turn [CompleteStreaming ?cid] []] m0 = ([], StreamEnded, m')"
    if "open_empty ?cid g m0" for m0
    by (rule last_turn_ends [OF that, of "CompleteStreaming ?cid"]) (simp_all add: turn_def)
  from stream_iterate_paced [OF assms(5) o assms(4) this] obtain m1
    where "stream_iterate cd ?cid g (turns @ [turn [CompleteStreaming ?cid] []]) m = (evs, StreamEnded, m1)" by blast
  moreover obtain m2 where
    "stream_iterate cd ?cid g [turn (map (Complete ?cid) evs @ [CompleteStreaming ?cid]) []] m = ([], StreamEnded, m2)"
    using stream_iterate_closed [of ?cid g m "turn (map (Complete ?cid) evs @ [CompleteStreaming ?cid]) []" cd "[]"] o
    by (auto simp: turn_def turn_ops_def id_fresh_def open_empty_def)
  ultimately show ?thesis by (simp add: call)
qed

theorem stream_completion_drops_pending_witness:
  "fst (kc_send_message_streaming sample_codec sample_request (sample_env [] [])
      [turn [] [Complete ''r1'' (sample_reply ''m1'')], turn [] [Complete ''r1'' (sample_reply ''m2'')],
       turn [CompleteStreaming ''r1''] []] sample_client) = ([sample_reply ''m1'', sample_reply ''m2''], StreamEnded) \<and>
   fst (kc_send_message_streaming sample_codec sample_request (sample_env [] [])
      [turn [Complete ''r1'' (sample_reply ''m1''), Complete ''r1'' (sample_reply ''m2''), CompleteStreaming ''r1''] []]
      sample_client) = ([], StreamEnded)"
  using stream_completion_drops_pending
    [of sample_client "sample_env [] []"
      "[turn [] [Complete ''r1'' (sample_reply ''m1'')], turn [] [Complete ''r1'' (sample_reply ''m2'')]]"
      "[sample_reply ''m1'', sample_reply ''m2'']" sample_codec sample_request]
  by (simp add: cm_new_def turn_ops_def turn_def delivers_def)

text \<open>
  Claim C40. The name of an agent is turned into between 1 and 200 topic characters: the first 200 characters of the name, each
  that is no topic character replaced by an underscore, and \<open>unknown_agent\<close> for the empty name; a valid name is
  kept. The reply topic and the consumer group that \<open>start\<close> generates, the prefix, that name and the instance id
  with dashes between them, are valid Kafka names (1 to 249 topic characters) when the prefix has at most 39 and the
  instance id at most 8 characters (the code takes 8) and both have topic characters only.
\<close>

theorem generated_topics_valid:
  assumes "list_all topic_char (kc_reply_topic_prefix c)" and "list_all topic_char (kc_instance_id c)"
    and "length (kc_reply_topic_prefix c) \<le> 39" and "length (kc_instance_id c) \<le> 8"
    and "kc_reply_topic c = None" and "kc_consumer_group_id c = None"
  shows "\<exists>t g. kc_reply_topic (kc_prepare c) = Some t \<and> valid_topic t \<and>
           kc_consumer_group_id (kc_prepare c) = Some g \<and> valid_topic g \<and>
           (list_all topic_char (kc_agent_name c) \<longrightarrow> kc_agent_name c \<noteq> [] \<longrightarrow> length (kc_agent_name c) \<le> 200 \<longrightarrow>
              t = kc_reply_topic_prefix c @ ''-'' @ kc_agent_name c @ ''-'' @ kc_instance_id c) \<and>
           (\<exists>n. t = kc_reply_topic_prefix c @ ''-'' @ n @ ''-'' @ kc_instance_id c \<and>
                g = ''a2a-client-'' @ n @ ''-'' @ kc_instance_id c \<and>
                n = sanitize_topic_name (kc_agent_name c) \<and> list_all topic_char n \<and> 1 \<le> length n \<and> length n \<le> 200 \<and>
                (if kc_agent_name c = [] then n = ''unknown_agent''
                 else length n = min 200 (length (kc_agent_name c)) \<and>
                      (\<forall>i < length n. n ! i = (if topic_char (kc_agent_name c ! i) then kc_agent_name c ! i else CHR ''_''))))"
proof -
  let ?n = "sanitize_topic_name (kc_agent_name c)"
  have dash: "topic_char CHR ''-''" by (simp add: topic_char_def)
  have group: "list_all topic_char ''a2a-client-''" by code_simp
  have n: "list_all topic_char ?n" "length ?n \<le> 200" "?n \<noteq> []"
    using sanitize_topic_chars sanitize_topic_length by auto
  have "valid_topic (kc_reply_topic_prefix c @ ''-'' @ ?n @ ''-'' @ kc_instance_id c)"
    using assms(1-4) n dash by (simp add: valid_topic_def)
  moreover have "list_all topic_char (''a2a-client-'' @ ?n @ ''-'' @ kc_instance_id c)"
    using assms(2) n dash group unfolding list_all_append by simp
  then have "valid_topic (''a2a-client-'' @ ?n @ ''-'' @ kc_instance_id c)"
    using assms(4) n by (simp add: valid_topic_def)
  moreover have "1 \<le> length ?n" using n(3) by (cases ?n) simp_all
  ultimately show ?thesis
    using assms(5,6) n sanitize_topic_each [of "kc_agent_name c"]
    by (simp add: kc_prepare_def Let_def sanitize_topic_unchanged)
qed

theorem generated_topics_valid_witness:
  "kc_reply_topic (kc_prepare (kc_new ''agent'' PyNone ''a2a-requests'' ''a2a-reply'' None None ''abcd1234'')) =
     Some ''a2a-reply-agent-abcd1234'' \<and> valid_topic ''a2a-reply-agent-abcd1234''"
proof -
  let ?c = "kc_new ''agent'' PyNone ''a2a-requests'' ''a2a-reply'' None None ''abcd1234''"
  have "list_all topic_char ''a2a-reply''" "list_all topic_char ''abcd1234''" "list_all topic_char ''agent''"
    by code_simp+
  with generated_topics_valid [of ?c] show ?thesis by (auto simp: kc_new_def)
qed

lemma kc_stop_with_law:
  assumes "kc_stop_with pe ce c = (r, c')" and "kc_running c"
  shows "\<not> kc_running c' \<and> kc_corr c' = cm_cancel_all (kc_corr c) \<and> (pe = None \<and> ce = None \<longrightarrow> r = Inr () \<and> c' = kc_stop c)"
  using assms by (auto simp: kc_stop_with_def kc_stop_eq Let_def split: option.splits if_splits)

text \<open>
  Claim C18. Stopping a running transport leaves nobody waiting: every registered request is settled (those
  still pending are cancelled), every open stream is done, no registration is left, both Kafka
  objects are stopped, and later requests are refused without being sent. If the \<open>stop()\<close> of the producer or of the consumer
  raises, the exception leaves \<open>stop\<close>, but the requests and streams are settled all the same and
  later requests are refused. Stopping is one step: a call between sending and registering its request is outside the
  statement.
\<close>

theorem stop_settles_everything:
  assumes "kc_running c" and "corr_ok (kc_corr c)"
  shows "(\<forall>cid f. map_of (cm_pending (kc_corr c)) cid = Some f \<longrightarrow>
            fut_done (cm_futures (kc_corr (kc_stop c)) ! f) \<and>
            (cm_futures (kc_corr c) ! f = FPending \<longrightarrow> cm_futures (kc_corr (kc_stop c)) ! f = FCancelled)) \<and>
         (\<forall>cid g. map_of (cm_streaming (kc_corr c)) cid = Some g \<longrightarrow> sf_done (stream_at (kc_corr (kc_stop c)) g)) \<and>
         cm_get_pending_count (kc_corr (kc_stop c)) = 0 \<and>
         kc_producer (kc_stop c) \<in> {NoEndpoint, Stopped} \<and> kc_consumer (kc_stop c) \<in> {NoEndpoint, Stopped} \<and>
         (\<forall>cd request env. kc_send_message cd request env (kc_stop c) =
            (Inl (A2AClientError ''Kafka client transport not started''), kc_stop c)) \<and>
         (\<forall>pe ce r c'. kc_stop_with pe ce c = (r, c') \<longrightarrow>
            kc_corr c' = kc_corr (kc_stop c) \<and> (pe = None \<and> ce = None \<longrightarrow> r = Inr () \<and> c' = kc_stop c) \<and>
            (\<forall>cd request env. kc_send_message cd request env c' =
               (Inl (A2AClientError ''Kafka client transport not started''), c')))"
proof (intro conjI allI impI)
  let ?m = "kc_corr c"
  have m': "kc_corr (kc_stop c) = cm_cancel_all ?m" using assms(1) by (simp add: kc_stop_eq)
  {
    fix cid f assume f: "map_of (cm_pending ?m) cid = Some f"
    have mem: "f \<in> snd ` set (cm_pending ?m)" using f by (rule map_of_snd_mem)
    then have "f < length (cm_futures ?m)" using assms(2) unfolding corr_ok_def refs_below_def by blast
    from cancel_all_futures [OF this] mem
    show "fut_done (cm_futures (kc_corr (kc_stop c)) ! f)"
      and "cm_futures ?m ! f = FPending \<Longrightarrow> cm_futures (kc_corr (kc_stop c)) ! f = FCancelled"
      by (auto simp: m' fut_done_def)
  next
    fix cid g assume g: "map_of (cm_streaming ?m) cid = Some g"
    have mem: "g \<in> snd ` set (cm_streaming ?m)" using g by (rule map_of_snd_mem)
    then have "g < length (cm_streams ?m)" using assms(2) unfolding corr_ok_def refs_below_def by blast
    from cancel_all_streams [OF assms(2) this] mem show "sf_done (stream_at (kc_corr (kc_stop c)) g)"
      by (simp add: m' sf_set_exception_def)
  }
qed (use assms(1) in \<open>auto simp: kc_stop_eq dest!: kc_stop_with_law simp: stop_endpoint_def cm_get_pending_count_def kc_send_message_def
        kafka_call_def send_request_def\<close>)

theorem stop_settles_everything_witness:
  "cm_get_pending_count (kc_corr (kc_stop sample_client)) = 0"
  using stop_settles_everything [of sample_client] by (simp add: corr_ok_new)

text \<open>
  When the reply consumer fails to start, \<open>start\<close> raises but leaves the producer that it has
  started running: it calls \<open>stop\<close>, which does nothing because the transport is not yet
  marked as running, and a later \<open>stop\<close> or \<open>close\<close> does not stop it either.
\<close>

theorem failed_start_leaves_producer:
  assumes "\<not> kc_running c" and "exn_str (cd_validation_str cd) e = Inr text"
  shows "\<exists>c'. kc_start cd Launched (StartFails e) c =
                (Inl (A2AClientError (''Failed to start Kafka client transport: '' @ text)), c') \<and>
              kc_producer c' = Started \<and> kc_stop c' = c'"
  using assms by (simp add: kc_start_def start_failure_def kc_stop_eq Let_def)

theorem failed_start_leaves_producer_witness:
  "\<exists>c'. kc_start sample_codec Launched (StartFails (OtherException ''no broker''))
          (kc_new ''agent'' PyNone ''t'' ''p'' None None ''i'') =
          (Inl (A2AClientError (''Failed to start Kafka client transport: '' @ ''no broker'')), c') \<and>
        kc_producer c' = Started \<and> kc_stop c' = c'"
  by (rule failed_start_leaves_producer) (simp_all add: kc_new_def)

text \<open>
  A push notification configuration never comes back over Kafka: whatever the server replies, the
  get and the list method of the transport end with an exception, and setting a configuration
  only hands the argument back without sending anything.
\<close>

theorem push_configs_never_returned:
  "(\<exists>e. fst (kc_get_task_push_notification_config cd p env c) = Inl e) \<and>
   (\<exists>e. fst (kc_list_task_push_notification_configs cd q env c) = Inl e) \<and>
   kc_set_task_callback config c = (Inr config, c)"
proof -
  have "\<exists>e. fst (expect_reply as_push_config t r) = Inl e" for t r
  proof (cases "fst r")
    case (Inr ev)
    then show ?thesis by (cases ev; cases r) (simp_all add: expect_reply_def)
  qed (cases r, simp add: expect_reply_def)
  moreover have "\<exists>e. fst (expect_reply as_config_list t r) = Inl e" for t r
  proof (cases "fst r")
    case (Inr ev)
    then show ?thesis by (cases ev; cases r) (simp_all add: expect_reply_def)
  qed (cases r, simp add: expect_reply_def)
  ultimately show ?thesis
    by (simp add: kc_get_task_push_notification_config_def kc_list_task_push_notification_configs_def
        kc_set_task_callback_def)
qed

lemma kafka_url_roundtrip:
  assumes "CHR ''/'' \<notin> set servers"
  shows "parse_kafka_url (kafka_scheme @ servers @ ''/'' @ topic) = Inr (servers, topic)"
    and "parse_kafka_url (kafka_scheme @ servers) = Inr (servers, ''a2a-requests'')"
proof -
  have p: "\<forall>c \<in> set servers. c \<noteq> CHR ''/''" using assms by auto
  show "parse_kafka_url (kafka_scheme @ servers @ ''/'' @ topic) = Inr (servers, topic)"
    using p by (simp add: parse_kafka_url_def kafka_scheme_def)
  show "parse_kafka_url (kafka_scheme @ servers) = Inr (servers, ''a2a-requests'')"
    using assms by (simp add: parse_kafka_url_def kafka_scheme_def)
qed

end
