(* ===== verification/HandlerInterface.thy ===== *)
theory HandlerInterface
  imports RequestHandler A2A_Protocol
begin

section \<open>The request handler as an interface (server/request_handlers/request_handler.py)\<close>

text \<open>
  The protocol layers (JSON-RPC, gRPC, REST, Kafka) are written against the abstract class
  \<open>RequestHandler\<close>: the record of its methods over any state. A method returns a value, raises
  or does not return; a streaming method yields events and then ends in one of these ways.
  \<open>default_request_handler\<close> is the SDK's own implementation behind this interface.
\<close>

record 's request_handler =
  rh_class :: string
  rh_get_task :: "TaskQueryParams \<Rightarrow> ServerCallContext \<Rightarrow> 's \<Rightarrow> Task option await \<times> 's"
  rh_cancel_task :: "TaskIdParams \<Rightarrow> ServerCallContext \<Rightarrow> 's \<Rightarrow> Task option await \<times> 's"
  rh_message_send :: "MessageSendParams \<Rightarrow> ServerCallContext \<Rightarrow> 's \<Rightarrow> send_result await \<times> 's"
  rh_message_send_stream :: "MessageSendParams \<Rightarrow> ServerCallContext \<Rightarrow> 's \<Rightarrow> (Event list \<times> unit await) \<times> 's"
  rh_set_config :: "TaskPushNotificationConfig \<Rightarrow> ServerCallContext \<Rightarrow> 's \<Rightarrow> TaskPushNotificationConfig await \<times> 's"
  rh_get_config :: "get_config_params \<Rightarrow> ServerCallContext \<Rightarrow> 's \<Rightarrow> TaskPushNotificationConfig await \<times> 's"
  rh_resubscribe :: "TaskIdParams \<Rightarrow> ServerCallContext \<Rightarrow> 's \<Rightarrow> (Event list \<times> unit await) \<times> 's"
  rh_list_config ::
    "ListTaskPushNotificationConfigParams \<Rightarrow> ServerCallContext \<Rightarrow> 's \<Rightarrow> TaskPushNotificationConfig list await \<times> 's"
  rh_delete_config :: "DeleteTaskPushNotificationConfigParams \<Rightarrow> ServerCallContext \<Rightarrow> 's \<Rightarrow> unit await \<times> 's"

fun await_map :: "('a \<Rightarrow> 'b) \<Rightarrow> 'a await \<Rightarrow> 'b await" where
  "await_map f (Done a) = Done (f a)"
| "await_map f Blocked = Blocked"
| "await_map f (Raised e) = Raised e"

lemma await_map_eq_Done [simp]: "await_map f r = Done b \<longleftrightarrow> (\<exists>a. r = Done a \<and> b = f a)"
  by (cases r) auto

fun await_of :: "exn + 'a \<Rightarrow> 'a await" where
  "await_of (Inl e) = Raised e"
| "await_of (Inr a) = Done a"

text \<open>A conversion of what was awaited, which may raise itself.\<close>

definition convert_await :: "('a \<Rightarrow> exn + 'b) \<Rightarrow> 'a await \<Rightarrow> 'b await" where
  "convert_await f r = (case r of Done v \<Rightarrow> await_of (f v) | Blocked \<Rightarrow> Blocked | Raised e \<Rightarrow> Raised e)"

lemma convert_await_simps [simp]:
  "convert_await f (Done v) = await_of (f v)"
  "convert_await f Blocked = Blocked"
  "convert_await f (Raised e) = Raised e"
  by (simp_all add: convert_await_def)

fun send_result_event :: "send_result \<Rightarrow> Event" where
  "send_result_event (SR_Message m) = EvMessage m"
| "send_result_event (SR_Task t) = EvTask t"

definition sum_of_send :: "send_result \<Rightarrow> Task + Message" where
  "sum_of_send r = (case r of SR_Task t \<Rightarrow> Inl t | SR_Message m \<Rightarrow> Inr m)"

text \<open>
  One call of the default request handler: the ids and the agent's behaviour of this call
  are arguments, as in \<open>on_message_send\<close>.
\<close>

definition default_request_handler ::
  "('st, 'ps) handler_cfg \<Rightarrow> string \<Rightarrow> string \<Rightarrow> nat \<Rightarrow> schedule \<Rightarrow> unit await \<Rightarrow>
   (RequestContext \<Rightarrow> exn + queue_op list) \<Rightarrow> schedule \<Rightarrow> ('st, 'ps) handler_state request_handler" where
  "default_request_handler cfg gt gc p sched producer agent_cancel other_sched =
     \<lparr>rh_class = ''DefaultRequestHandler'',
      rh_get_task = (\<lambda>params call s. let (r, s') = on_get_task cfg params s in (await_map Some (await_of r), s')),
      rh_cancel_task = (\<lambda>params call s.
        let (r, s') = on_cancel_task cfg params agent_cancel other_sched s in (await_map Some r, s')),
      rh_message_send = (\<lambda>params call s.
        let ((r, rest), s') = on_message_send cfg params (Some call) gt gc p sched producer s in (r, s')),
      rh_message_send_stream = (\<lambda>params call s. on_message_send_stream cfg params (Some call) gt gc p sched s),
      rh_set_config = (\<lambda>params call s.
        let (r, s') = on_set_task_push_notification_config cfg params s in (await_of r, s')),
      rh_get_config = (\<lambda>params call s.
        let (r, s') = on_get_task_push_notification_config cfg params s in (await_of r, s')),
      rh_resubscribe = (\<lambda>params call s. on_resubscribe_to_task cfg params other_sched s),
      rh_list_config = (\<lambda>params call s.
        let (r, s') = on_list_task_push_notification_config cfg params s in (await_of r, s')),
      rh_delete_config = (\<lambda>params call s.
        let (r, s') = on_delete_task_push_notification_config cfg params s in (await_of r, s'))\<rparr>"

text \<open>A small handler for concrete runs of the protocol layers.\<close>

definition sample_rh :: "unit request_handler" where
  "sample_rh =
     \<lparr>rh_class = ''SampleHandler'',
      rh_get_task = (\<lambda>p call s. (Raised (raise_server TaskNotFoundError), s)),
      rh_cancel_task = (\<lambda>p call s. (Raised (raise_server TaskNotCancelableError), s)),
      rh_message_send = (\<lambda>p call s. (Done (SR_Task sample_task), s)),
      rh_message_send_stream = (\<lambda>p call s.
        (([EvTask sample_task, EvMessage sample_message], Raised (raise_server InternalError)), s)),
      rh_set_config = (\<lambda>p call s. (Done p, s)),
      rh_get_config = (\<lambda>p call s. (Raised (raise_server UnsupportedOperationError), s)),
      rh_resubscribe = (\<lambda>p call s. (([], Raised (raise_server TaskNotFoundError)), s)),
      rh_list_config = (\<lambda>p call s. (Done [], s)),
      rh_delete_config = (\<lambda>p call s. (Done (), s))\<rparr>"

end
