(* ===== verification/KafkaServer.thy ===== *)
theory KafkaServer
  imports KafkaTransport HandlerInterface
begin

section \<open>The Kafka server (server/request_handlers/kafka_handler.py, server/apps/kafka/app.py)\<close>

text \<open>
  The server consumes request records, calls the request handler and sends reply records to
  the topic that the request names. The request handler is the interface of \<open>HandlerInterface\<close>. \<open>broker\<close> says whether a record is acknowledged or which exception sending it raises
  (the serializer's included).
\<close>

record kafka_handler =
  kh_producer :: endpoint
  kh_running :: bool
  kh_sent :: "kafka_record list"

definition kh_new :: kafka_handler where
  "kh_new = \<lparr>kh_producer = NoEndpoint, kh_running = False, kh_sent = []\<rparr>"

type_synonym broker = "kafka_record \<Rightarrow> exn option"

subsection \<open>Life cycle of the handler\<close>

definition kh_stop :: "kafka_handler \<Rightarrow> kafka_handler" where
  "kh_stop h = (if \<not> kh_running h then h else h\<lparr>kh_running := False, kh_producer := stop_endpoint (kh_producer h)\<rparr>)"

definition server_start_failure :: "codec \<Rightarrow> string \<Rightarrow> exn \<Rightarrow> exn" where
  "server_start_failure cd text e =
     (case exn_str (cd_validation_str cd) e of Inl x \<Rightarrow> x | Inr s \<Rightarrow> ServerErrorStr (text @ s))"

definition kh_start :: "codec \<Rightarrow> launch \<Rightarrow> kafka_handler \<Rightarrow> (exn + unit) \<times> kafka_handler" where
  "kh_start cd producer h =
     (if kh_running h then (Inr (), h)
      else
        let h1 = h\<lparr>kh_producer := launched_endpoint producer (kh_producer h)\<rparr>
        in case launch_error producer of
             Some e \<Rightarrow> (Inl (server_start_failure cd ''Failed to start Kafka handler: '' e), kh_stop h1)
           | None \<Rightarrow> (Inr (), h1\<lparr>kh_running := True\<rparr>))"

subsection \<open>Sending\<close>

text \<open>Every sending method logs the exception of a failed send and goes on.\<close>

definition produce :: "broker \<Rightarrow> kafka_record \<Rightarrow> kafka_handler \<Rightarrow> kafka_handler" where
  "produce broker r h =
     (if kh_producer h = NoEndpoint then h
      else (case broker r of None \<Rightarrow> h\<lparr>kh_sent := kh_sent h @ [r]\<rparr> | Some e \<Rightarrow> h))"

definition reply_record :: "string \<Rightarrow> string \<Rightarrow> string \<Rightarrow> pyval \<Rightarrow> kafka_record" where
  "reply_record topic cid type data =
     \<lparr>rec_topic = topic, rec_headers = [(''correlation_id'', Utf8 cid)],
      rec_value = PyDict [(''type'', PyStr type), (''data'', data)]\<rparr>"

definition send_response :: "broker \<Rightarrow> string \<Rightarrow> string \<Rightarrow> string \<times> pyval \<Rightarrow> kafka_handler \<Rightarrow> kafka_handler" where
  "send_response broker topic cid result = produce broker (reply_record topic cid (fst result) (snd result))"

definition send_stream_complete :: "broker \<Rightarrow> string \<Rightarrow> string \<Rightarrow> kafka_handler \<Rightarrow> kafka_handler" where
  "send_stream_complete broker topic cid = produce broker (reply_record topic cid ''stream_complete'' (PyDict []))"

definition send_error_response :: "broker \<Rightarrow> string \<Rightarrow> string \<Rightarrow> string \<Rightarrow> kafka_handler \<Rightarrow> kafka_handler" where
  "send_error_response broker topic cid text =
     produce broker (reply_record topic cid ''error'' (PyDict [(''error'', PyStr text)]))"

fun event_type :: "Event \<Rightarrow> string" where
  "event_type (EvStatus e) = ''task_status_update''"
| "event_type (EvArtifact e) = ''task_artifact_update''"
| "event_type (EvTask t) = ''task''"
| "event_type (EvMessage m) = ''message''"

text \<open>\<open>send_push_notification\<close>: the topic is the client's, and no correlation id is sent.\<close>

definition kh_send_push_notification :: "codec \<Rightarrow> broker \<Rightarrow> string \<Rightarrow> Event \<Rightarrow> kafka_handler \<Rightarrow> kafka_handler" where
  "kh_send_push_notification cd broker topic ev =
     produce broker \<lparr>rec_topic = topic, rec_headers = [(''notification_type'', Utf8 ''push'')],
       rec_value = PyDict [(''type'', PyStr (''push_'' @ event_type ev)), (''data'', dump_event cd ev)]\<rparr>"

subsection \<open>Handling a request\<close>

text \<open>
  The \<open>ServerCallContext\<close> is built from two keyword arguments that the class does not
  have; Pydantic ignores them, so every call gets the default context.
\<close>

definition with_params ::
  "exn + 'p \<Rightarrow> ('p \<Rightarrow> 's \<Rightarrow> 'a await \<times> 's) \<Rightarrow> ('a \<Rightarrow> 'b) \<Rightarrow> 's \<Rightarrow> 'b await \<times> 's" where
  "with_params params call f s =
     (case params of Inl e \<Rightarrow> (Raised e, s) | Inr p \<Rightarrow> (let (r, s') = call p s in (await_map f r, s')))"

text \<open>A handler may return no task; then the data of the reply is \<open>null\<close>.\<close>

definition dump_task :: "codec \<Rightarrow> Task option \<Rightarrow> pyval" where
  "dump_task cd t = (case t of None \<Rightarrow> PyNone | Some t \<Rightarrow> dump_event cd (EvTask t))"

definition no_attribute :: "string \<Rightarrow> string \<Rightarrow> exn" where
  "no_attribute cls attr =
     AttributeErr ([CHR 0x27] @ cls @ [CHR 0x27] @ '' object has no attribute '' @ [CHR 0x27] @ attr @ [CHR 0x27])"

text \<open>
  The type and data of the reply to a single request, or the exception. The list method
  calls \<open>on_list_task_push_notification_configs\<close>, which request handlers do not have (the
  method is \<open>on_list_task_push_notification_config\<close>).
\<close>

definition single_result ::
  "codec \<Rightarrow> 's request_handler \<Rightarrow> pyval \<Rightarrow> pyval \<Rightarrow> 's \<Rightarrow> (string \<times> pyval) await \<times> 's" where
  "single_result cd rh method params s =
     (if method = PyStr ''message_send'' then
        with_params (cd_send_params cd params) (\<lambda>p. rh_message_send rh p default_call_context)
          (\<lambda>r. (event_type (send_result_event r), dump_event cd (send_result_event r))) s
      else if method = PyStr ''task_get'' then
        with_params (cd_query_params cd params) (\<lambda>p. rh_get_task rh p default_call_context)
          (\<lambda>t. (''task'', dump_task cd t)) s
      else if method = PyStr ''task_cancel'' then
        with_params (cd_id_params cd params) (\<lambda>p. rh_cancel_task rh p default_call_context)
          (\<lambda>t. (''task'', dump_task cd t)) s
      else if method = PyStr ''task_push_notification_config_get'' then
        with_params (cd_get_config cd params) (\<lambda>p. rh_get_config rh (GCP_Config p) default_call_context)
          (\<lambda>c. (''task_push_notification_config'', dump_config cd c)) s
      else if method = PyStr ''task_push_notification_config_list'' then
        with_params (cd_list_config cd params)
          (\<lambda>p s. (Raised (no_attribute (rh_class rh) ''on_list_task_push_notification_configs''), s))
          (\<lambda>r :: unit. (''task_push_notification_config_list'', PyList [])) s
      else if method = PyStr ''task_push_notification_config_delete'' then
        with_params (cd_delete_config cd params) (\<lambda>p. rh_delete_config rh p default_call_context)
          (\<lambda>_. (''success'', PyDict [(''success'', PyBool True)])) s
      else (Raised (ServerErrorStr (''Unknown method: '' @ cd_str cd method)), s))"

text \<open>
  The \<open>except Exception\<close> clauses: the text of the exception is sent back; where rendering it
  raises, the outer clause of \<open>handle_request\<close> sends the text of that second exception.
  \<open>CancelledError\<close> is not an \<open>Exception\<close>.
\<close>

definition report_exception ::
  "codec \<Rightarrow> broker \<Rightarrow> string \<Rightarrow> string \<Rightarrow> exn \<Rightarrow> kafka_handler \<Rightarrow> unit await \<times> kafka_handler" where
  "report_exception cd broker topic cid e h =
     (case e of
        CancelledError t \<Rightarrow> (Raised e, h)
      | _ \<Rightarrow>
        (case exn_str (cd_validation_str cd) e of
           Inr text \<Rightarrow> (Done (), send_error_response broker topic cid text h)
         | Inl e' \<Rightarrow>
             (case exn_str (cd_validation_str cd) e' of
                Inr text \<Rightarrow> (Done (), send_error_response broker topic cid (''Request processing error: '' @ text) h)
              | Inl e'' \<Rightarrow> (Done (), h))))"

definition handle_single_request ::
  "codec \<Rightarrow> broker \<Rightarrow> 's request_handler \<Rightarrow> pyval \<Rightarrow> pyval \<Rightarrow> string \<Rightarrow> string \<Rightarrow> 's \<times> kafka_handler \<Rightarrow>
   unit await \<times> 's \<times> kafka_handler" where
  "handle_single_request cd broker rh method params topic cid w =
     (case single_result cd rh method params (fst w) of
        (Done result, s) \<Rightarrow> (Done (), s, send_response broker topic cid result (snd w))
      | (Blocked, s) \<Rightarrow> (Blocked, s, snd w)
      | (Raised e, s) \<Rightarrow> (let (r, h) = report_exception cd broker topic cid e (snd w) in (r, s, h)))"

definition send_events :: "codec \<Rightarrow> broker \<Rightarrow> string \<Rightarrow> string \<Rightarrow> Event list \<Rightarrow> kafka_handler \<Rightarrow> kafka_handler" where
  "send_events cd broker topic cid evs h =
     foldl (\<lambda>h ev. send_response broker topic cid (event_type ev, dump_event cd ev) h) h evs"

definition handle_streaming_request ::
  "codec \<Rightarrow> broker \<Rightarrow> 's request_handler \<Rightarrow> pyval \<Rightarrow> pyval \<Rightarrow> string \<Rightarrow> string \<Rightarrow> 's \<times> kafka_handler \<Rightarrow>
   unit await \<times> 's \<times> kafka_handler" where
  "handle_streaming_request cd broker rh method params topic cid w =
     (let (evs, en, s) =
        (if method = PyStr ''message_send'' then
           (case cd_send_params cd params of
              Inl e \<Rightarrow> ([], Raised e, fst w)
            | Inr p \<Rightarrow> (let ((evs, en), s) = rh_message_send_stream rh p default_call_context (fst w) in (evs, en, s)))
         else ([], Raised (ServerErrorStr (''Streaming not supported for method: '' @ cd_str cd method)), fst w));
          h = send_events cd broker topic cid evs (snd w)
      in case en of
           Done _ \<Rightarrow> (Done (), s, send_stream_complete broker topic cid h)
         | Blocked \<Rightarrow> (Blocked, s, h)
         | Raised e \<Rightarrow> (let (r, h') = report_exception cd broker topic cid e h in (r, s, h')))"

text \<open>\<open>get_header\<close>, all four headers being read before anything else; a bad encoding raises.\<close>

definition header_ok :: "string \<Rightarrow> kafka_record \<Rightarrow> bool" where
  "header_ok key r \<longleftrightarrow> find_header key (rec_headers r) \<noteq> Some NotUtf8"

definition get_header :: "string \<Rightarrow> kafka_record \<Rightarrow> string option" where
  "get_header key r = (case find_header key (rec_headers r) of Some (Utf8 s) \<Rightarrow> Some s | _ \<Rightarrow> None)"

definition dict_get :: "string \<Rightarrow> pyval \<Rightarrow> pydict \<Rightarrow> pyval" where
  "dict_get key dflt d = (case map_of d key of None \<Rightarrow> dflt | Some v \<Rightarrow> v)"

definition handle_request ::
  "codec \<Rightarrow> broker \<Rightarrow> 's request_handler \<Rightarrow> kafka_record \<Rightarrow> 's \<times> kafka_handler \<Rightarrow>
   unit await \<times> 's \<times> kafka_handler" where
  "handle_request cd broker rh r w =
     (if \<not> list_all (\<lambda>key. header_ok key r) [''reply_topic'', ''correlation_id'', ''agent_id'', ''trace_id'']
      then (Done (), w)
      else if \<not> truthy (get_header ''reply_topic'' r) \<or> \<not> truthy (get_header ''correlation_id'' r) then (Done (), w)
      else
        let topic = the (get_header ''reply_topic'' r); cid = the (get_header ''correlation_id'' r)
        in case rec_value r of
             PyDict d \<Rightarrow>
               let method = dict_get ''method'' PyNone d;
                   params = dict_get ''params'' (PyDict []) d;
                   streaming = dict_get ''streaming'' (PyBool False) d
               in if \<not> py_truthy method
                  then (Done (), fst w, send_error_response broker topic cid ''Missing method in request'' (snd w))
                  else if py_truthy streaming
                  then handle_streaming_request cd broker rh method params topic cid w
                  else handle_single_request cd broker rh method params topic cid w
           | _ \<Rightarrow> (Done (), w))"

subsection \<open>The server application\<close>

record server_app =
  sa_handler :: "kafka_handler option"
  sa_consumer :: endpoint
  sa_running :: bool
  sa_consuming :: bool

definition sa_new :: server_app where
  "sa_new = \<lparr>sa_handler = None, sa_consumer = NoEndpoint, sa_running = False, sa_consuming = False\<rparr>"

definition sa_stop :: "server_app \<Rightarrow> server_app" where
  "sa_stop a =
     (if \<not> sa_running a then a
      else a\<lparr>sa_running := False, sa_consuming := False, sa_consumer := stop_endpoint (sa_consumer a),
             sa_handler := map_option kh_stop (sa_handler a)\<rparr>)"

definition sa_start :: "codec \<Rightarrow> launch \<Rightarrow> launch \<Rightarrow> server_app \<Rightarrow> (exn + unit) \<times> server_app" where
  "sa_start cd producer consumer a =
     (if sa_running a then (Inr (), a)
      else
        let (r, h) = kh_start cd producer kh_new;
            a1 = a\<lparr>sa_handler := Some h\<rparr>
        in case r of
             Inl e \<Rightarrow> (Inl (server_start_failure cd ''Failed to start Kafka server: '' e), sa_stop a1)
           | Inr _ \<Rightarrow>
               (let a2 = a1\<lparr>sa_consumer := launched_endpoint consumer (sa_consumer a1)\<rparr>
                in case launch_error consumer of
                     Some e \<Rightarrow> (Inl (server_start_failure cd ''Failed to start Kafka server: '' e), sa_stop a2)
                   | None \<Rightarrow> (Inr (), a2\<lparr>sa_running := True\<rparr>)))"

definition sa_get_handler :: "server_app \<Rightarrow> exn + kafka_handler" where
  "sa_get_handler a =
     (case sa_handler a of None \<Rightarrow> Inl (ServerErrorStr ''Kafka handler not initialized'') | Some h \<Rightarrow> Inr h)"

definition sa_send_push_notification ::
  "codec \<Rightarrow> broker \<Rightarrow> string \<Rightarrow> Event \<Rightarrow> server_app \<Rightarrow> (exn + unit) \<times> server_app" where
  "sa_send_push_notification cd broker topic ev a =
     (case sa_get_handler a of
        Inl e \<Rightarrow> (Inl e, a)
      | Inr h \<Rightarrow> (Inr (), a\<lparr>sa_handler := Some (kh_send_push_notification cd broker topic ev h)\<rparr>))"

text \<open>
  The consumer loop handles one record after the other. It delivers segments: the records up
  to an exception of the consumer. After a \<open>KafkaError\<close> the loop sleeps and, when the server
  still runs and the consumer restarts, goes on with the next segment.
\<close>

fun handle_requests ::
  "codec \<Rightarrow> broker \<Rightarrow> 's request_handler \<Rightarrow> kafka_record list \<Rightarrow> 's \<times> kafka_handler \<Rightarrow>
   unit await \<times> 's \<times> kafka_handler" where
  "handle_requests cd broker rh [] w = (Done (), w)"
| "handle_requests cd broker rh (r # rs) w =
     (case handle_request cd broker rh r w of
        (Done _, w') \<Rightarrow> handle_requests cd broker rh rs w'
      | (Blocked, w') \<Rightarrow> (Blocked, w')
      | (Raised e, w') \<Rightarrow> (case e of
                             CancelledError t \<Rightarrow> (Raised e, w')
                           | _ \<Rightarrow> handle_requests cd broker rh rs w'))"

datatype feed_end = FeedOpen | FeedCancelled | FeedKafkaError bool bool "exn option" | FeedError exn

fun consume_requests ::
  "codec \<Rightarrow> broker \<Rightarrow> 's request_handler \<Rightarrow> (kafka_record list \<times> feed_end) list \<Rightarrow> 's \<times> kafka_handler \<Rightarrow>
   unit await \<times> 's \<times> kafka_handler" where
  "consume_requests cd broker rh [] w = (Blocked, w)"
| "consume_requests cd broker rh ((rs, en) # segs) w =
     (case handle_requests cd broker rh rs w of
        (Blocked, w') \<Rightarrow> (Blocked, w')
      | (Raised e, w') \<Rightarrow> (Done (), w')
      | (Done _, w') \<Rightarrow>
          (case en of
             FeedOpen \<Rightarrow> (Blocked, w')
           | FeedCancelled \<Rightarrow> (Done (), w')
           | FeedError e \<Rightarrow> (Done (), w')
           | FeedKafkaError running_before running_after restart \<Rightarrow>
               if running_before \<and> running_after
               then (case restart of None \<Rightarrow> consume_requests cd broker rh segs w' | Some e \<Rightarrow> (Done (), w'))
               else (Done (), w')))"

text \<open>\<open>run\<close>: starting may raise; the consumer task is awaited and the application is stopped in any case.\<close>

definition sa_run ::
  "codec \<Rightarrow> launch \<Rightarrow> launch \<Rightarrow> broker \<Rightarrow> 's request_handler \<Rightarrow> (kafka_record list \<times> feed_end) list \<Rightarrow>
   's \<times> server_app \<Rightarrow> unit await \<times> 's \<times> server_app" where
  "sa_run cd producer consumer broker rh segs w =
     (case sa_start cd producer consumer (snd w) of
        (Inl e, a) \<Rightarrow> (Raised e, fst w, a)
      | (Inr _, a) \<Rightarrow>
          (case sa_handler a of
             None \<Rightarrow> (Done (), fst w, sa_stop a)
           | Some h \<Rightarrow>
               if sa_consumer a = NoEndpoint then (Done (), fst w, sa_stop a)
               else
                 (let (r, s, h') = consume_requests cd broker rh segs (fst w, h);
                      a' = a\<lparr>sa_handler := Some h', sa_consuming := True\<rparr>
                  in case r of Blocked \<Rightarrow> (Blocked, s, a') | _ \<Rightarrow> (Done (), s, sa_stop a'))))"

subsection \<open>Lemmas\<close>

text \<open>A producer exists and the broker accepts everything.\<close>

definition can_send :: "broker \<Rightarrow> kafka_handler \<Rightarrow> bool" where
  "can_send broker h \<longleftrightarrow> kh_producer h \<noteq> NoEndpoint \<and> (\<forall>r. broker r = None)"

lemma produce_sends: "can_send broker h \<Longrightarrow> produce broker r h = h\<lparr>kh_sent := kh_sent h @ [r]\<rparr>"
  by (simp add: produce_def can_send_def)

lemma can_send_sent [simp]: "can_send broker (h\<lparr>kh_sent := rs\<rparr>) = can_send broker h"
  by (simp add: can_send_def)

definition event_record :: "codec \<Rightarrow> string \<Rightarrow> string \<Rightarrow> Event \<Rightarrow> kafka_record" where
  "event_record cd topic cid ev = reply_record topic cid (event_type ev) (dump_event cd ev)"

definition error_record :: "string \<Rightarrow> string \<Rightarrow> string \<Rightarrow> kafka_record" where
  "error_record topic cid text = reply_record topic cid ''error'' (PyDict [(''error'', PyStr text)])"

lemma send_events_sends:
  "can_send broker h \<Longrightarrow>
   send_events cd broker topic cid evs h = h\<lparr>kh_sent := kh_sent h @ map (event_record cd topic cid) evs\<rparr>"
proof (induction evs arbitrary: h)
  case (Cons ev evs)
  have "send_response broker topic cid (event_type ev, dump_event cd ev) h =
      h\<lparr>kh_sent := kh_sent h @ [event_record cd topic cid ev]\<rparr>"
    using Cons.prems by (simp add: send_response_def produce_sends event_record_def)
  with Cons show ?case by (simp add: send_events_def)
qed (simp add: send_events_def)

text \<open>The text with which an exception is reported; \<open>None\<close> for a cancellation, which is not reported.\<close>

definition report_text :: "codec \<Rightarrow> exn \<Rightarrow> string option" where
  "report_text cd e =
     (case e of
        CancelledError t \<Rightarrow> None
      | ServerErrorStr t \<Rightarrow>
          Some (''Request processing error: '' @ [CHR 0x27] @ ''str' object has no attribute 'message'' @ [CHR 0x27])
      | _ \<Rightarrow> (case exn_str (cd_validation_str cd) e of Inr text \<Rightarrow> Some text | Inl x \<Rightarrow> None))"

lemma report_exception_sends:
  "can_send broker h \<Longrightarrow>
   report_exception cd broker topic cid e h =
     (case report_text cd e of
        None \<Rightarrow> (Raised e, h)
      | Some text \<Rightarrow> (Done (), h\<lparr>kh_sent := kh_sent h @ [error_record topic cid text]\<rparr>))"
  by (cases e) (simp_all add: report_exception_def report_text_def send_error_response_def produce_sends error_record_def)

definition request_ok :: "kafka_record \<Rightarrow> string \<Rightarrow> string \<Rightarrow> pydict \<Rightarrow> bool" where
  "request_ok r topic cid d \<longleftrightarrow>
     list_all (\<lambda>key. header_ok key r) [''reply_topic'', ''correlation_id'', ''agent_id'', ''trace_id''] \<and>
     get_header ''reply_topic'' r = Some topic \<and> get_header ''correlation_id'' r = Some cid \<and>
     topic \<noteq> [] \<and> cid \<noteq> [] \<and> rec_value r = PyDict d"

lemma handle_request_ok:
  "request_ok r topic cid d \<Longrightarrow>
   handle_request cd broker rh r w =
     (if \<not> py_truthy (dict_get ''method'' PyNone d)
      then (Done (), fst w, send_error_response broker topic cid ''Missing method in request'' (snd w))
      else if py_truthy (dict_get ''streaming'' (PyBool False) d)
      then handle_streaming_request cd broker rh (dict_get ''method'' PyNone d) (dict_get ''params'' (PyDict []) d) topic cid w
      else handle_single_request cd broker rh (dict_get ''method'' PyNone d) (dict_get ''params'' (PyDict []) d) topic cid w)"
  by (simp add: handle_request_def request_ok_def Let_def)

lemma handle_single_sends:
  "can_send broker h \<Longrightarrow>
   handle_single_request cd broker rh method params topic cid (s, h) =
     (case single_result cd rh method params s of
        (Done (ty, data), s') \<Rightarrow> (Done (), s', h\<lparr>kh_sent := kh_sent h @ [reply_record topic cid ty data]\<rparr>)
      | (Blocked, s') \<Rightarrow> (Blocked, s', h)
      | (Raised e, s') \<Rightarrow>
          (case report_text cd e of
             None \<Rightarrow> (Raised e, s', h)
           | Some text \<Rightarrow> (Done (), s', h\<lparr>kh_sent := kh_sent h @ [error_record topic cid text]\<rparr>)))"
  by (auto simp: handle_single_request_def send_response_def produce_sends report_exception_sends
      split: await.splits prod.splits option.splits)

lemma handle_streaming_sends:
  assumes "can_send broker h" and "cd_send_params cd params = Inr p"
    and "rh_message_send_stream rh p default_call_context s = ((evs, en), s')"
  shows "handle_streaming_request cd broker rh (PyStr ''message_send'') params topic cid (s, h) =
     (let h' = h\<lparr>kh_sent := kh_sent h @ map (event_record cd topic cid) evs\<rparr>
      in case en of
           Done _ \<Rightarrow> (Done (), s', h'\<lparr>kh_sent := kh_sent h' @ [reply_record topic cid ''stream_complete'' (PyDict [])]\<rparr>)
         | Blocked \<Rightarrow> (Blocked, s', h')
         | Raised e \<Rightarrow>
             (case report_text cd e of
                None \<Rightarrow> (Raised e, s', h')
              | Some text \<Rightarrow> (Done (), s', h'\<lparr>kh_sent := kh_sent h' @ [error_record topic cid text]\<rparr>)))"
  using assms
  by (auto simp: handle_streaming_request_def send_events_sends send_stream_complete_def produce_sends
      report_exception_sends Let_def split: await.splits option.splits)

definition is_streaming :: "pydict \<Rightarrow> bool" where
  "is_streaming d \<longleftrightarrow> py_truthy (dict_get ''streaming'' (PyBool False) d)"

definition kafka_methods :: "string list" where
  "kafka_methods =
     [''message_send'', ''task_get'', ''task_cancel'', ''task_push_notification_config_get'',
      ''task_push_notification_config_list'', ''task_push_notification_config_delete'']"

definition complete_record :: "string \<Rightarrow> string \<Rightarrow> kafka_record" where
  "complete_record topic cid = reply_record topic cid ''stream_complete'' (PyDict [])"

lemma reply_record_address:
  "rec_topic (reply_record topic cid ty data) = topic"
  "rec_headers (reply_record topic cid ty data) = [(''correlation_id'', Utf8 cid)]"
  by (simp_all add: reply_record_def)

lemma streaming_result:
  assumes "can_send broker h"
    and "handle_streaming_request cd broker rh method params topic cid (s, h) = (Done (), s', h')"
  shows "\<exists>evs last. kh_sent h' = kh_sent h @ map (event_record cd topic cid) evs @ [last] \<and>
     (last = complete_record topic cid \<or> (\<exists>text. last = error_record topic cid text))"
proof -
  have r: "\<exists>evs last. kh_sent h' = kh_sent h @ map (event_record cd topic cid) evs @ [last] \<and>
      (last = complete_record topic cid \<or> (\<exists>text. last = error_record topic cid text))"
    if "report_exception cd broker topic cid e (h\<lparr>kh_sent := kh_sent h @ map (event_record cd topic cid) evs\<rparr>) = (Done (), h')"
    for e evs
  proof -
    note sent = that
    obtain tx where "kh_sent h' = kh_sent h @ map (event_record cd topic cid) evs @ [error_record topic cid tx]"
      using sent assms(1) by (auto simp: report_exception_sends split: option.splits)
    then show ?thesis by blast
  qed
  show ?thesis
  proof (cases "method = PyStr ''message_send''")
    case False
    with assms r [of _ "[]"] show ?thesis
      by (auto simp: handle_streaming_request_def send_events_def Let_def split: prod.splits)
  next
    case True
    show ?thesis
    proof (cases "cd_send_params cd params")
      case (Inl e)
      with True assms r [of e "[]"] show ?thesis
        by (auto simp: handle_streaming_request_def send_events_def Let_def split: prod.splits)
    next
      case (Inr p)
      obtain evs en s1 where h: "rh_message_send_stream rh p default_call_context s = ((evs, en), s1)"
        by (metis prod.exhaust)
      note out = assms(2) [unfolded True handle_streaming_sends [OF assms(1) Inr h] Let_def]
      show ?thesis
      proof (cases en)
        case (Done u)
        with out have "kh_sent h' = kh_sent h @ map (event_record cd topic cid) evs @ [complete_record topic cid]"
          by (auto simp: complete_record_def)
        then show ?thesis by blast
      next
        case (Raised e)
        with out obtain tx where
          "kh_sent h' = kh_sent h @ map (event_record cd topic cid) evs @ [error_record topic cid tx]"
          by (auto split: option.splits)
        then show ?thesis by blast
      qed (use out in simp)
    qed
  qed
qed

text \<open>
  A well-addressed request whose handling returns is answered on the topic it names and under
  its correlation id: a single request by exactly one record, a streaming request by the
  events in order and then exactly one closing record, a completion signal or an error.
\<close>

theorem request_replies:
  assumes "can_send broker h" and "request_ok r topic cid d"
    and "handle_request cd broker rh r (s, h) = (Done (), s', h')"
  shows "\<exists>evs last. kh_sent h' = kh_sent h @ map (event_record cd topic cid) evs @ [last] \<and>
           rec_topic last = topic \<and> rec_headers last = [(''correlation_id'', Utf8 cid)] \<and>
           (\<not> is_streaming d \<longrightarrow> evs = []) \<and>
           (is_streaming d \<and> py_truthy (dict_get ''method'' PyNone d) \<longrightarrow>
              last = complete_record topic cid \<or> (\<exists>text. last = error_record topic cid text))"
proof (cases "py_truthy (dict_get ''method'' PyNone d)")
  case False
  let ?last = "error_record topic cid ''Missing method in request''"
  have "kh_sent h' = kh_sent h @ map (event_record cd topic cid) [] @ [?last]"
    using assms False
    by (auto simp: handle_request_ok send_error_response_def produce_sends error_record_def)
  with False show ?thesis
    by (intro exI [of _ "[]"] exI [of _ ?last]) (simp add: error_record_def reply_record_address)
next
  case m: True
  show ?thesis
  proof (cases "is_streaming d")
    case True
    with assms(2,3) m have "handle_streaming_request cd broker rh (dict_get ''method'' PyNone d)
        (dict_get ''params'' (PyDict []) d) topic cid (s, h) = (Done (), s', h')"
      by (simp add: handle_request_ok is_streaming_def)
    from streaming_result [OF assms(1) this] True m show ?thesis
      by (force simp: complete_record_def error_record_def reply_record_address)
  next
    case False
    with assms(2,3) m have "handle_single_request cd broker rh (dict_get ''method'' PyNone d)
        (dict_get ''params'' (PyDict []) d) topic cid (s, h) = (Done (), s', h')"
      by (simp add: handle_request_ok is_streaming_def)
    then have "\<exists>ty data. kh_sent h' = kh_sent h @ map (event_record cd topic cid) [] @ [reply_record topic cid ty data]"
      by (fastforce simp: handle_single_sends [OF assms(1)] error_record_def split: prod.splits await.splits option.splits)
    with False show ?thesis by (metis reply_record_address)
  qed
qed

subsection \<open>Sample server\<close>

definition sample_server :: kafka_handler where
  "sample_server = snd (kh_start sample_codec Launched kh_new)"

definition accepting :: broker where
  "accepting r = None"

lemma sample_server_simps [simp]:
  "can_send accepting sample_server" "kh_sent sample_server = []"
  by (simp_all add: sample_server_def kh_start_def kh_new_def can_send_def accepting_def Let_def)

definition sample_request_record :: "string \<Rightarrow> bool \<Rightarrow> kafka_record" where
  "sample_request_record method streaming =
     request_record method (PyStr ''params'') streaming (sample_env [] []) sample_client"

definition sample_request_dict :: "string \<Rightarrow> bool \<Rightarrow> pydict" where
  "sample_request_dict method streaming =
     [(''method'', PyStr method), (''params'', PyStr ''params''), (''streaming'', PyBool streaming),
      (''agent_card'', kc_card sample_client)]"

lemma request_record_ok:
  assumes "truthy (kc_reply_topic c)" and "ce_cid env \<noteq> []"
  shows "request_ok (request_record method params streaming env c) (the (kc_reply_topic c)) (ce_cid env)
     [(''method'', PyStr method), (''params'', params), (''streaming'', PyBool streaming), (''agent_card'', kc_card c)]"
  using assms
  by (cases "kc_reply_topic c")
     (auto simp: request_ok_def request_record_def header_ok_def get_header_def find_header_def or_else_def)

lemma sample_client_topic: "kc_reply_topic sample_client = Some ''a2a-reply-my_agent-abcd1234''"
proof -
  have "sanitize_topic_name ''my agent'' = ''my_agent''" by code_simp
  then show ?thesis
    by (simp add: sample_client_def kc_start_def kc_new_def kc_prepare_def Let_def)
qed

lemma sample_request_ok:
  "request_ok (sample_request_record method streaming) ''a2a-reply-my_agent-abcd1234'' ''r1''
     (sample_request_dict method streaming)"
  using request_record_ok [of sample_client "sample_env [] []" "method" "PyStr ''params''" streaming]
  by (simp add: sample_request_record_def sample_request_dict_def sample_client_topic)

theorem request_replies_witness:
  "\<exists>s' h'. handle_request sample_codec accepting sample_rh (sample_request_record ''message_send'' True) ((), sample_server) =
       (Done (), s', h') \<and>
     (\<exists>evs last. kh_sent h' = map (event_record sample_codec ''a2a-reply-my_agent-abcd1234'' ''r1'') evs @ [last])"
proof -
  let ?r = "sample_request_record ''message_send'' True"
  have p: "cd_send_params sample_codec (PyStr ''params'') = Inr sample_request"
    by (simp add: sample_codec_def sample_request_def)
  have st: "rh_message_send_stream sample_rh sample_request default_call_context () =
      (([EvTask sample_task, EvMessage sample_message], Raised (raise_server InternalError)), ())"
    by (simp add: sample_rh_def)
  have "\<exists>s' h'. handle_request sample_codec accepting sample_rh ?r ((), sample_server) = (Done (), s', h')"
    using handle_streaming_sends [OF _ p st, of accepting sample_server]
    by (simp add: handle_request_ok [OF sample_request_ok] sample_request_dict_def dict_get_def report_text_def Let_def)
  then obtain s' h' where r: "handle_request sample_codec accepting sample_rh ?r ((), sample_server) = (Done (), s', h')"
    by blast
  from request_replies [OF _ sample_request_ok r] r show ?thesis by auto
qed

text \<open>
  A request for an unknown method, or a streaming request for anything but sending, is not
  answered with the message the code composes (''Unknown method: ...''): rendering that
  exception raises, and the reply names the failed attribute access instead. Listing push configurations is never
  served, for every request handler: the Kafka code calls a method that handlers do not have.
\<close>

theorem unserved_methods:
  assumes "can_send broker h" and "request_ok r topic cid d" and "map_of d ''method'' = Some (PyStr m)" and "m \<noteq> []"
    and "(if is_streaming d then m \<noteq> ''message_send''
          else m \<notin> set kafka_methods \<or>
               m = ''task_push_notification_config_list'' \<and> cd_list_config cd (dict_get ''params'' (PyDict []) d) = Inr p)"
  shows "\<exists>tx. handle_request cd broker rh r (s, h) = (Done (), s, h\<lparr>kh_sent := kh_sent h @ [error_record topic cid tx]\<rparr>) \<and>
           tx = (if \<not> is_streaming d \<and> m = ''task_push_notification_config_list''
                 then [CHR 0x27] @ rh_class rh @ [CHR 0x27] @ '' object has no attribute '' @ [CHR 0x27] @
                      ''on_list_task_push_notification_configs'' @ [CHR 0x27]
                 else ''Request processing error: '' @ [CHR 0x27] @ ''str' object has no attribute 'message'' @ [CHR 0x27])"
proof -
  have m: "dict_get ''method'' PyNone d = PyStr m" using assms(3) by (simp add: dict_get_def)
  show ?thesis
  proof (cases "is_streaming d")
    case True
    with assms m show ?thesis
      by (simp add: handle_request_ok is_streaming_def handle_streaming_request_def send_events_def
          report_exception_sends report_text_def)
  next
    case False
    with assms m show ?thesis
      by (auto simp: handle_request_ok is_streaming_def handle_single_sends single_result_def kafka_methods_def
          report_text_def with_params_def no_attribute_def)
  qed
qed

theorem unserved_methods_witness:
  "\<exists>tx. handle_request sample_codec accepting sample_rh (sample_request_record ''task_list'' False) ((), sample_server) =
     (Done (), (), sample_server\<lparr>kh_sent := kh_sent sample_server @ [error_record ''a2a-reply-my_agent-abcd1234'' ''r1'' tx]\<rparr>)"
  using unserved_methods [OF _ sample_request_ok [of "''task_list''" False], of accepting sample_server "''task_list''"
      sample_codec "\<lparr>ltp_id = ''t'', ltp_metadata = None\<rparr>" sample_rh "()"]
  by (auto simp: sample_request_dict_def is_streaming_def dict_get_def kafka_methods_def)

subsection \<open>Replies as the client reads them\<close>

text \<open>What the client relies on of Pydantic: reading the dump of this event gives it back.\<close>

fun event_read :: "codec \<Rightarrow> Event \<Rightarrow> bool" where
  "event_read cd (EvTask t) \<longleftrightarrow> cd_task cd (dump_event cd (EvTask t)) = Inr t"
| "event_read cd (EvMessage m) \<longleftrightarrow> cd_message cd (dump_event cd (EvMessage m)) = Inr m"
| "event_read cd (EvStatus e) \<longleftrightarrow> cd_status cd (dump_event cd (EvStatus e)) = Inr e"
| "event_read cd (EvArtifact e) \<longleftrightarrow> cd_artifact cd (dump_event cd (EvArtifact e)) = Inr e"

lemma response_op_reply:
  "cid \<noteq> [] \<Longrightarrow> event_read cd ev \<Longrightarrow> response_op cd (event_record cd topic cid ev) = Some (Complete cid ev)"
  "cid \<noteq> [] \<Longrightarrow> response_op cd (complete_record topic cid) = Some (CompleteStreaming cid)"
  "cid \<noteq> [] \<Longrightarrow> response_op cd (error_record topic cid tx) = Some (CompleteException cid (A2AClientError tx))"
  by (cases ev)
     (simp_all add: response_op_def event_record_def complete_record_def error_record_def reply_record_def
       find_header_def reply_type_def parse_response_def error_reply_def)

lemma consume_event_records:
  "cid \<noteq> [] \<Longrightarrow> list_all (event_read cd) evs \<Longrightarrow>
   consume_responses cd (map (event_record cd topic cid) evs) = map (Complete cid) evs"
  by (induction evs) (simp_all add: response_op_reply)

lemma one_reply_per_turn:
  "list_all2 (delivers cid) evs (map (\<lambda>op. turn [] [op]) (map (Complete cid) evs)) \<and>
   id_fresh cid (schedule_ops (map (\<lambda>op. turn [] [op]) (map (Complete cid) evs)))"
  by (induction evs) (simp_all add: delivers_def turn_ops_def turn_def)

text \<open>A stream whose replies and closing record are processed one per turn.\<close>

lemma streaming_one_per_turn:
  assumes "kc_ready c" and "ce_outcome env = Acknowledged"
    and "map_of (cm_pending (corr_run (ce_sending env) (kc_corr c))) (ce_cid env) = None"
    and "closes (ce_cid env) op" and "op \<noteq> Register (ce_cid env)" "op \<noteq> RegisterStreaming (ce_cid env)"
  shows "fst (kc_send_message_streaming cd request env
           (map (\<lambda>op. turn [] [op]) (map (Complete (ce_cid env)) evs @ [op])) c) = (evs, StreamEnded)"
proof -
  let ?cid = "ce_cid env"
  obtain g m where o: "open_empty ?cid g m" and call: "\<And>ts. fst (kc_send_message_streaming cd request env ts c) =
      (fst (stream_iterate cd ?cid g ts m), fst (snd (stream_iterate cd ?cid g ts m)))"
    using streaming_call [OF assms(1-3)] by blast
  have "\<exists>m'. stream_iterate cd ?cid g [turn [] [op]] m0 = ([], StreamEnded, m')" if "open_empty ?cid g m0" for m0
    by (rule last_turn_ends [OF that assms(4-6)]) (simp add: turn_def)
  from stream_iterate_paced [OF _ o _ this] one_reply_per_turn [of ?cid evs]
  obtain m1 where "stream_iterate cd ?cid g (map (\<lambda>op. turn [] [op]) (map (Complete ?cid) evs) @ [turn [] [op]]) m =
      (evs, StreamEnded, m1)" by blast
  with call [of "map (\<lambda>op. turn [] [op]) (map (Complete ?cid) evs @ [op])"] show ?thesis
    unfolding map_append by simp
qed

end
