(* ===== verification/ClientTaskManager.thy ===== *)
theory ClientTaskManager
  imports TaskManager EventQueue
begin

section \<open>The client's task manager (client/client_task_manager.py)\<close>

text \<open>
  \<open>ClientTaskManager\<close> rebuilds a task from the events a transport delivers. Task objects
  live on the heap of \<open>TaskStore\<close>, because the same object is handed out with every event and
  changed by the next one. Unlike the server's task manager it has no store, does not compare
  identifiers, and moves the new (not the old) status message to the history.
\<close>

record ClientTaskManager =
  ctm_current_task :: "addr option"
  ctm_task_id :: "string option"
  ctm_context_id :: "string option"

definition ctm_new :: ClientTaskManager where
  "ctm_new = \<lparr>ctm_current_task = None, ctm_task_id = None, ctm_context_id = None\<rparr>"

definition ctm_get_task :: "ClientTaskManager \<Rightarrow> addr option" where
  "ctm_get_task tm = (if \<not> truthy (ctm_task_id tm) then None else ctm_current_task tm)"

definition ctm_get_task_or_raise :: "ClientTaskManager \<Rightarrow> exn + addr" where
  "ctm_get_task_or_raise tm =
     (case ctm_get_task tm of
        None \<Rightarrow> Inl (A2AClientInvalidStateError ''no current Task'')
      | Some r \<Rightarrow> Inr r)"

definition ctm_save_task :: "addr \<Rightarrow> ClientTaskManager \<Rightarrow> 'st store_state \<Rightarrow> ClientTaskManager" where
  "ctm_save_task r tm w =
     (let tm1 = tm\<lparr>ctm_current_task := Some r\<rparr>
      in if \<not> truthy (ctm_task_id tm1)
         then tm1\<lparr>ctm_task_id := Some (task_id (obj w r)), ctm_context_id := Some (task_context_id (obj w r))\<rparr>
         else tm1)"

definition unknown_task :: "string \<Rightarrow> string \<Rightarrow> Task" where
  "unknown_task tid ctx =
     \<lparr>task_artifacts = None, task_context_id = ctx, task_history = None, task_id = tid,
      task_metadata = None, task_status = plain_status unknown\<rparr>"

text \<open>The status branch of \<open>save_task_event\<close>.\<close>

definition client_status_update :: "Task \<Rightarrow> TaskStatusUpdateEvent \<Rightarrow> Task" where
  "client_status_update task event =
     (let t1 = (case status_message (sue_status event) of
                  Some m \<Rightarrow> push_history m task | None \<Rightarrow> task);
          t2 = merge_metadata (sue_metadata event) t1
      in t2\<lparr>task_status := sue_status event\<rparr>)"

text \<open>What an update event does to the task object.\<close>

fun client_update :: "Task \<Rightarrow> TaskEvent \<Rightarrow> Task" where
  "client_update task (TE_Task t) = task"
| "client_update task (TE_Status e) = client_status_update task e"
| "client_update task (TE_Artifact e) = append_artifact_to_task task e"

text \<open>The identifiers are taken from the first update event and never compared afterwards.\<close>

definition ctm_adopt :: "TaskEvent \<Rightarrow> ClientTaskManager \<Rightarrow> ClientTaskManager" where
  "ctm_adopt event tm =
     (let tm1 = (if \<not> truthy (ctm_task_id tm) then tm\<lparr>ctm_task_id := Some (te_task_id event)\<rparr> else tm)
      in if \<not> truthy (ctm_context_id tm1) then tm1\<lparr>ctm_context_id := Some (te_context_id event)\<rparr> else tm1)"

definition ctm_task_object ::
  "TaskEvent \<Rightarrow> ClientTaskManager \<Rightarrow> 'st store_state \<Rightarrow> addr \<times> 'st store_state" where
  "ctm_task_object event tm w =
     (case ctm_current_task tm of
        Some r \<Rightarrow> (r, w)
      | None \<Rightarrow> alloc (unknown_task (te_task_id event) (or_else (ctm_context_id tm) [])) w)"

definition ctm_save_task_event ::
  "TaskEvent \<Rightarrow> ClientTaskManager \<Rightarrow> 'st store_state \<Rightarrow> (exn + addr) \<times> ClientTaskManager \<times> 'st store_state" where
  "ctm_save_task_event event tm w =
     (case event of
        TE_Task t \<Rightarrow>
          if ctm_current_task tm \<noteq> None
          then (Inl (A2AClientInvalidArgsError ''Task is already set, create new manager for new tasks.''), tm, w)
          else (let (r, w1) = alloc t w in (Inr r, ctm_save_task r tm w1, w1))
      | _ \<Rightarrow>
          (let tm1 = ctm_adopt event tm;
               (r, w1) = ctm_task_object event tm1 w;
               w2 = set_obj r (client_update (obj w1 r) event) w1
           in (Inr r, tm1\<lparr>ctm_current_task := Some r\<rparr>, w2)))"

definition ctm_process ::
  "Event \<Rightarrow> ClientTaskManager \<Rightarrow> 'st store_state \<Rightarrow> (exn + Event) \<times> ClientTaskManager \<times> 'st store_state" where
  "ctm_process event tm w =
     (case as_task_event event of
        None \<Rightarrow> (Inr event, tm, w)
      | Some te \<Rightarrow>
          (case ctm_save_task_event te tm w of
             (Inl e, tm', w') \<Rightarrow> (Inl e, tm', w')
           | (Inr r, tm', w') \<Rightarrow> (Inr event, tm', w')))"

definition ctm_update_with_message ::
  "Message \<Rightarrow> addr \<Rightarrow> ClientTaskManager \<Rightarrow> 'st store_state \<Rightarrow> addr \<times> ClientTaskManager \<times> 'st store_state" where
  "ctm_update_with_message message r tm w =
     (r, tm\<lparr>ctm_current_task := Some r\<rparr>, set_obj r (task_with_message message (obj w r)) w)"

subsection \<open>Specification\<close>

text \<open>What the events of a stream make of the client's task, as a fold.\<close>

fun client_start :: "TaskEvent \<Rightarrow> Task" where
  "client_start (TE_Task t) = t"
| "client_start (TE_Status e) = client_status_update (unknown_task (sue_task_id e) (sue_context_id e)) e"
| "client_start (TE_Artifact e) = append_artifact_to_task (unknown_task (aue_task_id e) (aue_context_id e)) e"

abbreviation is_update :: "TaskEvent \<Rightarrow> bool" where
  "is_update te \<equiv> (\<forall>t. te \<noteq> TE_Task t)"

text \<open>The manager tracks the task object \<open>r\<close>.\<close>

definition tracks :: "ClientTaskManager \<Rightarrow> addr \<Rightarrow> 'st store_state \<Rightarrow> bool" where
  "tracks tm r w \<longleftrightarrow> ctm_current_task tm = Some r \<and> truthy (ctm_task_id tm) \<and> live w r"

subsection \<open>Lemmas\<close>

lemma client_status_update_simps [simp]:
  "task_id (client_status_update t e) = task_id t"
  "task_context_id (client_status_update t e) = task_context_id t"
  "task_status (client_status_update t e) = sue_status e"
  "task_artifacts (client_status_update t e) = task_artifacts t"
  by (simp_all add: client_status_update_def Let_def split: option.splits)

lemma client_update_ids [simp]:
  "task_id (client_update t te) = task_id t"
  "task_context_id (client_update t te) = task_context_id t"
  by (cases te; simp)+

lemma ctm_adopt_simps [simp]:
  "ctm_current_task (ctm_adopt te tm) = ctm_current_task tm"
  "truthy (ctm_task_id tm) \<Longrightarrow> ctm_task_id (ctm_adopt te tm) = ctm_task_id tm"
  by (simp_all add: ctm_adopt_def Let_def)

lemma ctm_adopt_new [simp]:
  "ctm_task_id (ctm_adopt te ctm_new) = Some (te_task_id te)"
  "ctm_context_id (ctm_adopt te ctm_new) = Some (te_context_id te)"
  by (simp_all add: ctm_adopt_def Let_def ctm_new_def)

lemma ctm_task_object_new [simp]:
  "ctm_task_object te (ctm_adopt te ctm_new) w = alloc (unknown_task (te_task_id te) (te_context_id te)) w"
proof -
  have "ctm_current_task ctm_new = None" by (simp add: ctm_new_def)
  then show ?thesis by (simp add: ctm_task_object_def or_else_def)
qed

text \<open>The first event of a stream: the manager tracks a fresh object with the value of the specification.\<close>

lemma ctm_first_event:
  assumes "te_task_id te \<noteq> []"
  shows "\<exists>tm'. ctm_save_task_event te ctm_new w =
           (Inr (length (heap w)), tm', w\<lparr>heap := heap w @ [client_start te]\<rparr>) \<and>
         tracks tm' (length (heap w)) (w\<lparr>heap := heap w @ [client_start te]\<rparr>)"
proof (cases te)
  case (TE_Task t)
  with assms show ?thesis
    by (simp add: ctm_save_task_event_def ctm_new_def ctm_save_task_def alloc_def tracks_def live_def obj_def Let_def)
next
  case (TE_Status e)
  with assms show ?thesis
    by (simp add: ctm_save_task_event_def alloc_def tracks_def live_def obj_def set_obj_def)
next
  case (TE_Artifact e)
  with assms show ?thesis
    by (simp add: ctm_save_task_event_def alloc_def tracks_def live_def obj_def set_obj_def)
qed

text \<open>A later update changes the tracked object in place, whatever its identifiers are.\<close>

lemma ctm_next_event:
  assumes "tracks tm r w" and "is_update te"
  shows "\<exists>tm'. ctm_save_task_event te tm w = (Inr r, tm', set_obj r (client_update (obj w r) te) w) \<and>
         tracks tm' r (set_obj r (client_update (obj w r) te) w)"
  using assms
  by (cases te) (simp_all add: ctm_save_task_event_def ctm_task_object_def tracks_def Let_def)

lemma ctm_second_task:
  "tracks tm r w \<Longrightarrow> ctm_save_task_event (TE_Task t) tm w =
     (Inl (A2AClientInvalidArgsError ''Task is already set, create new manager for new tasks.''), tm, w)"
  by (simp add: ctm_save_task_event_def tracks_def)

subsection \<open>The client's task and the server's\<close>

definition update_message :: "TaskEvent \<Rightarrow> Message list" where
  "update_message te = (case te of TE_Status e \<Rightarrow> status_event_message e | _ \<Rightarrow> [])"

lemma client_history_update:
  "or_else (task_history (client_update t te)) [] = or_else (task_history t) [] @ update_message te"
  by (cases te)
     (auto simp: update_message_def client_status_update_def status_event_message_def Let_def split: option.splits)

lemma server_log_update:
  "is_update te \<Longrightarrow> status_log (apply_task_event m (Some t) te) = status_log t @ update_message te"
  by (cases te) (simp_all add: status_log_apply update_message_def, simp add: status_log_def)

definition same_but_history :: "Task \<Rightarrow> Task \<Rightarrow> bool" where
  "same_but_history s t \<longleftrightarrow> s\<lparr>task_history := None\<rparr> = t\<lparr>task_history := None\<rparr>"

lemma same_but_history_iff:
  "same_but_history s t \<longleftrightarrow> task_artifacts s = task_artifacts t \<and> task_context_id s = task_context_id t \<and>
     task_id s = task_id t \<and> task_metadata s = task_metadata t \<and> task_status s = task_status t"
  by (cases s; cases t) (auto simp: same_but_history_def)

lemma same_but_history_update:
  assumes "same_but_history s t" and "is_update te"
  shows "same_but_history (client_update s te) (apply_task_event m (Some t) te)"
proof -
  have "task_metadata (client_status_update s e) = task_metadata (apply_status_update t e)" for e
    using assms(1)
    by (auto simp: same_but_history_iff client_status_update_def apply_status_update_def Let_def merge_metadata_def
        push_history_def split: option.splits)
  moreover have "task_artifacts (append_artifact_to_task s e) = task_artifacts (append_artifact_to_task t e)" for e
    using assms(1) by (simp add: same_but_history_iff append_artifact_to_task_def Let_def)
  ultimately show ?thesis using assms by (cases te) (simp_all add: same_but_history_iff)
qed

text \<open>
  Claim C12. A client that is sent a task and then its updates ends with the server's task: the identifiers, status,
  artifacts and metadata are those the server's task manager computes from the same events. The
  histories differ: the client appends the message of each new status as it arrives, the server the message of
  each replaced one. So the client's history is the one it was sent with the new messages after it; the server's
  history followed by its current status message is the same list, but with the status message that the task had when
  it was sent in front of the new ones, a message that the client never appends.
\<close>

theorem client_view_of_stream:
  assumes "\<forall>te \<in> set es. is_update te"
  shows "let c = foldl client_update t es; s = foldl (\<lambda>u. apply_task_event m (Some u)) t es
         in same_but_history c s \<and>
            or_else (task_history c) [] = or_else (task_history t) [] @ concat (map update_message es) \<and>
            status_log s = status_log t @ concat (map update_message es)"
  using assms
proof (induction es rule: rev_induct)
  case Nil
  show ?case by (simp add: same_but_history_def)
next
  case (snoc te es)
  then have "is_update te" by simp
  with snoc show ?case
    by (simp add: Let_def client_history_update server_log_update same_but_history_update)
qed

theorem client_view_of_stream_witness:
  "let e = TE_Status (sample_status working (Some sample_message));
       c = foldl client_update sample_task [e]; s = foldl (\<lambda>u. apply_task_event None (Some u)) sample_task [e]
   in same_but_history c s \<and> or_else (task_history c) [] = [sample_message] \<and> or_else (task_history s) [] = []"
  using client_view_of_stream [of "[TE_Status (sample_status working (Some sample_message))]" sample_task None]
  by (simp add: Let_def update_message_def status_event_message_def sample_status_def sample_task_def plain_status_def
      status_log_def apply_status_update_def)

end
