(* ===== verification/BaseClient.thy ===== *)
theory BaseClient
  imports ClientTaskManager HandlerInterface
begin

section \<open>The client (client/client.py, base_client.py, client_factory.py)\<close>

text \<open>
  \<open>BaseClient\<close> sends messages through a transport and turns what the transport delivers into
  client events: a message, or a pair of the tracked task object and the update that changed it.
  The consumers that the user registered are awaited for every event before it is yielded.

  The transport is the abstract class \<open>ClientTransport\<close>, a record of its methods over a state
  \<open>'w\<close> (the network and the server); a stream is the events it yields and how it ends. Consumers
  may change the state and the task objects on the heap. The client call context, which is only handed to the
  transport, is part of the transport's methods.
\<close>

subsection \<open>What is sent\<close>

text \<open>
  \<open>model_copy(update=configuration.model_dump(exclude_unset=True))\<close>: only the fields the caller
  set replace those of the base configuration, without validation; a nested push notification
  configuration therefore arrives as the dictionary of its dump.
\<close>

datatype push_setting =
    Push_None
  | Push_Model PushNotificationConfig
  | Push_Dict PushNotificationConfig

record sent_configuration =
  sc_accepted_output_modes :: "string list option"
  sc_blocking :: "bool option"
  sc_history_length :: "int option"
  sc_push_notification_config :: push_setting

text \<open>The configuration of the caller: \<open>None\<close> is a field that was not set.\<close>

record given_configuration =
  gc_accepted_output_modes :: "string list option option"
  gc_blocking :: "bool option option"
  gc_history_length :: "int option option"
  gc_push_notification_config :: "PushNotificationConfig option option"

record sent_params =
  sp_configuration :: sent_configuration
  sp_message :: Message
  sp_metadata :: "pydict option"

record ClientConfig =
  cc_streaming :: bool
  cc_polling :: bool
  cc_supported_transports :: "string list"
  cc_use_client_preference :: bool
  cc_accepted_output_modes :: "string list"
  cc_push_notification_configs :: "PushNotificationConfig list"
  cc_extensions :: "string list"

definition base_configuration :: "ClientConfig \<Rightarrow> sent_configuration" where
  "base_configuration cfg =
     \<lparr>sc_accepted_output_modes = Some (cc_accepted_output_modes cfg), sc_blocking = Some (\<not> cc_polling cfg),
      sc_history_length = None,
      sc_push_notification_config =
        (case cc_push_notification_configs cfg of [] \<Rightarrow> Push_None | c # cs \<Rightarrow> Push_Model c)\<rparr>"

definition merge_configuration :: "given_configuration option \<Rightarrow> sent_configuration \<Rightarrow> sent_configuration" where
  "merge_configuration given b =
     (case given of
        None \<Rightarrow> b
      | Some g \<Rightarrow>
          \<lparr>sc_accepted_output_modes =
             (case gc_accepted_output_modes g of None \<Rightarrow> sc_accepted_output_modes b | Some x \<Rightarrow> x),
           sc_blocking = (case gc_blocking g of None \<Rightarrow> sc_blocking b | Some x \<Rightarrow> x),
           sc_history_length = (case gc_history_length g of None \<Rightarrow> sc_history_length b | Some x \<Rightarrow> x),
           sc_push_notification_config =
             (case gc_push_notification_config g of
                None \<Rightarrow> sc_push_notification_config b
              | Some None \<Rightarrow> Push_None
              | Some (Some c) \<Rightarrow> Push_Dict c)\<rparr>)"

subsection \<open>Transports, consumers, the client\<close>

record 'w client_transport =
  ct_send_message :: "sent_params \<Rightarrow> string list option \<Rightarrow> 'w \<Rightarrow> (Task + Message) await \<times> 'w"
  ct_send_message_streaming :: "sent_params \<Rightarrow> string list option \<Rightarrow> 'w \<Rightarrow> (Event list \<times> unit await) \<times> 'w"
  ct_get_task :: "TaskQueryParams \<Rightarrow> string list option \<Rightarrow> 'w \<Rightarrow> Task await \<times> 'w"
  ct_cancel_task :: "TaskIdParams \<Rightarrow> string list option \<Rightarrow> 'w \<Rightarrow> Task await \<times> 'w"
  ct_set_task_callback ::
    "TaskPushNotificationConfig \<Rightarrow> string list option \<Rightarrow> 'w \<Rightarrow> TaskPushNotificationConfig await \<times> 'w"
  ct_get_task_callback ::
    "GetTaskPushNotificationConfigParams \<Rightarrow> string list option \<Rightarrow> 'w \<Rightarrow> TaskPushNotificationConfig await \<times> 'w"
  ct_resubscribe :: "TaskIdParams \<Rightarrow> string list option \<Rightarrow> 'w \<Rightarrow> (Event list \<times> unit await) \<times> 'w"
  ct_get_card :: "string list option \<Rightarrow> (AgentCard \<Rightarrow> exn option) option \<Rightarrow> 'w \<Rightarrow> AgentCard await \<times> 'w"
  ct_close :: "'w \<Rightarrow> unit await \<times> 'w"

datatype client_event = CE_Message Message | CE_Task addr "Event option"

type_synonym 'w consumer = "client_event \<Rightarrow> AgentCard \<Rightarrow> 'w store_state \<Rightarrow> unit await \<times> 'w store_state"

record 'w base_client =
  bc_card :: AgentCard
  bc_config :: ClientConfig
  bc_transport :: "'w client_transport"
  bc_consumers :: "'w consumer list"

definition on_transport :: "('w \<Rightarrow> 'a \<times> 'w) \<Rightarrow> 'w store_state \<Rightarrow> 'a \<times> 'w store_state" where
  "on_transport call w = (let (r, s) = call (st w) in (r, w\<lparr>st := s\<rparr>))"

fun consume ::
  "'w consumer list \<Rightarrow> client_event \<Rightarrow> AgentCard \<Rightarrow> 'w store_state \<Rightarrow> unit await \<times> 'w store_state" where
  "consume [] event agent_card w = (Done (), w)"
| "consume (c # cs) event agent_card w =
     (case c event agent_card w of
        (Done u, w') \<Rightarrow> consume cs event agent_card w'
      | (r, w') \<Rightarrow> (r, w'))"

definition add_event_consumer :: "'w consumer \<Rightarrow> 'w base_client \<Rightarrow> 'w base_client" where
  "add_event_consumer c bc = bc\<lparr>bc_consumers := bc_consumers bc @ [c]\<rparr>"

text \<open>\<open>consume\<close> and then \<open>yield\<close>: the event is only yielded when all consumers returned.\<close>

definition consume_and_yield ::
  "'w base_client \<Rightarrow> client_event \<Rightarrow> 'w store_state \<Rightarrow> client_event await \<times> 'w store_state" where
  "consume_and_yield bc event w =
     (let (r, w') = consume (bc_consumers bc) event (bc_card bc) w in (await_map (\<lambda>u. event) r, w'))"

definition process_response ::
  "'w base_client \<Rightarrow> Event \<Rightarrow> ClientTaskManager \<Rightarrow> 'w store_state \<Rightarrow>
   client_event await \<times> ClientTaskManager \<times> 'w store_state" where
  "process_response bc event tracker w =
     (case event of
        EvMessage m \<Rightarrow>
          (Raised (A2AClientInvalidStateError
             ''received a streamed Message from server after first response; this is not supported''), tracker, w)
      | _ \<Rightarrow>
          (case ctm_process event tracker w of
             (Inl e, tracker1, w1) \<Rightarrow> (Raised e, tracker1, w1)
           | (Inr v, tracker1, w1) \<Rightarrow>
               (case ctm_get_task_or_raise tracker1 of
                  Inl e \<Rightarrow> (Raised e, tracker1, w1)
                | Inr r \<Rightarrow>
                    let update = (case event of EvTask t \<Rightarrow> None | _ \<Rightarrow> Some event);
                        (res, w2) = consume_and_yield bc (CE_Task r update) w1
                    in (res, tracker1, w2))))"

text \<open>\<open>async for event in stream: yield await self._process_response(tracker, event)\<close>\<close>

fun process_events ::
  "'w base_client \<Rightarrow> Event list \<Rightarrow> unit await \<Rightarrow> ClientTaskManager \<Rightarrow> 'w store_state \<Rightarrow>
   (client_event list \<times> unit await) \<times> 'w store_state" where
  "process_events bc [] en tracker w = (([], en), w)"
| "process_events bc (e # es) en tracker w =
     (case process_response bc e tracker w of
        (Done item, tracker', w') \<Rightarrow>
          (let ((items, r), w'') = process_events bc es en tracker' w' in ((item # items, r), w''))
      | (Blocked, tracker', w') \<Rightarrow> (([], Blocked), w')
      | (Raised x, tracker', w') \<Rightarrow> (([], Raised x), w'))"

definition yield_one :: "client_event await \<times> 'w store_state \<Rightarrow> (client_event list \<times> unit await) \<times> 'w store_state" where
  "yield_one rw =
     (case rw of
        (Done item, w) \<Rightarrow> (([item], Done ()), w)
      | (Blocked, w) \<Rightarrow> (([], Blocked), w)
      | (Raised x, w) \<Rightarrow> (([], Raised x), w))"

definition streams :: "'w base_client \<Rightarrow> bool" where
  "streams bc \<longleftrightarrow> cc_streaming (bc_config bc) \<and> cap_streaming (card_capabilities (bc_card bc)) = Some True"

definition send_params ::
  "'w base_client \<Rightarrow> Message \<Rightarrow> given_configuration option \<Rightarrow> pydict option \<Rightarrow> sent_params" where
  "send_params bc request configuration metadata =
     \<lparr>sp_configuration = merge_configuration configuration (base_configuration (bc_config bc)),
      sp_message = request, sp_metadata = metadata\<rparr>"

text \<open>The part after the stream was opened; \<open>anext\<close> of an empty stream ends the generator with an error.\<close>

definition consume_stream ::
  "'w base_client \<Rightarrow> Event list \<Rightarrow> unit await \<Rightarrow> 'w store_state \<Rightarrow> (client_event list \<times> unit await) \<times> 'w store_state" where
  "consume_stream bc evs en w =
     (case evs of
        [] \<Rightarrow> (([], case en of Done u \<Rightarrow> Raised (RuntimeErr ''async generator raised StopAsyncIteration'') | r \<Rightarrow> r), w)
      | EvMessage m # rest \<Rightarrow> yield_one (consume_and_yield bc (CE_Message m) w)
      | _ \<Rightarrow> process_events bc evs en ctm_new w)"

definition bc_send_message ::
  "'w base_client \<Rightarrow> Message \<Rightarrow> given_configuration option \<Rightarrow> pydict option \<Rightarrow> string list option \<Rightarrow>
   'w store_state \<Rightarrow> (client_event list \<times> unit await) \<times> 'w store_state" where
  "bc_send_message bc request configuration metadata extensions w =
     (let params = send_params bc request configuration metadata in
      if \<not> streams bc
      then (case on_transport (ct_send_message (bc_transport bc) params extensions) w of
              (Raised x, w1) \<Rightarrow> (([], Raised x), w1)
            | (Blocked, w1) \<Rightarrow> (([], Blocked), w1)
            | (Done (Inl t), w1) \<Rightarrow>
                (let (r, w2) = alloc t w1 in yield_one (consume_and_yield bc (CE_Task r None) w2))
            | (Done (Inr m), w1) \<Rightarrow> yield_one (consume_and_yield bc (CE_Message m) w1))
      else (let ((evs, en), w1) = on_transport (ct_send_message_streaming (bc_transport bc) params extensions) w
            in consume_stream bc evs en w1))"

definition bc_resubscribe ::
  "'w base_client \<Rightarrow> TaskIdParams \<Rightarrow> string list option \<Rightarrow> 'w store_state \<Rightarrow>
   (client_event list \<times> unit await) \<times> 'w store_state" where
  "bc_resubscribe bc request extensions w =
     (if \<not> streams bc
      then (([], Raised (NotImplementedErr ''client and/or server do not support resubscription.'')), w)
      else (let ((evs, en), w1) = on_transport (ct_resubscribe (bc_transport bc) request extensions) w
            in process_events bc evs en ctm_new w1))"

definition bc_get_task ::
  "'w base_client \<Rightarrow> TaskQueryParams \<Rightarrow> string list option \<Rightarrow> 'w store_state \<Rightarrow> Task await \<times> 'w store_state" where
  "bc_get_task bc request extensions = on_transport (ct_get_task (bc_transport bc) request extensions)"

definition bc_cancel_task ::
  "'w base_client \<Rightarrow> TaskIdParams \<Rightarrow> string list option \<Rightarrow> 'w store_state \<Rightarrow> Task await \<times> 'w store_state" where
  "bc_cancel_task bc request extensions = on_transport (ct_cancel_task (bc_transport bc) request extensions)"

definition bc_set_task_callback ::
  "'w base_client \<Rightarrow> TaskPushNotificationConfig \<Rightarrow> string list option \<Rightarrow> 'w store_state \<Rightarrow>
   TaskPushNotificationConfig await \<times> 'w store_state" where
  "bc_set_task_callback bc request extensions =
     on_transport (ct_set_task_callback (bc_transport bc) request extensions)"

definition bc_get_task_callback ::
  "'w base_client \<Rightarrow> GetTaskPushNotificationConfigParams \<Rightarrow> string list option \<Rightarrow> 'w store_state \<Rightarrow>
   TaskPushNotificationConfig await \<times> 'w store_state" where
  "bc_get_task_callback bc request extensions =
     on_transport (ct_get_task_callback (bc_transport bc) request extensions)"

definition bc_get_card ::
  "'w base_client \<Rightarrow> string list option \<Rightarrow> (AgentCard \<Rightarrow> exn option) option \<Rightarrow> 'w store_state \<Rightarrow>
   AgentCard await \<times> 'w base_client \<times> 'w store_state" where
  "bc_get_card bc extensions verifier w =
     (case on_transport (ct_get_card (bc_transport bc) extensions verifier) w of
        (Done new_card, w') \<Rightarrow> (Done new_card, bc\<lparr>bc_card := new_card\<rparr>, w')
      | (r, w') \<Rightarrow> (r, bc, w'))"

definition bc_close :: "'w base_client \<Rightarrow> 'w store_state \<Rightarrow> unit await \<times> 'w store_state" where
  "bc_close bc = on_transport (ct_close (bc_transport bc))"

subsection \<open>What the user sees of a stream\<close>

fun task_event_event :: "TaskEvent \<Rightarrow> Event" where
  "task_event_event (TE_Task t) = EvTask t"
| "task_event_event (TE_Status e) = EvStatus e"
| "task_event_event (TE_Artifact e) = EvArtifact e"

definition update_of :: "TaskEvent \<Rightarrow> Event option" where
  "update_of te = (case te of TE_Task t \<Rightarrow> None | _ \<Rightarrow> Some (task_event_event te))"

text \<open>Consumers that return and leave the task objects alone.\<close>

definition quiet :: "'w consumer list \<Rightarrow> bool" where
  "quiet cs \<longleftrightarrow> (\<forall>c \<in> set cs. \<forall>event a w. \<exists>s. c event a w = (Done (), w\<lparr>st := s\<rparr>))"

lemma quiet_consumers: "quiet cs \<Longrightarrow> \<exists>s. consume cs event a w = (Done (), w\<lparr>st := s\<rparr>)"
proof (induction cs arbitrary: w)
  case Nil
  have "w = w\<lparr>st := st w\<rparr>" by simp
  then show ?case by (metis consume.simps(1))
next
  case (Cons c cs)
  then have "\<exists>s. c event a w = (Done (), w\<lparr>st := s\<rparr>)" unfolding quiet_def by simp
  then obtain s where c: "c event a w = (Done (), w\<lparr>st := s\<rparr>)" by blast
  from Cons.prems have "quiet cs" by (simp add: quiet_def)
  from Cons.IH [OF this, of "w\<lparr>st := s\<rparr>"] c show ?case by simp
qed

lemma as_task_event_event [simp]: "as_task_event (task_event_event te) = Some te"
  by (cases te) simp_all

lemma tracks_st [simp]: "tracks tm r (w\<lparr>st := s\<rparr>) = tracks tm r w"
  by (simp add: tracks_def)

lemma process_response_saved:
  assumes "quiet (bc_consumers bc)" and "ctm_save_task_event te tracker w = (Inr q, tracker', w')"
    and "tracks tracker' r w'"
  shows "\<exists>s. process_response bc (task_event_event te) tracker w =
           (Done (CE_Task r (update_of te)), tracker', w'\<lparr>st := s\<rparr>)"
proof -
  obtain s where s: "consume (bc_consumers bc) (CE_Task r (update_of te)) (bc_card bc) w' = (Done (), w'\<lparr>st := s\<rparr>)"
    using quiet_consumers [OF assms(1)] by blast
  have "ctm_get_task_or_raise tracker' = Inr r"
    using assms(3) by (simp add: tracks_def ctm_get_task_or_raise_def ctm_get_task_def)
  with assms(2) s show ?thesis
    by (intro exI [of _ s], cases te)
       (simp_all add: process_response_def ctm_process_def consume_and_yield_def update_of_def)
qed

text \<open>Updates of a tracked task, then anything else.\<close>

lemma process_events_updates:
  assumes "quiet (bc_consumers bc)" and "tracks tracker r w" and "\<forall>te \<in> set tes. is_update te"
  shows "\<exists>tracker' w'. tracks tracker' r w' \<and> heap w' = (heap w)[r := foldl client_update (obj w r) tes] \<and>
           process_events bc (map task_event_event tes @ later) en tracker w =
             (let ((items, e), w'') = process_events bc later en tracker' w'
              in ((map (\<lambda>te. CE_Task r (update_of te)) tes @ items, e), w''))"
  using assms(2,3)
proof (induction tes arbitrary: tracker w)
  case Nil
  have "heap w = (heap w)[r := obj w r]" by (simp add: obj_def)
  with Nil show ?case by (intro exI [of _ tracker] exI [of _ w]) simp
next
  case (Cons te tes)
  let ?w = "set_obj r (client_update (obj w r) te) w"
  from Cons.prems ctm_next_event [of tracker r w te] obtain tracker1 where
    sv: "ctm_save_task_event te tracker w = (Inr r, tracker1, ?w)" and t1: "tracks tracker1 r ?w" by auto
  from process_response_saved [OF assms(1) sv t1] obtain s where
    p: "process_response bc (task_event_event te) tracker w =
          (Done (CE_Task r (update_of te)), tracker1, ?w\<lparr>st := s\<rparr>)" by blast
  have live: "live w r" using Cons.prems by (simp add: tracks_def)
  have "tracks tracker1 r (?w\<lparr>st := s\<rparr>)" "\<forall>te \<in> set tes. is_update te" using t1 Cons.prems by simp_all
  from Cons.IH [OF this] obtain tracker' w' where
    ih: "tracks tracker' r w'" "heap w' = (heap ?w)[r := foldl client_update (obj ?w r) tes]"
      "process_events bc (map task_event_event tes @ later) en tracker1 (?w\<lparr>st := s\<rparr>) =
             (let ((items, e), w'') = process_events bc later en tracker' w'
              in ((map (\<lambda>te. CE_Task r (update_of te)) tes @ items, e), w''))" by auto
  from ih(2) live have "heap w' = (heap w)[r := foldl client_update (obj w r) (te # tes)]"
    by (simp add: set_obj_def obj_def live_def)
  with ih p show ?case
    by (intro exI [of _ tracker'] exI [of _ w']) (simp add: Let_def split: prod.splits)
qed

text \<open>A whole stream: the first event creates the tracked object, the others change it.\<close>

lemma process_events_stream:
  assumes "quiet (bc_consumers bc)" and "te_task_id te \<noteq> []" and "\<forall>te \<in> set tes. is_update te"
  shows "\<exists>tracker' w'. tracks tracker' (length (heap w)) w' \<and>
           heap w' = heap w @ [foldl client_update (client_start te) tes] \<and>
           process_events bc (map task_event_event (te # tes) @ later) en ctm_new w =
             (let ((items, e), w'') = process_events bc later en tracker' w'
              in ((map (\<lambda>te. CE_Task (length (heap w)) (update_of te)) (te # tes) @ items, e), w''))"
proof -
  let ?r = "length (heap w)"
  let ?w = "w\<lparr>heap := heap w @ [client_start te]\<rparr>"
  from ctm_first_event [OF assms(2), of w] obtain tracker1 where
    sv: "ctm_save_task_event te ctm_new w = (Inr ?r, tracker1, ?w)" and t1: "tracks tracker1 ?r ?w" by auto
  from process_response_saved [OF assms(1) sv t1] obtain s where
    p: "process_response bc (task_event_event te) ctm_new w = (Done (CE_Task ?r (update_of te)), tracker1, ?w\<lparr>st := s\<rparr>)"
    by blast
  have "tracks tracker1 ?r (?w\<lparr>st := s\<rparr>)" using t1 by simp
  from process_events_updates [OF assms(1) this assms(3), of later en] obtain tracker' w' where
    u: "tracks tracker' ?r w'" "heap w' = (heap ?w)[?r := foldl client_update (obj ?w ?r) tes]"
      "process_events bc (map task_event_event tes @ later) en tracker1 (?w\<lparr>st := s\<rparr>) =
             (let ((items, e), w'') = process_events bc later en tracker' w'
              in ((map (\<lambda>te. CE_Task ?r (update_of te)) tes @ items, e), w''))" by auto
  with p show ?thesis
    by (intro exI [of _ tracker'] exI [of _ w']) (simp add: obj_def Let_def split: prod.splits)
qed

lemma bc_send_message_stream:
  assumes "streams bc" and "quiet (bc_consumers bc)" and "te_task_id te \<noteq> []" and "\<forall>u \<in> set tes. is_update u"
    and "ct_send_message_streaming (bc_transport bc) (send_params bc m conf md) exts (st w) =
           ((map task_event_event (te # tes) @ later, en), s)"
  shows "\<exists>tracker w'. tracks tracker (length (heap w)) w' \<and>
           heap w' = heap w @ [foldl client_update (client_start te) tes] \<and>
           bc_send_message bc m conf md exts w =
             (let ((items, e), w'') = process_events bc later en tracker w'
              in ((map (\<lambda>u. CE_Task (length (heap w)) (update_of u)) (te # tes) @ items, e), w''))"
proof -
  have "consume_stream bc (map task_event_event (te # tes) @ later) en (w\<lparr>st := s\<rparr>) =
      process_events bc (map task_event_event (te # tes) @ later) en ctm_new (w\<lparr>st := s\<rparr>)"
    by (cases te) (simp_all add: consume_stream_def)
  with assms(1,5) process_events_stream [OF assms(2-4), of "w\<lparr>st := s\<rparr>" later en] show ?thesis
    by (simp add: bc_send_message_def on_transport_def)
qed

text \<open>
  Claim C11. What a streaming client yields: for a stream of a task's events, one pair per event in order, each
  with the update that arrived and all with one and the same task object, which holds at the end what the events
  make of it. A pair yielded earlier therefore shows the later state of the task as soon as the next
  event has been processed.
\<close>

theorem client_follows_stream:
  assumes "streams bc" and "quiet (bc_consumers bc)" and "te_task_id te \<noteq> []" and "\<forall>u \<in> set tes. is_update u"
    and "ct_send_message_streaming (bc_transport bc) (send_params bc m conf md) exts (st w) =
           ((map task_event_event (te # tes), en), s)"
  shows "\<exists>w'. bc_send_message bc m conf md exts w =
             ((map (\<lambda>u. CE_Task (length (heap w)) (update_of u)) (te # tes), en), w') \<and>
           heap w' = heap w @ [foldl client_update (client_start te) tes]"
  using bc_send_message_stream [OF assms(1-4), of m conf md exts w "[]" en s] assms(5) by auto

text \<open>
  A streaming client refuses a message or a second task after the first event of the stream: the pairs
  before it are yielded, then the call fails, and the rest of the stream is never looked at.
\<close>

theorem unexpected_event_ends_stream:
  assumes "streams bc" and "quiet (bc_consumers bc)" and "te_task_id te \<noteq> []" and "\<forall>u \<in> set tes. is_update u"
    and "bad = EvMessage x \<or> bad = EvTask t"
    and "ct_send_message_streaming (bc_transport bc) (send_params bc m conf md) exts (st w) =
           ((map task_event_event (te # tes) @ bad # later, en), s)"
  shows "\<exists>e w'. bc_send_message bc m conf md exts w =
             ((map (\<lambda>u. CE_Task (length (heap w)) (update_of u)) (te # tes), Raised e), w') \<and>
           (case bad of EvMessage y \<Rightarrow> \<exists>t. e = A2AClientInvalidStateError t | _ \<Rightarrow> \<exists>t. e = A2AClientInvalidArgsError t)"
proof -
  from bc_send_message_stream [OF assms(1-4,6)] obtain tracker w' where
    tr: "tracks tracker (length (heap w)) w'" and
    eq: "bc_send_message bc m conf md exts w =
             (let ((items, e), w'') = process_events bc (bad # later) en tracker w'
              in ((map (\<lambda>u. CE_Task (length (heap w)) (update_of u)) (te # tes) @ items, e), w''))" by blast
  from assms(5) show ?thesis
  proof
    assume "bad = EvMessage x"
    with eq show ?thesis by (simp add: process_response_def)
  next
    assume "bad = EvTask t"
    with eq ctm_second_task [OF tr, of t] show ?thesis by (simp add: process_response_def ctm_process_def)
  qed
qed

subsection \<open>A sample transport\<close>

definition sample_transport :: "Event list \<Rightarrow> unit client_transport" where
  "sample_transport evs =
     \<lparr>ct_send_message = (\<lambda>p x s. (Blocked, s)), ct_send_message_streaming = (\<lambda>p x s. ((evs, Done ()), s)),
      ct_get_task = (\<lambda>p x s. (Blocked, s)), ct_cancel_task = (\<lambda>p x s. (Blocked, s)),
      ct_set_task_callback = (\<lambda>p x s. (Blocked, s)), ct_get_task_callback = (\<lambda>p x s. (Blocked, s)),
      ct_resubscribe = (\<lambda>p x s. (([], Blocked), s)), ct_get_card = (\<lambda>x v s. (Blocked, s)),
      ct_close = (\<lambda>s. (Done (), s))\<rparr>"

definition sample_client_config :: ClientConfig where
  "sample_client_config = \<lparr>cc_streaming = True, cc_polling = False, cc_supported_transports = [],
     cc_use_client_preference = False, cc_accepted_output_modes = [], cc_push_notification_configs = [],
     cc_extensions = []\<rparr>"

definition sample_base_client :: "AgentCard \<Rightarrow> Event list \<Rightarrow> unit base_client" where
  "sample_base_client c evs = \<lparr>bc_card = c, bc_config = sample_client_config,
     bc_transport = sample_transport evs, bc_consumers = []\<rparr>"

theorem client_follows_stream_witness:
  "\<exists>w'. bc_send_message (sample_base_client (sample_card (Some True))
            [EvTask sample_task, EvStatus (sample_status working (Some sample_message))])
          sample_message None None None \<lparr>heap = [], st = ()\<rparr> =
        (([CE_Task 0 None, CE_Task 0 (Some (EvStatus (sample_status working (Some sample_message))))], Done ()), w') \<and>
     status_state (task_status (heap w' ! 0)) = working"
  using client_follows_stream [of "sample_base_client (sample_card (Some True))
            [EvTask sample_task, EvStatus (sample_status working (Some sample_message))]" "TE_Task sample_task"
          "[TE_Status (sample_status working (Some sample_message))]" sample_message None None None
          "\<lparr>heap = [], st = ()\<rparr>" "Done ()" "()"]
  by (auto simp: sample_base_client_def sample_client_config_def sample_transport_def streams_def sample_card_def
      quiet_def update_of_def sample_task_def sample_status_def)

theorem unexpected_event_ends_stream_witness:
  "\<exists>e w'. bc_send_message (sample_base_client (sample_card (Some True)) [EvTask sample_task, EvTask sample_task])
          sample_message None None None \<lparr>heap = [], st = ()\<rparr> = (([CE_Task 0 None], Raised e), w') \<and>
     (\<exists>t. e = A2AClientInvalidArgsError t)"
  using unexpected_event_ends_stream [of "sample_base_client (sample_card (Some True))
            [EvTask sample_task, EvTask sample_task]" "TE_Task sample_task" "[]" "EvTask sample_task" sample_message
          sample_task sample_message None None None "\<lparr>heap = [], st = ()\<rparr>" "[]" "Done ()" "()"]
  by (auto simp: sample_base_client_def sample_client_config_def sample_transport_def streams_def sample_card_def
      quiet_def update_of_def sample_task_def)

end
