(* ===== verification/ClientAuth.thy ===== *)
theory ClientAuth
  imports A2A_Protocol Utils
begin

section \<open>Client calls: context, credentials, authentication (client/middleware.py, client/auth)\<close>

text \<open>
  Interceptors rewrite the payload and the HTTP arguments of a call. \<open>AuthInterceptor\<close> adds one
  header for the first scheme, in the order of the card's security requirements, for which the credential service
  has a credential and whose kind it can express. The credential service is an argument;
  \<open>InMemoryContextCredentialStore\<close> is the SDK's own.
\<close>

record http_kwargs =
  hk_headers :: "(string \<times> string) list option"
  hk_timeout :: "pyval option"
  hk_other :: pydict

definition no_kwargs :: http_kwargs where
  "no_kwargs = \<lparr>hk_headers = None, hk_timeout = None, hk_other = []\<rparr>"

text \<open>The state dictionary of a \<open>ClientCallContext\<close>: the two keys the SDK reads.\<close>

record ClientCallContext =
  ccx_http_kwargs :: "http_kwargs option"
  ccx_session_id :: "string option"

subsection \<open>The credential store\<close>

type_synonym credential_store = "(string \<times> (string \<times> string) list) list"

definition get_credentials :: "string \<Rightarrow> ClientCallContext option \<Rightarrow> credential_store \<Rightarrow> string option" where
  "get_credentials scheme ctx store =
     (case ctx of
        None \<Rightarrow> None
      | Some c \<Rightarrow>
          (case ccx_session_id c of
             None \<Rightarrow> None
           | Some session \<Rightarrow>
               map_of (case map_of store session of None \<Rightarrow> [] | Some creds \<Rightarrow> creds) scheme))"

definition set_credentials :: "string \<Rightarrow> string \<Rightarrow> string \<Rightarrow> credential_store \<Rightarrow> credential_store" where
  "set_credentials session scheme credential store =
     (let store1 = (if map_of store session = None then AList.update session [] store else store)
      in AList.update session (AList.update scheme credential (the (map_of store1 session))) store1)"

subsection \<open>The interceptor\<close>

text \<open>The \<open>match scheme_def\<close>: the header one scheme asks for.\<close>

fun scheme_header :: "SecurityScheme \<Rightarrow> string \<Rightarrow> (string \<times> string) option" where
  "scheme_header (HTTPAuthScheme h) credential =
     (if lower (has_scheme h) = ''bearer'' then Some (''Authorization'', ''Bearer '' @ credential) else None)"
| "scheme_header (OAuth2Scheme s) credential = Some (''Authorization'', ''Bearer '' @ credential)"
| "scheme_header (OpenIdConnectScheme s) credential = Some (''Authorization'', ''Bearer '' @ credential)"
| "scheme_header (APIKeyScheme k) credential =
     (if aks_in k = In.header then Some (aks_name k, credential) else None)"
| "scheme_header (MutualTLSScheme m) credential = None"

definition credential_header ::
  "(string \<times> SecurityScheme) list \<Rightarrow> (string \<Rightarrow> string option) \<Rightarrow> string \<Rightarrow> (string \<times> string) option" where
  "credential_header schemes credentials name =
     (if truthy (credentials name)
      then (case map_of schemes name of
              None \<Rightarrow> None
            | Some scheme \<Rightarrow> scheme_header scheme (the (credentials name)))
      else None)"

fun first_header ::
  "(string \<times> SecurityScheme) list \<Rightarrow> (string \<Rightarrow> string option) \<Rightarrow> string list \<Rightarrow> (string \<times> string) option" where
  "first_header schemes credentials [] = None"
| "first_header schemes credentials (name # names) =
     (case credential_header schemes credentials name of
        Some h \<Rightarrow> Some h
      | None \<Rightarrow> first_header schemes credentials names)"

definition add_header :: "string \<times> string \<Rightarrow> http_kwargs \<Rightarrow> http_kwargs" where
  "add_header h kw =
     kw\<lparr>hk_headers := Some (AList.update (fst h) (snd h) (case hk_headers kw of None \<Rightarrow> [] | Some hs \<Rightarrow> hs))\<rparr>"

definition auth_intercept ::
  "(string \<Rightarrow> string option) \<Rightarrow> 'p \<Rightarrow> http_kwargs \<Rightarrow> AgentCard option \<Rightarrow> 'p \<times> http_kwargs" where
  "auth_intercept credentials payload kw agent_card =
     (case agent_card of
        None \<Rightarrow> (payload, kw)
      | Some c \<Rightarrow>
          (case (card_security c, card_security_schemes c) of
             (Some requirements, Some schemes) \<Rightarrow>
               (case first_header schemes credentials (concat (map (map fst) requirements)) of
                  None \<Rightarrow> (payload, kw)
                | Some h \<Rightarrow> (payload, add_header h kw))
           | _ \<Rightarrow> (payload, kw)))"

definition header_of :: "http_kwargs \<Rightarrow> string \<Rightarrow> string option" where
  "header_of kw name = map_of (case hk_headers kw of None \<Rightarrow> [] | Some hs \<Rightarrow> hs) name"

lemma header_of_add [simp]: "header_of (add_header h kw) name = (if name = fst h then Some (snd h) else header_of kw name)"
  by (simp add: header_of_def add_header_def update_conv' split: option.splits)

lemma first_header_None: "first_header schemes creds names = None \<longleftrightarrow> (\<forall>n \<in> set names. credential_header schemes creds n = None)"
  by (induction names) (auto split: option.splits)

lemma first_header_Some:
  assumes "first_header schemes creds names = Some h"
  shows "\<exists>pre n post. names = pre @ n # post \<and> (\<forall>m \<in> set pre. credential_header schemes creds m = None) \<and>
           credential_header schemes creds n = Some h"
  using assms
proof (induction names)
  case (Cons a names)
  show ?case
  proof (cases "credential_header schemes creds a")
    case None
    with Cons obtain pre n post where "names = pre @ n # post" "\<forall>m \<in> set pre. credential_header schemes creds m = None"
      "credential_header schemes creds n = Some h" by auto
    with None show ?thesis by (intro exI [of _ "a # pre"] exI [of _ n] exI [of _ post]) simp
  next
    case (Some x)
    with Cons.prems show ?thesis by (intro exI [of _ "[]"] exI [of _ a] exI [of _ names]) simp
  qed
qed simp

text \<open>
  The authentication interceptor sends exactly one credential: it sets the header of the first scheme of
  the card's requirements that it can serve and leaves payload, the other headers and the other HTTP arguments
  alone. So a requirement that names several schemes at once is answered with one of them.
\<close>

theorem auth_sends_one_credential:
  assumes "card_security c = Some requirements" and "card_security_schemes c = Some schemes"
    and "auth_intercept creds payload kw (Some c) = (payload', kw')"
  shows "payload' = payload \<and>
    (let names = concat (map (map fst) requirements); usable = (\<lambda>n. credential_header schemes creds n) in
       (kw' = kw \<and> (\<forall>n \<in> set names. usable n = None)) \<or>
       (\<exists>pre n post name value. names = pre @ n # post \<and> (\<forall>m \<in> set pre. usable m = None) \<and>
          usable n = Some (name, value) \<and> header_of kw' = (header_of kw)(name \<mapsto> value) \<and>
          hk_timeout kw' = hk_timeout kw \<and> hk_other kw' = hk_other kw))"
proof (cases "first_header schemes creds (concat (map (map fst) requirements))")
  case None
  with assms show ?thesis by (simp add: auth_intercept_def first_header_None Let_def)
next
  case (Some h)
  with assms have p: "payload' = payload" "kw' = add_header h kw" by (simp_all add: auth_intercept_def)
  have k: "header_of kw' = (header_of kw)(fst h \<mapsto> snd h)" "hk_timeout kw' = hk_timeout kw" "hk_other kw' = hk_other kw"
    by (auto simp: p fun_eq_iff) (simp_all add: add_header_def)
  from first_header_Some [OF Some] obtain pre n post where
    "concat (map (map fst) requirements) = pre @ n # post" "\<forall>m \<in> set pre. credential_header schemes creds m = None"
    "credential_header schemes creds n = Some (fst h, snd h)" by auto
  with p k show ?thesis unfolding Let_def by blast
qed

definition sample_schemes :: "(string \<times> SecurityScheme) list" where
  "sample_schemes = [(''key'', APIKeyScheme \<lparr>aks_description = None, aks_in = header, aks_name = ''X-Key''\<rparr>),
     (''http'', HTTPAuthScheme \<lparr>has_bearer_format = None, has_description = None, has_scheme = ''Bearer''\<rparr>)]"

theorem auth_sends_one_credential_witness:
  "auth_intercept (\<lambda>n. Some ''secret'') () no_kwargs (Some ((sample_card None)\<lparr>card_security := Some [[(''other'', []), (''key'', []),
       (''http'', [])]], card_security_schemes := Some sample_schemes\<rparr>)) = ((), add_header (''X-Key'', ''secret'') no_kwargs) \<and>
   (\<exists>n name value. n \<in> {''other'', ''key'', ''http''} \<and>
      credential_header sample_schemes (\<lambda>n. Some ''secret'') n = Some (name, value) \<and>
      header_of (add_header (''X-Key'', ''secret'') no_kwargs) = (header_of no_kwargs)(name \<mapsto> value))"
proof -
  let ?c = "(sample_card None)\<lparr>card_security := Some [[(''other'', []), (''key'', []), (''http'', [])]],
       card_security_schemes := Some sample_schemes\<rparr>"
  have r: "auth_intercept (\<lambda>n. Some ''secret'') () no_kwargs (Some ?c) = ((), add_header (''X-Key'', ''secret'') no_kwargs)"
    by (simp add: auth_intercept_def credential_header_def sample_schemes_def)
  have ne: "add_header (''X-Key'', ''secret'') no_kwargs \<noteq> no_kwargs"
    by (simp add: add_header_def no_kwargs_def)
  from auth_sends_one_credential [OF _ _ r, of "[[(''other'', []), (''key'', []), (''http'', [])]]" sample_schemes] ne
  obtain pre n post hname v where n: "[''other'', ''key'', ''http''] = pre @ n # post"
    "credential_header sample_schemes (\<lambda>n. Some ''secret'') n = Some (hname, v)"
    "header_of (add_header (''X-Key'', ''secret'') no_kwargs) = (header_of no_kwargs)(hname \<mapsto> v)"
    by (auto simp: Let_def)
  from n(1) have "n \<in> set [''other'', ''key'', ''http'']" by (metis in_set_conv_decomp)
  with n r show ?thesis by (metis empty_set list.simps(15))
qed

text \<open>
  A credential is found under the session and the scheme it was set for, and setting it changes no other one.
\<close>

theorem credential_store_roundtrip:
  "get_credentials scheme ctx (set_credentials session name credential store) =
     (if Option.bind ctx ccx_session_id = Some session \<and> scheme = name then Some credential
      else get_credentials scheme ctx store)"
  by (auto simp: get_credentials_def set_credentials_def Let_def update_conv' split: option.splits)

end
