(* ===== verification/HttpClient.thy ===== *)
theory HttpClient
  imports BaseClient ClientAuth RequestContext
begin

section \<open>Client transports over HTTP: shared parts, the card resolver (client/card_resolver.py)\<close>

text \<open>
  What the JSON-RPC and REST transports have in common. httpx and httpx_sse are not part of the
  SDK: \<open>http_client\<close> is a record of what a call can come back with, and the server behind it is
  the state \<open>'s\<close>. Pydantic's reading of an agent card is an argument.
\<close>

subsection \<open>The HTTP library\<close>

text \<open>A response has its status, the text of the error \<open>raise_for_status\<close> would raise, and its body as JSON or the
  text of the decoding error.\<close>

datatype http_outcome =
    Http_ReadTimeout string
  | Http_RequestError string
  | Http_Response int string "string + pyval"
  | Http_Waiting

datatype sse_end = Sse_Closed | Sse_Protocol string | Sse_Network string | Sse_Pending

text \<open>An event stream: opening it may raise (any httpx error); the data of the events parsed as JSON.\<close>

datatype sse_outcome =
    Sse_Failed exn
  | Sse_Waiting
  | Sse_Opened int string "(string + pyval) list" sse_end

record 's http_client =
  hc_post :: "string \<Rightarrow> pyval \<Rightarrow> http_kwargs \<Rightarrow> 's \<Rightarrow> http_outcome \<times> 's"
  hc_get :: "string \<Rightarrow> http_kwargs \<Rightarrow> 's \<Rightarrow> http_outcome \<times> 's"
  hc_stream :: "string \<Rightarrow> pyval \<Rightarrow> http_kwargs \<Rightarrow> 's \<Rightarrow> sse_outcome \<times> 's"
  hc_headers :: "(string \<times> string) list"
  hc_read_timeout :: pyval

definition is_success :: "int \<Rightarrow> bool" where
  "is_success status \<longleftrightarrow> 200 \<le> status \<and> status \<le> 299"

text \<open>The \<open>try\<close> around a request: \<open>post\<close>, \<open>raise_for_status\<close>, \<open>json\<close>.\<close>

fun http_result :: "http_outcome \<Rightarrow> pyval await" where
  "http_result (Http_ReadTimeout t) = Raised (A2AClientTimeoutError ''Client Request timed out'')"
| "http_result (Http_RequestError t) = Raised (A2AClientHTTPError 503 (''Network communication error: '' @ t))"
| "http_result (Http_Response status t body) =
     (if \<not> is_success status then Raised (A2AClientHTTPError status t)
      else (case body of Inl e \<Rightarrow> Raised (A2AClientJSONError e) | Inr v \<Rightarrow> Done v))"
| "http_result Http_Waiting = Blocked"

fun sse_end_result :: "sse_end \<Rightarrow> unit await" where
  "sse_end_result Sse_Closed = Done ()"
| "sse_end_result (Sse_Protocol t) = Raised (A2AClientHTTPError 400 (''Invalid SSE response or protocol error: '' @ t))"
| "sse_end_result (Sse_Network t) = Raised (A2AClientHTTPError 503 (''Network communication error: '' @ t))"
| "sse_end_result Sse_Pending = Blocked"

subsection \<open>HTTP arguments and interceptors\<close>

type_synonym 's interceptor =
  "string \<Rightarrow> pyval \<Rightarrow> http_kwargs \<Rightarrow> AgentCard option \<Rightarrow> ClientCallContext option \<Rightarrow> 's \<Rightarrow>
   (pyval \<times> http_kwargs) await \<times> 's"

definition get_http_args :: "ClientCallContext option \<Rightarrow> http_kwargs option" where
  "get_http_args ctx = Option.bind ctx ccx_http_kwargs"

definition with_extensions :: "http_kwargs option \<Rightarrow> string list option \<Rightarrow> http_kwargs" where
  "with_extensions kw extensions =
     (let k = (case kw of None \<Rightarrow> no_kwargs | Some k \<Rightarrow> k)
      in k\<lparr>hk_headers := update_extension_header (hk_headers k) extensions\<rparr>)"

fun apply_interceptors ::
  "'s interceptor list \<Rightarrow> string \<Rightarrow> pyval \<Rightarrow> http_kwargs \<Rightarrow> AgentCard option \<Rightarrow> ClientCallContext option \<Rightarrow> 's \<Rightarrow>
   (pyval \<times> http_kwargs) await \<times> 's" where
  "apply_interceptors [] m payload kw c ctx s = (Done (payload, kw), s)"
| "apply_interceptors (i # rest) m payload kw c ctx s =
     (case i m payload kw c ctx s of
        (Done (payload', kw'), s') \<Rightarrow> apply_interceptors rest m payload' kw' c ctx s'
      | (r, s') \<Rightarrow> (r, s'))"

text \<open>The SDK's interceptor in this form.\<close>

definition auth_interceptor :: "(string \<Rightarrow> ClientCallContext option \<Rightarrow> string option) \<Rightarrow> 's interceptor" where
  "auth_interceptor credentials m payload kw c ctx s =
     (Done (auth_intercept (\<lambda>n. credentials n ctx) payload kw c), s)"

text \<open>The arguments of a streaming request: default timeout, the client's own headers under those of the call.\<close>

definition stream_kwargs :: "'s http_client \<Rightarrow> http_kwargs \<Rightarrow> http_kwargs" where
  "stream_kwargs hc kw =
     kw\<lparr>hk_timeout := Some (case hk_timeout kw of None \<Rightarrow> hc_read_timeout hc | Some t \<Rightarrow> t),
        hk_headers := Some (dict_update (hc_headers hc) (case hk_headers kw of None \<Rightarrow> [] | Some hs \<Rightarrow> hs))\<rparr>"

subsection \<open>The card resolver\<close>

record card_codec =
  cdk_read :: "pyval \<Rightarrow> string + AgentCard"

definition rstrip_slash :: "string \<Rightarrow> string" where
  "rstrip_slash s = rev (dropWhile (\<lambda>c. c = CHR ''/'') (rev s))"

definition lstrip_slash :: "string \<Rightarrow> string" where
  "lstrip_slash s = dropWhile (\<lambda>c. c = CHR ''/'') s"

definition card_url_of :: "string \<Rightarrow> string \<Rightarrow> string option \<Rightarrow> string" where
  "card_url_of base_url agent_card_path relative_card_path =
     rstrip_slash base_url @ ''/'' @
     lstrip_slash (if truthy relative_card_path then the relative_card_path else agent_card_path)"

definition get_agent_card ::
  "'s http_client \<Rightarrow> card_codec \<Rightarrow> string \<Rightarrow> string \<Rightarrow> string option \<Rightarrow> http_kwargs \<Rightarrow> (AgentCard \<Rightarrow> exn option) option \<Rightarrow>
   's \<Rightarrow> AgentCard await \<times> 's" where
  "get_agent_card hc ck base_url agent_card_path relative_card_path kw signature_verifier s =
     (let target = card_url_of base_url agent_card_path relative_card_path;
          (r, s') = hc_get hc target kw s
      in (case r of
            Http_Response status t body \<Rightarrow>
              if \<not> is_success status
              then Raised (A2AClientHTTPError status (''Failed to fetch agent card from '' @ target @ '': '' @ t))
              else (case body of
                      Inl e \<Rightarrow> Raised (A2AClientJSONError (''Failed to parse JSON for agent card from '' @ target @ '': '' @ e))
                    | Inr v \<Rightarrow>
                        (case cdk_read ck v of
                           Inl e \<Rightarrow> Raised (A2AClientJSONError
                             (''Failed to validate agent card structure from '' @ target @ '': '' @ e))
                         | Inr c \<Rightarrow>
                             (case signature_verifier of
                                None \<Rightarrow> Done c
                              | Some verify \<Rightarrow> (case verify c of None \<Rightarrow> Done c | Some x \<Rightarrow> Raised x))))
          | Http_ReadTimeout t \<Rightarrow>
              Raised (A2AClientHTTPError 503 (''Network communication error fetching agent card from '' @ target @ '': '' @ t))
          | Http_RequestError t \<Rightarrow>
              Raised (A2AClientHTTPError 503 (''Network communication error fetching agent card from '' @ target @ '': '' @ t))
          | Http_Waiting \<Rightarrow> Blocked, s'))"

subsection \<open>What a transport makes of a result\<close>

fun as_task :: "handler_result \<Rightarrow> Task option" where
  "as_task (HR_Task t) = Some t"
| "as_task r = None"

fun as_task_or_message :: "handler_result \<Rightarrow> (Task + Message) option" where
  "as_task_or_message (HR_Task t) = Some (Inl t)"
| "as_task_or_message (HR_Message m) = Some (Inr m)"
| "as_task_or_message r = None"

fun as_event :: "handler_result \<Rightarrow> Event option" where
  "as_event (HR_Task t) = Some (EvTask t)"
| "as_event (HR_Message m) = Some (EvMessage m)"
| "as_event (HR_StatusUpdate e) = Some (EvStatus e)"
| "as_event (HR_ArtifactUpdate e) = Some (EvArtifact e)"
| "as_event r = None"

fun as_push_config :: "handler_result \<Rightarrow> TaskPushNotificationConfig option" where
  "as_push_config (HR_PushConfig c) = Some c"
| "as_push_config r = None"

fun as_card :: "handler_result \<Rightarrow> AgentCard option" where
  "as_card (HR_Card c) = Some c"
| "as_card r = None"

text \<open>The parameters as they are serialized: a dictionary in the place of a push configuration is written as it is.\<close>

definition params_of :: "sent_params \<Rightarrow> MessageSendParams" where
  "params_of sp =
     \<lparr>msp_configuration = Some
        \<lparr>msc_accepted_output_modes = sc_accepted_output_modes (sp_configuration sp),
         msc_blocking = sc_blocking (sp_configuration sp),
         msc_history_length = sc_history_length (sp_configuration sp),
         msc_push_notification_config =
           (case sc_push_notification_config (sp_configuration sp) of
              Push_None \<Rightarrow> None | Push_Model c \<Rightarrow> Some c | Push_Dict c \<Rightarrow> Some c)\<rparr>,
      msp_message = sp_message sp, msp_metadata = sp_metadata sp\<rparr>"

end
