(* ===== verification/JsonRpc.thy ===== *)
theory JsonRpc
  imports HandlerInterface "HOL-Library.List_Lexorder" "HOL-Library.Char_ord"
begin

section \<open>JSON-RPC (response_helpers.py, jsonrpc_handler.py, apps/jsonrpc/jsonrpc_app.py)\<close>

text \<open>
  The JSON-RPC application turns an HTTP request into a validated request object, calls the
  JSON-RPC handler and renders the response; the handler calls the request handler and turns
  its result or its \<open>ServerError\<close> into a response object. Starlette and Pydantic are not part
  of the SDK: the body as Starlette reads it and the outcome of \<open>model_validate\<close> are arguments.
\<close>

type_synonym response = "handler_result rpc_response"

subsection \<open>Response helpers\<close>

definition build_error_response :: "rpc_id option \<Rightarrow> rpc_error \<Rightarrow> response" where
  "build_error_response request_id e = Rsp_Error \<lparr>ers_error = e, ers_id = request_id\<rparr>"

definition prepare_response_object :: "rpc_id option \<Rightarrow> handler_result \<Rightarrow> (handler_result \<Rightarrow> bool) \<Rightarrow> response" where
  "prepare_response_object request_id response is_success =
     (if is_success response then Rsp_Success \<lparr>srs_id = request_id, srs_result = response\<rparr>
      else (case response of
              HR_Error e \<Rightarrow> build_error_response request_id e
            | _ \<Rightarrow> build_error_response request_id
                     (InvalidAgentResponseError\<lparr>err_message :=
                        Some ''Agent returned invalid type response for this method''\<rparr>)))"

text \<open>The success types of the methods.\<close>

fun is_task :: "handler_result \<Rightarrow> bool" where
  "is_task (HR_Task t) = True"
| "is_task r = False"

fun is_task_or_message :: "handler_result \<Rightarrow> bool" where
  "is_task_or_message (HR_Task t) = True"
| "is_task_or_message (HR_Message m) = True"
| "is_task_or_message r = False"

fun is_stream_event :: "handler_result \<Rightarrow> bool" where
  "is_stream_event (HR_Task t) = True"
| "is_stream_event (HR_Message m) = True"
| "is_stream_event (HR_ArtifactUpdate e) = True"
| "is_stream_event (HR_StatusUpdate e) = True"
| "is_stream_event r = False"

fun is_push_config :: "handler_result \<Rightarrow> bool" where
  "is_push_config (HR_PushConfig c) = True"
| "is_push_config r = False"

fun is_config_list :: "handler_result \<Rightarrow> bool" where
  "is_config_list (HR_PushConfigList cs) = True"
| "is_config_list r = False"

subsection \<open>The JSON-RPC handler\<close>

record rpc_handler =
  rpc_card :: AgentCard
  rpc_extended_card :: "AgentCard option"
  rpc_extended_modifier :: "(AgentCard \<Rightarrow> ServerCallContext \<Rightarrow> AgentCard) option"
  rpc_card_modifier :: "(AgentCard \<Rightarrow> AgentCard) option"

text \<open>
  \<open>except ServerError as e\<close>: the error of the exception, or \<open>InternalError()\<close>. An error that is
  not an error object cannot be put into a response (the strings that the SDK puts there are not empty).
\<close>

definition error_response :: "rpc_id \<Rightarrow> rpc_error option \<Rightarrow> response" where
  "error_response i e = Rsp_Error \<lparr>ers_error = (case e of Some x \<Rightarrow> x | None \<Rightarrow> InternalError), ers_id = Some i\<rparr>"

fun catch_server_error :: "rpc_id \<Rightarrow> response await \<Rightarrow> response await" where
  "catch_server_error i (Raised (ServerError e)) = Done (error_response i e)"
| "catch_server_error i (Raised (ServerErrorStr t)) = Raised ValidationError"
| "catch_server_error i r = r"

definition respond :: "rpc_id \<Rightarrow> (handler_result \<Rightarrow> bool) \<Rightarrow> handler_result await \<Rightarrow> response await" where
  "respond i is_success r = catch_server_error i (await_map (\<lambda>v. prepare_response_object (Some i) v is_success) r)"

text \<open>\<open>if task: ... else TaskNotFoundError\<close>\<close>

definition respond_task :: "rpc_id \<Rightarrow> Task option await \<Rightarrow> response await" where
  "respond_task i r =
     catch_server_error i (await_map (\<lambda>v. case v of
        Some t \<Rightarrow> prepare_response_object (Some i) (HR_Task t) is_task
      | None \<Rightarrow> build_error_response (Some i) TaskNotFoundError) r)"

definition respond_stream :: "rpc_id \<Rightarrow> Event list \<times> unit await \<Rightarrow> response list \<times> unit await" where
  "respond_stream i r =
     (let out = map (\<lambda>ev. prepare_response_object (Some i) (event_result ev) is_stream_event) (fst r)
      in case snd r of
           Raised (ServerError e) \<Rightarrow> (out @ [error_response i e], Done ())
         | Raised (ServerErrorStr t) \<Rightarrow> (out, Raised ValidationError)
         | en \<Rightarrow> (out, en))"

text \<open>The decorator \<open>validate\<close> around a coroutine and around an asynchronous generator (at its call).\<close>

definition guarded :: "bool \<Rightarrow> string \<Rightarrow> ('s \<Rightarrow> 'a await \<times> 's) \<Rightarrow> 's \<Rightarrow> 'a await \<times> 's" where
  "guarded guard text call s =
     (case validate_call guard text (\<lambda>s. (Inr (), s)) s of
        (Inl e, s') \<Rightarrow> (Raised e, s')
      | (Inr _, s') \<Rightarrow> call s')"

definition streaming_supported :: "AgentCard \<Rightarrow> bool" where
  "streaming_supported c \<longleftrightarrow> cap_streaming (card_capabilities c) = Some True"

definition push_supported :: "AgentCard \<Rightarrow> bool" where
  "push_supported c \<longleftrightarrow> cap_push_notifications (card_capabilities c) = Some True"

definition rpc_message_send ::
  "'s request_handler \<Rightarrow> SendMessageRequest \<Rightarrow> ServerCallContext \<Rightarrow> 's \<Rightarrow> response await \<times> 's" where
  "rpc_message_send rh request call s =
     (let (r, s') = rh_message_send rh (smr_params request) call s
      in (respond (smr_id request) is_task_or_message (await_map (event_result \<circ> send_result_event) r), s'))"

definition rpc_message_send_stream ::
  "rpc_handler \<Rightarrow> 's request_handler \<Rightarrow> SendStreamingMessageRequest \<Rightarrow> ServerCallContext \<Rightarrow> 's \<Rightarrow>
   (response list \<times> unit await) await \<times> 's" where
  "rpc_message_send_stream h rh request call =
     guarded (streaming_supported (rpc_card h)) ''Streaming is not supported by the agent''
       (\<lambda>s. let (r, s') = rh_message_send_stream rh (ssr_params request) call s
            in (Done (respond_stream (ssr_id request) r), s'))"

definition rpc_cancel_task ::
  "'s request_handler \<Rightarrow> CancelTaskRequest \<Rightarrow> ServerCallContext \<Rightarrow> 's \<Rightarrow> response await \<times> 's" where
  "rpc_cancel_task rh request call s =
     (let (r, s') = rh_cancel_task rh (ctr_params request) call s in (respond_task (ctr_id request) r, s'))"

definition rpc_resubscribe ::
  "'s request_handler \<Rightarrow> TaskResubscriptionRequest \<Rightarrow> ServerCallContext \<Rightarrow> 's \<Rightarrow>
   (response list \<times> unit await) await \<times> 's" where
  "rpc_resubscribe rh request call s =
     (let (r, s') = rh_resubscribe rh (trr_params request) call s in (Done (respond_stream (trr_id request) r), s'))"

definition rpc_get_config ::
  "'s request_handler \<Rightarrow> GetTaskPushNotificationConfigRequest \<Rightarrow> ServerCallContext \<Rightarrow> 's \<Rightarrow> response await \<times> 's" where
  "rpc_get_config rh request call s =
     (let (r, s') = rh_get_config rh (gpr_params request) call s
      in (respond (gpr_id request) is_push_config (await_map HR_PushConfig r), s'))"

definition rpc_set_config ::
  "rpc_handler \<Rightarrow> 's request_handler \<Rightarrow> SetTaskPushNotificationConfigRequest \<Rightarrow> ServerCallContext \<Rightarrow> 's \<Rightarrow>
   response await \<times> 's" where
  "rpc_set_config h rh request call =
     guarded (push_supported (rpc_card h)) ''Push notifications are not supported by the agent''
       (\<lambda>s. let (r, s') = rh_set_config rh (spr_params request) call s
            in (respond (spr_id request) is_push_config (await_map HR_PushConfig r), s'))"

definition rpc_get_task ::
  "'s request_handler \<Rightarrow> GetTaskRequest \<Rightarrow> ServerCallContext \<Rightarrow> 's \<Rightarrow> response await \<times> 's" where
  "rpc_get_task rh request call s =
     (let (r, s') = rh_get_task rh (gtr_params request) call s in (respond_task (gtr_id request) r, s'))"

definition rpc_list_config ::
  "'s request_handler \<Rightarrow> ListTaskPushNotificationConfigRequest \<Rightarrow> ServerCallContext \<Rightarrow> 's \<Rightarrow> response await \<times> 's" where
  "rpc_list_config rh request call s =
     (let (r, s') = rh_list_config rh (lpr_params request) call s
      in (respond (lpr_id request) is_config_list (await_map HR_PushConfigList r), s'))"

definition rpc_delete_config ::
  "'s request_handler \<Rightarrow> DeleteTaskPushNotificationConfigRequest \<Rightarrow> ServerCallContext \<Rightarrow> 's \<Rightarrow> response await \<times> 's" where
  "rpc_delete_config rh request call s =
     (let (r, s') = rh_delete_config rh (dpr_params request) call s
      in (catch_server_error (dpr_id request)
            (await_map (\<lambda>_. Rsp_Success \<lparr>srs_id = Some (dpr_id request), srs_result = HR_None\<rparr>) r), s'))"

definition rpc_get_extended_card ::
  "rpc_handler \<Rightarrow> GetAuthenticatedExtendedCardRequest \<Rightarrow> ServerCallContext \<Rightarrow> response await" where
  "rpc_get_extended_card h request call =
     (if card_supports_authenticated_extended_card (rpc_card h) \<noteq> Some True
      then Raised (server_err AuthenticatedExtendedCardNotConfiguredError ''Authenticated card not supported'')
      else
        let base = (case rpc_extended_card h of None \<Rightarrow> rpc_card h | Some c \<Rightarrow> c);
            served = (case rpc_extended_modifier h of
                        Some f \<Rightarrow> f base call
                      | None \<Rightarrow> (case rpc_card_modifier h of Some f \<Rightarrow> f base | None \<Rightarrow> base))
        in Done (Rsp_Success \<lparr>srs_id = Some (gar_id request), srs_result = HR_Card served\<rparr>))"

subsection \<open>The application\<close>

record rpc_app =
  app_card :: AgentCard
  app_extended_card :: "AgentCard option"
  app_card_modifier :: "(AgentCard \<Rightarrow> AgentCard) option"
  app_extended_modifier :: "(AgentCard \<Rightarrow> ServerCallContext \<Rightarrow> AgentCard) option"
  app_max_content_length :: "int option"

text \<open>The handler that the constructor builds; it does not pass the card modifier on.\<close>

definition app_handler :: "rpc_app \<Rightarrow> rpc_handler" where
  "app_handler a =
     \<lparr>rpc_card = app_card a, rpc_extended_card = app_extended_card a,
      rpc_extended_modifier = app_extended_modifier a, rpc_card_modifier = None\<rparr>"

text \<open>
  \<open>await request.json()\<close>: a value, a decoding error (with its text), an \<open>HTTPException\<close> with its
  status, or another exception. \<open>hq_content_length\<close> is \<open>int()\<close> of the header, if that succeeds;
  \<open>hq_context\<close> is what the context builder makes of the request.
\<close>

datatype http_body = JsonBody pyval | BadJson string | BodyHttpError int | BodyRaises exn

record http_request =
  hq_body :: http_body
  hq_content_length :: "int option"
  hq_context :: "exn + ServerCallContext"

text \<open>
  Pydantic: the base JSON-RPC request gives its method, a request class gives the request; a
  validation error gives its details. \<open>rq_text\<close> is the text of a \<open>ValidationError\<close>.
\<close>

record rpc_codec =
  rq_base :: "pyval \<Rightarrow> pyval + string"
  rq_specific :: "string \<Rightarrow> pyval \<Rightarrow> pyval + A2ARequest"
  rq_text :: string

definition METHOD_TO_MODEL :: "string list" where
  "METHOD_TO_MODEL =
     [''message/send'', ''message/stream'', ''tasks/get'', ''tasks/cancel'', ''tasks/pushNotificationConfig/set'',
      ''tasks/pushNotificationConfig/get'', ''tasks/pushNotificationConfig/list'',
      ''tasks/pushNotificationConfig/delete'', ''tasks/resubscribe'', ''agent/getAuthenticatedExtendedCard'']"

text \<open>The id of the body, when it is a string or an integer (Python's booleans are integers).\<close>

fun body_id :: "pyval \<Rightarrow> rpc_id option" where
  "body_id (PyDict d) =
     (case map_of d ''id'' of
        Some (PyStr s) \<Rightarrow> Some (IdStr s)
      | Some (PyInt i) \<Rightarrow> Some (IdInt i)
      | Some (PyBool b) \<Rightarrow> Some (IdInt (if b then 1 else 0))
      | _ \<Rightarrow> None)"
| "body_id v = None"

definition allowed_content_length :: "rpc_app \<Rightarrow> http_request \<Rightarrow> bool" where
  "allowed_content_length a request =
     (case app_max_content_length a of
        None \<Rightarrow> True
      | Some m \<Rightarrow> (case hq_content_length request of None \<Rightarrow> True | Some n \<Rightarrow> \<not> (n \<noteq> 0 \<and> n > m)))"

text \<open>
  What goes back over HTTP: a JSON document or an event stream, with the extension header; an
  exception that leaves the endpoint; or nothing, when the handler does not return.
\<close>

datatype rpc_reply =
    Rpc_Json response "string option"
  | Rpc_Stream "response list" "unit await" "string option"
  | Rpc_Raise exn
  | Rpc_Hang

definition error_reply_json :: "rpc_id option \<Rightarrow> rpc_error \<Rightarrow> rpc_reply" where
  "error_reply_json request_id e = Rpc_Json (build_error_response request_id e) None"

text \<open>\<open>', '.join(sorted(exts))\<close> for the activated extensions\<close>

definition extension_header :: "string set \<Rightarrow> string option" where
  "extension_header exts = (if exts = {} then None else Some (str_join '', '' (sorted_list_of_set exts)))"

text \<open>The non-streaming and the streaming methods.\<close>

fun process_non_streaming ::
  "rpc_handler \<Rightarrow> 's request_handler \<Rightarrow> A2ARequest \<Rightarrow> ServerCallContext \<Rightarrow> 's \<Rightarrow> response await \<times> 's" where
  "process_non_streaming h rh (Req_SendMessage r) call s = rpc_message_send rh r call s"
| "process_non_streaming h rh (Req_CancelTask r) call s = rpc_cancel_task rh r call s"
| "process_non_streaming h rh (Req_GetTask r) call s = rpc_get_task rh r call s"
| "process_non_streaming h rh (Req_SetPushConfig r) call s = rpc_set_config h rh r call s"
| "process_non_streaming h rh (Req_GetPushConfig r) call s = rpc_get_config rh r call s"
| "process_non_streaming h rh (Req_ListPushConfig r) call s = rpc_list_config rh r call s"
| "process_non_streaming h rh (Req_DeletePushConfig r) call s = rpc_delete_config rh r call s"
| "process_non_streaming h rh (Req_GetExtendedCard r) call s = (rpc_get_extended_card h r call, s)"
| "process_non_streaming h rh (Req_SendStreamingMessage r) call s =
     (Done (build_error_response (Some (ssr_id r)) (UnsupportedOperationError\<lparr>err_message :=
        Some ''Request type SendStreamingMessageRequest is unknown.''\<rparr>)), s)"
| "process_non_streaming h rh (Req_Resubscribe r) call s =
     (Done (build_error_response (Some (trr_id r)) (UnsupportedOperationError\<lparr>err_message :=
        Some ''Request type TaskResubscriptionRequest is unknown.''\<rparr>)), s)"

fun process_streaming ::
  "rpc_handler \<Rightarrow> 's request_handler \<Rightarrow> A2ARequest \<Rightarrow> ServerCallContext \<Rightarrow> 's \<Rightarrow>
   ((response list \<times> unit await) await \<times> 's) option" where
  "process_streaming h rh (Req_SendStreamingMessage r) call s = Some (rpc_message_send_stream h rh r call s)"
| "process_streaming h rh (Req_Resubscribe r) call s = Some (rpc_resubscribe rh r call s)"
| "process_streaming h rh req call s = None"

text \<open>
  \<open>_create_response\<close>: the header of a stream is built before the stream runs, so it shows the
  extensions of the fresh context; \<open>activated\<close> is what a non-streaming call activated.
\<close>

definition create_response ::
  "rpc_handler \<Rightarrow> 's request_handler \<Rightarrow> A2ARequest \<Rightarrow> ServerCallContext \<Rightarrow> string set \<Rightarrow> 's \<Rightarrow>
   rpc_reply await \<times> 's" where
  "create_response h rh req call activated s =
     (case process_streaming h rh req call s of
        Some (r, s') \<Rightarrow>
          (await_map (\<lambda>(out, en). Rpc_Stream out en (extension_header (scc_activated_extensions call))) r, s')
      | None \<Rightarrow>
          (let (r, s') = process_non_streaming h rh req call s
           in (await_map (\<lambda>x. Rpc_Json x (extension_header activated)) r, s')))"

text \<open>The last \<open>except\<close> clauses. \<open>CancelledError\<close> is not an \<open>Exception\<close>.\<close>

definition reply_exception :: "string \<Rightarrow> rpc_id option \<Rightarrow> exn \<Rightarrow> rpc_reply" where
  "reply_exception vtext request_id e =
     (case e of
        CancelledError t \<Rightarrow> Rpc_Raise e
      | _ \<Rightarrow>
        (case exn_str vtext e of
           Inl x \<Rightarrow> Rpc_Raise x
         | Inr tx \<Rightarrow> error_reply_json request_id (InternalError\<lparr>err_message := Some tx\<rparr>)))"

definition payload_too_large :: rpc_error where
  "payload_too_large = InvalidRequestError\<lparr>err_message := Some ''Payload too large''\<rparr>"

definition with_method :: "string \<Rightarrow> ServerCallContext \<Rightarrow> ServerCallContext" where
  "with_method m call = call\<lparr>scc_state := AList.update ''method'' (PyStr m) (scc_state call)\<rparr>"

definition handle_rpc ::
  "rpc_app \<Rightarrow> rpc_codec \<Rightarrow> 's request_handler \<Rightarrow> string set \<Rightarrow> http_request \<Rightarrow> 's \<Rightarrow> rpc_reply \<times> 's" where
  "handle_rpc a cd rh activated request s =
     (case hq_body request of
        BadJson tx \<Rightarrow> (error_reply_json None (JSONParseError\<lparr>err_message := Some tx\<rparr>), s)
      | BodyHttpError status \<Rightarrow>
          ((if status = 413 then error_reply_json None payload_too_large
            else Rpc_Raise (OtherException ''HTTPException'')), s)
      | BodyRaises e \<Rightarrow> (reply_exception (rq_text cd) None e, s)
      | JsonBody body \<Rightarrow>
          let request_id = body_id body
          in if \<not> allowed_content_length a request then (error_reply_json request_id payload_too_large, s)
             else
               case rq_base cd body of
                 Inl details \<Rightarrow> (error_reply_json request_id (InvalidRequestError\<lparr>err_data := Some details\<rparr>), s)
               | Inr method \<Rightarrow>
                   if method \<notin> set METHOD_TO_MODEL then (error_reply_json request_id MethodNotFoundError, s)
                   else
                     case rq_specific cd method body of
                       Inl details \<Rightarrow> (error_reply_json request_id (InvalidParamsError\<lparr>err_data := Some details\<rparr>), s)
                     | Inr req \<Rightarrow>
                         (case hq_context request of
                            Inl e \<Rightarrow> (reply_exception (rq_text cd) request_id e, s)
                          | Inr call \<Rightarrow>
                              (case create_response (app_handler a) rh req (with_method method call) activated s of
                                 (Done r, s') \<Rightarrow> (r, s')
                               | (Blocked, s') \<Rightarrow> (Rpc_Hang, s')
                               | (Raised e, s') \<Rightarrow>
                                   (reply_exception (rq_text cd) (Some (request_rpc_id req)) e, s'))))"

subsection \<open>Agent cards over HTTP\<close>

definition serve_agent_card :: "rpc_app \<Rightarrow> AgentCard" where
  "serve_agent_card a = (case app_card_modifier a of None \<Rightarrow> app_card a | Some f \<Rightarrow> f (app_card a))"

datatype card_reply = Card_Json AgentCard | Card_Error string int

definition serve_extended_card :: "rpc_app \<Rightarrow> ServerCallContext \<Rightarrow> card_reply" where
  "serve_extended_card a call =
     (if card_supports_authenticated_extended_card (app_card a) \<noteq> Some True
      then Card_Error ''Extended agent card not supported or not enabled.'' 404
      else
        let served = (case app_extended_modifier a of
                        None \<Rightarrow> app_extended_card a
                      | Some f \<Rightarrow>
                          Some (f (case app_extended_card a of Some c \<Rightarrow> c | None \<Rightarrow> app_card a) call))
        in case served of
             Some c \<Rightarrow> Card_Json c
           | None \<Rightarrow>
               Card_Error ''Authenticated extended agent card is supported but not configured on the server.'' 404)"

subsection \<open>Lemmas\<close>

fun response_id :: "response \<Rightarrow> rpc_id option" where
  "response_id (Rsp_Error e) = ers_id e"
| "response_id (Rsp_Success r) = srs_id r"

fun reply_responses :: "rpc_reply \<Rightarrow> response list" where
  "reply_responses (Rpc_Json r hdr) = [r]"
| "reply_responses (Rpc_Stream rs en hdr) = rs"
| "reply_responses (Rpc_Raise e) = []"
| "reply_responses Rpc_Hang = []"

lemma response_id_simps [simp]:
  "response_id (build_error_response i e) = i"
  "response_id (prepare_response_object i v ok) = i"
  "response_id (error_response j e') = Some j"
  by (auto simp: build_error_response_def prepare_response_object_def error_response_def split: handler_result.split)

lemma catch_server_error_id:
  "(\<And>x. r = Done x \<Longrightarrow> response_id x = Some i) \<Longrightarrow> catch_server_error i r = Done y \<Longrightarrow> response_id y = Some i"
  by (cases "(i, r)" rule: catch_server_error.cases) auto

lemma respond_id:
  "respond i ok r = Done y \<Longrightarrow> response_id y = Some i"
  "respond_task i t = Done y \<Longrightarrow> response_id y = Some i"
  unfolding respond_def respond_task_def
  by (erule catch_server_error_id [rotated]; auto split: option.splits)+

lemma respond_stream_id: "x \<in> set (fst (respond_stream i r)) \<Longrightarrow> response_id x = Some i"
  by (auto simp: respond_stream_def Let_def split: await.splits exn.splits)

lemma guarded_simps:
  "guard \<Longrightarrow> guarded guard tx call s = call s"
  "\<not> guard \<Longrightarrow> guarded guard tx call s =
     (Raised (raise_server (UnsupportedOperationError\<lparr>err_message := Some tx\<rparr>)), s)"
  by (simp_all add: guarded_def validate_call_def)

lemma guarded_Done: "guarded guard tx call s = (Done r, s') \<Longrightarrow> call s = (Done r, s')"
  by (cases guard) (simp_all add: guarded_simps)

lemmas rpc_method_defs =
  rpc_message_send_def rpc_cancel_task_def rpc_get_task_def rpc_set_config_def rpc_get_config_def
  rpc_list_config_def rpc_delete_config_def rpc_get_extended_card_def rpc_message_send_stream_def rpc_resubscribe_def

lemma process_non_streaming_id:
  assumes "process_non_streaming h rh req call s = (Done y, s')"
  shows "response_id y = Some (request_rpc_id req)"
proof (cases req)
  case (Req_SetPushConfig r)
  with assms show ?thesis
    by (auto simp: rpc_set_config_def split: prod.splits dest!: guarded_Done respond_id)
next
  case (Req_DeletePushConfig r)
  have "response_id y = Some (dpr_id r)"
    if "catch_server_error (dpr_id r) (await_map (\<lambda>_. Rsp_Success \<lparr>srs_id = Some (dpr_id r), srs_result = HR_None\<rparr>) x) = Done y" for x
    by (rule catch_server_error_id [OF _ that]) auto
  with Req_DeletePushConfig assms show ?thesis by (auto simp: rpc_delete_config_def split: prod.splits)
qed (use assms in \<open>auto simp: rpc_method_defs Let_def split: prod.splits if_splits dest: respond_id\<close>)

lemma process_streaming_id:
  assumes "process_streaming h rh req call s = Some (Done (out, en), s')" and "x \<in> set out"
  shows "response_id x = Some (request_rpc_id req)"
proof -
  have st: "respond_stream i r = (out, en) \<Longrightarrow> response_id x = Some i" for i r
    using respond_stream_id [of x i r] assms(2) by simp
  show ?thesis
    using assms
    by (cases req)
       (auto simp: rpc_message_send_stream_def rpc_resubscribe_def split: prod.splits dest!: guarded_Done
         dest: st)
qed

lemma create_response_id:
  assumes "create_response h rh req call activated s = (Done r, s')" and "x \<in> set (reply_responses r)"
  shows "response_id x = Some (request_rpc_id req)"
proof (cases "process_streaming h rh req call s")
  case None
  with assms show ?thesis
    by (auto simp: create_response_def split: prod.splits dest: process_non_streaming_id)
next
  case (Some p)
  with assms show ?thesis
    by (cases p) (auto simp: create_response_def split: prod.splits dest: process_streaming_id)
qed

lemma reply_exception_id: "x \<in> set (reply_responses (reply_exception vtext i e)) \<Longrightarrow> response_id x = i"
  by (auto simp: reply_exception_def error_reply_json_def split: exn.splits sum.splits)

text \<open>
  Claim C35. Every response to a request whose body is JSON, success or error, single or streamed, carries the
  id of that body, when Pydantic reads the request's id from the body; where the body has no valid id the response object
  has none (the dump then leaves the field out).
\<close>

theorem rpc_replies_echo_id:
  assumes "hq_body request = JsonBody body"
    and "\<And>m req. rq_specific cd m body = Inr req \<Longrightarrow> body_id body = Some (request_rpc_id req)"
    and "handle_rpc a cd rh activated request s = (reply, s')" and "x \<in> set (reply_responses reply)"
  shows "response_id x = body_id body"
proof -
  have err: "reply_responses (error_reply_json i e) = [build_error_response i e]" for i e
    by (simp add: error_reply_json_def)
  show ?thesis
    using assms
    by (auto simp: handle_rpc_def err Let_def split: if_splits sum.splits prod.splits await.splits
        dest!: create_response_id reply_exception_id)
qed

subsection \<open>Sample application\<close>

definition sample_app :: "bool option \<Rightarrow> rpc_app" where
  "sample_app flag =
     \<lparr>app_card = sample_card flag, app_extended_card = None, app_card_modifier = None, app_extended_modifier = None,
      app_max_content_length = Some 10485760\<rparr>"

definition sample_body :: pyval where
  "sample_body = PyDict [(''id'', PyInt 7), (''method'', PyStr ''message/send'')]"

definition sample_http :: http_request where
  "sample_http = \<lparr>hq_body = JsonBody sample_body, hq_content_length = Some 100, hq_context = Inr default_call_context\<rparr>"

definition sample_rpc_params :: MessageSendParams where
  "sample_rpc_params = \<lparr>msp_configuration = None, msp_message = sample_message, msp_metadata = None\<rparr>"

definition sample_rpc_codec :: "string \<Rightarrow> A2ARequest \<Rightarrow> rpc_codec" where
  "sample_rpc_codec m req = \<lparr>rq_base = (\<lambda>v. Inr m), rq_specific = (\<lambda>m v. Inr req), rq_text = []\<rparr>"

lemma body_id_sample [simp]: "body_id sample_body = Some (IdInt 7)"
  by (simp add: sample_body_def)

theorem rpc_replies_echo_id_witness:
  "\<exists>x. reply_responses (fst (handle_rpc (sample_app None)
      (sample_rpc_codec ''message/send'' (Req_SendMessage \<lparr>smr_id = IdInt 7, smr_params = sample_rpc_params\<rparr>))
      sample_rh {} sample_http ())) = [x] \<and> response_id x = Some (IdInt 7)"
proof -
  let ?cd = "sample_rpc_codec ''message/send'' (Req_SendMessage \<lparr>smr_id = IdInt 7, smr_params = sample_rpc_params\<rparr>)"
  let ?call = "with_method ''message/send'' default_call_context"
  obtain x where "create_response (app_handler (sample_app None)) sample_rh
      (Req_SendMessage \<lparr>smr_id = IdInt 7, smr_params = sample_rpc_params\<rparr>) ?call {} () = (Done (Rpc_Json x None), ())"
    by (simp add: create_response_def rpc_message_send_def respond_def sample_rh_def extension_header_def)
  then have r: "handle_rpc (sample_app None) ?cd sample_rh {} sample_http () = (Rpc_Json x None, ())"
    by (simp add: handle_rpc_def sample_http_def sample_rpc_codec_def sample_app_def allowed_content_length_def
        METHOD_TO_MODEL_def)
  from rpc_replies_echo_id [OF _ _ r, of sample_body x] r show ?thesis
    by (simp add: sample_http_def sample_rpc_codec_def)
qed

subsection \<open>Accepted requests\<close>

text \<open>A request that passes every check of the application.\<close>

definition accepted :: "rpc_app \<Rightarrow> rpc_codec \<Rightarrow> http_request \<Rightarrow> A2ARequest \<Rightarrow> ServerCallContext \<Rightarrow> bool" where
  "accepted a cd request req call \<longleftrightarrow>
     (\<exists>body m. hq_body request = JsonBody body \<and> allowed_content_length a request \<and> rq_base cd body = Inr m \<and>
        m \<in> set METHOD_TO_MODEL \<and> rq_specific cd m body = Inr req \<and>
        (\<exists>c. hq_context request = Inr c \<and> call = with_method m c))"

lemma handle_accepted:
  assumes "accepted a cd request req call"
  shows "handle_rpc a cd rh activated request s =
    (case create_response (app_handler a) rh req call activated s of
       (Done r, s') \<Rightarrow> (r, s')
     | (Blocked, s') \<Rightarrow> (Rpc_Hang, s')
     | (Raised e, s') \<Rightarrow> (reply_exception (rq_text cd) (Some (request_rpc_id req)) e, s'))"
  using assms by (auto simp: accepted_def handle_rpc_def)

lemma sample_accepted:
  "m \<in> set METHOD_TO_MODEL \<Longrightarrow> accepted (sample_app flag) (sample_rpc_codec m req) sample_http req (with_method m default_call_context)"
  by (simp add: accepted_def sample_http_def sample_rpc_codec_def sample_app_def allowed_content_length_def)

lemma rpc_send_reply:
  assumes "accepted a cd request (Req_SendMessage r) call"
  shows "handle_rpc a cd rh activated request s =
    (case rh_message_send rh (smr_params r) call s of
       (Done v, s') \<Rightarrow>
         (Rpc_Json (Rsp_Success \<lparr>srs_id = Some (smr_id r), srs_result = event_result (send_result_event v)\<rparr>)
            (extension_header activated), s')
     | (Blocked, s') \<Rightarrow> (Rpc_Hang, s')
     | (Raised e, s') \<Rightarrow>
         (case e of
            ServerError x \<Rightarrow> (Rpc_Json (error_response (smr_id r) x) (extension_header activated), s')
          | ServerErrorStr t \<Rightarrow> (reply_exception (rq_text cd) (Some (smr_id r)) ValidationError, s')
          | _ \<Rightarrow> (reply_exception (rq_text cd) (Some (smr_id r)) e, s')))"
proof -
  have ok: "prepare_response_object i (event_result (send_result_event v)) is_task_or_message =
      Rsp_Success \<lparr>srs_id = i, srs_result = event_result (send_result_event v)\<rparr>" for i v
    by (cases v) (simp_all add: prepare_response_object_def)
  show ?thesis
    using handle_accepted [OF assms, of rh activated s] ok
    by (auto simp: create_response_def rpc_message_send_def respond_def split: prod.split await.split exn.split)
qed

text \<open>How the end of a handler's stream leaves the JSON-RPC handler.\<close>

definition stream_end_response :: "rpc_id \<Rightarrow> unit await \<Rightarrow> response list \<times> unit await" where
  "stream_end_response i en =
     (case en of
        Raised (ServerError e) \<Rightarrow> ([error_response i e], Done ())
      | Raised (ServerErrorStr t) \<Rightarrow> ([], Raised ValidationError)
      | r \<Rightarrow> ([], r))"

lemma rpc_stream_reply:
  assumes "accepted a cd request (Req_SendStreamingMessage q) call" and "streaming_supported (app_card a)"
    and "rh_message_send_stream rh (ssr_params q) call s = ((evs, en), s')"
  shows "handle_rpc a cd rh activated request s =
     (Rpc_Stream (map (\<lambda>ev. Rsp_Success \<lparr>srs_id = Some (ssr_id q), srs_result = event_result ev\<rparr>) evs @
                  fst (stream_end_response (ssr_id q) en))
        (snd (stream_end_response (ssr_id q) en)) (extension_header (scc_activated_extensions call)), s')"
proof -
  have "prepare_response_object i (event_result ev) is_stream_event = Rsp_Success \<lparr>srs_id = i, srs_result = event_result ev\<rparr>" for i ev
    by (cases ev) (simp_all add: prepare_response_object_def)
  with assms(2,3) handle_accepted [OF assms(1), of rh activated s]
  show ?thesis
    by (auto simp: create_response_def rpc_message_send_stream_def guarded_simps app_handler_def respond_stream_def
        stream_end_response_def Let_def split: await.split exn.split)
qed

text \<open>
  What a client gets over JSON-RPC for a message: the task or message that the request handler
  returned, or exactly the error object that it raised (InternalError for an empty one), or
  InternalError with the text of any other exception; for a streamed message the events in order, then the
  error if the handler raised one, and never the extensions that the agent activated.
\<close>

theorem message_over_rpc:
  assumes "accepted a cd request req call"
  shows "(\<forall>r. req = Req_SendMessage r \<longrightarrow>
            handle_rpc a cd rh activated request s =
              (case rh_message_send rh (smr_params r) call s of
                 (Done v, s') \<Rightarrow>
                   (Rpc_Json (Rsp_Success \<lparr>srs_id = Some (smr_id r), srs_result = event_result (send_result_event v)\<rparr>)
                      (extension_header activated), s')
               | (Blocked, s') \<Rightarrow> (Rpc_Hang, s')
               | (Raised e, s') \<Rightarrow>
                   (case e of
                      ServerError x \<Rightarrow> (Rpc_Json (error_response (smr_id r) x) (extension_header activated), s')
                    | ServerErrorStr t \<Rightarrow> (reply_exception (rq_text cd) (Some (smr_id r)) ValidationError, s')
                    | _ \<Rightarrow> (reply_exception (rq_text cd) (Some (smr_id r)) e, s')))) \<and>
         (\<forall>q evs en s'. req = Req_SendStreamingMessage q \<longrightarrow> streaming_supported (app_card a) \<longrightarrow>
            rh_message_send_stream rh (ssr_params q) call s = ((evs, en), s') \<longrightarrow>
            (\<exists>out en'. handle_rpc a cd rh activated request s =
                         (Rpc_Stream out en' (extension_header (scc_activated_extensions call)), s') \<and>
               out = map (\<lambda>ev. Rsp_Success \<lparr>srs_id = Some (ssr_id q), srs_result = event_result ev\<rparr>) evs @
                     (case en of Raised (ServerError e) \<Rightarrow> [error_response (ssr_id q) e] | _ \<Rightarrow> [])))"
  using assms rpc_send_reply [of a cd request _ call rh activated s] rpc_stream_reply [of a cd request _ call rh s _ _ _ activated]
  by (auto simp: stream_end_response_def split: await.splits exn.splits)

theorem message_over_rpc_witness:
  "handle_rpc (sample_app None)
      (sample_rpc_codec ''message/send'' (Req_SendMessage \<lparr>smr_id = IdInt 7, smr_params = sample_rpc_params\<rparr>))
      sample_rh {} sample_http () =
   (Rpc_Json (Rsp_Success \<lparr>srs_id = Some (IdInt 7), srs_result = HR_Task sample_task\<rparr>) None, ())"
  using message_over_rpc [OF sample_accepted [of "''message/send''" None
        "Req_SendMessage \<lparr>smr_id = IdInt 7, smr_params = sample_rpc_params\<rparr>"], of sample_rh "{}" "()"]
  by (simp add: METHOD_TO_MODEL_def sample_rh_def extension_header_def)

text \<open>
  An operation that the agent card does not offer is answered with the code of an internal
  error (-32603), for streaming, setting push configurations and the extended card alike: the
  error object of the exception, which has its own code, is dropped, since the check runs outside the
  handler's error handling.
\<close>

theorem unoffered_operation_is_internal_error:
  assumes "accepted a cd request req call"
    and "(\<exists>r. req = Req_SendStreamingMessage r) \<and> \<not> streaming_supported (app_card a) \<or>
         (\<exists>r. req = Req_SetPushConfig r) \<and> \<not> push_supported (app_card a) \<or>
         (\<exists>r. req = Req_GetExtendedCard r) \<and> card_supports_authenticated_extended_card (app_card a) \<noteq> Some True"
  shows "\<exists>e. handle_rpc a cd rh activated request s =
             (Rpc_Json (Rsp_Error \<lparr>ers_error = e, ers_id = Some (request_rpc_id req)\<rparr>) None, s) \<and>
           err_kind e = K_InternalError \<and> err_code e = - 32603"
proof -
  obtain e where "create_response (app_handler a) rh req call activated s = (Raised (ServerError (Some e)), s)"
    using assms(2)
    by (auto simp: create_response_def rpc_message_send_stream_def rpc_set_config_def rpc_get_extended_card_def
        guarded_simps app_handler_def server_err_def)
  then show ?thesis
    using handle_accepted [OF assms(1), of rh activated s]
    by (simp add: reply_exception_def error_reply_json_def build_error_response_def InternalError_def)
qed

theorem unoffered_operation_is_internal_error_witness:
  "\<exists>e. handle_rpc (sample_app None)
      (sample_rpc_codec ''message/stream'' (Req_SendStreamingMessage \<lparr>ssr_id = IdInt 7, ssr_params = sample_rpc_params\<rparr>))
      sample_rh {} sample_http () = (Rpc_Json (Rsp_Error \<lparr>ers_error = e, ers_id = Some (IdInt 7)\<rparr>) None, ()) \<and>
     err_kind e = K_InternalError \<and> err_code e = - 32603"
  using unoffered_operation_is_internal_error [OF sample_accepted [of "''message/stream''" None
        "Req_SendStreamingMessage \<lparr>ssr_id = IdInt 7, ssr_params = sample_rpc_params\<rparr>"], of sample_rh "{}" "()"]
  by (simp add: METHOD_TO_MODEL_def sample_app_def sample_card_def streaming_supported_def)

text \<open>
  How the outcome of one operation of the request handler is answered: its result in a success response, an error it
  raised in an error response with the request's id, any other exception by the last \<open>except\<close> clause; the state
  is the one that the operation leaves.
\<close>

definition rpc_answer ::
  "string \<Rightarrow> string option \<Rightarrow> rpc_id \<Rightarrow> ('a \<Rightarrow> response) \<Rightarrow> 'a await \<times> 's \<Rightarrow> rpc_reply \<times> 's" where
  "rpc_answer vtext hdr i reply r =
     (case fst r of
        Done v \<Rightarrow> Rpc_Json (reply v) hdr
      | Blocked \<Rightarrow> Rpc_Hang
      | Raised (ServerError None) \<Rightarrow> Rpc_Json (Rsp_Error \<lparr>ers_error = InternalError, ers_id = Some i\<rparr>) hdr
      | Raised (ServerError (Some x)) \<Rightarrow> Rpc_Json (Rsp_Error \<lparr>ers_error = x, ers_id = Some i\<rparr>) hdr
      | Raised (ServerErrorStr t) \<Rightarrow> reply_exception vtext (Some i) ValidationError
      | Raised e \<Rightarrow> reply_exception vtext (Some i) e,
      snd r)"

lemma answered_non_streaming:
  assumes "accepted a cd request req call"
    and "process_streaming (app_handler a) rh req call s = None"
    and "process_non_streaming (app_handler a) rh req call s = (catch_server_error (request_rpc_id req) (await_map g r), s')"
  shows "handle_rpc a cd rh activated request s =
     rpc_answer (rq_text cd) (extension_header activated) (request_rpc_id req) g (r, s')"
  using handle_accepted [OF assms(1), of rh activated s] assms(2,3)
  by (auto simp: create_response_def rpc_answer_def error_response_def
      split: await.splits exn.splits option.splits)

text \<open>The operations that answer with what the request handler returns, and the two that answer \<open>None\<close> with an error.\<close>

lemma answered_value:
  assumes "accepted a cd request req call"
    and "process_streaming (app_handler a) rh req call s = None"
    and "process_non_streaming (app_handler a) rh req call s = (respond (request_rpc_id req) ok (await_map g r), s')"
    and "\<And>v. ok (g v)"
  shows "handle_rpc a cd rh activated request s =
     rpc_answer (rq_text cd) (extension_header activated) (request_rpc_id req)
       (\<lambda>v. Rsp_Success \<lparr>srs_id = Some (request_rpc_id req), srs_result = g v\<rparr>) (r, s')"
proof -
  have "respond i ok (await_map g r) =
      catch_server_error i (await_map (\<lambda>v. Rsp_Success \<lparr>srs_id = Some i, srs_result = g v\<rparr>) r)" for i
    by (cases r) (simp_all add: respond_def prepare_response_object_def assms(4))
  with assms(3) show ?thesis by (intro answered_non_streaming [OF assms(1,2)]) simp
qed

lemma answered_task:
  assumes "accepted a cd request req call"
    and "process_streaming (app_handler a) rh req call s = None"
    and "process_non_streaming (app_handler a) rh req call s = (respond_task (request_rpc_id req) r, s')"
  shows "handle_rpc a cd rh activated request s =
     rpc_answer (rq_text cd) (extension_header activated) (request_rpc_id req)
       (\<lambda>v. case v of
              Some t \<Rightarrow> Rsp_Success \<lparr>srs_id = Some (request_rpc_id req), srs_result = HR_Task t\<rparr>
            | None \<Rightarrow> Rsp_Error \<lparr>ers_error = TaskNotFoundError, ers_id = Some (request_rpc_id req)\<rparr>) (r, s')"
proof -
  have "respond_task i r = catch_server_error i (await_map (\<lambda>v. case v of
      Some t \<Rightarrow> Rsp_Success \<lparr>srs_id = Some i, srs_result = HR_Task t\<rparr>
    | None \<Rightarrow> Rsp_Error \<lparr>ers_error = TaskNotFoundError, ers_id = Some i\<rparr>) r)" for i
    by (cases r) (auto simp: respond_task_def prepare_response_object_def build_error_response_def split: option.split)
  with assms(3) show ?thesis by (intro answered_non_streaming [OF assms(1,2)]) simp
qed

text \<open>A stream of the request handler, with the error it raised as its last response.\<close>

definition stream_answer :: "rpc_id \<Rightarrow> string option \<Rightarrow> (Event list \<times> unit await) \<times> 's \<Rightarrow> rpc_reply \<times> 's" where
  "stream_answer i hdr r =
     (let events = map (\<lambda>ev. Rsp_Success \<lparr>srs_id = Some i, srs_result = event_result ev\<rparr>) (fst (fst r));
          failed = (\<lambda>x. Rsp_Error \<lparr>ers_error = x, ers_id = Some i\<rparr>)
      in (case snd (fst r) of
            Raised (ServerError None) \<Rightarrow> Rpc_Stream (events @ [failed InternalError]) (Done ()) hdr
          | Raised (ServerError (Some x)) \<Rightarrow> Rpc_Stream (events @ [failed x]) (Done ()) hdr
          | Raised (ServerErrorStr t) \<Rightarrow> Rpc_Stream events (Raised ValidationError) hdr
          | en \<Rightarrow> Rpc_Stream events en hdr,
          snd r))"

lemma respond_stream_answer:
  "(case respond_stream i r of (out, en) \<Rightarrow> (Rpc_Stream out en hdr, s')) = stream_answer i hdr (r, s')"
proof -
  have "prepare_response_object j (event_result ev) is_stream_event = Rsp_Success \<lparr>srs_id = j, srs_result = event_result ev\<rparr>" for j ev
    by (cases ev) (simp_all add: prepare_response_object_def)
  then show ?thesis
    by (auto simp: respond_stream_def stream_answer_def error_response_def Let_def
        split: await.split exn.split option.split)
qed

lemma answered_stream:
  assumes "accepted a cd request req call"
    and "process_streaming (app_handler a) rh req call s = Some (Done (respond_stream (request_rpc_id req) r), s')"
  shows "handle_rpc a cd rh activated request s =
     stream_answer (request_rpc_id req) (extension_header (scc_activated_extensions call)) (r, s')"
  using handle_accepted [OF assms(1), of rh activated s] assms(2)
  by (simp add: create_response_def respond_stream_answer [symmetric] split: prod.split)

lemma event_result_sent: "is_task_or_message (event_result (send_result_event v))"
  by (cases v) simp_all

lemma accepted_laws:
  assumes ok: "accepted a cd request req call" and hdr: "hdr = extension_header activated"
  shows "(\<forall>r. req = Req_SendMessage r \<longrightarrow>
               handle_rpc a cd rh activated request s = rpc_answer (rq_text cd) hdr (smr_id r)
                 (\<lambda>v. Rsp_Success \<lparr>srs_id = Some (smr_id r), srs_result = event_result (send_result_event v)\<rparr>)
                 (rh_message_send rh (smr_params r) call s)) \<and>
            (\<forall>r. req = Req_GetTask r \<longrightarrow>
               handle_rpc a cd rh activated request s = rpc_answer (rq_text cd) hdr (gtr_id r)
                 (\<lambda>v. case v of Some t \<Rightarrow> Rsp_Success \<lparr>srs_id = Some (gtr_id r), srs_result = HR_Task t\<rparr>
                      | None \<Rightarrow> Rsp_Error \<lparr>ers_error = TaskNotFoundError, ers_id = Some (gtr_id r)\<rparr>)
                 (rh_get_task rh (gtr_params r) call s)) \<and>
            (\<forall>r. req = Req_CancelTask r \<longrightarrow>
               handle_rpc a cd rh activated request s = rpc_answer (rq_text cd) hdr (ctr_id r)
                 (\<lambda>v. case v of Some t \<Rightarrow> Rsp_Success \<lparr>srs_id = Some (ctr_id r), srs_result = HR_Task t\<rparr>
                      | None \<Rightarrow> Rsp_Error \<lparr>ers_error = TaskNotFoundError, ers_id = Some (ctr_id r)\<rparr>)
                 (rh_cancel_task rh (ctr_params r) call s)) \<and>
            (\<forall>r. req = Req_SetPushConfig r \<longrightarrow> push_supported (app_card a) \<longrightarrow>
               handle_rpc a cd rh activated request s = rpc_answer (rq_text cd) hdr (spr_id r)
                 (\<lambda>v. Rsp_Success \<lparr>srs_id = Some (spr_id r), srs_result = HR_PushConfig v\<rparr>)
                 (rh_set_config rh (spr_params r) call s)) \<and>
            (\<forall>r. req = Req_GetPushConfig r \<longrightarrow>
               handle_rpc a cd rh activated request s = rpc_answer (rq_text cd) hdr (gpr_id r)
                 (\<lambda>v. Rsp_Success \<lparr>srs_id = Some (gpr_id r), srs_result = HR_PushConfig v\<rparr>)
                 (rh_get_config rh (gpr_params r) call s)) \<and>
            (\<forall>r. req = Req_ListPushConfig r \<longrightarrow>
               handle_rpc a cd rh activated request s = rpc_answer (rq_text cd) hdr (lpr_id r)
                 (\<lambda>v. Rsp_Success \<lparr>srs_id = Some (lpr_id r), srs_result = HR_PushConfigList v\<rparr>)
                 (rh_list_config rh (lpr_params r) call s)) \<and>
            (\<forall>r. req = Req_DeletePushConfig r \<longrightarrow>
               handle_rpc a cd rh activated request s = rpc_answer (rq_text cd) hdr (dpr_id r)
                 (\<lambda>v. Rsp_Success \<lparr>srs_id = Some (dpr_id r), srs_result = HR_None\<rparr>)
                 (rh_delete_config rh (dpr_params r) call s)) \<and>
            (\<forall>r. req = Req_SendStreamingMessage r \<longrightarrow> streaming_supported (app_card a) \<longrightarrow>
               handle_rpc a cd rh activated request s =
                 stream_answer (ssr_id r) (extension_header (scc_activated_extensions call))
                   (rh_message_send_stream rh (ssr_params r) call s)) \<and>
            (\<forall>r. req = Req_Resubscribe r \<longrightarrow>
               handle_rpc a cd rh activated request s =
                 stream_answer (trr_id r) (extension_header (scc_activated_extensions call))
                   (rh_resubscribe rh (trr_params r) call s)) \<and>
            (\<forall>r. req = Req_GetExtendedCard r \<longrightarrow>
               card_supports_authenticated_extended_card (app_card a) = Some True \<longrightarrow>
               handle_rpc a cd rh activated request s =
                 (let base = (case app_extended_card a of None \<Rightarrow> app_card a | Some c \<Rightarrow> c)
                  in (Rpc_Json (Rsp_Success \<lparr>srs_id = Some (gar_id r), srs_result =
                        HR_Card (case app_extended_modifier a of None \<Rightarrow> base | Some f \<Rightarrow> f base call)\<rparr>) hdr, s)))"
proof -
  note plain = answered_value [OF ok, where activated = activated and rh = rh and s = s, folded hdr]
  note tasks = answered_task [OF ok, where activated = activated and rh = rh and s = s, folded hdr]
  note other = answered_non_streaming [OF ok, where activated = activated and rh = rh and s = s, folded hdr]
  show ?thesis
    apply (intro conjI allI impI)
    subgoal for r by (cases "rh_message_send rh (smr_params r) call s")
        (use plain [of is_task_or_message "event_result \<circ> send_result_event"] in
         \<open>auto simp: rpc_message_send_def event_result_sent\<close>)
    subgoal for r by (cases "rh_get_task rh (gtr_params r) call s") (use tasks in \<open>auto simp: rpc_get_task_def\<close>)
    subgoal for r by (cases "rh_cancel_task rh (ctr_params r) call s") (use tasks in \<open>auto simp: rpc_cancel_task_def\<close>)
    subgoal for r by (cases "rh_set_config rh (spr_params r) call s")
        (use plain [of is_push_config HR_PushConfig] in \<open>auto simp: rpc_set_config_def guarded_simps app_handler_def\<close>)
    subgoal for r by (cases "rh_get_config rh (gpr_params r) call s")
        (use plain [of is_push_config HR_PushConfig] in \<open>auto simp: rpc_get_config_def\<close>)
    subgoal for r by (cases "rh_list_config rh (lpr_params r) call s")
        (use plain [of is_config_list HR_PushConfigList] in \<open>auto simp: rpc_list_config_def\<close>)
    subgoal for r by (cases "rh_delete_config rh (dpr_params r) call s") (use other in \<open>auto simp: rpc_delete_config_def\<close>)
    subgoal for r by (cases "rh_message_send_stream rh (ssr_params r) call s")
        (use answered_stream [OF ok, where activated = activated and rh = rh and s = s] in
         \<open>auto simp: rpc_message_send_stream_def guarded_simps app_handler_def\<close>)
    subgoal for r by (cases "rh_resubscribe rh (trr_params r) call s")
        (use answered_stream [OF ok, where activated = activated and rh = rh and s = s] in \<open>auto simp: rpc_resubscribe_def\<close>)
    subgoal for r using handle_accepted [OF ok, of rh activated s]
      by (simp add: create_response_def rpc_get_extended_card_def app_handler_def hdr Let_def split: option.split)
    done
qed

lemma accepted_intro:
  "hq_body request = JsonBody body \<Longrightarrow> allowed_content_length a request \<Longrightarrow> rq_base cd body = Inr m \<Longrightarrow>
   m \<in> set METHOD_TO_MODEL \<Longrightarrow> rq_specific cd m body = Inr req \<Longrightarrow> hq_context request = Inr c \<Longrightarrow>
   accepted a cd request req (with_method m c)"
  by (auto simp: accepted_def)

lemmas reply_defs = error_reply_json_def build_error_response_def payload_too_large_def error_class_defs

text \<open>
  Claim C36. The first check that a request fails decides the error object it gets, and neither the request handler
  nor the state is touched: a body that is no JSON gets -32700 with the decoder's text and no id; a body that Starlette
  or the content length says is too large -32600; a body that is no JSON-RPC request -32600, and one whose parameters do
  not fit its method -32602, with the details of the validation; a method that is not one of the ten -32601. A
  request that passes every check, and whose context can be built, makes one call of the request handler, the operation of
  its method with its parameters, and is answered with that call's outcome in the state that the call leaves: the
  result, a missing task as an error, the error the handler raised, and for the two streams the events in order with
  the error last. The card must offer streaming, push notifications and the extended card, whose request calls no
  operation and is answered from the cards of the application.
\<close>

theorem malformed_request_rejected:
  "(\<forall>tx. hq_body request = BadJson tx \<longrightarrow>
      handle_rpc a cd rh activated request s = (Rpc_Json (Rsp_Error \<lparr>ers_error = \<lparr>err_kind = K_JSONParseError,
        err_code = - 32700, err_data = None, err_message = Some tx\<rparr>, ers_id = None\<rparr>) None, s)) \<and>
   (hq_body request = BodyHttpError 413 \<longrightarrow>
      handle_rpc a cd rh activated request s = (Rpc_Json (Rsp_Error \<lparr>ers_error = \<lparr>err_kind = K_InvalidRequestError,
        err_code = - 32600, err_data = None, err_message = Some ''Payload too large''\<rparr>, ers_id = None\<rparr>) None, s)) \<and>
   (\<forall>body. hq_body request = JsonBody body \<longrightarrow>
      (\<forall>m n. app_max_content_length a = Some m \<longrightarrow> hq_content_length request = Some n \<longrightarrow> n \<noteq> 0 \<longrightarrow> m < n \<longrightarrow>
         handle_rpc a cd rh activated request s = (Rpc_Json (Rsp_Error \<lparr>ers_error = \<lparr>err_kind = K_InvalidRequestError,
           err_code = - 32600, err_data = None, err_message = Some ''Payload too large''\<rparr>, ers_id = body_id body\<rparr>) None, s)) \<and>
      (allowed_content_length a request \<longrightarrow>
         (\<forall>d. rq_base cd body = Inl d \<longrightarrow>
            handle_rpc a cd rh activated request s = (Rpc_Json (Rsp_Error \<lparr>ers_error = \<lparr>err_kind = K_InvalidRequestError,
              err_code = - 32600, err_data = Some d, err_message = Some ''Request payload validation error''\<rparr>,
              ers_id = body_id body\<rparr>) None, s)) \<and>
         (\<forall>m. rq_base cd body = Inr m \<longrightarrow>
            m \<notin> {''message/send'', ''message/stream'', ''tasks/get'', ''tasks/cancel'', ''tasks/resubscribe'',
                 ''tasks/pushNotificationConfig/set'', ''tasks/pushNotificationConfig/get'',
                 ''tasks/pushNotificationConfig/list'', ''tasks/pushNotificationConfig/delete'',
                 ''agent/getAuthenticatedExtendedCard''} \<longrightarrow>
            handle_rpc a cd rh activated request s = (Rpc_Json (Rsp_Error \<lparr>ers_error = \<lparr>err_kind = K_MethodNotFoundError,
              err_code = - 32601, err_data = None, err_message = Some ''Method not found''\<rparr>, ers_id = body_id body\<rparr>) None, s)) \<and>
         (\<forall>m d. rq_base cd body = Inr m \<longrightarrow> m \<in> set METHOD_TO_MODEL \<longrightarrow> rq_specific cd m body = Inl d \<longrightarrow>
            handle_rpc a cd rh activated request s = (Rpc_Json (Rsp_Error \<lparr>ers_error = \<lparr>err_kind = K_InvalidParamsError,
              err_code = - 32602, err_data = Some d, err_message = Some ''Invalid parameters''\<rparr>,
              ers_id = body_id body\<rparr>) None, s)) \<and>
         (\<forall>m req c. rq_base cd body = Inr m \<longrightarrow> m \<in> set METHOD_TO_MODEL \<longrightarrow> rq_specific cd m body = Inr req \<longrightarrow>
            hq_context request = Inr c \<longrightarrow>
            (\<forall>r. req = Req_SendMessage r \<longrightarrow>
               handle_rpc a cd rh activated request s = rpc_answer (rq_text cd) (extension_header activated) (smr_id r)
                 (\<lambda>v. Rsp_Success \<lparr>srs_id = Some (smr_id r), srs_result = event_result (send_result_event v)\<rparr>)
                 (rh_message_send rh (smr_params r) (with_method m c) s)) \<and>
            (\<forall>r. req = Req_GetTask r \<longrightarrow>
               handle_rpc a cd rh activated request s = rpc_answer (rq_text cd) (extension_header activated) (gtr_id r)
                 (\<lambda>v. case v of Some t \<Rightarrow> Rsp_Success \<lparr>srs_id = Some (gtr_id r), srs_result = HR_Task t\<rparr>
                      | None \<Rightarrow> Rsp_Error \<lparr>ers_error = TaskNotFoundError, ers_id = Some (gtr_id r)\<rparr>)
                 (rh_get_task rh (gtr_params r) (with_method m c) s)) \<and>
            (\<forall>r. req = Req_CancelTask r \<longrightarrow>
               handle_rpc a cd rh activated request s = rpc_answer (rq_text cd) (extension_header activated) (ctr_id r)
                 (\<lambda>v. case v of Some t \<Rightarrow> Rsp_Success \<lparr>srs_id = Some (ctr_id r), srs_result = HR_Task t\<rparr>
                      | None \<Rightarrow> Rsp_Error \<lparr>ers_error = TaskNotFoundError, ers_id = Some (ctr_id r)\<rparr>)
                 (rh_cancel_task rh (ctr_params r) (with_method m c) s)) \<and>
            (\<forall>r. req = Req_SetPushConfig r \<longrightarrow> push_supported (app_card a) \<longrightarrow>
               handle_rpc a cd rh activated request s = rpc_answer (rq_text cd) (extension_header activated) (spr_id r)
                 (\<lambda>v. Rsp_Success \<lparr>srs_id = Some (spr_id r), srs_result = HR_PushConfig v\<rparr>)
                 (rh_set_config rh (spr_params r) (with_method m c) s)) \<and>
            (\<forall>r. req = Req_GetPushConfig r \<longrightarrow>
               handle_rpc a cd rh activated request s = rpc_answer (rq_text cd) (extension_header activated) (gpr_id r)
                 (\<lambda>v. Rsp_Success \<lparr>srs_id = Some (gpr_id r), srs_result = HR_PushConfig v\<rparr>)
                 (rh_get_config rh (gpr_params r) (with_method m c) s)) \<and>
            (\<forall>r. req = Req_ListPushConfig r \<longrightarrow>
               handle_rpc a cd rh activated request s = rpc_answer (rq_text cd) (extension_header activated) (lpr_id r)
                 (\<lambda>v. Rsp_Success \<lparr>srs_id = Some (lpr_id r), srs_result = HR_PushConfigList v\<rparr>)
                 (rh_list_config rh (lpr_params r) (with_method m c) s)) \<and>
            (\<forall>r. req = Req_DeletePushConfig r \<longrightarrow>
               handle_rpc a cd rh activated request s = rpc_answer (rq_text cd) (extension_header activated) (dpr_id r)
                 (\<lambda>v. Rsp_Success \<lparr>srs_id = Some (dpr_id r), srs_result = HR_None\<rparr>)
                 (rh_delete_config rh (dpr_params r) (with_method m c) s)) \<and>
            (\<forall>r. req = Req_SendStreamingMessage r \<longrightarrow> streaming_supported (app_card a) \<longrightarrow>
               handle_rpc a cd rh activated request s =
                 stream_answer (ssr_id r) (extension_header (scc_activated_extensions (with_method m c)))
                   (rh_message_send_stream rh (ssr_params r) (with_method m c) s)) \<and>
            (\<forall>r. req = Req_Resubscribe r \<longrightarrow>
               handle_rpc a cd rh activated request s =
                 stream_answer (trr_id r) (extension_header (scc_activated_extensions (with_method m c)))
                   (rh_resubscribe rh (trr_params r) (with_method m c) s)) \<and>
            (\<forall>r. req = Req_GetExtendedCard r \<longrightarrow>
               card_supports_authenticated_extended_card (app_card a) = Some True \<longrightarrow>
               handle_rpc a cd rh activated request s =
                 (let base = (case app_extended_card a of None \<Rightarrow> app_card a | Some c \<Rightarrow> c)
                  in (Rpc_Json (Rsp_Success \<lparr>srs_id = Some (gar_id r), srs_result =
                        HR_Card (case app_extended_modifier a of None \<Rightarrow> base | Some f \<Rightarrow> f base (with_method m c))\<rparr>) (extension_header activated), s))))))"
  apply (intro conjI allI impI)
  subgoal for tx by (simp add: handle_rpc_def reply_defs)
  subgoal by (simp add: handle_rpc_def reply_defs)
  subgoal by (simp add: handle_rpc_def reply_defs allowed_content_length_def)
  subgoal by (simp add: handle_rpc_def reply_defs)
  subgoal by (simp add: handle_rpc_def reply_defs METHOD_TO_MODEL_def)
  subgoal by (simp add: handle_rpc_def reply_defs)
  by (drule (5) accepted_intro, drule accepted_laws [OF _ refl, where rh = rh and s = s and activated = activated], simp)+

theorem malformed_request_rejected_witness:
  "handle_rpc (sample_app None)
      (sample_rpc_codec ''tasks/list'' (Req_SendMessage \<lparr>smr_id = IdInt 7, smr_params = sample_rpc_params\<rparr>))
      sample_rh {} sample_http () =
     (Rpc_Json (Rsp_Error \<lparr>ers_error = \<lparr>err_kind = K_MethodNotFoundError, err_code = - 32601, err_data = None,
        err_message = Some ''Method not found''\<rparr>, ers_id = Some (IdInt 7)\<rparr>) None, ()) \<and>
   handle_rpc (sample_app None)
      (sample_rpc_codec ''message/send'' (Req_SendMessage \<lparr>smr_id = IdInt 7, smr_params = sample_rpc_params\<rparr>))
      sample_rh {} sample_http () =
     (Rpc_Json (Rsp_Success \<lparr>srs_id = Some (IdInt 7), srs_result = HR_Task sample_task\<rparr>) None, ())"
  using malformed_request_rejected [of sample_http "sample_app None" "sample_rpc_codec ''tasks/list''
      (Req_SendMessage \<lparr>smr_id = IdInt 7, smr_params = sample_rpc_params\<rparr>)" sample_rh "{}" "()"]
    malformed_request_rejected [of sample_http "sample_app None" "sample_rpc_codec ''message/send''
      (Req_SendMessage \<lparr>smr_id = IdInt 7, smr_params = sample_rpc_params\<rparr>)" sample_rh "{}" "()"]
  by (simp add: sample_http_def sample_rpc_codec_def METHOD_TO_MODEL_def allowed_content_length_def
      sample_app_def sample_rh_def rpc_answer_def extension_header_def)

end
