(* ===== verification/JsonRpcClient.thy ===== *)
theory JsonRpcClient
  imports HttpClient JsonRpc
begin

section \<open>The JSON-RPC client transport (client/transports/jsonrpc.py)\<close>

text \<open>
  Every method builds a request with a fresh id, puts the extensions into the headers, lets the
  interceptors rewrite payload and HTTP arguments, posts it and validates the response. The
  transport object (its card can change) and the server's state are threaded as a pair. The
  generated id and the call context of a call are arguments.
\<close>

record 's json_rpc_transport =
  jt_url :: string
  jt_agent_card :: "AgentCard option"
  jt_interceptors :: "'s interceptor list"
  jt_needs_extended_card :: "bool option"
  jt_extensions :: "string list option"

definition jt_new ::
  "AgentCard option \<Rightarrow> string option \<Rightarrow> 's interceptor list option \<Rightarrow> string list option \<Rightarrow> exn + 's json_rpc_transport" where
  "jt_new c url interceptors extensions =
     (let t = (\<lambda>u. \<lparr>jt_url = u, jt_agent_card = c, jt_interceptors = or_else interceptors [],
                     jt_needs_extended_card =
                       (case c of None \<Rightarrow> Some True | Some x \<Rightarrow> card_supports_authenticated_extended_card x),
                     jt_extensions = extensions\<rparr>)
      in if truthy url then Inr (t (the url))
         else (case c of
                 Some x \<Rightarrow> Inr (t (card_url x))
               | None \<Rightarrow> Inl (ValueErr ''Must provide either agent_card or url'')))"

text \<open>
  Pydantic on the client's side: the JSON of a request, and a response read from JSON. \<open>cdc_error\<close> is what an error object
  of the server is after it was read: its class may differ.
\<close>

record client_codec =
  cdc_dump :: "A2ARequest \<Rightarrow> pyval"
  cdc_read :: "pyval \<Rightarrow> exn + response"
  cdc_error_text :: "rpc_error \<Rightarrow> string"
  cdc_error :: "rpc_error \<Rightarrow> rpc_error"

record 's jt_env =
  je_http :: "'s http_client"
  je_codec :: client_codec
  je_card_codec :: card_codec
  je_uuid :: string
  je_context :: "ClientCallContext option"

text \<open>\<open>model_validate\<close> of the response class, the error check and the result: \<open>extract\<close> is what the class accepts.\<close>

definition rpc_result :: "client_codec \<Rightarrow> (handler_result \<Rightarrow> 'a option) \<Rightarrow> pyval \<Rightarrow> exn + 'a" where
  "rpc_result cdc extract data =
     (case cdc_read cdc data of
        Inl e \<Rightarrow> Inl e
      | Inr (Rsp_Error r) \<Rightarrow> Inl (A2AClientJSONRPCError (ers_error r) (cdc_error_text cdc (ers_error r)))
      | Inr (Rsp_Success r) \<Rightarrow> (case extract (srs_result r) of None \<Rightarrow> Inl ValidationError | Some a \<Rightarrow> Inr a))"

definition jt_payload ::
  "'s jt_env \<Rightarrow> A2ARequest \<Rightarrow> http_kwargs option \<Rightarrow> string list option \<Rightarrow> 's json_rpc_transport \<Rightarrow> 's \<Rightarrow>
   (pyval \<times> http_kwargs) await \<times> 's" where
  "jt_payload e req kw extensions t s =
     (let kw1 = with_extensions kw (case extensions of None \<Rightarrow> jt_extensions t | Some x \<Rightarrow> Some x)
      in apply_interceptors (jt_interceptors t) (request_method req) (cdc_dump (je_codec e) req) kw1
           (jt_agent_card t) (je_context e) s)"

definition jt_send_request ::
  "'s http_client \<Rightarrow> 's json_rpc_transport \<Rightarrow> pyval \<Rightarrow> http_kwargs \<Rightarrow> 's \<Rightarrow> pyval await \<times> 's" where
  "jt_send_request hc t payload kw s = (let (r, s') = hc_post hc (jt_url t) payload kw s in (http_result r, s'))"

text \<open>A unary call.\<close>

definition jt_call ::
  "'s jt_env \<Rightarrow> (handler_result \<Rightarrow> 'a option) \<Rightarrow> A2ARequest \<Rightarrow> string list option \<Rightarrow> 's json_rpc_transport \<times> 's \<Rightarrow>
   'a await \<times> 's json_rpc_transport \<times> 's" where
  "jt_call e extract req extensions ts =
     (case ts of (t, s) \<Rightarrow>
        (case jt_payload e req (get_http_args (je_context e)) extensions t s of
           (Raised x, s1) \<Rightarrow> (Raised x, t, s1)
         | (Blocked, s1) \<Rightarrow> (Blocked, t, s1)
         | (Done (payload, kw), s1) \<Rightarrow>
             (case jt_send_request (je_http e) t payload kw s1 of
                (Raised x, s2) \<Rightarrow> (Raised x, t, s2)
              | (Blocked, s2) \<Rightarrow> (Blocked, t, s2)
              | (Done data, s2) \<Rightarrow> (await_of (rpc_result (je_codec e) extract data), t, s2))))"

definition jt_send_message ::
  "'s jt_env \<Rightarrow> sent_params \<Rightarrow> string list option \<Rightarrow> 's json_rpc_transport \<times> 's \<Rightarrow>
   (Task + Message) await \<times> 's json_rpc_transport \<times> 's" where
  "jt_send_message e request =
     jt_call e as_task_or_message (Req_SendMessage \<lparr>smr_id = IdStr (je_uuid e), smr_params = params_of request\<rparr>)"

definition jt_get_task ::
  "'s jt_env \<Rightarrow> TaskQueryParams \<Rightarrow> string list option \<Rightarrow> 's json_rpc_transport \<times> 's \<Rightarrow>
   Task await \<times> 's json_rpc_transport \<times> 's" where
  "jt_get_task e request = jt_call e as_task (Req_GetTask \<lparr>gtr_id = IdStr (je_uuid e), gtr_params = request\<rparr>)"

definition jt_cancel_task ::
  "'s jt_env \<Rightarrow> TaskIdParams \<Rightarrow> string list option \<Rightarrow> 's json_rpc_transport \<times> 's \<Rightarrow>
   Task await \<times> 's json_rpc_transport \<times> 's" where
  "jt_cancel_task e request = jt_call e as_task (Req_CancelTask \<lparr>ctr_id = IdStr (je_uuid e), ctr_params = request\<rparr>)"

definition jt_set_task_callback ::
  "'s jt_env \<Rightarrow> TaskPushNotificationConfig \<Rightarrow> string list option \<Rightarrow> 's json_rpc_transport \<times> 's \<Rightarrow>
   TaskPushNotificationConfig await \<times> 's json_rpc_transport \<times> 's" where
  "jt_set_task_callback e request =
     jt_call e as_push_config (Req_SetPushConfig \<lparr>spr_id = IdStr (je_uuid e), spr_params = request\<rparr>)"

definition jt_get_task_callback ::
  "'s jt_env \<Rightarrow> GetTaskPushNotificationConfigParams \<Rightarrow> string list option \<Rightarrow> 's json_rpc_transport \<times> 's \<Rightarrow>
   TaskPushNotificationConfig await \<times> 's json_rpc_transport \<times> 's" where
  "jt_get_task_callback e request =
     jt_call e as_push_config (Req_GetPushConfig \<lparr>gpr_id = IdStr (je_uuid e), gpr_params = GCP_Config request\<rparr>)"

text \<open>
  The loop over the events of a stream. \<open>bad_json\<close> is what data that is not JSON raises: \<open>json.loads\<close> in
  \<open>send_message_streaming\<close>, \<open>model_validate_json\<close> in \<open>resubscribe\<close>.
\<close>

fun read_sse :: "client_codec \<Rightarrow> (string \<Rightarrow> exn) \<Rightarrow> (string + pyval) list \<Rightarrow> sse_end \<Rightarrow> Event list \<times> unit await" where
  "read_sse cdc bad_json [] en = ([], sse_end_result en)"
| "read_sse cdc bad_json (Inl t # rest) en = ([], Raised (bad_json t))"
| "read_sse cdc bad_json (Inr v # rest) en =
     (case rpc_result cdc as_event v of
        Inl x \<Rightarrow> ([], Raised x)
      | Inr ev \<Rightarrow> (let (evs, r) = read_sse cdc bad_json rest en in (ev # evs, r)))"

text \<open>\<open>aconnect_sse\<close> is entered before the \<open>try\<close>: an error while opening the stream leaves as it is.\<close>

definition jt_stream_params ::
  "'s jt_env \<Rightarrow> MessageSendParams \<Rightarrow> string list option \<Rightarrow> 's json_rpc_transport \<times> 's \<Rightarrow>
   (Event list \<times> unit await) \<times> 's json_rpc_transport \<times> 's" where
  "jt_stream_params e params extensions ts =
     (case ts of (t, s) \<Rightarrow>
        let req = Req_SendStreamingMessage \<lparr>ssr_id = IdStr (je_uuid e), ssr_params = params\<rparr> in
        (case jt_payload e req (get_http_args (je_context e)) extensions t s of
           (Raised x, s1) \<Rightarrow> (([], Raised x), t, s1)
         | (Blocked, s1) \<Rightarrow> (([], Blocked), t, s1)
         | (Done (payload, kw), s1) \<Rightarrow>
             (case hc_stream (je_http e) (jt_url t) payload (stream_kwargs (je_http e) kw) s1 of
                (Sse_Failed x, s2) \<Rightarrow> (([], Raised x), t, s2)
              | (Sse_Waiting, s2) \<Rightarrow> (([], Blocked), t, s2)
              | (Sse_Opened status tx items en, s2) \<Rightarrow>
                  ((if \<not> is_success status then ([], Raised (A2AClientHTTPError status tx))
                    else read_sse (je_codec e) A2AClientJSONError items en), t, s2))))"

definition jt_send_message_streaming ::
  "'s jt_env \<Rightarrow> sent_params \<Rightarrow> string list option \<Rightarrow> 's json_rpc_transport \<times> 's \<Rightarrow>
   (Event list \<times> unit await) \<times> 's json_rpc_transport \<times> 's" where
  "jt_send_message_streaming e request = jt_stream_params e (params_of request)"

definition jt_resubscribe ::
  "'s jt_env \<Rightarrow> TaskIdParams \<Rightarrow> string list option \<Rightarrow> 's json_rpc_transport \<times> 's \<Rightarrow>
   (Event list \<times> unit await) \<times> 's json_rpc_transport \<times> 's" where
  "jt_resubscribe e request extensions ts =
     (case ts of (t, s) \<Rightarrow>
        let req = Req_Resubscribe \<lparr>trr_id = IdStr (je_uuid e), trr_params = request\<rparr> in
        (case jt_payload e req (get_http_args (je_context e)) extensions t s of
           (Raised x, s1) \<Rightarrow> (([], Raised x), t, s1)
         | (Blocked, s1) \<Rightarrow> (([], Blocked), t, s1)
         | (Done (payload, kw), s1) \<Rightarrow>
             let kw' = kw\<lparr>hk_timeout := Some (case hk_timeout kw of None \<Rightarrow> PyNone | Some x \<Rightarrow> x)\<rparr> in
             (case hc_stream (je_http e) (jt_url t) payload kw' s1 of
                (Sse_Failed x, s2) \<Rightarrow> (([], Raised x), t, s2)
              | (Sse_Waiting, s2) \<Rightarrow> (([], Blocked), t, s2)
              | (Sse_Opened status tx items en, s2) \<Rightarrow>
                  (read_sse (je_codec e) (\<lambda>x. ValidationError) items en, t, s2))))"

text \<open>\<open>get_card\<close>: the public card if there is none yet, then the extended card if the card announces one.\<close>

definition jt_public_card ::
  "'s jt_env \<Rightarrow> http_kwargs \<Rightarrow> (AgentCard \<Rightarrow> exn option) option \<Rightarrow> 's json_rpc_transport \<times> 's \<Rightarrow>
   AgentCard await \<times> 's json_rpc_transport \<times> 's" where
  "jt_public_card e kw verifier ts =
     (case ts of (t, s) \<Rightarrow>
        (case jt_agent_card t of
           Some c \<Rightarrow> (Done c, t, s)
         | None \<Rightarrow>
             (case get_agent_card (je_http e) (je_card_codec e) (jt_url t) ''/.well-known/agent-card.json'' None kw verifier s of
                (Done c, s') \<Rightarrow>
                  (Done c, t\<lparr>jt_needs_extended_card := card_supports_authenticated_extended_card c, jt_agent_card := Some c\<rparr>, s')
              | (r, s') \<Rightarrow> (r, t, s'))))"

definition jt_extended_card ::
  "'s jt_env \<Rightarrow> http_kwargs \<Rightarrow> (AgentCard \<Rightarrow> exn option) option \<Rightarrow> 's json_rpc_transport \<times> 's \<Rightarrow>
   AgentCard await \<times> 's json_rpc_transport \<times> 's" where
  "jt_extended_card e kw verifier ts =
     (case ts of (t, s) \<Rightarrow>
        let req = Req_GetExtendedCard \<lparr>gar_id = IdStr (je_uuid e)\<rparr> in
        (case apply_interceptors (jt_interceptors t) (request_method req) (cdc_dump (je_codec e) req) kw
                (jt_agent_card t) (je_context e) s of
           (Raised x, s1) \<Rightarrow> (Raised x, t, s1)
         | (Blocked, s1) \<Rightarrow> (Blocked, t, s1)
         | (Done (payload, kw'), s1) \<Rightarrow>
             (case jt_send_request (je_http e) t payload kw' s1 of
                (Raised x, s2) \<Rightarrow> (Raised x, t, s2)
              | (Blocked, s2) \<Rightarrow> (Blocked, t, s2)
              | (Done data, s2) \<Rightarrow>
                  (case rpc_result (je_codec e) as_card data of
                     Inl x \<Rightarrow> (Raised x, t, s2)
                   | Inr c \<Rightarrow>
                       (case (case verifier of None \<Rightarrow> None | Some verify \<Rightarrow> verify c) of
                          Some x \<Rightarrow> (Raised x, t, s2)
                        | None \<Rightarrow> (Done c, t\<lparr>jt_agent_card := Some c, jt_needs_extended_card := Some False\<rparr>, s2))))))"

definition jt_get_card ::
  "'s jt_env \<Rightarrow> string list option \<Rightarrow> (AgentCard \<Rightarrow> exn option) option \<Rightarrow> 's json_rpc_transport \<times> 's \<Rightarrow>
   AgentCard await \<times> 's json_rpc_transport \<times> 's" where
  "jt_get_card e extensions verifier ts =
     (let kw = with_extensions (get_http_args (je_context e))
                 (case extensions of None \<Rightarrow> jt_extensions (fst ts) | Some x \<Rightarrow> Some x)
      in case jt_public_card e kw verifier ts of
           (Done c, ts') \<Rightarrow>
             if jt_needs_extended_card (fst ts') \<noteq> Some True then (Done c, ts')
             else jt_extended_card e kw verifier ts'
         | (r, ts') \<Rightarrow> (r, ts'))"

definition json_rpc_client_transport :: "'s jt_env \<Rightarrow> ('s json_rpc_transport \<times> 's) client_transport" where
  "json_rpc_client_transport e =
     \<lparr>ct_send_message = jt_send_message e, ct_send_message_streaming = jt_send_message_streaming e,
      ct_get_task = jt_get_task e, ct_cancel_task = jt_cancel_task e, ct_set_task_callback = jt_set_task_callback e,
      ct_get_task_callback = jt_get_task_callback e, ct_resubscribe = jt_resubscribe e, ct_get_card = jt_get_card e,
      ct_close = (\<lambda>ts. (Done (), ts))\<rparr>"

subsection \<open>A JSON-RPC server behind HTTP\<close>

text \<open>
  The wire between the client and an SDK server: a posted payload is the body of a request to the
  application, its JSON response or event stream comes back with status 200, an exception that leaves the
  application is answered with 500, one that breaks a running stream closes the connection.
\<close>

record 's rpc_site =
  rs_app :: rpc_app
  rs_codec :: rpc_codec
  rs_handler :: "'s request_handler"
  rs_activated :: "string set"
  rs_context :: "exn + ServerCallContext"
  rs_length :: "pyval \<Rightarrow> int option"
  rs_dump :: "response \<Rightarrow> pyval"

definition site_request :: "'s rpc_site \<Rightarrow> pyval \<Rightarrow> http_request" where
  "site_request site payload =
     \<lparr>hq_body = JsonBody payload, hq_content_length = rs_length site payload, hq_context = rs_context site\<rparr>"

definition site_reply :: "'s rpc_site \<Rightarrow> pyval \<Rightarrow> 's \<Rightarrow> rpc_reply \<times> 's" where
  "site_reply site payload =
     handle_rpc (rs_app site) (rs_codec site) (rs_handler site) (rs_activated site) (site_request site payload)"

definition site_http :: "'s rpc_site \<Rightarrow> 's http_client" where
  "site_http site =
     \<lparr>hc_post = (\<lambda>url payload kw s. case site_reply site payload s of
         (Rpc_Json r h, s') \<Rightarrow> (Http_Response 200 [] (Inr (rs_dump site r)), s')
       | (Rpc_Stream out en h, s') \<Rightarrow> (Http_Response 200 [] (Inl ''Expecting value''), s')
       | (Rpc_Raise e, s') \<Rightarrow> (Http_Response 500 ''Internal Server Error'' (Inl []), s')
       | (Rpc_Hang, s') \<Rightarrow> (Http_Waiting, s')),
      hc_get = (\<lambda>url kw s. (Http_Response 404 ''Not Found'' (Inl []), s)),
      hc_stream = (\<lambda>url payload kw s. case site_reply site payload s of
         (Rpc_Json r h, s') \<Rightarrow> (Sse_Opened 200 [] [] (Sse_Protocol ''Expected response header Content-Type''), s')
       | (Rpc_Stream out en h, s') \<Rightarrow>
           (Sse_Opened 200 [] (map (\<lambda>r. Inr (rs_dump site r)) out)
              (case en of Done u \<Rightarrow> Sse_Closed | Blocked \<Rightarrow> Sse_Pending | Raised e \<Rightarrow> Sse_Network ''incomplete chunked read''), s')
       | (Rpc_Raise e, s') \<Rightarrow> (Sse_Opened 500 ''Internal Server Error'' [] (Sse_Protocol ''Expected response header Content-Type''), s')
       | (Rpc_Hang, s') \<Rightarrow> (Sse_Waiting, s')),
      hc_headers = [], hc_read_timeout = PyNone\<rparr>"

text \<open>The client's codec reads what the server writes in a reply.\<close>

definition reads_one :: "client_codec \<Rightarrow> 's rpc_site \<Rightarrow> response \<Rightarrow> bool" where
  "reads_one cdc site r \<longleftrightarrow>
     (case r of
        Rsp_Success x \<Rightarrow> cdc_read cdc (rs_dump site r) = Inr r
      | Rsp_Error x \<Rightarrow>
          cdc_read cdc (rs_dump site r) = Inr (Rsp_Error (x\<lparr>ers_error := cdc_error cdc (ers_error x)\<rparr>)) \<and>
          err_code (cdc_error cdc (ers_error x)) = err_code (ers_error x))"

definition reads_back :: "client_codec \<Rightarrow> 's rpc_site \<Rightarrow> response list \<Rightarrow> bool" where
  "reads_back cdc site rs = list_all (reads_one cdc site) rs"

definition reads_reply :: "client_codec \<Rightarrow> 's rpc_site \<Rightarrow> A2ARequest \<Rightarrow> 's \<Rightarrow> bool" where
  "reads_reply cdc site req s \<longleftrightarrow> reads_back cdc site (reply_responses (fst (site_reply site (cdc_dump cdc req) s)))"

text \<open>The server reads the client's request and lets it through.\<close>

definition site_accepts :: "client_codec \<Rightarrow> 's rpc_site \<Rightarrow> A2ARequest \<Rightarrow> ServerCallContext \<Rightarrow> bool" where
  "site_accepts cdc site req call \<longleftrightarrow>
     accepted (rs_app site) (rs_codec site) (site_request site (cdc_dump cdc req)) req call"

lemma jt_payload_plain:
  "jt_interceptors t = [] \<Longrightarrow> jt_payload e req kw extensions t s =
     (Done (cdc_dump (je_codec e) req,
            with_extensions kw (case extensions of None \<Rightarrow> jt_extensions t | Some x \<Rightarrow> Some x)), s)"
  by (simp add: jt_payload_def Let_def)

lemma as_event_event_result [simp]: "as_event (event_result ev) = Some ev"
  by (cases ev) simp_all

lemma as_task_or_message_send [simp]:
  "as_task_or_message (event_result (send_result_event v)) =
     Some (case v of SR_Task t \<Rightarrow> Inl t | SR_Message m \<Rightarrow> Inr m)"
  by (cases v) simp_all

text \<open>What a client makes of a \<open>ServerError\<close> of the handler.\<close>

definition rpc_client_error :: "client_codec \<Rightarrow> rpc_error option \<Rightarrow> exn" where
  "rpc_client_error cdc x =
     (let err = cdc_error cdc (case x of None \<Rightarrow> InternalError | Some y \<Rightarrow> y)
      in A2AClientJSONRPCError err (cdc_error_text cdc err))"

lemma rpc_result_error:
  "reads_one cdc site (error_response i x) \<Longrightarrow>
   rpc_result cdc extract (rs_dump site (error_response i x)) = Inl (rpc_client_error cdc x)"
  by (simp add: rpc_result_def reads_one_def error_response_def rpc_client_error_def Let_def)

lemma rpc_result_success:
  "reads_one cdc site (Rsp_Success \<lparr>srs_id = i, srs_result = v\<rparr>) \<Longrightarrow>
   rpc_result cdc extract (rs_dump site (Rsp_Success \<lparr>srs_id = i, srs_result = v\<rparr>)) =
     (case extract v of None \<Rightarrow> Inl ValidationError | Some a \<Rightarrow> Inr a)"
  by (simp add: rpc_result_def reads_one_def)

lemma reads_back_append [simp]:
  "reads_back cdc site (r # rs) \<longleftrightarrow> reads_one cdc site r \<and> reads_back cdc site rs"
  "reads_back cdc site (rs @ ts) \<longleftrightarrow> reads_back cdc site rs \<and> reads_back cdc site ts"
  "reads_back cdc site []"
  by (auto simp: reads_back_def)

text \<open>Any other exception of the handler reaches the client as an internal error or as status 500.\<close>

definition is_internal :: "exn \<Rightarrow> bool" where
  "is_internal e \<longleftrightarrow> (\<exists>err t. e = A2AClientJSONRPCError err t \<and> err_code err = -32603) \<or>
                     (\<exists>t. e = A2AClientHTTPError 500 t)"

lemma reply_exception_cases:
  obtains x where "reply_exception vtext i e = Rpc_Raise x"
        | err where "reply_exception vtext i e = Rpc_Json (Rsp_Error \<lparr>ers_error = err, ers_id = i\<rparr>) None"
            and "err_code err = -32603"
  unfolding reply_exception_def error_reply_json_def build_error_response_def
  by (cases e; cases "exn_str vtext e") (auto simp: error_class_defs)

text \<open>One exchange with the site, for a reply that is a single document or an escaped exception.\<close>

lemma jt_call_site:
  assumes "jt_interceptors t = []" and "je_http e = site_http site"
    and "site_reply site (cdc_dump (je_codec e) req) s = (reply, s')"
  shows "jt_call e extract req extensions (t, s) =
     ((case reply of
         Rpc_Json r h \<Rightarrow> await_of (rpc_result (je_codec e) extract (rs_dump site r))
       | Rpc_Stream out en h \<Rightarrow> Raised (A2AClientJSONError ''Expecting value'')
       | Rpc_Raise x \<Rightarrow> Raised (A2AClientHTTPError 500 ''Internal Server Error'')
       | Rpc_Hang \<Rightarrow> Blocked), t, s')"
  using assms
  by (cases reply)
     (simp_all add: jt_call_def jt_payload_plain jt_send_request_def site_http_def is_success_def split: sum.splits)

lemma jt_call_site_exception:
  assumes "jt_interceptors t = []" and "je_http e = site_http site" and "reads_reply (je_codec e) site req s"
    and "site_reply site (cdc_dump (je_codec e) req) s = (reply_exception vtext i y, s')"
  shows "\<exists>x. jt_call e extract req extensions (t, s) = (Raised x, t, s') \<and> is_internal x"
proof (rule reply_exception_cases [of vtext i y])
  fix x
  assume "reply_exception vtext i y = Rpc_Raise x"
  with jt_call_site [OF assms(1,2,4), of "extract" extensions] show ?thesis by (simp add: is_internal_def)
next
  fix err
  assume r: "reply_exception vtext i y = Rpc_Json (Rsp_Error \<lparr>ers_error = err, ers_id = i\<rparr>) None"
    and k: "err_code err = -32603"
  have "rpc_result (je_codec e) extract (rs_dump site (Rsp_Error \<lparr>ers_error = err, ers_id = i\<rparr>)) =
      Inl (A2AClientJSONRPCError (cdc_error (je_codec e) err) (cdc_error_text (je_codec e) (cdc_error (je_codec e) err)))"
    and "err_code (cdc_error (je_codec e) err) = err_code err"
    using assms(3,4) r by (simp_all add: rpc_result_def reads_reply_def reads_one_def)
  with jt_call_site [OF assms(1,2,4), of "extract" extensions] r k show ?thesis by (simp add: is_internal_def)
qed

lemma json_rpc_message_law:
  assumes "jt_interceptors t = []" and "je_http e = site_http site"
    and "reads_reply (je_codec e) site (Req_SendMessage \<lparr>smr_id = IdStr (je_uuid e), smr_params = params_of request\<rparr>) s"
    and "site_accepts (je_codec e) site (Req_SendMessage \<lparr>smr_id = IdStr (je_uuid e), smr_params = params_of request\<rparr>) call"
    and "rh_message_send (rs_handler site) (params_of request) call s = (res, s')"
  shows "\<exists>r. jt_send_message e request extensions (t, s) = (r, t, s') \<and>
           (case res of
              Done v \<Rightarrow> r = Done (case v of SR_Task x \<Rightarrow> Inl x | SR_Message m \<Rightarrow> Inr m)
            | Blocked \<Rightarrow> r = Blocked
            | Raised y \<Rightarrow>
                (case y of
                   ServerError x \<Rightarrow> r = Raised (rpc_client_error (je_codec e) x)
                 | _ \<Rightarrow> \<exists>x. r = Raised x \<and> is_internal x))"
proof -
  let ?req = "Req_SendMessage \<lparr>smr_id = IdStr (je_uuid e), smr_params = params_of request\<rparr>"
  let ?payload = "cdc_dump (je_codec e) ?req"
  note reply = rpc_send_reply [OF assms(4) [unfolded site_accepts_def], of "rs_handler site" "rs_activated site" s,
      folded site_reply_def, simplified assms(5) rpc_response.simps]
  note out = jt_call_site [OF assms(1,2), of ?req s _ s' as_task_or_message extensions]
  note exc = jt_call_site_exception [OF assms(1-3), of _ _ _ s' as_task_or_message extensions]
  note rb = assms(3) [unfolded reads_reply_def]
  show ?thesis
  proof (cases res)
    case (Done v)
    with reply assms(5) out [of "Rpc_Json (Rsp_Success \<lparr>srs_id = Some (IdStr (je_uuid e)),
        srs_result = event_result (send_result_event v)\<rparr>) (extension_header (rs_activated site))"]
    rb show ?thesis by (simp add: jt_send_message_def rpc_result_success)
  next
    case Blocked
    with reply assms(5) out [of Rpc_Hang] show ?thesis by (simp add: jt_send_message_def)
  next
    case (Raised y)
    show ?thesis
    proof (cases "\<exists>x. y = ServerError x")
      case True
      then obtain x where y: "y = ServerError x" by blast
      with Raised reply assms(5) out [of "Rpc_Json (error_response (IdStr (je_uuid e)) x) (extension_header (rs_activated site))"]
      rb show ?thesis by (simp add: jt_send_message_def rpc_result_error)
    next
      case False
      then obtain z where
        z: "site_reply site ?payload s = (reply_exception (rq_text (rs_codec site)) (Some (IdStr (je_uuid e))) z, s')"
        using reply Raised assms(5) by (cases y) auto
      from exc [OF z] obtain x where x: "jt_call e as_task_or_message ?req extensions (t, s) = (Raised x, t, s')"
        and "is_internal x" by blast
      moreover have "jt_send_message e request extensions (t, s) = (Raised x, t, s')"
        using x by (simp add: jt_send_message_def)
      ultimately show ?thesis using Raised False by (cases y) simp_all
    qed
  qed
qed

text \<open>
  A message over JSON-RPC from end to end: when the server reads the client's request and the client the
  server's responses, \<open>JsonRpcTransport.send_message\<close> returns exactly the task or message that the server's request
  handler returned for the parameters that were sent; a \<open>ServerError\<close> of the handler is raised at the client with its
  error object, any other exception as an internal error, and no answer is no answer.
\<close>

theorem message_over_json_rpc:
  assumes "jt_interceptors t = []" and "je_http e = site_http site"
    and "reads_reply (je_codec e) site (Req_SendMessage \<lparr>smr_id = IdStr (je_uuid e), smr_params = params_of request\<rparr>) s"
    and "site_accepts (je_codec e) site (Req_SendMessage \<lparr>smr_id = IdStr (je_uuid e), smr_params = params_of request\<rparr>) call"
    and "rh_message_send (rs_handler site) (params_of request) call s = (res, s')"
  shows "\<exists>r. jt_send_message e request extensions (t, s) = (r, t, s') \<and>
           (case res of
              Done v \<Rightarrow> r = Done (case v of SR_Task x \<Rightarrow> Inl x | SR_Message m \<Rightarrow> Inr m)
            | Blocked \<Rightarrow> r = Blocked
            | Raised y \<Rightarrow>
                (case y of
                   ServerError x \<Rightarrow> r = Raised (rpc_client_error (je_codec e) x)
                 | _ \<Rightarrow> \<exists>x. r = Raised x \<and> is_internal x))"
  by (rule json_rpc_message_law [OF assms])

subsection \<open>Streams\<close>

lemma read_sse_events:
  assumes "reads_back cdc site (map (\<lambda>ev. Rsp_Success \<lparr>srs_id = i, srs_result = event_result ev\<rparr>) evs)"
  shows "read_sse cdc bad (map (\<lambda>ev. Inr (rs_dump site (Rsp_Success \<lparr>srs_id = i, srs_result = event_result ev\<rparr>))) evs @ rest) en =
           (evs @ fst (read_sse cdc bad rest en), snd (read_sse cdc bad rest en))"
  using assms
proof (induction evs)
  case (Cons ev evs)
  then have "rpc_result cdc as_event (rs_dump site (Rsp_Success \<lparr>srs_id = i, srs_result = event_result ev\<rparr>)) = Inr ev"
    by (simp add: rpc_result_success)
  with Cons show ?case by simp
qed simp

text \<open>How the end of the handler's stream arrives at the client.\<close>

definition stream_end_at_client :: "client_codec \<Rightarrow> unit await \<Rightarrow> unit await" where
  "stream_end_at_client cdc en =
     (case en of
        Done u \<Rightarrow> Done ()
      | Blocked \<Rightarrow> Blocked
      | Raised y \<Rightarrow>
          Raised (case y of
                    ServerError x \<Rightarrow> rpc_client_error cdc x
                  | _ \<Rightarrow> A2AClientHTTPError 503 ''Network communication error: incomplete chunked read''))"

lemma jt_stream_site:
  assumes "jt_interceptors t = []" and "je_http e = site_http site"
    and "reads_reply (je_codec e) site
           (Req_SendStreamingMessage \<lparr>ssr_id = IdStr (je_uuid e), ssr_params = params_of request\<rparr>) s"
    and "site_accepts (je_codec e) site
           (Req_SendStreamingMessage \<lparr>ssr_id = IdStr (je_uuid e), ssr_params = params_of request\<rparr>) call"
    and "streaming_supported (app_card (rs_app site))"
    and "rh_message_send_stream (rs_handler site) (params_of request) call s = ((evs, en), s')"
  shows "jt_send_message_streaming e request extensions (t, s) =
           ((evs, stream_end_at_client (je_codec e) en), t, s')"
proof -
  let ?req = "Req_SendStreamingMessage \<lparr>ssr_id = IdStr (je_uuid e), ssr_params = params_of request\<rparr>"
  let ?i = "IdStr (je_uuid e)"
  have reply: "site_reply site (cdc_dump (je_codec e) ?req) s =
      (Rpc_Stream (map (\<lambda>ev. Rsp_Success \<lparr>srs_id = Some ?i, srs_result = event_result ev\<rparr>) evs @
                   fst (stream_end_response ?i en))
         (snd (stream_end_response ?i en)) (extension_header (scc_activated_extensions call)), s')"
    using rpc_stream_reply [OF assms(4) [unfolded site_accepts_def] assms(5), of "rs_handler site" s evs en s'] assms(6)
    by (simp add: site_reply_def)
  have rb: "reads_back (je_codec e) site (map (\<lambda>ev. Rsp_Success \<lparr>srs_id = Some ?i, srs_result = event_result ev\<rparr>) evs)"
    "reads_back (je_codec e) site (fst (stream_end_response ?i en))"
    using assms(3) by (simp_all add: reads_reply_def reply)
  have stream: "read_sse (je_codec e) A2AClientJSONError
          (map (\<lambda>r. Inr (rs_dump site r)) (map (\<lambda>ev. Rsp_Success \<lparr>srs_id = Some ?i, srs_result = event_result ev\<rparr>) evs @ rest)) z =
        (evs @ fst (read_sse (je_codec e) A2AClientJSONError (map (\<lambda>r. Inr (rs_dump site r)) rest) z),
         snd (read_sse (je_codec e) A2AClientJSONError (map (\<lambda>r. Inr (rs_dump site r)) rest) z))" for rest z
    using read_sse_events [OF rb(1), of A2AClientJSONError "map (\<lambda>r. Inr (rs_dump site r)) rest" z]
    by (simp add: o_def)
  show ?thesis
  proof (cases "\<exists>x. en = Raised (ServerError x)")
    case True
    then obtain x where "en = Raised (ServerError x)" by blast
    with reply stream [of "[error_response ?i x]" Sse_Closed] assms(1,2) rb(2) show ?thesis
      by (simp add: jt_send_message_streaming_def jt_stream_params_def jt_payload_plain site_http_def stream_end_response_def
          stream_end_at_client_def is_success_def rpc_result_error)
  next
    case False
    then have "fst (stream_end_response ?i en) = []"
      by (auto simp: stream_end_response_def split: await.splits exn.splits)
    with reply stream [of "[]"] False assms(1,2) show ?thesis
      by (auto simp: jt_send_message_streaming_def jt_stream_params_def jt_payload_plain site_http_def stream_end_response_def
          stream_end_at_client_def is_success_def split: await.splits exn.splits)
  qed
qed

text \<open>
  Errors of streaming calls: an error while the stream is being opened is raised as the HTTP library's own
  exception, although the same failure of a unary call is an \<open>A2AClientHTTPError\<close> with status 503; an error
  status is raised with that status by \<open>send_message_streaming\<close>, and ignored by \<open>resubscribe\<close>, which reads the body
  as if it were a stream (a body of another content type is reported as status 400).
\<close>

theorem streaming_call_errors:
  assumes "jt_interceptors t = []" and "\<And>url payload kw. hc_stream (je_http e) url payload kw s = (outcome, s)"
  shows "(\<forall>x. outcome = Sse_Failed x \<longrightarrow>
            jt_send_message_streaming e request extensions (t, s) = (([], Raised x), t, s) \<and>
            jt_resubscribe e ids extensions (t, s) = (([], Raised x), t, s)) \<and>
         (\<forall>status tx items en. outcome = Sse_Opened status tx items en \<longrightarrow> \<not> is_success status \<longrightarrow>
            jt_send_message_streaming e request extensions (t, s) = (([], Raised (A2AClientHTTPError status tx)), t, s) \<and>
            jt_resubscribe e ids extensions (t, s) = (read_sse (je_codec e) (\<lambda>x. ValidationError) items en, t, s))"
  using assms by (auto simp: jt_send_message_streaming_def jt_stream_params_def jt_resubscribe_def jt_payload_plain Let_def)

subsection \<open>A sample site\<close>

definition sample_site :: "A2ARequest \<Rightarrow> unit rpc_site" where
  "sample_site req =
     \<lparr>rs_app = sample_app (Some True), rs_codec = sample_rpc_codec (request_method req) req, rs_handler = sample_rh,
      rs_activated = {}, rs_context = Inr default_call_context, rs_length = (\<lambda>v. None),
      rs_dump = (\<lambda>r. case r of Rsp_Success x \<Rightarrow> PyStr ''ok'' | Rsp_Error x \<Rightarrow> PyStr ''error'')\<rparr>"

text \<open>A codec that knows one success and one error response.\<close>

definition sample_client_codec :: "response \<Rightarrow> response \<Rightarrow> client_codec" where
  "sample_client_codec ok err =
     \<lparr>cdc_dump = (\<lambda>r. sample_body), cdc_read = (\<lambda>v. Inr (if v = PyStr ''ok'' then ok else err)), cdc_error_text = (\<lambda>e. []),
      cdc_error = id\<rparr>"

definition sample_jt_env :: "response \<Rightarrow> response \<Rightarrow> 's http_client \<Rightarrow> 's jt_env" where
  "sample_jt_env ok err hc =
     \<lparr>je_http = hc, je_codec = sample_client_codec ok err, je_card_codec = \<lparr>cdk_read = (\<lambda>v. Inl [])\<rparr>,
      je_uuid = ''u1'', je_context = None\<rparr>"

definition sample_jt :: "unit json_rpc_transport" where
  "sample_jt = \<lparr>jt_url = ''u'', jt_agent_card = None, jt_interceptors = [], jt_needs_extended_card = None, jt_extensions = None\<rparr>"

definition sample_sent :: sent_params where
  "sample_sent = \<lparr>sp_configuration = base_configuration sample_client_config, sp_message = sample_message, sp_metadata = None\<rparr>"

lemma sample_site_accepts:
  "request_method req \<in> set METHOD_TO_MODEL \<Longrightarrow>
   site_accepts (sample_client_codec ok err) (sample_site req) req (with_method (request_method req) default_call_context)"
  by (simp add: site_accepts_def accepted_def site_request_def sample_site_def sample_client_codec_def sample_rpc_codec_def
      sample_app_def allowed_content_length_def)

theorem message_over_json_rpc_witness:
  "jt_send_message (sample_jt_env (Rsp_Success \<lparr>srs_id = Some (IdStr ''u1''), srs_result = HR_Task sample_task\<rparr>)
        (error_response (IdStr ''u1'') None)
        (site_http (sample_site (Req_SendMessage \<lparr>smr_id = IdStr ''u1'', smr_params = params_of sample_sent\<rparr>))))
      sample_sent None (sample_jt, ()) = (Done (Inl sample_task), sample_jt, ())"
proof -
  let ?req = "Req_SendMessage \<lparr>smr_id = IdStr ''u1'', smr_params = params_of sample_sent\<rparr>"
  let ?ok = "Rsp_Success \<lparr>srs_id = Some (IdStr ''u1''), srs_result = HR_Task sample_task\<rparr>"
  let ?e = "sample_jt_env ?ok (error_response (IdStr ''u1'') None) (site_http (sample_site ?req))"
  have e: "je_uuid ?e = ''u1''" "je_http ?e = site_http (sample_site ?req)"
    "je_codec ?e = sample_client_codec ?ok (error_response (IdStr ''u1'') None)" by (simp_all add: sample_jt_env_def)
  have acc: "site_accepts (je_codec ?e) (sample_site ?req) ?req (with_method ''message/send'' default_call_context)"
    using sample_site_accepts [of ?req] by (simp add: e METHOD_TO_MODEL_def)
  have h: "rs_handler (sample_site ?req) = sample_rh" by (simp add: sample_site_def)
  have send: "rh_message_send sample_rh p call () = (Done (SR_Task sample_task), ())" for p call
    by (simp add: sample_rh_def)
  have "site_reply (sample_site ?req) (cdc_dump (je_codec ?e) ?req) () = (Rpc_Json ?ok (extension_header {}), ())"
    using rpc_send_reply [OF acc [unfolded site_accepts_def], of sample_rh "{}" "()"] send
    by (simp add: site_reply_def) (simp add: sample_site_def)
  then have "reads_reply (je_codec ?e) (sample_site ?req) ?req ()"
    by (simp add: reads_reply_def reads_one_def e) (simp add: sample_site_def sample_client_codec_def)
  from message_over_json_rpc [of sample_jt ?e "sample_site ?req" sample_sent "()" _ "Done (SR_Task sample_task)" "()" None,
      unfolded e(1), OF _ e(2) this acc] send h
  show ?thesis by (simp add: sample_jt_def)
qed

theorem streaming_call_errors_witness:
  "jt_send_message_streaming (sample_jt_env (error_response (IdStr ''u1'') None) (error_response (IdStr ''u1'') None)
        ((site_http (sample_site (Req_SendMessage \<lparr>smr_id = IdStr ''u1'', smr_params = params_of sample_sent\<rparr>)))
           \<lparr>hc_stream := \<lambda>url payload kw s. (Sse_Failed (OtherException ''ConnectError''), s)\<rparr>))
      sample_sent None (sample_jt, ()) = (([], Raised (OtherException ''ConnectError'')), sample_jt, ())"
  using streaming_call_errors [of sample_jt "sample_jt_env (error_response (IdStr ''u1'') None) (error_response (IdStr ''u1'') None)
        ((site_http (sample_site (Req_SendMessage \<lparr>smr_id = IdStr ''u1'', smr_params = params_of sample_sent\<rparr>)))
           \<lparr>hc_stream := \<lambda>url payload kw s. (Sse_Failed (OtherException ''ConnectError''), s)\<rparr>)" "()"
      "Sse_Failed (OtherException ''ConnectError'')" sample_sent None]
  by (simp add: sample_jt_def sample_jt_env_def)

end
