(* ===== verification/ProtoMessages.thy ===== *)
theory ProtoMessages
  imports A2A_Protocol Utils
begin

section \<open>Messages, tasks and events as protocol buffers (utils/proto_utils.py)\<close>

text \<open>
  The conversions \<open>ToProto\<close> and \<open>FromProto\<close> between the data model and the generated classes
  of \<open>a2a_pb2\<close>. A generated message is a record of its fields: an unset scalar is its
  default, an unset sub-message is read as the default message, a \<open>oneof\<close> is a datatype. A
  \<open>Struct\<close> is represented by the dictionary that \<open>MessageToDict\<close> renders, whose
  entries keep their order; what storing a value that is not a dictionary makes of it is
  protobuf's: the argument \<open>sv\<close>.
\<close>

subsection \<open>Dictionaries as structs\<close>

type_synonym struct_set = "pyval \<Rightarrow> exn + pyval"

function dict_to_struct :: "struct_set \<Rightarrow> pydict \<Rightarrow> exn + pydict" where
  "dict_to_struct sv [] = Inr []"
| "dict_to_struct sv ((key, val) # rest) =
     res_bind (case val of PyDict d \<Rightarrow> res_bind (dict_to_struct sv d) (\<lambda>x. Inr (PyDict x)) | _ \<Rightarrow> sv val)
       (\<lambda>v. res_bind (dict_to_struct sv rest) (\<lambda>r. Inr ((key, v) # r)))"
  by pat_completeness auto
termination by (relation "measure (\<lambda>(sv, d). size (PyDict d))") auto

text \<open>A dictionary that protobuf stores and renders unchanged.\<close>

definition struct_safe :: "struct_set \<Rightarrow> pydict \<Rightarrow> bool" where
  "struct_safe sv d \<longleftrightarrow> dict_to_struct sv d = Inr d"

definition metadata_safe :: "struct_set \<Rightarrow> pydict option \<Rightarrow> bool" where
  "metadata_safe sv md \<longleftrightarrow> (\<forall>d. md = Some d \<longrightarrow> struct_safe sv d)"

subsection \<open>The generated classes\<close>

datatype pb_TaskState =
    TASK_STATE_UNSPECIFIED | TASK_STATE_SUBMITTED | TASK_STATE_WORKING | TASK_STATE_COMPLETED | TASK_STATE_FAILED
  | TASK_STATE_CANCELLED | TASK_STATE_INPUT_REQUIRED | TASK_STATE_REJECTED | TASK_STATE_AUTH_REQUIRED

datatype pb_Role = ROLE_UNSPECIFIED | ROLE_USER | ROLE_AGENT

datatype pb_file = PF_Unset | PF_Uri string | PF_Bytes py_bytes

record pb_FilePart =
  pf_file :: pb_file
  pf_mime_type :: string
  pf_name :: string

datatype pb_part = PP_Unset | PP_Text string | PP_File pb_FilePart | PP_Data pydict

record pb_Part =
  pp_part :: pb_part
  pp_metadata :: pydict

record pb_Message =
  pm_message_id :: string
  pm_context_id :: string
  pm_task_id :: string
  pm_role :: pb_Role
  pm_content :: "pb_Part list"
  pm_metadata :: pydict
  pm_extensions :: "string list"

definition pb_Message_default :: pb_Message where
  "pb_Message_default = \<lparr>pm_message_id = [], pm_context_id = [], pm_task_id = [], pm_role = ROLE_UNSPECIFIED,
     pm_content = [], pm_metadata = [], pm_extensions = []\<rparr>"

record pb_Artifact =
  pa_artifact_id :: string
  pa_name :: string
  pa_description :: string
  pa_parts :: "pb_Part list"
  pa_metadata :: pydict
  pa_extensions :: "string list"

record pb_TaskStatus =
  ps_state :: pb_TaskState
  ps_update :: pb_Message

record pb_Task =
  pt_id :: string
  pt_context_id :: string
  pt_status :: pb_TaskStatus
  pt_artifacts :: "pb_Artifact list"
  pt_history :: "pb_Message list"
  pt_metadata :: pydict

record pb_TaskStatusUpdateEvent =
  psu_task_id :: string
  psu_context_id :: string
  psu_status :: pb_TaskStatus
  psu_final :: bool
  psu_metadata :: pydict

record pb_TaskArtifactUpdateEvent =
  pau_task_id :: string
  pau_context_id :: string
  pau_artifact :: pb_Artifact
  pau_append :: bool
  pau_last_chunk :: bool
  pau_metadata :: pydict

datatype pb_StreamResponse =
    SP_Unset | SP_Task pb_Task | SP_Msg pb_Message
  | SP_StatusUpdate pb_TaskStatusUpdateEvent | SP_ArtifactUpdate pb_TaskArtifactUpdateEvent

datatype pb_SendMessageResponse = SM_Unset | SM_Task pb_Task | SM_Msg pb_Message

subsection \<open>ToProto\<close>

definition to_metadata :: "struct_set \<Rightarrow> pydict option \<Rightarrow> exn + pydict" where
  "to_metadata sv md = (case md of None \<Rightarrow> Inr [] | Some d \<Rightarrow> dict_to_struct sv d)"

definition to_file :: "file_content \<Rightarrow> pb_FilePart" where
  "to_file f =
     (case f of
        FileUri u \<Rightarrow> \<lparr>pf_file = PF_Uri (fu_uri u), pf_mime_type = or_else (fu_mime_type u) [], pf_name = or_else (fu_name u) []\<rparr>
      | FileBytes b \<Rightarrow>
          \<lparr>pf_file = PF_Bytes (Utf8 (fb_bytes b)), pf_mime_type = or_else (fb_mime_type b) [],
           pf_name = or_else (fb_name b) []\<rparr>)"

definition to_part :: "struct_set \<Rightarrow> Part \<Rightarrow> exn + pb_Part" where
  "to_part sv p =
     (case p of
        Part_Text t \<Rightarrow>
          res_bind (to_metadata sv (tp_metadata t)) (\<lambda>md. Inr \<lparr>pp_part = PP_Text (tp_text t), pp_metadata = md\<rparr>)
      | Part_File f \<Rightarrow>
          res_bind (to_metadata sv (fp_metadata f)) (\<lambda>md. Inr \<lparr>pp_part = PP_File (to_file (fp_file f)), pp_metadata = md\<rparr>)
      | Part_Data d \<Rightarrow>
          res_bind (dict_to_struct sv (dp_data d)) (\<lambda>x.
            res_bind (to_metadata sv (dp_metadata d)) (\<lambda>md. Inr \<lparr>pp_part = PP_Data x, pp_metadata = md\<rparr>)))"

fun to_role :: "Role \<Rightarrow> pb_Role" where
  "to_role user = ROLE_USER"
| "to_role agent = ROLE_AGENT"

definition to_message :: "struct_set \<Rightarrow> Message \<Rightarrow> exn + pb_Message" where
  "to_message sv m =
     res_bind (res_map (to_part sv) (msg_parts m)) (\<lambda>content.
     res_bind (to_metadata sv (msg_metadata m)) (\<lambda>md.
       Inr \<lparr>pm_message_id = msg_message_id m, pm_context_id = or_else (msg_context_id m) [],
            pm_task_id = or_else (msg_task_id m) [], pm_role = to_role (msg_role m), pm_content = content,
            pm_metadata = md, pm_extensions = or_else (msg_extensions m) []\<rparr>))"

fun to_task_state :: "TaskState \<Rightarrow> pb_TaskState" where
  "to_task_state submitted = TASK_STATE_SUBMITTED"
| "to_task_state working = TASK_STATE_WORKING"
| "to_task_state completed = TASK_STATE_COMPLETED"
| "to_task_state canceled = TASK_STATE_CANCELLED"
| "to_task_state failed = TASK_STATE_FAILED"
| "to_task_state input_required = TASK_STATE_INPUT_REQUIRED"
| "to_task_state auth_required = TASK_STATE_AUTH_REQUIRED"
| "to_task_state st = TASK_STATE_UNSPECIFIED"

definition to_task_status :: "struct_set \<Rightarrow> TaskStatus \<Rightarrow> exn + pb_TaskStatus" where
  "to_task_status sv st =
     res_bind (res_option (to_message sv) (status_message st)) (\<lambda>m.
       Inr \<lparr>ps_state = to_task_state (status_state st),
            ps_update = (case m of None \<Rightarrow> pb_Message_default | Some x \<Rightarrow> x)\<rparr>)"

definition to_artifact :: "struct_set \<Rightarrow> Artifact \<Rightarrow> exn + pb_Artifact" where
  "to_artifact sv a =
     res_bind (to_metadata sv (art_metadata a)) (\<lambda>md.
     res_bind (res_map (to_part sv) (art_parts a)) (\<lambda>parts.
       Inr \<lparr>pa_artifact_id = art_artifact_id a, pa_name = or_else (art_name a) [],
            pa_description = or_else (art_description a) [], pa_parts = parts, pa_metadata = md,
            pa_extensions = or_else (art_extensions a) []\<rparr>))"

definition to_task :: "struct_set \<Rightarrow> Task \<Rightarrow> exn + pb_Task" where
  "to_task sv t =
     res_bind (to_task_status sv (task_status t)) (\<lambda>st.
     res_bind (res_map (to_artifact sv) (or_else (task_artifacts t) [])) (\<lambda>artifacts.
     res_bind (res_map (to_message sv) (or_else (task_history t) [])) (\<lambda>history.
     res_bind (to_metadata sv (task_metadata t)) (\<lambda>md.
       Inr \<lparr>pt_id = task_id t, pt_context_id = task_context_id t, pt_status = st, pt_artifacts = artifacts,
            pt_history = history, pt_metadata = md\<rparr>))))"

definition to_artifact_update :: "struct_set \<Rightarrow> TaskArtifactUpdateEvent \<Rightarrow> exn + pb_TaskArtifactUpdateEvent" where
  "to_artifact_update sv e =
     res_bind (to_artifact sv (aue_artifact e)) (\<lambda>a.
     res_bind (to_metadata sv (aue_metadata e)) (\<lambda>md.
       Inr \<lparr>pau_task_id = aue_task_id e, pau_context_id = aue_context_id e, pau_artifact = a,
            pau_append = (aue_append e = Some True), pau_last_chunk = (aue_last_chunk e = Some True),
            pau_metadata = md\<rparr>))"

definition to_status_update :: "struct_set \<Rightarrow> TaskStatusUpdateEvent \<Rightarrow> exn + pb_TaskStatusUpdateEvent" where
  "to_status_update sv e =
     res_bind (to_task_status sv (sue_status e)) (\<lambda>st.
     res_bind (to_metadata sv (sue_metadata e)) (\<lambda>md.
       Inr \<lparr>psu_task_id = sue_task_id e, psu_context_id = sue_context_id e, psu_status = st,
            psu_final = sue_final e, psu_metadata = md\<rparr>))"

definition to_stream_response :: "struct_set \<Rightarrow> Event \<Rightarrow> exn + pb_StreamResponse" where
  "to_stream_response sv ev =
     (case ev of
        EvMessage m \<Rightarrow> map_sum id SP_Msg (to_message sv m)
      | EvTask t \<Rightarrow> map_sum id SP_Task (to_task sv t)
      | EvStatus e \<Rightarrow> map_sum id SP_StatusUpdate (to_status_update sv e)
      | EvArtifact e \<Rightarrow> map_sum id SP_ArtifactUpdate (to_artifact_update sv e))"

text \<open>\<open>task_or_message\<close>: anything that is not a message is taken for a task.\<close>

definition to_task_or_message :: "struct_set \<Rightarrow> Task + Message \<Rightarrow> exn + pb_SendMessageResponse" where
  "to_task_or_message sv r =
     (case r of Inr m \<Rightarrow> map_sum id SM_Msg (to_message sv m) | Inl t \<Rightarrow> map_sum id SM_Task (to_task sv t))"

subsection \<open>FromProto\<close>

text \<open>
  \<open>metadata\<close>: an unset struct is an empty one. The part conversions test \<open>if part.metadata\<close>, which is
  false for an empty struct.
\<close>

definition of_metadata :: "pydict \<Rightarrow> pydict" where
  "of_metadata md = (if md = [] then [] else md)"

definition of_part_metadata :: "pydict \<Rightarrow> pydict option" where
  "of_part_metadata md = (if md \<noteq> [] then Some (of_metadata md) else None)"

definition of_file :: "pb_FilePart \<Rightarrow> exn + file_content" where
  "of_file f =
     (case pf_file f of
        PF_Uri u \<Rightarrow> Inr (FileUri \<lparr>fu_mime_type = or_None (pf_mime_type f), fu_name = or_None (pf_name f), fu_uri = u\<rparr>)
      | PF_Bytes (Utf8 b) \<Rightarrow>
          Inr (FileBytes \<lparr>fb_bytes = b, fb_mime_type = or_None (pf_mime_type f), fb_name = or_None (pf_name f)\<rparr>)
      | PF_Bytes NotUtf8 \<Rightarrow> Inl (ValueErr ''invalid utf-8'')
      | PF_Unset \<Rightarrow>
          Inr (FileBytes \<lparr>fb_bytes = [], fb_mime_type = or_None (pf_mime_type f), fb_name = or_None (pf_name f)\<rparr>))"

definition of_part :: "pb_Part \<Rightarrow> exn + Part" where
  "of_part p =
     (case pp_part p of
        PP_Text t \<Rightarrow> Inr (Part_Text \<lparr>tp_metadata = of_part_metadata (pp_metadata p), tp_text = t\<rparr>)
      | PP_File f \<Rightarrow>
          res_bind (of_file f) (\<lambda>x. Inr (Part_File \<lparr>fp_file = x, fp_metadata = of_part_metadata (pp_metadata p)\<rparr>))
      | PP_Data d \<Rightarrow> Inr (Part_Data \<lparr>dp_data = d, dp_metadata = of_part_metadata (pp_metadata p)\<rparr>)
      | PP_Unset \<Rightarrow> Inl (ValueErr ''Unsupported part type''))"

fun of_role :: "pb_Role \<Rightarrow> Role" where
  "of_role ROLE_USER = user"
| "of_role ROLE_AGENT = agent"
| "of_role r = agent"

definition of_message :: "pb_Message \<Rightarrow> exn + Message" where
  "of_message m =
     res_bind (res_map of_part (pm_content m)) (\<lambda>parts.
       Inr \<lparr>msg_context_id = or_None (pm_context_id m), msg_extensions = or_None (pm_extensions m),
            msg_message_id = pm_message_id m, msg_metadata = Some (of_metadata (pm_metadata m)), msg_parts = parts,
            msg_reference_task_ids = None, msg_role = of_role (pm_role m), msg_task_id = or_None (pm_task_id m)\<rparr>)"

fun of_task_state :: "pb_TaskState \<Rightarrow> TaskState" where
  "of_task_state TASK_STATE_SUBMITTED = submitted"
| "of_task_state TASK_STATE_WORKING = working"
| "of_task_state TASK_STATE_COMPLETED = completed"
| "of_task_state TASK_STATE_CANCELLED = canceled"
| "of_task_state TASK_STATE_FAILED = failed"
| "of_task_state TASK_STATE_INPUT_REQUIRED = input_required"
| "of_task_state TASK_STATE_AUTH_REQUIRED = auth_required"
| "of_task_state st = unknown"

definition of_task_status :: "pb_TaskStatus \<Rightarrow> exn + TaskStatus" where
  "of_task_status st =
     res_bind (of_message (ps_update st)) (\<lambda>m.
       Inr \<lparr>status_message = Some m, status_state = of_task_state (ps_state st), status_timestamp = None\<rparr>)"

definition of_artifact :: "pb_Artifact \<Rightarrow> exn + Artifact" where
  "of_artifact a =
     res_bind (res_map of_part (pa_parts a)) (\<lambda>parts.
       Inr \<lparr>art_artifact_id = pa_artifact_id a, art_description = Some (pa_description a),
            art_extensions = or_None (pa_extensions a), art_metadata = Some (of_metadata (pa_metadata a)),
            art_name = Some (pa_name a), art_parts = parts\<rparr>)"

definition of_task :: "pb_Task \<Rightarrow> exn + Task" where
  "of_task t =
     res_bind (of_task_status (pt_status t)) (\<lambda>st.
     res_bind (res_map of_artifact (pt_artifacts t)) (\<lambda>artifacts.
     res_bind (res_map of_message (pt_history t)) (\<lambda>history.
       Inr \<lparr>task_artifacts = Some artifacts, task_context_id = pt_context_id t, task_history = Some history,
            task_id = pt_id t, task_metadata = Some (of_metadata (pt_metadata t)), task_status = st\<rparr>)))"

definition of_artifact_update :: "pb_TaskArtifactUpdateEvent \<Rightarrow> exn + TaskArtifactUpdateEvent" where
  "of_artifact_update e =
     res_bind (of_artifact (pau_artifact e)) (\<lambda>a.
       Inr \<lparr>aue_append = Some (pau_append e), aue_artifact = a, aue_context_id = pau_context_id e,
            aue_last_chunk = Some (pau_last_chunk e), aue_metadata = Some (of_metadata (pau_metadata e)),
            aue_task_id = pau_task_id e\<rparr>)"

definition of_status_update :: "pb_TaskStatusUpdateEvent \<Rightarrow> exn + TaskStatusUpdateEvent" where
  "of_status_update e =
     res_bind (of_task_status (psu_status e)) (\<lambda>st.
       Inr \<lparr>sue_context_id = psu_context_id e, sue_final = psu_final e,
            sue_metadata = Some (of_metadata (psu_metadata e)), sue_status = st, sue_task_id = psu_task_id e\<rparr>)"

definition of_stream_response :: "pb_StreamResponse \<Rightarrow> exn + Event" where
  "of_stream_response r =
     (case r of
        SP_Msg m \<Rightarrow> map_sum id EvMessage (of_message m)
      | SP_Task t \<Rightarrow> map_sum id EvTask (of_task t)
      | SP_StatusUpdate e \<Rightarrow> map_sum id EvStatus (of_status_update e)
      | SP_ArtifactUpdate e \<Rightarrow> map_sum id EvArtifact (of_artifact_update e)
      | SP_Unset \<Rightarrow> Inl (ValueErr ''Unsupported StreamResponse type''))"

definition pb_Task_default :: pb_Task where
  "pb_Task_default = \<lparr>pt_id = [], pt_context_id = [],
     pt_status = \<lparr>ps_state = TASK_STATE_UNSPECIFIED, ps_update = pb_Message_default\<rparr>,
     pt_artifacts = [], pt_history = [], pt_metadata = []\<rparr>"

definition of_task_or_message :: "pb_SendMessageResponse \<Rightarrow> exn + (Task + Message)" where
  "of_task_or_message r =
     (case r of
        SM_Msg m \<Rightarrow> map_sum id Inr (of_message m)
      | SM_Task t \<Rightarrow> map_sum id Inl (of_task t)
      | SM_Unset \<Rightarrow> map_sum id Inl (of_task pb_Task_default))"

subsection \<open>The normal form of a round trip\<close>

text \<open>
  What is left of a value that went through protocol buffers: empty and missing strings,
  lists and dictionaries are identified, and what the messages have no field for is lost.
\<close>

definition norm_metadata :: "pydict option \<Rightarrow> pydict option" where
  "norm_metadata md = Some (case md of None \<Rightarrow> [] | Some d \<Rightarrow> d)"

definition norm_part_metadata :: "pydict option \<Rightarrow> pydict option" where
  "norm_part_metadata md = (case md of Some [] \<Rightarrow> None | _ \<Rightarrow> md)"

definition none_if_empty :: "'a list option \<Rightarrow> 'a list option" where
  "none_if_empty x = (if truthy x then x else None)"

definition norm_file :: "file_content \<Rightarrow> file_content" where
  "norm_file f =
     (case f of
        FileUri u \<Rightarrow> FileUri (u\<lparr>fu_mime_type := none_if_empty (fu_mime_type u), fu_name := none_if_empty (fu_name u)\<rparr>)
      | FileBytes b \<Rightarrow>
          FileBytes (b\<lparr>fb_mime_type := none_if_empty (fb_mime_type b), fb_name := none_if_empty (fb_name b)\<rparr>))"

definition norm_part :: "Part \<Rightarrow> Part" where
  "norm_part p =
     (case p of
        Part_Text t \<Rightarrow> Part_Text (t\<lparr>tp_metadata := norm_part_metadata (tp_metadata t)\<rparr>)
      | Part_File f \<Rightarrow>
          Part_File (f\<lparr>fp_file := norm_file (fp_file f), fp_metadata := norm_part_metadata (fp_metadata f)\<rparr>)
      | Part_Data d \<Rightarrow> Part_Data (d\<lparr>dp_metadata := norm_part_metadata (dp_metadata d)\<rparr>))"

definition norm_message :: "Message \<Rightarrow> Message" where
  "norm_message m =
     m\<lparr>msg_context_id := none_if_empty (msg_context_id m), msg_extensions := none_if_empty (msg_extensions m),
       msg_metadata := norm_metadata (msg_metadata m), msg_parts := map norm_part (msg_parts m),
       msg_reference_task_ids := None, msg_task_id := none_if_empty (msg_task_id m)\<rparr>"

text \<open>The message that stands for no message.\<close>

definition empty_message :: Message where
  "empty_message = \<lparr>msg_context_id = None, msg_extensions = None, msg_message_id = [], msg_metadata = Some [],
     msg_parts = [], msg_reference_task_ids = None, msg_role = agent, msg_task_id = None\<rparr>"

definition norm_state :: "TaskState \<Rightarrow> TaskState" where
  "norm_state st = (if st = rejected then unknown else st)"

definition norm_status :: "TaskStatus \<Rightarrow> TaskStatus" where
  "norm_status st =
     \<lparr>status_message = Some (case status_message st of None \<Rightarrow> empty_message | Some m \<Rightarrow> norm_message m),
      status_state = norm_state (status_state st), status_timestamp = None\<rparr>"

definition norm_artifact :: "Artifact \<Rightarrow> Artifact" where
  "norm_artifact a =
     a\<lparr>art_description := Some (or_else (art_description a) []), art_extensions := none_if_empty (art_extensions a),
       art_metadata := norm_metadata (art_metadata a), art_name := Some (or_else (art_name a) []),
       art_parts := map norm_part (art_parts a)\<rparr>"

definition norm_task :: "Task \<Rightarrow> Task" where
  "norm_task t =
     t\<lparr>task_artifacts := Some (map norm_artifact (or_else (task_artifacts t) [])),
       task_history := Some (map norm_message (or_else (task_history t) [])),
       task_metadata := norm_metadata (task_metadata t), task_status := norm_status (task_status t)\<rparr>"

definition norm_status_update :: "TaskStatusUpdateEvent \<Rightarrow> TaskStatusUpdateEvent" where
  "norm_status_update e =
     e\<lparr>sue_metadata := norm_metadata (sue_metadata e), sue_status := norm_status (sue_status e)\<rparr>"

definition norm_artifact_update :: "TaskArtifactUpdateEvent \<Rightarrow> TaskArtifactUpdateEvent" where
  "norm_artifact_update e =
     e\<lparr>aue_append := Some (aue_append e = Some True), aue_last_chunk := Some (aue_last_chunk e = Some True),
       aue_artifact := norm_artifact (aue_artifact e), aue_metadata := norm_metadata (aue_metadata e)\<rparr>"

fun norm_event :: "Event \<Rightarrow> Event" where
  "norm_event (EvMessage m) = EvMessage (norm_message m)"
| "norm_event (EvTask t) = EvTask (norm_task t)"
| "norm_event (EvStatus e) = EvStatus (norm_status_update e)"
| "norm_event (EvArtifact e) = EvArtifact (norm_artifact_update e)"

text \<open>Every dictionary of the event is one that protobuf keeps.\<close>

fun part_safe :: "struct_set \<Rightarrow> Part \<Rightarrow> bool" where
  "part_safe sv (Part_Text t) \<longleftrightarrow> metadata_safe sv (tp_metadata t)"
| "part_safe sv (Part_File f) \<longleftrightarrow> metadata_safe sv (fp_metadata f)"
| "part_safe sv (Part_Data d) \<longleftrightarrow> metadata_safe sv (dp_metadata d) \<and> struct_safe sv (dp_data d)"

definition message_safe :: "struct_set \<Rightarrow> Message \<Rightarrow> bool" where
  "message_safe sv m \<longleftrightarrow> metadata_safe sv (msg_metadata m) \<and> list_all (part_safe sv) (msg_parts m)"

definition status_safe :: "struct_set \<Rightarrow> TaskStatus \<Rightarrow> bool" where
  "status_safe sv st \<longleftrightarrow> (\<forall>m. status_message st = Some m \<longrightarrow> message_safe sv m)"

definition artifact_safe :: "struct_set \<Rightarrow> Artifact \<Rightarrow> bool" where
  "artifact_safe sv a \<longleftrightarrow> metadata_safe sv (art_metadata a) \<and> list_all (part_safe sv) (art_parts a)"

definition task_safe :: "struct_set \<Rightarrow> Task \<Rightarrow> bool" where
  "task_safe sv t \<longleftrightarrow> status_safe sv (task_status t) \<and> list_all (artifact_safe sv) (or_else (task_artifacts t) []) \<and>
     list_all (message_safe sv) (or_else (task_history t) []) \<and> metadata_safe sv (task_metadata t)"

fun event_safe :: "struct_set \<Rightarrow> Event \<Rightarrow> bool" where
  "event_safe sv (EvMessage m) \<longleftrightarrow> message_safe sv m"
| "event_safe sv (EvTask t) \<longleftrightarrow> task_safe sv t"
| "event_safe sv (EvStatus e) \<longleftrightarrow> status_safe sv (sue_status e) \<and> metadata_safe sv (sue_metadata e)"
| "event_safe sv (EvArtifact e) \<longleftrightarrow> artifact_safe sv (aue_artifact e) \<and> metadata_safe sv (aue_metadata e)"

subsection \<open>Round trips\<close>

lemma to_metadata_safe: "metadata_safe sv md \<Longrightarrow> to_metadata sv md = Inr (case md of None \<Rightarrow> [] | Some d \<Rightarrow> d)"
  by (auto simp: to_metadata_def metadata_safe_def struct_safe_def split: option.splits)

lemma of_metadata_simp [simp]: "of_metadata md = md"
  by (simp add: of_metadata_def)

lemma none_if_empty_simp: "or_None (or_else x []) = none_if_empty x"
  by (simp add: none_if_empty_def)

lemma of_part_metadata_norm: "of_part_metadata (case md of None \<Rightarrow> [] | Some d \<Rightarrow> d) = norm_part_metadata md"
  by (auto simp: of_part_metadata_def norm_part_metadata_def split: option.splits list.splits)

lemma file_roundtrip: "of_file (to_file f) = Inr (norm_file f)"
  by (cases f) (simp_all add: of_file_def to_file_def norm_file_def none_if_empty_simp del: or_None_or_else)

lemma part_roundtrip:
  assumes "part_safe sv p" shows "\<exists>b. to_part sv p = Inr b \<and> of_part b = Inr (norm_part p)"
  using assms
  by (cases p)
     (auto simp: to_part_def of_part_def norm_part_def to_metadata_safe of_part_metadata_norm file_roundtrip struct_safe_def)

lemma parts_roundtrip:
  "list_all (part_safe sv) ps \<Longrightarrow>
   \<exists>bs. res_map (to_part sv) ps = Inr bs \<and> res_map of_part bs = Inr (map norm_part ps)"
  by (rule res_map_roundtrip) (simp add: list_all_iff part_roundtrip)

lemma of_to_role [simp]: "of_role (to_role r) = r"
  by (cases r) simp_all

lemma message_roundtrip:
  assumes "message_safe sv m" shows "\<exists>b. to_message sv m = Inr b \<and> of_message b = Inr (norm_message m)"
proof -
  obtain bs where "res_map (to_part sv) (msg_parts m) = Inr bs" "res_map of_part bs = Inr (map norm_part (msg_parts m))"
    using parts_roundtrip assms by (auto simp: message_safe_def)
  with assms show ?thesis
    by (auto simp: to_message_def of_message_def message_safe_def to_metadata_safe norm_message_def norm_metadata_def
        none_if_empty_simp simp del: or_None_or_else)
qed

lemma messages_roundtrip:
  "list_all (message_safe sv) ms \<Longrightarrow>
   \<exists>bs. res_map (to_message sv) ms = Inr bs \<and> res_map of_message bs = Inr (map norm_message ms)"
  by (rule res_map_roundtrip) (simp add: list_all_iff message_roundtrip)

lemma of_to_task_state [simp]: "of_task_state (to_task_state st) = norm_state st"
  by (cases st) (simp_all add: norm_state_def)

lemma of_default_message: "of_message pb_Message_default = Inr empty_message"
  by (simp add: of_message_def pb_Message_default_def empty_message_def)

lemma status_roundtrip:
  assumes "status_safe sv st" shows "\<exists>b. to_task_status sv st = Inr b \<and> of_task_status b = Inr (norm_status st)"
proof (cases "status_message st")
  case None
  then show ?thesis by (simp add: to_task_status_def of_task_status_def norm_status_def of_default_message)
next
  case (Some m)
  with assms message_roundtrip [of sv m] show ?thesis
    by (auto simp: to_task_status_def of_task_status_def norm_status_def status_safe_def)
qed

lemma artifact_roundtrip:
  assumes "artifact_safe sv a" shows "\<exists>b. to_artifact sv a = Inr b \<and> of_artifact b = Inr (norm_artifact a)"
proof -
  obtain bs where "res_map (to_part sv) (art_parts a) = Inr bs" "res_map of_part bs = Inr (map norm_part (art_parts a))"
    using parts_roundtrip assms by (auto simp: artifact_safe_def)
  with assms show ?thesis
    by (auto simp: to_artifact_def of_artifact_def artifact_safe_def to_metadata_safe norm_artifact_def norm_metadata_def
        none_if_empty_simp simp del: or_None_or_else)
qed

lemma task_roundtrip:
  assumes "task_safe sv t" shows "\<exists>b. to_task sv t = Inr b \<and> of_task b = Inr (norm_task t)"
proof -
  obtain st where "to_task_status sv (task_status t) = Inr st" "of_task_status st = Inr (norm_status (task_status t))"
    using status_roundtrip assms by (auto simp: task_safe_def)
  moreover obtain as where "res_map (to_artifact sv) (or_else (task_artifacts t) []) = Inr as"
      "res_map of_artifact as = Inr (map norm_artifact (or_else (task_artifacts t) []))"
    using res_map_roundtrip [of "or_else (task_artifacts t) []" "to_artifact sv" of_artifact norm_artifact]
      assms artifact_roundtrip by (auto simp: task_safe_def list_all_iff)
  moreover obtain ms where "res_map (to_message sv) (or_else (task_history t) []) = Inr ms"
      "res_map of_message ms = Inr (map norm_message (or_else (task_history t) []))"
    using messages_roundtrip assms by (auto simp: task_safe_def)
  ultimately show ?thesis
    using assms by (simp add: to_task_def of_task_def norm_task_def norm_metadata_def task_safe_def to_metadata_safe)
qed

lemma norm_idempotent [simp]:
  "norm_metadata (norm_metadata md) = norm_metadata md"
  "norm_part_metadata (norm_part_metadata md) = norm_part_metadata md"
  "none_if_empty (none_if_empty x) = none_if_empty x"
  "norm_state (norm_state st) = norm_state st"
  by (auto simp: norm_metadata_def norm_part_metadata_def none_if_empty_def norm_state_def split: option.splits list.splits)

lemma norm_file_idempotent [simp]: "norm_file (norm_file f) = norm_file f"
  by (cases f) (simp_all add: norm_file_def)

lemma norm_part_idempotent [simp]: "norm_part (norm_part p) = norm_part p"
  by (cases p) (simp_all add: norm_part_def)

lemma norm_message_idempotent [simp]: "norm_message (norm_message m) = norm_message m"
  by (simp add: norm_message_def)

lemma norm_empty_message [simp]: "norm_message empty_message = empty_message"
  by (simp add: norm_message_def empty_message_def norm_metadata_def none_if_empty_def)

lemma norm_status_idempotent [simp]: "norm_status (norm_status st) = norm_status st"
  by (cases "status_message st") (simp_all add: norm_status_def)

lemma or_else_Some [simp]: "or_else (Some xs) [] = xs"
  by (cases xs) simp_all

lemma norm_artifact_idempotent [simp]: "norm_artifact (norm_artifact a) = norm_artifact a"
  by (simp add: norm_artifact_def)

lemma norm_task_idempotent [simp]: "norm_task (norm_task t) = norm_task t"
  by (simp add: norm_task_def o_def)

lemma stream_response_roundtrip:
  assumes "event_safe sv ev"
  shows "\<exists>b. to_stream_response sv ev = Inr b \<and> of_stream_response b = Inr (norm_event ev)"
proof (cases ev)
  case (EvMessage m)
  with assms message_roundtrip [of sv m] show ?thesis
    by (auto simp: to_stream_response_def of_stream_response_def)
next
  case (EvTask t)
  with assms task_roundtrip [of sv t] show ?thesis
    by (auto simp: to_stream_response_def of_stream_response_def)
next
  case (EvStatus e)
  with assms status_roundtrip [of sv "sue_status e"] show ?thesis
    by (auto simp: to_stream_response_def of_stream_response_def to_status_update_def of_status_update_def
        to_metadata_safe norm_status_update_def norm_metadata_def)
next
  case (EvArtifact e)
  with assms artifact_roundtrip [of sv "aue_artifact e"] show ?thesis
    by (auto simp: to_stream_response_def of_stream_response_def to_artifact_update_def of_artifact_update_def
        to_metadata_safe norm_artifact_update_def norm_metadata_def)
qed

lemma norm_event_idempotent: "norm_event (norm_event ev) = norm_event ev"
  by (cases ev) (simp_all add: norm_status_update_def norm_artifact_update_def)

text \<open>
  Claim C25. An event that goes through protocol buffers arrives as its normal form, for every event whose
  dictionaries protobuf keeps: nothing raises, and a second trip changes nothing. The normal form loses the
  reference task ids and timestamps, turns \<open>rejected\<close> into \<open>unknown\<close>, and identifies missing with empty values.
\<close>

theorem event_proto_roundtrip:
  assumes "event_safe sv ev"
  shows "\<exists>b. to_stream_response sv ev = Inr b \<and> of_stream_response b = Inr (norm_event ev) \<and>
             norm_event (norm_event ev) = norm_event ev"
  using stream_response_roundtrip [OF assms] norm_event_idempotent by blast

theorem event_proto_roundtrip_witness:
  "\<exists>b. to_stream_response (\<lambda>v. Inr v) (EvTask (sample_task\<lparr>task_metadata := Some [(''k'', PyDict [(''a'', PyBool True)])]\<rparr>)) = Inr b \<and>
     of_stream_response b = Inr (norm_event (EvTask (sample_task\<lparr>task_metadata := Some [(''k'', PyDict [(''a'', PyBool True)])]\<rparr>)))"
  using event_proto_roundtrip [of "\<lambda>v. Inr v" "EvTask (sample_task\<lparr>task_metadata := Some [(''k'', PyDict [(''a'', PyBool True)])]\<rparr>)"]
  by (auto simp: sample_task_def plain_status_def task_safe_def status_safe_def metadata_safe_def struct_safe_def)

text \<open>
  Over gRPC and REST a rejected task arrives in the state \<open>unknown\<close>, although the protocol
  buffers have a state for it, and a status without a message arrives with a message of the agent that has no id
  and no parts; every other state arrives as it is.
\<close>

theorem rejected_arrives_unknown:
  assumes "to_task sv t = Inr b" and "of_task b = Inr t'"
  shows "status_state (task_status t') = (if status_state (task_status t) = rejected then unknown
                                          else status_state (task_status t)) \<and>
         (status_message (task_status t) = None \<longrightarrow> status_message (task_status t') = Some empty_message) \<and>
         status_timestamp (task_status t') = None"
  using assms
  by (auto simp: to_task_def of_task_def res_bind_Inr_iff to_task_status_def of_task_status_def norm_state_def
      of_default_message)

theorem rejected_arrives_unknown_witness:
  "\<exists>b t'. to_task (\<lambda>v. Inr v) (sample_task\<lparr>task_status := (task_status sample_task)\<lparr>status_state := rejected\<rparr>\<rparr>) = Inr b \<and>
      of_task b = Inr t' \<and> status_state (task_status t') = unknown"
proof -
  let ?t = "sample_task\<lparr>task_status := (task_status sample_task)\<lparr>status_state := rejected\<rparr>\<rparr>"
  have "task_safe (\<lambda>v. Inr v) ?t"
    by (simp add: sample_task_def plain_status_def task_safe_def status_safe_def metadata_safe_def)
  from task_roundtrip [OF this] obtain b where b: "to_task (\<lambda>v. Inr v) ?t = Inr b" "of_task b = Inr (norm_task ?t)" by blast
  from rejected_arrives_unknown [OF b] b show ?thesis by auto
qed

end
