(* ===== verification/ProtoRequests.thy ===== *)
theory ProtoRequests
  imports ProtoMessages HandlerInterface
begin

section \<open>Requests and push configurations as protocol buffers (utils/proto_utils.py)\<close>

text \<open>
  The request messages of the gRPC and REST services, their resource names (\<open>tasks/{id}\<close>, matched
  by regular expressions in the code) and the push notification configurations.
\<close>

subsection \<open>Resource names\<close>

text \<open>\<open>re.compile(r'tasks/([^/]+)').match\<close>: a prefix match; the group is the id.\<close>

definition tasks_prefix :: string where
  "tasks_prefix = ''tasks/''"

definition push_infix :: string where
  "push_infix = ''/pushNotificationConfigs/''"

definition segment :: "string \<Rightarrow> string" where
  "segment s = takeWhile (\<lambda>c. c \<noteq> CHR ''/'') s"

definition after_segment :: "string \<Rightarrow> string" where
  "after_segment s = dropWhile (\<lambda>c. c \<noteq> CHR ''/'') s"

definition task_name_match :: "string \<Rightarrow> string option" where
  "task_name_match name =
     (if take 6 name = tasks_prefix \<and> segment (drop 6 name) \<noteq> [] then Some (segment (drop 6 name)) else None)"

definition push_name_match :: "string \<Rightarrow> (string \<times> string) option" where
  "push_name_match name =
     (case task_name_match name of
        None \<Rightarrow> None
      | Some i \<Rightarrow>
          let rest = after_segment (drop 6 name); n = length push_infix
          in if take n rest = push_infix \<and> segment (drop n rest) \<noteq> [] then Some (i, segment (drop n rest)) else None)"

subsection \<open>The generated request classes\<close>

record pb_AuthenticationInfo =
  pai_schemes :: "string list"
  pai_credentials :: string

record pb_PushNotificationConfig =
  ppc_id :: string
  ppc_url :: string
  ppc_token :: string
  ppc_authentication :: "pb_AuthenticationInfo option"

definition pb_PushNotificationConfig_default :: pb_PushNotificationConfig where
  "pb_PushNotificationConfig_default = \<lparr>ppc_id = [], ppc_url = [], ppc_token = [], ppc_authentication = None\<rparr>"

record pb_TaskPushNotificationConfig =
  ptc_name :: string
  ptc_push_notification_config :: pb_PushNotificationConfig

record pb_SendMessageConfiguration =
  pmc_accepted_output_modes :: "string list"
  pmc_push_notification :: "pb_PushNotificationConfig option"
  pmc_history_length :: int
  pmc_blocking :: bool

definition pb_SendMessageConfiguration_default :: pb_SendMessageConfiguration where
  "pb_SendMessageConfiguration_default = \<lparr>pmc_accepted_output_modes = [], pmc_push_notification = None,
     pmc_history_length = 0, pmc_blocking = False\<rparr>"

record pb_SendMessageRequest =
  psr_request :: pb_Message
  psr_configuration :: pb_SendMessageConfiguration
  psr_metadata :: pydict

record pb_GetTaskRequest =
  pgt_name :: string
  pgt_history_length :: int

text \<open>The requests that have only a name: cancel, subscribe, and get a push configuration.\<close>

datatype pb_named_request =
    PN_CancelTask string
  | PN_TaskSubscription string
  | PN_GetPushConfig string

record pb_CreateTaskPushNotificationConfigRequest =
  pcr_parent :: string
  pcr_config_id :: string
  pcr_config :: pb_TaskPushNotificationConfig

subsection \<open>ToProto\<close>

definition to_authentication :: "PushNotificationAuthenticationInfo \<Rightarrow> pb_AuthenticationInfo" where
  "to_authentication a = \<lparr>pai_schemes = pna_schemes a, pai_credentials = or_else (pna_credentials a) []\<rparr>"

definition to_push_config :: "PushNotificationConfig \<Rightarrow> pb_PushNotificationConfig" where
  "to_push_config c =
     \<lparr>ppc_id = or_else (pnc_id c) [], ppc_url = pnc_url c, ppc_token = or_else (pnc_token c) [],
      ppc_authentication = map_option to_authentication (pnc_authentication c)\<rparr>"

text \<open>The f-string renders a missing id as \<open>None\<close>.\<close>

definition str_of_option :: "string option \<Rightarrow> string" where
  "str_of_option x = (case x of None \<Rightarrow> ''None'' | Some s \<Rightarrow> s)"

definition to_task_push_config :: "TaskPushNotificationConfig \<Rightarrow> pb_TaskPushNotificationConfig" where
  "to_task_push_config c =
     \<lparr>ptc_name = tasks_prefix @ tpnc_task_id c @ push_infix @ str_of_option (pnc_id (tpnc_push_notification_config c)),
      ptc_push_notification_config = to_push_config (tpnc_push_notification_config c)\<rparr>"

text \<open>An \<open>int32\<close> field refuses other integers.\<close>

definition int32 :: "int \<Rightarrow> exn + int" where
  "int32 i = (if - (2 ^ 31) \<le> i \<and> i < 2 ^ 31 then Inr i else Inl (ValueErr ''Value out of range''))"

definition to_send_configuration :: "MessageSendConfiguration option \<Rightarrow> exn + pb_SendMessageConfiguration" where
  "to_send_configuration c =
     (case c of
        None \<Rightarrow> Inr pb_SendMessageConfiguration_default
      | Some x \<Rightarrow>
          res_bind (case msc_history_length x of None \<Rightarrow> Inr 0 | Some n \<Rightarrow> int32 n) (\<lambda>n.
            Inr \<lparr>pmc_accepted_output_modes = or_else (msc_accepted_output_modes x) [],
                 pmc_push_notification = map_option to_push_config (msc_push_notification_config x),
                 pmc_history_length = n, pmc_blocking = (msc_blocking x = Some True)\<rparr>))"

subsection \<open>FromProto\<close>

definition of_authentication :: "pb_AuthenticationInfo \<Rightarrow> PushNotificationAuthenticationInfo" where
  "of_authentication a = \<lparr>pna_credentials = Some (pai_credentials a), pna_schemes = pai_schemes a\<rparr>"

definition of_push_config :: "pb_PushNotificationConfig \<Rightarrow> PushNotificationConfig" where
  "of_push_config c =
     \<lparr>pnc_authentication = map_option of_authentication (ppc_authentication c), pnc_id = Some (ppc_id c),
      pnc_token = Some (ppc_token c), pnc_url = ppc_url c\<rparr>"

definition of_send_configuration :: "pb_SendMessageConfiguration \<Rightarrow> MessageSendConfiguration" where
  "of_send_configuration c =
     \<lparr>msc_accepted_output_modes = Some (pmc_accepted_output_modes c), msc_blocking = Some (pmc_blocking c),
      msc_history_length = Some (pmc_history_length c),
      msc_push_notification_config = map_option of_push_config (pmc_push_notification c)\<rparr>"

definition of_send_params :: "pb_SendMessageRequest \<Rightarrow> exn + MessageSendParams" where
  "of_send_params r =
     res_bind (of_message (psr_request r)) (\<lambda>m.
       Inr \<lparr>msp_configuration = Some (of_send_configuration (psr_configuration r)), msp_message = m,
            msp_metadata = Some (of_metadata (psr_metadata r))\<rparr>)"

definition no_task_for :: "string \<Rightarrow> exn" where
  "no_task_for name = server_err InvalidParamsError (''No task for '' @ name)"

definition of_task_id_params :: "pb_named_request \<Rightarrow> exn + TaskIdParams" where
  "of_task_id_params r =
     (case r of
        PN_GetPushConfig name \<Rightarrow>
          (case push_name_match name of
             None \<Rightarrow> Inl (no_task_for name) | Some (i, c) \<Rightarrow> Inr \<lparr>tip_id = i, tip_metadata = None\<rparr>)
      | PN_CancelTask name \<Rightarrow>
          (case task_name_match name of
             None \<Rightarrow> Inl (no_task_for name) | Some i \<Rightarrow> Inr \<lparr>tip_id = i, tip_metadata = None\<rparr>)
      | PN_TaskSubscription name \<Rightarrow>
          (case task_name_match name of
             None \<Rightarrow> Inl (no_task_for name) | Some i \<Rightarrow> Inr \<lparr>tip_id = i, tip_metadata = None\<rparr>))"

definition of_create_config :: "pb_CreateTaskPushNotificationConfigRequest \<Rightarrow> exn + TaskPushNotificationConfig" where
  "of_create_config r =
     (case task_name_match (pcr_parent r) of
        None \<Rightarrow> Inl (no_task_for (pcr_parent r))
      | Some i \<Rightarrow>
          Inr \<lparr>tpnc_push_notification_config = of_push_config (ptc_push_notification_config (pcr_config r)),
               tpnc_task_id = i\<rparr>)"

definition of_task_push_config :: "pb_TaskPushNotificationConfig \<Rightarrow> exn + TaskPushNotificationConfig" where
  "of_task_push_config c =
     (case push_name_match (ptc_name c) of
        None \<Rightarrow> Inl (server_err InvalidParamsError (''Bad TaskPushNotificationConfig resource name '' @ ptc_name c))
      | Some (i, cid) \<Rightarrow>
          Inr \<lparr>tpnc_push_notification_config = of_push_config (ptc_push_notification_config c), tpnc_task_id = i\<rparr>)"

definition of_query_params :: "pb_GetTaskRequest \<Rightarrow> exn + TaskQueryParams" where
  "of_query_params r =
     (case task_name_match (pgt_name r) of
        None \<Rightarrow> Inl (no_task_for (pgt_name r))
      | Some i \<Rightarrow>
          Inr \<lparr>tqp_history_length = (if pgt_history_length r \<noteq> 0 then Some (pgt_history_length r) else None),
               tqp_id = i, tqp_metadata = None\<rparr>)"

subsection \<open>Lemmas\<close>

lemma segment_simps [simp]:
  "CHR ''/'' \<notin> set i \<Longrightarrow> segment i = i"
  "CHR ''/'' \<notin> set i \<Longrightarrow> segment (i @ CHR ''/'' # rest) = i"
  "CHR ''/'' \<notin> set i \<Longrightarrow> after_segment (i @ CHR ''/'' # rest) = CHR ''/'' # rest"
  by (induction i) (auto simp: segment_def after_segment_def)

lemma task_name_match_name:
  "i \<noteq> [] \<Longrightarrow> CHR ''/'' \<notin> set i \<Longrightarrow> task_name_match (tasks_prefix @ i) = Some i"
  "i \<noteq> [] \<Longrightarrow> CHR ''/'' \<notin> set i \<Longrightarrow> task_name_match (tasks_prefix @ i @ CHR ''/'' # rest) = Some i"
  by (simp_all add: task_name_match_def tasks_prefix_def)

lemma push_name_match_name:
  assumes "i \<noteq> []" and "CHR ''/'' \<notin> set i" and "c \<noteq> []" and "CHR ''/'' \<notin> set c"
  shows "push_name_match (tasks_prefix @ i @ push_infix @ c) = Some (i, c)"
  using assms task_name_match_name(2) [OF assms(1,2), of "tl push_infix @ c"]
  by (simp add: push_name_match_def push_infix_def Let_def tasks_prefix_def)

text \<open>The normal form of a push configuration.\<close>

definition norm_push_config :: "PushNotificationConfig \<Rightarrow> PushNotificationConfig" where
  "norm_push_config c =
     \<lparr>pnc_authentication = map_option (\<lambda>a. a\<lparr>pna_credentials := Some (or_else (pna_credentials a) [])\<rparr>) (pnc_authentication c),
      pnc_id = Some (or_else (pnc_id c) []), pnc_token = Some (or_else (pnc_token c) []), pnc_url = pnc_url c\<rparr>"

lemma push_config_roundtrip: "of_push_config (to_push_config c) = norm_push_config c"
  by (cases "pnc_authentication c")
     (simp_all add: of_push_config_def to_push_config_def norm_push_config_def of_authentication_def to_authentication_def)

text \<open>
  The resource name of a push configuration leads back to its task when the task id and the configuration id
  are non-empty and free of slashes: the configuration arrives in its normal form. A configuration without an id is named \<open>None\<close>
  and arrives with the empty string as its id, which is not the default id (the task's) that the stores give it.
\<close>

theorem push_config_name_roundtrip:
  assumes "tpnc_task_id c \<noteq> []" and "CHR ''/'' \<notin> set (tpnc_task_id c)"
    and "\<forall>i. pnc_id (tpnc_push_notification_config c) = Some i \<longrightarrow> i \<noteq> [] \<and> CHR ''/'' \<notin> set i"
  shows "of_task_push_config (to_task_push_config c) =
           Inr (c\<lparr>tpnc_push_notification_config := norm_push_config (tpnc_push_notification_config c)\<rparr>) \<and>
         (pnc_id (tpnc_push_notification_config c) = None \<longrightarrow>
            pnc_id (with_default_id (tpnc_task_id c) (norm_push_config (tpnc_push_notification_config c))) = Some [] \<and>
            pnc_id (with_default_id (tpnc_task_id c) (tpnc_push_notification_config c)) = Some (tpnc_task_id c))"
proof -
  let ?i = "str_of_option (pnc_id (tpnc_push_notification_config c))"
  have "?i \<noteq> []" "CHR ''/'' \<notin> set ?i"
    using assms(3) by (auto simp: str_of_option_def split: option.splits)
  from push_name_match_name [OF assms(1,2) this] show ?thesis
    by (simp add: of_task_push_config_def to_task_push_config_def push_config_roundtrip)
       (simp add: norm_push_config_def with_default_id_def effective_id_def)
qed

theorem push_config_name_roundtrip_witness:
  "of_task_push_config (to_task_push_config
       \<lparr>tpnc_push_notification_config = \<lparr>pnc_authentication = None, pnc_id = None, pnc_token = None, pnc_url = ''u''\<rparr>,
        tpnc_task_id = ''t1''\<rparr>) =
     Inr \<lparr>tpnc_push_notification_config = \<lparr>pnc_authentication = None, pnc_id = Some [], pnc_token = Some [], pnc_url = ''u''\<rparr>,
        tpnc_task_id = ''t1''\<rparr>"
  using push_config_name_roundtrip [of "\<lparr>tpnc_push_notification_config =
        \<lparr>pnc_authentication = None, pnc_id = None, pnc_token = None, pnc_url = ''u''\<rparr>, tpnc_task_id = ''t1''\<rparr>"]
  by (simp add: norm_push_config_def)

text \<open>
  Whether a message sent over gRPC or REST blocks: only when the client asked for it explicitly, while the
  same parameters in JSON block unless the client asked for the opposite. So the default differs: parameters without a
  configuration, or with a configuration that leaves \<open>blocking\<close> out, block over JSON-RPC and do not block over
  gRPC and REST.
\<close>

theorem blocking_over_proto:
  assumes "to_send_configuration (msp_configuration p) = Inr c"
    and "of_send_params (r\<lparr>psr_configuration := c\<rparr>) = Inr p'"
  shows "is_blocking p' = (Option.bind (msp_configuration p) msc_blocking = Some True) \<and>
         is_blocking p = (Option.bind (msp_configuration p) msc_blocking \<noteq> Some False)"
  using assms
  by (auto simp: of_send_params_def of_send_configuration_def to_send_configuration_def is_blocking_def
      pb_SendMessageConfiguration_default_def res_bind_Inr_iff split: option.splits)

theorem blocking_over_proto_witness:
  "\<exists>c p'. to_send_configuration (msp_configuration sample_params) = Inr c \<and>
     of_send_params \<lparr>psr_request = \<lparr>pm_message_id = ''m'', pm_context_id = [], pm_task_id = [], pm_role = ROLE_USER,
         pm_content = [], pm_metadata = [], pm_extensions = []\<rparr>, psr_configuration = c, psr_metadata = []\<rparr> = Inr p' \<and>
     is_blocking sample_params \<and> \<not> is_blocking p'"
proof -
  let ?m = "\<lparr>pm_message_id = ''m'', pm_context_id = [], pm_task_id = [], pm_role = ROLE_USER,
         pm_content = [], pm_metadata = [], pm_extensions = []\<rparr>"
  obtain c where c: "to_send_configuration (msp_configuration sample_params) = Inr c"
    by (simp add: to_send_configuration_def sample_params_def)
  let ?r = "\<lparr>psr_request = ?m, psr_configuration = c, psr_metadata = []\<rparr>"
  obtain p' where p': "of_send_params (?r\<lparr>psr_configuration := c\<rparr>) = Inr p'"
    by (simp add: of_send_params_def of_message_def)
  from blocking_over_proto [OF c p'] c p' show ?thesis by (auto simp: sample_params_def)
qed

end
