(* ===== verification/ProtoCard.thy ===== *)
theory ProtoCard
  imports ProtoMessages
begin

section \<open>Agent cards as protocol buffers (utils/proto_utils.py)\<close>

text \<open>
  The conversions of \<open>AgentCard\<close> and everything in it. A protobuf map is the association list its container
  iterates; a message field that was never set is \<open>None\<close> where the code asks for its presence and reads
  as the default message where it does not.
\<close>

subsection \<open>The generated classes\<close>

record pb_AgentInterface =
  pif_url :: string
  pif_transport :: string

record pb_AgentProvider =
  ppv_url :: string
  ppv_organization :: string

definition pb_AgentProvider_default :: pb_AgentProvider where
  "pb_AgentProvider_default = \<lparr>ppv_url = [], ppv_organization = []\<rparr>"

record pb_AgentExtension =
  pex_uri :: string
  pex_description :: string
  pex_required :: bool
  pex_params :: pydict

record pb_AgentCapabilities =
  pcp_streaming :: bool
  pcp_push_notifications :: bool
  pcp_extensions :: "pb_AgentExtension list"

record pb_AgentSkill =
  psk_id :: string
  psk_name :: string
  psk_description :: string
  psk_tags :: "string list"
  psk_examples :: "string list"
  psk_input_modes :: "string list"
  psk_output_modes :: "string list"

record pb_AgentCardSignature =
  psg_protected :: string
  psg_signature :: string
  psg_header :: pydict

record pb_AuthorizationCodeOAuthFlow =
  pac_authorization_url :: string
  pac_token_url :: string
  pac_refresh_url :: string
  pac_scopes :: "(string \<times> string) list"

record pb_ClientCredentialsOAuthFlow =
  pcc_token_url :: string
  pcc_refresh_url :: string
  pcc_scopes :: "(string \<times> string) list"

record pb_ImplicitOAuthFlow =
  pim_authorization_url :: string
  pim_refresh_url :: string
  pim_scopes :: "(string \<times> string) list"

record pb_PasswordOAuthFlow =
  ppw_token_url :: string
  ppw_refresh_url :: string
  ppw_scopes :: "(string \<times> string) list"

datatype pb_OAuthFlows =
    PO_Unset
  | PO_AuthorizationCode pb_AuthorizationCodeOAuthFlow
  | PO_ClientCredentials pb_ClientCredentialsOAuthFlow
  | PO_Implicit pb_ImplicitOAuthFlow
  | PO_Password pb_PasswordOAuthFlow

record pb_APIKeySecurityScheme =
  pks_description :: string
  pks_location :: string
  pks_name :: string

record pb_HTTPAuthSecurityScheme =
  phs_description :: string
  phs_scheme :: string
  phs_bearer_format :: string

record pb_OAuth2SecurityScheme =
  pos_description :: string
  pos_flows :: pb_OAuthFlows

record pb_OpenIdConnectSecurityScheme =
  pois_description :: string
  pois_open_id_connect_url :: string

datatype pb_SecurityScheme =
    PSS_Unset
  | PSS_ApiKey pb_APIKeySecurityScheme
  | PSS_HttpAuth pb_HTTPAuthSecurityScheme
  | PSS_OAuth2 pb_OAuth2SecurityScheme
  | PSS_OpenIdConnect pb_OpenIdConnectSecurityScheme
  | PSS_Mtls string

record pb_AgentCard =
  pcd_protocol_version :: string
  pcd_name :: string
  pcd_description :: string
  pcd_url :: string
  pcd_preferred_transport :: string
  pcd_additional_interfaces :: "pb_AgentInterface list"
  pcd_provider :: "pb_AgentProvider option"
  pcd_version :: string
  pcd_documentation_url :: string
  pcd_capabilities :: pb_AgentCapabilities
  pcd_security_schemes :: "(string \<times> pb_SecurityScheme) list"
  pcd_security :: "(string \<times> string list) list list"
  pcd_default_input_modes :: "string list"
  pcd_default_output_modes :: "string list"
  pcd_skills :: "pb_AgentSkill list"
  pcd_supports_authenticated_extended_card :: bool
  pcd_signatures :: "pb_AgentCardSignature list"

subsection \<open>ToProto\<close>

definition to_interface :: "AgentInterface \<Rightarrow> pb_AgentInterface" where
  "to_interface i = \<lparr>pif_url = aif_url i, pif_transport = aif_transport i\<rparr>"

definition to_provider :: "AgentProvider option \<Rightarrow> pb_AgentProvider option" where
  "to_provider p = map_option (\<lambda>x. \<lparr>ppv_url = prv_url x, ppv_organization = prv_organization x\<rparr>) p"

definition to_extension :: "struct_set \<Rightarrow> AgentExtension \<Rightarrow> exn + pb_AgentExtension" where
  "to_extension sv x =
     res_bind (if truthy (ext_params x) then dict_to_struct sv (the (ext_params x)) else Inr []) (\<lambda>params.
       Inr \<lparr>pex_uri = ext_uri x, pex_description = or_else (ext_description x) [],
            pex_required = (ext_required x = Some True), pex_params = params\<rparr>)"

definition to_capabilities :: "struct_set \<Rightarrow> AgentCapabilities \<Rightarrow> exn + pb_AgentCapabilities" where
  "to_capabilities sv c =
     res_bind (res_map (to_extension sv) (or_else (cap_extensions c) [])) (\<lambda>exts.
       Inr \<lparr>pcp_streaming = (cap_streaming c = Some True), pcp_push_notifications = (cap_push_notifications c = Some True),
            pcp_extensions = exts\<rparr>)"

definition to_skill :: "AgentSkill \<Rightarrow> pb_AgentSkill" where
  "to_skill s =
     \<lparr>psk_id = skl_id s, psk_name = skl_name s, psk_description = skl_description s, psk_tags = skl_tags s,
      psk_examples = or_else (skl_examples s) [], psk_input_modes = or_else (skl_input_modes s) [],
      psk_output_modes = or_else (skl_output_modes s) []\<rparr>"

definition to_signature :: "struct_set \<Rightarrow> AgentCardSignature \<Rightarrow> exn + pb_AgentCardSignature" where
  "to_signature sv s =
     res_bind (to_metadata sv (acs_header s)) (\<lambda>h.
       Inr \<lparr>psg_protected = acs_protected s, psg_signature = acs_signature s, psg_header = h\<rparr>)"

text \<open>\<open>oauth2_flows\<close>: the first flow that is there, in this order.\<close>

definition to_flows :: "OAuthFlows \<Rightarrow> exn + pb_OAuthFlows" where
  "to_flows f =
     (case oaf_authorization_code f of
        Some a \<Rightarrow> Inr (PO_AuthorizationCode \<lparr>pac_authorization_url = acf_authorization_url a, pac_token_url = acf_token_url a,
                    pac_refresh_url = or_else (acf_refresh_url a) [], pac_scopes = acf_scopes a\<rparr>)
      | None \<Rightarrow>
     (case oaf_client_credentials f of
        Some c \<Rightarrow> Inr (PO_ClientCredentials \<lparr>pcc_token_url = ccf_token_url c,
                    pcc_refresh_url = or_else (ccf_refresh_url c) [], pcc_scopes = ccf_scopes c\<rparr>)
      | None \<Rightarrow>
     (case oaf_implicit f of
        Some i \<Rightarrow> Inr (PO_Implicit \<lparr>pim_authorization_url = imf_authorization_url i,
                    pim_refresh_url = or_else (imf_refresh_url i) [], pim_scopes = imf_scopes i\<rparr>)
      | None \<Rightarrow>
     (case oaf_password f of
        Some p \<Rightarrow> Inr (PO_Password \<lparr>ppw_token_url = pwf_token_url p, ppw_refresh_url = or_else (pwf_refresh_url p) [],
                    ppw_scopes = pwf_scopes p\<rparr>)
      | None \<Rightarrow> Inl (ValueErr ''Unknown oauth flow definition'')))))"

fun in_value :: "In \<Rightarrow> string" where
  "in_value cookie = ''cookie''"
| "in_value header = ''header''"
| "in_value query = ''query''"

fun to_scheme :: "SecurityScheme \<Rightarrow> exn + pb_SecurityScheme" where
  "to_scheme (APIKeyScheme k) =
     Inr (PSS_ApiKey \<lparr>pks_description = or_else (aks_description k) [], pks_location = in_value (aks_in k), pks_name = aks_name k\<rparr>)"
| "to_scheme (HTTPAuthScheme h) =
     Inr (PSS_HttpAuth \<lparr>phs_description = or_else (has_description h) [], phs_scheme = has_scheme h,
                        phs_bearer_format = or_else (has_bearer_format h) []\<rparr>)"
| "to_scheme (OAuth2Scheme s) =
     res_bind (to_flows (oas_flows s)) (\<lambda>f.
       Inr (PSS_OAuth2 \<lparr>pos_description = or_else (oas_description s) [], pos_flows = f\<rparr>))"
| "to_scheme (MutualTLSScheme m) = Inr (PSS_Mtls (or_else (mts_description m) []))"
| "to_scheme (OpenIdConnectScheme s) =
     Inr (PSS_OpenIdConnect \<lparr>pois_description = or_else (oid_description s) [],
                             pois_open_id_connect_url = oid_open_id_connect_url s\<rparr>)"

text \<open>A dictionary comprehension.\<close>

definition res_map_values :: "('a \<Rightarrow> exn + 'b) \<Rightarrow> (string \<times> 'a) list \<Rightarrow> exn + (string \<times> 'b) list" where
  "res_map_values f = res_map (\<lambda>(k, v). res_bind (f v) (\<lambda>x. Inr (k, x)))"

definition to_card :: "struct_set \<Rightarrow> AgentCard \<Rightarrow> exn + pb_AgentCard" where
  "to_card sv c =
     res_bind (to_capabilities sv (card_capabilities c)) (\<lambda>capabilities.
     res_bind (res_map_values to_scheme (or_else (card_security_schemes c) [])) (\<lambda>schemes.
     res_bind (res_map (to_signature sv) (or_else (card_signatures c) [])) (\<lambda>signatures.
       Inr \<lparr>pcd_protocol_version = or_else (card_protocol_version c) [], pcd_name = card_name c,
            pcd_description = card_description c, pcd_url = card_url c,
            pcd_preferred_transport = or_else (card_preferred_transport c) [],
            pcd_additional_interfaces = map to_interface (or_else (card_additional_interfaces c) []),
            pcd_provider = to_provider (card_provider c), pcd_version = card_version c,
            pcd_documentation_url = or_else (card_documentation_url c) [], pcd_capabilities = capabilities,
            pcd_security_schemes = schemes, pcd_security = or_else (card_security c) [],
            pcd_default_input_modes = card_default_input_modes c, pcd_default_output_modes = card_default_output_modes c,
            pcd_skills = map to_skill (card_skills c),
            pcd_supports_authenticated_extended_card = (card_supports_authenticated_extended_card c = Some True),
            pcd_signatures = signatures\<rparr>)))"

subsection \<open>FromProto\<close>

definition of_interface :: "pb_AgentInterface \<Rightarrow> AgentInterface" where
  "of_interface i = \<lparr>aif_transport = pif_transport i, aif_url = pif_url i\<rparr>"

text \<open>The provider field is read without asking whether it was set: a message object is always true.\<close>

definition of_provider :: "pb_AgentProvider option \<Rightarrow> AgentProvider option" where
  "of_provider p =
     (let x = (case p of None \<Rightarrow> pb_AgentProvider_default | Some q \<Rightarrow> q)
      in Some \<lparr>prv_organization = ppv_organization x, prv_url = ppv_url x\<rparr>)"

definition of_extension :: "pb_AgentExtension \<Rightarrow> AgentExtension" where
  "of_extension x =
     \<lparr>ext_description = Some (pex_description x), ext_params = Some (pex_params x), ext_required = Some (pex_required x),
      ext_uri = pex_uri x\<rparr>"

definition of_capabilities :: "pb_AgentCapabilities \<Rightarrow> AgentCapabilities" where
  "of_capabilities c =
     \<lparr>cap_extensions = Some (map of_extension (pcp_extensions c)), cap_push_notifications = Some (pcp_push_notifications c),
      cap_state_transition_history = None, cap_streaming = Some (pcp_streaming c)\<rparr>"

definition of_skill :: "pb_AgentSkill \<Rightarrow> AgentSkill" where
  "of_skill s =
     \<lparr>skl_description = psk_description s, skl_examples = Some (psk_examples s), skl_id = psk_id s,
      skl_input_modes = Some (psk_input_modes s), skl_name = psk_name s, skl_output_modes = Some (psk_output_modes s),
      skl_security = None, skl_tags = psk_tags s\<rparr>"

definition of_signature :: "pb_AgentCardSignature \<Rightarrow> AgentCardSignature" where
  "of_signature s =
     \<lparr>acs_header = Some (psg_header s), acs_protected = psg_protected s, acs_signature = psg_signature s\<rparr>"

definition no_flows :: OAuthFlows where
  "no_flows = \<lparr>oaf_authorization_code = None, oaf_client_credentials = None, oaf_implicit = None, oaf_password = None\<rparr>"

text \<open>The last branch reads the password flow without asking; an unset one is the default message.\<close>

fun of_flows :: "pb_OAuthFlows \<Rightarrow> OAuthFlows" where
  "of_flows (PO_AuthorizationCode a) =
     no_flows\<lparr>oaf_authorization_code := Some \<lparr>acf_authorization_url = pac_authorization_url a,
        acf_refresh_url = Some (pac_refresh_url a), acf_scopes = pac_scopes a, acf_token_url = pac_token_url a\<rparr>\<rparr>"
| "of_flows (PO_ClientCredentials c) =
     no_flows\<lparr>oaf_client_credentials := Some \<lparr>ccf_refresh_url = Some (pcc_refresh_url c), ccf_scopes = pcc_scopes c,
        ccf_token_url = pcc_token_url c\<rparr>\<rparr>"
| "of_flows (PO_Implicit i) =
     no_flows\<lparr>oaf_implicit := Some \<lparr>imf_authorization_url = pim_authorization_url i,
        imf_refresh_url = Some (pim_refresh_url i), imf_scopes = pim_scopes i\<rparr>\<rparr>"
| "of_flows (PO_Password p) =
     no_flows\<lparr>oaf_password := Some \<lparr>pwf_refresh_url = Some (ppw_refresh_url p), pwf_scopes = ppw_scopes p,
        pwf_token_url = ppw_token_url p\<rparr>\<rparr>"
| "of_flows PO_Unset =
     no_flows\<lparr>oaf_password := Some \<lparr>pwf_refresh_url = Some [], pwf_scopes = [], pwf_token_url = []\<rparr>\<rparr>"

definition in_of :: "string \<Rightarrow> exn + In" where
  "in_of s =
     (if s = ''cookie'' then Inr cookie else if s = ''header'' then Inr header else if s = ''query'' then Inr query
      else Inl (ValueErr (s @ '' is not a valid In'')))"

fun of_scheme :: "pb_SecurityScheme \<Rightarrow> exn + SecurityScheme" where
  "of_scheme (PSS_ApiKey k) =
     res_bind (in_of (pks_location k)) (\<lambda>i.
       Inr (APIKeyScheme \<lparr>aks_description = Some (pks_description k), aks_in = i, aks_name = pks_name k\<rparr>))"
| "of_scheme (PSS_HttpAuth h) =
     Inr (HTTPAuthScheme \<lparr>has_bearer_format = Some (phs_bearer_format h), has_description = Some (phs_description h),
                          has_scheme = phs_scheme h\<rparr>)"
| "of_scheme (PSS_OAuth2 s) =
     Inr (OAuth2Scheme \<lparr>oas_description = Some (pos_description s), oas_flows = of_flows (pos_flows s),
                        oas_oauth2_metadata_url = None\<rparr>)"
| "of_scheme (PSS_Mtls d) = Inr (MutualTLSScheme \<lparr>mts_description = Some d\<rparr>)"
| "of_scheme (PSS_OpenIdConnect s) =
     Inr (OpenIdConnectScheme \<lparr>oid_description = Some (pois_description s),
                               oid_open_id_connect_url = pois_open_id_connect_url s\<rparr>)"
| "of_scheme PSS_Unset = Inr (OpenIdConnectScheme \<lparr>oid_description = Some [], oid_open_id_connect_url = []\<rparr>)"

definition of_card :: "pb_AgentCard \<Rightarrow> exn + AgentCard" where
  "of_card c =
     res_bind (res_map_values of_scheme (pcd_security_schemes c)) (\<lambda>schemes.
       Inr \<lparr>card_additional_interfaces = or_None (map of_interface (pcd_additional_interfaces c)),
            card_capabilities = of_capabilities (pcd_capabilities c),
            card_default_input_modes = pcd_default_input_modes c, card_default_output_modes = pcd_default_output_modes c,
            card_description = pcd_description c, card_documentation_url = Some (pcd_documentation_url c),
            card_icon_url = None, card_name = pcd_name c, card_preferred_transport = Some (pcd_preferred_transport c),
            card_protocol_version = Some (pcd_protocol_version c), card_provider = of_provider (pcd_provider c),
            card_security = or_None (pcd_security c), card_security_schemes = Some schemes,
            card_signatures = or_None (map of_signature (pcd_signatures c)), card_skills = map of_skill (pcd_skills c),
            card_supports_authenticated_extended_card = Some (pcd_supports_authenticated_extended_card c),
            card_url = pcd_url c, card_version = pcd_version c\<rparr>)"

subsection \<open>The normal form of a round trip\<close>

abbreviation filled :: "'a list option \<Rightarrow> 'a list option" where
  "filled x \<equiv> Some (or_else x [])"

definition norm_extension :: "AgentExtension \<Rightarrow> AgentExtension" where
  "norm_extension x =
     x\<lparr>ext_description := filled (ext_description x), ext_params := filled (ext_params x),
       ext_required := Some (ext_required x = Some True)\<rparr>"

definition norm_capabilities :: "AgentCapabilities \<Rightarrow> AgentCapabilities" where
  "norm_capabilities c =
     \<lparr>cap_extensions = Some (map norm_extension (or_else (cap_extensions c) [])),
      cap_push_notifications = Some (cap_push_notifications c = Some True), cap_state_transition_history = None,
      cap_streaming = Some (cap_streaming c = Some True)\<rparr>"

definition norm_skill :: "AgentSkill \<Rightarrow> AgentSkill" where
  "norm_skill s =
     s\<lparr>skl_examples := filled (skl_examples s), skl_input_modes := filled (skl_input_modes s),
       skl_output_modes := filled (skl_output_modes s), skl_security := None\<rparr>"

definition norm_signature :: "AgentCardSignature \<Rightarrow> AgentCardSignature" where
  "norm_signature s = s\<lparr>acs_header := Some (case acs_header s of None \<Rightarrow> [] | Some h \<Rightarrow> h)\<rparr>"

text \<open>Only the first flow of an OAuth2 scheme is left.\<close>

definition norm_flows :: "OAuthFlows \<Rightarrow> OAuthFlows" where
  "norm_flows f =
     (case oaf_authorization_code f of
        Some a \<Rightarrow> no_flows\<lparr>oaf_authorization_code := Some (a\<lparr>acf_refresh_url := filled (acf_refresh_url a)\<rparr>)\<rparr>
      | None \<Rightarrow>
     (case oaf_client_credentials f of
        Some c \<Rightarrow> no_flows\<lparr>oaf_client_credentials := Some (c\<lparr>ccf_refresh_url := filled (ccf_refresh_url c)\<rparr>)\<rparr>
      | None \<Rightarrow>
     (case oaf_implicit f of
        Some i \<Rightarrow> no_flows\<lparr>oaf_implicit := Some (i\<lparr>imf_refresh_url := filled (imf_refresh_url i)\<rparr>)\<rparr>
      | None \<Rightarrow>
          no_flows\<lparr>oaf_password := map_option (\<lambda>p. p\<lparr>pwf_refresh_url := filled (pwf_refresh_url p)\<rparr>) (oaf_password f)\<rparr>)))"

fun norm_scheme :: "SecurityScheme \<Rightarrow> SecurityScheme" where
  "norm_scheme (APIKeyScheme k) = APIKeyScheme (k\<lparr>aks_description := filled (aks_description k)\<rparr>)"
| "norm_scheme (HTTPAuthScheme h) =
     HTTPAuthScheme (h\<lparr>has_bearer_format := filled (has_bearer_format h), has_description := filled (has_description h)\<rparr>)"
| "norm_scheme (OAuth2Scheme s) =
     OAuth2Scheme (s\<lparr>oas_description := filled (oas_description s), oas_flows := norm_flows (oas_flows s),
                     oas_oauth2_metadata_url := None\<rparr>)"
| "norm_scheme (OpenIdConnectScheme s) = OpenIdConnectScheme (s\<lparr>oid_description := filled (oid_description s)\<rparr>)"
| "norm_scheme (MutualTLSScheme m) = MutualTLSScheme \<lparr>mts_description = filled (mts_description m)\<rparr>"

definition norm_provider :: "AgentProvider option \<Rightarrow> AgentProvider option" where
  "norm_provider p = Some (case p of None \<Rightarrow> \<lparr>prv_organization = [], prv_url = []\<rparr> | Some x \<Rightarrow> x)"

definition norm_card :: "AgentCard \<Rightarrow> AgentCard" where
  "norm_card c =
     c\<lparr>card_additional_interfaces := none_if_empty (card_additional_interfaces c),
       card_capabilities := norm_capabilities (card_capabilities c),
       card_documentation_url := filled (card_documentation_url c), card_icon_url := None,
       card_preferred_transport := filled (card_preferred_transport c),
       card_protocol_version := filled (card_protocol_version c), card_provider := norm_provider (card_provider c),
       card_security := none_if_empty (card_security c),
       card_security_schemes := Some (map (\<lambda>(k, v). (k, norm_scheme v)) (or_else (card_security_schemes c) [])),
       card_signatures := map_option (map norm_signature) (none_if_empty (card_signatures c)),
       card_skills := map norm_skill (card_skills c),
       card_supports_authenticated_extended_card := Some (card_supports_authenticated_extended_card c = Some True)\<rparr>"

text \<open>Cards that can be written: every OAuth2 scheme has a flow, dictionaries are kept by protobuf.\<close>

fun scheme_safe :: "SecurityScheme \<Rightarrow> bool" where
  "scheme_safe (OAuth2Scheme s) =
     (oaf_authorization_code (oas_flows s) \<noteq> None \<or> oaf_client_credentials (oas_flows s) \<noteq> None \<or>
      oaf_implicit (oas_flows s) \<noteq> None \<or> oaf_password (oas_flows s) \<noteq> None)"
| "scheme_safe s = True"

definition card_safe :: "struct_set \<Rightarrow> AgentCard \<Rightarrow> bool" where
  "card_safe sv c \<longleftrightarrow>
     list_all (\<lambda>x. metadata_safe sv (ext_params x)) (or_else (cap_extensions (card_capabilities c)) []) \<and>
     list_all (\<lambda>x. metadata_safe sv (acs_header x)) (or_else (card_signatures c) []) \<and>
     list_all (\<lambda>kv. scheme_safe (snd kv)) (or_else (card_security_schemes c) [])"

subsection \<open>Lemmas\<close>

lemma extension_roundtrip:
  assumes "metadata_safe sv (ext_params x)"
  shows "\<exists>b. to_extension sv x = Inr b \<and> of_extension b = norm_extension x"
  using assms
  by (auto simp: to_extension_def of_extension_def norm_extension_def metadata_safe_def struct_safe_def truthy_iff or_else_def)

lemma res_map_ex:
  "\<forall>x \<in> set xs. \<exists>b. f x = Inr b \<and> g b = h x \<Longrightarrow> \<exists>bs. res_map f xs = Inr bs \<and> map g bs = map h xs"
proof (induction xs)
  case (Cons x xs)
  then obtain b bs where "f x = Inr b" "g b = h x" "res_map f xs = Inr bs" "map g bs = map h xs" by fastforce
  then show ?case by simp
qed simp

lemma capabilities_roundtrip:
  assumes "list_all (\<lambda>x. metadata_safe sv (ext_params x)) (or_else (cap_extensions c) [])"
  shows "\<exists>b. to_capabilities sv c = Inr b \<and> of_capabilities b = norm_capabilities c"
proof -
  from assms have "\<forall>x \<in> set (or_else (cap_extensions c) []). \<exists>b. to_extension sv x = Inr b \<and> of_extension b = norm_extension x"
    by (simp add: list_all_iff extension_roundtrip)
  from res_map_ex [OF this] show ?thesis
    by (auto simp: to_capabilities_def of_capabilities_def norm_capabilities_def)
qed

lemma signature_roundtrip:
  assumes "metadata_safe sv (acs_header x)"
  shows "\<exists>b. to_signature sv x = Inr b \<and> of_signature b = norm_signature x"
  using assms by (simp add: to_signature_def of_signature_def norm_signature_def to_metadata_safe)

lemma in_of_value [simp]: "in_of (in_value i) = Inr i"
  by (cases i) (simp_all add: in_of_def)

lemma scheme_roundtrip:
  assumes "scheme_safe s" shows "\<exists>b. to_scheme s = Inr b \<and> of_scheme b = Inr (norm_scheme s)"
proof (cases s)
  case (OAuth2Scheme x)
  with assms show ?thesis
    by (cases x) (auto simp: to_flows_def norm_flows_def split: option.split)
qed auto

lemma schemes_roundtrip:
  assumes "list_all (\<lambda>kv. scheme_safe (snd kv)) ss"
  shows "\<exists>bs. res_map_values to_scheme ss = Inr bs \<and> res_map_values of_scheme bs = Inr (map (\<lambda>(k, v). (k, norm_scheme v)) ss)"
  unfolding res_map_values_def
proof (rule res_map_roundtrip)
  fix x assume "x \<in> set ss"
  with assms have "scheme_safe (snd x)" by (simp add: list_all_iff)
  from scheme_roundtrip [OF this] show "\<exists>y. (case x of (k, v) \<Rightarrow> res_bind (to_scheme v) (\<lambda>x. Inr (k, x))) = Inr y \<and>
      (case y of (k, v) \<Rightarrow> res_bind (of_scheme v) (\<lambda>x. Inr (k, x))) = Inr (case x of (k, v) \<Rightarrow> (k, norm_scheme v))"
    by (cases x) auto
qed

lemma of_to_interface [simp]: "map of_interface (map to_interface xs) = xs"
  by (induction xs) (simp_all add: of_interface_def to_interface_def)

lemma of_to_skill: "of_skill (to_skill s) = norm_skill s"
  by (simp add: of_skill_def to_skill_def norm_skill_def)

lemma of_to_provider: "of_provider (to_provider p) = norm_provider p"
  by (cases p) (simp_all add: of_provider_def to_provider_def norm_provider_def pb_AgentProvider_default_def)

lemma or_None_map: "or_None (map f xs) = map_option (map f) (or_None xs)"
  by (cases xs) simp_all

text \<open>
  Claim C26. An agent card served over gRPC arrives as its normal form: nothing raises for a card whose OAuth2 schemes have a
  flow and whose extension parameters and signature headers are dictionaries that protobuf keeps, and every field is kept up to missing and empty values, except that only the first flow of an OAuth2
  scheme is left, the icon, the security of skills, the OAuth2 metadata URL and the transition history flag are lost,
  and a card without a provider arrives with an empty one.
\<close>

theorem card_proto_roundtrip:
  assumes "card_safe sv c"
  shows "\<exists>b. to_card sv c = Inr b \<and> of_card b = Inr (norm_card c)"
proof -
  obtain cap where cap: "to_capabilities sv (card_capabilities c) = Inr cap" "of_capabilities cap = norm_capabilities (card_capabilities c)"
    using capabilities_roundtrip assms by (auto simp: card_safe_def)
  obtain ss where ss: "res_map_values to_scheme (or_else (card_security_schemes c) []) = Inr ss"
    "res_map_values of_scheme ss = Inr (map (\<lambda>(k, v). (k, norm_scheme v)) (or_else (card_security_schemes c) []))"
    using schemes_roundtrip assms by (auto simp: card_safe_def)
  have "\<forall>x \<in> set (or_else (card_signatures c) []). \<exists>b. to_signature sv x = Inr b \<and> of_signature b = norm_signature x"
    using assms by (simp add: card_safe_def list_all_iff signature_roundtrip)
  from res_map_ex [OF this] obtain sg where
    sg: "res_map (to_signature sv) (or_else (card_signatures c) []) = Inr sg"
      "map of_signature sg = map norm_signature (or_else (card_signatures c) [])" by blast
  have sgn: "or_None (map of_signature sg) = map_option (map norm_signature) (none_if_empty (card_signatures c))"
    unfolding sg(2) or_None_map none_if_empty_simp ..
  have itf: "or_None (map of_interface (map to_interface (or_else x []))) = none_if_empty x" for x
    unfolding of_to_interface none_if_empty_simp ..
  have skl: "map of_skill (map to_skill xs) = map norm_skill xs" for xs
    by (simp add: of_to_skill)
  have "of_card \<lparr>pcd_protocol_version = or_else (card_protocol_version c) [], pcd_name = card_name c,
            pcd_description = card_description c, pcd_url = card_url c,
            pcd_preferred_transport = or_else (card_preferred_transport c) [],
            pcd_additional_interfaces = map to_interface (or_else (card_additional_interfaces c) []),
            pcd_provider = to_provider (card_provider c), pcd_version = card_version c,
            pcd_documentation_url = or_else (card_documentation_url c) [], pcd_capabilities = cap,
            pcd_security_schemes = ss, pcd_security = or_else (card_security c) [],
            pcd_default_input_modes = card_default_input_modes c, pcd_default_output_modes = card_default_output_modes c,
            pcd_skills = map to_skill (card_skills c),
            pcd_supports_authenticated_extended_card = (card_supports_authenticated_extended_card c = Some True),
            pcd_signatures = sg\<rparr> = Inr (norm_card c)"
    unfolding of_card_def norm_card_def
    using cap(2) ss(2) sgn itf [of "card_additional_interfaces c"] skl none_if_empty_simp [of "card_security c"]
    by (cases c) (simp add: of_to_provider del: map_map or_None_or_else)
  with cap(1) ss(1) sg(1) show ?thesis by (simp add: to_card_def)
qed

theorem card_proto_roundtrip_witness:
  "\<exists>b c'. to_card (\<lambda>v. Inr v) ((sample_card (Some True))\<lparr>card_security_schemes := Some [(''o'', OAuth2Scheme
       \<lparr>oas_description = None, oas_flows = no_flows\<lparr>oaf_implicit := Some \<lparr>imf_authorization_url = ''a'', imf_refresh_url = None,
          imf_scopes = []\<rparr>, oaf_password := Some \<lparr>pwf_refresh_url = None, pwf_scopes = [], pwf_token_url = ''t''\<rparr>\<rparr>,
        oas_oauth2_metadata_url = None\<rparr>)]\<rparr>) = Inr b \<and> of_card b = Inr c' \<and>
     card_provider c' = Some \<lparr>prv_organization = [], prv_url = []\<rparr> \<and>
     card_security_schemes c' = Some [(''o'', OAuth2Scheme
       \<lparr>oas_description = Some [], oas_flows = no_flows\<lparr>oaf_implicit := Some \<lparr>imf_authorization_url = ''a'',
          imf_refresh_url = Some [], imf_scopes = []\<rparr>\<rparr>, oas_oauth2_metadata_url = None\<rparr>)]"
  using card_proto_roundtrip [of "\<lambda>v. Inr v" "(sample_card (Some True))\<lparr>card_security_schemes := Some [(''o'', OAuth2Scheme
       \<lparr>oas_description = None, oas_flows = no_flows\<lparr>oaf_implicit := Some \<lparr>imf_authorization_url = ''a'', imf_refresh_url = None,
          imf_scopes = []\<rparr>, oaf_password := Some \<lparr>pwf_refresh_url = None, pwf_scopes = [], pwf_token_url = ''t''\<rparr>\<rparr>,
        oas_oauth2_metadata_url = None\<rparr>)]\<rparr>"]
  by (auto simp: card_safe_def sample_card_def no_flows_def norm_card_def norm_flows_def norm_provider_def)

end
