(* ===== verification/GrpcHandler.thy ===== *)
theory GrpcHandler
  imports ProtoRequests ProtoCard "HOL-Library.List_Lexorder" "HOL-Library.Char_ord"
begin

section \<open>The gRPC handler (server/request_handlers/grpc_handler.py)\<close>

text \<open>
  \<open>GrpcHandler\<close> converts a request, calls the request handler and converts the result; a \<open>ServerError\<close> inside its
  \<open>try\<close> aborts the call with a status code. grpc is not part of the SDK: \<open>context.abort\<close> ends the call by raising (its
  documented behaviour), and an exception that leaves the method is reported by the server as UNKNOWN. What the
  context builder makes of the servicer context, the extensions the call activated and the text of an error object are
  arguments.
\<close>

datatype status_code = INVALID_ARGUMENT | NOT_FOUND | UNIMPLEMENTED | INTERNAL | UNKNOWN

text \<open>A reply with the extension values of its trailing metadata, an abort, an escaped exception, or no end.\<close>

datatype 'a grpc_outcome =
    G_Reply 'a "string list"
  | G_Abort status_code string
  | G_Fail exn
  | G_Hang

record grpc_env =
  ge_context :: "exn + ServerCallContext"
  ge_activated :: "string set"
  ge_struct :: struct_set
  ge_error_text :: "rpc_error \<Rightarrow> string"

record grpc_handler =
  gh_agent_card :: AgentCard
  gh_card_modifier :: "(AgentCard \<Rightarrow> AgentCard) option"

subsection \<open>Errors\<close>

text \<open>The \<open>match\<close> of \<open>abort_context\<close>: there is no case for the extended card error and the base class.\<close>

fun abort_code :: "error_kind \<Rightarrow> status_code option" where
  "abort_code K_JSONParseError = Some INTERNAL"
| "abort_code K_InvalidRequestError = Some INVALID_ARGUMENT"
| "abort_code K_MethodNotFoundError = Some NOT_FOUND"
| "abort_code K_InvalidParamsError = Some INVALID_ARGUMENT"
| "abort_code K_InternalError = Some INTERNAL"
| "abort_code K_TaskNotFoundError = Some NOT_FOUND"
| "abort_code K_TaskNotCancelableError = Some UNIMPLEMENTED"
| "abort_code K_PushNotificationNotSupportedError = Some UNIMPLEMENTED"
| "abort_code K_UnsupportedOperationError = Some UNIMPLEMENTED"
| "abort_code K_ContentTypeNotSupportedError = Some UNIMPLEMENTED"
| "abort_code K_InvalidAgentResponseError = Some INTERNAL"
| "abort_code K_AuthenticatedExtendedCardNotConfiguredError = None"
| "abort_code K_JSONRPCError = None"

definition abort_context :: "(rpc_error \<Rightarrow> string) \<Rightarrow> rpc_error option \<Rightarrow> status_code \<times> string" where
  "abort_context tx e =
     (case e of
        None \<Rightarrow> (UNKNOWN, ''Unknown error type: None'')
      | Some x \<Rightarrow>
          (case abort_code (err_kind x) of
             Some code \<Rightarrow> (code, error_class_name (err_kind x) @ '': '' @ str_of_option (err_message x))
           | None \<Rightarrow> (UNKNOWN, ''Unknown error type: '' @ tx x)))"

text \<open>\<open>except ServerError as e: await self.abort_context(e, context)\<close>\<close>

fun grpc_error :: "grpc_env \<Rightarrow> exn \<Rightarrow> 'a grpc_outcome" where
  "grpc_error ge (ServerError e) = (let (code, t) = abort_context (ge_error_text ge) e in G_Abort code t)"
| "grpc_error ge (ServerErrorStr t) = G_Abort UNKNOWN (''Unknown error type: '' @ t)"
| "grpc_error ge e = G_Fail e"

definition extension_metadata :: "string set \<Rightarrow> string list" where
  "extension_metadata exts = sorted_list_of_set exts"

text \<open>The end of the \<open>try\<close>: what was awaited, converted.\<close>

definition grpc_finish :: "grpc_env \<Rightarrow> string list \<Rightarrow> ('a \<Rightarrow> exn + 'b) \<Rightarrow> 'a await \<Rightarrow> 'b grpc_outcome" where
  "grpc_finish ge md convert r =
     (case r of
        Blocked \<Rightarrow> G_Hang
      | Raised e \<Rightarrow> grpc_error ge e
      | Done v \<Rightarrow> (case convert v of Inl e \<Rightarrow> grpc_error ge e | Inr b \<Rightarrow> G_Reply b md))"

text \<open>Build the call context, convert the request, both inside the \<open>try\<close>.\<close>

definition grpc_start ::
  "grpc_env \<Rightarrow> (exn + 'p) \<Rightarrow> ('p \<Rightarrow> ServerCallContext \<Rightarrow> 's \<Rightarrow> 'b grpc_outcome \<times> 's) \<Rightarrow> 's \<Rightarrow> 'b grpc_outcome \<times> 's" where
  "grpc_start ge params body s =
     (case ge_context ge of
        Inl e \<Rightarrow> (grpc_error ge e, s)
      | Inr call \<Rightarrow> (case params of Inl e \<Rightarrow> (grpc_error ge e, s) | Inr p \<Rightarrow> body p call s))"

subsection \<open>The methods\<close>

definition grpc_SendMessage ::
  "grpc_env \<Rightarrow> 's request_handler \<Rightarrow> pb_SendMessageRequest \<Rightarrow> 's \<Rightarrow> pb_SendMessageResponse grpc_outcome \<times> 's" where
  "grpc_SendMessage ge rh request =
     grpc_start ge (of_send_params request) (\<lambda>p call s.
       let (r, s') = rh_message_send rh p call s
       in (grpc_finish ge (extension_metadata (ge_activated ge))
             (\<lambda>v. to_task_or_message (ge_struct ge) (sum_of_send v)) r, s'))"

text \<open>The events of a stream, converted one by one.\<close>

fun grpc_events ::
  "grpc_env \<Rightarrow> string list \<Rightarrow> Event list \<Rightarrow> unit await \<Rightarrow> pb_StreamResponse list \<times> unit grpc_outcome" where
  "grpc_events ge md [] en =
     ([], case en of Done u \<Rightarrow> G_Reply () md | Blocked \<Rightarrow> G_Hang | Raised e \<Rightarrow> grpc_error ge e)"
| "grpc_events ge md (ev # evs) en =
     (case to_stream_response (ge_struct ge) ev of
        Inl e \<Rightarrow> ([], grpc_error ge e)
      | Inr r \<Rightarrow> (let (rs, z) = grpc_events ge md evs en in (r # rs, z)))"

text \<open>The capability guards raise outside every \<open>try\<close> of the handler.\<close>

definition not_offered :: "string \<Rightarrow> 'a grpc_outcome" where
  "not_offered t = G_Fail (raise_server (UnsupportedOperationError\<lparr>err_message := Some t\<rparr>))"

definition grpc_SendStreamingMessage ::
  "grpc_env \<Rightarrow> grpc_handler \<Rightarrow> 's request_handler \<Rightarrow> pb_SendMessageRequest \<Rightarrow> 's \<Rightarrow>
   (pb_StreamResponse list \<times> unit grpc_outcome) \<times> 's" where
  "grpc_SendStreamingMessage ge h rh request s =
     (if cap_streaming (card_capabilities (gh_agent_card h)) \<noteq> Some True
      then (([], not_offered ''Streaming is not supported by the agent''), s)
      else
        case ge_context ge of
          Inl e \<Rightarrow> (([], G_Fail e), s)
        | Inr call \<Rightarrow>
            (case of_send_params request of
               Inl e \<Rightarrow> (([], G_Fail e), s)
             | Inr p \<Rightarrow>
                 (let ((evs, en), s') = rh_message_send_stream rh p call s
                  in (grpc_events ge (extension_metadata (ge_activated ge)) evs en, s'))))"

text \<open>A missing task is an error of the handler's own.\<close>

definition task_reply :: "grpc_env \<Rightarrow> Task option \<Rightarrow> exn + pb_Task" where
  "task_reply ge t = (case t of None \<Rightarrow> Inl (raise_server TaskNotFoundError) | Some x \<Rightarrow> to_task (ge_struct ge) x)"

definition grpc_CancelTask ::
  "grpc_env \<Rightarrow> 's request_handler \<Rightarrow> string \<Rightarrow> 's \<Rightarrow> pb_Task grpc_outcome \<times> 's" where
  "grpc_CancelTask ge rh name =
     grpc_start ge (of_task_id_params (PN_CancelTask name)) (\<lambda>p call s.
       let (r, s') = rh_cancel_task rh p call s in (grpc_finish ge [] (task_reply ge) r, s'))"

definition grpc_GetTask ::
  "grpc_env \<Rightarrow> 's request_handler \<Rightarrow> pb_GetTaskRequest \<Rightarrow> 's \<Rightarrow> pb_Task grpc_outcome \<times> 's" where
  "grpc_GetTask ge rh request =
     grpc_start ge (of_query_params request) (\<lambda>p call s.
       let (r, s') = rh_get_task rh p call s in (grpc_finish ge [] (task_reply ge) r, s'))"

definition grpc_TaskSubscription ::
  "grpc_env \<Rightarrow> grpc_handler \<Rightarrow> 's request_handler \<Rightarrow> string \<Rightarrow> 's \<Rightarrow> (pb_StreamResponse list \<times> unit grpc_outcome) \<times> 's" where
  "grpc_TaskSubscription ge h rh name s =
     (if cap_streaming (card_capabilities (gh_agent_card h)) \<noteq> Some True
      then (([], not_offered ''Streaming is not supported by the agent''), s)
      else
        case ge_context ge of
          Inl e \<Rightarrow> (([], grpc_error ge e), s)
        | Inr call \<Rightarrow>
            (case of_task_id_params (PN_TaskSubscription name) of
               Inl e \<Rightarrow> (([], grpc_error ge e), s)
             | Inr p \<Rightarrow>
                 (let ((evs, en), s') = rh_resubscribe rh p call s in (grpc_events ge [] evs en, s'))))"

definition grpc_GetTaskPushNotificationConfig ::
  "grpc_env \<Rightarrow> 's request_handler \<Rightarrow> string \<Rightarrow> 's \<Rightarrow> pb_TaskPushNotificationConfig grpc_outcome \<times> 's" where
  "grpc_GetTaskPushNotificationConfig ge rh name =
     grpc_start ge (of_task_id_params (PN_GetPushConfig name)) (\<lambda>p call s.
       let (r, s') = rh_get_config rh (GCP_TaskId p) call s
       in (grpc_finish ge [] (\<lambda>c. Inr (to_task_push_config c)) r, s'))"

definition grpc_CreateTaskPushNotificationConfig ::
  "grpc_env \<Rightarrow> grpc_handler \<Rightarrow> 's request_handler \<Rightarrow> pb_CreateTaskPushNotificationConfigRequest \<Rightarrow> 's \<Rightarrow>
   pb_TaskPushNotificationConfig grpc_outcome \<times> 's" where
  "grpc_CreateTaskPushNotificationConfig ge h rh request s =
     (if cap_push_notifications (card_capabilities (gh_agent_card h)) \<noteq> Some True
      then (not_offered ''Push notifications are not supported by the agent'', s)
      else grpc_start ge (of_create_config request) (\<lambda>p call s.
             let (r, s') = rh_set_config rh p call s
             in (grpc_finish ge [] (\<lambda>c. Inr (to_task_push_config c)) r, s')) s)"

definition grpc_GetAgentCard :: "grpc_env \<Rightarrow> grpc_handler \<Rightarrow> pb_AgentCard grpc_outcome" where
  "grpc_GetAgentCard ge h =
     (case to_card (ge_struct ge)
             (case gh_card_modifier h of None \<Rightarrow> gh_agent_card h | Some f \<Rightarrow> f (gh_agent_card h)) of
        Inl e \<Rightarrow> G_Fail e
      | Inr c \<Rightarrow> G_Reply c [])"

text \<open>
  The list and delete methods of the service are inherited from the generated class: they set the code and the detail and
  raise; grpc's asyncio server keeps the code and reports the exception in the detail.
\<close>

definition grpc_unimplemented :: "'a grpc_outcome" where
  "grpc_unimplemented =
     G_Abort UNIMPLEMENTED
       (''Unexpected <class '' @ [CHR 0x27] @ ''NotImplementedError'' @ [CHR 0x27] @ ''>: Method not implemented!'')"

subsection \<open>What the caller sees\<close>

text \<open>The status the caller gets; \<open>None\<close> is OK, and an escaped exception is UNKNOWN.\<close>

fun outcome_status :: "'a grpc_outcome \<Rightarrow> status_code option" where
  "outcome_status (G_Reply r md) = None"
| "outcome_status (G_Abort code t) = Some code"
| "outcome_status (G_Fail e) = Some UNKNOWN"
| "outcome_status G_Hang = None"

text \<open>
  What a caller is promised for each kind of error, written out: the status code and the name that starts the detail.
  The extended card error and the base class have no entry.
\<close>

definition code_table :: "(error_kind \<times> status_code \<times> string) list" where
  "code_table =
     [(K_JSONParseError, INTERNAL, ''JSONParseError''),
      (K_InvalidRequestError, INVALID_ARGUMENT, ''InvalidRequestError''),
      (K_MethodNotFoundError, NOT_FOUND, ''MethodNotFoundError''),
      (K_InvalidParamsError, INVALID_ARGUMENT, ''InvalidParamsError''),
      (K_InternalError, INTERNAL, ''InternalError''),
      (K_TaskNotFoundError, NOT_FOUND, ''TaskNotFoundError''),
      (K_TaskNotCancelableError, UNIMPLEMENTED, ''TaskNotCancelableError''),
      (K_PushNotificationNotSupportedError, UNIMPLEMENTED, ''PushNotificationNotSupportedError''),
      (K_UnsupportedOperationError, UNIMPLEMENTED, ''UnsupportedOperationError''),
      (K_ContentTypeNotSupportedError, UNIMPLEMENTED, ''ContentTypeNotSupportedError''),
      (K_InvalidAgentResponseError, INTERNAL, ''InvalidAgentResponseError'')]"

text \<open>The report of an error by the table; an exception that is no \<open>ServerError\<close> escapes, and its status is UNKNOWN.\<close>

fun error_report :: "(rpc_error \<Rightarrow> string) \<Rightarrow> exn \<Rightarrow> 'a grpc_outcome" where
  "error_report tx (ServerError (Some x)) =
     (case map_of code_table (err_kind x) of
        Some (code, name) \<Rightarrow> G_Abort code (name @ '': '' @ str_of_option (err_message x))
      | None \<Rightarrow> G_Abort UNKNOWN (''Unknown error type: '' @ tx x))"
| "error_report tx (ServerError None) = G_Abort UNKNOWN ''Unknown error type: None''"
| "error_report tx (ServerErrorStr t) = G_Abort UNKNOWN (''Unknown error type: '' @ t)"
| "error_report tx e = G_Fail e"

lemma abort_context_report: "(let (code, t) = abort_context tx e in G_Abort code t) = error_report tx (ServerError e)"
proof (cases e)
  case (Some x)
  then show ?thesis by (cases "err_kind x") (simp_all add: abort_context_def code_table_def)
qed (simp add: abort_context_def)

lemma grpc_error_report: "grpc_error ge e = error_report (ge_error_text ge) e"
  by (cases e) (simp_all add: abort_context_report)

text \<open>The status that a caller gets for an error, by the written table.\<close>

definition error_status :: "exn \<Rightarrow> status_code" where
  "error_status e =
     (case e of
        ServerError (Some x) \<Rightarrow> (case map_of code_table (err_kind x) of Some (code, name) \<Rightarrow> code | None \<Rightarrow> UNKNOWN)
      | _ \<Rightarrow> UNKNOWN)"

lemma outcome_status_report [simp]: "outcome_status (error_report tx e) = Some (error_status e)"
  by (cases "(tx, e)" rule: error_report.cases) (auto simp: error_status_def split: option.split)

lemma grpc_finish_raised: "grpc_finish ge md f (Raised e) = error_report (ge_error_text ge) e"
  by (simp add: grpc_finish_def grpc_error_report)

lemma grpc_events_raised:
  "(\<And>ev. ev \<in> set evs \<Longrightarrow> to_stream_response (ge_struct ge) ev = Inr (g ev)) \<Longrightarrow>
   grpc_events ge md evs (Raised e) = (map g evs, error_report (ge_error_text ge) e)"
  by (induction evs) (simp_all add: grpc_error_report)

lemma grpc_start_params: "ge_context ge = Inr call \<Longrightarrow> grpc_start ge (Inr p) body s = body p call s"
  by (simp add: grpc_start_def)

text \<open>A missing task is answered with its own kind of error, by \<open>GetTask\<close> and \<open>CancelTask\<close> alike.\<close>

lemma grpc_finish_missing:
  "grpc_finish ge md (task_reply ge) (Done None) = G_Abort NOT_FOUND ''TaskNotFoundError: Task not found''"
  by (simp add: grpc_finish_def task_reply_def grpc_error_report code_table_def error_class_defs str_of_option_def)

lemma get_task_bad_name:
  assumes "ge_context ge = Inr call" and "of_query_params get = Inl e"
  shows "grpc_GetTask ge rh get s = (G_Abort INVALID_ARGUMENT (''InvalidParamsError: No task for '' @ pgt_name get), s)"
  using assms
  by (auto simp: grpc_GetTask_def grpc_start_def of_query_params_def no_task_for_def server_err_def grpc_error_report
      code_table_def error_class_defs str_of_option_def split: option.splits)

lemmas grpc_method_defs = grpc_SendMessage_def grpc_CancelTask_def grpc_GetTask_def grpc_GetTaskPushNotificationConfig_def
  grpc_CreateTaskPushNotificationConfig_def grpc_SendStreamingMessage_def grpc_TaskSubscription_def

text \<open>
  Claim C33. An error that the request handler raises is reported alike by every method of the gRPC handler, the two streams
  included (after the converted events): a \<open>ServerError\<close> aborts the call with the status code that the written table has
  for the kind of its error (internal, parse and agent response errors INTERNAL, invalid requests and parameters
  INVALID_ARGUMENT, missing tasks and methods NOT_FOUND, the four unsupported kinds UNIMPLEMENTED) and with the name
  of the kind and the message; the error of a missing extended card has no code of its own and is UNKNOWN; an exception
  that is no \<open>ServerError\<close> escapes. A missing task is NOT_FOUND, a task name without an id is INVALID_ARGUMENT and
  leaves the state as it was, and an operation that the card does not offer, which JSON-RPC would describe, escapes as
  UNKNOWN. The call context could be built, and the request and the events are ones that convert.
\<close>

theorem grpc_error_codes:
  assumes "ge_context ge = Inr call"
  shows "(\<forall>p e s'. of_send_params request = Inr p \<longrightarrow> rh_message_send rh p call s = (Raised e, s') \<longrightarrow>
            grpc_SendMessage ge rh request s = (error_report (ge_error_text ge) e, s')) \<and>
         (\<forall>p e s'. of_task_id_params (PN_CancelTask name) = Inr p \<longrightarrow> rh_cancel_task rh p call s = (Raised e, s') \<longrightarrow>
            grpc_CancelTask ge rh name s = (error_report (ge_error_text ge) e, s')) \<and>
         (\<forall>p e s'. of_query_params get = Inr p \<longrightarrow> rh_get_task rh p call s = (Raised e, s') \<longrightarrow>
            grpc_GetTask ge rh get s = (error_report (ge_error_text ge) e, s')) \<and>
         (\<forall>p e s'. of_task_id_params (PN_GetPushConfig name) = Inr p \<longrightarrow>
            rh_get_config rh (GCP_TaskId p) call s = (Raised e, s') \<longrightarrow>
            grpc_GetTaskPushNotificationConfig ge rh name s = (error_report (ge_error_text ge) e, s')) \<and>
         (\<forall>p e s'. cap_push_notifications (card_capabilities (gh_agent_card h)) = Some True \<longrightarrow>
            of_create_config create = Inr p \<longrightarrow> rh_set_config rh p call s = (Raised e, s') \<longrightarrow>
            grpc_CreateTaskPushNotificationConfig ge h rh create s = (error_report (ge_error_text ge) e, s')) \<and>
         (\<forall>p evs g e s'. cap_streaming (card_capabilities (gh_agent_card h)) = Some True \<longrightarrow>
            of_send_params request = Inr p \<longrightarrow> rh_message_send_stream rh p call s = ((evs, Raised e), s') \<longrightarrow>
            (\<forall>ev \<in> set evs. to_stream_response (ge_struct ge) ev = Inr (g ev)) \<longrightarrow>
            grpc_SendStreamingMessage ge h rh request s = ((map g evs, error_report (ge_error_text ge) e), s')) \<and>
         (\<forall>p evs g e s'. cap_streaming (card_capabilities (gh_agent_card h)) = Some True \<longrightarrow>
            of_task_id_params (PN_TaskSubscription name) = Inr p \<longrightarrow> rh_resubscribe rh p call s = ((evs, Raised e), s') \<longrightarrow>
            (\<forall>ev \<in> set evs. to_stream_response (ge_struct ge) ev = Inr (g ev)) \<longrightarrow>
            grpc_TaskSubscription ge h rh name s = ((map g evs, error_report (ge_error_text ge) e), s')) \<and>
         (\<forall>p s'. of_query_params get = Inr p \<longrightarrow> rh_get_task rh p call s = (Done None, s') \<longrightarrow>
            grpc_GetTask ge rh get s = (G_Abort NOT_FOUND ''TaskNotFoundError: Task not found'', s')) \<and>
         (\<forall>p s'. of_task_id_params (PN_CancelTask name) = Inr p \<longrightarrow> rh_cancel_task rh p call s = (Done None, s') \<longrightarrow>
            grpc_CancelTask ge rh name s = (G_Abort NOT_FOUND ''TaskNotFoundError: Task not found'', s')) \<and>
         ((\<exists>e. of_query_params get = Inl e) \<longrightarrow>
            grpc_GetTask ge rh get s = (G_Abort INVALID_ARGUMENT (''InvalidParamsError: No task for '' @ pgt_name get), s)) \<and>
         (cap_streaming (card_capabilities (gh_agent_card h)) \<noteq> Some True \<longrightarrow>
            outcome_status (snd (fst (grpc_SendStreamingMessage ge h rh request s))) = Some UNKNOWN \<and>
            outcome_status (snd (fst (grpc_TaskSubscription ge h rh name s))) = Some UNKNOWN) \<and>
         (cap_push_notifications (card_capabilities (gh_agent_card h)) \<noteq> Some True \<longrightarrow>
            outcome_status (fst (grpc_CreateTaskPushNotificationConfig ge h rh create s)) = Some UNKNOWN)"
  using assms get_task_bad_name [OF assms, of get _ rh s]
  by (intro conjI allI impI)
    (auto simp: grpc_method_defs not_offered_def grpc_start_params grpc_finish_raised grpc_events_raised
      grpc_finish_missing)

text \<open>A small environment for concrete runs.\<close>

definition sample_grpc_env :: grpc_env where
  "sample_grpc_env = \<lparr>ge_context = Inr default_call_context, ge_activated = {}, ge_struct = (\<lambda>v. Inr v), ge_error_text = (\<lambda>e. [])\<rparr>"

definition sample_pb_request :: pb_SendMessageRequest where
  "sample_pb_request =
     \<lparr>psr_request = \<lparr>pm_message_id = ''m'', pm_context_id = [], pm_task_id = [], pm_role = ROLE_USER, pm_content = [],
        pm_metadata = [], pm_extensions = []\<rparr>, psr_configuration = pb_SendMessageConfiguration_default, psr_metadata = []\<rparr>"

theorem grpc_error_codes_witness:
  "grpc_SendMessage sample_grpc_env
     (sample_rh\<lparr>rh_message_send := \<lambda>p call s. (Raised (raise_server TaskNotCancelableError), s)\<rparr>) sample_pb_request () =
     (G_Abort UNIMPLEMENTED ''TaskNotCancelableError: Task cannot be canceled'', ())"
proof -
  let ?rh = "sample_rh\<lparr>rh_message_send := \<lambda>p call s. (Raised (raise_server TaskNotCancelableError), s)\<rparr>"
  obtain p where p: "of_send_params sample_pb_request = Inr p"
    by (simp add: of_send_params_def of_message_def sample_pb_request_def)
  from grpc_error_codes [of sample_grpc_env default_call_context sample_pb_request ?rh "()"] p show ?thesis
    by (simp add: sample_grpc_env_def code_table_def error_class_defs str_of_option_def)
qed

end
