(* ===== verification/ProtoClient.thy ===== *)
theory ProtoClient
  imports ProtoRequests HttpClient
begin

section \<open>Sending parameters as protocol buffers (client/transports/grpc.py, rest.py)\<close>

text \<open>
  What the gRPC and the REST transports share: the parameters of a message become a protobuf request, and the
  reply becomes a task or a message.
\<close>

text \<open>A configuration whose push notification part is a dictionary has no attribute \<open>authentication\<close>.\<close>

definition sent_configuration_proto :: "sent_params \<Rightarrow> exn + pb_SendMessageConfiguration" where
  "sent_configuration_proto sp =
     (case sc_push_notification_config (sp_configuration sp) of
        Push_Dict c \<Rightarrow> Inl (AttributeErr ([CHR 0x27] @ ''dict'' @ [CHR 0x27] @ '' object has no attribute '' @
                                          [CHR 0x27] @ ''authentication'' @ [CHR 0x27]))
      | _ \<Rightarrow> to_send_configuration (msp_configuration (params_of sp)))"

definition sent_request :: "struct_set \<Rightarrow> sent_params \<Rightarrow> exn + pb_SendMessageRequest" where
  "sent_request sv sp =
     res_bind (to_message sv (sp_message sp)) (\<lambda>m.
     res_bind (sent_configuration_proto sp) (\<lambda>c.
     res_bind (to_metadata sv (sp_metadata sp)) (\<lambda>md.
       Inr \<lparr>psr_request = m, psr_configuration = c, psr_metadata = md\<rparr>)))"

text \<open>The parameters as they arrive at the server's request handler.\<close>

definition arrived_params :: "sent_params \<Rightarrow> pb_SendMessageConfiguration \<Rightarrow> MessageSendParams" where
  "arrived_params p c =
     \<lparr>msp_configuration = Some (of_send_configuration c), msp_message = norm_message (sp_message p),
      msp_metadata = Some (case sp_metadata p of None \<Rightarrow> [] | Some d \<Rightarrow> d)\<rparr>"

lemma sent_request_arrives:
  assumes "message_safe sv (sp_message p)" and "metadata_safe sv (sp_metadata p)" and "sent_configuration_proto p = Inr c"
  shows "\<exists>r. sent_request sv p = Inr r \<and> of_send_params r = Inr (arrived_params p c)"
proof -
  obtain b where "to_message sv (sp_message p) = Inr b" "of_message b = Inr (norm_message (sp_message p))"
    using message_roundtrip [OF assms(1)] by blast
  with assms(2,3) show ?thesis
    by (simp add: sent_request_def of_send_params_def arrived_params_def to_metadata_safe)
qed

text \<open>What the client makes of the handler's answer.\<close>

definition result_safe :: "struct_set \<Rightarrow> send_result \<Rightarrow> bool" where
  "result_safe sv v = (case v of SR_Task t \<Rightarrow> task_safe sv t | SR_Message m \<Rightarrow> message_safe sv m)"

definition norm_result :: "send_result \<Rightarrow> Task + Message" where
  "norm_result v = (case v of SR_Task t \<Rightarrow> Inl (norm_task t) | SR_Message m \<Rightarrow> Inr (norm_message m))"

lemma result_roundtrip:
  assumes "result_safe sv v"
  shows "\<exists>b. to_task_or_message sv (sum_of_send v) = Inr b \<and> of_task_or_message b = Inr (norm_result v)"
proof (cases v)
  case (SR_Task t)
  with assms task_roundtrip [of sv t] show ?thesis
    by (auto simp: result_safe_def to_task_or_message_def of_task_or_message_def sum_of_send_def norm_result_def)
next
  case (SR_Message m)
  with assms message_roundtrip [of sv m] show ?thesis
    by (auto simp: result_safe_def to_task_or_message_def of_task_or_message_def sum_of_send_def norm_result_def)
qed

text \<open>A small request for concrete runs.\<close>

definition sample_proto_sent :: sent_params where
  "sample_proto_sent = \<lparr>sp_configuration = base_configuration sample_client_config, sp_message = sample_message, sp_metadata = None\<rparr>"

definition sample_pb_configuration :: pb_SendMessageConfiguration where
  "sample_pb_configuration = \<lparr>pmc_accepted_output_modes = [], pmc_push_notification = None, pmc_history_length = 0, pmc_blocking = True\<rparr>"

lemma sample_proto_sent_ok:
  "message_safe sv (sp_message sample_proto_sent)" "metadata_safe sv (sp_metadata sample_proto_sent)"
  "sent_configuration_proto sample_proto_sent = Inr sample_pb_configuration"
  by (simp_all add: sample_proto_sent_def sample_message_def message_safe_def metadata_safe_def sent_configuration_proto_def
      base_configuration_def sample_client_config_def params_of_def to_send_configuration_def sample_pb_configuration_def)

lemma sample_task_safe: "task_safe sv sample_task"
  by (simp add: sample_task_def plain_status_def task_safe_def status_safe_def metadata_safe_def)

end
