(* ===== verification/GrpcClient.thy ===== *)
theory GrpcClient
  imports GrpcHandler ProtoClient
begin

section \<open>The gRPC client transport (client/transports/grpc.py)\<close>

text \<open>
  \<open>GrpcTransport\<close> converts the parameters, calls the stub and converts the reply. The stub is
  generated code over the grpc library: a record of functions over the server's state, each with the request and the
  extension metadata; \<open>gs_error\<close> is the exception the library raises for a status.
\<close>

record 's grpc_stub =
  gs_SendMessage :: "pb_SendMessageRequest \<Rightarrow> string option \<Rightarrow> 's \<Rightarrow> pb_SendMessageResponse grpc_outcome \<times> 's"
  gs_SendStreamingMessage ::
    "pb_SendMessageRequest \<Rightarrow> string option \<Rightarrow> 's \<Rightarrow> (pb_StreamResponse list \<times> unit grpc_outcome) \<times> 's"
  gs_TaskSubscription :: "string \<Rightarrow> string option \<Rightarrow> 's \<Rightarrow> (pb_StreamResponse list \<times> unit grpc_outcome) \<times> 's"
  gs_GetTask :: "pb_GetTaskRequest \<Rightarrow> string option \<Rightarrow> 's \<Rightarrow> pb_Task grpc_outcome \<times> 's"
  gs_CancelTask :: "string \<Rightarrow> string option \<Rightarrow> 's \<Rightarrow> pb_Task grpc_outcome \<times> 's"
  gs_CreateTaskPushNotificationConfig ::
    "pb_CreateTaskPushNotificationConfigRequest \<Rightarrow> string option \<Rightarrow> 's \<Rightarrow> pb_TaskPushNotificationConfig grpc_outcome \<times> 's"
  gs_GetTaskPushNotificationConfig :: "string \<Rightarrow> string option \<Rightarrow> 's \<Rightarrow> pb_TaskPushNotificationConfig grpc_outcome \<times> 's"
  gs_GetAgentCard :: "string option \<Rightarrow> 's \<Rightarrow> pb_AgentCard grpc_outcome \<times> 's"
  gs_error :: "status_code \<Rightarrow> exn"

record grpc_transport =
  gt_agent_card :: "AgentCard option"
  gt_needs_extended_card :: "bool option"
  gt_extensions :: "string list option"

definition gt_new :: "AgentCard option \<Rightarrow> string list option \<Rightarrow> grpc_transport" where
  "gt_new c extensions =
     \<lparr>gt_agent_card = c,
      gt_needs_extended_card = (case c of None \<Rightarrow> Some True | Some x \<Rightarrow> card_supports_authenticated_extended_card x),
      gt_extensions = extensions\<rparr>"

definition gt_create :: "bool \<Rightarrow> AgentCard \<Rightarrow> string \<Rightarrow> ClientConfig \<Rightarrow> exn + string \<times> grpc_transport" where
  "gt_create has_channel_factory c url cfg =
     (if \<not> has_channel_factory then Inl (ValueErr ''grpc_channel_factory is required when using gRPC'')
      else Inr (url, gt_new (Some c) (Some (cc_extensions cfg))))"

definition get_grpc_metadata :: "string list option \<Rightarrow> grpc_transport \<Rightarrow> string option" where
  "get_grpc_metadata extensions t =
     (case extensions of
        Some exts \<Rightarrow> Some (str_join '','' exts)
      | None \<Rightarrow> (case gt_extensions t of Some exts \<Rightarrow> Some (str_join '','' exts) | None \<Rightarrow> None))"

text \<open>What the caller of the stub awaits.\<close>

fun stub_await :: "(status_code \<Rightarrow> exn) \<Rightarrow> 'a grpc_outcome \<Rightarrow> 'a await" where
  "stub_await err (G_Reply r md) = Done r"
| "stub_await err (G_Abort code t) = Raised (err code)"
| "stub_await err (G_Fail e) = Raised (err UNKNOWN)"
| "stub_await err G_Hang = Blocked"

definition gt_send_message ::
  "'s grpc_stub \<Rightarrow> struct_set \<Rightarrow> sent_params \<Rightarrow> string list option \<Rightarrow> grpc_transport \<times> 's \<Rightarrow>
   (Task + Message) await \<times> grpc_transport \<times> 's" where
  "gt_send_message stub sv request extensions ts =
     (case ts of (t, s) \<Rightarrow>
        (case sent_request sv request of
           Inl e \<Rightarrow> (Raised e, t, s)
         | Inr r \<Rightarrow>
             (let (o1, s') = gs_SendMessage stub r (get_grpc_metadata extensions t) s
              in (convert_await of_task_or_message (stub_await (gs_error stub) o1), t, s'))))"

text \<open>\<open>stream.read()\<close> until the end, each response converted.\<close>

fun read_stream :: "(status_code \<Rightarrow> exn) \<Rightarrow> pb_StreamResponse list \<Rightarrow> unit grpc_outcome \<Rightarrow> Event list \<times> unit await" where
  "read_stream err [] z = ([], stub_await err z)"
| "read_stream err (r # rs) z =
     (case of_stream_response r of
        Inl e \<Rightarrow> ([], Raised e)
      | Inr ev \<Rightarrow> (let (evs, en) = read_stream err rs z in (ev # evs, en)))"

definition gt_send_message_streaming ::
  "'s grpc_stub \<Rightarrow> struct_set \<Rightarrow> sent_params \<Rightarrow> string list option \<Rightarrow> grpc_transport \<times> 's \<Rightarrow>
   (Event list \<times> unit await) \<times> grpc_transport \<times> 's" where
  "gt_send_message_streaming stub sv request extensions ts =
     (case ts of (t, s) \<Rightarrow>
        (case sent_request sv request of
           Inl e \<Rightarrow> (([], Raised e), t, s)
         | Inr r \<Rightarrow>
             (let ((rs, z), s') = gs_SendStreamingMessage stub r (get_grpc_metadata extensions t) s
              in (read_stream (gs_error stub) rs z, t, s'))))"

definition gt_resubscribe ::
  "'s grpc_stub \<Rightarrow> TaskIdParams \<Rightarrow> string list option \<Rightarrow> grpc_transport \<times> 's \<Rightarrow>
   (Event list \<times> unit await) \<times> grpc_transport \<times> 's" where
  "gt_resubscribe stub request extensions ts =
     (case ts of (t, s) \<Rightarrow>
        (let ((rs, z), s') = gs_TaskSubscription stub (tasks_prefix @ tip_id request) (get_grpc_metadata extensions t) s
         in (read_stream (gs_error stub) rs z, t, s')))"

definition gt_get_task ::
  "'s grpc_stub \<Rightarrow> TaskQueryParams \<Rightarrow> string list option \<Rightarrow> grpc_transport \<times> 's \<Rightarrow> Task await \<times> grpc_transport \<times> 's" where
  "gt_get_task stub request extensions ts =
     (case ts of (t, s) \<Rightarrow>
        (case (case tqp_history_length request of None \<Rightarrow> Inr 0 | Some n \<Rightarrow> int32 n) of
           Inl e \<Rightarrow> (Raised e, t, s)
         | Inr n \<Rightarrow>
             (let (o1, s') = gs_GetTask stub \<lparr>pgt_name = tasks_prefix @ tqp_id request, pgt_history_length = n\<rparr>
                               (get_grpc_metadata extensions t) s
              in (convert_await of_task (stub_await (gs_error stub) o1), t, s'))))"

definition gt_cancel_task ::
  "'s grpc_stub \<Rightarrow> TaskIdParams \<Rightarrow> string list option \<Rightarrow> grpc_transport \<times> 's \<Rightarrow> Task await \<times> grpc_transport \<times> 's" where
  "gt_cancel_task stub request extensions ts =
     (case ts of (t, s) \<Rightarrow>
        (let (o1, s') = gs_CancelTask stub (tasks_prefix @ tip_id request) (get_grpc_metadata extensions t) s
         in (convert_await of_task (stub_await (gs_error stub) o1), t, s')))"

definition gt_set_task_callback ::
  "'s grpc_stub \<Rightarrow> TaskPushNotificationConfig \<Rightarrow> string list option \<Rightarrow> grpc_transport \<times> 's \<Rightarrow>
   TaskPushNotificationConfig await \<times> grpc_transport \<times> 's" where
  "gt_set_task_callback stub request extensions ts =
     (case ts of (t, s) \<Rightarrow>
        (let (o1, s') = gs_CreateTaskPushNotificationConfig stub
               \<lparr>pcr_parent = tasks_prefix @ tpnc_task_id request,
                pcr_config_id = or_else (pnc_id (tpnc_push_notification_config request)) [],
                pcr_config = to_task_push_config request\<rparr> (get_grpc_metadata extensions t) s
         in (convert_await of_task_push_config (stub_await (gs_error stub) o1), t, s')))"

definition gt_get_task_callback ::
  "'s grpc_stub \<Rightarrow> GetTaskPushNotificationConfigParams \<Rightarrow> string list option \<Rightarrow> grpc_transport \<times> 's \<Rightarrow>
   TaskPushNotificationConfig await \<times> grpc_transport \<times> 's" where
  "gt_get_task_callback stub request extensions ts =
     (case ts of (t, s) \<Rightarrow>
        (let (o1, s') = gs_GetTaskPushNotificationConfig stub
               (tasks_prefix @ gtp_id request @ push_infix @ str_of_option (gtp_push_notification_config_id request))
               (get_grpc_metadata extensions t) s
         in (convert_await of_task_push_config (stub_await (gs_error stub) o1), t, s')))"

definition gt_get_card ::
  "'s grpc_stub \<Rightarrow> string list option \<Rightarrow> (AgentCard \<Rightarrow> exn option) option \<Rightarrow> grpc_transport \<times> 's \<Rightarrow>
   AgentCard await \<times> grpc_transport \<times> 's" where
  "gt_get_card stub extensions verifier ts =
     (case ts of (t, s) \<Rightarrow>
        if gt_needs_extended_card t \<noteq> Some True
        then ((case gt_agent_card t of Some c \<Rightarrow> Done c | None \<Rightarrow> Raised (ValueErr ''Agent card is not available.'')), t, s)
        else
          (let (o1, s') = gs_GetAgentCard stub (get_grpc_metadata extensions t) s
           in case convert_await of_card (stub_await (gs_error stub) o1) of
                Done c \<Rightarrow>
                  (case (case verifier of None \<Rightarrow> None | Some verify \<Rightarrow> verify c) of
                     Some x \<Rightarrow> (Raised x, t, s')
                   | None \<Rightarrow> (Done c, t\<lparr>gt_agent_card := Some c, gt_needs_extended_card := Some False\<rparr>, s'))
              | r \<Rightarrow> (r, t, s')))"

definition grpc_client_transport :: "'s grpc_stub \<Rightarrow> struct_set \<Rightarrow> (grpc_transport \<times> 's) client_transport" where
  "grpc_client_transport stub sv =
     \<lparr>ct_send_message = gt_send_message stub sv, ct_send_message_streaming = gt_send_message_streaming stub sv,
      ct_get_task = gt_get_task stub, ct_cancel_task = gt_cancel_task stub,
      ct_set_task_callback = gt_set_task_callback stub, ct_get_task_callback = gt_get_task_callback stub,
      ct_resubscribe = gt_resubscribe stub, ct_get_card = gt_get_card stub, ct_close = (\<lambda>ts. (Done (), ts))\<rparr>"

subsection \<open>An SDK server behind the stub\<close>

definition grpc_service ::
  "grpc_env \<Rightarrow> grpc_handler \<Rightarrow> 's request_handler \<Rightarrow> (status_code \<Rightarrow> exn) \<Rightarrow> 's grpc_stub" where
  "grpc_service ge h rh err =
     \<lparr>gs_SendMessage = (\<lambda>r md. grpc_SendMessage ge rh r),
      gs_SendStreamingMessage = (\<lambda>r md. grpc_SendStreamingMessage ge h rh r),
      gs_TaskSubscription = (\<lambda>n md. grpc_TaskSubscription ge h rh n),
      gs_GetTask = (\<lambda>r md. grpc_GetTask ge rh r), gs_CancelTask = (\<lambda>n md. grpc_CancelTask ge rh n),
      gs_CreateTaskPushNotificationConfig = (\<lambda>r md. grpc_CreateTaskPushNotificationConfig ge h rh r),
      gs_GetTaskPushNotificationConfig = (\<lambda>n md. grpc_GetTaskPushNotificationConfig ge rh n),
      gs_GetAgentCard = (\<lambda>md s. (grpc_GetAgentCard ge h, s)), gs_error = err\<rparr>"

lemma stub_await_error [simp]: "stub_await err (grpc_error ge e) = Raised (err (error_status e))"
  unfolding grpc_error_report
  by (cases "(ge_error_text ge, e)" rule: error_report.cases) (auto simp: error_status_def split: option.split)

lemma grpc_message_law:
  assumes "message_safe sv (sp_message p)" and "metadata_safe sv (sp_metadata p)" and "sent_configuration_proto p = Inr c"
    and "ge_context ge = Inr call" and "ge_struct ge = sv"
    and "rh_message_send rh (arrived_params p c) call s = (res, s')"
    and "\<And>v. res = Done v \<Longrightarrow> result_safe sv v"
  shows "gt_send_message (grpc_service ge h rh err) sv p extensions (t, s) =
           ((case res of
               Done v \<Rightarrow> Done (norm_result v)
             | Blocked \<Rightarrow> Blocked
             | Raised e \<Rightarrow> Raised (err (error_status e))), t, s')"
proof -
  obtain r where r: "sent_request sv p = Inr r" "of_send_params r = Inr (arrived_params p c)"
    using sent_request_arrives [OF assms(1-3)] by blast
  have served: "grpc_SendMessage ge rh r s =
      (grpc_finish ge (extension_metadata (ge_activated ge)) (\<lambda>v. to_task_or_message sv (sum_of_send v)) res, s')"
    using r(2) assms(4-6) by (simp add: grpc_SendMessage_def grpc_start_def)
  show ?thesis
  proof (cases res)
    case (Done v)
    with assms(7) result_roundtrip obtain b where
      "to_task_or_message sv (sum_of_send v) = Inr b" "of_task_or_message b = Inr (norm_result v)" by blast
    with r(1) served Done show ?thesis by (simp add: gt_send_message_def grpc_service_def grpc_finish_def)
  qed (use r(1) served in \<open>simp_all add: gt_send_message_def grpc_service_def grpc_finish_def\<close>)
qed

text \<open>
  A message over gRPC from end to end: the server's request handler is called with the normal form of
  the message and a configuration whose missing fields are filled in, and the client gets the normal form of what
  the handler returned; an exception of the handler arrives as the status of its error kind and nothing else of it.
\<close>

theorem message_over_grpc:
  assumes "message_safe sv (sp_message p)" and "metadata_safe sv (sp_metadata p)" and "sent_configuration_proto p = Inr c"
    and "ge_context ge = Inr call" and "ge_struct ge = sv"
    and "rh_message_send rh (arrived_params p c) call s = (res, s')"
    and "\<And>v. res = Done v \<Longrightarrow> result_safe sv v"
  shows "gt_send_message (grpc_service ge h rh err) sv p extensions (t, s) =
           ((case res of
               Done v \<Rightarrow> Done (norm_result v)
             | Blocked \<Rightarrow> Blocked
             | Raised e \<Rightarrow> Raised (err (error_status e))), t, s')"
  by (rule grpc_message_law [OF assms])

text \<open>The stream, and its end.\<close>

definition stub_end :: "(status_code \<Rightarrow> exn) \<Rightarrow> unit await \<Rightarrow> unit await" where
  "stub_end err en = (case en of Done u \<Rightarrow> Done () | Blocked \<Rightarrow> Blocked | Raised e \<Rightarrow> Raised (err (error_status e)))"

lemma read_grpc_events:
  assumes "list_all (event_safe (ge_struct ge)) evs"
  shows "(let (rs, z) = grpc_events ge md evs en in read_stream err rs z) = (map norm_event evs, stub_end err en)"
  using assms
proof (induction evs)
  case Nil
  show ?case by (cases en) (simp_all add: stub_end_def)
next
  case (Cons ev evs)
  from Cons.prems stream_response_roundtrip [of "ge_struct ge" ev] obtain b where
    "to_stream_response (ge_struct ge) ev = Inr b" "of_stream_response b = Inr (norm_event ev)" by auto
  with Cons show ?case by (simp add: Let_def split: prod.splits)
qed

text \<open>
  A streamed message over gRPC: the client gets the normal form of every event that the server's
  request handler yielded, in order, and the stream ends as the handler ended it, an exception as the status of its kind.
\<close>

theorem stream_over_grpc:
  assumes "message_safe sv (sp_message p)" and "metadata_safe sv (sp_metadata p)" and "sent_configuration_proto p = Inr c"
    and "ge_context ge = Inr call" and "ge_struct ge = sv"
    and "cap_streaming (card_capabilities (gh_agent_card h)) = Some True"
    and "rh_message_send_stream rh (arrived_params p c) call s = ((evs, en), s')" and "list_all (event_safe sv) evs"
  shows "gt_send_message_streaming (grpc_service ge h rh err) sv p extensions (t, s) =
           ((map norm_event evs, stub_end err en), t, s')"
proof -
  obtain r where r: "sent_request sv p = Inr r" "of_send_params r = Inr (arrived_params p c)"
    using sent_request_arrives [OF assms(1-3)] by blast
  obtain rs z where g: "grpc_events ge (extension_metadata (ge_activated ge)) evs en = (rs, z)" by fastforce
  with read_grpc_events [of ge evs "extension_metadata (ge_activated ge)" en err] assms(5,8)
  have "read_stream err rs z = (map norm_event evs, stub_end err en)" by simp
  with r assms(4,6,7) g show ?thesis
    by (simp add: gt_send_message_streaming_def grpc_service_def grpc_SendStreamingMessage_def)
qed

text \<open>
  A caller that gives \<open>BaseClient.send_message\<close> a push notification configuration of its own cannot use gRPC: the
  merged configuration holds it as a dictionary, the conversion asks the dictionary for an attribute, and the call fails
  before anything is sent. Over JSON-RPC the same call sends the configuration.
\<close>

theorem own_push_config_fails_over_grpc:
  assumes "bc_transport bc = grpc_client_transport stub sv" and "gc_push_notification_config g = Some (Some pc)"
    and "to_message sv m = Inr b"
  shows "(\<exists>x. bc_send_message bc m (Some g) md exts w = (([], Raised (AttributeErr x)), w)) \<and>
         Option.bind (msp_configuration (params_of (send_params bc m (Some g) md))) msc_push_notification_config = Some pc"
proof -
  let ?p = "send_params bc m (Some g) md"
  obtain x where x: "sent_configuration_proto ?p = Inl (AttributeErr x)"
    using assms(2) by (simp add: sent_configuration_proto_def send_params_def merge_configuration_def)
  have "sp_message ?p = m" by (simp add: send_params_def)
  with x assms(3) have "sent_request sv ?p = Inl (AttributeErr x)" by (simp add: sent_request_def)
  then have "bc_send_message bc m (Some g) md exts w = (([], Raised (AttributeErr x)), w)"
    by (cases w; cases "st w")
       (simp add: bc_send_message_def Let_def on_transport_def assms(1) grpc_client_transport_def gt_send_message_def
          gt_send_message_streaming_def consume_stream_def)
  moreover have "Option.bind (msp_configuration (params_of ?p)) msc_push_notification_config = Some pc"
    using assms(2) by (simp add: params_of_def send_params_def merge_configuration_def)
  ultimately show ?thesis by blast
qed

subsection \<open>Concrete runs\<close>

definition sample_status_error :: "status_code \<Rightarrow> exn" where
  "sample_status_error code = OtherException (if code = NOT_FOUND then ''not found'' else ''other'')"

definition sample_grpc_handler :: grpc_handler where
  "sample_grpc_handler = \<lparr>gh_agent_card = sample_card (Some True), gh_card_modifier = None\<rparr>"

theorem message_over_grpc_witness:
  "gt_send_message (grpc_service sample_grpc_env sample_grpc_handler sample_rh sample_status_error) (\<lambda>v. Inr v) sample_proto_sent None
     (gt_new None None, ()) = (Done (Inl (norm_task sample_task)), gt_new None None, ())"
proof -
  have "rh_message_send sample_rh p call () = (Done (SR_Task sample_task), ())" for p call
    by (simp add: sample_rh_def)
  from message_over_grpc [OF sample_proto_sent_ok _ _ this, where sv = "\<lambda>v. Inr v" and ge = sample_grpc_env and h = sample_grpc_handler and
      err = sample_status_error and extensions = None and t = "gt_new None None"]
  show ?thesis by (simp add: sample_grpc_env_def result_safe_def sample_task_safe norm_result_def)
qed

theorem stream_over_grpc_witness:
  "gt_send_message_streaming (grpc_service sample_grpc_env sample_grpc_handler
       (sample_rh\<lparr>rh_message_send_stream := \<lambda>p call s. (([EvTask sample_task], Raised (raise_server TaskNotFoundError)), s)\<rparr>)
       sample_status_error) (\<lambda>v. Inr v) sample_proto_sent None (gt_new None None, ()) =
     (([EvTask (norm_task sample_task)], Raised (OtherException ''not found'')), gt_new None None, ())"
proof -
  let ?rh = "sample_rh\<lparr>rh_message_send_stream := \<lambda>p call s. (([EvTask sample_task], Raised (raise_server TaskNotFoundError)), s)\<rparr>"
  have "rh_message_send_stream ?rh p call () = (([EvTask sample_task], Raised (raise_server TaskNotFoundError)), ())" for p call
    by simp
  from stream_over_grpc [OF sample_proto_sent_ok _ _ _ this, where sv = "\<lambda>v. Inr v" and ge = sample_grpc_env and h = sample_grpc_handler and
      err = sample_status_error and extensions = None and t = "gt_new None None"]
  show ?thesis
    by (simp add: sample_grpc_env_def sample_grpc_handler_def sample_card_def sample_task_safe stub_end_def error_status_def code_table_def
        error_class_defs sample_status_error_def)
qed

theorem own_push_config_fails_over_grpc_witness:
  "\<exists>(bc :: (grpc_transport \<times> unit) base_client) x. streams bc \<and>
     bc_send_message bc sample_message (Some \<lparr>gc_accepted_output_modes = None, gc_blocking = None, gc_history_length = None,
         gc_push_notification_config = Some (Some (sample_config None ''u''))\<rparr>) None None \<lparr>heap = [], st = (gt_new None None, ())\<rparr> =
       (([], Raised (AttributeErr x)), \<lparr>heap = [], st = (gt_new None None, ())\<rparr>)"
proof -
  let ?stub = "grpc_service sample_grpc_env sample_grpc_handler sample_rh
      sample_status_error"
  let ?bc = "\<lparr>bc_card = sample_card (Some True), bc_config = sample_client_config,
     bc_transport = grpc_client_transport ?stub (\<lambda>v. Inr v), bc_consumers = []\<rparr>"
  let ?g = "\<lparr>gc_accepted_output_modes = None, gc_blocking = None, gc_history_length = None,
         gc_push_notification_config = Some (Some (sample_config None ''u''))\<rparr>"
  obtain b where b: "to_message (\<lambda>v. Inr v) sample_message = Inr b"
    by (simp add: to_message_def sample_message_def to_metadata_def)
  from own_push_config_fails_over_grpc [of ?bc ?stub "\<lambda>v. Inr v" ?g "sample_config None ''u''" sample_message b None None
      "\<lparr>heap = [], st = (gt_new None None, ())\<rparr>"] b
  obtain x where "bc_send_message ?bc sample_message (Some ?g) None None \<lparr>heap = [], st = (gt_new None None, ())\<rparr> =
       (([], Raised (AttributeErr x)), \<lparr>heap = [], st = (gt_new None None, ())\<rparr>)" by auto
  moreover have "streams ?bc" by (simp add: streams_def sample_client_config_def sample_card_def)
  ultimately show ?thesis by blast
qed

end
