(* ===== verification/PyNumbers.thy ===== *)
theory PyNumbers
  imports Prelude
begin

section \<open>Decimal text: int() and str() of Python\<close>

text \<open>
  \<open>int(text)\<close> and \<open>str(number)\<close> of Python over Latin-1 text, as the REST handler and the integer
  helpers use them: white space around the number, one sign, digits with single underscores between them,
  and at most 4300 digits either way. \<open>None\<close> stands for the \<open>ValueError\<close>.
\<close>

definition is_digit :: "char \<Rightarrow> bool" where
  "is_digit c \<longleftrightarrow> 48 \<le> (of_char c :: nat) \<and> (of_char c :: nat) \<le> 57"

definition digit_value :: "char \<Rightarrow> int" where
  "digit_value c = of_char c - 48"

definition int_space :: "char \<Rightarrow> bool" where
  "int_space c \<longleftrightarrow> c \<in> {CHR '' '', CHR 0x09, CHR 0x0A, CHR 0x0B, CHR 0x0C, CHR 0x0D, CHR 0x85, CHR 0xA0}"

definition int_strip :: "string \<Rightarrow> string" where
  "int_strip s = rev (dropWhile int_space (rev (dropWhile int_space s)))"

fun read_digits :: "int \<Rightarrow> string \<Rightarrow> int option" where
  "read_digits acc [] = Some acc"
| "read_digits acc (c # cs) =
     (if is_digit c then read_digits (10 * acc + digit_value c) cs
      else if c = CHR ''_'' \<and> cs \<noteq> [] \<and> is_digit (hd cs) then read_digits acc cs
      else None)"

definition max_str_digits :: nat where
  "max_str_digits = 4300"

definition digits_int :: "string \<Rightarrow> int option" where
  "digits_int s =
     (if s = [] \<or> \<not> is_digit (hd s) \<or> length (filter is_digit s) > max_str_digits then None else read_digits 0 s)"

definition py_int :: "string \<Rightarrow> int option" where
  "py_int s =
     (case int_strip s of
        [] \<Rightarrow> None
      | c # cs \<Rightarrow>
          if c = CHR ''-'' then map_option uminus (digits_int cs)
          else if c = CHR ''+'' then digits_int cs
          else digits_int (c # cs))"

text \<open>\<open>str(n)\<close>\<close>

definition py_str :: "int \<Rightarrow> string option" where
  "py_str n = (if length (nat_str (nat \<bar>n\<bar>)) > max_str_digits then None else Some (int_str n))"

subsection \<open>Lemmas\<close>

lemma of_char_digit: "d < 10 \<Longrightarrow> (of_char (digit d) :: nat) = 48 + d"
  by (simp add: digit_def)

lemma is_digit_digit [simp]: "d < 10 \<Longrightarrow> is_digit (digit d)"
  by (simp add: is_digit_def of_char_digit)

lemma digit_value_digit [simp]: "d < 10 \<Longrightarrow> digit_value (digit d) = int d"
proof -
  assume "d < 10"
  then have "(of_char (digit d) :: int) = int (48 + d)"
    using of_char_digit by (metis of_nat_of_char)
  then show ?thesis by (simp add: digit_value_def)
qed

lemma nat_str_step: "nat_str n = (if n < 10 then [digit n] else nat_str (n div 10) @ [digit (n mod 10)])"
  by (rule nat_str.simps)

lemma nat_str_not_Nil [simp]: "nat_str n \<noteq> []"
  by (subst nat_str_step) simp

lemma nat_str_digits: "list_all is_digit (nat_str n)"
proof (induction n rule: nat_str.induct)
  case (1 n)
  then show ?case by (subst nat_str_step) simp
qed

lemma nat_str_digit_set: "c \<in> set (nat_str n) \<Longrightarrow> is_digit c"
  using nat_str_digits [of n] by (simp add: list_all_iff)

lemma filter_digits_nat_str [simp]: "filter is_digit (nat_str n) = nat_str n"
  by (simp add: nat_str_digit_set filter_id_conv)

lemma hd_nat_str [simp]: "is_digit (hd (nat_str n))"
  using nat_str_digit_set [of "hd (nat_str n)" n] by simp

lemma read_digits_append:
  "list_all is_digit ds \<Longrightarrow> read_digits acc (ds @ [c]) = Option.bind (read_digits acc ds) (\<lambda>v. read_digits v [c])"
  by (induction ds arbitrary: acc) simp_all

lemma read_digits_nat_str: "read_digits 0 (nat_str n) = Some (int n)"
proof (induction n rule: nat_str.induct)
  case (1 n)
  then show ?case
    using nat_str_digits [of "n div 10"]
    by (subst nat_str_step) (simp add: read_digits_append zdiv_int [symmetric] zmod_int [symmetric], presburger?)
qed

lemma digits_int_nat_str: "length (nat_str n) \<le> max_str_digits \<Longrightarrow> digits_int (nat_str n) = Some (int n)"
  by (simp add: digits_int_def read_digits_nat_str)

lemma digit_not_space: "is_digit c \<Longrightarrow> \<not> int_space c"
  by (auto simp: is_digit_def int_space_def)

lemma int_strip_no_space:
  assumes "s \<noteq> []" and "\<not> int_space (hd s)" and "\<not> int_space (last s)"
  shows "int_strip s = s"
proof -
  have "dropWhile int_space s = s" using assms(2) by (simp add: dropWhile_eq_self_iff)
  moreover have "dropWhile int_space (rev s) = rev s" using assms(1,3) by (simp add: dropWhile_eq_self_iff hd_rev)
  ultimately show ?thesis by (simp add: int_strip_def)
qed

lemma last_nat_str_digit: "is_digit (last (nat_str n))"
  using nat_str_digit_set [of "last (nat_str n)" n] by simp

lemma minus_not_space: "\<not> int_space (CHR ''-'')"
  by (simp add: int_space_def)

lemma int_strip_int_str [simp]: "int_strip (int_str n) = int_str n"
  by (rule int_strip_no_space)
     (simp_all add: int_str_def digit_not_space last_nat_str_digit minus_not_space)

lemma hd_digit_not_sign: "nat_str n = c # cs \<Longrightarrow> c \<noteq> CHR ''-'' \<and> c \<noteq> CHR ''+''"
  using hd_nat_str [of n] by (auto simp: is_digit_def)

text \<open>\<open>int\<close> reads what \<open>str\<close> writes.\<close>

lemma py_int_py_str: "py_str n = Some s \<Longrightarrow> py_int s = Some n"
proof -
  assume "py_str n = Some s"
  then have len: "length (nat_str (nat \<bar>n\<bar>)) \<le> max_str_digits" and s: "s = int_str n"
    by (simp_all add: py_str_def split: if_splits)
  show ?thesis
  proof (cases "n < 0")
    case True
    with len s digits_int_nat_str [of "nat \<bar>n\<bar>"] show ?thesis by (simp add: py_int_def) (simp add: int_str_def)
  next
    case False
    obtain c cs where c: "nat_str (nat n) = c # cs" by (cases "nat_str (nat n)") auto
    with False len digits_int_nat_str [of "nat n"] hd_digit_not_sign [OF c] s show ?thesis
      by (simp add: py_int_def) (simp add: int_str_def)
  qed
qed

text \<open>Numbers with few digits have text.\<close>

lemma nat_str_length: "n < 10 ^ Suc k \<Longrightarrow> length (nat_str n) \<le> Suc k"
proof (induction k arbitrary: n)
  case 0
  then show ?case by (subst nat_str_step) simp
next
  case (Suc k)
  have "n div 10 < 10 ^ Suc k" using Suc.prems by (simp add: div_less_iff_less_mult mult.commute)
  from Suc.IH [OF this] show ?case by (subst nat_str_step) simp
qed

end
