(* ===== verification/RestHandler.thy ===== *)
theory RestHandler
  imports ProtoRequests PyNumbers
begin

section \<open>The REST server (rest_handler.py, apps/rest/rest_adapter.py, utils/error_handlers.py)\<close>

text \<open>
  \<open>RESTAdapter\<close> routes a request to a method of \<open>RESTHandler\<close>, which parses the body into the protobuf request, calls the
  request handler and dumps the protobuf of the result; a decorator turns errors into status codes. Starlette and the JSON
  form of protobuf messages are not part of the SDK: a request is a record of what the code reads from it, and
  \<open>pb_json\<close> is the record of the conversion functions.
\<close>

record pb_json =
  pj_read_send :: "pyval \<Rightarrow> exn + pb_SendMessageRequest"
  pj_read_create :: "pyval \<Rightarrow> exn + pb_CreateTaskPushNotificationConfigRequest"
  pj_read_response :: "pyval \<Rightarrow> exn + pb_SendMessageResponse"
  pj_read_stream :: "pyval \<Rightarrow> exn + pb_StreamResponse"
  pj_read_task :: "pyval \<Rightarrow> exn + pb_Task"
  pj_read_config :: "pyval \<Rightarrow> exn + pb_TaskPushNotificationConfig"
  pj_send :: "pb_SendMessageRequest \<Rightarrow> exn + pyval"
  pj_create :: "pb_CreateTaskPushNotificationConfigRequest \<Rightarrow> exn + pyval"
  pj_response :: "pb_SendMessageResponse \<Rightarrow> exn + pyval"
  pj_stream :: "pb_StreamResponse \<Rightarrow> exn + pyval"
  pj_task :: "pb_Task \<Rightarrow> exn + pyval"
  pj_config :: "pb_TaskPushNotificationConfig \<Rightarrow> exn + pyval"
  pj_card :: "AgentCard \<Rightarrow> pyval"
  pj_struct :: struct_set

text \<open>
  \<open>await request.body()\<close> may raise; a text that is not JSON makes the parser raise. The path parameters and the query are
  those that the router found; \<open>rr_context\<close> is what the context builder makes of the request.
\<close>

datatype rest_body = Rest_Body pyval | Rest_NotJson exn | Rest_NoBody exn

record rest_request =
  rr_body :: rest_body
  rr_id :: string
  rr_push_id :: string
  rr_history_length :: "string option"
  rr_context :: "exn + ServerCallContext"

text \<open>The body, parsed into a request message.\<close>

definition parse_body :: "(pyval \<Rightarrow> exn + 'm) \<Rightarrow> rest_request \<Rightarrow> exn + 'm" where
  "parse_body read request =
     (case rr_body request of Rest_NoBody e \<Rightarrow> Inl e | Rest_NotJson e \<Rightarrow> Inl e | Rest_Body v \<Rightarrow> read v)"

subsection \<open>The handler\<close>

text \<open>Parameters that may raise, then a call of the request handler, then a conversion of its result.\<close>

definition rest_call ::
  "(exn + 'p) \<Rightarrow> ('p \<Rightarrow> 's \<Rightarrow> 'a await \<times> 's) \<Rightarrow> ('a \<Rightarrow> exn + pyval) \<Rightarrow> 's \<Rightarrow> pyval await \<times> 's" where
  "rest_call params call convert s =
     (case params of
        Inl e \<Rightarrow> (Raised e, s)
      | Inr p \<Rightarrow> (let (r, s') = call p s in (convert_await convert r, s')))"

definition rest_message_send ::
  "pb_json \<Rightarrow> 's request_handler \<Rightarrow> rest_request \<Rightarrow> ServerCallContext \<Rightarrow> 's \<Rightarrow> pyval await \<times> 's" where
  "rest_message_send pj rh request context =
     rest_call (res_bind (parse_body (pj_read_send pj) request) of_send_params)
       (\<lambda>p. rh_message_send rh p context)
       (\<lambda>v. res_bind (to_task_or_message (pj_struct pj) (sum_of_send v)) (pj_response pj))"

text \<open>\<open>if task: ... raise ServerError(error=TaskNotFoundError())\<close>\<close>

definition rest_task :: "pb_json \<Rightarrow> Task option \<Rightarrow> exn + pyval" where
  "rest_task pj t =
     (case t of
        None \<Rightarrow> Inl (raise_server TaskNotFoundError)
      | Some x \<Rightarrow> res_bind (to_task (pj_struct pj) x) (pj_task pj))"

definition rest_cancel_task ::
  "pb_json \<Rightarrow> 's request_handler \<Rightarrow> rest_request \<Rightarrow> ServerCallContext \<Rightarrow> 's \<Rightarrow> pyval await \<times> 's" where
  "rest_cancel_task pj rh request context =
     rest_call (Inr \<lparr>tip_id = rr_id request, tip_metadata = None\<rparr>) (\<lambda>p. rh_cancel_task rh p context) (rest_task pj)"

text \<open>\<open>int(history_length_str) if history_length_str else None\<close>\<close>

definition rest_history_length :: "string option \<Rightarrow> exn + int option" where
  "rest_history_length q =
     (if truthy q
      then (case py_int (the q) of
              None \<Rightarrow> Inl (ValueErr (''invalid literal for int() with base 10: '' @ the q))
            | Some n \<Rightarrow> Inr (Some n))
      else Inr None)"

definition rest_get_task ::
  "pb_json \<Rightarrow> 's request_handler \<Rightarrow> rest_request \<Rightarrow> ServerCallContext \<Rightarrow> 's \<Rightarrow> pyval await \<times> 's" where
  "rest_get_task pj rh request context =
     rest_call (res_bind (rest_history_length (rr_history_length request)) (\<lambda>n.
                  Inr \<lparr>tqp_history_length = n, tqp_id = rr_id request, tqp_metadata = None\<rparr>))
       (\<lambda>p. rh_get_task rh p context) (rest_task pj)"

definition rest_get_push ::
  "pb_json \<Rightarrow> 's request_handler \<Rightarrow> rest_request \<Rightarrow> ServerCallContext \<Rightarrow> 's \<Rightarrow> pyval await \<times> 's" where
  "rest_get_push pj rh request context =
     rest_call (Inr \<lparr>gtp_id = rr_id request, gtp_metadata = None, gtp_push_notification_config_id = Some (rr_push_id request)\<rparr>)
       (\<lambda>p. rh_get_config rh (GCP_Config p) context) (\<lambda>c. pj_config pj (to_task_push_config c))"

text \<open>The decorator \<open>validate\<close>, then the body; the task id is the one of the path, whatever the body says.\<close>

definition rest_set_push ::
  "pb_json \<Rightarrow> AgentCard \<Rightarrow> 's request_handler \<Rightarrow> rest_request \<Rightarrow> ServerCallContext \<Rightarrow> 's \<Rightarrow> pyval await \<times> 's" where
  "rest_set_push pj c rh request context s =
     (if cap_push_notifications (card_capabilities c) \<noteq> Some True
      then (Raised (server_err UnsupportedOperationError ''Push notifications are not supported by the agent''), s)
      else rest_call (res_bind (parse_body (pj_read_create pj) request) (\<lambda>m.
                        res_bind (of_create_config m) (\<lambda>p. Inr (p\<lparr>tpnc_task_id := rr_id request\<rparr>))))
             (\<lambda>p. rh_set_config rh p context) (\<lambda>cfg. pj_config pj (to_task_push_config cfg)) s)"

text \<open>The two lists are not implemented.\<close>

definition rest_list_push :: "pyval await" where
  "rest_list_push = Raised (NotImplementedErr ''list notifications not implemented'')"

definition rest_list_tasks :: "pyval await" where
  "rest_list_tasks = Raised (NotImplementedErr ''list tasks not implemented'')"

text \<open>The events of a stream, dumped one by one.\<close>

fun rest_events :: "pb_json \<Rightarrow> Event list \<Rightarrow> unit await \<Rightarrow> pyval list \<times> unit await" where
  "rest_events pj [] en = ([], en)"
| "rest_events pj (ev # evs) en =
     (case res_bind (to_stream_response (pj_struct pj) ev) (pj_stream pj) of
        Inl e \<Rightarrow> ([], Raised e)
      | Inr v \<Rightarrow> (let (vs, z) = rest_events pj evs en in (v # vs, z)))"

definition rest_message_stream ::
  "pb_json \<Rightarrow> 's request_handler \<Rightarrow> rest_request \<Rightarrow> ServerCallContext \<Rightarrow> 's \<Rightarrow> (pyval list \<times> unit await) \<times> 's" where
  "rest_message_stream pj rh request context s =
     (case res_bind (parse_body (pj_read_send pj) request) of_send_params of
        Inl e \<Rightarrow> (([], Raised e), s)
      | Inr p \<Rightarrow> (let ((evs, en), s') = rh_message_send_stream rh p context s in (rest_events pj evs en, s')))"

definition rest_resubscribe ::
  "pb_json \<Rightarrow> 's request_handler \<Rightarrow> rest_request \<Rightarrow> ServerCallContext \<Rightarrow> 's \<Rightarrow> (pyval list \<times> unit await) \<times> 's" where
  "rest_resubscribe pj rh request context s =
     (let ((evs, en), s') = rh_resubscribe rh \<lparr>tip_id = rr_id request, tip_metadata = None\<rparr> context s
      in (rest_events pj evs en, s'))"

subsection \<open>Errors as status codes\<close>

fun http_status :: "error_kind \<Rightarrow> int" where
  "http_status K_JSONParseError = 400"
| "http_status K_InvalidRequestError = 400"
| "http_status K_MethodNotFoundError = 404"
| "http_status K_InvalidParamsError = 422"
| "http_status K_InternalError = 500"
| "http_status K_TaskNotFoundError = 404"
| "http_status K_TaskNotCancelableError = 409"
| "http_status K_PushNotificationNotSupportedError = 501"
| "http_status K_UnsupportedOperationError = 501"
| "http_status K_ContentTypeNotSupportedError = 415"
| "http_status K_InvalidAgentResponseError = 502"
| "http_status K_AuthenticatedExtendedCardNotConfiguredError = 404"
| "http_status K_JSONRPCError = 500"

text \<open>A JSON document with its status, an event stream, an exception that leaves the endpoint, or no answer.\<close>

datatype rest_reply =
    Rest_Json int pyval
  | Rest_Stream "pyval list" "unit await"
  | Rest_Raise exn
  | Rest_Hang

definition message_json :: "pyval \<Rightarrow> pyval" where
  "message_json m = PyDict [(''message'', m)]"

definition reason_unknown :: rpc_error where
  "reason_unknown = InternalError\<lparr>err_message := Some ''Internal error due to unknown reason''\<rparr>"

text \<open>
  \<open>rest_error_handler\<close>. A \<open>ServerError\<close> that carries a string fails once more when its code is logged, unless the string
  is empty; \<open>CancelledError\<close> is not an \<open>Exception\<close>.
\<close>

definition rest_error_handler :: "exn \<Rightarrow> rest_reply" where
  "rest_error_handler e =
     (case e of
        ServerError x \<Rightarrow>
          (let err = (case x of None \<Rightarrow> reason_unknown | Some y \<Rightarrow> y)
           in Rest_Json (http_status (err_kind err))
                (message_json (case err_message err of None \<Rightarrow> PyNone | Some t \<Rightarrow> PyStr t)))
      | ServerErrorStr t \<Rightarrow>
          (if t = [] then Rest_Json 500 (message_json (PyStr ''Internal error due to unknown reason''))
           else Rest_Raise (AttributeErr ([CHR 0x27] @ ''str'' @ [CHR 0x27] @ '' object has no attribute '' @
                                          [CHR 0x27] @ ''code'' @ [CHR 0x27])))
      | CancelledError t \<Rightarrow> Rest_Raise e
      | _ \<Rightarrow> Rest_Json 500 (message_json (PyStr ''unknown exception'')))"

text \<open>\<open>rest_stream_error_handler\<close> logs and raises again; logging the code of a string raises instead.\<close>

definition rest_stream_error_handler :: "exn \<Rightarrow> rest_reply" where
  "rest_stream_error_handler e =
     (case e of
        ServerErrorStr t \<Rightarrow> (if t = [] then Rest_Raise e else rest_error_handler e)
      | _ \<Rightarrow> Rest_Raise e)"

subsection \<open>The adapter\<close>

record rest_app =
  ra_agent_card :: AgentCard
  ra_extended_agent_card :: "AgentCard option"
  ra_card_modifier :: "(AgentCard \<Rightarrow> AgentCard) option"
  ra_extended_card_modifier :: "(AgentCard \<Rightarrow> ServerCallContext \<Rightarrow> AgentCard) option"

definition rest_handle_request ::
  "(ServerCallContext \<Rightarrow> 's \<Rightarrow> pyval await \<times> 's) \<Rightarrow> rest_request \<Rightarrow> 's \<Rightarrow> rest_reply \<times> 's" where
  "rest_handle_request method request s =
     (case rr_context request of
        Inl e \<Rightarrow> (rest_error_handler e, s)
      | Inr context \<Rightarrow>
          (case method context s of
             (Done v, s') \<Rightarrow> (Rest_Json 200 v, s')
           | (Blocked, s') \<Rightarrow> (Rest_Hang, s')
           | (Raised e, s') \<Rightarrow> (rest_error_handler e, s')))"

text \<open>
  The body is read before the stream starts; only \<open>ValueError\<close>, \<open>RuntimeError\<close> (with its
  subclass \<open>NotImplementedError\<close>) and \<open>OSError\<close>, which the model does not single out, become an invalid request. A generator
  method with a guard raises when it is called, before any response has started.
\<close>

definition body_failure :: "exn \<Rightarrow> exn" where
  "body_failure e =
     (case e of
        ValueErr t \<Rightarrow> server_err InvalidRequestError (''Failed to pre-consume request body: '' @ t)
      | RuntimeErr t \<Rightarrow> server_err InvalidRequestError (''Failed to pre-consume request body: '' @ t)
      | NotImplementedErr t \<Rightarrow> server_err InvalidRequestError (''Failed to pre-consume request body: '' @ t)
      | _ \<Rightarrow> e)"

definition rest_handle_streaming ::
  "exn option \<Rightarrow> (ServerCallContext \<Rightarrow> 's \<Rightarrow> (pyval list \<times> unit await) \<times> 's) \<Rightarrow> rest_request \<Rightarrow> 's \<Rightarrow> rest_reply \<times> 's" where
  "rest_handle_streaming guard_error method request s =
     (case rr_body request of
        Rest_NoBody e \<Rightarrow> (rest_stream_error_handler (body_failure e), s)
      | _ \<Rightarrow>
          (case rr_context request of
             Inl e \<Rightarrow> (rest_stream_error_handler e, s)
           | Inr context \<Rightarrow>
               (case guard_error of
                  Some e \<Rightarrow> (rest_stream_error_handler e, s)
                | None \<Rightarrow> (let ((vs, en), s') = method context s in (Rest_Stream vs en, s')))))"

definition streaming_guard :: "AgentCard \<Rightarrow> exn option" where
  "streaming_guard c =
     (if cap_streaming (card_capabilities c) = Some True then None
      else Some (server_err UnsupportedOperationError ''Streaming is not supported by the agent''))"

definition rest_agent_card :: "rest_app \<Rightarrow> AgentCard" where
  "rest_agent_card a = (case ra_card_modifier a of None \<Rightarrow> ra_agent_card a | Some f \<Rightarrow> f (ra_agent_card a))"

definition rest_authenticated_card :: "pb_json \<Rightarrow> rest_app \<Rightarrow> rest_request \<Rightarrow> pyval await" where
  "rest_authenticated_card pj a request =
     (if card_supports_authenticated_extended_card (ra_agent_card a) \<noteq> Some True
      then Raised (server_err AuthenticatedExtendedCardNotConfiguredError ''Authenticated card not supported'')
      else
        let served = (case ra_extended_agent_card a of None \<Rightarrow> ra_agent_card a | Some c \<Rightarrow> c)
        in (case ra_extended_card_modifier a of
              Some f \<Rightarrow> (case rr_context request of Inl e \<Rightarrow> Raised e | Inr context \<Rightarrow> Done (pj_card pj (f served context)))
            | None \<Rightarrow> Done (pj_card pj (case ra_card_modifier a of None \<Rightarrow> served | Some f \<Rightarrow> f served))))"

end
