(* ===== verification/RestRoutes.thy ===== *)
theory RestRoutes
  imports RestHandler
begin

section \<open>The routes of the REST server (apps/rest/rest_adapter.py)\<close>

text \<open>
  The route table of \<open>RESTAdapter\<close> and what it leads to. A path template is a list of literals and parameters, which the
  router matches the way Starlette documents it: a parameter takes as many characters other than the slash as it can, at
  least one, and the first route that matches is used.
\<close>

datatype piece = Lit string | Param string

fun match_path :: "piece list \<Rightarrow> string \<Rightarrow> (string \<times> string) list option" where
  "match_path [] s = (if s = [] then Some [] else None)"
| "match_path (Lit l # ps) s =
     (if take (length l) s = l then match_path ps (drop (length l) s) else None)"
| "match_path (Param n # ps) s =
     (case find (\<lambda>k. match_path ps (drop k s) \<noteq> None) (rev [1..<Suc (length (segment s))]) of
        None \<Rightarrow> None
      | Some k \<Rightarrow> map_option (\<lambda>m. (n, take k s) # m) (match_path ps (drop k s)))"

datatype rest_operation =
    RO_SendMessage | RO_StreamMessage | RO_CancelTask | RO_Subscribe | RO_GetTask
  | RO_GetPush | RO_SetPush | RO_ListPush | RO_ListTasks | RO_Card

definition routes :: "rest_app \<Rightarrow> ((piece list \<times> string) \<times> rest_operation) list" where
  "routes a =
     [(([Lit ''/v1/message:send''], ''POST''), RO_SendMessage),
      (([Lit ''/v1/message:stream''], ''POST''), RO_StreamMessage),
      (([Lit ''/v1/tasks/'', Param ''id'', Lit '':cancel''], ''POST''), RO_CancelTask),
      (([Lit ''/v1/tasks/'', Param ''id'', Lit '':subscribe''], ''GET''), RO_Subscribe),
      (([Lit ''/v1/tasks/'', Param ''id''], ''GET''), RO_GetTask),
      (([Lit ''/v1/tasks/'', Param ''id'', Lit ''/pushNotificationConfigs/'', Param ''push_id''], ''GET''), RO_GetPush),
      (([Lit ''/v1/tasks/'', Param ''id'', Lit ''/pushNotificationConfigs''], ''POST''), RO_SetPush),
      (([Lit ''/v1/tasks/'', Param ''id'', Lit ''/pushNotificationConfigs''], ''GET''), RO_ListPush),
      (([Lit ''/v1/tasks''], ''GET''), RO_ListTasks)] @
     (if card_supports_authenticated_extended_card (ra_agent_card a) = Some True
      then [(([Lit ''/v1/card''], ''GET''), RO_Card)] else [])"

fun find_route ::
  "((piece list \<times> string) \<times> 'r) list \<Rightarrow> string \<Rightarrow> string \<Rightarrow> ('r \<times> (string \<times> string) list) option" where
  "find_route [] m path = None"
| "find_route (((ps, m'), oper) # rest) m path =
     (if m' = m \<and> match_path ps path \<noteq> None then Some (oper, the (match_path ps path)) else find_route rest m path)"

text \<open>What the partial application behind a route does.\<close>

fun rest_operate ::
  "pb_json \<Rightarrow> rest_app \<Rightarrow> 's request_handler \<Rightarrow> rest_operation \<Rightarrow> rest_request \<Rightarrow> 's \<Rightarrow> rest_reply \<times> 's" where
  "rest_operate pj a rh RO_SendMessage r s = rest_handle_request (rest_message_send pj rh r) r s"
| "rest_operate pj a rh RO_StreamMessage r s =
     rest_handle_streaming (streaming_guard (ra_agent_card a)) (rest_message_stream pj rh r) r s"
| "rest_operate pj a rh RO_CancelTask r s = rest_handle_request (rest_cancel_task pj rh r) r s"
| "rest_operate pj a rh RO_Subscribe r s =
     rest_handle_streaming (streaming_guard (ra_agent_card a)) (rest_resubscribe pj rh r) r s"
| "rest_operate pj a rh RO_GetTask r s = rest_handle_request (rest_get_task pj rh r) r s"
| "rest_operate pj a rh RO_GetPush r s = rest_handle_request (rest_get_push pj rh r) r s"
| "rest_operate pj a rh RO_SetPush r s = rest_handle_request (rest_set_push pj (ra_agent_card a) rh r) r s"
| "rest_operate pj a rh RO_ListPush r s = rest_handle_request (\<lambda>context s. (rest_list_push, s)) r s"
| "rest_operate pj a rh RO_ListTasks r s = rest_handle_request (\<lambda>context s. (rest_list_tasks, s)) r s"
| "rest_operate pj a rh RO_Card r s = rest_handle_request (\<lambda>context s. (rest_authenticated_card pj a r, s)) r s"

text \<open>A request as it arrives: method, path, query and body; no route is the framework's 404.\<close>

definition rest_serve ::
  "pb_json \<Rightarrow> rest_app \<Rightarrow> 's request_handler \<Rightarrow> (exn + ServerCallContext) \<Rightarrow> string \<Rightarrow> string \<Rightarrow> (string \<times> string) list \<Rightarrow>
   rest_body \<Rightarrow> 's \<Rightarrow> rest_reply \<times> 's" where
  "rest_serve pj a rh context m path params body s =
     (case find_route (routes a) m path of
        None \<Rightarrow> (Rest_Json 404 (PyDict [(''detail'', PyStr ''Not Found'')]), s)
      | Some (oper, ids) \<Rightarrow>
          rest_operate pj a rh oper
            \<lparr>rr_body = body, rr_id = (case map_of ids ''id'' of None \<Rightarrow> [] | Some i \<Rightarrow> i),
             rr_push_id = (case map_of ids ''push_id'' of None \<Rightarrow> [] | Some i \<Rightarrow> i),
             rr_history_length = map_of params ''historyLength'', rr_context = context\<rparr> s)"

subsection \<open>Which route a path takes\<close>

lemma find_longest:
  "P n \<Longrightarrow> 1 \<le> n \<Longrightarrow> find P (rev [1..<Suc n]) = Some n"
  by simp

lemma match_last_param:
  assumes "i \<noteq> []" and "CHR ''/'' \<notin> set i"
  shows "match_path [Param n] i = Some [(n, i)]"
proof -
  have "find (\<lambda>k. match_path [] (drop k i) \<noteq> None) (rev [1..<Suc (length i)]) = Some (length i)"
    using assms(1) by (intro find_longest) (auto simp: Suc_le_eq)
  with assms show ?thesis by simp
qed

text \<open>A parameter followed by a literal that ends the path.\<close>

lemma find_SomeD: "find P xs = Some k \<Longrightarrow> P k \<and> k \<in> set xs"
  by (induction xs) (auto split: if_splits)

lemma match_lit_end: "match_path [Lit l] s \<noteq> None \<Longrightarrow> s = l"
  by (metis append_take_drop_id append_Nil2 match_path.simps(1,2))

lemma match_param_suffix:
  assumes "match_path [Param n, Lit suf] i = Some m"
  shows "\<exists>j. i = j @ suf \<and> j \<noteq> []"
proof -
  obtain k where k: "find (\<lambda>k. match_path [Lit suf] (drop k i) \<noteq> None) (rev [1..<Suc (length (segment i))]) = Some k"
    using assms by (auto simp del: match_path.simps(1,2) split: option.splits)
  note find_SomeD [OF k]
  then have "drop k i = suf" and "k \<ge> 1" and "k \<le> length (segment i)"
    using match_lit_end [of suf "drop k i"] by auto
  moreover have "length (segment i) \<le> length i" by (simp add: segment_def length_takeWhile_le)
  ultimately have "i = take k i @ suf \<and> take k i \<noteq> []" by (metis append_take_drop_id not_one_le_zero take_eq_Nil le_zero_eq list.size(3))
  then show ?thesis by blast
qed

lemma get_task_route:
  assumes "i \<noteq> []" and "CHR ''/'' \<notin> set i" and "\<nexists>j. i = j @ '':subscribe''"
  shows "find_route (routes a) ''GET'' (''/v1/tasks/'' @ i) = Some (RO_GetTask, [(''id'', i)])"
proof -
  have "match_path [Param ''id'', Lit '':subscribe''] i = None"
    using match_param_suffix [of "''id''" "'':subscribe''" i] assms(3) by (metis not_Some_eq)
  moreover have "match_path [Param ''id''] i = Some [(''id'', i)]"
    using match_last_param [OF assms(1,2)] .
  ultimately show ?thesis by (simp add: routes_def del: match_path.simps(3))
qed

lemma send_routes:
  "find_route (routes a) ''POST'' ''/v1/message:send'' = Some (RO_SendMessage, [])"
  "find_route (routes a) ''POST'' ''/v1/message:stream'' = Some (RO_StreamMessage, [])"
  by (simp_all add: routes_def)

end
