(* ===== verification/RestClient.thy ===== *)
theory RestClient
  imports ProtoClient RestRoutes
begin

section \<open>The REST client transport (client/transports/rest.py)\<close>

text \<open>
  \<open>RestTransport\<close> sends the JSON form of the protobuf request to the URL of an operation and parses the reply. Its
  interceptors are never applied. httpx and httpx_sse are a record of what a call can come back with; the data of an event
  is its JSON value, or the error text of the protobuf parser.
\<close>

record 's rest_http =
  wc_send :: "string \<Rightarrow> string \<Rightarrow> pyval option \<Rightarrow> (string \<times> string) list \<Rightarrow> http_kwargs \<Rightarrow> 's \<Rightarrow> http_outcome \<times> 's"
  wc_stream :: "string \<Rightarrow> string \<Rightarrow> pyval option \<Rightarrow> http_kwargs \<Rightarrow> 's \<Rightarrow> sse_outcome \<times> 's"
  wc_http :: "'s http_client"

record rest_transport =
  rt_url :: string
  rt_agent_card :: "AgentCard option"
  rt_needs_extended_card :: "bool option"
  rt_extensions :: "string list option"

record 's rt_env =
  re_http :: "'s rest_http"
  re_json :: pb_json
  re_card_codec :: card_codec
  re_context :: "ClientCallContext option"

definition strip_one_slash :: "string \<Rightarrow> string" where
  "strip_one_slash u = (if u \<noteq> [] \<and> last u = CHR ''/'' then butlast u else u)"

definition rt_new :: "AgentCard option \<Rightarrow> string option \<Rightarrow> string list option \<Rightarrow> exn + rest_transport" where
  "rt_new c url extensions =
     (let t = (\<lambda>u. \<lparr>rt_url = strip_one_slash u, rt_agent_card = c,
                     rt_needs_extended_card =
                       (case c of None \<Rightarrow> Some True | Some x \<Rightarrow> card_supports_authenticated_extended_card x),
                     rt_extensions = extensions\<rparr>)
      in if truthy url then Inr (t (the url))
         else (case c of
                 Some x \<Rightarrow> Inr (t (card_url x))
               | None \<Rightarrow> Inl (ValueErr ''Must provide either agent_card or url'')))"

text \<open>\<open>_send_request\<close>: a timeout is one of httpx's request errors here.\<close>

fun rest_result :: "http_outcome \<Rightarrow> pyval await" where
  "rest_result (Http_ReadTimeout t) = Raised (A2AClientHTTPError 503 (''Network communication error: '' @ t))"
| "rest_result (Http_RequestError t) = Raised (A2AClientHTTPError 503 (''Network communication error: '' @ t))"
| "rest_result (Http_Response status t body) =
     (if \<not> is_success status then Raised (A2AClientHTTPError status t)
      else (case body of Inl e \<Rightarrow> Raised (A2AClientJSONError e) | Inr v \<Rightarrow> Done v))"
| "rest_result Http_Waiting = Blocked"

definition rt_kwargs :: "'s rt_env \<Rightarrow> string list option \<Rightarrow> rest_transport \<Rightarrow> http_kwargs" where
  "rt_kwargs e extensions t =
     with_extensions (get_http_args (re_context e)) (case extensions of None \<Rightarrow> rt_extensions t | Some x \<Rightarrow> Some x)"

text \<open>A request with its reply, converted.\<close>

definition rt_send_request ::
  "'s rt_env \<Rightarrow> string \<Rightarrow> string \<Rightarrow> pyval option \<Rightarrow> (string \<times> string) list \<Rightarrow> string list option \<Rightarrow> (pyval \<Rightarrow> exn + 'a) \<Rightarrow>
   rest_transport \<times> 's \<Rightarrow> 'a await \<times> rest_transport \<times> 's" where
  "rt_send_request e m target payload params extensions convert ts =
     (case ts of (t, s) \<Rightarrow>
        let (o1, s') = wc_send (re_http e) m (rt_url t @ target) payload params (rt_kwargs e extensions t) s
        in (convert_await convert (rest_result o1), t, s'))"

text \<open>The body is built first; what it raises leaves the method.\<close>

definition rt_post ::
  "'s rt_env \<Rightarrow> string \<Rightarrow> (exn + pyval) \<Rightarrow> string list option \<Rightarrow> (pyval \<Rightarrow> exn + 'a) \<Rightarrow> rest_transport \<times> 's \<Rightarrow>
   'a await \<times> rest_transport \<times> 's" where
  "rt_post e target payload extensions convert ts =
     (case payload of
        Inl x \<Rightarrow> (Raised x, ts)
      | Inr v \<Rightarrow> rt_send_request e ''POST'' target (Some v) [] extensions convert ts)"

definition prepare_send_message :: "pb_json \<Rightarrow> sent_params \<Rightarrow> exn + pyval" where
  "prepare_send_message pj request = res_bind (sent_request (pj_struct pj) request) (pj_send pj)"

definition rt_send_message ::
  "'s rt_env \<Rightarrow> sent_params \<Rightarrow> string list option \<Rightarrow> rest_transport \<times> 's \<Rightarrow> (Task + Message) await \<times> rest_transport \<times> 's" where
  "rt_send_message e request extensions =
     rt_post e ''/v1/message:send'' (prepare_send_message (re_json e) request) extensions
       (\<lambda>v. res_bind (pj_read_response (re_json e) v) of_task_or_message)"

definition read_task :: "pb_json \<Rightarrow> pyval \<Rightarrow> exn + Task" where
  "read_task pj v = res_bind (pj_read_task pj v) of_task"

definition read_push_config :: "pb_json \<Rightarrow> pyval \<Rightarrow> exn + TaskPushNotificationConfig" where
  "read_push_config pj v = res_bind (pj_read_config pj v) of_task_push_config"

definition rt_get_task ::
  "'s rt_env \<Rightarrow> TaskQueryParams \<Rightarrow> string list option \<Rightarrow> rest_transport \<times> 's \<Rightarrow> Task await \<times> rest_transport \<times> 's" where
  "rt_get_task e request extensions ts =
     (case (case tqp_history_length request of
              None \<Rightarrow> Inr []
            | Some n \<Rightarrow> (case py_str n of None \<Rightarrow> Inl (ValueErr ''Exceeds the limit (4300 digits)'')
                                       | Some tx \<Rightarrow> Inr [(''historyLength'', tx)])) of
        Inl x \<Rightarrow> (Raised x, ts)
      | Inr params \<Rightarrow>
          rt_send_request e ''GET'' (''/v1/tasks/'' @ tqp_id request) None params extensions (read_task (re_json e)) ts)"

definition rt_cancel_task ::
  "'s rt_env \<Rightarrow> TaskIdParams \<Rightarrow> string list option \<Rightarrow> rest_transport \<times> 's \<Rightarrow> Task await \<times> rest_transport \<times> 's" where
  "rt_cancel_task e request extensions =
     rt_post e (''/v1/tasks/'' @ tip_id request @ '':cancel'')
       (Inr (PyDict [(''name'', PyStr (tasks_prefix @ tip_id request))])) extensions (read_task (re_json e))"

definition rt_set_task_callback ::
  "'s rt_env \<Rightarrow> TaskPushNotificationConfig \<Rightarrow> string list option \<Rightarrow> rest_transport \<times> 's \<Rightarrow>
   TaskPushNotificationConfig await \<times> rest_transport \<times> 's" where
  "rt_set_task_callback e request extensions =
     rt_post e (''/v1/tasks/'' @ tpnc_task_id request @ ''/pushNotificationConfigs'')
       (pj_create (re_json e) \<lparr>pcr_parent = tasks_prefix @ tpnc_task_id request,
          pcr_config_id = or_else (pnc_id (tpnc_push_notification_config request)) [],
          pcr_config = to_task_push_config request\<rparr>)
       extensions (read_push_config (re_json e))"

definition rt_get_task_callback ::
  "'s rt_env \<Rightarrow> GetTaskPushNotificationConfigParams \<Rightarrow> string list option \<Rightarrow> rest_transport \<times> 's \<Rightarrow>
   TaskPushNotificationConfig await \<times> rest_transport \<times> 's" where
  "rt_get_task_callback e request extensions =
     rt_send_request e ''GET''
       (''/v1/tasks/'' @ gtp_id request @ push_infix @ str_of_option (gtp_push_notification_config_id request))
       None [] extensions (read_push_config (re_json e))"

text \<open>The loop over the events; what is not the JSON of an event makes the protobuf parser raise, which no clause catches.\<close>

fun read_rest_sse :: "pb_json \<Rightarrow> (string + pyval) list \<Rightarrow> sse_end \<Rightarrow> Event list \<times> unit await" where
  "read_rest_sse pj [] en = ([], sse_end_result en)"
| "read_rest_sse pj (Inl t # rest) en = ([], Raised (OtherException t))"
| "read_rest_sse pj (Inr v # rest) en =
     (case res_bind (pj_read_stream pj v) of_stream_response of
        Inl x \<Rightarrow> ([], Raised x)
      | Inr ev \<Rightarrow> (let (evs, r) = read_rest_sse pj rest en in (ev # evs, r)))"

text \<open>The connection of a stream; \<open>check\<close> is whether the status is looked at, which \<open>resubscribe\<close> does not do.\<close>

definition rt_stream ::
  "'s rt_env \<Rightarrow> bool \<Rightarrow> string \<Rightarrow> string \<Rightarrow> pyval option \<Rightarrow> string list option \<Rightarrow> rest_transport \<times> 's \<Rightarrow>
   (Event list \<times> unit await) \<times> rest_transport \<times> 's" where
  "rt_stream e check m target payload extensions ts =
     (case ts of (t, s) \<Rightarrow>
        let kw = rt_kwargs e extensions t;
            kw' = kw\<lparr>hk_timeout := Some (case hk_timeout kw of None \<Rightarrow> PyNone | Some x \<Rightarrow> x)\<rparr>
        in (case wc_stream (re_http e) m (rt_url t @ target) payload kw' s of
              (Sse_Failed x, s') \<Rightarrow> (([], Raised x), t, s')
            | (Sse_Waiting, s') \<Rightarrow> (([], Blocked), t, s')
            | (Sse_Opened status tx items en, s') \<Rightarrow>
                ((if check \<and> \<not> is_success status then ([], Raised (A2AClientHTTPError status tx))
                  else read_rest_sse (re_json e) items en), t, s')))"

definition rt_send_message_streaming ::
  "'s rt_env \<Rightarrow> sent_params \<Rightarrow> string list option \<Rightarrow> rest_transport \<times> 's \<Rightarrow>
   (Event list \<times> unit await) \<times> rest_transport \<times> 's" where
  "rt_send_message_streaming e request extensions ts =
     (case prepare_send_message (re_json e) request of
        Inl x \<Rightarrow> (([], Raised x), ts)
      | Inr v \<Rightarrow> rt_stream e True ''POST'' ''/v1/message:stream'' (Some v) extensions ts)"

definition rt_resubscribe ::
  "'s rt_env \<Rightarrow> TaskIdParams \<Rightarrow> string list option \<Rightarrow> rest_transport \<times> 's \<Rightarrow>
   (Event list \<times> unit await) \<times> rest_transport \<times> 's" where
  "rt_resubscribe e request =
     rt_stream e False ''GET'' (''/v1/tasks/'' @ tip_id request @ '':subscribe'') None"

definition rt_public_card ::
  "'s rt_env \<Rightarrow> http_kwargs \<Rightarrow> (AgentCard \<Rightarrow> exn option) option \<Rightarrow> rest_transport \<times> 's \<Rightarrow> AgentCard await \<times> rest_transport \<times> 's" where
  "rt_public_card e kw verifier ts =
     (case ts of (t, s) \<Rightarrow>
        (case rt_agent_card t of
           Some c \<Rightarrow> (Done c, t, s)
         | None \<Rightarrow>
             (case get_agent_card (wc_http (re_http e)) (re_card_codec e) (rt_url t) ''/.well-known/agent-card.json'' None kw
                     verifier s of
                (Done c, s') \<Rightarrow>
                  (Done c, t\<lparr>rt_needs_extended_card := card_supports_authenticated_extended_card c, rt_agent_card := Some c\<rparr>, s')
              | (r, s') \<Rightarrow> (r, t, s'))))"

definition rt_get_card ::
  "'s rt_env \<Rightarrow> string list option \<Rightarrow> (AgentCard \<Rightarrow> exn option) option \<Rightarrow> rest_transport \<times> 's \<Rightarrow>
   AgentCard await \<times> rest_transport \<times> 's" where
  "rt_get_card e extensions verifier ts =
     (case rt_public_card e (rt_kwargs e extensions (fst ts)) verifier ts of
        (Done c, t, s) \<Rightarrow>
          if rt_needs_extended_card t \<noteq> Some True then (Done c, t, s)
          else
            (case wc_send (re_http e) ''GET'' (rt_url t @ ''/v1/card'') None [] (rt_kwargs e extensions (fst ts)) s of
               (o1, s') \<Rightarrow>
                 (case convert_await (\<lambda>v. case cdk_read (re_card_codec e) v of Inl x \<Rightarrow> Inl ValidationError | Inr x \<Rightarrow> Inr x)
                         (rest_result o1) of
                    Done c' \<Rightarrow>
                      (case (case verifier of None \<Rightarrow> None | Some verify \<Rightarrow> verify c') of
                         Some x \<Rightarrow> (Raised x, t, s')
                       | None \<Rightarrow> (Done c', t\<lparr>rt_agent_card := Some c', rt_needs_extended_card := Some False\<rparr>, s'))
                  | r \<Rightarrow> (r, t, s')))
      | (r, ts') \<Rightarrow> (r, ts'))"

definition rest_client_transport :: "'s rt_env \<Rightarrow> (rest_transport \<times> 's) client_transport" where
  "rest_client_transport e =
     \<lparr>ct_send_message = rt_send_message e, ct_send_message_streaming = rt_send_message_streaming e,
      ct_get_task = rt_get_task e, ct_cancel_task = rt_cancel_task e, ct_set_task_callback = rt_set_task_callback e,
      ct_get_task_callback = rt_get_task_callback e, ct_resubscribe = rt_resubscribe e, ct_get_card = rt_get_card e,
      ct_close = (\<lambda>ts. (Done (), ts))\<rparr>"

end
