(* ===== verification/RestSite.thy ===== *)
theory RestSite
  imports RestClient
begin

section \<open>The REST binding from end to end\<close>

text \<open>
  The wire between \<open>RestTransport\<close> and a server with \<open>RESTAdapter\<close>: the path of the URL and the query arrive as they were
  sent, an answer comes back with its status, an exception that leaves an endpoint is answered with 500, one that breaks
  a running stream closes the connection. \<open>ws_text\<close> is the text that httpx gives an error status.
\<close>

record 's rest_site =
  ws_base :: string
  ws_app :: rest_app
  ws_handler :: "'s request_handler"
  ws_json :: pb_json
  ws_context :: "exn + ServerCallContext"
  ws_text :: "int \<Rightarrow> string"

definition ws_reply ::
  "'s rest_site \<Rightarrow> string \<Rightarrow> string \<Rightarrow> pyval option \<Rightarrow> (string \<times> string) list \<Rightarrow> 's \<Rightarrow> rest_reply \<times> 's" where
  "ws_reply site m url payload params s =
     (if take (length (ws_base site)) url = ws_base site
      then rest_serve (ws_json site) (ws_app site) (ws_handler site) (ws_context site) m (drop (length (ws_base site)) url)
             params (case payload of Some v \<Rightarrow> Rest_Body v | None \<Rightarrow> Rest_NotJson (OtherException ''ParseError'')) s
      else (Rest_Json 404 (PyDict [(''detail'', PyStr ''Not Found'')]), s))"

definition ws_http :: "'s rest_site \<Rightarrow> 's http_client \<Rightarrow> 's rest_http" where
  "ws_http site hc =
     \<lparr>wc_send = (\<lambda>m url payload params kw s. case ws_reply site m url payload params s of
         (Rest_Json status v, s') \<Rightarrow> (Http_Response status (ws_text site status) (Inr v), s')
       | (Rest_Stream vs en, s') \<Rightarrow> (Http_Response 200 [] (Inl ''Expecting value''), s')
       | (Rest_Raise x, s') \<Rightarrow> (Http_Response 500 (ws_text site 500) (Inl ''Expecting value''), s')
       | (Rest_Hang, s') \<Rightarrow> (Http_Waiting, s')),
      wc_stream = (\<lambda>m url payload kw s. case ws_reply site m url payload [] s of
         (Rest_Json status v, s') \<Rightarrow>
           (Sse_Opened status (ws_text site status) [] (Sse_Protocol ''Expected response header Content-Type''), s')
       | (Rest_Stream vs en, s') \<Rightarrow>
           (Sse_Opened 200 [] (map Inr vs)
              (case en of Done u \<Rightarrow> Sse_Closed | Blocked \<Rightarrow> Sse_Pending | Raised x \<Rightarrow> Sse_Network ''incomplete chunked read''), s')
       | (Rest_Raise x, s') \<Rightarrow>
           (Sse_Opened 500 (ws_text site 500) [] (Sse_Protocol ''Expected response header Content-Type''), s')
       | (Rest_Hang, s') \<Rightarrow> (Sse_Waiting, s')),
      wc_http = hc\<rparr>"

text \<open>The status that an exception of the handler arrives with.\<close>

definition rest_status :: "exn \<Rightarrow> int" where
  "rest_status e = (case rest_error_handler e of Rest_Json status v \<Rightarrow> status | _ \<Rightarrow> 500)"

definition rest_client_error :: "'s rest_site \<Rightarrow> exn \<Rightarrow> exn" where
  "rest_client_error site e = A2AClientHTTPError (rest_status e) (ws_text site (rest_status e))"

text \<open>What one side writes, the other reads.\<close>

definition carries :: "('m \<Rightarrow> exn + pyval) \<Rightarrow> (pyval \<Rightarrow> exn + 'm) \<Rightarrow> 'm \<Rightarrow> bool" where
  "carries write read m \<longleftrightarrow> (\<exists>v. write m = Inr v \<and> read v = Inr m)"

text \<open>Ids that stand in a URL unchanged.\<close>

definition url_safe :: "string \<Rightarrow> bool" where
  "url_safe i \<longleftrightarrow> i \<noteq> [] \<and> set i \<inter> {CHR ''/'', CHR '':'', CHR 0x3F, CHR ''#'', CHR ''%'', CHR '' ''} = {}"

subsection \<open>Lemmas\<close>

lemma http_status_not_success [simp]: "\<not> is_success (http_status k)"
  by (cases k) (simp_all add: is_success_def)

lemma rest_status_not_success [simp]: "\<not> is_success (rest_status e)"
  by (cases e) (simp_all add: rest_status_def rest_error_handler_def Let_def, simp_all add: is_success_def)

lemma rest_error_reply:
  "rest_result (case rest_error_handler e of
       Rest_Json status v \<Rightarrow> Http_Response status (ws_text site status) (Inr v)
     | Rest_Stream vs en \<Rightarrow> Http_Response 200 [] (Inl ''Expecting value'')
     | Rest_Raise x \<Rightarrow> Http_Response 500 (ws_text site 500) (Inl ''Expecting value'')
     | Rest_Hang \<Rightarrow> Http_Waiting) = Raised (rest_client_error site e)"
  using rest_status_not_success [of e]
  by (cases e) (auto simp: rest_client_error_def rest_status_def rest_error_handler_def Let_def is_success_def)

text \<open>One exchange: a route, its parameters, what the handler returned, converted on both sides.\<close>

lemma rest_exchange:
  assumes "re_http e = ws_http site hc" and "rt_url t = ws_base site" and "ws_context site = Inr call"
    and "find_route (routes (ws_app site)) m target = Some (oper, ids)"
    and "r = \<lparr>rr_body = (case payload of Some v \<Rightarrow> Rest_Body v | None \<Rightarrow> Rest_NotJson (OtherException ''ParseError'')),
           rr_id = (case map_of ids ''id'' of None \<Rightarrow> [] | Some i \<Rightarrow> i),
           rr_push_id = (case map_of ids ''push_id'' of None \<Rightarrow> [] | Some i \<Rightarrow> i),
           rr_history_length = map_of params ''historyLength'', rr_context = Inr call\<rparr>"
    and "rest_operate (ws_json site) (ws_app site) (ws_handler site) oper r s = rest_handle_request served r s"
    and "served call s = (res, s')"
  shows "rt_send_request e m target payload params extensions convert (t, s) =
           ((case res of
               Done v \<Rightarrow> await_of (convert v) | Blocked \<Rightarrow> Blocked | Raised x \<Rightarrow> Raised (rest_client_error site x)), t, s')"
proof -
  have reply: "ws_reply site m (rt_url t @ target) payload params s = rest_handle_request served r s"
    using assms(2-6) by (simp add: ws_reply_def rest_serve_def)
  have handled: "rest_handle_request served r s =
      ((case res of Done v \<Rightarrow> Rest_Json 200 v | Blocked \<Rightarrow> Rest_Hang | Raised x \<Rightarrow> rest_error_handler x), s')"
    using assms(5,7) by (cases res) (simp_all add: rest_handle_request_def)
  show ?thesis
  proof (cases res)
    case (Raised x)
    with reply handled rest_error_reply [of site x] assms(1) show ?thesis
      by (cases "rest_error_handler x") (simp_all add: rt_send_request_def ws_http_def)
  qed (use reply handled assms(1) in \<open>simp_all add: rt_send_request_def ws_http_def is_success_def\<close>)
qed

lemma carries_read:
  "carries write read m \<Longrightarrow> \<exists>v. write m = Inr v \<and> read v = Inr m"
  by (simp add: carries_def)

lemma rest_message_law:
  assumes "re_http e = ws_http site hc" and "rt_url t = ws_base site" and "ws_context site = Inr call"
    and "pj_struct (re_json e) = sv" and "pj_struct (ws_json site) = sv"
    and "message_safe sv (sp_message p)" and "metadata_safe sv (sp_metadata p)" and "sent_configuration_proto p = Inr c"
    and "\<And>r. sent_request sv p = Inr r \<Longrightarrow> carries (pj_send (re_json e)) (pj_read_send (ws_json site)) r"
    and "\<And>v b. res = Done v \<Longrightarrow> to_task_or_message sv (sum_of_send v) = Inr b \<Longrightarrow>
           carries (pj_response (ws_json site)) (pj_read_response (re_json e)) b"
    and "rh_message_send (ws_handler site) (arrived_params p c) call s = (res, s')"
    and "\<And>v. res = Done v \<Longrightarrow> result_safe sv v"
  shows "rt_send_message e p extensions (t, s) =
           ((case res of
               Done v \<Rightarrow> Done (norm_result v)
             | Blocked \<Rightarrow> Blocked
             | Raised x \<Rightarrow> Raised (rest_client_error site x)), t, s')"
proof -
  obtain r where r: "sent_request sv p = Inr r" "of_send_params r = Inr (arrived_params p c)"
    using sent_request_arrives [OF assms(6-8)] by blast
  from carries_read [OF assms(9) [OF r(1)]] obtain body where
    b: "pj_send (re_json e) r = Inr body" "pj_read_send (ws_json site) body = Inr r" by blast
  let ?convert = "\<lambda>v. res_bind (to_task_or_message sv (sum_of_send v)) (pj_response (ws_json site))"
  let ?r = "\<lparr>rr_body = Rest_Body body, rr_id = [], rr_push_id = [], rr_history_length = None, rr_context = Inr call\<rparr>"
  have served: "rest_message_send (ws_json site) (ws_handler site) ?r call s = (convert_await ?convert res, s')"
    using b(2) r(2) assms(5,11) by (simp add: rest_message_send_def rest_call_def parse_body_def)
  note out = rest_exchange [OF assms(1-3) send_routes(1), where payload = "Some body" and params = "[]" and r = ?r and s = s and s' = s'
      and served = "rest_message_send (ws_json site) (ws_handler site) ?r" and res = "convert_await ?convert res" and
      extensions = extensions and convert = "\<lambda>v. res_bind (pj_read_response (re_json e) v) of_task_or_message"]
  have sent: "rt_send_message e p extensions (t, s) =
      ((case convert_await ?convert res of
          Done v \<Rightarrow> await_of (res_bind (pj_read_response (re_json e) v) of_task_or_message)
        | Blocked \<Rightarrow> Blocked | Raised x \<Rightarrow> Raised (rest_client_error site x)), t, s')"
    using out served r(1) b(1) assms(4) by (simp add: rt_send_message_def rt_post_def prepare_send_message_def)
  show ?thesis
  proof (cases res)
    case (Done v)
    with assms(12) result_roundtrip obtain m where
      m: "to_task_or_message sv (sum_of_send v) = Inr m" "of_task_or_message m = Inr (norm_result v)" by blast
    from carries_read [OF assms(10) [OF Done m(1)]] obtain w where
      "pj_response (ws_json site) m = Inr w" "pj_read_response (re_json e) w = Inr m" by blast
    with sent Done m show ?thesis by simp
  qed (use sent in simp_all)
qed

text \<open>
  A message over REST from end to end: the server's request handler is called with the same normal form of the message
  and the same completed configuration as over gRPC, and the client gets the normal form of what the handler returned;
  an exception of the handler arrives as its HTTP status and a text that the client's HTTP library made up, without the
  error's message, which the server did send.
\<close>

theorem message_over_rest:
  assumes "re_http e = ws_http site hc" and "rt_url t = ws_base site" and "ws_context site = Inr call"
    and "pj_struct (re_json e) = sv" and "pj_struct (ws_json site) = sv"
    and "message_safe sv (sp_message p)" and "metadata_safe sv (sp_metadata p)" and "sent_configuration_proto p = Inr c"
    and "\<And>r. sent_request sv p = Inr r \<Longrightarrow> carries (pj_send (re_json e)) (pj_read_send (ws_json site)) r"
    and "\<And>v b. res = Done v \<Longrightarrow> to_task_or_message sv (sum_of_send v) = Inr b \<Longrightarrow>
           carries (pj_response (ws_json site)) (pj_read_response (re_json e)) b"
    and "rh_message_send (ws_handler site) (arrived_params p c) call s = (res, s')"
    and "\<And>v. res = Done v \<Longrightarrow> result_safe sv v"
  shows "rt_send_message e p extensions (t, s) =
           ((case res of
               Done v \<Rightarrow> Done (norm_result v)
             | Blocked \<Rightarrow> Blocked
             | Raised x \<Rightarrow> Raised (rest_client_error site x)), t, s')"
  by (rule rest_message_law [OF assms])

text \<open>The history length as a query, and read back.\<close>

definition history_query :: "int option \<Rightarrow> (string \<times> string) list" where
  "history_query n = (case n of None \<Rightarrow> [] | Some i \<Rightarrow> [(''historyLength'', the (py_str i))])"

lemma history_query_read:
  assumes "\<And>n. h = Some n \<Longrightarrow> py_str n \<noteq> None"
  shows "rest_history_length (map_of (history_query h) ''historyLength'') = Inr h"
proof (cases h)
  case (Some n)
  with assms obtain tx where tx: "py_str n = Some tx" by auto
  then have "tx \<noteq> []" by (auto simp: py_str_def int_str_def split: if_splits)
  with Some tx py_int_py_str [OF tx] show ?thesis by (simp add: rest_history_length_def history_query_def)
qed (simp add: rest_history_length_def history_query_def)

text \<open>
  Claim C29. A task over REST: the id in the path and the history length in the query arrive as the numbers that were sent, and
  the client gets the normal form of the task; a task that is missing is status 404, an error of the handler its
  status. The id has only characters that a URL keeps, the query has no metadata (the route sends none), and the
  metadata and data of the task are dictionaries that protobuf keeps.
\<close>

theorem get_task_over_rest:
  assumes "re_http e = ws_http site hc" and "rt_url t = ws_base site" and "ws_context site = Inr call"
    and "url_safe (tqp_id q)" and "tqp_metadata q = None"
    and "\<And>n. tqp_history_length q = Some n \<Longrightarrow> py_str n \<noteq> None"
    and "rh_get_task (ws_handler site) q call s = (res, s')"
    and "\<And>x. res = Done (Some x) \<Longrightarrow> task_safe (pj_struct (ws_json site)) x"
    and "\<And>x b. res = Done (Some x) \<Longrightarrow> to_task (pj_struct (ws_json site)) x = Inr b \<Longrightarrow>
           carries (pj_task (ws_json site)) (pj_read_task (re_json e)) b"
  shows "rt_get_task e q extensions (t, s) =
           ((case res of
               Done (Some x) \<Rightarrow> Done (norm_task x)
             | Done None \<Rightarrow> Raised (A2AClientHTTPError 404 (ws_text site 404))
             | Blocked \<Rightarrow> Blocked
             | Raised x \<Rightarrow> Raised (rest_client_error site x)), t, s')"
proof -
  let ?params = "case tqp_history_length q of None \<Rightarrow> [] | Some n \<Rightarrow> [(''historyLength'', the (py_str n))]"
  let ?r = "\<lparr>rr_body = Rest_NotJson (OtherException ''ParseError''), rr_id = tqp_id q, rr_push_id = [],
      rr_history_length = map_of ?params ''historyLength'', rr_context = Inr call\<rparr>"
  have i: "tqp_id q \<noteq> []" "CHR ''/'' \<notin> set (tqp_id q)" "\<nexists>j. tqp_id q = j @ '':subscribe''"
    using assms(4) by (auto simp: url_safe_def)
  have h: "rest_history_length (map_of ?params ''historyLength'') = Inr (tqp_history_length q)"
    using history_query_read [OF assms(6)] by (simp add: history_query_def)
  have q: "\<lparr>tqp_history_length = tqp_history_length q, tqp_id = tqp_id q, tqp_metadata = None\<rparr> = q"
    using assms(5) by simp
  have served: "rest_get_task (ws_json site) (ws_handler site) ?r call s = (convert_await (rest_task (ws_json site)) res, s')"
    using h assms(7) by (simp add: rest_get_task_def rest_call_def q)
  note out = rest_exchange [OF assms(1-3) get_task_route [OF i], where payload = None and params = ?params and r = ?r and s = s
      and s' = s' and served = "rest_get_task (ws_json site) (ws_handler site) ?r" and
      res = "convert_await (rest_task (ws_json site)) res" and extensions = extensions and convert = "read_task (re_json e)"]
  have "rt_get_task e q extensions (t, s) =
      rt_send_request e ''GET'' (''/v1/tasks/'' @ tqp_id q) None ?params extensions (read_task (re_json e)) (t, s)"
    using assms(6) by (cases "tqp_history_length q") (auto simp: rt_get_task_def)
  also have "\<dots> = ((case convert_await (rest_task (ws_json site)) res of
          Done v \<Rightarrow> await_of (read_task (re_json e) v)
        | Blocked \<Rightarrow> Blocked | Raised x \<Rightarrow> Raised (rest_client_error site x)), t, s')"
    by (rule out [OF _ _ served]) simp_all
  finally have sent: "rt_get_task e q extensions (t, s) = \<dots>" .
  show ?thesis
  proof (cases res)
    case (Done o1)
    show ?thesis
    proof (cases o1)
      case None
      with sent Done show ?thesis
        by (simp add: rest_task_def rest_client_error_def rest_status_def rest_error_handler_def Let_def error_class_defs)
    next
      case (Some x)
      from task_roundtrip [OF assms(8)] Done Some obtain b where
        b: "to_task (pj_struct (ws_json site)) x = Inr b" "of_task b = Inr (norm_task x)" by blast
      have "res = Done (Some x)" using Done Some by simp
      from carries_read [OF assms(9) [OF this b(1)]] obtain w where
        "pj_task (ws_json site) b = Inr w" "pj_read_task (re_json e) w = Inr b" by blast
      with sent Done Some b show ?thesis by (simp add: rest_task_def read_task_def)
    qed
  qed (use sent in simp_all)
qed

text \<open>The events of a stream.\<close>

lemma read_rest_events:
  assumes "list_all (event_safe (pj_struct sj)) evs"
    and "\<And>ev b. ev \<in> set evs \<Longrightarrow> to_stream_response (pj_struct sj) ev = Inr b \<Longrightarrow> carries (pj_stream sj) (pj_read_stream cj) b"
  shows "\<exists>vs. rest_events sj evs en = (vs, en) \<and> read_rest_sse cj (map Inr vs) z = (map norm_event evs, sse_end_result z)"
  using assms
proof (induction evs)
  case (Cons ev evs)
  from Cons.prems(1) stream_response_roundtrip [of "pj_struct sj" ev] obtain b where
    b: "to_stream_response (pj_struct sj) ev = Inr b" "of_stream_response b = Inr (norm_event ev)" by auto
  from carries_read [OF Cons.prems(2) [OF _ b(1)]] obtain v where
    "pj_stream sj b = Inr v" "pj_read_stream cj v = Inr b" by auto
  moreover obtain vs where "rest_events sj evs en = (vs, en)"
    "read_rest_sse cj (map Inr vs) z = (map norm_event evs, sse_end_result z)" using Cons by auto
  ultimately show ?case using b by simp
qed simp

text \<open>How the stream of a server ends at the client.\<close>

definition rest_stream_end :: "unit await \<Rightarrow> unit await" where
  "rest_stream_end en =
     (case en of
        Done u \<Rightarrow> Done ()
      | Blocked \<Rightarrow> Blocked
      | Raised x \<Rightarrow> Raised (A2AClientHTTPError 503 ''Network communication error: incomplete chunked read''))"

text \<open>
  A streamed message over REST: when the server's card offers streaming, the client gets the normal form of every event
  that the request handler yielded, in order; but whatever exception ends the handler's stream, the client only sees a
  broken connection. When the card does not offer streaming the guard's error leaves the application, and the client gets
  status 500 instead of the 501 that the error stands for.
\<close>

theorem stream_over_rest:
  assumes "re_http e = ws_http site hc" and "rt_url t = ws_base site" and "ws_context site = Inr call"
    and "pj_struct (re_json e) = sv" and "pj_struct (ws_json site) = sv"
    and "message_safe sv (sp_message p)" and "metadata_safe sv (sp_metadata p)" and "sent_configuration_proto p = Inr c"
    and "\<And>r. sent_request sv p = Inr r \<Longrightarrow> carries (pj_send (re_json e)) (pj_read_send (ws_json site)) r"
    and "rh_message_send_stream (ws_handler site) (arrived_params p c) call s = ((evs, en), s')"
    and "list_all (event_safe sv) evs"
    and "\<And>ev b. ev \<in> set evs \<Longrightarrow> to_stream_response sv ev = Inr b \<Longrightarrow>
           carries (pj_stream (ws_json site)) (pj_read_stream (re_json e)) b"
  shows "rt_send_message_streaming e p extensions (t, s) =
           (if cap_streaming (card_capabilities (ra_agent_card (ws_app site))) = Some True
            then ((map norm_event evs, rest_stream_end en), t, s')
            else (([], Raised (A2AClientHTTPError 500 (ws_text site 500))), t, s))"
proof -
  obtain r where r: "sent_request sv p = Inr r" "of_send_params r = Inr (arrived_params p c)"
    using sent_request_arrives [OF assms(6-8)] by blast
  from carries_read [OF assms(9) [OF r(1)]] obtain body where
    b: "pj_send (re_json e) r = Inr body" "pj_read_send (ws_json site) body = Inr r" by blast
  let ?z = "case en of Done u \<Rightarrow> Sse_Closed | Blocked \<Rightarrow> Sse_Pending | Raised x \<Rightarrow> Sse_Network ''incomplete chunked read''"
  have z: "sse_end_result ?z = rest_stream_end en" by (cases en) (simp_all add: rest_stream_end_def)
  from read_rest_events [of "ws_json site" evs "re_json e" en ?z] assms(5,11,12) obtain vs where
    vs: "rest_events (ws_json site) evs en = (vs, en)"
    "read_rest_sse (re_json e) (map Inr vs) ?z = (map norm_event evs, rest_stream_end en)" using z by auto
  have reply: "ws_reply site ''POST'' (rt_url t @ ''/v1/message:stream'') (Some body) [] s =
      (if cap_streaming (card_capabilities (ra_agent_card (ws_app site))) = Some True then (Rest_Stream vs en, s')
       else (Rest_Raise (server_err UnsupportedOperationError ''Streaming is not supported by the agent''), s))"
    using b(2) r(2) vs(1) assms(2,3,10)
    by (simp add: ws_reply_def rest_serve_def send_routes rest_handle_streaming_def streaming_guard_def
        rest_message_stream_def parse_body_def rest_stream_error_handler_def server_err_def)
  show ?thesis
    using reply vs(2) r(1) b(1) assms(1,4)
    by (simp add: rt_send_message_streaming_def prepare_send_message_def rt_stream_def Let_def ws_http_def is_success_def)
qed

subsection \<open>Concrete runs\<close>

text \<open>A codec that knows one message of every kind.\<close>

definition sample_pb_json ::
  "pb_SendMessageRequest \<Rightarrow> pb_SendMessageResponse \<Rightarrow> pb_StreamResponse \<Rightarrow> pb_Task \<Rightarrow> pb_json" where
  "sample_pb_json r a ev b =
     \<lparr>pj_read_send = (\<lambda>v. Inr r), pj_read_create = (\<lambda>v. Inl ValidationError), pj_read_response = (\<lambda>v. Inr a),
      pj_read_stream = (\<lambda>v. Inr ev), pj_read_task = (\<lambda>v. Inr b), pj_read_config = (\<lambda>v. Inl ValidationError),
      pj_send = (\<lambda>m. Inr PyNone), pj_create = (\<lambda>m. Inr PyNone), pj_response = (\<lambda>m. Inr PyNone), pj_stream = (\<lambda>m. Inr PyNone),
      pj_task = (\<lambda>m. Inr PyNone), pj_config = (\<lambda>m. Inr PyNone), pj_card = (\<lambda>c. PyNone), pj_struct = (\<lambda>v. Inr v)\<rparr>"

definition sample_rest_site :: "unit request_handler \<Rightarrow> pb_json \<Rightarrow> unit rest_site" where
  "sample_rest_site rh pj =
     \<lparr>ws_base = ''http://agent'',
      ws_app = \<lparr>ra_agent_card = sample_card (Some True), ra_extended_agent_card = None, ra_card_modifier = None,
                ra_extended_card_modifier = None\<rparr>,
      ws_handler = rh, ws_json = pj, ws_context = Inr default_call_context, ws_text = (\<lambda>n. ''status'')\<rparr>"

definition sample_card_http :: "unit http_client" where
  "sample_card_http = \<lparr>hc_post = (\<lambda>u p k s. (Http_Waiting, s)), hc_get = (\<lambda>u k s. (Http_Waiting, s)),
     hc_stream = (\<lambda>u p k s. (Sse_Waiting, s)), hc_headers = [], hc_read_timeout = PyNone\<rparr>"

definition sample_rt_env :: "unit rest_site \<Rightarrow> unit rt_env" where
  "sample_rt_env site = \<lparr>re_http = ws_http site sample_card_http, re_json = ws_json site,
     re_card_codec = \<lparr>cdk_read = (\<lambda>v. Inl [])\<rparr>, re_context = None\<rparr>"

definition sample_rt :: rest_transport where
  "sample_rt = \<lparr>rt_url = ''http://agent'', rt_agent_card = None, rt_needs_extended_card = None, rt_extensions = None\<rparr>"

lemma sample_rest_simps:
  "re_http (sample_rt_env site) = ws_http site sample_card_http" "re_json (sample_rt_env site) = ws_json site"
  "rt_url sample_rt = ws_base (sample_rest_site rh pj)" "ws_context (sample_rest_site rh pj) = Inr default_call_context"
  "ws_json (sample_rest_site rh pj) = pj" "ws_handler (sample_rest_site rh pj) = rh"
  "pj_struct (sample_pb_json r a ev b) = (\<lambda>v. Inr v)"
  by (simp_all add: sample_rt_env_def sample_rt_def sample_rest_site_def sample_pb_json_def)

lemma sample_carries:
  "carries (pj_send (sample_pb_json r a ev b)) (pj_read_send (sample_pb_json r a ev b)) r"
  "carries (pj_response (sample_pb_json r a ev b)) (pj_read_response (sample_pb_json r a ev b)) a"
  "carries (pj_stream (sample_pb_json r a ev b)) (pj_read_stream (sample_pb_json r a ev b)) ev"
  "carries (pj_task (sample_pb_json r a ev b)) (pj_read_task (sample_pb_json r a ev b)) b"
  by (simp_all add: carries_def sample_pb_json_def)

lemma sample_messages:
  obtains r a ev b where "sent_request (\<lambda>v. Inr v) sample_proto_sent = Inr r"
    and "to_task_or_message (\<lambda>v. Inr v) (sum_of_send (SR_Task sample_task)) = Inr a"
    and "to_stream_response (\<lambda>v. Inr v) (EvTask sample_task) = Inr ev" and "to_task (\<lambda>v. Inr v) sample_task = Inr b"
proof -
  obtain r where r: "sent_request (\<lambda>v. Inr v) sample_proto_sent = Inr r"
    using sent_request_arrives [OF sample_proto_sent_ok] by blast
  have "result_safe (\<lambda>v. Inr v) (SR_Task sample_task)" by (simp add: result_safe_def sample_task_safe)
  from result_roundtrip [OF this] obtain a where
    a: "to_task_or_message (\<lambda>v. Inr v) (sum_of_send (SR_Task sample_task)) = Inr a" by blast
  have "event_safe (\<lambda>v. Inr v) (EvTask sample_task)" by (simp add: sample_task_safe)
  from stream_response_roundtrip [OF this] obtain ev where ev: "to_stream_response (\<lambda>v. Inr v) (EvTask sample_task) = Inr ev"
    by blast
  from task_roundtrip [OF sample_task_safe] obtain b where "to_task (\<lambda>v. Inr v) sample_task = Inr b" by blast
  with r a ev show ?thesis by (rule that)
qed

theorem message_over_rest_witness:
  "\<exists>site. rt_send_message (sample_rt_env site) sample_proto_sent None (sample_rt, ()) =
     (Done (Inl (norm_task sample_task)), sample_rt, ())"
proof -
  obtain r a ev b where m: "sent_request (\<lambda>v. Inr v) sample_proto_sent = Inr r"
    "to_task_or_message (\<lambda>v. Inr v) (sum_of_send (SR_Task sample_task)) = Inr a"
    "to_stream_response (\<lambda>v. Inr v) (EvTask sample_task) = Inr ev" "to_task (\<lambda>v. Inr v) sample_task = Inr b"
    by (rule sample_messages)
  let ?site = "sample_rest_site sample_rh (sample_pb_json r a ev b)"
  have h: "rh_message_send (ws_handler ?site) p default_call_context () = (Done (SR_Task sample_task), ())" for p
    by (simp add: sample_rest_simps sample_rh_def)
  have "rt_send_message (sample_rt_env ?site) sample_proto_sent None (sample_rt, ()) =
      (Done (norm_result (SR_Task sample_task)), sample_rt, ())"
    by (subst message_over_rest [OF sample_rest_simps(1,3,4) _ _ sample_proto_sent_ok _ _ h])
       (auto simp: sample_rest_simps sample_carries result_safe_def sample_task_safe m)
  then show ?thesis by (auto simp: norm_result_def)
qed

theorem get_task_over_rest_witness:
  "\<exists>site. rt_get_task (sample_rt_env site) \<lparr>tqp_history_length = Some 7, tqp_id = ''t1'', tqp_metadata = None\<rparr> None
     (sample_rt, ()) = (Done (norm_task sample_task), sample_rt, ())"
proof -
  obtain r a ev b where m: "sent_request (\<lambda>v. Inr v) sample_proto_sent = Inr r"
    "to_task_or_message (\<lambda>v. Inr v) (sum_of_send (SR_Task sample_task)) = Inr a"
    "to_stream_response (\<lambda>v. Inr v) (EvTask sample_task) = Inr ev" "to_task (\<lambda>v. Inr v) sample_task = Inr b"
    by (rule sample_messages)
  let ?rh = "sample_rh\<lparr>rh_get_task := \<lambda>p call s. (Done (if tqp_history_length p = Some 7 then Some sample_task else None), s)\<rparr>"
  let ?site = "sample_rest_site ?rh (sample_pb_json r a ev b)"
  let ?q = "\<lparr>tqp_history_length = Some 7, tqp_id = ''t1'', tqp_metadata = None\<rparr>"
  have h: "rh_get_task (ws_handler ?site) ?q default_call_context () = (Done (Some sample_task), ())"
    by (simp add: sample_rest_simps)
  have n: "py_str 7 \<noteq> None" using nat_str_length [of 7 0] by (simp add: py_str_def max_str_digits_def)
  from get_task_over_rest [OF sample_rest_simps(1,3,4) _ _ _ h, where extensions = None] m n show ?thesis
    by (auto simp: sample_rest_simps sample_carries sample_task_safe url_safe_def intro!: exI [of _ ?site])
qed

theorem stream_over_rest_witness:
  "\<exists>site. rt_send_message_streaming (sample_rt_env site) sample_proto_sent None (sample_rt, ()) =
     (([EvTask (norm_task sample_task)], rest_stream_end (Raised (raise_server TaskNotFoundError))), sample_rt, ())"
proof -
  obtain r a ev b where m: "sent_request (\<lambda>v. Inr v) sample_proto_sent = Inr r"
    "to_task_or_message (\<lambda>v. Inr v) (sum_of_send (SR_Task sample_task)) = Inr a"
    "to_stream_response (\<lambda>v. Inr v) (EvTask sample_task) = Inr ev" "to_task (\<lambda>v. Inr v) sample_task = Inr b"
    by (rule sample_messages)
  let ?rh = "sample_rh\<lparr>rh_message_send_stream := \<lambda>p call s. (([EvTask sample_task], Raised (raise_server TaskNotFoundError)), s)\<rparr>"
  let ?site = "sample_rest_site ?rh (sample_pb_json r a ev b)"
  have h: "rh_message_send_stream (ws_handler ?site) p default_call_context () =
      (([EvTask sample_task], Raised (raise_server TaskNotFoundError)), ())" for p
    by (simp add: sample_rest_simps)
  have on: "cap_streaming (card_capabilities (ra_agent_card (ws_app ?site))) = Some True"
    by (simp add: sample_rest_site_def sample_card_def)
  have "rt_send_message_streaming (sample_rt_env ?site) sample_proto_sent None (sample_rt, ()) =
     (([EvTask (norm_task sample_task)], rest_stream_end (Raised (raise_server TaskNotFoundError))), sample_rt, ())"
    using stream_over_rest [OF sample_rest_simps(1,3,4) _ _ sample_proto_sent_ok _ h, where extensions = None] m on
    by (simp add: sample_rest_simps sample_carries sample_task_safe)
  then show ?thesis by blast
qed

end
