(* ===== verification/MessageBindings.thy ===== *)
theory MessageBindings
  imports JsonRpcClient GrpcClient RestSite
begin

section \<open>A message over any binding\<close>

text \<open>
  What \<open>BaseClient\<close> relies on when it sends a message without streaming, as an interface that the three HTTP bindings
  implement: the request handler of the server is called with what arrives of the request, and the client gets what
  the binding delivers of the result. The lemma about the client is proved once, from the interface.
\<close>

subsection \<open>The interface\<close>

text \<open>Consumers of a client that only look at what they are given.\<close>

definition silent :: "'w consumer list \<Rightarrow> bool" where
  "silent cs \<longleftrightarrow> (\<forall>c \<in> set cs. \<forall>event a w. c event a w = (Done (), w))"

lemma silent_consumers: "silent cs \<Longrightarrow> consume cs event a w = (Done (), w)"
  by (induction cs) (auto simp: silent_def)

text \<open>
  The world of a transport is the transport object and the server. \<open>legit\<close> says that the request fits the binding;
  \<open>arrive\<close> is the request as the server's handler sees it, \<open>deliver\<close> the result as the client sees it, \<open>fails y x\<close> that an
  exception \<open>y\<close> of the handler is raised at the client as \<open>x\<close>.
\<close>

locale message_binding =
  fixes transport :: "('t \<times> 's) client_transport"
    and legit :: "sent_params \<Rightarrow> 't \<Rightarrow> 's \<Rightarrow> bool"
    and arrive :: "sent_params \<Rightarrow> MessageSendParams"
    and handle :: "MessageSendParams \<Rightarrow> 's \<Rightarrow> send_result await \<times> 's"
    and deliver :: "send_result \<Rightarrow> Task + Message"
    and fails :: "exn \<Rightarrow> exn \<Rightarrow> bool"
  assumes send_law: "legit p t s \<Longrightarrow> handle (arrive p) s = (res, s') \<Longrightarrow>
      \<exists>r. ct_send_message transport p extensions (t, s) = (r, t, s') \<and>
          (case res of
             Done v \<Rightarrow> r = Done (deliver v)
           | Blocked \<Rightarrow> r = Blocked
           | Raised y \<Rightarrow> (\<exists>x. r = Raised x \<and> fails y x))"
begin

text \<open>What the client makes of a delivered result: one event, a task on its heap.\<close>

lemma client_message:
  assumes "bc_transport bc = transport" and "\<not> streams bc" and "quiet (bc_consumers bc)"
    and "st w = (t, s)" and "legit (send_params bc m conf md) t s"
    and "handle (arrive (send_params bc m conf md)) s = (Done v, s')"
  shows "\<exists>w'. bc_send_message bc m conf md exts w =
      (([case deliver v of Inl x \<Rightarrow> CE_Task (length (heap w)) None | Inr y \<Rightarrow> CE_Message y], Done ()), w') \<and>
    heap w' = heap w @ (case deliver v of Inl x \<Rightarrow> [x] | Inr y \<Rightarrow> [])"
proof -
  from send_law [OF assms(5,6), of exts] have
    r: "ct_send_message transport (send_params bc m conf md) exts (t, s) = (Done (deliver v), t, s')" by auto
  show ?thesis
  proof (cases "deliver v")
    case (Inl x)
    obtain u where "consume (bc_consumers bc) (CE_Task (length (heap w)) None) (bc_card bc)
        (snd (alloc x (w\<lparr>st := (t, s')\<rparr>))) = (Done (), (snd (alloc x (w\<lparr>st := (t, s')\<rparr>)))\<lparr>st := u\<rparr>)"
      using quiet_consumers [OF assms(3)] by blast
    with r Inl assms(1,2,4) show ?thesis
      by (simp add: bc_send_message_def on_transport_def alloc_def consume_and_yield_def yield_one_def Let_def)
  next
    case (Inr y)
    obtain u where "consume (bc_consumers bc) (CE_Message y) (bc_card bc) (w\<lparr>st := (t, s')\<rparr>) =
        (Done (), (w\<lparr>st := (t, s')\<rparr>)\<lparr>st := u\<rparr>)"
      using quiet_consumers [OF assms(3)] by blast
    with r Inr assms(1,2,4) show ?thesis
      by (simp add: bc_send_message_def on_transport_def consume_and_yield_def yield_one_def Let_def)
  qed
qed

text \<open>With consumers that change nothing at all, the call leaves the transport and the server as the transport's call did.\<close>

lemma client_message_leaves:
  assumes "bc_transport bc = transport" and "\<not> streams bc" and "silent (bc_consumers bc)"
    and "st w = (t, s)" and "legit (send_params bc m conf md) t s"
    and "handle (arrive (send_params bc m conf md)) s = (Done v, s')" and "deliver v = Inl x"
  shows "bc_send_message bc m conf md exts w =
    (([CE_Task (length (heap w)) None], Done ()), w\<lparr>heap := heap w @ [x], st := (t, s')\<rparr>)"
proof -
  from send_law [OF assms(5,6), of exts] assms(7) have
    "ct_send_message transport (send_params bc m conf md) exts (t, s) = (Done (Inl x), t, s')" by auto
  with assms(1,2,4) silent_consumers [OF assms(3)] show ?thesis
    by (simp add: bc_send_message_def on_transport_def alloc_def consume_and_yield_def yield_one_def Let_def)
qed

lemma client_message_failed:
  assumes "bc_transport bc = transport" and "\<not> streams bc"
    and "st w = (t, s)" and "legit (send_params bc m conf md) t s"
    and "handle (arrive (send_params bc m conf md)) s = (Raised y, s')"
  shows "\<exists>x w'. bc_send_message bc m conf md exts w = (([], Raised x), w') \<and> fails y x \<and> heap w' = heap w"
proof -
  from send_law [OF assms(4,5), of exts] obtain x where
    "ct_send_message transport (send_params bc m conf md) exts (t, s) = (Raised x, t, s')" "fails y x" by auto
  with assms(1-3) show ?thesis by (simp add: bc_send_message_def on_transport_def Let_def)
qed

end

subsection \<open>JSON-RPC\<close>

definition json_rpc_legit ::
  "'s jt_env \<Rightarrow> 's rpc_site \<Rightarrow> ServerCallContext \<Rightarrow> sent_params \<Rightarrow> 's json_rpc_transport \<Rightarrow> 's \<Rightarrow> bool" where
  "json_rpc_legit e site call p t s \<longleftrightarrow>
     (let req = Req_SendMessage \<lparr>smr_id = IdStr (je_uuid e), smr_params = params_of p\<rparr>
      in jt_interceptors t = [] \<and> je_http e = site_http site \<and> reads_reply (je_codec e) site req s \<and>
         site_accepts (je_codec e) site req call)"

definition json_rpc_fails :: "'s jt_env \<Rightarrow> exn \<Rightarrow> exn \<Rightarrow> bool" where
  "json_rpc_fails e y x \<longleftrightarrow>
     (case y of ServerError z \<Rightarrow> x = rpc_client_error (je_codec e) z | _ \<Rightarrow> is_internal x)"

interpretation over_json_rpc: message_binding "json_rpc_client_transport e" "json_rpc_legit e site call" params_of
  "\<lambda>p. rh_message_send (rs_handler site) p call" sum_of_send "json_rpc_fails e"
proof unfold_locales
  fix p t s res s' and extensions :: "string list option"
  assume l: "json_rpc_legit e site call p t s" and h: "rh_message_send (rs_handler site) (params_of p) call s = (res, s')"
  have l': "jt_interceptors t = []" "je_http e = site_http site"
    "reads_reply (je_codec e) site (Req_SendMessage \<lparr>smr_id = IdStr (je_uuid e), smr_params = params_of p\<rparr>) s"
    "site_accepts (je_codec e) site (Req_SendMessage \<lparr>smr_id = IdStr (je_uuid e), smr_params = params_of p\<rparr>) call"
    using l by (simp_all add: json_rpc_legit_def Let_def)
  have d: "sum_of_send v = (case v of SR_Task x \<Rightarrow> Inl x | SR_Message m \<Rightarrow> Inr m)" for v by (simp add: sum_of_send_def)
  obtain r where r: "jt_send_message e p extensions (t, s) = (r, t, s')"
    and c: "case res of Done v \<Rightarrow> r = Done (sum_of_send v) | Blocked \<Rightarrow> r = Blocked
       | Raised y \<Rightarrow> (case y of ServerError x \<Rightarrow> r = Raised (rpc_client_error (je_codec e) x)
                     | _ \<Rightarrow> \<exists>x. r = Raised x \<and> is_internal x)"
    unfolding d using json_rpc_message_law [OF l' h, of extensions] by blast
  show "\<exists>r. ct_send_message (json_rpc_client_transport e) p extensions (t, s) = (r, t, s') \<and>
      (case res of Done v \<Rightarrow> r = Done (sum_of_send v) | Blocked \<Rightarrow> r = Blocked
       | Raised y \<Rightarrow> (\<exists>x. r = Raised x \<and> json_rpc_fails e y x))"
  proof (cases res)
    case (Raised y)
    with c have "\<exists>x. r = Raised x \<and> json_rpc_fails e y x" by (cases y) (simp_all add: json_rpc_fails_def)
    with r Raised show ?thesis by (simp add: json_rpc_client_transport_def)
  qed (use r c in \<open>simp_all add: json_rpc_client_transport_def\<close>)
qed

subsection \<open>gRPC\<close>

definition fills_configuration :: "sent_params \<Rightarrow> bool" where
  "fills_configuration p \<longleftrightarrow> (\<exists>c. sent_configuration_proto p = Inr c)"

definition arrived :: "sent_params \<Rightarrow> MessageSendParams" where
  "arrived p = arrived_params p (projr (sent_configuration_proto p))"

definition proto_safe ::
  "struct_set \<Rightarrow> 's request_handler \<Rightarrow> ServerCallContext \<Rightarrow> sent_params \<Rightarrow> 's \<Rightarrow> bool" where
  "proto_safe sv rh call p s \<longleftrightarrow>
     message_safe sv (sp_message p) \<and> metadata_safe sv (sp_metadata p) \<and> fills_configuration p \<and>
     (case fst (rh_message_send rh (arrived p) call s) of Done v \<Rightarrow> result_safe sv v | _ \<Rightarrow> True)"

definition grpc_legit ::
  "grpc_env \<Rightarrow> 's request_handler \<Rightarrow> ServerCallContext \<Rightarrow> sent_params \<Rightarrow> grpc_transport \<Rightarrow> 's \<Rightarrow> bool" where
  "grpc_legit ge rh call p t s \<longleftrightarrow> ge_context ge = Inr call \<and> proto_safe (ge_struct ge) rh call p s"

interpretation over_grpc: message_binding "grpc_client_transport (grpc_service ge h rh err) (ge_struct ge)" "grpc_legit ge rh call"
  arrived "\<lambda>p. rh_message_send rh p call" norm_result "\<lambda>y x. x = err (error_status y)"
proof unfold_locales
  fix p t s res s' and extensions :: "string list option"
  assume l: "grpc_legit ge rh call p t s" and h: "rh_message_send rh (arrived p) call s = (res, s')"
  then obtain c where c: "sent_configuration_proto p = Inr c" and a: "arrived p = arrived_params p c"
    by (auto simp: grpc_legit_def proto_safe_def fills_configuration_def arrived_def)
  have "gt_send_message (grpc_service ge h rh err) (ge_struct ge) p extensions (t, s) =
      ((case res of Done v \<Rightarrow> Done (norm_result v) | Blocked \<Rightarrow> Blocked | Raised e \<Rightarrow> Raised (err (error_status e))), t, s')"
    using l h c a by (intro grpc_message_law) (auto simp: grpc_legit_def proto_safe_def)
  then show "\<exists>r. ct_send_message (grpc_client_transport (grpc_service ge h rh err) (ge_struct ge)) p extensions (t, s) = (r, t, s') \<and>
      (case res of Done v \<Rightarrow> r = Done (norm_result v) | Blocked \<Rightarrow> r = Blocked
       | Raised y \<Rightarrow> (\<exists>x. r = Raised x \<and> x = err (error_status y)))"
    by (cases res) (simp_all add: grpc_client_transport_def)
qed

subsection \<open>REST\<close>

definition rest_legit :: "'s rt_env \<Rightarrow> 's rest_site \<Rightarrow> ServerCallContext \<Rightarrow> sent_params \<Rightarrow> rest_transport \<Rightarrow> 's \<Rightarrow> bool" where
  "rest_legit e site call p t s \<longleftrightarrow>
     (let sv = pj_struct (re_json e)
      in (\<exists>hc. re_http e = ws_http site hc) \<and> rt_url t = ws_base site \<and> ws_context site = Inr call \<and>
         pj_struct (ws_json site) = sv \<and> proto_safe sv (ws_handler site) call p s \<and>
         (\<forall>r. sent_request sv p = Inr r \<longrightarrow> carries (pj_send (re_json e)) (pj_read_send (ws_json site)) r) \<and>
         (\<forall>v b. fst (rh_message_send (ws_handler site) (arrived p) call s) = Done v \<longrightarrow>
            to_task_or_message sv (sum_of_send v) = Inr b \<longrightarrow> carries (pj_response (ws_json site)) (pj_read_response (re_json e)) b))"

interpretation over_rest: message_binding "rest_client_transport e" "rest_legit e site call"
  arrived "\<lambda>p. rh_message_send (ws_handler site) p call" norm_result "\<lambda>y x. x = rest_client_error site y"
proof unfold_locales
  fix p t s res s' and extensions :: "string list option"
  assume l: "rest_legit e site call p t s" and h: "rh_message_send (ws_handler site) (arrived p) call s = (res, s')"
  obtain hc where hc: "re_http e = ws_http site hc" using l by (auto simp: rest_legit_def Let_def)
  have l': "rt_url t = ws_base site" "ws_context site = Inr call" "pj_struct (ws_json site) = pj_struct (re_json e)"
    "proto_safe (pj_struct (re_json e)) (ws_handler site) call p s"
    and cr: "\<And>r. sent_request (pj_struct (re_json e)) p = Inr r \<Longrightarrow> carries (pj_send (re_json e)) (pj_read_send (ws_json site)) r"
    and cb: "\<And>v b. res = Done v \<Longrightarrow> to_task_or_message (pj_struct (re_json e)) (sum_of_send v) = Inr b \<Longrightarrow>
        carries (pj_response (ws_json site)) (pj_read_response (re_json e)) b"
    using l h by (auto simp: rest_legit_def Let_def)
  obtain c where c: "sent_configuration_proto p = Inr c" and a: "arrived p = arrived_params p c"
    using l'(4) by (auto simp: proto_safe_def fills_configuration_def arrived_def)
  have safe: "message_safe (pj_struct (re_json e)) (sp_message p)" "metadata_safe (pj_struct (re_json e)) (sp_metadata p)"
    "\<And>v. res = Done v \<Longrightarrow> result_safe (pj_struct (re_json e)) v"
    using l'(4) h by (auto simp: proto_safe_def)
  have "rt_send_message e p extensions (t, s) =
      ((case res of Done v \<Rightarrow> Done (norm_result v) | Blocked \<Rightarrow> Blocked | Raised x \<Rightarrow> Raised (rest_client_error site x)), t, s')"
    by (rule rest_message_law [OF hc l'(1,2) refl l'(3) safe(1,2) c cr cb h [unfolded a] safe(3)])
  then show "\<exists>r. ct_send_message (rest_client_transport e) p extensions (t, s) = (r, t, s') \<and>
      (case res of Done v \<Rightarrow> r = Done (norm_result v) | Blocked \<Rightarrow> r = Blocked
       | Raised y \<Rightarrow> (\<exists>x. r = Raised x \<and> x = rest_client_error site y))"
    by (cases res) (simp_all add: rest_client_transport_def)
qed

subsection \<open>One message, three bindings\<close>

text \<open>A client that does not stream and whose consumers only watch.\<close>

definition plain_client :: "'w base_client \<Rightarrow> 'w client_transport \<Rightarrow> bool" where
  "plain_client bc transport \<longleftrightarrow> bc_transport bc = transport \<and> \<not> streams bc \<and> quiet (bc_consumers bc)"

text \<open>The event of a delivered result and what it adds to the client's heap.\<close>

definition delivered_event :: "nat \<Rightarrow> Task + Message \<Rightarrow> client_event" where
  "delivered_event n d = (case d of Inl x \<Rightarrow> CE_Task n None | Inr y \<Rightarrow> CE_Message y)"

definition delivered_tasks :: "Task + Message \<Rightarrow> Task list" where
  "delivered_tasks d = (case d of Inl x \<Rightarrow> [x] | Inr y \<Rightarrow> [])"

definition client_gets :: "'w base_client \<Rightarrow> Message \<Rightarrow> given_configuration option \<Rightarrow> pydict option \<Rightarrow> string list option \<Rightarrow>
   'w store_state \<Rightarrow> Task + Message \<Rightarrow> bool" where
  "client_gets bc m conf md exts w d \<longleftrightarrow>
     (let ((events, en), w') = bc_send_message bc m conf md exts w
      in events = [delivered_event (length (heap w)) d] \<and> en = Done () \<and> heap w' = heap w @ delivered_tasks d)"

lemma client_getsI:
  "\<exists>w'. bc_send_message bc m conf md exts w =
      (([case d of Inl x \<Rightarrow> CE_Task (length (heap w)) None | Inr y \<Rightarrow> CE_Message y], Done ()), w') \<and>
    heap w' = heap w @ (case d of Inl x \<Rightarrow> [x] | Inr y \<Rightarrow> []) \<Longrightarrow> client_gets bc m conf md exts w d"
  by (auto simp: client_gets_def delivered_event_def delivered_tasks_def)

text \<open>
  Claim C4. The same message through \<open>BaseClient\<close> over JSON-RPC, gRPC and REST to the same request handler: if the handler answers
  the request and its form with the configuration filled in alike, every client yields one event and stops, the JSON-RPC
  client with the very result, the other two with its normal form, and so with equal tasks.
\<close>

theorem message_over_every_binding:
  assumes "plain_client bcj (json_rpc_client_transport ej)"
    and "plain_client bcg (grpc_client_transport (grpc_service ge h rh err) (ge_struct ge))"
    and "plain_client bcr (rest_client_transport er)"
    and "send_params bcj m conf md = p" and "send_params bcg m conf md = p" and "send_params bcr m conf md = p"
    and "rs_handler sj = rh" and "ws_handler sr = rh" and "st wj = (tj, s)" and "st wg = (tg, s)" and "st wr = (tr, s)"
    and "json_rpc_legit ej sj cj p tj s" and "grpc_legit ge rh cg p tg s" and "rest_legit er sr cr p tr s"
    and "rh_message_send rh (params_of p) cj s = (Done v, sj')"
    and "rh_message_send rh (arrived p) cg s = (Done v, sg')" and "rh_message_send rh (arrived p) cr s = (Done v, sr')"
  shows "client_gets bcj m conf md exts wj (sum_of_send v) \<and> client_gets bcg m conf md exts wg (norm_result v) \<and>
         client_gets bcr m conf md exts wr (norm_result v)"
proof -
  have pj: "bc_transport bcj = json_rpc_client_transport ej" "\<not> streams bcj" "quiet (bc_consumers bcj)"
    and pg: "bc_transport bcg = grpc_client_transport (grpc_service ge h rh err) (ge_struct ge)" "\<not> streams bcg" "quiet (bc_consumers bcg)"
    and pr: "bc_transport bcr = rest_client_transport er" "\<not> streams bcr" "quiet (bc_consumers bcr)"
    using assms(1-3) by (simp_all add: plain_client_def)
  have lj: "json_rpc_legit ej sj cj (send_params bcj m conf md) tj s"
    "rh_message_send (rs_handler sj) (params_of (send_params bcj m conf md)) cj s = (Done v, sj')"
    using assms(4,7,12,15) by simp_all
  have lg: "grpc_legit ge rh cg (send_params bcg m conf md) tg s"
    "rh_message_send rh (arrived (send_params bcg m conf md)) cg s = (Done v, sg')"
    using assms(5,13,16) by simp_all
  have lr: "rest_legit er sr cr (send_params bcr m conf md) tr s"
    "rh_message_send (ws_handler sr) (arrived (send_params bcr m conf md)) cr s = (Done v, sr')"
    using assms(6,8,14,17) by simp_all
  have "client_gets bcj m conf md exts wj (sum_of_send v)"
    by (rule client_getsI, rule over_json_rpc.client_message [OF pj assms(9) lj])
  moreover have "client_gets bcg m conf md exts wg (norm_result v)"
    by (rule client_getsI, rule over_grpc.client_message [OF pg assms(10) lg])
  moreover have "client_gets bcr m conf md exts wr (norm_result v)"
    by (rule client_getsI, rule over_rest.client_message [OF pr assms(11) lr])
  ultimately show ?thesis by blast
qed

text \<open>The three sample servers, asked by a client that does not stream.\<close>

definition sample_plain_client :: "'w client_transport \<Rightarrow> 'w base_client" where
  "sample_plain_client transport =
     \<lparr>bc_card = sample_card (Some True), bc_config = sample_client_config\<lparr>cc_streaming := False\<rparr>, bc_transport = transport,
      bc_consumers = []\<rparr>"

lemma sample_plain_client:
  "plain_client (sample_plain_client transport) transport"
  "send_params (sample_plain_client transport) sample_message None None = sample_sent"
  "sample_proto_sent = sample_sent"
  by (simp_all add: sample_plain_client_def plain_client_def streams_def quiet_def send_params_def merge_configuration_def
      base_configuration_def sample_client_config_def sample_sent_def sample_proto_sent_def)

definition sample_send_request :: A2ARequest where
  "sample_send_request = Req_SendMessage \<lparr>smr_id = IdStr ''u1'', smr_params = params_of sample_sent\<rparr>"

definition sample_json_env :: "unit jt_env" where
  "sample_json_env = sample_jt_env (Rsp_Success \<lparr>srs_id = Some (IdStr ''u1''), srs_result = HR_Task sample_task\<rparr>)
     (error_response (IdStr ''u1'') None) (site_http (sample_site sample_send_request))"

lemma sample_json_legit:
  "json_rpc_legit sample_json_env (sample_site sample_send_request) (with_method ''message/send'' default_call_context) sample_sent
     sample_jt ()"
proof -
  let ?ok = "Rsp_Success \<lparr>srs_id = Some (IdStr ''u1''), srs_result = HR_Task sample_task\<rparr>"
  have e: "je_uuid sample_json_env = ''u1''" "je_http sample_json_env = site_http (sample_site sample_send_request)"
    "je_codec sample_json_env = sample_client_codec ?ok (error_response (IdStr ''u1'') None)"
    "request_method sample_send_request = ''message/send''"
    by (simp_all add: sample_json_env_def sample_jt_env_def sample_send_request_def)
  have acc: "site_accepts (je_codec sample_json_env) (sample_site sample_send_request) sample_send_request
      (with_method ''message/send'' default_call_context)"
    using sample_site_accepts [of sample_send_request] by (simp add: e METHOD_TO_MODEL_def)
  have send: "rh_message_send sample_rh p call () = (Done (SR_Task sample_task), ())" for p call
    by (simp add: sample_rh_def)
  have "site_reply (sample_site sample_send_request) (cdc_dump (je_codec sample_json_env) sample_send_request) () =
      (Rpc_Json ?ok (extension_header {}), ())"
    using rpc_send_reply [OF acc [unfolded site_accepts_def sample_send_request_def], of sample_rh "{}" "()"] send
    by (simp add: site_reply_def sample_send_request_def) (simp add: sample_site_def)
  then have "reads_reply (je_codec sample_json_env) (sample_site sample_send_request) sample_send_request ()"
    by (simp add: reads_reply_def reads_one_def e) (simp add: sample_site_def sample_client_codec_def)
  with acc e show ?thesis by (simp add: json_rpc_legit_def sample_send_request_def sample_jt_def)
qed

lemma sample_proto_safe: "proto_safe (\<lambda>v. Inr v) sample_rh default_call_context sample_sent ()"
  using sample_proto_sent_ok
  by (simp add: proto_safe_def fills_configuration_def sample_plain_client sample_rh_def result_safe_def sample_task_safe)

theorem message_over_every_binding_witness:
  "\<exists>site. client_gets (sample_plain_client (json_rpc_client_transport sample_json_env)) sample_message None None None
       \<lparr>heap = [], st = (sample_jt, ())\<rparr> (Inl sample_task) \<and>
     client_gets (sample_plain_client (grpc_client_transport (grpc_service sample_grpc_env sample_grpc_handler sample_rh
       sample_status_error) (\<lambda>v. Inr v))) sample_message None None None \<lparr>heap = [], st = (gt_new None None, ())\<rparr> (Inl (norm_task sample_task)) \<and>
     client_gets (sample_plain_client (rest_client_transport (sample_rt_env site))) sample_message None None None
       \<lparr>heap = [], st = (sample_rt, ())\<rparr> (Inl (norm_task sample_task))"
proof -
  obtain r a ev b where m: "sent_request (\<lambda>v. Inr v) sample_proto_sent = Inr r"
    "to_task_or_message (\<lambda>v. Inr v) (sum_of_send (SR_Task sample_task)) = Inr a"
    "to_stream_response (\<lambda>v. Inr v) (EvTask sample_task) = Inr ev" "to_task (\<lambda>v. Inr v) sample_task = Inr b"
    by (rule sample_messages)
  let ?site = "sample_rest_site sample_rh (sample_pb_json r a ev b)"
  have send: "rh_message_send sample_rh p call () = (Done (SR_Task sample_task), ())" for p call
    by (simp add: sample_rh_def)
  have g: "grpc_legit sample_grpc_env sample_rh default_call_context sample_sent (gt_new None None) ()"
    "ge_struct sample_grpc_env = (\<lambda>v. Inr v)"
    using sample_proto_safe by (simp_all add: grpc_legit_def sample_grpc_env_def)
  have r: "rest_legit (sample_rt_env ?site) ?site default_call_context sample_sent sample_rt ()"
    using sample_proto_safe m sample_carries send
    by (auto simp: rest_legit_def Let_def sample_rest_simps sample_plain_client)
  from message_over_every_binding [OF sample_plain_client(1) sample_plain_client(1) sample_plain_client(1)
      sample_plain_client(2) sample_plain_client(2) sample_plain_client(2) _ _ _ _ _ sample_json_legit g(1) r send send send,
      where wj = "\<lparr>heap = [], st = (sample_jt, ())\<rparr>" and wg = "\<lparr>heap = [], st = (gt_new None None, ())\<rparr>" and
        wr = "\<lparr>heap = [], st = (sample_rt, ())\<rparr>" and h = sample_grpc_handler and err = sample_status_error and exts = None]
  show ?thesis
    by (intro exI [of _ ?site]) (simp add: g(2) sample_site_def sample_rest_simps sum_of_send_def norm_result_def)
qed

end
