(* ===== verification/LegacyClient.thy ===== *)
theory LegacyClient
  imports JsonRpcClient GrpcClient
begin

section \<open>The deprecated clients (client/legacy.py, client/legacy_grpc.py)\<close>

text \<open>
  \<open>A2AClient\<close> wraps the JSON-RPC transport: every method takes a request object and returns a response object.
  \<open>A2AGrpcClient\<close> is the gRPC transport with a constructor of its own.
\<close>

subsection \<open>A2AClient\<close>

text \<open>\<open>if not context and http_kwargs\<close>: keyword arguments become a context unless there is one.\<close>

definition legacy_env :: "'s jt_env \<Rightarrow> http_kwargs option \<Rightarrow> ClientCallContext option \<Rightarrow> 's jt_env" where
  "legacy_env e kw ctx =
     e\<lparr>je_context :=
         (case ctx of
            Some c \<Rightarrow> Some c
          | None \<Rightarrow>
              (case kw of
                 None \<Rightarrow> None
               | Some k \<Rightarrow> if k = no_kwargs then None else Some \<lparr>ccx_http_kwargs = Some k, ccx_session_id = None\<rparr>))\<rparr>"

text \<open>The result under the request's id; an error response is built without an id.\<close>

definition legacy_response :: "rpc_id \<Rightarrow> ('a \<Rightarrow> handler_result) \<Rightarrow> 'a await \<Rightarrow> response await" where
  "legacy_response i f r =
     (case r of
        Done v \<Rightarrow> Done (Rsp_Success \<lparr>srs_id = Some i, srs_result = f v\<rparr>)
      | Blocked \<Rightarrow> Blocked
      | Raised (A2AClientJSONRPCError err t) \<Rightarrow> Done (Rsp_Error \<lparr>ers_error = err, ers_id = None\<rparr>)
      | Raised x \<Rightarrow> Raised x)"

definition legacy_call ::
  "rpc_id \<Rightarrow> ('a \<Rightarrow> handler_result) \<Rightarrow> ('w \<Rightarrow> 'a await \<times> 'w) \<Rightarrow> 'w \<Rightarrow> response await \<times> 'w" where
  "legacy_call i f call w = (let (r, w') = call w in (legacy_response i f r, w'))"

fun result_of_send :: "Task + Message \<Rightarrow> handler_result" where
  "result_of_send (Inl t) = HR_Task t"
| "result_of_send (Inr m) = HR_Message m"

definition legacy_send_message ::
  "'s jt_env \<Rightarrow> SendMessageRequest \<Rightarrow> http_kwargs option \<Rightarrow> ClientCallContext option \<Rightarrow> 's json_rpc_transport \<times> 's \<Rightarrow>
   response await \<times> 's json_rpc_transport \<times> 's" where
  "legacy_send_message e request kw ctx =
     (let e' = legacy_env e kw ctx
      in legacy_call (smr_id request) result_of_send
           (jt_call e' as_task_or_message
              (Req_SendMessage \<lparr>smr_id = IdStr (je_uuid e'), smr_params = smr_params request\<rparr>) None))"

definition legacy_get_task ::
  "'s jt_env \<Rightarrow> GetTaskRequest \<Rightarrow> http_kwargs option \<Rightarrow> ClientCallContext option \<Rightarrow> 's json_rpc_transport \<times> 's \<Rightarrow>
   response await \<times> 's json_rpc_transport \<times> 's" where
  "legacy_get_task e request kw ctx =
     legacy_call (gtr_id request) HR_Task (jt_get_task (legacy_env e kw ctx) (gtr_params request) None)"

definition legacy_cancel_task ::
  "'s jt_env \<Rightarrow> CancelTaskRequest \<Rightarrow> http_kwargs option \<Rightarrow> ClientCallContext option \<Rightarrow> 's json_rpc_transport \<times> 's \<Rightarrow>
   response await \<times> 's json_rpc_transport \<times> 's" where
  "legacy_cancel_task e request kw ctx =
     legacy_call (ctr_id request) HR_Task (jt_cancel_task (legacy_env e kw ctx) (ctr_params request) None)"

definition legacy_set_task_callback ::
  "'s jt_env \<Rightarrow> SetTaskPushNotificationConfigRequest \<Rightarrow> http_kwargs option \<Rightarrow> ClientCallContext option \<Rightarrow>
   's json_rpc_transport \<times> 's \<Rightarrow> response await \<times> 's json_rpc_transport \<times> 's" where
  "legacy_set_task_callback e request kw ctx =
     legacy_call (spr_id request) HR_PushConfig (jt_set_task_callback (legacy_env e kw ctx) (spr_params request) None)"

text \<open>Task id parameters become parameters without a configuration id; their metadata is dropped.\<close>

definition legacy_callback_params :: "get_config_params \<Rightarrow> GetTaskPushNotificationConfigParams" where
  "legacy_callback_params params =
     (case params of
        GCP_TaskId p \<Rightarrow> \<lparr>gtp_id = tip_id p, gtp_metadata = None, gtp_push_notification_config_id = None\<rparr>
      | GCP_Config p \<Rightarrow> p)"

definition legacy_get_task_callback ::
  "'s jt_env \<Rightarrow> GetTaskPushNotificationConfigRequest \<Rightarrow> http_kwargs option \<Rightarrow> ClientCallContext option \<Rightarrow>
   's json_rpc_transport \<times> 's \<Rightarrow> response await \<times> 's json_rpc_transport \<times> 's" where
  "legacy_get_task_callback e request kw ctx =
     legacy_call (gpr_id request) HR_PushConfig
       (jt_get_task_callback (legacy_env e kw ctx) (legacy_callback_params (gpr_params request)) None)"

text \<open>The streams: every event under the request's id; errors of the transport are not caught.\<close>

definition legacy_stream ::
  "rpc_id \<Rightarrow> ('w \<Rightarrow> (Event list \<times> unit await) \<times> 'w) \<Rightarrow> 'w \<Rightarrow> (response list \<times> unit await) \<times> 'w" where
  "legacy_stream i call w =
     (let ((evs, en), w') = call w
      in ((map (\<lambda>ev. Rsp_Success \<lparr>srs_id = Some i, srs_result = event_result ev\<rparr>) evs, en), w'))"

definition legacy_send_message_streaming ::
  "'s jt_env \<Rightarrow> SendStreamingMessageRequest \<Rightarrow> http_kwargs option \<Rightarrow> ClientCallContext option \<Rightarrow>
   's json_rpc_transport \<times> 's \<Rightarrow> (response list \<times> unit await) \<times> 's json_rpc_transport \<times> 's" where
  "legacy_send_message_streaming e request kw ctx =
     legacy_stream (ssr_id request) (jt_stream_params (legacy_env e kw ctx) (ssr_params request) None)"

definition legacy_resubscribe ::
  "'s jt_env \<Rightarrow> TaskResubscriptionRequest \<Rightarrow> http_kwargs option \<Rightarrow> ClientCallContext option \<Rightarrow>
   's json_rpc_transport \<times> 's \<Rightarrow> (response list \<times> unit await) \<times> 's json_rpc_transport \<times> 's" where
  "legacy_resubscribe e request kw ctx =
     legacy_stream (trr_id request) (jt_resubscribe (legacy_env e kw ctx) (trr_params request) None)"

definition legacy_get_card ::
  "'s jt_env \<Rightarrow> http_kwargs option \<Rightarrow> ClientCallContext option \<Rightarrow> 's json_rpc_transport \<times> 's \<Rightarrow>
   AgentCard await \<times> 's json_rpc_transport \<times> 's" where
  "legacy_get_card e kw ctx = jt_get_card (legacy_env e kw ctx) None None"

subsection \<open>A2AGrpcClient\<close>

text \<open>
  Its constructor does not call the transport's, and does not set \<open>extensions\<close>, which \<open>_get_grpc_metadata\<close> reads
  whenever the call brings none of its own. The object is the transport's record, whose field for the extensions stands for no
  attribute and is never read. Of the first argument of
  \<open>legacy_grpc_call\<close> only the failure counts: what a method raises before it asks for the metadata.
\<close>

definition legacy_grpc_new :: "AgentCard option \<Rightarrow> grpc_transport" where
  "legacy_grpc_new c =
     \<lparr>gt_agent_card = c,
      gt_needs_extended_card = (case c of None \<Rightarrow> Some True | Some x \<Rightarrow> card_supports_authenticated_extended_card x),
      gt_extensions = None\<rparr>"

definition no_extensions :: exn where
  "no_extensions = AttributeErr ''A2AGrpcClient has no attribute extensions''"

definition legacy_grpc_call :: "exn + 'x \<Rightarrow> string list option \<Rightarrow> ('w \<Rightarrow> 'a await \<times> 'w) \<Rightarrow> 'w \<Rightarrow> 'a await \<times> 'w" where
  "legacy_grpc_call before extensions call w =
     (case before of
        Inl x \<Rightarrow> (Raised x, w)
      | Inr v \<Rightarrow> (case extensions of None \<Rightarrow> (Raised no_extensions, w) | Some exts \<Rightarrow> call w))"

definition legacy_grpc_stream ::
  "exn + 'x \<Rightarrow> string list option \<Rightarrow> ('w \<Rightarrow> ('e list \<times> unit await) \<times> 'w) \<Rightarrow> 'w \<Rightarrow> ('e list \<times> unit await) \<times> 'w" where
  "legacy_grpc_stream before extensions call w =
     (case before of
        Inl x \<Rightarrow> (([], Raised x), w)
      | Inr v \<Rightarrow> (case extensions of None \<Rightarrow> (([], Raised no_extensions), w) | Some exts \<Rightarrow> call w))"

definition legacy_grpc_send_message ::
  "'s grpc_stub \<Rightarrow> struct_set \<Rightarrow> sent_params \<Rightarrow> string list option \<Rightarrow> grpc_transport \<times> 's \<Rightarrow>
   (Task + Message) await \<times> grpc_transport \<times> 's" where
  "legacy_grpc_send_message stub sv request extensions =
     legacy_grpc_call (sent_request sv request) extensions (gt_send_message stub sv request extensions)"

definition legacy_grpc_send_message_streaming ::
  "'s grpc_stub \<Rightarrow> struct_set \<Rightarrow> sent_params \<Rightarrow> string list option \<Rightarrow> grpc_transport \<times> 's \<Rightarrow>
   (Event list \<times> unit await) \<times> grpc_transport \<times> 's" where
  "legacy_grpc_send_message_streaming stub sv request extensions =
     legacy_grpc_stream (sent_request sv request) extensions (gt_send_message_streaming stub sv request extensions)"

definition legacy_grpc_resubscribe ::
  "'s grpc_stub \<Rightarrow> TaskIdParams \<Rightarrow> string list option \<Rightarrow> grpc_transport \<times> 's \<Rightarrow> (Event list \<times> unit await) \<times> grpc_transport \<times> 's" where
  "legacy_grpc_resubscribe stub request extensions =
     legacy_grpc_stream (Inr ()) extensions (gt_resubscribe stub request extensions)"

definition legacy_grpc_get_task ::
  "'s grpc_stub \<Rightarrow> TaskQueryParams \<Rightarrow> string list option \<Rightarrow> grpc_transport \<times> 's \<Rightarrow> Task await \<times> grpc_transport \<times> 's" where
  "legacy_grpc_get_task stub request extensions =
     legacy_grpc_call (case tqp_history_length request of None \<Rightarrow> Inr 0 | Some n \<Rightarrow> int32 n) extensions
       (gt_get_task stub request extensions)"

definition legacy_grpc_cancel_task ::
  "'s grpc_stub \<Rightarrow> TaskIdParams \<Rightarrow> string list option \<Rightarrow> grpc_transport \<times> 's \<Rightarrow> Task await \<times> grpc_transport \<times> 's" where
  "legacy_grpc_cancel_task stub request extensions =
     legacy_grpc_call (Inr ()) extensions (gt_cancel_task stub request extensions)"

definition legacy_grpc_set_task_callback ::
  "'s grpc_stub \<Rightarrow> TaskPushNotificationConfig \<Rightarrow> string list option \<Rightarrow> grpc_transport \<times> 's \<Rightarrow>
   TaskPushNotificationConfig await \<times> grpc_transport \<times> 's" where
  "legacy_grpc_set_task_callback stub request extensions =
     legacy_grpc_call (Inr ()) extensions (gt_set_task_callback stub request extensions)"

definition legacy_grpc_get_task_callback ::
  "'s grpc_stub \<Rightarrow> GetTaskPushNotificationConfigParams \<Rightarrow> string list option \<Rightarrow> grpc_transport \<times> 's \<Rightarrow>
   TaskPushNotificationConfig await \<times> grpc_transport \<times> 's" where
  "legacy_grpc_get_task_callback stub request extensions =
     legacy_grpc_call (Inr ()) extensions (gt_get_task_callback stub request extensions)"

text \<open>A card that needs no extension is returned before the metadata is asked for.\<close>

definition legacy_grpc_get_card ::
  "'s grpc_stub \<Rightarrow> string list option \<Rightarrow> (AgentCard \<Rightarrow> exn option) option \<Rightarrow> grpc_transport \<times> 's \<Rightarrow>
   AgentCard await \<times> grpc_transport \<times> 's" where
  "legacy_grpc_get_card stub extensions verifier w =
     (if gt_needs_extended_card (fst w) \<noteq> Some True then gt_get_card stub extensions verifier w
      else legacy_grpc_call (Inr ()) extensions (gt_get_card stub extensions verifier) w)"

subsection \<open>What the caller gets\<close>

text \<open>
  The old client and the new one: \<open>A2AClient.send_message\<close> makes the same call as the transport of the new client and
  turns its outcome into a response, a result under the id of the caller's request; but an error response carries no
  id, and every other exception of the transport is raised. The old gRPC client calls nothing without extensions: its
  methods fail on a missing attribute before anything is sent, and with extensions it is the new transport.
\<close>

theorem legacy_clients:
  assumes "jt_send_message (legacy_env e kw ctx) p None ts = (res, ts')" and "smr_params request = params_of p"
    and "sent_request sv p = Inr r"
  shows "(\<forall>v. res = Done v \<longrightarrow> legacy_send_message e request kw ctx ts =
            (Done (Rsp_Success \<lparr>srs_id = Some (smr_id request), srs_result = result_of_send v\<rparr>), ts')) \<and>
         (\<forall>err t. res = Raised (A2AClientJSONRPCError err t) \<longrightarrow>
            legacy_send_message e request kw ctx ts = (Done (Rsp_Error \<lparr>ers_error = err, ers_id = None\<rparr>), ts')) \<and>
         (\<forall>x. res = Raised x \<longrightarrow> (\<forall>err t. x \<noteq> A2AClientJSONRPCError err t) \<longrightarrow>
            legacy_send_message e request kw ctx ts = (Raised x, ts')) \<and>
         legacy_grpc_send_message stub sv p None w = (Raised no_extensions, w) \<and>
         legacy_grpc_send_message_streaming stub sv p None w = (([], Raised no_extensions), w) \<and>
         legacy_grpc_cancel_task stub tid None w = (Raised no_extensions, w) \<and>
         legacy_grpc_resubscribe stub tid None w = (([], Raised no_extensions), w) \<and>
         legacy_grpc_set_task_callback stub config None w = (Raised no_extensions, w) \<and>
         legacy_grpc_get_task_callback stub gcp None w = (Raised no_extensions, w) \<and>
         legacy_grpc_send_message stub sv p (Some exts) w = gt_send_message stub sv p (Some exts) w"
proof -
  have "legacy_send_message e request kw ctx ts = (legacy_response (smr_id request) result_of_send res, ts')"
    using assms(1,2) by (simp add: legacy_send_message_def legacy_call_def jt_send_message_def Let_def)
  then show ?thesis
    using assms(3)
    by (auto simp: legacy_response_def legacy_grpc_send_message_def legacy_grpc_send_message_streaming_def
        legacy_grpc_cancel_task_def legacy_grpc_resubscribe_def legacy_grpc_set_task_callback_def legacy_grpc_get_task_callback_def legacy_grpc_call_def legacy_grpc_stream_def split: exn.split)
qed

theorem legacy_clients_witness:
  "\<exists>e. legacy_send_message e \<lparr>smr_id = IdInt 3, smr_params = params_of sample_proto_sent\<rparr> None None (sample_jt, ()) =
     (Done (Rsp_Error \<lparr>ers_error = InternalError, ers_id = None\<rparr>), sample_jt, ())"
proof -
  let ?err = "error_response (IdStr ''u1'') None"
  let ?hc = "\<lparr>hc_post = (\<lambda>u p k s. (Http_Response 200 [] (Inr (PyStr ''error'')), s)), hc_get = (\<lambda>u k s. (Http_Waiting, s)),
     hc_stream = (\<lambda>u p k s. (Sse_Waiting, s)), hc_headers = [], hc_read_timeout = PyNone\<rparr> :: unit http_client"
  let ?e = "sample_jt_env ?err ?err ?hc"
  have "legacy_env ?e None None = ?e" by (simp add: legacy_env_def sample_jt_env_def)
  then have call: "jt_send_message (legacy_env ?e None None) sample_proto_sent None (sample_jt, ()) =
      (Raised (A2AClientJSONRPCError InternalError []), sample_jt, ())"
    by (simp add: jt_send_message_def jt_call_def jt_payload_plain sample_jt_def sample_jt_env_def jt_send_request_def
        is_success_def rpc_result_def sample_client_codec_def error_response_def)
  obtain r where r: "sent_request (\<lambda>v. Inr v) sample_proto_sent = Inr r"
    using sent_request_arrives [OF sample_proto_sent_ok] by blast
  from legacy_clients [OF call _ r, of "\<lparr>smr_id = IdInt 3, smr_params = params_of sample_proto_sent\<rparr>"
      "grpc_service sample_grpc_env sample_grpc_handler sample_rh sample_status_error" "(gt_new None None, ())"]
  show ?thesis by (intro exI [of _ ?e]) simp
qed

end
