(* ===== verification/ClientFactory.thy ===== *)
theory ClientFactory
  imports BaseClient
begin

section \<open>Creating clients (client/client_factory.py, client/helpers.py)\<close>

text \<open>
  \<open>ClientFactory\<close> registers a producer per transport label and chooses the transport both the
  card and the configuration name. A transport is produced by \<open>produce\<close>, an argument: what the
  constructors of the transports make of the card, the URL, the configuration and the interceptors (\<open>'i\<close>). Labels are
  strings (\<open>TransportProtocol\<close> is a string enumeration).
\<close>

datatype producer = JsonRpcProducer | RestProducer | GrpcProducer | KafkaProducer | CustomProducer string

record 'c client_factory =
  cf_config :: ClientConfig
  cf_consumers :: "'c list"
  cf_registry :: "(string \<times> producer) list"

definition cf_register :: "string \<Rightarrow> producer \<Rightarrow> 'c client_factory \<Rightarrow> 'c client_factory" where
  "cf_register label generator f = f\<lparr>cf_registry := AList.update label generator (cf_registry f)\<rparr>"

definition import_error :: "string \<Rightarrow> string \<Rightarrow> exn" where
  "import_error client extra = OtherException (''To use '' @ client @ '', its dependencies must be installed. You can install them with '' @
     [CHR 0x27] @ ''pip install '' @ [CHR 0x22] @ ''a2a-sdk['' @ extra @ '']'' @ [CHR 0x22, CHR 0x27])"

text \<open>\<open>_register_defaults\<close>; whether the gRPC and Kafka packages could be imported are arguments.\<close>

definition register_defaults :: "bool \<Rightarrow> bool \<Rightarrow> string list \<Rightarrow> 'c client_factory \<Rightarrow> exn + 'c client_factory" where
  "register_defaults has_grpc has_kafka supported f =
     (let f1 = (if ''JSONRPC'' \<in> set supported \<or> supported = [] then cf_register ''JSONRPC'' JsonRpcProducer f else f);
          f2 = (if ''HTTP+JSON'' \<in> set supported then cf_register ''HTTP+JSON'' RestProducer f1 else f1)
      in if ''GRPC'' \<in> set supported \<and> \<not> has_grpc then Inl (import_error ''GrpcClient'' ''grpc'')
         else let f3 = (if ''GRPC'' \<in> set supported then cf_register ''GRPC'' GrpcProducer f2 else f2)
              in if ''KAFKA'' \<in> set supported \<and> \<not> has_kafka then Inl (import_error ''KafkaClient'' ''kafka'')
                 else Inr (if ''KAFKA'' \<in> set supported then cf_register ''KAFKA'' KafkaProducer f3 else f3))"

definition cf_new :: "bool \<Rightarrow> bool \<Rightarrow> ClientConfig \<Rightarrow> 'c list option \<Rightarrow> exn + 'c client_factory" where
  "cf_new has_grpc has_kafka cfg consumers =
     register_defaults has_grpc has_kafka (cc_supported_transports cfg)
       \<lparr>cf_config = cfg, cf_consumers = or_else consumers [], cf_registry = []\<rparr>"

text \<open>The dictionary of the card's transports, in insertion order.\<close>

definition server_set :: "AgentCard \<Rightarrow> (string \<times> string) list" where
  "server_set c =
     (let server_preferred = or_else (card_preferred_transport c) ''JSONRPC'';
          s = [(server_preferred, card_url c)]
      in if truthy (card_additional_interfaces c)
         then dict_update s (map (\<lambda>x. (aif_transport x, aif_url x)) (the (card_additional_interfaces c)))
         else s)"

definition client_set :: "ClientConfig \<Rightarrow> string list" where
  "client_set cfg = (if cc_supported_transports cfg \<noteq> [] then cc_supported_transports cfg else [''JSONRPC''])"

text \<open>The two loops that look for a common transport: the first match, with its URL.\<close>

definition choose_transport :: "ClientConfig \<Rightarrow> AgentCard \<Rightarrow> (string \<times> string) option" where
  "choose_transport cfg c =
     (if cc_use_client_preference cfg
      then (case find (\<lambda>x. map_of (server_set c) x \<noteq> None) (client_set cfg) of
              None \<Rightarrow> None
            | Some x \<Rightarrow> Some (x, the (map_of (server_set c) x)))
      else find (\<lambda>(x, url). x \<in> set (client_set cfg)) (server_set c))"

record 'c created_client =
  crc_producer :: producer
  crc_label :: string
  crc_url :: string
  crc_card :: AgentCard
  crc_config :: ClientConfig
  crc_consumers :: "'c list"

definition cf_create ::
  "AgentCard \<Rightarrow> 'c list option \<Rightarrow> string list option \<Rightarrow> 'c client_factory \<Rightarrow>
   (exn + 'c created_client) \<times> 'c client_factory" where
  "cf_create c consumers extensions f =
     (case choose_transport (cf_config f) c of
        None \<Rightarrow> (Inl (ValueErr ''no compatible transports found.''), f)
      | Some (label, url) \<Rightarrow>
          if label = [] \<or> url = [] then (Inl (ValueErr ''no compatible transports found.''), f)
          else (case map_of (cf_registry f) label of
                  None \<Rightarrow> (Inl (ValueErr (''no client available for '' @ label)), f)
                | Some producer \<Rightarrow>
                    let all_consumers = cf_consumers f @ or_else consumers [];
                        f' = (if truthy extensions
                              then f\<lparr>cf_config := (cf_config f)\<lparr>cc_extensions := cc_extensions (cf_config f) @ the extensions\<rparr>\<rparr>
                              else f)
                    in (Inr \<lparr>crc_producer = producer, crc_label = label, crc_url = url, crc_card = c,
                            crc_config = cf_config f', crc_consumers = all_consumers\<rparr>, f')))"

definition built_client ::
  "(producer \<Rightarrow> AgentCard \<Rightarrow> string \<Rightarrow> ClientConfig \<Rightarrow> 'w client_transport) \<Rightarrow> 'w consumer created_client \<Rightarrow> 'w base_client" where
  "built_client produce r =
     \<lparr>bc_card = crc_card r, bc_config = crc_config r,
      bc_transport = produce (crc_producer r) (crc_card r) (crc_url r) (crc_config r), bc_consumers = crc_consumers r\<rparr>"

definition cf_connect ::
  "bool \<Rightarrow> bool \<Rightarrow> exn + AgentCard \<Rightarrow> ClientConfig \<Rightarrow> 'c list option \<Rightarrow> (string \<times> producer) list \<Rightarrow> string list option \<Rightarrow>
   exn + 'c created_client" where
  "cf_connect has_grpc has_kafka resolved cfg consumers extra_transports extensions =
     (case resolved of
        Inl e \<Rightarrow> Inl e
      | Inr c \<Rightarrow>
          (case cf_new has_grpc has_kafka cfg None of
             Inl e \<Rightarrow> Inl e
           | Inr f \<Rightarrow> fst (cf_create c consumers extensions
                             (foldl (\<lambda>g (label, generator). cf_register label generator g) f extra_transports))))"

definition minimal_agent_card :: "string \<Rightarrow> string list option \<Rightarrow> AgentCard" where
  "minimal_agent_card url transports =
     (let ts = or_else transports [] in
      \<lparr>card_additional_interfaces = Some (map (\<lambda>t. \<lparr>aif_transport = t, aif_url = url\<rparr>) (tl ts)),
       card_capabilities = \<lparr>cap_extensions = None, cap_push_notifications = None, cap_state_transition_history = None,
                            cap_streaming = None\<rparr>,
       card_default_input_modes = [], card_default_output_modes = [], card_description = [],
       card_documentation_url = None, card_icon_url = None, card_name = [],
       card_preferred_transport = (if ts = [] then None else Some (hd ts)),
       card_protocol_version = Some ''0.3.0'', card_provider = None, card_security = None, card_security_schemes = None,
       card_signatures = None, card_skills = [], card_supports_authenticated_extended_card = Some True,
       card_url = url, card_version = []\<rparr>)"

definition create_text_message_object :: "Role \<Rightarrow> string \<Rightarrow> string \<Rightarrow> Message" where
  "create_text_message_object role content uuid =
     \<lparr>msg_context_id = None, msg_extensions = None, msg_message_id = uuid, msg_metadata = None,
      msg_parts = [text_part content], msg_reference_task_ids = None, msg_role = role, msg_task_id = None\<rparr>"

subsection \<open>Lemmas\<close>

lemma dict_ok_server_set: "dict_ok (server_set c)"
proof -
  have "dict_ok [(a, b)]" for a b :: string by (simp add: dict_ok_def)
  then show ?thesis by (simp add: server_set_def Let_def)
qed

lemma cf_register_simps [simp]:
  "cf_config (cf_register l g f) = cf_config f"
  "cf_consumers (cf_register l g f) = cf_consumers f"
  "map_of (cf_registry (cf_register l g f)) = (map_of (cf_registry f))(l \<mapsto> g)"
  by (simp_all add: cf_register_def update_conv')

definition known_transports :: "string set" where
  "known_transports = {''JSONRPC'', ''HTTP+JSON'', ''GRPC'', ''KAFKA''}"

lemma register_defaults_spec:
  assumes "register_defaults g k supported f = Inr f'"
  shows "cf_config f' = cf_config f"
    and "x \<in> set supported \<or> supported = [] \<and> x = ''JSONRPC'' \<Longrightarrow> x \<in> known_transports \<Longrightarrow>
           map_of (cf_registry f') x \<noteq> None"
  using assms by (auto simp: register_defaults_def Let_def known_transports_def split: if_splits)

lemma find_split:
  assumes "find P xs = Some x"
  shows "P x \<and> (\<exists>pre post. xs = pre @ x # post \<and> (\<forall>y \<in> set pre. \<not> P y))"
  using assms
proof (induction xs)
  case (Cons a xs)
  show ?case
  proof (cases "P a")
    case True
    with Cons.prems show ?thesis by (intro conjI exI [of _ "[]"] exI [of _ xs]) auto
  next
    case False
    with Cons obtain pre post where "P x" "xs = pre @ x # post" "\<forall>y \<in> set pre. \<not> P y" by auto
    with False show ?thesis by (intro conjI exI [of _ "a # pre"] exI [of _ post]) auto
  qed
qed simp

text \<open>The chosen label is the first of the preferred side that the other side has.\<close>

definition first_common :: "ClientConfig \<Rightarrow> AgentCard \<Rightarrow> string \<Rightarrow> bool" where
  "first_common cfg c label \<longleftrightarrow>
     (let order = (if cc_use_client_preference cfg then client_set cfg else map fst (server_set c));
          other = (if cc_use_client_preference cfg then fst ` set (server_set c) else set (client_set cfg))
      in label \<in> other \<and> (\<exists>pre post. order = pre @ label # post \<and> (\<forall>x \<in> set pre. x \<notin> other)))"

lemma choose_transport_Some:
  assumes "choose_transport cfg c = Some (label, url)"
  shows "first_common cfg c label \<and> map_of (server_set c) label = Some url"
proof (cases "cc_use_client_preference cfg")
  case True
  with assms have f: "find (\<lambda>x. map_of (server_set c) x \<noteq> None) (client_set cfg) = Some label"
    and u: "url = the (map_of (server_set c) label)" by (auto simp: choose_transport_def split: option.splits)
  from find_split [OF f] True u show ?thesis by (auto simp: first_common_def map_of_eq_None_iff Let_def)
next
  case False
  with assms have f: "find (\<lambda>(x, url). x \<in> set (client_set cfg)) (server_set c) = Some (label, url)"
    by (simp add: choose_transport_def)
  from find_split [OF f] obtain pre post where s: "label \<in> set (client_set cfg)"
    "server_set c = pre @ (label, url) # post" "\<forall>y \<in> set pre. fst y \<notin> set (client_set cfg)"
    by (auto simp: case_prod_beta)
  from dict_ok_server_set [of c] s(2) have "map_of (server_set c) label = Some url"
    by (intro map_of_is_SomeI) (simp_all add: dict_ok_def)
  moreover have "\<exists>p q. map fst (server_set c) = p @ label # q \<and> (\<forall>x \<in> set p. x \<notin> set (client_set cfg))"
    using s by (intro exI [of _ "map fst pre"] exI [of _ "map fst post"]) simp
  ultimately show ?thesis using s(1) False by (simp add: first_common_def)
qed

lemma first_common_both:
  assumes "first_common cfg c label"
  shows "label \<in> set (client_set cfg) \<and> label \<in> fst ` set (server_set c)"
proof -
  have "label \<in> set order" if "order = pre @ label # post" for order pre post :: "string list" using that by simp
  with assms show ?thesis
    by (cases "cc_use_client_preference cfg") (auto simp: first_common_def Let_def simp del: set_map simp flip: set_map)
qed

lemma choose_transport_None:
  "choose_transport cfg c = None \<Longrightarrow> set (client_set cfg) \<inter> fst ` set (server_set c) = {}"
  by (auto simp: choose_transport_def find_None_iff map_of_eq_None_iff split: if_splits option.splits)

text \<open>
  A factory for the transports of the SDK serves every card that shares a transport with the configuration:
  the client gets the first common transport in the order of the preferring side, with the URL the card gives for
  it (an additional interface overrides the card's main URL); creation fails only when there is no common transport.
\<close>

theorem factory_chooses_first_common:
  assumes "cf_new has_grpc has_kafka cfg cs = Inr f" and "set (cc_supported_transports cfg) \<subseteq> known_transports"
    and "[] \<notin> snd ` set (server_set c)"
  shows "case fst (cf_create c consumers extensions f) of
           Inl e \<Rightarrow> e = ValueErr ''no compatible transports found.'' \<and> set (client_set cfg) \<inter> fst ` set (server_set c) = {}
         | Inr r \<Rightarrow> first_common cfg c (crc_label r) \<and> map_of (server_set c) (crc_label r) = Some (crc_url r) \<and>
                    map_of (cf_registry f) (crc_label r) = Some (crc_producer r)"
proof -
  have cfg: "cf_config f = cfg" using register_defaults_spec(1) [OF assms(1) [unfolded cf_new_def]] by simp
  show ?thesis
  proof (cases "choose_transport cfg c")
    case None
    with choose_transport_None [OF None] cfg show ?thesis by (simp add: cf_create_def)
  next
    case (Some lu)
    obtain label url where lu: "lu = (label, url)" by fastforce
    from choose_transport_Some [OF Some [unfolded lu]]
    have fc: "first_common cfg c label" and mo: "map_of (server_set c) label = Some url" by auto
    have lc: "label \<in> set (client_set cfg)" using fc by (auto simp: first_common_def Let_def split: if_splits)
    then have kn: "label \<in> known_transports" using assms(2)
      by (auto simp: client_set_def known_transports_def split: if_splits)
    then have "label \<noteq> []" by (auto simp: known_transports_def)
    moreover have "url \<noteq> []" using assms(3) map_of_SomeD [OF mo] by (metis image_eqI snd_conv)
    moreover obtain p where "map_of (cf_registry f) label = Some p"
      using register_defaults_spec(2) [OF assms(1) [unfolded cf_new_def], of label] lc kn
      by (auto simp: client_set_def split: if_splits)
    ultimately show ?thesis using Some lu cfg fc mo by (simp add: cf_create_def Let_def)
  qed
qed

theorem factory_chooses_first_common_witness:
  "case fst (cf_create (minimal_agent_card ''u'' (Some [''GRPC'', ''HTTP+JSON''])) None None
       (case cf_new False True (sample_client_config\<lparr>cc_supported_transports := [''JSONRPC'', ''HTTP+JSON'']\<rparr>) (None :: nat list option)
        of Inr f \<Rightarrow> f)) of
     Inl e \<Rightarrow> False | Inr r \<Rightarrow> crc_label r = ''HTTP+JSON'' \<and> crc_url r = ''u''"
proof -
  let ?cfg = "sample_client_config\<lparr>cc_supported_transports := [''JSONRPC'', ''HTTP+JSON'']\<rparr>"
  let ?c = "minimal_agent_card ''u'' (Some [''GRPC'', ''HTTP+JSON''])"
  have s: "server_set ?c = [(''GRPC'', ''u''), (''HTTP+JSON'', ''u'')]"
    by (simp add: server_set_def minimal_agent_card_def or_else_def)
  have "cf_new False True ?cfg (None :: nat list option) \<noteq> Inl e" for e
    by (simp add: cf_new_def register_defaults_def Let_def sample_client_config_def)
  then obtain f :: "nat client_factory" where f: "cf_new False True ?cfg None = Inr f"
    by (metis sum.exhaust)
  have k: "set (cc_supported_transports ?cfg) \<subseteq> known_transports" by (simp add: known_transports_def)
  have c: "client_set ?cfg = [''JSONRPC'', ''HTTP+JSON'']" by (simp add: client_set_def)
  have u: "[] \<notin> snd ` set (server_set ?c)" by (simp add: s)
  show ?thesis
  proof (cases "fst (cf_create ?c None None f)")
    case (Inl e)
    with factory_chooses_first_common [OF f k u, of None None] show ?thesis by (simp add: s c)
  next
    case (Inr r)
    with factory_chooses_first_common [OF f k u, of None None]
    have r: "first_common ?cfg ?c (crc_label r)" "map_of (server_set ?c) (crc_label r) = Some (crc_url r)" by simp_all
    from first_common_both [OF r(1)] have "crc_label r = ''HTTP+JSON''" by (auto simp: s c)
    with r(2) Inr f show ?thesis by (simp add: s)
  qed
qed

text \<open>
  The extensions given to one \<open>create\<close> call stay in the factory's configuration: a later call that gives none
  creates a client with them all the same.
\<close>

theorem factory_remembers_extensions:
  assumes "cf_create c1 cs1 extensions f = (Inr r1, f1)" and "cf_create c2 cs2 None f1 = (Inr r2, f2)"
  shows "cc_extensions (crc_config r2) = cc_extensions (cf_config f) @ or_else extensions []"
  using assms
  by (auto simp: cf_create_def Let_def or_else_def split: option.splits prod.splits if_splits)

theorem factory_remembers_extensions_witness:
  "\<exists>r1 f1 r2 f2. cf_create (minimal_agent_card ''u'' None) None (Some [''ext''])
       \<lparr>cf_config = sample_client_config, cf_consumers = [] :: nat list, cf_registry = [(''JSONRPC'', JsonRpcProducer)]\<rparr> =
         (Inr r1, f1) \<and>
     cf_create (minimal_agent_card ''u'' None) None None f1 = (Inr r2, f2) \<and> cc_extensions (crc_config r2) = [''ext'']"
proof -
  let ?f = "\<lparr>cf_config = sample_client_config, cf_consumers = [] :: nat list, cf_registry = [(''JSONRPC'', JsonRpcProducer)]\<rparr>"
  let ?c = "minimal_agent_card ''u'' None"
  have ch: "choose_transport sample_client_config ?c = Some (''JSONRPC'', ''u'')"
    "choose_transport (sample_client_config\<lparr>cc_extensions := [''ext'']\<rparr>) ?c = Some (''JSONRPC'', ''u'')"
    by (simp_all add: choose_transport_def server_set_def minimal_agent_card_def sample_client_config_def or_else_def client_set_def)
  obtain r1 f1 where 1: "cf_create ?c None (Some [''ext'']) ?f = (Inr r1, f1)"
    and f1: "f1 = ?f\<lparr>cf_config := sample_client_config\<lparr>cc_extensions := [''ext'']\<rparr>\<rparr>"
    using ch(1) by (simp add: cf_create_def Let_def) (simp add: sample_client_config_def)
  obtain r2 f2 where 2: "cf_create ?c None None f1 = (Inr r2, f2)"
    using ch(2) by (simp add: cf_create_def Let_def f1)
  from factory_remembers_extensions [OF 1 2] 1 2 show ?thesis by (auto simp: sample_client_config_def or_else_def)
qed

end
