(* ===== verification/CallContexts.thy ===== *)
theory CallContexts
  imports RequestContext A2A_Protocol
begin

section \<open>Call contexts (apps/jsonrpc/jsonrpc_app.py, request_handlers/grpc_handler.py, extensions/common.py)\<close>

text \<open>
  The default context builders of the HTTP applications and of the gRPC handler: the user, the state
  and the extensions that the caller asked for. The request objects belong to Starlette and grpc; what the builders
  read of them is a record.
\<close>

text \<open>
  A Starlette request: its user and its credentials (\<open>None\<close> when there is no authentication middleware, reading them
  raises) and its headers in order, names in lower case.
\<close>

record starlette_request =
  sr_user :: "User option"
  sr_auth :: "pyval option"
  sr_headers :: "(string \<times> string) list"

definition extension_header_name :: string where
  "extension_header_name = ''X-A2A-Extensions''"

text \<open>\<open>headers.getlist\<close> ignores the case of the name; \<open>dict(headers)\<close> has the first value of every name.\<close>

definition headers_getlist :: "string \<Rightarrow> (string \<times> string) list \<Rightarrow> string list" where
  "headers_getlist name hs = map snd (filter (\<lambda>(k, v). lower k = lower name) hs)"

definition headers_dict :: "(string \<times> string) list \<Rightarrow> pydict" where
  "headers_dict hs = map (\<lambda>k. (k, PyStr (the (map_of hs k)))) (remdups (map fst hs))"

text \<open>\<open>StarletteUserProxy\<close> reads both properties through.\<close>

definition starlette_user_proxy :: "User \<Rightarrow> User" where
  "starlette_user_proxy u = \<lparr>user_is_authenticated = user_is_authenticated u, user_name = user_name u\<rparr>"

definition build_http_context :: "starlette_request \<Rightarrow> ServerCallContext" where
  "build_http_context r =
     \<lparr>scc_state =
        (case (sr_user r, sr_auth r) of (Some u, Some a) \<Rightarrow> [(''auth'', a)] | _ \<Rightarrow> []) @
        [(''headers'', PyDict (headers_dict (sr_headers r)))],
      scc_user = (case sr_user r of Some u \<Rightarrow> starlette_user_proxy u | None \<Rightarrow> UnauthenticatedUser),
      scc_requested_extensions = get_requested_extensions (headers_getlist extension_header_name (sr_headers r)),
      scc_activated_extensions = {}\<rparr>"

text \<open>
  What \<open>context.invocation_metadata\<close> is: a \<open>Metadata\<close> object (its keys as they are), a sequence of pairs, or
  something else, in particular a method, which it is in grpc's own \<open>ServicerContext\<close>. Values are strings or bytes.
\<close>

datatype metadata_value = MV_Str string | MV_Bytes py_bytes

datatype invocation_metadata =
    IM_Metadata "(string \<times> metadata_value) list"
  | IM_Sequence "(string \<times> metadata_value) list"
  | IM_Other

fun metadata_text :: "metadata_value \<Rightarrow> exn + string" where
  "metadata_text (MV_Str s) = Inr s"
| "metadata_text (MV_Bytes (Utf8 s)) = Inr s"
| "metadata_text (MV_Bytes NotUtf8) = Inl (ValueErr ''invalid utf-8'')"

definition get_metadata_value :: "invocation_metadata \<Rightarrow> string \<Rightarrow> exn + string list" where
  "get_metadata_value md key =
     res_map metadata_text
       (case md of
          IM_Metadata xs \<Rightarrow> map snd (filter (\<lambda>(k, e). k = key) xs)
        | IM_Sequence xs \<Rightarrow> map snd (filter (\<lambda>(k, e). lower k = lower key) xs)
        | IM_Other \<Rightarrow> [])"

definition build_grpc_context :: "invocation_metadata \<Rightarrow> exn + ServerCallContext" where
  "build_grpc_context md =
     res_bind (get_metadata_value md extension_header_name) (\<lambda>values.
       Inr \<lparr>scc_state = [(''grpc_context'', PyObj ''context'')], scc_user = UnauthenticatedUser,
            scc_requested_extensions = get_requested_extensions values, scc_activated_extensions = {}\<rparr>)"

definition find_extension_by_uri :: "AgentCard \<Rightarrow> string \<Rightarrow> AgentExtension option" where
  "find_extension_by_uri c uri =
     find (\<lambda>x. ext_uri x = uri) (or_else (cap_extensions (card_capabilities c)) [])"

subsection \<open>From the client's list to the server's set\<close>

lemma lower_idempotent [simp]: "lower (lower s) = lower s"
proof -
  have "lower_char (lower_char c) = lower_char c" for c
    by (auto simp: lower_char_def)
  then show ?thesis by (simp add: lower_def)
qed

text \<open>
  The extensions that a client asks for reach the call context: what the client writes into the header for a
  list of URIs (none empty, with commas, or with surrounding white space), the HTTP builder reads back as exactly the set of
  these URIs, whatever the other headers are, and so does the gRPC builder from a metadata sequence. But from anything that is
  neither metadata nor a sequence, such as the unbound call that grpc's own context offers under that name, the gRPC
  builder reads no extension at all.
\<close>

theorem requested_extensions_arrive:
  assumes "\<forall>e \<in> set exts. e \<noteq> [] \<and> CHR '','' \<notin> set e \<and> strip e = e"
    and "update_extension_header None (Some exts) = Some sent"
    and "\<forall>(k, v) \<in> set other. lower k \<noteq> lower extension_header_name"
  shows "scc_requested_extensions (build_http_context \<lparr>sr_user = u, sr_auth = a,
             sr_headers = other @ map (\<lambda>(k, v). (lower k, v)) sent\<rparr>) = set exts \<and>
         (\<exists>c. build_grpc_context (IM_Sequence (map (\<lambda>(k, v). (lower k, MV_Str v)) sent)) = Inr c \<and>
              scc_requested_extensions c = set exts) \<and>
         (\<exists>c. build_grpc_context IM_Other = Inr c \<and> scc_requested_extensions c = {})"
proof -
  have sent: "sent = [(extension_header_name, str_join '','' exts)]"
    using assms(2) by (simp add: update_extension_header_def extension_header_name_def)
  have "filter (\<lambda>(k, v). lower k = lower extension_header_name) other = []"
    using assms(3) by (auto simp: filter_empty_conv)
  with header_value_read [OF assms(1)] show ?thesis
    by (simp add: sent build_http_context_def headers_getlist_def build_grpc_context_def get_metadata_value_def
        get_requested_extensions_def)
qed

theorem requested_extensions_arrive_witness:
  "scc_requested_extensions (build_http_context \<lparr>sr_user = None, sr_auth = None,
     sr_headers = [(''accept'', ''*'')] @ map (\<lambda>(k, v). (lower k, v)) [(''X-A2A-Extensions'', ''a,b'')]\<rparr>) = {''a'', ''b''}"
proof -
  have "\<forall>e \<in> set [''a'', ''b'']. e \<noteq> [] \<and> CHR '','' \<notin> set e \<and> strip e = e"
    by (simp add: strip_def is_space_def)
  moreover have "update_extension_header None (Some [''a'', ''b'']) = Some [(''X-A2A-Extensions'', ''a,b'')]"
    by (simp add: update_extension_header_def)
  moreover have "\<forall>(k, v) \<in> set [(''accept'', ''*'')]. lower k \<noteq> lower extension_header_name"
    by (simp add: lower_def extension_header_name_def)
  ultimately show ?thesis
    using requested_extensions_arrive [of "[''a'', ''b'']" "[(''X-A2A-Extensions'', ''a,b'')]" "[(''accept'', ''*'')]"]
    by simp
qed

end
