(* ===== verification/JsonValues.thy ===== *)
theory JsonValues
  imports PyNumbers A2A_Types
begin

section \<open>Untyped values (utils/proto_utils.py, utils/helpers.py)\<close>

text \<open>
  The helpers that prepare metadata and data parts for protobuf structs, which know only doubles:
  integers with many digits become strings and are turned back, other objects become text; and the
  cleaning of a dumped agent card before it is signed.
\<close>

subsection \<open>Serializable values\<close>

fun make_dict_serializable :: "pyval \<Rightarrow> pyval" where
  "make_dict_serializable (PyDict d) = PyDict (map (\<lambda>(k, v). (k, make_dict_serializable v)) d)"
| "make_dict_serializable (PyList xs) = PyList (map make_dict_serializable xs)"
| "make_dict_serializable (PyTuple xs) = PyList (map make_dict_serializable xs)"
| "make_dict_serializable (PyObj s) = PyStr s"
| "make_dict_serializable v = v"

subsection \<open>Large integers as strings and back\<close>

definition max_safe_int :: "nat \<Rightarrow> int" where
  "max_safe_int max_safe_digits = 10 ^ max_safe_digits - 1"

definition too_many_digits :: exn where
  "too_many_digits = ValueErr ''Exceeds the limit (4300 digits) for integer string conversion''"

text \<open>Python's booleans are integers.\<close>

fun normalize_large_integers_to_strings :: "nat \<Rightarrow> pyval \<Rightarrow> exn + pyval" where
  "normalize_large_integers_to_strings k (PyInt n) =
     (if \<bar>n\<bar> > max_safe_int k
      then (case py_str n of None \<Rightarrow> Inl too_many_digits | Some s \<Rightarrow> Inr (PyStr s))
      else Inr (PyInt n))"
| "normalize_large_integers_to_strings k (PyBool b) =
     (if b \<and> 1 > max_safe_int k then Inr (PyStr ''True'') else Inr (PyBool b))"
| "normalize_large_integers_to_strings k (PyDict d) =
     res_bind (res_map (\<lambda>(key, v). res_bind (normalize_large_integers_to_strings k v) (\<lambda>v'. Inr (key, v'))) d)
       (\<lambda>d'. Inr (PyDict d'))"
| "normalize_large_integers_to_strings k (PyList xs) =
     res_bind (res_map (normalize_large_integers_to_strings k) xs) (\<lambda>ys. Inr (PyList ys))"
| "normalize_large_integers_to_strings k (PyTuple xs) =
     res_bind (res_map (normalize_large_integers_to_strings k) xs) (\<lambda>ys. Inr (PyList ys))"
| "normalize_large_integers_to_strings k v = Inr v"

text \<open>\<open>str.isdigit\<close> also accepts the superscript digits, which \<open>int\<close> refuses.\<close>

definition isdigit_char :: "char \<Rightarrow> bool" where
  "isdigit_char c \<longleftrightarrow> is_digit c \<or> c \<in> {CHR 0xB2, CHR 0xB3, CHR 0xB9}"

definition isdigit :: "string \<Rightarrow> bool" where
  "isdigit s \<longleftrightarrow> s \<noteq> [] \<and> list_all isdigit_char s"

definition lstrip_minus :: "string \<Rightarrow> string" where
  "lstrip_minus s = dropWhile (\<lambda>c. c = CHR ''-'') s"

definition looks_large :: "nat \<Rightarrow> string \<Rightarrow> bool" where
  "looks_large k s \<longleftrightarrow> isdigit (lstrip_minus s) \<and> length (lstrip_minus s) > k"

fun parse_string_integers_in_dict :: "nat \<Rightarrow> pyval \<Rightarrow> exn + pyval" where
  "parse_string_integers_in_dict k (PyDict d) =
     res_bind (res_map (\<lambda>(key, v). res_bind (parse_string_integers_in_dict k v) (\<lambda>v'. Inr (key, v'))) d)
       (\<lambda>d'. Inr (PyDict d'))"
| "parse_string_integers_in_dict k (PyList xs) =
     res_bind (res_map (parse_string_integers_in_dict k) xs) (\<lambda>ys. Inr (PyList ys))"
| "parse_string_integers_in_dict k (PyTuple xs) =
     res_bind (res_map (parse_string_integers_in_dict k) xs) (\<lambda>ys. Inr (PyList ys))"
| "parse_string_integers_in_dict k (PyStr s) =
     (if looks_large k s
      then (case py_int s of None \<Rightarrow> Inl (ValueErr (''invalid literal for int() with base 10: '' @ s)) | Some n \<Rightarrow> Inr (PyInt n))
      else Inr (PyStr s))"
| "parse_string_integers_in_dict k v = Inr v"

subsection \<open>Canonical agent cards\<close>

text \<open>The last line of \<open>_clean_empty\<close> keeps a falsy value such as \<open>0\<close> or \<open>False\<close>, the comprehension around it drops it.\<close>

fun clean_empty :: "pyval \<Rightarrow> pyval" where
  "clean_empty (PyDict d) = PyDict (filter (\<lambda>(k, v). py_truthy v) (map (\<lambda>(k, v). (k, clean_empty v)) d))"
| "clean_empty (PyList xs) = PyList (filter py_truthy (map clean_empty xs))"
| "clean_empty (PyStr s) = (if s = [] then PyNone else PyStr s)"
| "clean_empty v = v"

subsection \<open>Lemmas\<close>

text \<open>What survives the way to strings and back: integers that have a text, strings that do not look like one, no tuples.\<close>

fun restorable :: "nat \<Rightarrow> pyval \<Rightarrow> bool" where
  "restorable k (PyInt n) \<longleftrightarrow> py_str n \<noteq> None"
| "restorable k (PyStr s) \<longleftrightarrow> \<not> looks_large k s"
| "restorable k (PyDict d) \<longleftrightarrow> list_all (\<lambda>(key, v). restorable k v) d"
| "restorable k (PyList xs) \<longleftrightarrow> list_all (restorable k) xs"
| "restorable k (PyTuple xs) \<longleftrightarrow> False"
| "restorable k v \<longleftrightarrow> True"

text \<open>No integer beyond the limit is left.\<close>

fun ints_safe :: "nat \<Rightarrow> pyval \<Rightarrow> bool" where
  "ints_safe k (PyInt n) \<longleftrightarrow> \<bar>n\<bar> \<le> max_safe_int k"
| "ints_safe k (PyDict d) \<longleftrightarrow> list_all (\<lambda>(key, v). ints_safe k v) d"
| "ints_safe k (PyList xs) \<longleftrightarrow> list_all (ints_safe k) xs"
| "ints_safe k (PyTuple xs) \<longleftrightarrow> list_all (ints_safe k) xs"
| "ints_safe k v \<longleftrightarrow> True"

lemma nat_str_bound: "n < 10 ^ length (nat_str n)"
proof (induction n rule: nat_str.induct)
  case (1 n)
  show ?case
  proof (cases "n < 10")
    case True
    then show ?thesis by (subst nat_str_step) simp
  next
    case False
    with 1 have "n div 10 < 10 ^ length (nat_str (n div 10))" by simp
    then have "n < 10 * 10 ^ length (nat_str (n div 10))" by (simp add: div_less_iff_less_mult)
    with False show ?thesis using nat_str_step [of n] by simp
  qed
qed

lemma large_has_many_digits: "\<bar>n\<bar> > max_safe_int k \<Longrightarrow> length (nat_str (nat \<bar>n\<bar>)) > k"
proof (rule ccontr)
  assume large: "\<bar>n\<bar> > max_safe_int k" and "\<not> length (nat_str (nat \<bar>n\<bar>)) > k"
  then have "nat \<bar>n\<bar> < 10 ^ k"
    using nat_str_bound [of "nat \<bar>n\<bar>"] power_increasing [of "length (nat_str (nat \<bar>n\<bar>))" k "10 :: nat"] by linarith
  then have "\<bar>n\<bar> < 10 ^ k" by (simp add: nat_less_iff)
  with large show False by (simp add: max_safe_int_def)
qed

lemma lstrip_minus_nat_str [simp]: "lstrip_minus (nat_str n) = nat_str n"
  using hd_nat_str [of n] by (cases "nat_str n") (auto simp: lstrip_minus_def is_digit_def)

lemma lstrip_minus_int_str [simp]: "lstrip_minus (int_str n) = nat_str (nat \<bar>n\<bar>)"
  using lstrip_minus_nat_str by (auto simp: int_str_def lstrip_minus_def)

lemma isdigit_nat_str [simp]: "isdigit (nat_str n)"
  using nat_str_digits [of n] by (auto simp: isdigit_def isdigit_char_def list_all_iff)

lemma large_int_looks_large: "\<bar>n\<bar> > max_safe_int k \<Longrightarrow> looks_large k (int_str n)"
  by (simp add: looks_large_def large_has_many_digits)

text \<open>Two steps that are inverse on the elements of a list.\<close>

lemma res_map_step:
  assumes "\<And>x. x \<in> set xs \<Longrightarrow> \<exists>y. f x = Inr y \<and> g y = Inr x \<and> P y"
  shows "\<exists>ys. res_map f xs = Inr ys \<and> res_map g ys = Inr xs \<and> list_all P ys"
  using assms
proof (induction xs)
  case (Cons x xs)
  obtain y where "f x = Inr y" "g y = Inr x" "P y" using Cons.prems by auto
  moreover obtain ys where "res_map f xs = Inr ys" "res_map g ys = Inr xs" "list_all P ys" using Cons by auto
  ultimately show ?case by simp
qed simp

lemma large_integers_step:
  assumes "restorable k v" and "k > 0"
  shows "\<exists>u. normalize_large_integers_to_strings k v = Inr u \<and> parse_string_integers_in_dict k u = Inr v \<and> ints_safe k u"
  using assms
proof (induction v)
  case (PyInt n)
  show ?case
  proof (cases "\<bar>n\<bar> > max_safe_int k")
    case True
    from PyInt obtain s where s: "py_str n = Some s" by auto
    then have "s = int_str n" by (simp add: py_str_def split: if_splits)
    with True s py_int_py_str [OF s] large_int_looks_large [OF True] show ?thesis by auto
  next
    case False
    then show ?thesis by simp
  qed
next
  case (PyBool b)
  from PyBool have "max_safe_int k \<ge> 1" using power_increasing [of 1 k "10 :: int"] by (simp add: max_safe_int_def)
  then show ?case by simp
next
  case (PyList xs)
  have "\<exists>ys. res_map (normalize_large_integers_to_strings k) xs = Inr ys \<and>
          res_map (parse_string_integers_in_dict k) ys = Inr xs \<and> list_all (ints_safe k) ys"
    using PyList by (intro res_map_step) (auto simp: list_all_iff)
  then show ?case by auto
next
  case (PyDict d)
  have "\<exists>e. res_map (\<lambda>(key, v). res_bind (normalize_large_integers_to_strings k v) (\<lambda>v'. Inr (key, v'))) d = Inr e \<and>
          res_map (\<lambda>(key, v). res_bind (parse_string_integers_in_dict k v) (\<lambda>v'. Inr (key, v'))) e = Inr d \<and>
          list_all (\<lambda>(key, v). ints_safe k v) e"
  proof (rule res_map_step)
    fix p
    assume "p \<in> set d"
    moreover obtain key v where "p = (key, v)" by (cases p)
    ultimately obtain u where "normalize_large_integers_to_strings k v = Inr u"
      "parse_string_integers_in_dict k u = Inr v" "ints_safe k u"
      using PyDict.IH [of p v] PyDict.prems by (auto simp: list_all_iff)
    with \<open>p = (key, v)\<close> show "\<exists>y. (\<lambda>(key, v). res_bind (normalize_large_integers_to_strings k v) (\<lambda>v'. Inr (key, v'))) p = Inr y \<and>
        (\<lambda>(key, v). res_bind (parse_string_integers_in_dict k v) (\<lambda>v'. Inr (key, v'))) y = Inr p \<and>
        (\<lambda>(key, v). ints_safe k v) y" by simp
  qed
  then show ?case by auto
qed simp_all

text \<open>
  Claim C27. Large integers on their way through a protobuf struct: a value whose integers have a text,
  whose strings do not look like long numbers and which holds no tuple comes back as it was, and in between it holds no integer
  of more than the given number of digits. A string that does look like a long number, and that \<open>int()\<close> can read, comes
  back as a number, so an identifier such as
  an account number changes its type and loses its leading zeros.
\<close>

theorem large_integers_roundtrip:
  assumes "restorable k v" and "k > 0" and "looks_large k s" and "py_int s = Some n"
  shows "(\<exists>u. normalize_large_integers_to_strings k v = Inr u \<and> parse_string_integers_in_dict k u = Inr v \<and> ints_safe k u) \<and>
         res_bind (normalize_large_integers_to_strings k (PyStr s)) (parse_string_integers_in_dict k) = Inr (PyInt n)"
  using large_integers_step [OF assms(1,2)] assms(3,4) by simp

theorem large_integers_roundtrip_witness:
  "\<exists>u. normalize_large_integers_to_strings 15 (PyDict [(''n'', PyInt (- 12345678901234567))]) = Inr u \<and>
     parse_string_integers_in_dict 15 u = Inr (PyDict [(''n'', PyInt (- 12345678901234567))]) \<and>
     res_bind (normalize_large_integers_to_strings 15 (PyStr ''0000000000000042'')) (parse_string_integers_in_dict 15) =
       Inr (PyInt 42)"
proof -
  have i: "restorable 15 (PyDict [(''n'', PyInt (- 12345678901234567))])"
    using nat_str_length [of 12345678901234567 16] by (simp add: py_str_def max_str_digits_def)
  have l: "looks_large 15 ''0000000000000042''"
    by (simp add: looks_large_def lstrip_minus_def isdigit_def isdigit_char_def is_digit_def)
  have n: "py_int ''0000000000000042'' = Some 42"
    by (simp add: py_int_def int_strip_def int_space_def digits_int_def max_str_digits_def is_digit_def digit_value_def)
  from large_integers_roundtrip [OF i _ l n] show ?thesis by auto
qed

text \<open>What is left of a cleaned value: everything inside it is truthy.\<close>

fun inside_truthy :: "pyval \<Rightarrow> bool" where
  "inside_truthy (PyDict d) \<longleftrightarrow> list_all (\<lambda>(k, v). py_truthy v \<and> inside_truthy v) d"
| "inside_truthy (PyList xs) \<longleftrightarrow> list_all (\<lambda>v. py_truthy v \<and> inside_truthy v) xs"
| "inside_truthy v \<longleftrightarrow> True"

lemma clean_empty_inside [simp]: "inside_truthy (clean_empty v)"
  by (induction v rule: clean_empty.induct) (auto simp: list_all_iff)

lemma truthy_not_empty_string: "py_truthy v \<Longrightarrow> v \<noteq> PyStr []"
  by auto

lemma clean_empty_clean: "inside_truthy v \<Longrightarrow> v \<noteq> PyStr [] \<Longrightarrow> clean_empty v = v"
proof (induction v rule: clean_empty.induct)
  case (1 d)
  then have "map (\<lambda>(k, v). (k, clean_empty v)) d = d"
    by (intro map_idI) (force simp: list_all_iff dest: truthy_not_empty_string split: prod.splits)
  with 1 show ?case by (auto simp: list_all_iff filter_id_conv)
next
  case (2 xs)
  then have "map clean_empty xs = xs" by (intro map_idI) (auto simp: list_all_iff dest: truthy_not_empty_string)
  with 2 show ?case by (auto simp: list_all_iff filter_id_conv)
qed simp_all

lemma clean_empty_not_empty_string [simp]: "clean_empty v \<noteq> PyStr []"
  by (cases v) auto

lemma clean_empty_idempotent [simp]: "clean_empty (clean_empty v) = clean_empty v"
  by (rule clean_empty_clean) simp_all

lemma clean_empty_drops:
  "\<not> py_truthy (clean_empty v) \<Longrightarrow> clean_empty (PyDict (d @ (k, v) # e)) = clean_empty (PyDict (d @ e))"
  by simp

end
