(* ===== verification/CardSigning.thy ===== *)
theory CardSigning
  imports JsonValues A2A_Protocol
begin

section \<open>Signed agent cards (utils/signing.py, utils/helpers.py)\<close>

text \<open>
  A card is signed over its canonical JSON text, which leaves the signatures out, and verified
  against the text that the verifier computes itself. PyJWT, \<open>json\<close> and Pydantic's dump are not part of the SDK:
  \<open>jws_lib\<close> is the record of their functions. The signing key, the verification keys and the key provider are arguments.
\<close>

subsection \<open>The canonical text\<close>

text \<open>\<open>dump\<close> is \<open>model_dump(exclude_defaults, exclude_none, by_alias)\<close>, \<open>text_of\<close> is \<open>json.dumps(..., sort_keys=True)\<close>.\<close>

definition canonicalize_agent_card :: "(AgentCard \<Rightarrow> pyval) \<Rightarrow> (pyval \<Rightarrow> string) \<Rightarrow> AgentCard \<Rightarrow> string" where
  "canonicalize_agent_card dump text_of c = text_of (clean_empty (dump (c\<lparr>card_signatures := None\<rparr>)))"

subsection \<open>The libraries\<close>

text \<open>What \<open>jwt.decode\<close> does with a token: accept it, raise a \<open>PyJWTError\<close>, or raise something else.\<close>

datatype jwt_outcome = Jwt_Valid | Jwt_Error | Jwt_Raises exn

text \<open>The key provider finds a key, or raises (a \<open>PyJWTError\<close> of PyJWT's key client, or something else).\<close>

datatype 'v key_outcome = Key 'v | Key_Error | Key_Raises exn

record ('k, 'v) jws_lib =
  jl_dump :: "AgentCard \<Rightarrow> pyval"
  jl_text :: "pyval \<Rightarrow> string"
  jl_loads :: "string \<Rightarrow> pyval"
  jl_encode :: "pyval \<Rightarrow> 'k \<Rightarrow> pyval \<Rightarrow> pydict \<Rightarrow> exn + string"
  jl_base64 :: "string \<Rightarrow> string"
  jl_header :: "string \<Rightarrow> exn + pydict"
  jl_decode :: "string \<Rightarrow> 'v \<Rightarrow> string list \<Rightarrow> jwt_outcome"

subsection \<open>Signing\<close>

definition dict_lookup :: "pydict \<Rightarrow> string \<Rightarrow> pyval \<Rightarrow> pyval" where
  "dict_lookup d k default_value = (case map_of d k of None \<Rightarrow> default_value | Some v \<Rightarrow> v)"

definition create_agent_card_signer ::
  "('k, 'v) jws_lib \<Rightarrow> 'k \<Rightarrow> pydict \<Rightarrow> pydict option \<Rightarrow> AgentCard \<Rightarrow> exn + AgentCard" where
  "create_agent_card_signer jl signing_key protected_header hdr c =
     (let canonical_payload = canonicalize_agent_card (jl_dump jl) (jl_text jl) c
      in res_bind (jl_encode jl (jl_loads jl canonical_payload) signing_key
                     (dict_lookup protected_header ''alg'' (PyStr ''HS256'')) protected_header) (\<lambda>jws_string.
           case str_split (CHR ''.'') jws_string of
             [protected, payload, signature] \<Rightarrow>
               Inr (c\<lparr>card_signatures := Some (or_else (card_signatures c) [] @
                        [\<lparr>acs_header = hdr, acs_protected = protected, acs_signature = signature\<rparr>])\<rparr>)
           | _ \<Rightarrow> Inl (ValueErr ''wrong number of values to unpack'')))"

subsection \<open>Verification\<close>

text \<open>One pass of the loop: valid, a \<open>PyJWTError\<close> (the next signature is tried), or an exception that leaves the verifier.\<close>

definition verify_signature ::
  "('k, 'v) jws_lib \<Rightarrow> (pyval \<Rightarrow> pyval \<Rightarrow> 'v key_outcome) \<Rightarrow> string list \<Rightarrow> AgentCard \<Rightarrow> AgentCardSignature \<Rightarrow> jwt_outcome" where
  "verify_signature jl key_provider algorithms c s =
     (case jl_header jl (acs_protected s) of
        Inl e \<Rightarrow> Jwt_Raises e
      | Inr protected_header \<Rightarrow>
          (case key_provider (dict_lookup protected_header ''kid'' PyNone) (dict_lookup protected_header ''jku'' PyNone) of
             Key_Raises e \<Rightarrow> Jwt_Raises e
           | Key_Error \<Rightarrow> Jwt_Error
           | Key verification_key \<Rightarrow>
               jl_decode jl
                 (str_join ''.'' [acs_protected s, jl_base64 jl (canonicalize_agent_card (jl_dump jl) (jl_text jl) c),
                                  acs_signature s])
                 verification_key algorithms))"

text \<open>The exceptions of the module are the results of the verifier beside success.\<close>

datatype verification = Verified | NoSignatureError | InvalidSignaturesError | VerifierRaises exn

fun verify_loop ::
  "('k, 'v) jws_lib \<Rightarrow> (pyval \<Rightarrow> pyval \<Rightarrow> 'v key_outcome) \<Rightarrow> string list \<Rightarrow> AgentCard \<Rightarrow> AgentCardSignature list \<Rightarrow> verification" where
  "verify_loop jl key_provider algorithms c [] = InvalidSignaturesError"
| "verify_loop jl key_provider algorithms c (s # rest) =
     (case verify_signature jl key_provider algorithms c s of
        Jwt_Valid \<Rightarrow> Verified
      | Jwt_Error \<Rightarrow> verify_loop jl key_provider algorithms c rest
      | Jwt_Raises e \<Rightarrow> VerifierRaises e)"

definition signature_verifier ::
  "('k, 'v) jws_lib \<Rightarrow> (pyval \<Rightarrow> pyval \<Rightarrow> 'v key_outcome) \<Rightarrow> string list \<Rightarrow> AgentCard \<Rightarrow> verification" where
  "signature_verifier jl key_provider algorithms c =
     (if \<not> truthy (card_signatures c) then NoSignatureError
      else verify_loop jl key_provider algorithms c (the (card_signatures c)))"

subsection \<open>Lemmas\<close>

lemma canonicalize_ignores_signatures [simp]:
  "canonicalize_agent_card dump text_of (c\<lparr>card_signatures := x\<rparr>) = canonicalize_agent_card dump text_of c"
  by (simp add: canonicalize_agent_card_def)

lemma verify_signature_ignores_signatures [simp]:
  "verify_signature jl kp algs (c\<lparr>card_signatures := x\<rparr>) s = verify_signature jl kp algs c s"
  unfolding verify_signature_def canonicalize_ignores_signatures ..

lemma verify_loop_ignores_signatures [simp]:
  "verify_loop jl kp algs (c\<lparr>card_signatures := x\<rparr>) ss = verify_loop jl kp algs c ss"
  by (induction ss) (simp_all split: jwt_outcome.split)

lemma verify_loop_append:
  "verify_loop jl kp algs c (ss @ ts) =
     (case verify_loop jl kp algs c ss of InvalidSignaturesError \<Rightarrow> verify_loop jl kp algs c ts | r \<Rightarrow> r)"
  by (induction ss) (simp_all split: jwt_outcome.split)

lemma verify_loop_result [simp]: "verify_loop jl kp algs c ss \<noteq> NoSignatureError"
  by (induction ss) (simp_all split: jwt_outcome.split)

text \<open>
  A signature that the verifier can pass over: its header can be read, and neither the key provider nor the decoder
  raises anything but a \<open>PyJWTError\<close>.
\<close>

definition passed_over ::
  "('k, 'v) jws_lib \<Rightarrow> (pyval \<Rightarrow> pyval \<Rightarrow> 'v key_outcome) \<Rightarrow> string list \<Rightarrow> AgentCard \<Rightarrow> AgentCardSignature \<Rightarrow> bool" where
  "passed_over jl kp algs c x =
     (case jl_header jl (acs_protected x) of
        Inl e \<Rightarrow> False
      | Inr h \<Rightarrow>
          (case kp (dict_lookup h ''kid'' PyNone) (dict_lookup h ''jku'' PyNone) of
             Key_Error \<Rightarrow> True
           | Key_Raises e \<Rightarrow> False
           | Key k \<Rightarrow>
               jl_decode jl
                 (str_join ''.'' [acs_protected x, jl_base64 jl (canonicalize_agent_card (jl_dump jl) (jl_text jl) c),
                                  acs_signature x]) k algs \<in> {Jwt_Valid, Jwt_Error}))"

lemma verify_signature_passed_over:
  "passed_over jl kp algs c x \<Longrightarrow> verify_signature jl kp algs c x \<in> {Jwt_Valid, Jwt_Error}"
  unfolding passed_over_def verify_signature_def by (auto split: sum.splits key_outcome.splits)

lemma verify_loop_no_raise:
  "\<forall>x \<in> set ss. passed_over jl kp algs c x \<Longrightarrow> verify_loop jl kp algs c ss \<noteq> VerifierRaises e"
proof (induction ss)
  case (Cons x ss)
  with verify_signature_passed_over [of jl kp algs c x] show ?case by auto
qed simp

text \<open>
  Claim C28. A card that was signed is accepted: when PyJWT makes a token over the canonical text, whose header has the
  key id and the key set URL of the protected header (PyJWT adds its own entries), and accepts that token under the key that
  the provider finds for them, the verifier accepts the signed card, unless a signature that the card had before makes it raise.
  It goes on to the next signature after one that does not verify or whose key lookup fails with a
  \<open>PyJWTError\<close>; only a signature whose header cannot be read, or for which the provider or the decoder raises
  another exception, makes the verifier raise before it looks at the valid one.
\<close>

theorem signed_card_verifies:
  assumes "jl_encode jl (jl_loads jl (canonicalize_agent_card (jl_dump jl) (jl_text jl) c)) sk
             (dict_lookup ph ''alg'' (PyStr ''HS256'')) ph =
           Inr (str_join ''.'' [p, jl_base64 jl (canonicalize_agent_card (jl_dump jl) (jl_text jl) c), s])"
    and "\<forall>t \<in> {p, jl_base64 jl (canonicalize_agent_card (jl_dump jl) (jl_text jl) c), s}. CHR ''.'' \<notin> set t"
    and "jl_header jl p = Inr ph'" and "dict_lookup ph' ''kid'' PyNone = dict_lookup ph ''kid'' PyNone"
    and "dict_lookup ph' ''jku'' PyNone = dict_lookup ph ''jku'' PyNone"
    and "kp (dict_lookup ph ''kid'' PyNone) (dict_lookup ph ''jku'' PyNone) = Key vk"
    and "jl_decode jl (str_join ''.'' [p, jl_base64 jl (canonicalize_agent_card (jl_dump jl) (jl_text jl) c), s]) vk algs = Jwt_Valid"
  shows "\<exists>c'. create_agent_card_signer jl sk ph hdr c = Inr c' \<and>
           signature_verifier jl kp algs c' =
             (case verify_loop jl kp algs c (or_else (card_signatures c) []) of
                VerifierRaises e \<Rightarrow> VerifierRaises e
              | _ \<Rightarrow> Verified) \<and>
           ((\<forall>x \<in> set (or_else (card_signatures c) []). passed_over jl kp algs c x) \<longrightarrow>
            signature_verifier jl kp algs c' = Verified)"
proof -
  let ?new = "\<lparr>acs_header = hdr, acs_protected = p, acs_signature = s\<rparr>"
  let ?c = "c\<lparr>card_signatures := Some (or_else (card_signatures c) [] @ [?new])\<rparr>"
  have "str_split (CHR ''.'') (str_join ''.'' [p, jl_base64 jl (canonicalize_agent_card (jl_dump jl) (jl_text jl) c), s]) =
      [p, jl_base64 jl (canonicalize_agent_card (jl_dump jl) (jl_text jl) c), s]"
    using assms(2) by (intro str_split_join) auto
  then have "create_agent_card_signer jl sk ph hdr c = Inr ?c"
    using assms(1) by (simp add: create_agent_card_signer_def Let_def)
  moreover have "verify_signature jl kp algs c ?new = Jwt_Valid"
    using assms(3-7) by (simp add: verify_signature_def)
  then have accepted: "signature_verifier jl kp algs ?c =
      (case verify_loop jl kp algs c (or_else (card_signatures c) []) of VerifierRaises e \<Rightarrow> VerifierRaises e | _ \<Rightarrow> Verified)"
    by (simp add: signature_verifier_def verify_loop_append split: verification.split)
  moreover have "signature_verifier jl kp algs ?c = Verified"
    if "\<forall>x \<in> set (or_else (card_signatures c) []). passed_over jl kp algs c x"
    using verify_loop_no_raise [OF that] accepted by (auto split: verification.split)
  ultimately show ?thesis using accepted by blast
qed

text \<open>A toy library: a token is its payload between two dots.\<close>

definition sample_jws :: "(unit, unit) jws_lib" where
  "sample_jws =
     \<lparr>jl_dump = (\<lambda>c. PyDict (case cap_streaming (card_capabilities c) of
                    None \<Rightarrow> [] | Some b \<Rightarrow> [(''streaming'', PyBool b)])),
      jl_text = (\<lambda>v. if v = PyDict [] then ''empty'' else ''full''), jl_loads = (\<lambda>s. PyStr s),
      jl_encode = (\<lambda>v k a d. case v of PyStr s \<Rightarrow> Inr (''p.'' @ s @ ''.s'') | _ \<Rightarrow> Inl (TypeErr [])),
      jl_base64 = (\<lambda>s. s), jl_header = (\<lambda>s. if s = ''p'' then Inr [(''typ'', PyStr ''JWT'')] else Inl (ValueErr ''bad header'')),
      jl_decode = (\<lambda>s k algs. if s = ''p.empty.s'' then Jwt_Valid else Jwt_Error)\<rparr>"

lemma sample_canonical:
  "canonicalize_agent_card (jl_dump sample_jws) (jl_text sample_jws) (sample_card (Some False)) = ''empty''"
  "canonicalize_agent_card (jl_dump sample_jws) (jl_text sample_jws) (sample_card None) = ''empty''"
  by (simp_all add: canonicalize_agent_card_def sample_jws_def sample_card_def)

definition unreadable_signature :: AgentCardSignature where
  "unreadable_signature = \<lparr>acs_header = None, acs_protected = ''q'', acs_signature = ''s''\<rparr>"

theorem signed_card_verifies_witness:
  "\<exists>c'. create_agent_card_signer sample_jws () [] None (sample_card None) = Inr c' \<and>
     signature_verifier sample_jws (\<lambda>kid jku. Key ()) [''HS256''] c' = Verified"
  using signed_card_verifies [of sample_jws "sample_card None" "()" "[]" "''p''" "''s''" "[(''typ'', PyStr ''JWT'')]" "\<lambda>kid jku. Key ()" "()"
      "[''HS256'']" None]
  by (simp add: sample_canonical(2)) (simp add: sample_jws_def sample_card_def dict_lookup_def)

text \<open>
  What a signature does not cover: two cards whose dumps differ only in fields that are false, zero or empty
  on one side and missing on the other have the same canonical text. So a card that is changed from saying nothing
  about a capability to denying it, or the other way round, still verifies.
\<close>

theorem false_fields_not_signed:
  assumes "jl_dump jl (c\<lparr>card_signatures := None\<rparr>) = PyDict (d @ (k, v) # e)"
    and "jl_dump jl (c'\<lparr>card_signatures := None\<rparr>) = PyDict (d @ e)"
    and "\<not> py_truthy (clean_empty v)" and "card_signatures c' = card_signatures c"
  shows "signature_verifier jl kp algs c' = signature_verifier jl kp algs c"
proof -
  have "canonicalize_agent_card (jl_dump jl) (jl_text jl) c' = canonicalize_agent_card (jl_dump jl) (jl_text jl) c"
    using assms(1-3) by (simp add: canonicalize_agent_card_def)
  then have "verify_signature jl kp algs c' s = verify_signature jl kp algs c s" for s
    unfolding verify_signature_def by (rule arg_cong)
  then have "verify_loop jl kp algs c' ss = verify_loop jl kp algs c ss" for ss
    by (induction ss) (simp_all split: jwt_outcome.split)
  with assms(4) show ?thesis by (simp add: signature_verifier_def)
qed

theorem false_fields_not_signed_witness:
  "signature_verifier sample_jws (\<lambda>kid jku. Key ()) [''HS256''] (sample_card None) =
   signature_verifier sample_jws (\<lambda>kid jku. Key ()) [''HS256''] (sample_card None\<lparr>card_capabilities :=
     (card_capabilities (sample_card None))\<lparr>cap_streaming := Some False\<rparr>\<rparr>)"
  by (rule false_fields_not_signed [of _ _ "[]" "''streaming''" "PyBool False" "[]"])
     (simp_all add: sample_jws_def sample_card_def)

end
