(* ===== verification/WireBase.thy ===== *)
theory WireBase
  imports A2A_Protocol
begin

section \<open>The JSON form of the data model: fields, unions (_base.py and types.py)\<close>

text \<open>
  How the classes of types.py are written as JSON and validated from it. Pydantic is not part of the repository; what is
  modelled is what the classes declare: their fields with their types, defaults and literals, under the configuration of
  \<open>A2ABaseModel\<close> (a field is written under its camelCase alias and may be read under the alias or its name). The record
  \<open>pydantic\<close> holds what the declarations leave to Pydantic: the values of other types it converts to \<open>bool\<close> and \<open>int\<close>, the
  member of a union it prefers when several accept a value, and the details of its errors.
\<close>

record pydantic =
  px_bool :: "pyval \<Rightarrow> exn + bool"
  px_int :: "pyval \<Rightarrow> exn + int"
  px_pick :: "pyval \<Rightarrow> bool list \<Rightarrow> nat"
  px_details :: "pyval \<Rightarrow> pyval"
  px_text :: string

text \<open>\<open>to_camel_custom\<close>: trailing underscores are dropped, then \<open>to_camel\<close> of Pydantic is applied.\<close>

definition to_camel_custom :: "(string \<Rightarrow> string) \<Rightarrow> string \<Rightarrow> string" where
  "to_camel_custom to_camel snake =
     to_camel (if snake \<noteq> [] \<and> last snake = CHR ''_'' then rev (dropWhile (\<lambda>c. c = CHR ''_'') (rev snake)) else snake)"

lemma in_alias: "to_camel ''in'' = ''in'' \<Longrightarrow> to_camel_custom to_camel ''in_'' = ''in''"
  by (simp add: to_camel_custom_def)

subsection \<open>Reading\<close>

text \<open>A field is a pair of its name and its alias. The alias is looked up first.\<close>

type_synonym field_name = "string \<times> string"

definition field_value :: "field_name \<Rightarrow> pydict \<Rightarrow> pyval option" where
  "field_value k d = (case map_of d (snd k) of Some v \<Rightarrow> Some v | None \<Rightarrow> map_of d (fst k))"

definition required :: "field_name \<Rightarrow> (pyval \<Rightarrow> exn + 'a) \<Rightarrow> pydict \<Rightarrow> exn + 'a" where
  "required k rd d = (case field_value k d of None \<Rightarrow> Inl ValidationError | Some v \<Rightarrow> rd v)"

definition with_default :: "field_name \<Rightarrow> 'a \<Rightarrow> (pyval \<Rightarrow> exn + 'a) \<Rightarrow> pydict \<Rightarrow> exn + 'a" where
  "with_default k x rd d = (case field_value k d of None \<Rightarrow> Inr x | Some v \<Rightarrow> rd v)"

text \<open>\<open>T | None\<close>\<close>

definition nullable :: "(pyval \<Rightarrow> exn + 'a) \<Rightarrow> pyval \<Rightarrow> exn + 'a option" where
  "nullable rd v = (if v = PyNone then Inr None else res_bind (rd v) (\<lambda>x. Inr (Some x)))"

definition optional :: "field_name \<Rightarrow> (pyval \<Rightarrow> exn + 'a) \<Rightarrow> pydict \<Rightarrow> exn + 'a option" where
  "optional k rd = with_default k None (nullable rd)"

text \<open>A literal with itself as the default. Validation collects the errors of all fields, so their order does not matter.\<close>

definition literal :: "string \<Rightarrow> pyval \<Rightarrow> pydict \<Rightarrow> exn + unit" where
  "literal k c = with_default (k, k) () (\<lambda>v. if v = c then Inr () else Inl ValidationError)"

definition read_model :: "(pydict \<Rightarrow> exn + 'a) \<Rightarrow> pyval \<Rightarrow> exn + 'a" where
  "read_model f v = (case v of PyDict d \<Rightarrow> f d | _ \<Rightarrow> Inl ValidationError)"

fun read_str :: "pyval \<Rightarrow> exn + string" where
  "read_str (PyStr s) = Inr s"
| "read_str v = Inl ValidationError"

fun read_bool :: "pydantic \<Rightarrow> pyval \<Rightarrow> exn + bool" where
  "read_bool px (PyBool b) = Inr b"
| "read_bool px v = px_bool px v"

fun read_int :: "pydantic \<Rightarrow> pyval \<Rightarrow> exn + int" where
  "read_int px (PyInt i) = Inr i"
| "read_int px v = px_int px v"

text \<open>\<open>str | int\<close>\<close>

fun read_id :: "pydantic \<Rightarrow> pyval \<Rightarrow> exn + rpc_id" where
  "read_id px (PyStr s) = Inr (IdStr s)"
| "read_id px v = res_bind (read_int px v) (\<lambda>i. Inr (IdInt i))"

fun read_any :: "pyval \<Rightarrow> exn + pyval" where
  "read_any v = Inr v"

fun read_dict :: "pyval \<Rightarrow> exn + pydict" where
  "read_dict (PyDict d) = Inr d"
| "read_dict v = Inl ValidationError"

fun read_list :: "(pyval \<Rightarrow> exn + 'a) \<Rightarrow> pyval \<Rightarrow> exn + 'a list" where
  "read_list rd (PyList xs) = res_map rd xs"
| "read_list rd (PyTuple xs) = res_map rd xs"
| "read_list rd v = Inl ValidationError"

fun read_entries :: "(pyval \<Rightarrow> exn + 'a) \<Rightarrow> pyval \<Rightarrow> exn + (string \<times> 'a) list" where
  "read_entries rd (PyDict d) = res_map (\<lambda>(k, v). res_bind (rd v) (\<lambda>x. Inr (k, x))) d"
| "read_entries rd v = Inl ValidationError"

text \<open>
  A union whose members are models: the member that accepts the value; when several do, the one that \<open>px_pick\<close> names.
\<close>

definition accepts :: "(pyval \<Rightarrow> exn + 'a) \<Rightarrow> pyval \<Rightarrow> bool" where
  "accepts rd v \<longleftrightarrow> (case rd v of Inr a \<Rightarrow> True | Inl e \<Rightarrow> False)"

definition read_union :: "pydantic \<Rightarrow> (pyval \<Rightarrow> exn + 'a) list \<Rightarrow> pyval \<Rightarrow> exn + 'a" where
  "read_union px rds v =
     (case filter (\<lambda>rd. accepts rd v) rds of
        [] \<Rightarrow> Inl ValidationError
      | [rd] \<Rightarrow> rd v
      | ok \<Rightarrow> (ok ! (px_pick px v (map (\<lambda>rd. accepts rd v) rds) mod length ok)) v)"

definition as_variant :: "('a \<Rightarrow> 'b) \<Rightarrow> (pyval \<Rightarrow> exn + 'a) \<Rightarrow> pyval \<Rightarrow> exn + 'b" where
  "as_variant c rd v = res_bind (rd v) (\<lambda>a. Inr (c a))"

subsection \<open>Writing\<close>

text \<open>
  \<open>model_dump(mode='json')\<close>: with \<open>exclude_none\<close> the fields that are \<open>None\<close> are left out; a dictionary of untyped values
  keeps its entries. A tuple is written as a list. An object of any other class cannot be written: it stays in the value
  as \<open>PyObj\<close>, which stands for the serialization error.
\<close>

definition kept :: "bool \<Rightarrow> (string \<times> pyval) list \<Rightarrow> (string \<times> pyval) list" where
  "kept exclude_none fs = (if exclude_none then filter (\<lambda>f. snd f \<noteq> PyNone) fs else fs)"

definition write_model :: "bool \<Rightarrow> (string \<times> pyval) list \<Rightarrow> pyval" where
  "write_model exclude_none fs = PyDict (kept exclude_none fs)"

definition write_option :: "('a \<Rightarrow> pyval) \<Rightarrow> 'a option \<Rightarrow> pyval" where
  "write_option f x = (case x of None \<Rightarrow> PyNone | Some a \<Rightarrow> f a)"

definition write_list :: "('a \<Rightarrow> pyval) \<Rightarrow> 'a list \<Rightarrow> pyval" where
  "write_list f xs = PyList (map f xs)"

definition write_entries :: "('a \<Rightarrow> pyval) \<Rightarrow> (string \<times> 'a) list \<Rightarrow> pyval" where
  "write_entries f xs = PyDict (map (\<lambda>(k, x). (k, f x)) xs)"

fun write_any :: "pyval \<Rightarrow> pyval" where
  "write_any (PyTuple xs) = PyList (map write_any xs)"
| "write_any (PyList xs) = PyList (map write_any xs)"
| "write_any (PyDict d) = PyDict (map (\<lambda>(k, v). (k, write_any v)) d)"
| "write_any v = v"

definition write_dict :: "pydict \<Rightarrow> pyval" where
  "write_dict d = write_any (PyDict d)"

fun write_id :: "rpc_id \<Rightarrow> pyval" where
  "write_id (IdStr s) = PyStr s"
| "write_id (IdInt i) = PyInt i"

text \<open>The untyped values that JSON has.\<close>

fun json_value :: "pyval \<Rightarrow> bool" where
  "json_value (PyTuple xs) = False"
| "json_value (PyObj s) = False"
| "json_value (PyList xs) = list_all json_value xs"
| "json_value (PyDict d) = list_all (\<lambda>(k, v). json_value v) d"
| "json_value v = True"

definition json_dict :: "pydict \<Rightarrow> bool" where
  "json_dict d \<longleftrightarrow> json_value (PyDict d)"

lemma write_any_json [simp]: "json_value v \<Longrightarrow> write_any v = v"
  by (induction v rule: write_any.induct) (auto simp: list_all_iff intro!: map_idI)

subsection \<open>Reading what was written\<close>

named_theorems wire_simps \<open>evaluation of a reader on a written model\<close>

lemma map_of_kept:
  "distinct (map fst fs) \<Longrightarrow>
   map_of (kept ex fs) k = (case map_of fs k of None \<Rightarrow> None | Some v \<Rightarrow> if ex \<and> v = PyNone then None else Some v)"
proof (induction fs)
  case (Cons f fs)
  then have "map_of fs (fst f) = None" by (simp add: map_of_eq_None_iff)
  with Cons show ?case by (cases ex) (auto simp: kept_def split: option.splits)
qed (simp add: kept_def)

lemma field_written:
  assumes "map_of fs a = Some v" and "distinct (map fst fs)" and "n = a \<or> map_of fs n = None"
  shows "field_value (n, a) (kept ex fs) = (if ex \<and> v = PyNone then None else Some v)"
  using assms(1,3) map_of_kept [OF assms(2), of ex] by (auto simp: field_value_def)

lemma field_absent:
  assumes "map_of fs a = None" and "map_of fs n = None" and "distinct (map fst fs)"
  shows "field_value (n, a) (kept ex fs) = None"
  using assms by (simp add: field_value_def map_of_kept)

lemma required_written [wire_simps]:
  assumes "map_of fs a = Some v" and "distinct (map fst fs)" and "n = a \<or> map_of fs n = None" and "v \<noteq> PyNone"
  shows "required (n, a) rd (kept ex fs) = rd v"
  using field_written [OF assms(1-3)] assms(4) by (simp add: required_def)

lemma required_absent [wire_simps]:
  assumes "map_of fs a = None" and "map_of fs n = None" and "distinct (map fst fs)"
  shows "required (n, a) rd (kept ex fs) = Inl ValidationError"
  using field_absent [OF assms] by (simp add: required_def)

lemma optional_written [wire_simps]:
  assumes "map_of fs a = Some (write_option f x)" and "distinct (map fst fs)" and "n = a \<or> map_of fs n = None"
    and "\<forall>y \<in> set_option x. f y \<noteq> PyNone \<and> rd (f y) = Inr y"
  shows "optional (n, a) rd (kept ex fs) = Inr x"
  using field_written [OF assms(1-3)] assms(4)
  by (auto simp: optional_def with_default_def nullable_def write_option_def split: option.splits)

lemma required_null [wire_simps]:
  assumes "map_of fs a = Some PyNone" and "distinct (map fst fs)" and "n = a \<or> map_of fs n = None"
  shows "required (n, a) rd (kept ex fs) = (if ex then Inl ValidationError else rd PyNone)"
  using field_written [OF assms] by (simp add: required_def)

lemma optional_present [wire_simps]:
  assumes "map_of fs a = Some v" and "distinct (map fst fs)" and "n = a \<or> map_of fs n = None" and "v \<noteq> PyNone"
  shows "optional (n, a) rd (kept ex fs) = res_bind (rd v) (\<lambda>x. Inr (Some x))"
  using field_written [OF assms(1-3)] assms(4) by (simp add: optional_def with_default_def nullable_def)

lemma with_default_absent [wire_simps]:
  assumes "map_of fs a = None" and "map_of fs n = None" and "distinct (map fst fs)"
  shows "with_default (n, a) c rd (kept ex fs) = Inr c" and "optional (n, a) rd' (kept ex fs) = Inr None"
  using field_absent [OF assms] by (simp_all add: with_default_def optional_def)

lemma with_default_written [wire_simps]:
  assumes "map_of fs a = Some (write_option f x)" and "distinct (map fst fs)" and "n = a \<or> map_of fs n = None"
    and "\<forall>y \<in> set_option x. f y \<noteq> PyNone \<and> rd (f y) = Inr y"
  shows "with_default (n, a) c (nullable rd) (kept ex fs) = Inr (if ex \<and> x = None then c else x)"
  using field_written [OF assms(1-3)] assms(4)
  by (auto simp: with_default_def nullable_def write_option_def split: option.splits)

lemma literal_written [wire_simps]:
  assumes "map_of fs k = Some v" and "distinct (map fst fs)" and "v \<noteq> PyNone"
  shows "literal k c (kept ex fs) = (if v = c then Inr () else Inl ValidationError)"
  using field_written [OF assms(1,2)] assms(3) by (simp add: literal_def with_default_def)

lemma literal_absent [wire_simps]:
  assumes "map_of fs k = None" and "distinct (map fst fs)"
  shows "literal k c (kept ex fs) = Inr ()"
  using field_absent [OF assms(1,1,2)] by (simp add: literal_def with_default_def)

lemma read_written [wire_simps]: "read_model f (write_model ex fs) = f (kept ex fs)"
  by (simp add: read_model_def write_model_def)

lemma write_model_present [simp]: "write_model ex fs \<noteq> PyNone"
  by (simp add: write_model_def)

lemma write_containers_present [simp]:
  "write_list f xs \<noteq> PyNone" "write_entries g d \<noteq> PyNone" "write_dict e \<noteq> PyNone" "write_id i \<noteq> PyNone"
  by (simp_all add: write_list_def write_entries_def write_dict_def) (cases i; simp)

lemma read_id_written [simp]: "read_id px (write_id i) = Inr i"
  by (cases i) simp_all

lemma read_dict_written [simp]: "json_dict d \<Longrightarrow> read_dict (write_dict d) = Inr d"
  by (simp add: json_dict_def write_dict_def del: write_any.simps)
lemma read_list_written [wire_simps]:
  "\<forall>x \<in> set xs. rd (f x) = Inr x \<Longrightarrow> read_list rd (write_list f xs) = Inr xs"
  by (induction xs) (auto simp: write_list_def)

lemma read_entries_written [wire_simps]:
  "\<forall>e \<in> set d. rd (f (snd e)) = Inr (snd e) \<Longrightarrow> read_entries rd (write_entries f d) = Inr d"
  by (induction d) (auto simp: write_entries_def)

lemma json_write_model [wire_simps]: "list_all (\<lambda>f. json_value (snd f)) fs \<Longrightarrow> json_value (write_model ex fs)"
  by (induction fs) (auto simp: write_model_def kept_def split: prod.splits)

lemma json_write_option [wire_simps]: "\<forall>y \<in> set_option x. json_value (f y) \<Longrightarrow> json_value (write_option f x)"
  by (cases x) (simp_all add: write_option_def)

lemma json_write_list [wire_simps]: "\<forall>y \<in> set xs. json_value (f y) \<Longrightarrow> json_value (write_list f xs)"
  by (simp add: write_list_def list_all_iff)

lemma json_write_entries [wire_simps]: "\<forall>y \<in> set xs. json_value (f (snd y)) \<Longrightarrow> json_value (write_entries f xs)"
  by (auto simp: write_entries_def list_all_iff)

lemma json_write_dict [wire_simps]: "json_dict d \<Longrightarrow> json_value (write_dict d)"
  by (simp add: json_dict_def write_dict_def del: write_any.simps)

lemma json_write_id [wire_simps]: "json_value (write_id i)"
  by (cases i) simp_all

lemma read_dict_model [simp]: "read_dict (write_model ex fs) = Inr (kept ex fs)"
  by (simp add: write_model_def)

lemmas union_simps [wire_simps] = read_union_def accepts_def as_variant_def

subsection \<open>The contract of a class\<close>

text \<open>
  What a class promises: on the objects of a set (those whose untyped values JSON has), reading inverts writing, and no
  object is written as \<open>null\<close>. The readers of lists and dictionaries of a class inherit it.
\<close>

locale wire =
  fixes dump :: "'a \<Rightarrow> pyval" and rd :: "pyval \<Rightarrow> exn + 'a" and good :: "'a \<Rightarrow> bool"
  assumes reads_back [wire_simps]: "good x \<Longrightarrow> rd (dump x) = Inr x"
    and writes_json [wire_simps]: "good x \<Longrightarrow> json_value (dump x)"
    and present [simp]: "dump x \<noteq> PyNone"
begin

lemma list_reads_back [wire_simps]: "list_all good xs \<Longrightarrow> read_list rd (write_list dump xs) = Inr xs"
  by (rule read_list_written) (simp add: list_all_iff reads_back)

lemma list_writes_json [wire_simps]: "list_all good xs \<Longrightarrow> json_value (write_list dump xs)"
  by (rule json_write_list) (simp add: list_all_iff writes_json)

lemma option_reads_back: "pred_option good x \<Longrightarrow> nullable rd (write_option dump x) = Inr x"
  by (cases x) (simp_all add: nullable_def write_option_def reads_back)

lemma dump_inj: "good x \<Longrightarrow> good y \<Longrightarrow> dump x = dump y \<Longrightarrow> x = y"
  by (metis reads_back sum.inject(2))

end

end
