(* ===== verification/WireTasks.thy ===== *)
theory WireTasks
  imports WireBase
begin

section \<open>The JSON form of messages, tasks, events and parameters (types.py)\<close>

text \<open>
  For each class its writer \<open>dump_C\<close>, its reader \<open>read_C\<close>, the objects it is inverse on (\<open>json_C\<close>: those whose untyped values
  JSON has) and the interpretation of the contract \<open>wire\<close>.
\<close>

lemmas wire_sets = list_all_iff option.pred_set

subsection \<open>Enums\<close>

fun role_value :: "Role \<Rightarrow> string" where
  "role_value agent = ''agent''"
| "role_value user = ''user''"

definition dump_Role :: "Role \<Rightarrow> pyval" where
  "dump_Role r = PyStr (role_value r)"

definition read_Role :: "pyval \<Rightarrow> exn + Role" where
  "read_Role v =
     (if v = PyStr ''agent'' then Inr agent else if v = PyStr ''user'' then Inr user else Inl ValidationError)"

interpretation wire_Role: wire dump_Role read_Role "\<lambda>x. True"
proof unfold_locales
  fix x show "read_Role (dump_Role x) = Inr x" by (cases x) (simp_all add: read_Role_def dump_Role_def)
qed (simp_all add: dump_Role_def)

definition dump_TaskState :: "TaskState \<Rightarrow> pyval" where
  "dump_TaskState s = PyStr (task_state_value s)"

definition read_TaskState :: "pyval \<Rightarrow> exn + TaskState" where
  "read_TaskState v =
     (case find (\<lambda>s. v = dump_TaskState s)
        [submitted, working, input_required, completed, canceled, failed, rejected, auth_required, unknown] of
        Some s \<Rightarrow> Inr s
      | None \<Rightarrow> Inl ValidationError)"

interpretation wire_TaskState: wire dump_TaskState read_TaskState "\<lambda>x. True"
proof unfold_locales
  fix x show "read_TaskState (dump_TaskState x) = Inr x" by (cases x) (simp_all add: read_TaskState_def dump_TaskState_def)
qed (simp_all add: dump_TaskState_def)

subsection \<open>Parts\<close>

definition dump_TextPart :: "bool \<Rightarrow> TextPart \<Rightarrow> pyval" where
  "dump_TextPart ex x = write_model ex
     [(''kind'', PyStr ''text''), (''metadata'', write_option write_dict (tp_metadata x)), (''text'', PyStr (tp_text x))]"

definition read_TextPart :: "pyval \<Rightarrow> exn + TextPart" where
  "read_TextPart = read_model (\<lambda>d.
     res_bind (literal ''kind'' (PyStr ''text'') d) (\<lambda>_.
     res_bind (optional (''metadata'', ''metadata'') read_dict d) (\<lambda>v1.
     res_bind (required (''text'', ''text'') read_str d) (\<lambda>v2.
       Inr \<lparr>tp_metadata = v1, tp_text = v2\<rparr>))))"

definition json_TextPart :: "TextPart \<Rightarrow> bool" where
  "json_TextPart x \<longleftrightarrow> pred_option json_dict (tp_metadata x)"

interpretation wire_TextPart: wire "dump_TextPart ex" read_TextPart json_TextPart for ex
  by unfold_locales (simp_all add: dump_TextPart_def read_TextPart_def json_TextPart_def wire_simps wire_sets)

definition dump_FileWithBytes :: "bool \<Rightarrow> FileWithBytes \<Rightarrow> pyval" where
  "dump_FileWithBytes ex x = write_model ex
     [(''bytes'', PyStr (fb_bytes x)), (''mimeType'', write_option PyStr (fb_mime_type x)),
      (''name'', write_option PyStr (fb_name x))]"

definition read_FileWithBytes :: "pyval \<Rightarrow> exn + FileWithBytes" where
  "read_FileWithBytes = read_model (\<lambda>d.
     res_bind (required (''bytes'', ''bytes'') read_str d) (\<lambda>v1.
     res_bind (optional (''mime_type'', ''mimeType'') read_str d) (\<lambda>v2.
     res_bind (optional (''name'', ''name'') read_str d) (\<lambda>v3.
       Inr \<lparr>fb_bytes = v1, fb_mime_type = v2, fb_name = v3\<rparr>))))"

interpretation wire_FileWithBytes: wire "dump_FileWithBytes ex" read_FileWithBytes "\<lambda>x. True" for ex
  by unfold_locales (simp_all add: dump_FileWithBytes_def read_FileWithBytes_def wire_simps wire_sets)

definition dump_FileWithUri :: "bool \<Rightarrow> FileWithUri \<Rightarrow> pyval" where
  "dump_FileWithUri ex x = write_model ex
     [(''mimeType'', write_option PyStr (fu_mime_type x)), (''name'', write_option PyStr (fu_name x)),
      (''uri'', PyStr (fu_uri x))]"

definition read_FileWithUri :: "pyval \<Rightarrow> exn + FileWithUri" where
  "read_FileWithUri = read_model (\<lambda>d.
     res_bind (optional (''mime_type'', ''mimeType'') read_str d) (\<lambda>v1.
     res_bind (optional (''name'', ''name'') read_str d) (\<lambda>v2.
     res_bind (required (''uri'', ''uri'') read_str d) (\<lambda>v3.
       Inr \<lparr>fu_mime_type = v1, fu_name = v2, fu_uri = v3\<rparr>))))"

interpretation wire_FileWithUri: wire "dump_FileWithUri ex" read_FileWithUri "\<lambda>x. True" for ex
  by unfold_locales (simp_all add: dump_FileWithUri_def read_FileWithUri_def wire_simps wire_sets)

text \<open>\<open>file: FileWithBytes | FileWithUri\<close>\<close>

fun dump_file_content :: "bool \<Rightarrow> file_content \<Rightarrow> pyval" where
  "dump_file_content ex (FileBytes f) = dump_FileWithBytes ex f"
| "dump_file_content ex (FileUri f) = dump_FileWithUri ex f"

definition read_file_content :: "pydantic \<Rightarrow> pyval \<Rightarrow> exn + file_content" where
  "read_file_content px = read_union px [as_variant FileBytes read_FileWithBytes, as_variant FileUri read_FileWithUri]"

lemma file_variants [wire_simps]:
  "read_FileWithUri (dump_FileWithBytes ex f) = Inl ValidationError"
  "read_FileWithBytes (dump_FileWithUri ex g) = Inl ValidationError"
  by (simp_all add: read_FileWithUri_def dump_FileWithBytes_def read_FileWithBytes_def dump_FileWithUri_def wire_simps)

interpretation wire_file: wire "dump_file_content ex" "read_file_content px" "\<lambda>x. True" for px ex
proof unfold_locales
  fix x show "read_file_content px (dump_file_content ex x) = Inr x"
    by (cases x) (simp_all add: read_file_content_def wire_simps)
next
  fix x show "json_value (dump_file_content ex x)" and "dump_file_content ex x \<noteq> PyNone"
    by (cases x; simp add: wire_simps)+
qed

definition dump_FilePart :: "bool \<Rightarrow> FilePart \<Rightarrow> pyval" where
  "dump_FilePart ex x = write_model ex
     [(''file'', dump_file_content ex (fp_file x)), (''kind'', PyStr ''file''),
      (''metadata'', write_option write_dict (fp_metadata x))]"

definition read_FilePart :: "pydantic \<Rightarrow> pyval \<Rightarrow> exn + FilePart" where
  "read_FilePart px = read_model (\<lambda>d.
     res_bind (literal ''kind'' (PyStr ''file'') d) (\<lambda>_.
     res_bind (required (''file'', ''file'') (read_file_content px) d) (\<lambda>v1.
     res_bind (optional (''metadata'', ''metadata'') read_dict d) (\<lambda>v2.
       Inr \<lparr>fp_file = v1, fp_metadata = v2\<rparr>))))"

definition json_FilePart :: "FilePart \<Rightarrow> bool" where
  "json_FilePart x \<longleftrightarrow> pred_option json_dict (fp_metadata x)"

interpretation wire_FilePart: wire "dump_FilePart ex" "read_FilePart px" json_FilePart for px ex
  by unfold_locales (simp_all add: dump_FilePart_def read_FilePart_def json_FilePart_def wire_simps wire_sets)

definition dump_DataPart :: "bool \<Rightarrow> DataPart \<Rightarrow> pyval" where
  "dump_DataPart ex x = write_model ex
     [(''data'', write_dict (dp_data x)), (''kind'', PyStr ''data''),
      (''metadata'', write_option write_dict (dp_metadata x))]"

definition read_DataPart :: "pyval \<Rightarrow> exn + DataPart" where
  "read_DataPart = read_model (\<lambda>d.
     res_bind (literal ''kind'' (PyStr ''data'') d) (\<lambda>_.
     res_bind (required (''data'', ''data'') read_dict d) (\<lambda>v1.
     res_bind (optional (''metadata'', ''metadata'') read_dict d) (\<lambda>v2.
       Inr \<lparr>dp_data = v1, dp_metadata = v2\<rparr>))))"

definition json_DataPart :: "DataPart \<Rightarrow> bool" where
  "json_DataPart x \<longleftrightarrow> json_dict (dp_data x) \<and> pred_option json_dict (dp_metadata x)"

interpretation wire_DataPart: wire "dump_DataPart ex" read_DataPart json_DataPart for ex
  by unfold_locales (simp_all add: dump_DataPart_def read_DataPart_def json_DataPart_def wire_simps wire_sets)

fun dump_Part :: "bool \<Rightarrow> Part \<Rightarrow> pyval" where
  "dump_Part ex (Part_Text p) = dump_TextPart ex p"
| "dump_Part ex (Part_File p) = dump_FilePart ex p"
| "dump_Part ex (Part_Data p) = dump_DataPart ex p"

definition read_Part :: "pydantic \<Rightarrow> pyval \<Rightarrow> exn + Part" where
  "read_Part px = read_union px
     [as_variant Part_Text read_TextPart, as_variant Part_File (read_FilePart px), as_variant Part_Data read_DataPart]"

fun json_Part :: "Part \<Rightarrow> bool" where
  "json_Part (Part_Text p) = json_TextPart p"
| "json_Part (Part_File p) = json_FilePart p"
| "json_Part (Part_Data p) = json_DataPart p"

lemma part_variants [wire_simps]:
  "read_FilePart px (dump_TextPart ex p) = Inl ValidationError"
  "read_DataPart (dump_TextPart ex p) = Inl ValidationError"
  "read_TextPart (dump_FilePart ex q) = Inl ValidationError"
  "read_DataPart (dump_FilePart ex q) = Inl ValidationError"
  "read_TextPart (dump_DataPart ex r) = Inl ValidationError"
  "read_FilePart px (dump_DataPart ex r) = Inl ValidationError"
  by (simp_all add: read_TextPart_def dump_TextPart_def read_FilePart_def dump_FilePart_def read_DataPart_def dump_DataPart_def
      wire_simps)

interpretation wire_Part: wire "dump_Part ex" "read_Part px" json_Part for px ex
proof unfold_locales
  fix x assume "json_Part x" then show "read_Part px (dump_Part ex x) = Inr x"
    by (cases x) (simp_all add: read_Part_def wire_simps)
next
  fix x assume "json_Part x" then show "json_value (dump_Part ex x)" by (cases x) (simp_all add: wire_simps)
next
  fix x show "dump_Part ex x \<noteq> PyNone" by (cases x) simp_all
qed

subsection \<open>Messages, artifacts, tasks, events\<close>

definition dump_Message :: "bool \<Rightarrow> Message \<Rightarrow> pyval" where
  "dump_Message ex x = write_model ex
     [(''contextId'', write_option PyStr (msg_context_id x)),
      (''extensions'', write_option (write_list PyStr) (msg_extensions x)), (''kind'', PyStr ''message''),
      (''messageId'', PyStr (msg_message_id x)), (''metadata'', write_option write_dict (msg_metadata x)),
      (''parts'', write_list (dump_Part ex) (msg_parts x)),
      (''referenceTaskIds'', write_option (write_list PyStr) (msg_reference_task_ids x)),
      (''role'', dump_Role (msg_role x)), (''taskId'', write_option PyStr (msg_task_id x))]"

definition read_Message :: "pydantic \<Rightarrow> pyval \<Rightarrow> exn + Message" where
  "read_Message px = read_model (\<lambda>d.
     res_bind (literal ''kind'' (PyStr ''message'') d) (\<lambda>_.
     res_bind (optional (''context_id'', ''contextId'') read_str d) (\<lambda>v1.
     res_bind (optional (''extensions'', ''extensions'') (read_list read_str) d) (\<lambda>v2.
     res_bind (required (''message_id'', ''messageId'') read_str d) (\<lambda>v3.
     res_bind (optional (''metadata'', ''metadata'') read_dict d) (\<lambda>v4.
     res_bind (required (''parts'', ''parts'') (read_list (read_Part px)) d) (\<lambda>v5.
     res_bind (optional (''reference_task_ids'', ''referenceTaskIds'') (read_list read_str) d) (\<lambda>v6.
     res_bind (required (''role'', ''role'') read_Role d) (\<lambda>v7.
     res_bind (optional (''task_id'', ''taskId'') read_str d) (\<lambda>v8.
       Inr \<lparr>msg_context_id = v1, msg_extensions = v2, msg_message_id = v3, msg_metadata = v4, msg_parts = v5,
            msg_reference_task_ids = v6, msg_role = v7, msg_task_id = v8\<rparr>))))))))))"

definition json_Message :: "Message \<Rightarrow> bool" where
  "json_Message x \<longleftrightarrow> pred_option json_dict (msg_metadata x) \<and> list_all json_Part (msg_parts x)"

interpretation wire_Message: wire "dump_Message ex" "read_Message px" json_Message for px ex
  by unfold_locales (simp_all add: dump_Message_def read_Message_def json_Message_def wire_simps wire_sets)

definition dump_Artifact :: "bool \<Rightarrow> Artifact \<Rightarrow> pyval" where
  "dump_Artifact ex x = write_model ex
     [(''artifactId'', PyStr (art_artifact_id x)), (''description'', write_option PyStr (art_description x)),
      (''extensions'', write_option (write_list PyStr) (art_extensions x)),
      (''metadata'', write_option write_dict (art_metadata x)), (''name'', write_option PyStr (art_name x)),
      (''parts'', write_list (dump_Part ex) (art_parts x))]"

definition read_Artifact :: "pydantic \<Rightarrow> pyval \<Rightarrow> exn + Artifact" where
  "read_Artifact px = read_model (\<lambda>d.
     res_bind (required (''artifact_id'', ''artifactId'') read_str d) (\<lambda>v1.
     res_bind (optional (''description'', ''description'') read_str d) (\<lambda>v2.
     res_bind (optional (''extensions'', ''extensions'') (read_list read_str) d) (\<lambda>v3.
     res_bind (optional (''metadata'', ''metadata'') read_dict d) (\<lambda>v4.
     res_bind (optional (''name'', ''name'') read_str d) (\<lambda>v5.
     res_bind (required (''parts'', ''parts'') (read_list (read_Part px)) d) (\<lambda>v6.
       Inr \<lparr>art_artifact_id = v1, art_description = v2, art_extensions = v3, art_metadata = v4, art_name = v5,
            art_parts = v6\<rparr>)))))))"

definition json_Artifact :: "Artifact \<Rightarrow> bool" where
  "json_Artifact x \<longleftrightarrow> pred_option json_dict (art_metadata x) \<and> list_all json_Part (art_parts x)"

interpretation wire_Artifact: wire "dump_Artifact ex" "read_Artifact px" json_Artifact for px ex
  by unfold_locales (simp_all add: dump_Artifact_def read_Artifact_def json_Artifact_def wire_simps wire_sets)

definition dump_TaskStatus :: "bool \<Rightarrow> TaskStatus \<Rightarrow> pyval" where
  "dump_TaskStatus ex x = write_model ex
     [(''message'', write_option (dump_Message ex) (status_message x)), (''state'', dump_TaskState (status_state x)),
      (''timestamp'', write_option PyStr (status_timestamp x))]"

definition read_TaskStatus :: "pydantic \<Rightarrow> pyval \<Rightarrow> exn + TaskStatus" where
  "read_TaskStatus px = read_model (\<lambda>d.
     res_bind (optional (''message'', ''message'') (read_Message px) d) (\<lambda>v1.
     res_bind (required (''state'', ''state'') read_TaskState d) (\<lambda>v2.
     res_bind (optional (''timestamp'', ''timestamp'') read_str d) (\<lambda>v3.
       Inr \<lparr>status_message = v1, status_state = v2, status_timestamp = v3\<rparr>))))"

definition json_TaskStatus :: "TaskStatus \<Rightarrow> bool" where
  "json_TaskStatus x \<longleftrightarrow> pred_option json_Message (status_message x)"

interpretation wire_TaskStatus: wire "dump_TaskStatus ex" "read_TaskStatus px" json_TaskStatus for px ex
  by unfold_locales (simp_all add: dump_TaskStatus_def read_TaskStatus_def json_TaskStatus_def wire_simps wire_sets)

definition dump_Task :: "bool \<Rightarrow> Task \<Rightarrow> pyval" where
  "dump_Task ex x = write_model ex
     [(''artifacts'', write_option (write_list (dump_Artifact ex)) (task_artifacts x)),
      (''contextId'', PyStr (task_context_id x)),
      (''history'', write_option (write_list (dump_Message ex)) (task_history x)), (''id'', PyStr (task_id x)),
      (''kind'', PyStr ''task''), (''metadata'', write_option write_dict (task_metadata x)),
      (''status'', dump_TaskStatus ex (task_status x))]"

definition read_Task :: "pydantic \<Rightarrow> pyval \<Rightarrow> exn + Task" where
  "read_Task px = read_model (\<lambda>d.
     res_bind (literal ''kind'' (PyStr ''task'') d) (\<lambda>_.
     res_bind (optional (''artifacts'', ''artifacts'') (read_list (read_Artifact px)) d) (\<lambda>v1.
     res_bind (required (''context_id'', ''contextId'') read_str d) (\<lambda>v2.
     res_bind (optional (''history'', ''history'') (read_list (read_Message px)) d) (\<lambda>v3.
     res_bind (required (''id'', ''id'') read_str d) (\<lambda>v4.
     res_bind (optional (''metadata'', ''metadata'') read_dict d) (\<lambda>v5.
     res_bind (required (''status'', ''status'') (read_TaskStatus px) d) (\<lambda>v6.
       Inr \<lparr>task_artifacts = v1, task_context_id = v2, task_history = v3, task_id = v4, task_metadata = v5,
            task_status = v6\<rparr>))))))))"

definition json_Task :: "Task \<Rightarrow> bool" where
  "json_Task x \<longleftrightarrow> pred_option (list_all json_Artifact) (task_artifacts x) \<and> pred_option (list_all json_Message) (task_history x) \<and> pred_option json_dict (task_metadata x) \<and> json_TaskStatus (task_status x)"

interpretation wire_Task: wire "dump_Task ex" "read_Task px" json_Task for px ex
  by unfold_locales (simp_all add: dump_Task_def read_Task_def json_Task_def wire_simps wire_sets)

definition dump_TaskStatusUpdateEvent :: "bool \<Rightarrow> TaskStatusUpdateEvent \<Rightarrow> pyval" where
  "dump_TaskStatusUpdateEvent ex x = write_model ex
     [(''contextId'', PyStr (sue_context_id x)), (''final'', PyBool (sue_final x)), (''kind'', PyStr ''status-update''),
      (''metadata'', write_option write_dict (sue_metadata x)), (''status'', dump_TaskStatus ex (sue_status x)),
      (''taskId'', PyStr (sue_task_id x))]"

definition read_TaskStatusUpdateEvent :: "pydantic \<Rightarrow> pyval \<Rightarrow> exn + TaskStatusUpdateEvent" where
  "read_TaskStatusUpdateEvent px = read_model (\<lambda>d.
     res_bind (literal ''kind'' (PyStr ''status-update'') d) (\<lambda>_.
     res_bind (required (''context_id'', ''contextId'') read_str d) (\<lambda>v1.
     res_bind (required (''final'', ''final'') (read_bool px) d) (\<lambda>v2.
     res_bind (optional (''metadata'', ''metadata'') read_dict d) (\<lambda>v3.
     res_bind (required (''status'', ''status'') (read_TaskStatus px) d) (\<lambda>v4.
     res_bind (required (''task_id'', ''taskId'') read_str d) (\<lambda>v5.
       Inr \<lparr>sue_context_id = v1, sue_final = v2, sue_metadata = v3, sue_status = v4, sue_task_id = v5\<rparr>)))))))"

definition json_TaskStatusUpdateEvent :: "TaskStatusUpdateEvent \<Rightarrow> bool" where
  "json_TaskStatusUpdateEvent x \<longleftrightarrow> pred_option json_dict (sue_metadata x) \<and> json_TaskStatus (sue_status x)"

interpretation wire_TaskStatusUpdateEvent: wire "dump_TaskStatusUpdateEvent ex" "read_TaskStatusUpdateEvent px" json_TaskStatusUpdateEvent for px ex
  by unfold_locales (simp_all add: dump_TaskStatusUpdateEvent_def read_TaskStatusUpdateEvent_def json_TaskStatusUpdateEvent_def wire_simps wire_sets)

definition dump_TaskArtifactUpdateEvent :: "bool \<Rightarrow> TaskArtifactUpdateEvent \<Rightarrow> pyval" where
  "dump_TaskArtifactUpdateEvent ex x = write_model ex
     [(''append'', write_option PyBool (aue_append x)), (''artifact'', dump_Artifact ex (aue_artifact x)),
      (''contextId'', PyStr (aue_context_id x)), (''kind'', PyStr ''artifact-update''),
      (''lastChunk'', write_option PyBool (aue_last_chunk x)), (''metadata'', write_option write_dict (aue_metadata x)),
      (''taskId'', PyStr (aue_task_id x))]"

definition read_TaskArtifactUpdateEvent :: "pydantic \<Rightarrow> pyval \<Rightarrow> exn + TaskArtifactUpdateEvent" where
  "read_TaskArtifactUpdateEvent px = read_model (\<lambda>d.
     res_bind (literal ''kind'' (PyStr ''artifact-update'') d) (\<lambda>_.
     res_bind (optional (''append'', ''append'') (read_bool px) d) (\<lambda>v1.
     res_bind (required (''artifact'', ''artifact'') (read_Artifact px) d) (\<lambda>v2.
     res_bind (required (''context_id'', ''contextId'') read_str d) (\<lambda>v3.
     res_bind (optional (''last_chunk'', ''lastChunk'') (read_bool px) d) (\<lambda>v4.
     res_bind (optional (''metadata'', ''metadata'') read_dict d) (\<lambda>v5.
     res_bind (required (''task_id'', ''taskId'') read_str d) (\<lambda>v6.
       Inr \<lparr>aue_append = v1, aue_artifact = v2, aue_context_id = v3, aue_last_chunk = v4, aue_metadata = v5,
            aue_task_id = v6\<rparr>))))))))"

definition json_TaskArtifactUpdateEvent :: "TaskArtifactUpdateEvent \<Rightarrow> bool" where
  "json_TaskArtifactUpdateEvent x \<longleftrightarrow> json_Artifact (aue_artifact x) \<and> pred_option json_dict (aue_metadata x)"

interpretation wire_TaskArtifactUpdateEvent: wire "dump_TaskArtifactUpdateEvent ex" "read_TaskArtifactUpdateEvent px" json_TaskArtifactUpdateEvent for px ex
  by unfold_locales (simp_all add: dump_TaskArtifactUpdateEvent_def read_TaskArtifactUpdateEvent_def json_TaskArtifactUpdateEvent_def wire_simps wire_sets)

subsection \<open>Push notification configurations and parameters\<close>

definition dump_PushNotificationAuthenticationInfo :: "bool \<Rightarrow> PushNotificationAuthenticationInfo \<Rightarrow> pyval" where
  "dump_PushNotificationAuthenticationInfo ex x = write_model ex
     [(''credentials'', write_option PyStr (pna_credentials x)), (''schemes'', write_list PyStr (pna_schemes x))]"

definition read_PushNotificationAuthenticationInfo :: "pyval \<Rightarrow> exn + PushNotificationAuthenticationInfo" where
  "read_PushNotificationAuthenticationInfo = read_model (\<lambda>d.
     res_bind (optional (''credentials'', ''credentials'') read_str d) (\<lambda>v1.
     res_bind (required (''schemes'', ''schemes'') (read_list read_str) d) (\<lambda>v2.
       Inr \<lparr>pna_credentials = v1, pna_schemes = v2\<rparr>)))"

interpretation wire_PushNotificationAuthenticationInfo: wire "dump_PushNotificationAuthenticationInfo ex" read_PushNotificationAuthenticationInfo "\<lambda>x. True" for ex
  by unfold_locales (simp_all add: dump_PushNotificationAuthenticationInfo_def read_PushNotificationAuthenticationInfo_def wire_simps wire_sets)

definition dump_PushNotificationConfig :: "bool \<Rightarrow> PushNotificationConfig \<Rightarrow> pyval" where
  "dump_PushNotificationConfig ex x = write_model ex
     [(''authentication'', write_option (dump_PushNotificationAuthenticationInfo ex) (pnc_authentication x)),
      (''id'', write_option PyStr (pnc_id x)), (''token'', write_option PyStr (pnc_token x)), (''url'', PyStr (pnc_url x))]"

definition read_PushNotificationConfig :: "pyval \<Rightarrow> exn + PushNotificationConfig" where
  "read_PushNotificationConfig = read_model (\<lambda>d.
     res_bind (optional (''authentication'', ''authentication'') read_PushNotificationAuthenticationInfo d) (\<lambda>v1.
     res_bind (optional (''id'', ''id'') read_str d) (\<lambda>v2.
     res_bind (optional (''token'', ''token'') read_str d) (\<lambda>v3.
     res_bind (required (''url'', ''url'') read_str d) (\<lambda>v4.
       Inr \<lparr>pnc_authentication = v1, pnc_id = v2, pnc_token = v3, pnc_url = v4\<rparr>)))))"

interpretation wire_PushNotificationConfig: wire "dump_PushNotificationConfig ex" read_PushNotificationConfig "\<lambda>x. True" for ex
  by unfold_locales (simp_all add: dump_PushNotificationConfig_def read_PushNotificationConfig_def wire_simps wire_sets)

definition dump_TaskPushNotificationConfig :: "bool \<Rightarrow> TaskPushNotificationConfig \<Rightarrow> pyval" where
  "dump_TaskPushNotificationConfig ex x = write_model ex
     [(''pushNotificationConfig'', dump_PushNotificationConfig ex (tpnc_push_notification_config x)),
      (''taskId'', PyStr (tpnc_task_id x))]"

definition read_TaskPushNotificationConfig :: "pyval \<Rightarrow> exn + TaskPushNotificationConfig" where
  "read_TaskPushNotificationConfig = read_model (\<lambda>d.
     res_bind (required (''push_notification_config'', ''pushNotificationConfig'') read_PushNotificationConfig d) (\<lambda>v1.
     res_bind (required (''task_id'', ''taskId'') read_str d) (\<lambda>v2.
       Inr \<lparr>tpnc_push_notification_config = v1, tpnc_task_id = v2\<rparr>)))"

interpretation wire_TaskPushNotificationConfig: wire "dump_TaskPushNotificationConfig ex" read_TaskPushNotificationConfig "\<lambda>x. True" for ex
  by unfold_locales (simp_all add: dump_TaskPushNotificationConfig_def read_TaskPushNotificationConfig_def wire_simps wire_sets)

definition dump_TaskIdParams :: "bool \<Rightarrow> TaskIdParams \<Rightarrow> pyval" where
  "dump_TaskIdParams ex x = write_model ex
     [(''id'', PyStr (tip_id x)), (''metadata'', write_option write_dict (tip_metadata x))]"

definition read_TaskIdParams :: "pyval \<Rightarrow> exn + TaskIdParams" where
  "read_TaskIdParams = read_model (\<lambda>d.
     res_bind (required (''id'', ''id'') read_str d) (\<lambda>v1.
     res_bind (optional (''metadata'', ''metadata'') read_dict d) (\<lambda>v2.
       Inr \<lparr>tip_id = v1, tip_metadata = v2\<rparr>)))"

definition json_TaskIdParams :: "TaskIdParams \<Rightarrow> bool" where
  "json_TaskIdParams x \<longleftrightarrow> pred_option json_dict (tip_metadata x)"

interpretation wire_TaskIdParams: wire "dump_TaskIdParams ex" read_TaskIdParams json_TaskIdParams for ex
  by unfold_locales (simp_all add: dump_TaskIdParams_def read_TaskIdParams_def json_TaskIdParams_def wire_simps wire_sets)

definition dump_TaskQueryParams :: "bool \<Rightarrow> TaskQueryParams \<Rightarrow> pyval" where
  "dump_TaskQueryParams ex x = write_model ex
     [(''historyLength'', write_option PyInt (tqp_history_length x)), (''id'', PyStr (tqp_id x)),
      (''metadata'', write_option write_dict (tqp_metadata x))]"

definition read_TaskQueryParams :: "pydantic \<Rightarrow> pyval \<Rightarrow> exn + TaskQueryParams" where
  "read_TaskQueryParams px = read_model (\<lambda>d.
     res_bind (optional (''history_length'', ''historyLength'') (read_int px) d) (\<lambda>v1.
     res_bind (required (''id'', ''id'') read_str d) (\<lambda>v2.
     res_bind (optional (''metadata'', ''metadata'') read_dict d) (\<lambda>v3.
       Inr \<lparr>tqp_history_length = v1, tqp_id = v2, tqp_metadata = v3\<rparr>))))"

definition json_TaskQueryParams :: "TaskQueryParams \<Rightarrow> bool" where
  "json_TaskQueryParams x \<longleftrightarrow> pred_option json_dict (tqp_metadata x)"

interpretation wire_TaskQueryParams: wire "dump_TaskQueryParams ex" "read_TaskQueryParams px" json_TaskQueryParams for px ex
  by unfold_locales (simp_all add: dump_TaskQueryParams_def read_TaskQueryParams_def json_TaskQueryParams_def wire_simps wire_sets)

definition dump_DeleteTaskPushNotificationConfigParams :: "bool \<Rightarrow> DeleteTaskPushNotificationConfigParams \<Rightarrow> pyval" where
  "dump_DeleteTaskPushNotificationConfigParams ex x = write_model ex
     [(''id'', PyStr (dtp_id x)), (''metadata'', write_option write_dict (dtp_metadata x)),
      (''pushNotificationConfigId'', PyStr (dtp_push_notification_config_id x))]"

definition read_DeleteTaskPushNotificationConfigParams :: "pyval \<Rightarrow> exn + DeleteTaskPushNotificationConfigParams" where
  "read_DeleteTaskPushNotificationConfigParams = read_model (\<lambda>d.
     res_bind (required (''id'', ''id'') read_str d) (\<lambda>v1.
     res_bind (optional (''metadata'', ''metadata'') read_dict d) (\<lambda>v2.
     res_bind (required (''push_notification_config_id'', ''pushNotificationConfigId'') read_str d) (\<lambda>v3.
       Inr \<lparr>dtp_id = v1, dtp_metadata = v2, dtp_push_notification_config_id = v3\<rparr>))))"

definition json_DeleteTaskPushNotificationConfigParams :: "DeleteTaskPushNotificationConfigParams \<Rightarrow> bool" where
  "json_DeleteTaskPushNotificationConfigParams x \<longleftrightarrow> pred_option json_dict (dtp_metadata x)"

interpretation wire_DeleteTaskPushNotificationConfigParams: wire "dump_DeleteTaskPushNotificationConfigParams ex" read_DeleteTaskPushNotificationConfigParams json_DeleteTaskPushNotificationConfigParams for ex
  by unfold_locales (simp_all add: dump_DeleteTaskPushNotificationConfigParams_def read_DeleteTaskPushNotificationConfigParams_def json_DeleteTaskPushNotificationConfigParams_def wire_simps wire_sets)

definition dump_GetTaskPushNotificationConfigParams :: "bool \<Rightarrow> GetTaskPushNotificationConfigParams \<Rightarrow> pyval" where
  "dump_GetTaskPushNotificationConfigParams ex x = write_model ex
     [(''id'', PyStr (gtp_id x)), (''metadata'', write_option write_dict (gtp_metadata x)),
      (''pushNotificationConfigId'', write_option PyStr (gtp_push_notification_config_id x))]"

definition read_GetTaskPushNotificationConfigParams :: "pyval \<Rightarrow> exn + GetTaskPushNotificationConfigParams" where
  "read_GetTaskPushNotificationConfigParams = read_model (\<lambda>d.
     res_bind (required (''id'', ''id'') read_str d) (\<lambda>v1.
     res_bind (optional (''metadata'', ''metadata'') read_dict d) (\<lambda>v2.
     res_bind (optional (''push_notification_config_id'', ''pushNotificationConfigId'') read_str d) (\<lambda>v3.
       Inr \<lparr>gtp_id = v1, gtp_metadata = v2, gtp_push_notification_config_id = v3\<rparr>))))"

definition json_GetTaskPushNotificationConfigParams :: "GetTaskPushNotificationConfigParams \<Rightarrow> bool" where
  "json_GetTaskPushNotificationConfigParams x \<longleftrightarrow> pred_option json_dict (gtp_metadata x)"

interpretation wire_GetTaskPushNotificationConfigParams: wire "dump_GetTaskPushNotificationConfigParams ex" read_GetTaskPushNotificationConfigParams json_GetTaskPushNotificationConfigParams for ex
  by unfold_locales (simp_all add: dump_GetTaskPushNotificationConfigParams_def read_GetTaskPushNotificationConfigParams_def json_GetTaskPushNotificationConfigParams_def wire_simps wire_sets)

definition dump_ListTaskPushNotificationConfigParams :: "bool \<Rightarrow> ListTaskPushNotificationConfigParams \<Rightarrow> pyval" where
  "dump_ListTaskPushNotificationConfigParams ex x = write_model ex
     [(''id'', PyStr (ltp_id x)), (''metadata'', write_option write_dict (ltp_metadata x))]"

definition read_ListTaskPushNotificationConfigParams :: "pyval \<Rightarrow> exn + ListTaskPushNotificationConfigParams" where
  "read_ListTaskPushNotificationConfigParams = read_model (\<lambda>d.
     res_bind (required (''id'', ''id'') read_str d) (\<lambda>v1.
     res_bind (optional (''metadata'', ''metadata'') read_dict d) (\<lambda>v2.
       Inr \<lparr>ltp_id = v1, ltp_metadata = v2\<rparr>)))"

definition json_ListTaskPushNotificationConfigParams :: "ListTaskPushNotificationConfigParams \<Rightarrow> bool" where
  "json_ListTaskPushNotificationConfigParams x \<longleftrightarrow> pred_option json_dict (ltp_metadata x)"

interpretation wire_ListTaskPushNotificationConfigParams: wire "dump_ListTaskPushNotificationConfigParams ex" read_ListTaskPushNotificationConfigParams json_ListTaskPushNotificationConfigParams for ex
  by unfold_locales (simp_all add: dump_ListTaskPushNotificationConfigParams_def read_ListTaskPushNotificationConfigParams_def json_ListTaskPushNotificationConfigParams_def wire_simps wire_sets)

definition dump_MessageSendConfiguration :: "bool \<Rightarrow> MessageSendConfiguration \<Rightarrow> pyval" where
  "dump_MessageSendConfiguration ex x = write_model ex
     [(''acceptedOutputModes'', write_option (write_list PyStr) (msc_accepted_output_modes x)),
      (''blocking'', write_option PyBool (msc_blocking x)), (''historyLength'', write_option PyInt (msc_history_length x)),
      (''pushNotificationConfig'', write_option (dump_PushNotificationConfig ex) (msc_push_notification_config x))]"

definition read_MessageSendConfiguration :: "pydantic \<Rightarrow> pyval \<Rightarrow> exn + MessageSendConfiguration" where
  "read_MessageSendConfiguration px = read_model (\<lambda>d.
     res_bind (optional (''accepted_output_modes'', ''acceptedOutputModes'') (read_list read_str) d) (\<lambda>v1.
     res_bind (optional (''blocking'', ''blocking'') (read_bool px) d) (\<lambda>v2.
     res_bind (optional (''history_length'', ''historyLength'') (read_int px) d) (\<lambda>v3.
     res_bind (optional (''push_notification_config'', ''pushNotificationConfig'') read_PushNotificationConfig d) (\<lambda>v4.
       Inr \<lparr>msc_accepted_output_modes = v1, msc_blocking = v2, msc_history_length = v3, msc_push_notification_config = v4\<rparr>)))))"

interpretation wire_MessageSendConfiguration: wire "dump_MessageSendConfiguration ex" "read_MessageSendConfiguration px" "\<lambda>x. True" for px ex
  by unfold_locales (simp_all add: dump_MessageSendConfiguration_def read_MessageSendConfiguration_def wire_simps wire_sets)

definition dump_MessageSendParams :: "bool \<Rightarrow> MessageSendParams \<Rightarrow> pyval" where
  "dump_MessageSendParams ex x = write_model ex
     [(''configuration'', write_option (dump_MessageSendConfiguration ex) (msp_configuration x)),
      (''message'', dump_Message ex (msp_message x)), (''metadata'', write_option write_dict (msp_metadata x))]"

definition read_MessageSendParams :: "pydantic \<Rightarrow> pyval \<Rightarrow> exn + MessageSendParams" where
  "read_MessageSendParams px = read_model (\<lambda>d.
     res_bind (optional (''configuration'', ''configuration'') (read_MessageSendConfiguration px) d) (\<lambda>v1.
     res_bind (required (''message'', ''message'') (read_Message px) d) (\<lambda>v2.
     res_bind (optional (''metadata'', ''metadata'') read_dict d) (\<lambda>v3.
       Inr \<lparr>msp_configuration = v1, msp_message = v2, msp_metadata = v3\<rparr>))))"

definition json_MessageSendParams :: "MessageSendParams \<Rightarrow> bool" where
  "json_MessageSendParams x \<longleftrightarrow> json_Message (msp_message x) \<and> pred_option json_dict (msp_metadata x)"

interpretation wire_MessageSendParams: wire "dump_MessageSendParams ex" "read_MessageSendParams px" json_MessageSendParams for px ex
  by unfold_locales (simp_all add: dump_MessageSendParams_def read_MessageSendParams_def json_MessageSendParams_def wire_simps wire_sets)

end
