(* ===== verification/WireCards.thy ===== *)
theory WireCards
  imports WireTasks
begin

section \<open>The JSON form of agent cards (types.py)\<close>

text \<open>
  As \<open>WireTasks\<close>, for the agent card. Two fields of a card have a default that is not \<open>None\<close>, so a card written without
  its \<open>None\<close> fields is read back with the defaults in their place (\<open>card_defaults\<close>).
\<close>

subsection \<open>Security schemes\<close>

fun in_value :: "In \<Rightarrow> string" where
  "in_value cookie = ''cookie''"
| "in_value header = ''header''"
| "in_value query = ''query''"

definition dump_In :: "In \<Rightarrow> pyval" where
  "dump_In i = PyStr (in_value i)"

definition read_In :: "pyval \<Rightarrow> exn + In" where
  "read_In v =
     (case find (\<lambda>i. v = dump_In i) [cookie, header, query] of Some i \<Rightarrow> Inr i | None \<Rightarrow> Inl ValidationError)"

interpretation wire_In: wire dump_In read_In "\<lambda>x. True"
proof unfold_locales
  fix x show "read_In (dump_In x) = Inr x" by (cases x) (simp_all add: read_In_def dump_In_def)
qed (simp_all add: dump_In_def)

definition dump_APIKeySecurityScheme :: "bool \<Rightarrow> APIKeySecurityScheme \<Rightarrow> pyval" where
  "dump_APIKeySecurityScheme ex x = write_model ex
     [(''description'', write_option PyStr (aks_description x)), (''in'', dump_In (aks_in x)),
      (''name'', PyStr (aks_name x)), (''type'', PyStr ''apiKey'')]"

definition read_APIKeySecurityScheme :: "pyval \<Rightarrow> exn + APIKeySecurityScheme" where
  "read_APIKeySecurityScheme = read_model (\<lambda>d.
     res_bind (literal ''type'' (PyStr ''apiKey'') d) (\<lambda>_.
     res_bind (optional (''description'', ''description'') read_str d) (\<lambda>v1.
     res_bind (required (''in_'', ''in'') read_In d) (\<lambda>v2.
     res_bind (required (''name'', ''name'') read_str d) (\<lambda>v3.
       Inr \<lparr>aks_description = v1, aks_in = v2, aks_name = v3\<rparr>)))))"

interpretation wire_APIKeySecurityScheme: wire "dump_APIKeySecurityScheme ex" read_APIKeySecurityScheme "\<lambda>x. True" for ex
  by unfold_locales (simp_all add: dump_APIKeySecurityScheme_def read_APIKeySecurityScheme_def wire_simps wire_sets)

definition dump_HTTPAuthSecurityScheme :: "bool \<Rightarrow> HTTPAuthSecurityScheme \<Rightarrow> pyval" where
  "dump_HTTPAuthSecurityScheme ex x = write_model ex
     [(''bearerFormat'', write_option PyStr (has_bearer_format x)),
      (''description'', write_option PyStr (has_description x)), (''scheme'', PyStr (has_scheme x)),
      (''type'', PyStr ''http'')]"

definition read_HTTPAuthSecurityScheme :: "pyval \<Rightarrow> exn + HTTPAuthSecurityScheme" where
  "read_HTTPAuthSecurityScheme = read_model (\<lambda>d.
     res_bind (literal ''type'' (PyStr ''http'') d) (\<lambda>_.
     res_bind (optional (''bearer_format'', ''bearerFormat'') read_str d) (\<lambda>v1.
     res_bind (optional (''description'', ''description'') read_str d) (\<lambda>v2.
     res_bind (required (''scheme'', ''scheme'') read_str d) (\<lambda>v3.
       Inr \<lparr>has_bearer_format = v1, has_description = v2, has_scheme = v3\<rparr>)))))"

interpretation wire_HTTPAuthSecurityScheme: wire "dump_HTTPAuthSecurityScheme ex" read_HTTPAuthSecurityScheme "\<lambda>x. True" for ex
  by unfold_locales (simp_all add: dump_HTTPAuthSecurityScheme_def read_HTTPAuthSecurityScheme_def wire_simps wire_sets)

definition dump_AuthorizationCodeOAuthFlow :: "bool \<Rightarrow> AuthorizationCodeOAuthFlow \<Rightarrow> pyval" where
  "dump_AuthorizationCodeOAuthFlow ex x = write_model ex
     [(''authorizationUrl'', PyStr (acf_authorization_url x)), (''refreshUrl'', write_option PyStr (acf_refresh_url x)),
      (''scopes'', write_entries PyStr (acf_scopes x)), (''tokenUrl'', PyStr (acf_token_url x))]"

definition read_AuthorizationCodeOAuthFlow :: "pyval \<Rightarrow> exn + AuthorizationCodeOAuthFlow" where
  "read_AuthorizationCodeOAuthFlow = read_model (\<lambda>d.
     res_bind (required (''authorization_url'', ''authorizationUrl'') read_str d) (\<lambda>v1.
     res_bind (optional (''refresh_url'', ''refreshUrl'') read_str d) (\<lambda>v2.
     res_bind (required (''scopes'', ''scopes'') (read_entries read_str) d) (\<lambda>v3.
     res_bind (required (''token_url'', ''tokenUrl'') read_str d) (\<lambda>v4.
       Inr \<lparr>acf_authorization_url = v1, acf_refresh_url = v2, acf_scopes = v3, acf_token_url = v4\<rparr>)))))"

interpretation wire_AuthorizationCodeOAuthFlow: wire "dump_AuthorizationCodeOAuthFlow ex" read_AuthorizationCodeOAuthFlow "\<lambda>x. True" for ex
  by unfold_locales (simp_all add: dump_AuthorizationCodeOAuthFlow_def read_AuthorizationCodeOAuthFlow_def wire_simps wire_sets)

definition dump_ClientCredentialsOAuthFlow :: "bool \<Rightarrow> ClientCredentialsOAuthFlow \<Rightarrow> pyval" where
  "dump_ClientCredentialsOAuthFlow ex x = write_model ex
     [(''refreshUrl'', write_option PyStr (ccf_refresh_url x)), (''scopes'', write_entries PyStr (ccf_scopes x)),
      (''tokenUrl'', PyStr (ccf_token_url x))]"

definition read_ClientCredentialsOAuthFlow :: "pyval \<Rightarrow> exn + ClientCredentialsOAuthFlow" where
  "read_ClientCredentialsOAuthFlow = read_model (\<lambda>d.
     res_bind (optional (''refresh_url'', ''refreshUrl'') read_str d) (\<lambda>v1.
     res_bind (required (''scopes'', ''scopes'') (read_entries read_str) d) (\<lambda>v2.
     res_bind (required (''token_url'', ''tokenUrl'') read_str d) (\<lambda>v3.
       Inr \<lparr>ccf_refresh_url = v1, ccf_scopes = v2, ccf_token_url = v3\<rparr>))))"

interpretation wire_ClientCredentialsOAuthFlow: wire "dump_ClientCredentialsOAuthFlow ex" read_ClientCredentialsOAuthFlow "\<lambda>x. True" for ex
  by unfold_locales (simp_all add: dump_ClientCredentialsOAuthFlow_def read_ClientCredentialsOAuthFlow_def wire_simps wire_sets)

definition dump_ImplicitOAuthFlow :: "bool \<Rightarrow> ImplicitOAuthFlow \<Rightarrow> pyval" where
  "dump_ImplicitOAuthFlow ex x = write_model ex
     [(''authorizationUrl'', PyStr (imf_authorization_url x)), (''refreshUrl'', write_option PyStr (imf_refresh_url x)),
      (''scopes'', write_entries PyStr (imf_scopes x))]"

definition read_ImplicitOAuthFlow :: "pyval \<Rightarrow> exn + ImplicitOAuthFlow" where
  "read_ImplicitOAuthFlow = read_model (\<lambda>d.
     res_bind (required (''authorization_url'', ''authorizationUrl'') read_str d) (\<lambda>v1.
     res_bind (optional (''refresh_url'', ''refreshUrl'') read_str d) (\<lambda>v2.
     res_bind (required (''scopes'', ''scopes'') (read_entries read_str) d) (\<lambda>v3.
       Inr \<lparr>imf_authorization_url = v1, imf_refresh_url = v2, imf_scopes = v3\<rparr>))))"

interpretation wire_ImplicitOAuthFlow: wire "dump_ImplicitOAuthFlow ex" read_ImplicitOAuthFlow "\<lambda>x. True" for ex
  by unfold_locales (simp_all add: dump_ImplicitOAuthFlow_def read_ImplicitOAuthFlow_def wire_simps wire_sets)

definition dump_PasswordOAuthFlow :: "bool \<Rightarrow> PasswordOAuthFlow \<Rightarrow> pyval" where
  "dump_PasswordOAuthFlow ex x = write_model ex
     [(''refreshUrl'', write_option PyStr (pwf_refresh_url x)), (''scopes'', write_entries PyStr (pwf_scopes x)),
      (''tokenUrl'', PyStr (pwf_token_url x))]"

definition read_PasswordOAuthFlow :: "pyval \<Rightarrow> exn + PasswordOAuthFlow" where
  "read_PasswordOAuthFlow = read_model (\<lambda>d.
     res_bind (optional (''refresh_url'', ''refreshUrl'') read_str d) (\<lambda>v1.
     res_bind (required (''scopes'', ''scopes'') (read_entries read_str) d) (\<lambda>v2.
     res_bind (required (''token_url'', ''tokenUrl'') read_str d) (\<lambda>v3.
       Inr \<lparr>pwf_refresh_url = v1, pwf_scopes = v2, pwf_token_url = v3\<rparr>))))"

interpretation wire_PasswordOAuthFlow: wire "dump_PasswordOAuthFlow ex" read_PasswordOAuthFlow "\<lambda>x. True" for ex
  by unfold_locales (simp_all add: dump_PasswordOAuthFlow_def read_PasswordOAuthFlow_def wire_simps wire_sets)

definition dump_OAuthFlows :: "bool \<Rightarrow> OAuthFlows \<Rightarrow> pyval" where
  "dump_OAuthFlows ex x = write_model ex
     [(''authorizationCode'', write_option (dump_AuthorizationCodeOAuthFlow ex) (oaf_authorization_code x)),
      (''clientCredentials'', write_option (dump_ClientCredentialsOAuthFlow ex) (oaf_client_credentials x)),
      (''implicit'', write_option (dump_ImplicitOAuthFlow ex) (oaf_implicit x)),
      (''password'', write_option (dump_PasswordOAuthFlow ex) (oaf_password x))]"

definition read_OAuthFlows :: "pyval \<Rightarrow> exn + OAuthFlows" where
  "read_OAuthFlows = read_model (\<lambda>d.
     res_bind (optional (''authorization_code'', ''authorizationCode'') read_AuthorizationCodeOAuthFlow d) (\<lambda>v1.
     res_bind (optional (''client_credentials'', ''clientCredentials'') read_ClientCredentialsOAuthFlow d) (\<lambda>v2.
     res_bind (optional (''implicit'', ''implicit'') read_ImplicitOAuthFlow d) (\<lambda>v3.
     res_bind (optional (''password'', ''password'') read_PasswordOAuthFlow d) (\<lambda>v4.
       Inr \<lparr>oaf_authorization_code = v1, oaf_client_credentials = v2, oaf_implicit = v3, oaf_password = v4\<rparr>)))))"

interpretation wire_OAuthFlows: wire "dump_OAuthFlows ex" read_OAuthFlows "\<lambda>x. True" for ex
  by unfold_locales (simp_all add: dump_OAuthFlows_def read_OAuthFlows_def wire_simps wire_sets)

definition dump_OAuth2SecurityScheme :: "bool \<Rightarrow> OAuth2SecurityScheme \<Rightarrow> pyval" where
  "dump_OAuth2SecurityScheme ex x = write_model ex
     [(''description'', write_option PyStr (oas_description x)), (''flows'', dump_OAuthFlows ex (oas_flows x)),
      (''oauth2MetadataUrl'', write_option PyStr (oas_oauth2_metadata_url x)), (''type'', PyStr ''oauth2'')]"

definition read_OAuth2SecurityScheme :: "pyval \<Rightarrow> exn + OAuth2SecurityScheme" where
  "read_OAuth2SecurityScheme = read_model (\<lambda>d.
     res_bind (literal ''type'' (PyStr ''oauth2'') d) (\<lambda>_.
     res_bind (optional (''description'', ''description'') read_str d) (\<lambda>v1.
     res_bind (required (''flows'', ''flows'') read_OAuthFlows d) (\<lambda>v2.
     res_bind (optional (''oauth2_metadata_url'', ''oauth2MetadataUrl'') read_str d) (\<lambda>v3.
       Inr \<lparr>oas_description = v1, oas_flows = v2, oas_oauth2_metadata_url = v3\<rparr>)))))"

interpretation wire_OAuth2SecurityScheme: wire "dump_OAuth2SecurityScheme ex" read_OAuth2SecurityScheme "\<lambda>x. True" for ex
  by unfold_locales (simp_all add: dump_OAuth2SecurityScheme_def read_OAuth2SecurityScheme_def wire_simps wire_sets)

definition dump_OpenIdConnectSecurityScheme :: "bool \<Rightarrow> OpenIdConnectSecurityScheme \<Rightarrow> pyval" where
  "dump_OpenIdConnectSecurityScheme ex x = write_model ex
     [(''description'', write_option PyStr (oid_description x)), (''openIdConnectUrl'', PyStr (oid_open_id_connect_url x)),
      (''type'', PyStr ''openIdConnect'')]"

definition read_OpenIdConnectSecurityScheme :: "pyval \<Rightarrow> exn + OpenIdConnectSecurityScheme" where
  "read_OpenIdConnectSecurityScheme = read_model (\<lambda>d.
     res_bind (literal ''type'' (PyStr ''openIdConnect'') d) (\<lambda>_.
     res_bind (optional (''description'', ''description'') read_str d) (\<lambda>v1.
     res_bind (required (''open_id_connect_url'', ''openIdConnectUrl'') read_str d) (\<lambda>v2.
       Inr \<lparr>oid_description = v1, oid_open_id_connect_url = v2\<rparr>))))"

interpretation wire_OpenIdConnectSecurityScheme: wire "dump_OpenIdConnectSecurityScheme ex" read_OpenIdConnectSecurityScheme "\<lambda>x. True" for ex
  by unfold_locales (simp_all add: dump_OpenIdConnectSecurityScheme_def read_OpenIdConnectSecurityScheme_def wire_simps wire_sets)

definition dump_MutualTLSSecurityScheme :: "bool \<Rightarrow> MutualTLSSecurityScheme \<Rightarrow> pyval" where
  "dump_MutualTLSSecurityScheme ex x = write_model ex
     [(''description'', write_option PyStr (mts_description x)), (''type'', PyStr ''mutualTLS'')]"

definition read_MutualTLSSecurityScheme :: "pyval \<Rightarrow> exn + MutualTLSSecurityScheme" where
  "read_MutualTLSSecurityScheme = read_model (\<lambda>d.
     res_bind (literal ''type'' (PyStr ''mutualTLS'') d) (\<lambda>_.
     res_bind (optional (''description'', ''description'') read_str d) (\<lambda>v1.
       Inr \<lparr>mts_description = v1\<rparr>)))"

interpretation wire_MutualTLSSecurityScheme: wire "dump_MutualTLSSecurityScheme ex" read_MutualTLSSecurityScheme "\<lambda>x. True" for ex
  by unfold_locales (simp_all add: dump_MutualTLSSecurityScheme_def read_MutualTLSSecurityScheme_def wire_simps wire_sets)

fun dump_SecurityScheme :: "bool \<Rightarrow> SecurityScheme \<Rightarrow> pyval" where
  "dump_SecurityScheme ex (APIKeyScheme s) = dump_APIKeySecurityScheme ex s"
| "dump_SecurityScheme ex (HTTPAuthScheme s) = dump_HTTPAuthSecurityScheme ex s"
| "dump_SecurityScheme ex (OAuth2Scheme s) = dump_OAuth2SecurityScheme ex s"
| "dump_SecurityScheme ex (OpenIdConnectScheme s) = dump_OpenIdConnectSecurityScheme ex s"
| "dump_SecurityScheme ex (MutualTLSScheme s) = dump_MutualTLSSecurityScheme ex s"

definition read_SecurityScheme :: "pydantic \<Rightarrow> pyval \<Rightarrow> exn + SecurityScheme" where
  "read_SecurityScheme px = read_union px
     [as_variant APIKeyScheme read_APIKeySecurityScheme, as_variant HTTPAuthScheme read_HTTPAuthSecurityScheme,
      as_variant OAuth2Scheme read_OAuth2SecurityScheme, as_variant OpenIdConnectScheme read_OpenIdConnectSecurityScheme,
      as_variant MutualTLSScheme read_MutualTLSSecurityScheme]"

lemma scheme_variants [wire_simps]:
  "read_HTTPAuthSecurityScheme (dump_APIKeySecurityScheme ex x1) = Inl ValidationError"
  "read_OAuth2SecurityScheme (dump_APIKeySecurityScheme ex x1) = Inl ValidationError"
  "read_OpenIdConnectSecurityScheme (dump_APIKeySecurityScheme ex x1) = Inl ValidationError"
  "read_MutualTLSSecurityScheme (dump_APIKeySecurityScheme ex x1) = Inl ValidationError"
  "read_APIKeySecurityScheme (dump_HTTPAuthSecurityScheme ex x2) = Inl ValidationError"
  "read_OAuth2SecurityScheme (dump_HTTPAuthSecurityScheme ex x2) = Inl ValidationError"
  "read_OpenIdConnectSecurityScheme (dump_HTTPAuthSecurityScheme ex x2) = Inl ValidationError"
  "read_MutualTLSSecurityScheme (dump_HTTPAuthSecurityScheme ex x2) = Inl ValidationError"
  "read_APIKeySecurityScheme (dump_OAuth2SecurityScheme ex x3) = Inl ValidationError"
  "read_HTTPAuthSecurityScheme (dump_OAuth2SecurityScheme ex x3) = Inl ValidationError"
  "read_OpenIdConnectSecurityScheme (dump_OAuth2SecurityScheme ex x3) = Inl ValidationError"
  "read_MutualTLSSecurityScheme (dump_OAuth2SecurityScheme ex x3) = Inl ValidationError"
  "read_APIKeySecurityScheme (dump_OpenIdConnectSecurityScheme ex x4) = Inl ValidationError"
  "read_HTTPAuthSecurityScheme (dump_OpenIdConnectSecurityScheme ex x4) = Inl ValidationError"
  "read_OAuth2SecurityScheme (dump_OpenIdConnectSecurityScheme ex x4) = Inl ValidationError"
  "read_MutualTLSSecurityScheme (dump_OpenIdConnectSecurityScheme ex x4) = Inl ValidationError"
  "read_APIKeySecurityScheme (dump_MutualTLSSecurityScheme ex x5) = Inl ValidationError"
  "read_HTTPAuthSecurityScheme (dump_MutualTLSSecurityScheme ex x5) = Inl ValidationError"
  "read_OAuth2SecurityScheme (dump_MutualTLSSecurityScheme ex x5) = Inl ValidationError"
  "read_OpenIdConnectSecurityScheme (dump_MutualTLSSecurityScheme ex x5) = Inl ValidationError"
  by (simp_all add: read_APIKeySecurityScheme_def dump_APIKeySecurityScheme_def read_HTTPAuthSecurityScheme_def
      dump_HTTPAuthSecurityScheme_def read_OAuth2SecurityScheme_def dump_OAuth2SecurityScheme_def
      read_OpenIdConnectSecurityScheme_def dump_OpenIdConnectSecurityScheme_def read_MutualTLSSecurityScheme_def
      dump_MutualTLSSecurityScheme_def wire_simps)

interpretation wire_SecurityScheme: wire "dump_SecurityScheme ex" "read_SecurityScheme px" "\<lambda>x. True" for px ex
proof unfold_locales
  fix x show "read_SecurityScheme px (dump_SecurityScheme ex x) = Inr x"
    by (cases x) (simp_all add: read_SecurityScheme_def wire_simps)
next
  fix x show "json_value (dump_SecurityScheme ex x)" and "dump_SecurityScheme ex x \<noteq> PyNone"
    by (cases x; simp add: wire_simps)+
qed

subsection \<open>Cards\<close>

definition dump_AgentCardSignature :: "bool \<Rightarrow> AgentCardSignature \<Rightarrow> pyval" where
  "dump_AgentCardSignature ex x = write_model ex
     [(''header'', write_option write_dict (acs_header x)), (''protected'', PyStr (acs_protected x)),
      (''signature'', PyStr (acs_signature x))]"

definition read_AgentCardSignature :: "pyval \<Rightarrow> exn + AgentCardSignature" where
  "read_AgentCardSignature = read_model (\<lambda>d.
     res_bind (optional (''header'', ''header'') read_dict d) (\<lambda>v1.
     res_bind (required (''protected'', ''protected'') read_str d) (\<lambda>v2.
     res_bind (required (''signature'', ''signature'') read_str d) (\<lambda>v3.
       Inr \<lparr>acs_header = v1, acs_protected = v2, acs_signature = v3\<rparr>))))"

definition json_AgentCardSignature :: "AgentCardSignature \<Rightarrow> bool" where
  "json_AgentCardSignature x \<longleftrightarrow> pred_option json_dict (acs_header x)"

interpretation wire_AgentCardSignature: wire "dump_AgentCardSignature ex" read_AgentCardSignature json_AgentCardSignature for ex
  by unfold_locales (simp_all add: dump_AgentCardSignature_def read_AgentCardSignature_def json_AgentCardSignature_def wire_simps wire_sets)

definition dump_AgentExtension :: "bool \<Rightarrow> AgentExtension \<Rightarrow> pyval" where
  "dump_AgentExtension ex x = write_model ex
     [(''description'', write_option PyStr (ext_description x)), (''params'', write_option write_dict (ext_params x)),
      (''required'', write_option PyBool (ext_required x)), (''uri'', PyStr (ext_uri x))]"

definition read_AgentExtension :: "pydantic \<Rightarrow> pyval \<Rightarrow> exn + AgentExtension" where
  "read_AgentExtension px = read_model (\<lambda>d.
     res_bind (optional (''description'', ''description'') read_str d) (\<lambda>v1.
     res_bind (optional (''params'', ''params'') read_dict d) (\<lambda>v2.
     res_bind (optional (''required'', ''required'') (read_bool px) d) (\<lambda>v3.
     res_bind (required (''uri'', ''uri'') read_str d) (\<lambda>v4.
       Inr \<lparr>ext_description = v1, ext_params = v2, ext_required = v3, ext_uri = v4\<rparr>)))))"

definition json_AgentExtension :: "AgentExtension \<Rightarrow> bool" where
  "json_AgentExtension x \<longleftrightarrow> pred_option json_dict (ext_params x)"

interpretation wire_AgentExtension: wire "dump_AgentExtension ex" "read_AgentExtension px" json_AgentExtension for px ex
  by unfold_locales (simp_all add: dump_AgentExtension_def read_AgentExtension_def json_AgentExtension_def wire_simps wire_sets)

definition dump_AgentInterface :: "bool \<Rightarrow> AgentInterface \<Rightarrow> pyval" where
  "dump_AgentInterface ex x = write_model ex
     [(''transport'', PyStr (aif_transport x)), (''url'', PyStr (aif_url x))]"

definition read_AgentInterface :: "pyval \<Rightarrow> exn + AgentInterface" where
  "read_AgentInterface = read_model (\<lambda>d.
     res_bind (required (''transport'', ''transport'') read_str d) (\<lambda>v1.
     res_bind (required (''url'', ''url'') read_str d) (\<lambda>v2.
       Inr \<lparr>aif_transport = v1, aif_url = v2\<rparr>)))"

interpretation wire_AgentInterface: wire "dump_AgentInterface ex" read_AgentInterface "\<lambda>x. True" for ex
  by unfold_locales (simp_all add: dump_AgentInterface_def read_AgentInterface_def wire_simps wire_sets)

definition dump_AgentProvider :: "bool \<Rightarrow> AgentProvider \<Rightarrow> pyval" where
  "dump_AgentProvider ex x = write_model ex
     [(''organization'', PyStr (prv_organization x)), (''url'', PyStr (prv_url x))]"

definition read_AgentProvider :: "pyval \<Rightarrow> exn + AgentProvider" where
  "read_AgentProvider = read_model (\<lambda>d.
     res_bind (required (''organization'', ''organization'') read_str d) (\<lambda>v1.
     res_bind (required (''url'', ''url'') read_str d) (\<lambda>v2.
       Inr \<lparr>prv_organization = v1, prv_url = v2\<rparr>)))"

interpretation wire_AgentProvider: wire "dump_AgentProvider ex" read_AgentProvider "\<lambda>x. True" for ex
  by unfold_locales (simp_all add: dump_AgentProvider_def read_AgentProvider_def wire_simps wire_sets)

definition dump_AgentSkill :: "bool \<Rightarrow> AgentSkill \<Rightarrow> pyval" where
  "dump_AgentSkill ex x = write_model ex
     [(''description'', PyStr (skl_description x)), (''examples'', write_option (write_list PyStr) (skl_examples x)),
      (''id'', PyStr (skl_id x)), (''inputModes'', write_option (write_list PyStr) (skl_input_modes x)),
      (''name'', PyStr (skl_name x)), (''outputModes'', write_option (write_list PyStr) (skl_output_modes x)),
      (''security'', write_option (write_list (write_entries (write_list PyStr))) (skl_security x)),
      (''tags'', write_list PyStr (skl_tags x))]"

definition read_AgentSkill :: "pyval \<Rightarrow> exn + AgentSkill" where
  "read_AgentSkill = read_model (\<lambda>d.
     res_bind (required (''description'', ''description'') read_str d) (\<lambda>v1.
     res_bind (optional (''examples'', ''examples'') (read_list read_str) d) (\<lambda>v2.
     res_bind (required (''id'', ''id'') read_str d) (\<lambda>v3.
     res_bind (optional (''input_modes'', ''inputModes'') (read_list read_str) d) (\<lambda>v4.
     res_bind (required (''name'', ''name'') read_str d) (\<lambda>v5.
     res_bind (optional (''output_modes'', ''outputModes'') (read_list read_str) d) (\<lambda>v6.
     res_bind (optional (''security'', ''security'') (read_list (read_entries (read_list read_str))) d) (\<lambda>v7.
     res_bind (required (''tags'', ''tags'') (read_list read_str) d) (\<lambda>v8.
       Inr \<lparr>skl_description = v1, skl_examples = v2, skl_id = v3, skl_input_modes = v4, skl_name = v5,
            skl_output_modes = v6, skl_security = v7, skl_tags = v8\<rparr>)))))))))"

interpretation wire_AgentSkill: wire "dump_AgentSkill ex" read_AgentSkill "\<lambda>x. True" for ex
  by unfold_locales (simp_all add: dump_AgentSkill_def read_AgentSkill_def wire_simps wire_sets)

definition dump_AgentCapabilities :: "bool \<Rightarrow> AgentCapabilities \<Rightarrow> pyval" where
  "dump_AgentCapabilities ex x = write_model ex
     [(''extensions'', write_option (write_list (dump_AgentExtension ex)) (cap_extensions x)),
      (''pushNotifications'', write_option PyBool (cap_push_notifications x)),
      (''stateTransitionHistory'', write_option PyBool (cap_state_transition_history x)),
      (''streaming'', write_option PyBool (cap_streaming x))]"

definition read_AgentCapabilities :: "pydantic \<Rightarrow> pyval \<Rightarrow> exn + AgentCapabilities" where
  "read_AgentCapabilities px = read_model (\<lambda>d.
     res_bind (optional (''extensions'', ''extensions'') (read_list (read_AgentExtension px)) d) (\<lambda>v1.
     res_bind (optional (''push_notifications'', ''pushNotifications'') (read_bool px) d) (\<lambda>v2.
     res_bind (optional (''state_transition_history'', ''stateTransitionHistory'') (read_bool px) d) (\<lambda>v3.
     res_bind (optional (''streaming'', ''streaming'') (read_bool px) d) (\<lambda>v4.
       Inr \<lparr>cap_extensions = v1, cap_push_notifications = v2, cap_state_transition_history = v3, cap_streaming = v4\<rparr>)))))"

definition json_AgentCapabilities :: "AgentCapabilities \<Rightarrow> bool" where
  "json_AgentCapabilities x \<longleftrightarrow> pred_option (list_all json_AgentExtension) (cap_extensions x)"

interpretation wire_AgentCapabilities: wire "dump_AgentCapabilities ex" "read_AgentCapabilities px" json_AgentCapabilities for px ex
  by unfold_locales (simp_all add: dump_AgentCapabilities_def read_AgentCapabilities_def json_AgentCapabilities_def wire_simps wire_sets)

definition dump_AgentCard :: "bool \<Rightarrow> AgentCard \<Rightarrow> pyval" where
  "dump_AgentCard ex x = write_model ex
     [(''additionalInterfaces'', write_option (write_list (dump_AgentInterface ex)) (card_additional_interfaces x)),
      (''capabilities'', dump_AgentCapabilities ex (card_capabilities x)),
      (''defaultInputModes'', write_list PyStr (card_default_input_modes x)),
      (''defaultOutputModes'', write_list PyStr (card_default_output_modes x)),
      (''description'', PyStr (card_description x)), (''documentationUrl'', write_option PyStr (card_documentation_url x)),
      (''iconUrl'', write_option PyStr (card_icon_url x)), (''name'', PyStr (card_name x)),
      (''preferredTransport'', write_option PyStr (card_preferred_transport x)),
      (''protocolVersion'', write_option PyStr (card_protocol_version x)),
      (''provider'', write_option (dump_AgentProvider ex) (card_provider x)),
      (''security'', write_option (write_list (write_entries (write_list PyStr))) (card_security x)),
      (''securitySchemes'', write_option (write_entries (dump_SecurityScheme ex)) (card_security_schemes x)),
      (''signatures'', write_option (write_list (dump_AgentCardSignature ex)) (card_signatures x)),
      (''skills'', write_list (dump_AgentSkill ex) (card_skills x)),
      (''supportsAuthenticatedExtendedCard'', write_option PyBool (card_supports_authenticated_extended_card x)),
      (''url'', PyStr (card_url x)), (''version'', PyStr (card_version x))]"

definition read_AgentCard :: "pydantic \<Rightarrow> pyval \<Rightarrow> exn + AgentCard" where
  "read_AgentCard px = read_model (\<lambda>d.
     res_bind (optional (''additional_interfaces'', ''additionalInterfaces'') (read_list read_AgentInterface) d) (\<lambda>v1.
     res_bind (required (''capabilities'', ''capabilities'') (read_AgentCapabilities px) d) (\<lambda>v2.
     res_bind (required (''default_input_modes'', ''defaultInputModes'') (read_list read_str) d) (\<lambda>v3.
     res_bind (required (''default_output_modes'', ''defaultOutputModes'') (read_list read_str) d) (\<lambda>v4.
     res_bind (required (''description'', ''description'') read_str d) (\<lambda>v5.
     res_bind (optional (''documentation_url'', ''documentationUrl'') read_str d) (\<lambda>v6.
     res_bind (optional (''icon_url'', ''iconUrl'') read_str d) (\<lambda>v7.
     res_bind (required (''name'', ''name'') read_str d) (\<lambda>v8.
     res_bind (with_default (''preferred_transport'', ''preferredTransport'') (Some ''JSONRPC'') (nullable read_str) d) (\<lambda>v9.
     res_bind (with_default (''protocol_version'', ''protocolVersion'') (Some ''0.3.0'') (nullable read_str) d) (\<lambda>v10.
     res_bind (optional (''provider'', ''provider'') read_AgentProvider d) (\<lambda>v11.
     res_bind (optional (''security'', ''security'') (read_list (read_entries (read_list read_str))) d) (\<lambda>v12.
     res_bind (optional (''security_schemes'', ''securitySchemes'') (read_entries (read_SecurityScheme px)) d) (\<lambda>v13.
     res_bind (optional (''signatures'', ''signatures'') (read_list read_AgentCardSignature) d) (\<lambda>v14.
     res_bind (required (''skills'', ''skills'') (read_list read_AgentSkill) d) (\<lambda>v15.
     res_bind (optional (''supports_authenticated_extended_card'', ''supportsAuthenticatedExtendedCard'') (read_bool px) d) (\<lambda>v16.
     res_bind (required (''url'', ''url'') read_str d) (\<lambda>v17.
     res_bind (required (''version'', ''version'') read_str d) (\<lambda>v18.
       Inr \<lparr>card_additional_interfaces = v1, card_capabilities = v2, card_default_input_modes = v3,
            card_default_output_modes = v4, card_description = v5, card_documentation_url = v6, card_icon_url = v7,
            card_name = v8, card_preferred_transport = v9, card_protocol_version = v10, card_provider = v11,
            card_security = v12, card_security_schemes = v13, card_signatures = v14, card_skills = v15,
            card_supports_authenticated_extended_card = v16, card_url = v17, card_version = v18\<rparr>)))))))))))))))))))"

definition json_AgentCard :: "AgentCard \<Rightarrow> bool" where
  "json_AgentCard x \<longleftrightarrow> json_AgentCapabilities (card_capabilities x) \<and> pred_option (list_all json_AgentCardSignature) (card_signatures x)"


text \<open>What becomes of a card: a field without a value that has a default gets it, when \<open>None\<close> fields are left out.\<close>

definition card_defaults :: "bool \<Rightarrow> AgentCard \<Rightarrow> AgentCard" where
  "card_defaults ex c =
     c\<lparr>card_preferred_transport := (if ex \<and> card_preferred_transport c = None then Some ''JSONRPC''
                                  else card_preferred_transport c),
       card_protocol_version := (if ex \<and> card_protocol_version c = None then Some ''0.3.0'' else card_protocol_version c)\<rparr>"

lemma card_reads_back:
  assumes "json_AgentCard c"
  shows "read_AgentCard px (dump_AgentCard ex c) = Inr (card_defaults ex c)"
  using assms
  by (simp add: dump_AgentCard_def read_AgentCard_def json_AgentCard_def card_defaults_def wire_simps wire_sets)

lemma card_present [simp]: "dump_AgentCard ex c \<noteq> PyNone"
  by (simp add: dump_AgentCard_def)

lemma card_writes_json: "json_AgentCard c \<Longrightarrow> json_value (dump_AgentCard ex c)"
  by (simp add: dump_AgentCard_def json_AgentCard_def wire_simps wire_sets)

end
