(* ===== verification/WireRpc.thy ===== *)
theory WireRpc
  imports WireCards
begin

section \<open>The JSON form of JSON-RPC requests, errors and responses (types.py)\<close>

text \<open>
  As \<open>WireTasks\<close>, for the classes of the JSON-RPC messages.
\<close>

subsection \<open>Errors\<close>

text \<open>The object that the constructor of an error class builds without arguments.\<close>

fun error_class :: "error_kind \<Rightarrow> rpc_error option" where
  "error_class K_JSONRPCError = None"
| "error_class K_JSONParseError = Some JSONParseError"
| "error_class K_InvalidRequestError = Some InvalidRequestError"
| "error_class K_MethodNotFoundError = Some MethodNotFoundError"
| "error_class K_InvalidParamsError = Some InvalidParamsError"
| "error_class K_InternalError = Some InternalError"
| "error_class K_TaskNotFoundError = Some TaskNotFoundError"
| "error_class K_TaskNotCancelableError = Some TaskNotCancelableError"
| "error_class K_PushNotificationNotSupportedError = Some PushNotificationNotSupportedError"
| "error_class K_UnsupportedOperationError = Some UnsupportedOperationError"
| "error_class K_ContentTypeNotSupportedError = Some ContentTypeNotSupportedError"
| "error_class K_InvalidAgentResponseError = Some InvalidAgentResponseError"
| "error_class K_AuthenticatedExtendedCardNotConfiguredError = Some AuthenticatedExtendedCardNotConfiguredError"

definition dump_error :: "bool \<Rightarrow> rpc_error \<Rightarrow> pyval" where
  "dump_error ex e = write_model ex
     [(''code'', PyInt (err_code e)), (''data'', write_option write_any (err_data e)),
      (''message'', write_option PyStr (err_message e))]"

definition read_JSONRPCError :: "pydantic \<Rightarrow> pyval \<Rightarrow> exn + rpc_error" where
  "read_JSONRPCError px = read_model (\<lambda>d.
     res_bind (required (''code'', ''code'') (read_int px) d) (\<lambda>c.
     res_bind (optional (''data'', ''data'') read_any d) (\<lambda>x.
     res_bind (required (''message'', ''message'') read_str d) (\<lambda>m.
       Inr \<lparr>err_kind = K_JSONRPCError, err_code = c, err_data = x, err_message = Some m\<rparr>))))"

definition read_error_class :: "rpc_error \<Rightarrow> pyval \<Rightarrow> exn + rpc_error" where
  "read_error_class obj = read_model (\<lambda>d.
     res_bind (literal ''code'' (PyInt (err_code obj)) d) (\<lambda>_.
     res_bind (optional (''data'', ''data'') read_any d) (\<lambda>x.
     res_bind (with_default (''message'', ''message'') (err_message obj) (nullable read_str) d) (\<lambda>m.
       Inr (obj\<lparr>err_data := x, err_message := m\<rparr>)))))"

text \<open>
  The union of the error classes. They have the same fields, so the member that comes first among those that accept the
  value is taken; the generic class is the first of all.
\<close>

definition error_classes :: "rpc_error list" where
  "error_classes =
     [JSONParseError, InvalidRequestError, MethodNotFoundError, InvalidParamsError, InternalError, TaskNotFoundError,
      TaskNotCancelableError, PushNotificationNotSupportedError, UnsupportedOperationError, ContentTypeNotSupportedError,
      InvalidAgentResponseError, AuthenticatedExtendedCardNotConfiguredError]"

definition read_error :: "pydantic \<Rightarrow> pyval \<Rightarrow> exn + rpc_error" where
  "read_error px v =
     (case find (\<lambda>rd. accepts rd v) (read_JSONRPCError px # map read_error_class error_classes) of
        None \<Rightarrow> Inl ValidationError
      | Some rd \<Rightarrow> rd v)"

text \<open>
  An error object of its class: the code is that of the class, the generic class has a message. What is read back: an error
  with a message becomes generic; one without gets the message of its class when \<open>None\<close> fields were left out.
\<close>

definition error_ok :: "rpc_error \<Rightarrow> bool" where
  "error_ok e \<longleftrightarrow>
     pred_option (\<lambda>v. json_value v \<and> v \<noteq> PyNone) (err_data e) \<and>
     (case error_class (err_kind e) of
        None \<Rightarrow> err_message e \<noteq> None
      | Some obj \<Rightarrow> err_code e = err_code obj)"

definition error_at_client :: "bool \<Rightarrow> rpc_error \<Rightarrow> rpc_error" where
  "error_at_client ex e =
     (if err_message e \<noteq> None then e\<lparr>err_kind := K_JSONRPCError\<rparr>
      else if ex then e\<lparr>err_message := (case error_class (err_kind e) of None \<Rightarrow> None | Some obj \<Rightarrow> err_message obj)\<rparr>
      else e)"

lemma generic_error_read:
  assumes "pred_option (\<lambda>v. json_value v \<and> v \<noteq> PyNone) (err_data e)" and "err_message e = Some m"
  shows "read_JSONRPCError px (dump_error ex e) = Inr (e\<lparr>err_kind := K_JSONRPCError\<rparr>)"
  using assms by (simp add: read_JSONRPCError_def dump_error_def write_option_def wire_simps wire_sets)

subsection \<open>Requests\<close>

text \<open>
  \<open>params: TaskIdParams | GetTaskPushNotificationConfigParams\<close>. Pydantic takes the member with the most fields set, and the
  first of those: the second one when it is valid and the value has a configuration id.
\<close>

fun dump_get_config_params :: "bool \<Rightarrow> get_config_params \<Rightarrow> pyval" where
  "dump_get_config_params ex (GCP_TaskId p) = dump_TaskIdParams ex p"
| "dump_get_config_params ex (GCP_Config p) = dump_GetTaskPushNotificationConfigParams ex p"

definition sets_config_id :: "pyval \<Rightarrow> bool" where
  "sets_config_id v \<longleftrightarrow>
     (case v of
        PyDict d \<Rightarrow> field_value (''push_notification_config_id'', ''pushNotificationConfigId'') d \<noteq> None
      | _ \<Rightarrow> False)"

definition read_get_config_params :: "pyval \<Rightarrow> exn + get_config_params" where
  "read_get_config_params v =
     (if accepts read_GetTaskPushNotificationConfigParams v \<and> sets_config_id v
      then as_variant GCP_Config read_GetTaskPushNotificationConfigParams v
      else as_variant GCP_TaskId read_TaskIdParams v)"

fun json_get_config_params :: "get_config_params \<Rightarrow> bool" where
  "json_get_config_params (GCP_TaskId p) = json_TaskIdParams p"
| "json_get_config_params (GCP_Config p) =
     (json_GetTaskPushNotificationConfigParams p \<and> gtp_push_notification_config_id p \<noteq> None)"

lemma sets_config_id_written [wire_simps]:
  "sets_config_id (dump_TaskIdParams ex p) = False"
  "sets_config_id (dump_GetTaskPushNotificationConfigParams ex q) \<longleftrightarrow> \<not> (ex \<and> gtp_push_notification_config_id q = None)"
  by (simp_all add: sets_config_id_def dump_TaskIdParams_def dump_GetTaskPushNotificationConfigParams_def write_model_def
      field_absent field_written write_option_def split: option.split)

interpretation wire_get_config_params: wire "dump_get_config_params ex" read_get_config_params json_get_config_params for ex
proof unfold_locales
  fix x assume "json_get_config_params x" then show "read_get_config_params (dump_get_config_params ex x) = Inr x"
    by (cases x) (simp_all add: read_get_config_params_def wire_simps)
next
  fix x assume "json_get_config_params x" then show "json_value (dump_get_config_params ex x)"
    by (cases x) (simp_all add: wire_simps)
next
  fix x show "dump_get_config_params ex x \<noteq> PyNone" by (cases x) simp_all
qed

definition dump_SendMessageRequest :: "bool \<Rightarrow> SendMessageRequest \<Rightarrow> pyval" where
  "dump_SendMessageRequest ex x = write_model ex
     [(''id'', write_id (smr_id x)), (''jsonrpc'', PyStr ''2.0''), (''method'', PyStr ''message/send''),
      (''params'', dump_MessageSendParams ex (smr_params x))]"

definition read_SendMessageRequest :: "pydantic \<Rightarrow> pyval \<Rightarrow> exn + SendMessageRequest" where
  "read_SendMessageRequest px = read_model (\<lambda>d.
     res_bind (literal ''jsonrpc'' (PyStr ''2.0'') d) (\<lambda>_.
     res_bind (literal ''method'' (PyStr ''message/send'') d) (\<lambda>_.
     res_bind (required (''id'', ''id'') (read_id px) d) (\<lambda>v1.
     res_bind (required (''params'', ''params'') (read_MessageSendParams px) d) (\<lambda>v2.
       Inr \<lparr>smr_id = v1, smr_params = v2\<rparr>)))))"

definition json_SendMessageRequest :: "SendMessageRequest \<Rightarrow> bool" where
  "json_SendMessageRequest x \<longleftrightarrow> json_MessageSendParams (smr_params x)"

interpretation wire_SendMessageRequest: wire "dump_SendMessageRequest ex" "read_SendMessageRequest px" json_SendMessageRequest for px ex
  by unfold_locales (simp_all add: dump_SendMessageRequest_def read_SendMessageRequest_def json_SendMessageRequest_def wire_simps wire_sets)

definition dump_SendStreamingMessageRequest :: "bool \<Rightarrow> SendStreamingMessageRequest \<Rightarrow> pyval" where
  "dump_SendStreamingMessageRequest ex x = write_model ex
     [(''id'', write_id (ssr_id x)), (''jsonrpc'', PyStr ''2.0''), (''method'', PyStr ''message/stream''),
      (''params'', dump_MessageSendParams ex (ssr_params x))]"

definition read_SendStreamingMessageRequest :: "pydantic \<Rightarrow> pyval \<Rightarrow> exn + SendStreamingMessageRequest" where
  "read_SendStreamingMessageRequest px = read_model (\<lambda>d.
     res_bind (literal ''jsonrpc'' (PyStr ''2.0'') d) (\<lambda>_.
     res_bind (literal ''method'' (PyStr ''message/stream'') d) (\<lambda>_.
     res_bind (required (''id'', ''id'') (read_id px) d) (\<lambda>v1.
     res_bind (required (''params'', ''params'') (read_MessageSendParams px) d) (\<lambda>v2.
       Inr \<lparr>ssr_id = v1, ssr_params = v2\<rparr>)))))"

definition json_SendStreamingMessageRequest :: "SendStreamingMessageRequest \<Rightarrow> bool" where
  "json_SendStreamingMessageRequest x \<longleftrightarrow> json_MessageSendParams (ssr_params x)"

interpretation wire_SendStreamingMessageRequest: wire "dump_SendStreamingMessageRequest ex" "read_SendStreamingMessageRequest px" json_SendStreamingMessageRequest for px ex
  by unfold_locales (simp_all add: dump_SendStreamingMessageRequest_def read_SendStreamingMessageRequest_def json_SendStreamingMessageRequest_def wire_simps wire_sets)

definition dump_GetTaskRequest :: "bool \<Rightarrow> GetTaskRequest \<Rightarrow> pyval" where
  "dump_GetTaskRequest ex x = write_model ex
     [(''id'', write_id (gtr_id x)), (''jsonrpc'', PyStr ''2.0''), (''method'', PyStr ''tasks/get''),
      (''params'', dump_TaskQueryParams ex (gtr_params x))]"

definition read_GetTaskRequest :: "pydantic \<Rightarrow> pyval \<Rightarrow> exn + GetTaskRequest" where
  "read_GetTaskRequest px = read_model (\<lambda>d.
     res_bind (literal ''jsonrpc'' (PyStr ''2.0'') d) (\<lambda>_.
     res_bind (literal ''method'' (PyStr ''tasks/get'') d) (\<lambda>_.
     res_bind (required (''id'', ''id'') (read_id px) d) (\<lambda>v1.
     res_bind (required (''params'', ''params'') (read_TaskQueryParams px) d) (\<lambda>v2.
       Inr \<lparr>gtr_id = v1, gtr_params = v2\<rparr>)))))"

definition json_GetTaskRequest :: "GetTaskRequest \<Rightarrow> bool" where
  "json_GetTaskRequest x \<longleftrightarrow> json_TaskQueryParams (gtr_params x)"

interpretation wire_GetTaskRequest: wire "dump_GetTaskRequest ex" "read_GetTaskRequest px" json_GetTaskRequest for px ex
  by unfold_locales (simp_all add: dump_GetTaskRequest_def read_GetTaskRequest_def json_GetTaskRequest_def wire_simps wire_sets)

definition dump_CancelTaskRequest :: "bool \<Rightarrow> CancelTaskRequest \<Rightarrow> pyval" where
  "dump_CancelTaskRequest ex x = write_model ex
     [(''id'', write_id (ctr_id x)), (''jsonrpc'', PyStr ''2.0''), (''method'', PyStr ''tasks/cancel''),
      (''params'', dump_TaskIdParams ex (ctr_params x))]"

definition read_CancelTaskRequest :: "pydantic \<Rightarrow> pyval \<Rightarrow> exn + CancelTaskRequest" where
  "read_CancelTaskRequest px = read_model (\<lambda>d.
     res_bind (literal ''jsonrpc'' (PyStr ''2.0'') d) (\<lambda>_.
     res_bind (literal ''method'' (PyStr ''tasks/cancel'') d) (\<lambda>_.
     res_bind (required (''id'', ''id'') (read_id px) d) (\<lambda>v1.
     res_bind (required (''params'', ''params'') read_TaskIdParams d) (\<lambda>v2.
       Inr \<lparr>ctr_id = v1, ctr_params = v2\<rparr>)))))"

definition json_CancelTaskRequest :: "CancelTaskRequest \<Rightarrow> bool" where
  "json_CancelTaskRequest x \<longleftrightarrow> json_TaskIdParams (ctr_params x)"

interpretation wire_CancelTaskRequest: wire "dump_CancelTaskRequest ex" "read_CancelTaskRequest px" json_CancelTaskRequest for px ex
  by unfold_locales (simp_all add: dump_CancelTaskRequest_def read_CancelTaskRequest_def json_CancelTaskRequest_def wire_simps wire_sets)

definition dump_SetTaskPushNotificationConfigRequest :: "bool \<Rightarrow> SetTaskPushNotificationConfigRequest \<Rightarrow> pyval" where
  "dump_SetTaskPushNotificationConfigRequest ex x = write_model ex
     [(''id'', write_id (spr_id x)), (''jsonrpc'', PyStr ''2.0''),
      (''method'', PyStr ''tasks/pushNotificationConfig/set''),
      (''params'', dump_TaskPushNotificationConfig ex (spr_params x))]"

definition read_SetTaskPushNotificationConfigRequest :: "pydantic \<Rightarrow> pyval \<Rightarrow> exn + SetTaskPushNotificationConfigRequest" where
  "read_SetTaskPushNotificationConfigRequest px = read_model (\<lambda>d.
     res_bind (literal ''jsonrpc'' (PyStr ''2.0'') d) (\<lambda>_.
     res_bind (literal ''method'' (PyStr ''tasks/pushNotificationConfig/set'') d) (\<lambda>_.
     res_bind (required (''id'', ''id'') (read_id px) d) (\<lambda>v1.
     res_bind (required (''params'', ''params'') read_TaskPushNotificationConfig d) (\<lambda>v2.
       Inr \<lparr>spr_id = v1, spr_params = v2\<rparr>)))))"

interpretation wire_SetTaskPushNotificationConfigRequest: wire "dump_SetTaskPushNotificationConfigRequest ex" "read_SetTaskPushNotificationConfigRequest px" "\<lambda>x. True" for px ex
  by unfold_locales (simp_all add: dump_SetTaskPushNotificationConfigRequest_def read_SetTaskPushNotificationConfigRequest_def wire_simps wire_sets)

definition dump_GetTaskPushNotificationConfigRequest :: "bool \<Rightarrow> GetTaskPushNotificationConfigRequest \<Rightarrow> pyval" where
  "dump_GetTaskPushNotificationConfigRequest ex x = write_model ex
     [(''id'', write_id (gpr_id x)), (''jsonrpc'', PyStr ''2.0''),
      (''method'', PyStr ''tasks/pushNotificationConfig/get''), (''params'', dump_get_config_params ex (gpr_params x))]"

definition read_GetTaskPushNotificationConfigRequest :: "pydantic \<Rightarrow> pyval \<Rightarrow> exn + GetTaskPushNotificationConfigRequest" where
  "read_GetTaskPushNotificationConfigRequest px = read_model (\<lambda>d.
     res_bind (literal ''jsonrpc'' (PyStr ''2.0'') d) (\<lambda>_.
     res_bind (literal ''method'' (PyStr ''tasks/pushNotificationConfig/get'') d) (\<lambda>_.
     res_bind (required (''id'', ''id'') (read_id px) d) (\<lambda>v1.
     res_bind (required (''params'', ''params'') read_get_config_params d) (\<lambda>v2.
       Inr \<lparr>gpr_id = v1, gpr_params = v2\<rparr>)))))"

definition json_GetTaskPushNotificationConfigRequest :: "GetTaskPushNotificationConfigRequest \<Rightarrow> bool" where
  "json_GetTaskPushNotificationConfigRequest x \<longleftrightarrow> json_get_config_params (gpr_params x)"

interpretation wire_GetTaskPushNotificationConfigRequest: wire "dump_GetTaskPushNotificationConfigRequest ex" "read_GetTaskPushNotificationConfigRequest px" json_GetTaskPushNotificationConfigRequest for px ex
  by unfold_locales (simp_all add: dump_GetTaskPushNotificationConfigRequest_def read_GetTaskPushNotificationConfigRequest_def json_GetTaskPushNotificationConfigRequest_def wire_simps wire_sets)

definition dump_ListTaskPushNotificationConfigRequest :: "bool \<Rightarrow> ListTaskPushNotificationConfigRequest \<Rightarrow> pyval" where
  "dump_ListTaskPushNotificationConfigRequest ex x = write_model ex
     [(''id'', write_id (lpr_id x)), (''jsonrpc'', PyStr ''2.0''),
      (''method'', PyStr ''tasks/pushNotificationConfig/list''),
      (''params'', dump_ListTaskPushNotificationConfigParams ex (lpr_params x))]"

definition read_ListTaskPushNotificationConfigRequest :: "pydantic \<Rightarrow> pyval \<Rightarrow> exn + ListTaskPushNotificationConfigRequest" where
  "read_ListTaskPushNotificationConfigRequest px = read_model (\<lambda>d.
     res_bind (literal ''jsonrpc'' (PyStr ''2.0'') d) (\<lambda>_.
     res_bind (literal ''method'' (PyStr ''tasks/pushNotificationConfig/list'') d) (\<lambda>_.
     res_bind (required (''id'', ''id'') (read_id px) d) (\<lambda>v1.
     res_bind (required (''params'', ''params'') read_ListTaskPushNotificationConfigParams d) (\<lambda>v2.
       Inr \<lparr>lpr_id = v1, lpr_params = v2\<rparr>)))))"

definition json_ListTaskPushNotificationConfigRequest :: "ListTaskPushNotificationConfigRequest \<Rightarrow> bool" where
  "json_ListTaskPushNotificationConfigRequest x \<longleftrightarrow> json_ListTaskPushNotificationConfigParams (lpr_params x)"

interpretation wire_ListTaskPushNotificationConfigRequest: wire "dump_ListTaskPushNotificationConfigRequest ex" "read_ListTaskPushNotificationConfigRequest px" json_ListTaskPushNotificationConfigRequest for px ex
  by unfold_locales (simp_all add: dump_ListTaskPushNotificationConfigRequest_def read_ListTaskPushNotificationConfigRequest_def json_ListTaskPushNotificationConfigRequest_def wire_simps wire_sets)

definition dump_DeleteTaskPushNotificationConfigRequest :: "bool \<Rightarrow> DeleteTaskPushNotificationConfigRequest \<Rightarrow> pyval" where
  "dump_DeleteTaskPushNotificationConfigRequest ex x = write_model ex
     [(''id'', write_id (dpr_id x)), (''jsonrpc'', PyStr ''2.0''),
      (''method'', PyStr ''tasks/pushNotificationConfig/delete''),
      (''params'', dump_DeleteTaskPushNotificationConfigParams ex (dpr_params x))]"

definition read_DeleteTaskPushNotificationConfigRequest :: "pydantic \<Rightarrow> pyval \<Rightarrow> exn + DeleteTaskPushNotificationConfigRequest" where
  "read_DeleteTaskPushNotificationConfigRequest px = read_model (\<lambda>d.
     res_bind (literal ''jsonrpc'' (PyStr ''2.0'') d) (\<lambda>_.
     res_bind (literal ''method'' (PyStr ''tasks/pushNotificationConfig/delete'') d) (\<lambda>_.
     res_bind (required (''id'', ''id'') (read_id px) d) (\<lambda>v1.
     res_bind (required (''params'', ''params'') read_DeleteTaskPushNotificationConfigParams d) (\<lambda>v2.
       Inr \<lparr>dpr_id = v1, dpr_params = v2\<rparr>)))))"

definition json_DeleteTaskPushNotificationConfigRequest :: "DeleteTaskPushNotificationConfigRequest \<Rightarrow> bool" where
  "json_DeleteTaskPushNotificationConfigRequest x \<longleftrightarrow> json_DeleteTaskPushNotificationConfigParams (dpr_params x)"

interpretation wire_DeleteTaskPushNotificationConfigRequest: wire "dump_DeleteTaskPushNotificationConfigRequest ex" "read_DeleteTaskPushNotificationConfigRequest px" json_DeleteTaskPushNotificationConfigRequest for px ex
  by unfold_locales (simp_all add: dump_DeleteTaskPushNotificationConfigRequest_def read_DeleteTaskPushNotificationConfigRequest_def json_DeleteTaskPushNotificationConfigRequest_def wire_simps wire_sets)

definition dump_TaskResubscriptionRequest :: "bool \<Rightarrow> TaskResubscriptionRequest \<Rightarrow> pyval" where
  "dump_TaskResubscriptionRequest ex x = write_model ex
     [(''id'', write_id (trr_id x)), (''jsonrpc'', PyStr ''2.0''), (''method'', PyStr ''tasks/resubscribe''),
      (''params'', dump_TaskIdParams ex (trr_params x))]"

definition read_TaskResubscriptionRequest :: "pydantic \<Rightarrow> pyval \<Rightarrow> exn + TaskResubscriptionRequest" where
  "read_TaskResubscriptionRequest px = read_model (\<lambda>d.
     res_bind (literal ''jsonrpc'' (PyStr ''2.0'') d) (\<lambda>_.
     res_bind (literal ''method'' (PyStr ''tasks/resubscribe'') d) (\<lambda>_.
     res_bind (required (''id'', ''id'') (read_id px) d) (\<lambda>v1.
     res_bind (required (''params'', ''params'') read_TaskIdParams d) (\<lambda>v2.
       Inr \<lparr>trr_id = v1, trr_params = v2\<rparr>)))))"

definition json_TaskResubscriptionRequest :: "TaskResubscriptionRequest \<Rightarrow> bool" where
  "json_TaskResubscriptionRequest x \<longleftrightarrow> json_TaskIdParams (trr_params x)"

interpretation wire_TaskResubscriptionRequest: wire "dump_TaskResubscriptionRequest ex" "read_TaskResubscriptionRequest px" json_TaskResubscriptionRequest for px ex
  by unfold_locales (simp_all add: dump_TaskResubscriptionRequest_def read_TaskResubscriptionRequest_def json_TaskResubscriptionRequest_def wire_simps wire_sets)

definition dump_GetAuthenticatedExtendedCardRequest :: "bool \<Rightarrow> GetAuthenticatedExtendedCardRequest \<Rightarrow> pyval" where
  "dump_GetAuthenticatedExtendedCardRequest ex x = write_model ex
     [(''id'', write_id (gar_id x)), (''jsonrpc'', PyStr ''2.0''),
      (''method'', PyStr ''agent/getAuthenticatedExtendedCard'')]"

definition read_GetAuthenticatedExtendedCardRequest :: "pydantic \<Rightarrow> pyval \<Rightarrow> exn + GetAuthenticatedExtendedCardRequest" where
  "read_GetAuthenticatedExtendedCardRequest px = read_model (\<lambda>d.
     res_bind (literal ''jsonrpc'' (PyStr ''2.0'') d) (\<lambda>_.
     res_bind (literal ''method'' (PyStr ''agent/getAuthenticatedExtendedCard'') d) (\<lambda>_.
     res_bind (required (''id'', ''id'') (read_id px) d) (\<lambda>v1.
       Inr \<lparr>gar_id = v1\<rparr>))))"

interpretation wire_GetAuthenticatedExtendedCardRequest: wire "dump_GetAuthenticatedExtendedCardRequest ex" "read_GetAuthenticatedExtendedCardRequest px" "\<lambda>x. True" for px ex
  by unfold_locales (simp_all add: dump_GetAuthenticatedExtendedCardRequest_def read_GetAuthenticatedExtendedCardRequest_def wire_simps wire_sets)

fun dump_request :: "bool \<Rightarrow> A2ARequest \<Rightarrow> pyval" where
  "dump_request ex (Req_SendMessage r) = dump_SendMessageRequest ex r"
| "dump_request ex (Req_SendStreamingMessage r) = dump_SendStreamingMessageRequest ex r"
| "dump_request ex (Req_GetTask r) = dump_GetTaskRequest ex r"
| "dump_request ex (Req_CancelTask r) = dump_CancelTaskRequest ex r"
| "dump_request ex (Req_SetPushConfig r) = dump_SetTaskPushNotificationConfigRequest ex r"
| "dump_request ex (Req_GetPushConfig r) = dump_GetTaskPushNotificationConfigRequest ex r"
| "dump_request ex (Req_Resubscribe r) = dump_TaskResubscriptionRequest ex r"
| "dump_request ex (Req_ListPushConfig r) = dump_ListTaskPushNotificationConfigRequest ex r"
| "dump_request ex (Req_DeletePushConfig r) = dump_DeleteTaskPushNotificationConfigRequest ex r"
| "dump_request ex (Req_GetExtendedCard r) = dump_GetAuthenticatedExtendedCardRequest ex r"

fun json_request :: "A2ARequest \<Rightarrow> bool" where
  "json_request (Req_SendMessage r) = json_SendMessageRequest r"
| "json_request (Req_SendStreamingMessage r) = json_SendStreamingMessageRequest r"
| "json_request (Req_GetTask r) = json_GetTaskRequest r"
| "json_request (Req_CancelTask r) = json_CancelTaskRequest r"
| "json_request (Req_SetPushConfig r) = True"
| "json_request (Req_GetPushConfig r) = json_GetTaskPushNotificationConfigRequest r"
| "json_request (Req_Resubscribe r) = json_TaskResubscriptionRequest r"
| "json_request (Req_ListPushConfig r) = json_ListTaskPushNotificationConfigRequest r"
| "json_request (Req_DeletePushConfig r) = json_DeleteTaskPushNotificationConfigRequest r"
| "json_request (Req_GetExtendedCard r) = True"

text \<open>The base class that the application validates first; it only uses the method.\<close>

definition read_JSONRPCRequest :: "pydantic \<Rightarrow> pyval \<Rightarrow> exn + string" where
  "read_JSONRPCRequest px = read_model (\<lambda>d.
     res_bind (literal ''jsonrpc'' (PyStr ''2.0'') d) (\<lambda>_.
     res_bind (optional (''id'', ''id'') (read_id px) d) (\<lambda>i.
     res_bind (required (''method'', ''method'') read_str d) (\<lambda>m.
     res_bind (optional (''params'', ''params'') read_dict d) (\<lambda>p.
       Inr m)))))"

text \<open>The class that \<open>METHOD_TO_MODEL\<close> has for a method.\<close>

definition read_request :: "pydantic \<Rightarrow> string \<Rightarrow> pyval \<Rightarrow> exn + A2ARequest" where
  "read_request px m =
     (if m = ''message/send'' then as_variant Req_SendMessage (read_SendMessageRequest px)
      else if m = ''message/stream'' then as_variant Req_SendStreamingMessage (read_SendStreamingMessageRequest px)
      else if m = ''tasks/get'' then as_variant Req_GetTask (read_GetTaskRequest px)
      else if m = ''tasks/cancel'' then as_variant Req_CancelTask (read_CancelTaskRequest px)
      else if m = ''tasks/pushNotificationConfig/set'' then as_variant Req_SetPushConfig (read_SetTaskPushNotificationConfigRequest px)
      else if m = ''tasks/pushNotificationConfig/get'' then as_variant Req_GetPushConfig (read_GetTaskPushNotificationConfigRequest px)
      else if m = ''tasks/resubscribe'' then as_variant Req_Resubscribe (read_TaskResubscriptionRequest px)
      else if m = ''tasks/pushNotificationConfig/list'' then as_variant Req_ListPushConfig (read_ListTaskPushNotificationConfigRequest px)
      else if m = ''tasks/pushNotificationConfig/delete'' then as_variant Req_DeletePushConfig (read_DeleteTaskPushNotificationConfigRequest px)
      else if m = ''agent/getAuthenticatedExtendedCard'' then as_variant Req_GetExtendedCard (read_GetAuthenticatedExtendedCardRequest px)
      else (\<lambda>v. Inl ValidationError))"

lemma request_read:
  assumes "json_request r"
  shows "read_request px (request_method r) (dump_request ex r) = Inr r"
  using assms by (cases r) (simp_all add: read_request_def wire_simps)

text \<open>Every parameter class is a dictionary.\<close>

lemma read_dict_params [wire_simps]:
  "\<exists>d. read_dict (dump_MessageSendParams ex p1) = Inr d"
  "\<exists>d. read_dict (dump_TaskQueryParams ex p2) = Inr d"
  "\<exists>d. read_dict (dump_TaskIdParams ex p3) = Inr d"
  "\<exists>d. read_dict (dump_TaskPushNotificationConfig ex p4) = Inr d"
  "\<exists>d. read_dict (dump_ListTaskPushNotificationConfigParams ex p5) = Inr d"
  "\<exists>d. read_dict (dump_DeleteTaskPushNotificationConfigParams ex p6) = Inr d"
  "\<exists>d. read_dict (dump_GetTaskPushNotificationConfigParams ex p8) = Inr d"
  "\<exists>d. read_dict (dump_get_config_params ex p7) = Inr d"
  by (simp_all add: dump_MessageSendParams_def dump_TaskQueryParams_def dump_TaskIdParams_def
      dump_TaskPushNotificationConfig_def dump_ListTaskPushNotificationConfigParams_def
      dump_DeleteTaskPushNotificationConfigParams_def dump_GetTaskPushNotificationConfigParams_def)
    (cases p7; simp add: dump_TaskIdParams_def dump_GetTaskPushNotificationConfigParams_def)

lemma res_bind_ok: "\<exists>d. m = Inr d \<Longrightarrow> res_bind (res_bind m (\<lambda>x. Inr (Some x))) (\<lambda>p. Inr c) = Inr c"
  by auto

lemma base_request_read: "read_JSONRPCRequest px (dump_request ex r) = Inr (request_method r)"
  by (cases r) (simp_all add: read_JSONRPCRequest_def wire_simps res_bind_ok dump_SendMessageRequest_def dump_SendStreamingMessageRequest_def dump_GetTaskRequest_def
      dump_CancelTaskRequest_def dump_SetTaskPushNotificationConfigRequest_def
      dump_GetTaskPushNotificationConfigRequest_def dump_TaskResubscriptionRequest_def
      dump_ListTaskPushNotificationConfigRequest_def dump_DeleteTaskPushNotificationConfigRequest_def
      dump_GetAuthenticatedExtendedCardRequest_def)

subsection \<open>What is read of an error\<close>

lemma error_class_kind: "error_class k = Some obj \<Longrightarrow> err_kind obj = k"
  by (cases k) auto

lemma class_error_read:
  assumes "error_ok e" and "err_message e = None"
  shows "read_error px (dump_error ex e) = Inr (error_at_client ex e)"
proof -
  have k: "\<not> accepts (read_JSONRPCError px) (dump_error ex e)"
    using assms by (cases ex) (simp_all add: accepts_def read_JSONRPCError_def dump_error_def required_def field_written
        write_option_def error_ok_def wire_simps wire_sets)
  have c: "read_error_class obj (dump_error ex e) =
      (if err_code e = err_code obj then Inr (obj\<lparr>err_data := err_data e, err_message := if ex then err_message obj else None\<rparr>)
       else Inl ValidationError)" for obj
    using assms by (simp add: read_error_class_def dump_error_def error_ok_def wire_simps wire_sets)
  obtain obj where o: "error_class (err_kind e) = Some obj" "err_code e = err_code obj"
    using assms by (auto simp: error_ok_def split: option.splits)
  have "find (\<lambda>rd. accepts rd (dump_error ex e)) (map read_error_class objs) =
      map_option read_error_class (find (\<lambda>obj. err_code e = err_code obj) objs)" for objs
    by (induction objs) (simp_all add: accepts_def c)
  moreover have "find (\<lambda>obj. err_code e = err_code obj) error_classes = Some obj"
    using o by (cases "err_kind e") (auto simp: error_classes_def)
  moreover have "obj\<lparr>err_data := err_data e, err_message := if ex then err_message obj else None\<rparr> = error_at_client ex e"
    using o assms(2) error_class_kind [OF o(1)] by (cases e; cases obj) (simp add: error_at_client_def)
  ultimately show ?thesis using o(2) by (simp add: read_error_def k c)
qed

lemma error_read:
  assumes "error_ok e"
  shows "read_error px (dump_error ex e) = Inr (error_at_client ex e)"
proof (cases "err_message e")
  case (Some m)
  with assms have "read_JSONRPCError px (dump_error ex e) = Inr (e\<lparr>err_kind := K_JSONRPCError\<rparr>)"
    by (intro generic_error_read) (simp_all add: error_ok_def)
  with Some show ?thesis by (simp add: read_error_def accepts_def error_at_client_def)
qed (rule class_error_read [OF assms])

subsection \<open>Responses\<close>

fun dump_result :: "bool \<Rightarrow> handler_result \<Rightarrow> pyval" where
  "dump_result ex (HR_Task t) = dump_Task ex t"
| "dump_result ex (HR_Message m) = dump_Message ex m"
| "dump_result ex (HR_ArtifactUpdate e) = dump_TaskArtifactUpdateEvent ex e"
| "dump_result ex (HR_StatusUpdate e) = dump_TaskStatusUpdateEvent ex e"
| "dump_result ex (HR_PushConfig c) = dump_TaskPushNotificationConfig ex c"
| "dump_result ex (HR_PushConfigList cs) = write_list (dump_TaskPushNotificationConfig ex) cs"
| "dump_result ex (HR_Card c) = dump_AgentCard ex c"
| "dump_result ex (HR_Error e) = dump_error ex e"
| "dump_result ex HR_None = PyNone"

fun dump_response :: "bool \<Rightarrow> handler_result rpc_response \<Rightarrow> pyval" where
  "dump_response ex (Rsp_Error r) = write_model ex
     [(''error'', dump_error ex (ers_error r)), (''id'', write_option write_id (ers_id r)), (''jsonrpc'', PyStr ''2.0'')]"
| "dump_response ex (Rsp_Success r) = write_model ex
     [(''id'', write_option write_id (srs_id r)), (''jsonrpc'', PyStr ''2.0''), (''result'', dump_result ex (srs_result r))]"

definition read_JSONRPCErrorResponse :: "pydantic \<Rightarrow> pyval \<Rightarrow> exn + JSONRPCErrorResponse" where
  "read_JSONRPCErrorResponse px = read_model (\<lambda>d.
     res_bind (literal ''jsonrpc'' (PyStr ''2.0'') d) (\<lambda>_.
     res_bind (required (''error'', ''error'') (read_error px) d) (\<lambda>e.
     res_bind (optional (''id'', ''id'') (read_id px) d) (\<lambda>i.
       Inr \<lparr>ers_error = e, ers_id = i\<rparr>))))"

definition read_success :: "pydantic \<Rightarrow> (pyval \<Rightarrow> exn + 'r) \<Rightarrow> pyval \<Rightarrow> exn + 'r success_response" where
  "read_success px rd = read_model (\<lambda>d.
     res_bind (literal ''jsonrpc'' (PyStr ''2.0'') d) (\<lambda>_.
     res_bind (optional (''id'', ''id'') (read_id px) d) (\<lambda>i.
     res_bind (required (''result'', ''result'') rd d) (\<lambda>r.
       Inr \<lparr>srs_id = i, srs_result = r\<rparr>))))"

definition read_response :: "pydantic \<Rightarrow> (pyval \<Rightarrow> exn + 'r) \<Rightarrow> pyval \<Rightarrow> exn + 'r rpc_response" where
  "read_response px rd =
     read_union px [as_variant Rsp_Error (read_JSONRPCErrorResponse px), as_variant Rsp_Success (read_success px rd)]"

text \<open>The result of each response class.\<close>

definition read_SendMessageSuccess :: "pydantic \<Rightarrow> pyval \<Rightarrow> exn + handler_result" where
  "read_SendMessageSuccess px = read_union px [as_variant HR_Task (read_Task px), as_variant HR_Message (read_Message px)]"

definition read_SendStreamingMessageSuccess :: "pydantic \<Rightarrow> pyval \<Rightarrow> exn + handler_result" where
  "read_SendStreamingMessageSuccess px = read_union px
     [as_variant HR_Task (read_Task px), as_variant HR_Message (read_Message px),
      as_variant HR_StatusUpdate (read_TaskStatusUpdateEvent px),
      as_variant HR_ArtifactUpdate (read_TaskArtifactUpdateEvent px)]"

definition read_GetTaskSuccess :: "pydantic \<Rightarrow> pyval \<Rightarrow> exn + handler_result" where
  "read_GetTaskSuccess px = as_variant HR_Task (read_Task px)"

definition read_CancelTaskSuccess :: "pydantic \<Rightarrow> pyval \<Rightarrow> exn + handler_result" where
  "read_CancelTaskSuccess px = as_variant HR_Task (read_Task px)"

definition read_SetPushConfigSuccess :: "pyval \<Rightarrow> exn + handler_result" where
  "read_SetPushConfigSuccess = as_variant HR_PushConfig read_TaskPushNotificationConfig"

definition read_GetPushConfigSuccess :: "pyval \<Rightarrow> exn + handler_result" where
  "read_GetPushConfigSuccess = as_variant HR_PushConfig read_TaskPushNotificationConfig"

definition read_ListPushConfigSuccess :: "pyval \<Rightarrow> exn + handler_result" where
  "read_ListPushConfigSuccess = as_variant HR_PushConfigList (read_list read_TaskPushNotificationConfig)"

definition read_DeletePushConfigSuccess :: "pyval \<Rightarrow> exn + handler_result" where
  "read_DeletePushConfigSuccess v = (if v = PyNone then Inr HR_None else Inl ValidationError)"

definition read_ExtendedCardSuccess :: "pydantic \<Rightarrow> pyval \<Rightarrow> exn + handler_result" where
  "read_ExtendedCardSuccess px = as_variant HR_Card (read_AgentCard px)"

text \<open>The response classes.\<close>

definition read_SendMessageResponse :: "pydantic \<Rightarrow> pyval \<Rightarrow> exn + handler_result rpc_response" where
  "read_SendMessageResponse px = read_response px (read_SendMessageSuccess px)"

definition read_SendStreamingMessageResponse :: "pydantic \<Rightarrow> pyval \<Rightarrow> exn + handler_result rpc_response" where
  "read_SendStreamingMessageResponse px = read_response px (read_SendStreamingMessageSuccess px)"

definition read_GetTaskResponse :: "pydantic \<Rightarrow> pyval \<Rightarrow> exn + handler_result rpc_response" where
  "read_GetTaskResponse px = read_response px (read_GetTaskSuccess px)"

definition read_CancelTaskResponse :: "pydantic \<Rightarrow> pyval \<Rightarrow> exn + handler_result rpc_response" where
  "read_CancelTaskResponse px = read_response px (read_CancelTaskSuccess px)"

definition read_SetPushConfigResponse :: "pydantic \<Rightarrow> pyval \<Rightarrow> exn + handler_result rpc_response" where
  "read_SetPushConfigResponse px = read_response px read_SetPushConfigSuccess"

definition read_GetPushConfigResponse :: "pydantic \<Rightarrow> pyval \<Rightarrow> exn + handler_result rpc_response" where
  "read_GetPushConfigResponse px = read_response px read_GetPushConfigSuccess"

definition read_ListPushConfigResponse :: "pydantic \<Rightarrow> pyval \<Rightarrow> exn + handler_result rpc_response" where
  "read_ListPushConfigResponse px = read_response px read_ListPushConfigSuccess"

definition read_DeletePushConfigResponse :: "pydantic \<Rightarrow> pyval \<Rightarrow> exn + handler_result rpc_response" where
  "read_DeletePushConfigResponse px = read_response px read_DeletePushConfigSuccess"

definition read_ExtendedCardResponse :: "pydantic \<Rightarrow> pyval \<Rightarrow> exn + handler_result rpc_response" where
  "read_ExtendedCardResponse px = read_response px (read_ExtendedCardSuccess px)"

lemma result_variants [wire_simps]:
  "read_Message px (dump_Task ex t) = Inl ValidationError"
  "read_TaskStatusUpdateEvent px (dump_Task ex t) = Inl ValidationError"
  "read_TaskArtifactUpdateEvent px (dump_Task ex t) = Inl ValidationError"
  "read_Task px (dump_Message ex m) = Inl ValidationError"
  "read_TaskStatusUpdateEvent px (dump_Message ex m) = Inl ValidationError"
  "read_TaskArtifactUpdateEvent px (dump_Message ex m) = Inl ValidationError"
  "read_Task px (dump_TaskStatusUpdateEvent ex s) = Inl ValidationError"
  "read_Message px (dump_TaskStatusUpdateEvent ex s) = Inl ValidationError"
  "read_TaskArtifactUpdateEvent px (dump_TaskStatusUpdateEvent ex s) = Inl ValidationError"
  "read_Task px (dump_TaskArtifactUpdateEvent ex a) = Inl ValidationError"
  "read_Message px (dump_TaskArtifactUpdateEvent ex a) = Inl ValidationError"
  "read_TaskStatusUpdateEvent px (dump_TaskArtifactUpdateEvent ex a) = Inl ValidationError"
  by (simp_all add: read_Task_def dump_Task_def read_Message_def dump_Message_def read_TaskStatusUpdateEvent_def
      dump_TaskStatusUpdateEvent_def read_TaskArtifactUpdateEvent_def dump_TaskArtifactUpdateEvent_def wire_simps)

fun json_event :: "Event \<Rightarrow> bool" where
  "json_event (EvTask t) = json_Task t"
| "json_event (EvMessage m) = json_Message m"
| "json_event (EvStatus e) = json_TaskStatusUpdateEvent e"
| "json_event (EvArtifact e) = json_TaskArtifactUpdateEvent e"

lemma stream_result_read:
  "json_event ev \<Longrightarrow> read_SendStreamingMessageSuccess px (dump_result ex (event_result ev)) = Inr (event_result ev)"
  by (cases ev) (simp_all add: read_SendStreamingMessageSuccess_def wire_simps)

lemma send_result_read:
  assumes "json_event ev" and "event_result ev = HR_Task t \<or> event_result ev = HR_Message m"
  shows "read_SendMessageSuccess px (dump_result ex (event_result ev)) = Inr (event_result ev)"
  using assms by (cases ev) (simp_all add: read_SendMessageSuccess_def wire_simps)

text \<open>A success response is read as one, whatever its class, when its result is; an error response always is.\<close>

lemma success_read:
  assumes "dump_result ex r \<noteq> PyNone" and "rd (dump_result ex r) = Inr r'"
  shows "read_response px rd (dump_response ex (Rsp_Success \<lparr>srs_id = i, srs_result = r\<rparr>)) =
    Inr (Rsp_Success \<lparr>srs_id = i, srs_result = r'\<rparr>)"
  using assms by (simp add: read_response_def read_JSONRPCErrorResponse_def read_success_def wire_simps)

lemma dump_error_present [simp]: "dump_error ex e \<noteq> PyNone"
  by (simp add: dump_error_def)

lemma error_response_read:
  assumes "error_ok e"
  shows "read_response px rd (dump_response ex (Rsp_Error \<lparr>ers_error = e, ers_id = i\<rparr>)) =
    Inr (Rsp_Error \<lparr>ers_error = error_at_client ex e, ers_id = i\<rparr>)"
  using assms by (simp add: read_response_def read_JSONRPCErrorResponse_def read_success_def error_read wire_simps)

text \<open>The other answers are read back: a task, a configuration, a list of them, a card with its defaults.\<close>

lemma unary_responses_read:
  "json_Task t \<Longrightarrow> read_GetTaskResponse px (dump_response ex (Rsp_Success \<lparr>srs_id = i, srs_result = HR_Task t\<rparr>)) =
     Inr (Rsp_Success \<lparr>srs_id = i, srs_result = HR_Task t\<rparr>)"
  "json_Task t \<Longrightarrow> read_CancelTaskResponse px (dump_response ex (Rsp_Success \<lparr>srs_id = i, srs_result = HR_Task t\<rparr>)) =
     Inr (Rsp_Success \<lparr>srs_id = i, srs_result = HR_Task t\<rparr>)"
  "read_SetPushConfigResponse px (dump_response ex (Rsp_Success \<lparr>srs_id = i, srs_result = HR_PushConfig c\<rparr>)) =
     Inr (Rsp_Success \<lparr>srs_id = i, srs_result = HR_PushConfig c\<rparr>)"
  "read_GetPushConfigResponse px (dump_response ex (Rsp_Success \<lparr>srs_id = i, srs_result = HR_PushConfig c\<rparr>)) =
     Inr (Rsp_Success \<lparr>srs_id = i, srs_result = HR_PushConfig c\<rparr>)"
  "read_ListPushConfigResponse px (dump_response ex (Rsp_Success \<lparr>srs_id = i, srs_result = HR_PushConfigList cs\<rparr>)) =
     Inr (Rsp_Success \<lparr>srs_id = i, srs_result = HR_PushConfigList cs\<rparr>)"
  "json_AgentCard a \<Longrightarrow>
   read_ExtendedCardResponse px (dump_response ex (Rsp_Success \<lparr>srs_id = i, srs_result = HR_Card a\<rparr>)) =
     Inr (Rsp_Success \<lparr>srs_id = i, srs_result = HR_Card (card_defaults ex a)\<rparr>)"
  unfolding read_GetTaskResponse_def read_CancelTaskResponse_def read_SetPushConfigResponse_def read_GetPushConfigResponse_def
    read_ListPushConfigResponse_def read_ExtendedCardResponse_def read_GetTaskSuccess_def read_CancelTaskSuccess_def
    read_SetPushConfigSuccess_def read_GetPushConfigSuccess_def read_ListPushConfigSuccess_def read_ExtendedCardSuccess_def
  by (rule success_read; simp add: as_variant_def card_reads_back card_present wire_simps)+

text \<open>
  The answer to \<open>tasks/pushNotificationConfig/delete\<close>: its result is \<open>None\<close>, which is left out, and what is sent is neither a
  result nor an error.
\<close>

lemma delete_response_unreadable:
  "read_DeletePushConfigResponse px (dump_response True (Rsp_Success \<lparr>srs_id = i, srs_result = HR_None\<rparr>)) =
     Inl ValidationError"
  "read_DeletePushConfigResponse px (dump_response False (Rsp_Success \<lparr>srs_id = i, srs_result = HR_None\<rparr>)) =
     Inr (Rsp_Success \<lparr>srs_id = i, srs_result = HR_None\<rparr>)"
  by (simp_all add: read_DeletePushConfigResponse_def read_response_def read_JSONRPCErrorResponse_def read_success_def
      read_DeletePushConfigSuccess_def
      wire_simps)

lemma request_writes_json: "json_request r \<Longrightarrow> json_value (dump_request ex r)"
  by (cases r) (simp_all add: wire_simps)

lemma event_writes_json: "json_event ev \<Longrightarrow> json_value (dump_result ex (event_result ev))"
  by (cases ev) (simp_all add: wire_simps)

text \<open>
  A request to read a push notification configuration has parameters of either class. Without a configuration id, and
  without \<open>None\<close> fields, the two have the same form, which is read as the first class.
\<close>

fun config_params_at_server :: "bool \<Rightarrow> get_config_params \<Rightarrow> get_config_params" where
  "config_params_at_server ex (GCP_TaskId p) = GCP_TaskId p"
| "config_params_at_server ex (GCP_Config p) =
     (if ex \<and> gtp_push_notification_config_id p = None
      then GCP_TaskId \<lparr>tip_id = gtp_id p, tip_metadata = gtp_metadata p\<rparr> else GCP_Config p)"

definition request_at_server :: "bool \<Rightarrow> A2ARequest \<Rightarrow> A2ARequest" where
  "request_at_server ex req =
     (case req of
        Req_GetPushConfig r \<Rightarrow> Req_GetPushConfig (r\<lparr>gpr_params := config_params_at_server ex (gpr_params r)\<rparr>)
      | r \<Rightarrow> r)"

fun json_params :: "get_config_params \<Rightarrow> bool" where
  "json_params (GCP_TaskId p) = json_TaskIdParams p"
| "json_params (GCP_Config p) = json_GetTaskPushNotificationConfigParams p"

definition json_untyped :: "A2ARequest \<Rightarrow> bool" where
  "json_untyped req \<longleftrightarrow> (case req of Req_GetPushConfig r \<Rightarrow> json_params (gpr_params r) | r \<Rightarrow> json_request r)"

lemma config_params_read:
  assumes "json_params p"
  shows "read_get_config_params (dump_get_config_params ex p) = Inr (config_params_at_server ex p)"
    and "json_value (dump_get_config_params ex p)"
proof -
  have same: "dump_GetTaskPushNotificationConfigParams True q =
      dump_TaskIdParams True \<lparr>tip_id = gtp_id q, tip_metadata = gtp_metadata q\<rparr>"
    if "gtp_push_notification_config_id q = None" for q
    using that by (simp add: dump_GetTaskPushNotificationConfigParams_def dump_TaskIdParams_def write_model_def kept_def write_option_def)
  show "read_get_config_params (dump_get_config_params ex p) = Inr (config_params_at_server ex p)"
  proof (cases p)
    case (GCP_Config q)
    then have m: "json_TaskIdParams \<lparr>tip_id = gtp_id q, tip_metadata = gtp_metadata q\<rparr>"
      using assms by (simp add: json_TaskIdParams_def json_GetTaskPushNotificationConfigParams_def)
    show ?thesis
    proof (cases "ex \<and> gtp_push_notification_config_id q = None")
      case True
      with GCP_Config m same [of q] show ?thesis by (simp add: read_get_config_params_def wire_simps)
    next
      case False
      with GCP_Config assms show ?thesis by (auto simp: read_get_config_params_def wire_simps)
    qed
  qed (use assms in \<open>simp add: read_get_config_params_def wire_simps\<close>)
  show "json_value (dump_get_config_params ex p)"
    using assms by (cases p) (simp_all add: wire_simps)
qed

lemma untyped_request_read:
  assumes "json_untyped req"
  shows "read_request px (request_method req) (dump_request ex req) = Inr (request_at_server ex req)"
    and "json_value (dump_request ex req)"
proof -
  have "read_request px (request_method req) (dump_request ex req) = Inr (request_at_server ex req) \<and> json_value (dump_request ex req)"
  proof (cases "\<exists>r. req = Req_GetPushConfig r")
    case True
    then obtain r where r: "req = Req_GetPushConfig r" by blast
    with assms have p: "json_params (gpr_params r)" by (simp add: json_untyped_def)
    have ne: "dump_get_config_params ex (gpr_params r) \<noteq> PyNone" by (rule wire_get_config_params.present)
    show ?thesis
      using config_params_read [OF p, of ex] ne
      by (cases r) (simp add: r request_at_server_def read_request_def read_GetTaskPushNotificationConfigRequest_def
          dump_GetTaskPushNotificationConfigRequest_def as_variant_def wire_simps)
  next
    case False
    then have "json_request req" and "request_at_server ex req = req"
      using assms by (auto simp: json_untyped_def request_at_server_def split: A2ARequest.splits)
    then show ?thesis by (simp add: request_read request_writes_json)
  qed
  then show "read_request px (request_method req) (dump_request ex req) = Inr (request_at_server ex req)"
    and "json_value (dump_request ex req)" by blast+
qed

text \<open>
  Claim C6. The JSON form of the data model: every event, every request and every agent card whose untyped values JSON has
  is written as a JSON value, with or without its \<open>None\<close> fields, and read back by the class that the receiver uses: an event
  unchanged by the union of the streaming response; a request by the base class for its method and then, unchanged, by the class
  of that method; a card with its defaults filled in. One request changes: parameters of
  \<open>tasks/pushNotificationConfig/get\<close> that name no configuration id and are written without \<open>None\<close> fields come back as
  \<open>TaskIdParams\<close> with the same id and metadata (\<open>request_at_server\<close>).
\<close>

theorem wire_roundtrip:
  assumes "json_event ev" and "json_untyped req" and "json_AgentCard c"
  shows "json_value (dump_result ex (event_result ev)) \<and>
         read_SendStreamingMessageSuccess px (dump_result ex (event_result ev)) = Inr (event_result ev) \<and>
         json_value (dump_request ex req) \<and>
         read_JSONRPCRequest px (dump_request ex req) = Inr (request_method req) \<and>
         read_request px (request_method req) (dump_request ex req) = Inr (request_at_server ex req) \<and>
         ((\<nexists>r. req = Req_GetPushConfig r) \<longrightarrow> request_at_server ex req = req) \<and>
         json_value (dump_AgentCard ex c) \<and>
         read_AgentCard px (dump_AgentCard ex c) = Inr (card_defaults ex c)"
  using assms untyped_request_read(1) [OF assms(2), of px ex] untyped_request_read(2) [OF assms(2), of ex]
  by (auto simp: event_writes_json stream_result_read base_request_read card_writes_json card_reads_back request_at_server_def
      split: A2ARequest.split)

text \<open>A Pydantic that converts nothing and picks the first member.\<close>

definition strict_pydantic :: pydantic where
  "strict_pydantic = \<lparr>px_bool = (\<lambda>v. Inl ValidationError), px_int = (\<lambda>v. Inl ValidationError), px_pick = (\<lambda>v bs. 0),
     px_details = (\<lambda>v. PyList []), px_text = ''1 validation error''\<rparr>"

definition wire_message :: Message where
  "wire_message = \<lparr>msg_context_id = None, msg_extensions = None, msg_message_id = ''m1'',
     msg_metadata = Some [(''n'', PyInt 1)], msg_parts = [Part_Data \<lparr>dp_data = [(''x'', PyNone)], dp_metadata = None\<rparr>],
     msg_reference_task_ids = None, msg_role = user, msg_task_id = None\<rparr>"

theorem wire_roundtrip_witness:
  "read_SendStreamingMessageSuccess strict_pydantic (dump_result True (HR_Message wire_message)) = Inr (HR_Message wire_message) \<and>
   read_request strict_pydantic ''tasks/pushNotificationConfig/get''
       (dump_request True (Req_GetPushConfig \<lparr>gpr_id = IdInt 1, gpr_params = GCP_Config
          \<lparr>gtp_id = ''t'', gtp_metadata = None, gtp_push_notification_config_id = None\<rparr>\<rparr>)) =
     Inr (Req_GetPushConfig \<lparr>gpr_id = IdInt 1, gpr_params = GCP_TaskId \<lparr>tip_id = ''t'', tip_metadata = None\<rparr>\<rparr>) \<and>
   read_AgentCard strict_pydantic (dump_AgentCard True (sample_card None)) =
     Inr ((sample_card None)\<lparr>card_preferred_transport := Some ''JSONRPC'', card_protocol_version := Some ''0.3.0''\<rparr>)"
proof -
  let ?req = "Req_GetPushConfig \<lparr>gpr_id = IdInt 1, gpr_params = GCP_Config
      \<lparr>gtp_id = ''t'', gtp_metadata = None, gtp_push_notification_config_id = None\<rparr>\<rparr>"
  have j: "json_event (EvMessage wire_message)" "json_untyped ?req" "json_AgentCard (sample_card None)"
    by (simp_all add: wire_message_def json_Message_def json_DataPart_def json_dict_def json_AgentCard_def json_AgentCapabilities_def
        sample_card_def json_untyped_def json_GetTaskPushNotificationConfigParams_def)
  have d: "card_defaults True (sample_card None) =
      (sample_card None)\<lparr>card_preferred_transport := Some ''JSONRPC'', card_protocol_version := Some ''0.3.0''\<rparr>"
    by (simp add: sample_card_def card_defaults_def)
  have r: "request_at_server True ?req =
      Req_GetPushConfig \<lparr>gpr_id = IdInt 1, gpr_params = GCP_TaskId \<lparr>tip_id = ''t'', tip_metadata = None\<rparr>\<rparr>"
    "request_method ?req = ''tasks/pushNotificationConfig/get''"
    by (simp_all add: request_at_server_def)
  from wire_roundtrip [OF j, of True strict_pydantic] show ?thesis by (metis d r event_result.simps(1))
qed

text \<open>
  Claim C34. What becomes of an error object between server and client: code, data and message arrive; its class does not when it has a
  message, as every error object that the classes build by default has: the client reads the generic \<open>JSONRPCError\<close>, which
  comes first in the union.
\<close>

theorem error_class_not_recovered:
  assumes "error_ok e"
  shows "\<exists>e'. read_response px rd (dump_response True (Rsp_Error \<lparr>ers_error = e, ers_id = i\<rparr>)) =
                Inr (Rsp_Error \<lparr>ers_error = e', ers_id = i\<rparr>) \<and>
              err_code e' = err_code e \<and> err_data e' = err_data e \<and>
              (case err_message e of
                 Some m \<Rightarrow> err_message e' = Some m \<and> err_kind e' = K_JSONRPCError
               | None \<Rightarrow> err_kind e' = err_kind e)"
  using error_response_read [OF assms, of px rd True i]
  by (intro exI [of _ "error_at_client True e"]) (simp add: error_at_client_def split: option.split)

theorem error_class_not_recovered_witness:
  "\<exists>e'. read_response strict_pydantic (read_GetTaskSuccess strict_pydantic)
          (dump_response True (Rsp_Error \<lparr>ers_error = TaskNotFoundError, ers_id = Some (IdInt 1)\<rparr>)) =
        Inr (Rsp_Error \<lparr>ers_error = e', ers_id = Some (IdInt 1)\<rparr>) \<and> err_code e' = -32001 \<and> err_kind e' = K_JSONRPCError"
  using error_class_not_recovered [of TaskNotFoundError strict_pydantic "read_GetTaskSuccess strict_pydantic" "Some (IdInt 1)"]
  by (simp add: error_ok_def TaskNotFoundError_def) blast

end
