(* ===== verification/DbModels.thy ===== *)
theory DbModels
  imports TaskStore
begin

section \<open>The database tables (server/models.py, tasks/database_task_store.py)\<close>

text \<open>
  What really stands in the table of the database task store: JSON columns that SQLAlchemy fills through
  \<open>PydanticType\<close> and \<open>PydanticListType\<close>, in a table that is created on first use. Pydantic and SQLAlchemy's JSON column are
  arguments. \<open>TaskStore\<close> models the store over typed rows; here the JSON table is shown to implement it.
\<close>

subsection \<open>Column types\<close>

text \<open>A value given to a column is a Pydantic model, or anything else, which goes through as it is.\<close>

datatype 'm column_value = CV_Model 'm | CV_Other pyval

definition bind_model :: "('m \<Rightarrow> pyval) \<Rightarrow> 'm column_value option \<Rightarrow> pyval option" where
  "bind_model dump v =
     (case v of None \<Rightarrow> None | Some (CV_Model m) \<Rightarrow> Some (dump m) | Some (CV_Other x) \<Rightarrow> Some x)"

definition result_model :: "(pyval \<Rightarrow> exn + 'm) \<Rightarrow> pyval option \<Rightarrow> exn + 'm option" where
  "result_model validate v = res_option validate v"

definition bind_models :: "('m \<Rightarrow> pyval) \<Rightarrow> 'm column_value list option \<Rightarrow> pyval option" where
  "bind_models dump v =
     (case v of
        None \<Rightarrow> None
      | Some items \<Rightarrow> Some (PyList (map (\<lambda>item. case item of CV_Model m \<Rightarrow> dump m | CV_Other x \<Rightarrow> x) items)))"

text \<open>A stored value that is not a list cannot be gone over as one (text and dictionaries are read elementwise: characters, keys).\<close>

definition result_models :: "(pyval \<Rightarrow> exn + 'm) \<Rightarrow> pyval option \<Rightarrow> exn + 'm list option" where
  "result_models validate v =
     (case v of
        None \<Rightarrow> Inr None
      | Some x \<Rightarrow>
          res_bind (case x of
              PyList items \<Rightarrow> Inr items
            | PyDict d \<Rightarrow> Inr (map (\<lambda>e. PyStr (fst e)) d)
            | PyStr s \<Rightarrow> Inr (map (\<lambda>c. PyStr [c]) s)
            | _ \<Rightarrow> Inl (TypeErr ''object is not iterable''))
            (\<lambda>items. res_bind (res_map validate items) (\<lambda>ms. Inr (Some ms))))"

subsection \<open>The table of tasks\<close>

text \<open>
  What the columns of \<open>TaskMixin\<close> hold. \<open>dc_json\<close> is what a JSON column gives back for a value, or the error for one that is
  no JSON; \<open>dc_lengths\<close> says that the database enforces the lengths of \<open>String(36)\<close> (PostgreSQL and MySQL do, SQLite does
  not).
\<close>

record db_codec =
  dc_dump_status :: "TaskStatus \<Rightarrow> pyval"
  dc_read_status :: "pyval \<Rightarrow> exn + TaskStatus"
  dc_dump_artifact :: "Artifact \<Rightarrow> pyval"
  dc_read_artifact :: "pyval \<Rightarrow> exn + Artifact"
  dc_dump_message :: "Message \<Rightarrow> pyval"
  dc_read_message :: "pyval \<Rightarrow> exn + Message"
  dc_json :: "pyval \<Rightarrow> exn + pyval"
  dc_lengths :: bool

record task_row =
  tr_id :: string
  tr_context_id :: string
  tr_status :: "pyval option"
  tr_artifacts :: "pyval option"
  tr_history :: "pyval option"
  tr_task_metadata :: "pyval option"

definition id_column_length :: nat where
  "id_column_length = 36"

text \<open>A row as the insert statement of \<open>session.merge\<close> binds it.\<close>

definition bind_row :: "db_codec \<Rightarrow> TaskModel \<Rightarrow> exn + task_row" where
  "bind_row cd m =
     res_bind (res_option (dc_json cd) (bind_model (dc_dump_status cd) (Some (CV_Model (tmod_status m))))) (\<lambda>status.
     res_bind (res_option (dc_json cd) (bind_models (dc_dump_artifact cd) (map_option (map CV_Model) (tmod_artifacts m)))) (\<lambda>artifacts.
     res_bind (res_option (dc_json cd) (bind_models (dc_dump_message cd) (map_option (map CV_Model) (tmod_history m)))) (\<lambda>history.
     res_bind (res_option (dc_json cd) (map_option PyDict (tmod_task_metadata m))) (\<lambda>metadata.
       if dc_lengths cd \<and> (id_column_length < length (tmod_id m) \<or> id_column_length < length (tmod_context_id m))
       then Inl (OtherException ''value too long for type character varying(36)'')
       else Inr \<lparr>tr_id = tmod_id m, tr_context_id = tmod_context_id m, tr_status = status, tr_artifacts = artifacts,
                 tr_history = history, tr_task_metadata = metadata\<rparr>))))"

text \<open>A row as it is read: the columns become models again; \<open>Task.model_validate\<close> then wants a status.\<close>

definition result_row :: "db_codec \<Rightarrow> task_row \<Rightarrow> exn + TaskModel" where
  "result_row cd row =
     res_bind (result_model (dc_read_status cd) (tr_status row)) (\<lambda>status.
     res_bind (result_models (dc_read_artifact cd) (tr_artifacts row)) (\<lambda>artifacts.
     res_bind (result_models (dc_read_message cd) (tr_history row)) (\<lambda>history.
     res_bind (case tr_task_metadata row of
         None \<Rightarrow> Inr None | Some (PyDict d) \<Rightarrow> Inr (Some d) | Some v \<Rightarrow> Inl ValidationError) (\<lambda>metadata.
       case status of
         None \<Rightarrow> Inl ValidationError
       | Some x \<Rightarrow> Inr \<lparr>tmod_id = tr_id row, tmod_context_id = tr_context_id row, tmod_status = x,
                       tmod_artifacts = artifacts, tmod_history = history, tmod_task_metadata = metadata\<rparr>))))"

subsection \<open>Model classes\<close>

text \<open>
  A class of the object-relational mapper is known by its name and its table. The factories make a class for a table name
  and rename it; \<open>__repr__\<close> of a mixin prints the name of the class, that of a made class the table. \<open>status\<close> is the text
  of the status column.
\<close>

record orm_class =
  oc_name :: string
  oc_tablename :: string
  oc_label :: string

definition TaskModel_class :: orm_class where
  "TaskModel_class = \<lparr>oc_name = ''TaskModel'', oc_tablename = ''tasks'', oc_label = ''TaskModel''\<rparr>"

definition create_task_model :: "string \<Rightarrow> orm_class" where
  "create_task_model table_name =
     \<lparr>oc_name = ''TaskModel_'' @ table_name, oc_tablename = table_name, oc_label = ''TaskModel['' @ table_name @ '']''\<rparr>"

definition PushNotificationConfigModel_class :: orm_class where
  "PushNotificationConfigModel_class =
     \<lparr>oc_name = ''PushNotificationConfigModel'', oc_tablename = ''push_notification_configs'',
      oc_label = ''PushNotificationConfigModel''\<rparr>"

definition create_push_notification_config_model :: "string \<Rightarrow> orm_class" where
  "create_push_notification_config_model table_name =
     \<lparr>oc_name = ''PushNotificationConfigModel_'' @ table_name, oc_tablename = table_name,
      oc_label = ''PushNotificationConfigModel['' @ table_name @ '']''\<rparr>"

definition quoted :: "string \<Rightarrow> string" where
  "quoted s = CHR 0x22 # s @ [CHR 0x22]"

definition task_row_repr :: "orm_class \<Rightarrow> string \<Rightarrow> task_row \<Rightarrow> string" where
  "task_row_repr c status row =
     ''<'' @ oc_label c @ ''(id='' @ quoted (tr_id row) @ '', context_id='' @ quoted (tr_context_id row) @
     '', status='' @ quoted status @ '')>''"

text \<open>The columns of a push notification configuration, with what the lengths of its keys allow.\<close>

record 'b push_row =
  pr_task_id :: string
  pr_config_id :: string
  pr_config_data :: 'b

definition push_row_fits :: "bool \<Rightarrow> 'b push_row \<Rightarrow> bool" where
  "push_row_fits lengths row \<longleftrightarrow>
     \<not> lengths \<or> length (pr_task_id row) \<le> id_column_length \<and> length (pr_config_id row) \<le> 255"

definition push_row_repr :: "orm_class \<Rightarrow> 'b push_row \<Rightarrow> string" where
  "push_row_repr c row =
     ''<'' @ oc_label c @ ''(task_id='' @ quoted (pr_task_id row) @ '', config_id='' @ quoted (pr_config_id row) @ '')>''"

lemma made_models_differ:
  "create_task_model a = create_task_model b \<longleftrightarrow> a = b"
  "create_push_notification_config_model a = create_push_notification_config_model b \<longleftrightarrow> a = b"
  "oc_label (create_task_model a) \<noteq> oc_label TaskModel_class"
  by (auto simp: create_task_model_def create_push_notification_config_model_def TaskModel_class_def)

subsection \<open>The store over the table\<close>

record task_table =
  tb_create_table :: bool
  tb_initialized :: bool
  tb_exists :: bool
  tb_rows :: "string \<rightharpoonup> task_row"

type_synonym table_store = "task_table store_state"

text \<open>\<open>initialize\<close> creates the table, when it may, once.\<close>

definition initialize_table :: "task_table \<Rightarrow> task_table" where
  "initialize_table tb =
     (if tb_initialized tb then tb
      else tb\<lparr>tb_exists := tb_exists tb \<or> tb_create_table tb, tb_initialized := True\<rparr>)"

definition ensure_initialized :: "task_table \<Rightarrow> task_table" where
  "ensure_initialized tb = (if tb_initialized tb then tb else initialize_table tb)"

text \<open>Every statement needs the table.\<close>

definition on_table :: "(table_store \<Rightarrow> (exn + 'a) \<times> table_store) \<Rightarrow> table_store \<Rightarrow> (exn + 'a) \<times> table_store" where
  "on_table f w =
     (let w1 = w\<lparr>st := ensure_initialized (st w)\<rparr>
      in if tb_exists (st w1) then f w1 else (Inl (OtherException ''no such table: tasks''), w1))"

definition table_save :: "db_codec \<Rightarrow> addr \<Rightarrow> table_store \<Rightarrow> (exn + unit) \<times> table_store" where
  "table_save cd r = on_table (\<lambda>w.
     case bind_row cd (to_orm (obj w r)) of
       Inl e \<Rightarrow> (Inl e, w)
     | Inr row \<Rightarrow> (Inr (), w\<lparr>st := (st w)\<lparr>tb_rows := (tb_rows (st w))(tr_id row \<mapsto> row)\<rparr>\<rparr>))"

definition table_get :: "db_codec \<Rightarrow> string \<Rightarrow> table_store \<Rightarrow> (exn + addr option) \<times> table_store" where
  "table_get cd i = on_table (\<lambda>w.
     case tb_rows (st w) i of
       None \<Rightarrow> (Inr None, w)
     | Some row \<Rightarrow>
         (case result_row cd row of
            Inl e \<Rightarrow> (Inl e, w)
          | Inr m \<Rightarrow> (let (r, w') = alloc (from_orm m) w in (Inr (Some r), w'))))"

definition table_delete :: "string \<Rightarrow> table_store \<Rightarrow> (exn + unit) \<times> table_store" where
  "table_delete i = on_table (\<lambda>w. (Inr (), w\<lparr>st := (st w)\<lparr>tb_rows := (tb_rows (st w))(i := None)\<rparr>\<rparr>))"

subsection \<open>Columns round trip\<close>

text \<open>What Pydantic writes survives the JSON column and is read back.\<close>

definition column_carries :: "db_codec \<Rightarrow> ('m \<Rightarrow> pyval) \<Rightarrow> (pyval \<Rightarrow> exn + 'm) \<Rightarrow> 'm \<Rightarrow> bool" where
  "column_carries cd dump read m \<longleftrightarrow> dc_json cd (dump m) = Inr (dump m) \<and> read (dump m) = Inr m"

lemma model_column:
  "column_carries cd dump read m \<Longrightarrow>
   res_bind (res_option (dc_json cd) (bind_model dump (Some (CV_Model m)))) (result_model read) = Inr (Some m)"
  by (simp add: column_carries_def bind_model_def result_model_def)

text \<open>JSON keeps a list when it keeps its items.\<close>

definition json_lists :: "db_codec \<Rightarrow> bool" where
  "json_lists cd \<longleftrightarrow> (\<forall>xs. (\<forall>x \<in> set xs. dc_json cd x = Inr x) \<longrightarrow> dc_json cd (PyList xs) = Inr (PyList xs))"

lemma models_column:
  assumes "json_lists cd" and "\<And>ms m. v = Some ms \<Longrightarrow> m \<in> set ms \<Longrightarrow> column_carries cd dump read m"
  shows "\<exists>x. res_option (dc_json cd) (bind_models dump (map_option (map CV_Model) v)) = Inr x \<and> result_models read x = Inr v"
proof (cases v)
  case (Some ms)
  have "dc_json cd (PyList (map dump ms)) = Inr (PyList (map dump ms))"
    using assms Some by (auto simp: json_lists_def column_carries_def)
  moreover have "res_map read (map dump ms) = Inr ms"
    using assms(2) [OF Some] by (induction ms) (simp_all add: column_carries_def)
  ultimately show ?thesis using Some by (simp add: bind_models_def result_models_def comp_def)
qed (simp add: bind_models_def result_models_def)

text \<open>A task whose parts fit the table.\<close>

definition storable :: "db_codec \<Rightarrow> Task \<Rightarrow> bool" where
  "storable cd t \<longleftrightarrow>
     column_carries cd (dc_dump_status cd) (dc_read_status cd) (task_status t) \<and>
     list_all (column_carries cd (dc_dump_artifact cd) (dc_read_artifact cd)) (or_else (task_artifacts t) []) \<and>
     list_all (column_carries cd (dc_dump_message cd) (dc_read_message cd)) (or_else (task_history t) []) \<and>
     (case task_metadata t of None \<Rightarrow> True | Some d \<Rightarrow> dc_json cd (PyDict d) = Inr (PyDict d)) \<and>
     (dc_lengths cd \<longrightarrow> length (task_id t) \<le> 36 \<and> length (task_context_id t) \<le> 36)"

lemma or_else_mem: "v = Some ms \<Longrightarrow> m \<in> set ms \<Longrightarrow> m \<in> set (or_else v [])"
  by (cases ms) auto

lemma row_roundtrip:
  assumes "json_lists cd" and "storable cd t"
  shows "\<exists>row. bind_row cd (to_orm t) = Inr row \<and> tr_id row = task_id t \<and> result_row cd row = Inr (to_orm t)"
proof -
  obtain st where st: "res_option (dc_json cd) (bind_model (dc_dump_status cd) (Some (CV_Model (task_status t)))) = Inr st"
      "result_model (dc_read_status cd) st = Inr (Some (task_status t))"
    using model_column [of cd "dc_dump_status cd" "dc_read_status cd" "task_status t"] assms(2)
    by (auto simp: storable_def res_bind_Inr_iff)
  obtain a where a: "res_option (dc_json cd) (bind_models (dc_dump_artifact cd) (map_option (map CV_Model) (task_artifacts t))) = Inr a"
      "result_models (dc_read_artifact cd) a = Inr (task_artifacts t)"
    using models_column [OF assms(1), of "task_artifacts t" "dc_dump_artifact cd" "dc_read_artifact cd"] assms(2)
    by (auto simp: storable_def list_all_iff dest: or_else_mem)
  obtain h where h: "res_option (dc_json cd) (bind_models (dc_dump_message cd) (map_option (map CV_Model) (task_history t))) = Inr h"
      "result_models (dc_read_message cd) h = Inr (task_history t)"
    using models_column [OF assms(1), of "task_history t" "dc_dump_message cd" "dc_read_message cd"] assms(2)
    by (auto simp: storable_def list_all_iff dest: or_else_mem)
  have m: "res_option (dc_json cd) (map_option PyDict (task_metadata t)) = Inr (map_option PyDict (task_metadata t))"
    and l: "\<not> (dc_lengths cd \<and> (id_column_length < length (task_id t) \<or> id_column_length < length (task_context_id t)))"
    using assms(2) by (auto simp: storable_def id_column_length_def split: option.splits)
  show ?thesis
    using st a h m l
    by (cases "task_metadata t") (auto simp: bind_row_def result_row_def to_orm_def)
qed

subsection \<open>The table implements the store of typed rows\<close>

text \<open>
  The relation: the same objects on the heap, and every row of the table reads as the row of the store.
\<close>

definition implements :: "db_codec \<Rightarrow> table_store \<Rightarrow> db_store store_state \<Rightarrow> bool" where
  "implements cd w v \<longleftrightarrow>
     heap w = heap v \<and>
     (\<forall>i. map_option (result_row cd) (tb_rows (st w) i) = map_option Inr (st v i)) \<and>
     (tb_exists (st w) \<or> \<not> tb_initialized (st w) \<and> tb_create_table (st w))"

lemma implements_ensure:
  assumes "implements cd w v"
  shows "implements cd (w\<lparr>st := ensure_initialized (st w)\<rparr>) v" and "tb_exists (ensure_initialized (st w))"
  using assms by (auto simp: implements_def ensure_initialized_def initialize_table_def)

lemma on_table_implements:
  assumes "implements cd w v"
  shows "on_table f w = f (w\<lparr>st := ensure_initialized (st w)\<rparr>)"
  using implements_ensure [OF assms] by (simp add: on_table_def Let_def)

lemma implements_exists: "implements cd w v \<Longrightarrow> tb_exists (st w) \<or> tb_create_table (st w) \<and> \<not> tb_initialized (st w)"
  by (auto simp: implements_def)

lemma table_save_implements:
  assumes "implements cd w v" and "json_lists cd" and "storable cd (obj v r)"
  shows "\<exists>w'. table_save cd r w = (Inr (), w') \<and> implements cd w' (db_save r v)"
proof -
  let ?w = "w\<lparr>st := ensure_initialized (st w)\<rparr>"
  have i: "implements cd ?w v" using implements_ensure [OF assms(1)] by simp
  then have "obj ?w r = obj v r" by (simp add: implements_def obj_def)
  moreover obtain row where "bind_row cd (to_orm (obj v r)) = Inr row" "tr_id row = task_id (obj v r)"
      "result_row cd row = Inr (to_orm (obj v r))"
    using row_roundtrip [OF assms(2,3)] by blast
  moreover have "tmod_id (to_orm t) = task_id t" for t by (simp add: to_orm_def)
  ultimately show ?thesis
    using i by (auto simp: table_save_def on_table_implements [OF assms(1)] implements_def db_save_def Let_def)
qed

lemma table_get_implements:
  assumes "implements cd w v"
  shows "\<exists>w'. table_get cd i w = (Inr (fst (db_get i v)), w') \<and> implements cd w' (snd (db_get i v))"
proof -
  let ?w = "w\<lparr>st := ensure_initialized (st w)\<rparr>"
  have i: "implements cd ?w v" using implements_ensure [OF assms] by simp
  then have "map_option (result_row cd) (tb_rows (st ?w) i) = map_option Inr (st v i)"
    unfolding implements_def by blast
  then show ?thesis
    using i by (cases "st v i") (auto simp: table_get_def on_table_implements [OF assms] db_get_def alloc_def implements_def)
qed

lemma table_delete_implements:
  assumes "implements cd w v"
  shows "\<exists>w'. table_delete i w = (Inr (), w') \<and> implements cd w' (db_delete i v)"
  using implements_ensure [OF assms]
  by (auto simp: table_delete_def on_table_implements [OF assms] implements_def db_delete_def)

text \<open>A client of the store: it saves, reads and deletes tasks and changes the objects it holds.\<close>

datatype store_call = SC_Save addr | SC_Get string | SC_Delete string | SC_Assign addr Task | SC_New Task

fun run_db :: "store_call list \<Rightarrow> db_store store_state \<Rightarrow> addr option list \<times> db_store store_state" where
  "run_db [] v = ([], v)"
| "run_db (SC_Save r # cs) v = run_db cs (db_save r v)"
| "run_db (SC_Get i # cs) v =
     (let (q, v1) = db_get i v; (qs, v2) = run_db cs v1 in (q # qs, v2))"
| "run_db (SC_Delete i # cs) v = run_db cs (db_delete i v)"
| "run_db (SC_Assign r t # cs) v = run_db cs (set_obj r t v)"
| "run_db (SC_New t # cs) v = run_db cs (snd (alloc t v))"

fun run_table :: "db_codec \<Rightarrow> store_call list \<Rightarrow> table_store \<Rightarrow> (exn + addr option list) \<times> table_store" where
  "run_table cd [] w = (Inr [], w)"
| "run_table cd (SC_Save r # cs) w = try_bind (table_save cd r w) (\<lambda>u. run_table cd cs)"
| "run_table cd (SC_Get i # cs) w =
     try_bind (table_get cd i w) (\<lambda>q w1. try_bind (run_table cd cs w1) (\<lambda>qs w2. (Inr (q # qs), w2)))"
| "run_table cd (SC_Delete i # cs) w = try_bind (table_delete i w) (\<lambda>u. run_table cd cs)"
| "run_table cd (SC_Assign r t # cs) w = run_table cd cs (set_obj r t w)"
| "run_table cd (SC_New t # cs) w = run_table cd cs (snd (alloc t w))"

text \<open>Every task that the client saves fits the table.\<close>

fun saves_storable :: "db_codec \<Rightarrow> store_call list \<Rightarrow> db_store store_state \<Rightarrow> bool" where
  "saves_storable cd [] v = True"
| "saves_storable cd (SC_Save r # cs) v = (storable cd (obj v r) \<and> saves_storable cd cs (db_save r v))"
| "saves_storable cd (SC_Get i # cs) v = saves_storable cd cs (snd (db_get i v))"
| "saves_storable cd (SC_Delete i # cs) v = saves_storable cd cs (db_delete i v)"
| "saves_storable cd (SC_Assign r t # cs) v = saves_storable cd cs (set_obj r t v)"
| "saves_storable cd (SC_New t # cs) v = saves_storable cd cs (snd (alloc t v))"

lemma table_run_implements:
  assumes "implements cd w v" and "json_lists cd" and "saves_storable cd cs v"
  shows "\<exists>w'. run_table cd cs w = (Inr (fst (run_db cs v)), w') \<and> implements cd w' (snd (run_db cs v))"
  using assms(1,3)
proof (induction cs arbitrary: w v)
  case (Cons c cs)
  show ?case
  proof (cases c)
    case (SC_Save r)
    with Cons.prems obtain w' where "table_save cd r w = (Inr (), w')" "implements cd w' (db_save r v)"
      using table_save_implements [OF _ assms(2)] by fastforce
    with Cons.IH [of w' "db_save r v"] Cons.prems SC_Save show ?thesis by simp
  next
    case (SC_Get i)
    from table_get_implements [OF Cons.prems(1), of i] obtain w' where
      g: "table_get cd i w = (Inr (fst (db_get i v)), w')" "implements cd w' (snd (db_get i v))" by blast
    with Cons.IH [of w' "snd (db_get i v)"] Cons.prems SC_Get show ?thesis
      by (auto simp: case_prod_beta Let_def)
  next
    case (SC_Delete i)
    from table_delete_implements [OF Cons.prems(1), of i] Cons.IH Cons.prems SC_Delete show ?thesis by fastforce
  next
    case (SC_Assign r t)
    with Cons.prems have "implements cd (set_obj r t w) (set_obj r t v)" by (simp add: implements_def set_obj_def)
    with Cons.IH Cons.prems SC_Assign show ?thesis by simp
  next
    case (SC_New t)
    with Cons.prems have "implements cd (snd (alloc t w)) (snd (alloc t v))" by (simp add: implements_def alloc_def)
    with Cons.IH Cons.prems SC_New show ?thesis by simp
  qed
qed simp

text \<open>
  The JSON table, created on first use, is indistinguishable from the store of typed rows to every client that saves tasks
  which fit its columns: no call raises, every read finds a task exactly when the other does and gives an equal object.
\<close>

theorem table_implements_store:
  assumes "implements cd w v" and "json_lists cd" and "saves_storable cd cs v"
  shows "\<exists>w'. run_table cd cs w = (Inr (fst (run_db cs v)), w') \<and> implements cd w' (snd (run_db cs v))"
  by (rule table_run_implements [OF assms])

text \<open>
  An id that is too long for its column: nothing is written, the save raises. The ids come from the client, which may choose a
  context id of any length.
\<close>

lemma long_context_id_not_saved:
  assumes "dc_lengths cd" and "36 < length (task_context_id (obj w r))" and "tb_exists (st w)"
  shows "\<exists>e. fst (table_save cd r w) = Inl e \<and> tb_rows (st (snd (table_save cd r w))) = tb_rows (st w)"
proof -
  have ex: "tb_exists (ensure_initialized (st w))" and rows: "tb_rows (ensure_initialized (st w)) = tb_rows (st w)"
    using assms(3) by (auto simp: ensure_initialized_def initialize_table_def)
  have "\<exists>e. bind_row cd (to_orm (obj w r)) = Inl e"
    using assms(1,2) by (cases "bind_row cd (to_orm (obj w r))")
      (auto simp: bind_row_def res_bind_Inr_iff id_column_length_def to_orm_def)
  then obtain e where "bind_row cd (to_orm (obj w r)) = Inl e" by blast
  with ex rows show ?thesis by (auto simp: table_save_def on_table_def Let_def)
qed

text \<open>A run: a task is made, saved, changed without being saved, read back, deleted and looked for.\<close>

definition sample_db_codec :: db_codec where
  "sample_db_codec =
     \<lparr>dc_dump_status = (\<lambda>s. PyStr ''status''), dc_read_status = (\<lambda>v. Inr (task_status sample_task)),
      dc_dump_artifact = (\<lambda>a. PyStr ''artifact''), dc_read_artifact = (\<lambda>v. Inl ValidationError),
      dc_dump_message = (\<lambda>m. PyStr ''message''), dc_read_message = (\<lambda>v. Inl ValidationError),
      dc_json = Inr, dc_lengths = True\<rparr>"

definition empty_table :: table_store where
  "empty_table = \<lparr>heap = [], st = \<lparr>tb_create_table = True, tb_initialized = False, tb_exists = False, tb_rows = Map.empty\<rparr>\<rparr>"

definition sample_calls :: "store_call list" where
  "sample_calls =
     [SC_New sample_task, SC_Save 0, SC_Assign 0 (sample_task\<lparr>task_metadata := Some []\<rparr>), SC_Get ''t'', SC_Delete ''t'', SC_Get ''t'']"

theorem table_implements_store_witness:
  "\<exists>w'. run_table sample_db_codec sample_calls empty_table = (Inr [Some 1, None], w') \<and> obj w' 1 = sample_task"
proof -
  have "implements sample_db_codec empty_table db_init" "json_lists sample_db_codec"
    by (simp_all add: implements_def empty_table_def db_init_def json_lists_def sample_db_codec_def)
  moreover have "storable sample_db_codec sample_task"
    by (simp add: storable_def column_carries_def sample_db_codec_def sample_task_def)
  then have "saves_storable sample_db_codec sample_calls db_init"
    by (simp add: sample_calls_def db_defs db_init_def alloc_def obj_def set_obj_def)
  moreover have "fst (run_db sample_calls db_init) = [Some 1, None]" "obj (snd (run_db sample_calls db_init)) 1 = sample_task"
    by (simp_all add: sample_calls_def db_defs db_init_def alloc_def obj_def set_obj_def Let_def to_orm_def from_orm_def
        sample_task_def)
  ultimately show ?thesis
    using table_implements_store [of sample_db_codec empty_table db_init sample_calls]
    by (auto simp: implements_def obj_def)
qed

end
