(* ===== verification/WireTransports.thy ===== *)
theory WireTransports
  imports WireRpc MessageBindings DbModels KafkaServer
begin

section \<open>The transports and the database over the JSON form of the data model\<close>

text \<open>
  The codecs that the transports and the database store are modelled over, made of the readers and writers of \<open>WireTasks\<close>,
  \<open>WireCards\<close> and \<open>WireRpc\<close>: the assumptions that one side reads what the other has written become facts.
\<close>

subsection \<open>JSON-RPC\<close>

definition wire_rpc :: "pydantic \<Rightarrow> rpc_codec" where
  "wire_rpc px =
     \<lparr>rq_base = (\<lambda>v. case read_JSONRPCRequest px v of Inl e \<Rightarrow> Inl (px_details px v) | Inr m \<Rightarrow> Inr m),
      rq_specific = (\<lambda>m v. case read_request px m v of Inl e \<Rightarrow> Inl (px_details px v) | Inr r \<Rightarrow> Inr r),
      rq_text = px_text px\<rparr>"

text \<open>The codec of a client for a call whose response class has results read by \<open>rd\<close>.\<close>

definition wire_client :: "pydantic \<Rightarrow> (pyval \<Rightarrow> exn + handler_result) \<Rightarrow> (rpc_error \<Rightarrow> string) \<Rightarrow> client_codec" where
  "wire_client px rd error_text =
     \<lparr>cdc_dump = dump_request True, cdc_read = read_response px rd, cdc_error_text = error_text,
      cdc_error = error_at_client True\<rparr>"

definition wire_site :: "pydantic \<Rightarrow> 's rpc_site \<Rightarrow> ServerCallContext \<Rightarrow> bool" where
  "wire_site px site call \<longleftrightarrow>
     rs_codec site = wire_rpc px \<and> rs_dump site = dump_response True \<and> rs_context site = Inr call"

lemma request_method_known: "request_method req \<in> set METHOD_TO_MODEL"
  by (cases req) (simp_all add: METHOD_TO_MODEL_def)

text \<open>The server reads every request that a client writes.\<close>

lemma wire_accepts:
  assumes "wire_site px site call" and "json_request req"
    and "allowed_content_length (rs_app site) (site_request site (dump_request True req))"
  shows "site_accepts (wire_client px rd et) site req (with_method (request_method req) call)"
  using assms request_method_known [of req]
  by (simp add: site_accepts_def accepted_def site_request_def wire_site_def wire_client_def wire_rpc_def base_request_read
      request_read)

text \<open>The client reads every response that the server writes, up to the class of an error.\<close>

fun readable :: "pydantic \<Rightarrow> (pyval \<Rightarrow> exn + handler_result) \<Rightarrow> response \<Rightarrow> bool" where
  "readable px rd (Rsp_Error x) = error_ok (ers_error x)"
| "readable px rd (Rsp_Success x) =
     (dump_result True (srs_result x) \<noteq> PyNone \<and> rd (dump_result True (srs_result x)) = Inr (srs_result x))"

lemma error_code_kept: "error_ok e \<Longrightarrow> err_code (error_at_client ex e) = err_code e"
  by (simp add: error_at_client_def)

lemma wire_reads_one:
  assumes "wire_site px site call" and "readable px rd r"
  shows "reads_one (wire_client px rd et) site r"
proof (cases r)
  case (Rsp_Error x)
  obtain e i where x: "x = \<lparr>ers_error = e, ers_id = i\<rparr>" by (cases x)
  with Rsp_Error assms error_response_read [of e px rd True i] error_code_kept [of e True] show ?thesis
    by (simp add: reads_one_def wire_client_def wire_site_def)
next
  case (Rsp_Success x)
  obtain i h where x: "x = \<lparr>srs_id = i, srs_result = h\<rparr>" by (cases x)
  with Rsp_Success assms success_read [of True h rd h px i] show ?thesis
    by (simp add: reads_one_def wire_client_def wire_site_def)
qed

definition error_opt_ok :: "rpc_error option \<Rightarrow> bool" where
  "error_opt_ok x \<longleftrightarrow> pred_option error_ok x"

lemma error_ok_internal [simp]: "error_ok (InternalError\<lparr>err_message := m\<rparr>)"
  by (simp add: error_ok_def InternalError_def)

lemma readable_error_response [simp]: "error_opt_ok x \<Longrightarrow> readable px rd (error_response i x)"
  by (cases x) (simp_all add: error_opt_ok_def error_response_def error_ok_def InternalError_def)

lemma readable_reply_exception: "list_all (readable px rd) (reply_responses (reply_exception vtext i e))"
  by (cases e; cases "exn_str vtext e") (simp_all add: reply_exception_def error_reply_json_def build_error_response_def)
text \<open>An outcome of the handler that can be written: its result has JSON values only, its error object is one of its class.\<close>

definition answer_ok :: "('a \<Rightarrow> bool) \<Rightarrow> 'a await \<Rightarrow> bool" where
  "answer_ok good r \<longleftrightarrow>
     (case r of Done v \<Rightarrow> good v | Blocked \<Rightarrow> True | Raised e \<Rightarrow> (case e of ServerError x \<Rightarrow> error_opt_ok x | _ \<Rightarrow> True))"

lemma event_present [simp]: "dump_result ex (event_result ev) \<noteq> PyNone"
  by (cases ev) simp_all

lemma readable_send_result:
  "json_event (send_result_event v) \<Longrightarrow>
   readable px (read_SendMessageSuccess px) (Rsp_Success \<lparr>srs_id = i, srs_result = event_result (send_result_event v)\<rparr>)"
  using send_result_read [of "send_result_event v"] by (cases v) simp_all

lemma readable_stream_event:
  "json_event ev \<Longrightarrow>
   readable px (read_SendStreamingMessageSuccess px) (Rsp_Success \<lparr>srs_id = i, srs_result = event_result ev\<rparr>)"
  by (simp add: stream_result_read)

lemma wire_reads_back:
  assumes "wire_site px site call" and "list_all (readable px rd) rs"
  shows "reads_back (wire_client px rd et) site rs"
  using assms(2) by (simp add: reads_back_def list_all_iff wire_reads_one [OF assms(1)])

lemma wire_send_reads:
  assumes "wire_site px site c" and "json_MessageSendParams params"
    and "allowed_content_length (rs_app site) (site_request site (dump_request True req))"
    and "req = Req_SendMessage \<lparr>smr_id = i, smr_params = params\<rparr>"
    and "answer_ok (\<lambda>v. json_event (send_result_event v))
           (fst (rh_message_send (rs_handler site) params (with_method ''message/send'' c) s))"
  shows "site_accepts (wire_client px (read_SendMessageSuccess px) et) site req (with_method ''message/send'' c) \<and>
         reads_reply (wire_client px (read_SendMessageSuccess px) et) site req s"
proof -
  let ?cdc = "wire_client px (read_SendMessageSuccess px) et" and ?call = "with_method ''message/send'' c"
  have "json_request req" using assms(2,4) by (simp add: json_SendMessageRequest_def)
  from wire_accepts [OF assms(1) this assms(3), of "read_SendMessageSuccess px" et]
  have acc: "site_accepts ?cdc site req ?call" using assms(4) by simp
  obtain r s' where r: "rh_message_send (rs_handler site) params ?call s = (r, s')" by (cases "rh_message_send (rs_handler site) params ?call s")
  have "list_all (readable px (read_SendMessageSuccess px)) (reply_responses (fst (site_reply site (cdc_dump ?cdc req) s)))"
    using rpc_send_reply [OF acc [unfolded site_accepts_def assms(4)], of "rs_handler site" "rs_activated site" s] r assms(4,5)
      readable_reply_exception
    by (auto simp: site_reply_def answer_ok_def readable_send_result simp del: readable.simps(2)
        split: await.splits exn.splits)
  with acc show ?thesis by (simp add: reads_reply_def wire_reads_back [OF assms(1)])
qed

lemma wire_json_rpc_legit:
  assumes "je_codec e = wire_client px (read_SendMessageSuccess px) et" and "je_http e = site_http site"
    and "jt_interceptors t = []" and "wire_site px site c" and "json_MessageSendParams (params_of p)"
    and "allowed_content_length (rs_app site)
           (site_request site (dump_request True (Req_SendMessage \<lparr>smr_id = IdStr (je_uuid e), smr_params = params_of p\<rparr>)))"
    and "answer_ok (\<lambda>v. json_event (send_result_event v))
           (fst (rh_message_send (rs_handler site) (params_of p) (with_method ''message/send'' c) s))"
  shows "json_rpc_legit e site (with_method ''message/send'' c) p t s"
  using wire_send_reads [OF assms(4-6) refl assms(7), of et] assms(1-3) by (simp add: json_rpc_legit_def Let_def)

subsection \<open>The database\<close>

definition wire_db :: "pydantic \<Rightarrow> bool \<Rightarrow> db_codec" where
  "wire_db px lengths =
     \<lparr>dc_dump_status = dump_TaskStatus False, dc_read_status = read_TaskStatus px,
      dc_dump_artifact = dump_Artifact False, dc_read_artifact = read_Artifact px,
      dc_dump_message = dump_Message False, dc_read_message = read_Message px,
      dc_json = (\<lambda>v. if json_value v then Inr v else Inl (TypeErr ''Object is not JSON serializable'')),
      dc_lengths = lengths\<rparr>"

lemma wire_db_lists: "json_lists (wire_db px lengths)"
  by (simp add: json_lists_def wire_db_def list_all_iff split: if_splits)

lemma wire_db_fields:
  "dc_dump_status (wire_db px lengths) = dump_TaskStatus False" "dc_read_status (wire_db px lengths) = read_TaskStatus px"
  "dc_dump_artifact (wire_db px lengths) = dump_Artifact False" "dc_read_artifact (wire_db px lengths) = read_Artifact px"
  "dc_dump_message (wire_db px lengths) = dump_Message False" "dc_read_message (wire_db px lengths) = read_Message px"
  "dc_lengths (wire_db px lengths) = lengths"
  by (simp_all add: wire_db_def)

lemma wire_db_carries: "wire d r g \<Longrightarrow> g x \<Longrightarrow> column_carries (wire_db px lengths) d r x"
  by (simp add: column_carries_def wire_db_def wire.writes_json wire.reads_back)

lemma all_or_else: "pred_option (list_all P) x \<Longrightarrow> list_all P (or_else x [])"
  by (cases x) (auto simp: or_else_def)

lemma wire_db_storable:
  assumes "json_Task t" and "lengths \<longrightarrow> length (task_id t) \<le> 36 \<and> length (task_context_id t) \<le> 36"
  shows "storable (wire_db px lengths) t"
proof -
  let ?cd = "wire_db px lengths"
  have "list_all (column_carries ?cd (dump_Artifact False) (read_Artifact px)) (or_else (task_artifacts t) [])"
    using all_or_else assms(1) wire_db_carries [OF wire_Artifact.wire_axioms]
    by (fastforce simp: json_Task_def list_all_iff)
  moreover have "list_all (column_carries ?cd (dump_Message False) (read_Message px)) (or_else (task_history t) [])"
    using all_or_else assms(1) wire_db_carries [OF wire_Message.wire_axioms]
    by (fastforce simp: json_Task_def list_all_iff)
  moreover have "column_carries ?cd (dump_TaskStatus False) (read_TaskStatus px) (task_status t)"
    using assms(1) by (intro wire_db_carries [OF wire_TaskStatus.wire_axioms]) (simp add: json_Task_def)
  moreover have "case task_metadata t of None \<Rightarrow> True | Some d \<Rightarrow> dc_json ?cd (PyDict d) = Inr (PyDict d)"
    using assms(1) by (auto simp: json_Task_def json_dict_def wire_db_def split: option.split)
  ultimately show ?thesis using assms(2) wire_db_fields by (simp only: storable_def)
qed
text \<open>The calls of a client that saves tasks of JSON values with ids that fit.\<close>

fun saves_json :: "bool \<Rightarrow> store_call list \<Rightarrow> db_store store_state \<Rightarrow> bool" where
  "saves_json lengths [] v = True"
| "saves_json lengths (SC_Save r # cs) v =
     (json_Task (obj v r) \<and>
      (lengths \<longrightarrow> length (task_id (obj v r)) \<le> 36 \<and> length (task_context_id (obj v r)) \<le> 36) \<and>
      saves_json lengths cs (db_save r v))"
| "saves_json lengths (SC_Get i # cs) v = saves_json lengths cs (snd (db_get i v))"
| "saves_json lengths (SC_Delete i # cs) v = saves_json lengths cs (db_delete i v)"
| "saves_json lengths (SC_Assign r t # cs) v = saves_json lengths cs (set_obj r t v)"
| "saves_json lengths (SC_New t # cs) v = saves_json lengths cs (snd (alloc t v))"

lemma saves_json_storable: "saves_json lengths cs v \<Longrightarrow> saves_storable (wire_db px lengths) cs v"
  by (induction lengths cs v rule: saves_json.induct) (simp_all add: wire_db_storable)

text \<open>
  Claim C7. The database task store over its JSON columns, with the real form of every column: a client that saves tasks of JSON values
  whose ids fit the columns cannot tell it from a store of typed rows. The table is created on first use, no call raises,
  every read finds a task exactly when the store of rows has it and gives an equal object.
\<close>

theorem database_keeps_every_task:
  assumes "implements (wire_db px lengths) w v" and "saves_json lengths cs v"
  shows "\<exists>w'. run_table (wire_db px lengths) cs w = (Inr (fst (run_db cs v)), w') \<and>
              implements (wire_db px lengths) w' (snd (run_db cs v))"
  by (rule table_run_implements [OF assms(1) wire_db_lists saves_json_storable [OF assms(2)]])

theorem database_keeps_every_task_witness:
  "\<exists>w'. run_table (wire_db strict_pydantic True) sample_calls empty_table = (Inr [Some 1, None], w') \<and> obj w' 1 = sample_task"
proof -
  have "implements (wire_db strict_pydantic True) empty_table db_init"
    by (simp add: implements_def empty_table_def db_init_def)
  moreover have "saves_json True sample_calls db_init"
    by (simp add: sample_calls_def db_defs db_init_def alloc_def obj_def set_obj_def sample_task_def json_Task_def json_TaskStatus_def
        plain_status_def)
  moreover have "fst (run_db sample_calls db_init) = [Some 1, None]" "obj (snd (run_db sample_calls db_init)) 1 = sample_task"
    by (simp_all add: sample_calls_def db_defs db_init_def alloc_def obj_def set_obj_def Let_def to_orm_def from_orm_def
        sample_task_def)
  ultimately show ?thesis
    using database_keeps_every_task [of strict_pydantic True empty_table db_init sample_calls]
    by (auto simp: implements_def obj_def)
qed

subsection \<open>Kafka\<close>

text \<open>
  Kafka writes with \<open>model_dump()\<close>, which keeps the \<open>None\<close> fields; the serializer of the producer turns the result into
  JSON. \<open>str_of\<close> is \<open>str()\<close>.
\<close>

definition wire_kafka :: "pydantic \<Rightarrow> (pyval \<Rightarrow> string) \<Rightarrow> codec" where
  "wire_kafka px str_of =
     \<lparr>cd_task = read_Task px, cd_status = read_TaskStatusUpdateEvent px, cd_artifact = read_TaskArtifactUpdateEvent px,
      cd_message = read_Message px, cd_send_params = read_MessageSendParams px, cd_query_params = read_TaskQueryParams px,
      cd_id_params = read_TaskIdParams, cd_get_config = read_GetTaskPushNotificationConfigParams,
      cd_list_config = read_ListTaskPushNotificationConfigParams,
      cd_delete_config = read_DeleteTaskPushNotificationConfigParams,
      dump_event = (\<lambda>ev. dump_result False (event_result ev)), dump_config = dump_TaskPushNotificationConfig False,
      dump_send_params = dump_MessageSendParams False, dump_query_params = dump_TaskQueryParams False,
      dump_id_params = dump_TaskIdParams False, dump_get_config = dump_GetTaskPushNotificationConfigParams False,
      dump_list_config = dump_ListTaskPushNotificationConfigParams False,
      dump_delete_config = dump_DeleteTaskPushNotificationConfigParams False, cd_str = str_of,
      cd_validation_str = px_text px\<rparr>"

lemma wire_kafka_event_read: "json_event ev \<Longrightarrow> event_read (wire_kafka px str_of) ev"
  by (cases ev) (simp_all add: wire_kafka_def wire_simps)

lemma wire_kafka_events_read: "list_all json_event evs \<Longrightarrow> list_all (event_read (wire_kafka px str_of)) evs"
  by (simp add: list_all_iff wire_kafka_event_read)

lemma wire_kafka_params_read:
  "json_MessageSendParams p \<Longrightarrow> cd_send_params (wire_kafka px str_of) (dump_send_params (wire_kafka px str_of) p) = Inr p"
  by (simp add: wire_kafka_def wire_simps)

subsection \<open>Events of JSON values make tasks of JSON values\<close>

lemma json_dict_iff: "json_dict d \<longleftrightarrow> (\<forall>e \<in> set d. json_value (snd e))"
  by (auto simp: json_dict_def list_all_iff)

lemma json_dict_Nil [simp]: "json_dict []"
  by (simp add: json_dict_iff)

lemma json_dict_update1: "json_dict d \<Longrightarrow> json_value v \<Longrightarrow> json_dict (AList.update k v d)"
  by (induction d) (auto simp: json_dict_iff)

lemma json_dict_update: "json_dict d \<Longrightarrow> json_dict e \<Longrightarrow> json_dict (dict_update d e)"
proof (induction e arbitrary: d)
  case (Cons p e)
  obtain k v where p: "p = (k, v)" by (cases p)
  with Cons.prems have "json_value v" "json_dict e" by (simp_all add: json_dict_iff)
  with Cons.IH [OF json_dict_update1 [OF Cons.prems(1)]] p show ?case by simp
qed simp

lemma json_merge_metadata: "json_Task t \<Longrightarrow> pred_option json_dict md \<Longrightarrow> json_Task (merge_metadata md t)"
  by (cases "task_metadata t"; cases md)
    (auto simp: json_Task_def merge_metadata_def or_else_def intro: json_dict_update) 

lemma json_push_history: "json_Task t \<Longrightarrow> json_Message m \<Longrightarrow> json_Task (push_history m t)"
  using all_or_else [of json_Message "task_history t"] by (simp add: json_Task_def push_history_def)

lemma json_apply_status: "json_Task t \<Longrightarrow> json_TaskStatusUpdateEvent e \<Longrightarrow> json_Task (apply_status_update t e)"
proof -
  assume t: "json_Task t" and e: "json_TaskStatusUpdateEvent e"
  have "json_Task (case status_message (task_status t) of Some m \<Rightarrow> push_history m t | None \<Rightarrow> t)"
    using t by (auto simp: json_Task_def [of t] json_TaskStatus_def intro: json_push_history split: option.split)
  with e have "json_Task (merge_metadata (sue_metadata e)
      (case status_message (task_status t) of Some m \<Rightarrow> push_history m t | None \<Rightarrow> t))"
    by (intro json_merge_metadata) (simp_all add: json_TaskStatusUpdateEvent_def)
  with e show ?thesis by (simp add: apply_status_update_def Let_def json_Task_def json_TaskStatusUpdateEvent_def)
qed

lemma json_append_artifact:
  assumes "json_Task t" and "json_TaskArtifactUpdateEvent e"
  shows "json_Task (append_artifact_to_task t e)"
proof -
  let ?as = "or_else (task_artifacts t) []"
  have as: "list_all json_Artifact ?as" and e: "json_Artifact (aue_artifact e)"
    using assms all_or_else [of json_Artifact "task_artifacts t"] by (simp_all add: json_Task_def json_TaskArtifactUpdateEvent_def)
  have upd: "list_all json_Artifact (?as[i := a])" if "json_Artifact a" for i a
    using as that set_update_subset_insert [of ?as i a] by (auto simp: list_all_iff)
  have ext: "json_Artifact ((?as ! i)\<lparr>art_parts := art_parts (?as ! i) @ art_parts (aue_artifact e)\<rparr>)" if "i < length ?as" for i
  proof -
    from as that have "json_Artifact (?as ! i)" by (simp add: list_all_length)
    with e show ?thesis by (simp add: json_Artifact_def)
  qed
  have "list_all json_Artifact (the (task_artifacts (append_artifact_to_task t e)))"
    using as e upd ext by (auto simp: append_artifact_to_task_def Let_def dest: find_index_SomeD split: option.split)
  moreover have "task_artifacts (append_artifact_to_task t e) = Some (the (task_artifacts (append_artifact_to_task t e)))"
    by (simp add: append_artifact_to_task_def Let_def)
  ultimately have "pred_option (list_all json_Artifact) (task_artifacts (append_artifact_to_task t e))"
    by (metis option.pred_inject(2))
  with assms(1) show ?thesis by (simp add: json_Task_def append_artifact_to_task_def Let_def)
qed

lemma json_apply_history_length: "json_Task t \<Longrightarrow> json_Task (apply_history_length t n)"
  by (cases n; cases "task_history t")
    (auto simp: json_Task_def apply_history_length_def last_n_def list_all_iff dest: in_set_dropD)
lemma json_init_task: "pred_option json_Message m \<Longrightarrow> json_Task (init_task_obj m tid ctx)"
  by (cases m) (simp_all add: json_Task_def init_task_obj_def json_TaskStatus_def plain_status_def)

lemma json_apply_event:
  assumes "pred_option json_Message m" and "pred_option json_Task t" and "json_event ev" and "as_task_event ev = Some te"
  shows "json_Task (apply_task_event m t te)"
  using assms by (cases ev; cases t)
    (auto intro!: json_apply_status json_append_artifact json_init_task)

text \<open>The task that is stored after a stream has JSON values only, when the message, the stored task and the events have.\<close>

lemma json_spec_fold:
  assumes "pred_option json_Message m"
  shows "pred_option json_Task t \<Longrightarrow> list_all json_event evs \<Longrightarrow> pred_option json_Task (spec_fold m t evs)"
proof (induction evs arbitrary: t)
  case (Cons ev evs)
  then have "pred_option json_Task (case as_task_event ev of None \<Rightarrow> t | Some te \<Rightarrow> Some (apply_task_event m t te))"
    using json_apply_event [OF assms Cons.prems(1), of ev] by (auto split: option.split)
  with Cons show ?case by (simp add: spec_fold_simps)
qed (simp add: spec_fold_simps)

end
