(* ===== verification/WireCalls.thy ===== *)
theory WireCalls
  imports WireTransports
begin

section \<open>Calls about stored tasks, from client to store and back\<close>

text \<open>
  The unary methods of the JSON-RPC transport other than \<open>message/send\<close>, end to end: the client transport, the form on the
  wire, the application, \<open>JSONRPCHandler\<close>, \<open>DefaultRequestHandler\<close> and the stores.
\<close>

subsection \<open>One exchange\<close>

text \<open>
  What a client gets for an outcome \<open>res\<close> of the handler's method, when \<open>f\<close> is what it makes of a result.
\<close>

definition call_gives :: "client_codec \<Rightarrow> ('v \<Rightarrow> 'a await) \<Rightarrow> 'v await \<Rightarrow> 'a await \<Rightarrow> bool" where
  "call_gives cdc f res r \<longleftrightarrow>
     (case res of
        Done v \<Rightarrow> r = f v
      | Blocked \<Rightarrow> r = Blocked
      | Raised y \<Rightarrow>
          (case y of
             ServerError x \<Rightarrow> r = Raised (rpc_client_error cdc x)
           | _ \<Rightarrow> \<exists>x. r = Raised x \<and> is_internal x))"

lemma call_gives_simps [simp]:
  "call_gives cdc f (Done v) r \<longleftrightarrow> r = f v"
  "call_gives cdc f Blocked r \<longleftrightarrow> r = Blocked"
  "call_gives cdc f (Raised (ServerError x)) r \<longleftrightarrow> r = Raised (rpc_client_error cdc x)"
  by (simp_all add: call_gives_def)

lemma wire_unary_reply:
  assumes "wire_site px site c" and "json_request req"
    and "allowed_content_length (rs_app site) (site_request site (dump_request True req))"
    and "process_streaming (app_handler (rs_app site)) (rs_handler site) req (with_method (request_method req) c) s = None"
    and "process_non_streaming (app_handler (rs_app site)) (rs_handler site) req (with_method (request_method req) c) s =
           (catch_server_error (request_rpc_id req) (await_map g res), s')"
  shows "site_reply site (dump_request True req) s =
     ((case res of
         Done v \<Rightarrow> Rpc_Json (g v) (extension_header (rs_activated site))
       | Blocked \<Rightarrow> Rpc_Hang
       | Raised (ServerError x) \<Rightarrow> Rpc_Json (error_response (request_rpc_id req) x) (extension_header (rs_activated site))
       | Raised (ServerErrorStr u) \<Rightarrow> reply_exception (px_text px) (Some (request_rpc_id req)) ValidationError
       | Raised y \<Rightarrow> reply_exception (px_text px) (Some (request_rpc_id req)) y), s')"
proof -
  from wire_accepts [OF assms(1-3), of undefined undefined]
  have acc: "accepted (rs_app site) (rs_codec site) (site_request site (dump_request True req)) req
      (with_method (request_method req) c)"
    by (simp add: site_accepts_def wire_client_def)
  have tx: "rq_text (rs_codec site) = px_text px"
    using assms(1) by (simp add: wire_site_def wire_rpc_def)
  show ?thesis
    using handle_accepted [OF acc, of "rs_handler site" "rs_activated site" s] assms(4,5)
    by (auto simp: site_reply_def create_response_def tx split: await.split exn.split)
qed

text \<open>The client reads what comes back, so it gets the handler's outcome.\<close>

lemma wire_unary:
  assumes "jt_interceptors t = []" and "je_http e = site_http site" and "je_codec e = wire_client px rd et"
    and "wire_site px site c" and "json_request req"
    and "allowed_content_length (rs_app site) (site_request site (dump_request True req))"
    and "process_streaming (app_handler (rs_app site)) (rs_handler site) req (with_method (request_method req) c) s = None"
    and "process_non_streaming (app_handler (rs_app site)) (rs_handler site) req (with_method (request_method req) c) s =
           (catch_server_error (request_rpc_id req) (await_map g res), s')"
    and "answer_ok (\<lambda>v. readable px rd (g v)) res"
  shows "\<exists>r. jt_call e extract req extensions (t, s) = (r, t, s') \<and>
             call_gives (je_codec e) (\<lambda>v. await_of (rpc_result (je_codec e) extract (rs_dump site (g v)))) res r"
proof -
  have dump: "cdc_dump (je_codec e) req = dump_request True req" using assms(3) by (simp add: wire_client_def)
  note reply = wire_unary_reply [OF assms(4-8)]
  note out = jt_call_site [OF assms(1,2), of req s, unfolded dump, OF reply, of "extract" extensions]
  have "list_all (readable px rd) (reply_responses (fst (site_reply site (dump_request True req) s)))"
    using reply assms(9) readable_reply_exception [of px rd]
    by (auto simp: answer_ok_def split: await.splits exn.splits)
  then have rb: "reads_reply (je_codec e) site req s"
    using wire_reads_back [OF assms(4)] dump by (simp add: reads_reply_def assms(3))
  note exc = jt_call_site_exception [OF assms(1,2) rb, unfolded dump, of _ _ _ s' "extract" extensions]
  show ?thesis
  proof (cases res)
    case (Raised y)
    show ?thesis
    proof (cases "\<exists>x. y = ServerError x")
      case True
      then obtain x where y: "y = ServerError x" by blast
      have "reads_one (je_codec e) site (error_response (request_rpc_id req) x)"
        using rb reply Raised y dump by (simp add: reads_reply_def)
      with out Raised y show ?thesis by (simp add: rpc_result_error)
    next
      case False
      then obtain z where "site_reply site (dump_request True req) s = (reply_exception (px_text px) (Some (request_rpc_id req)) z, s')"
        using reply Raised by (cases y) auto
      from exc [OF this] False Raised show ?thesis by (cases y) (auto simp: call_gives_def)
    qed
  qed (use out in auto)
qed

lemma wire_result:
  assumes "je_codec e = wire_client px rd et" and "wire_site px site c"
    and "readable px rd (Rsp_Success \<lparr>srs_id = i, srs_result = v\<rparr>)"
  shows "rpc_result (je_codec e) extract (rs_dump site (Rsp_Success \<lparr>srs_id = i, srs_result = v\<rparr>)) =
     (case extract v of None \<Rightarrow> Inl ValidationError | Some a \<Rightarrow> Inr a)"
  using rpc_result_success [OF wire_reads_one [OF assms(2,3), of et]] by (simp add: assms(1))

text \<open>What a client raises for an error object of the server.\<close>

lemma wire_client_error:
  assumes "je_codec e = wire_client px rd et" and "err_message x = Some m"
  shows "rpc_client_error (je_codec e) (Some x) =
     A2AClientJSONRPCError (x\<lparr>err_kind := K_JSONRPCError\<rparr>) (et (x\<lparr>err_kind := K_JSONRPCError\<rparr>))"
  using assms(2) by (simp add: assms(1) wire_client_def rpc_client_error_def error_at_client_def Let_def)

subsection \<open>Reading a task\<close>

lemma get_task_served:
  assumes "hc_store_ops cfg = mem_ops" and "mem_inv (hs_store s)"
  shows "fst (on_get_task cfg q s) =
           (case mem_view (hs_store s) (tqp_id q) of
              None \<Rightarrow> Inl (raise_server TaskNotFoundError)
            | Some x \<Rightarrow> Inr (apply_history_length x (tqp_history_length q)))"
    and "snd (on_get_task cfg q s) = s"
proof -
  have "fst (on_get_task cfg q s) =
           (case mem_view (hs_store s) (tqp_id q) of
              None \<Rightarrow> Inl (raise_server TaskNotFoundError)
            | Some x \<Rightarrow> Inr (apply_history_length x (tqp_history_length q))) \<and> snd (on_get_task cfg q s) = s"
    using store_get_mem(1) [OF assms, of "tqp_id q"] store_get_mem(2) [OF assms, of "tqp_id q"]
    by (cases "mem_view (hs_store s) (tqp_id q)") (auto simp: on_get_task_def hs_obj_def)
  then show "fst (on_get_task cfg q s) =
           (case mem_view (hs_store s) (tqp_id q) of
              None \<Rightarrow> Inl (raise_server TaskNotFoundError)
            | Some x \<Rightarrow> Inr (apply_history_length x (tqp_history_length q)))"
    and "snd (on_get_task cfg q s) = s" by blast+
qed

text \<open>
  Claim C9. A task read over the wire is the task of the in-memory store: \<open>JsonRpcTransport.get_task\<close> against an application with the
  \<open>DefaultRequestHandler\<close> returns the task that the store has under the id, its history cut to the length that was asked for,
  and changes nothing on either side; for an unknown id it raises the client error with the code, message and data of
  \<open>TaskNotFoundError\<close>, whose class is lost on the way. Nothing is assumed of the form on the wire but JSON values in the
  untyped fields.
\<close>

theorem get_task_on_the_wire:
  assumes "jt_interceptors t = []" and "je_http e = site_http site"
    and "je_codec e = wire_client px (read_GetTaskSuccess px) et" and "wire_site px site c"
    and "json_TaskQueryParams q"
    and "allowed_content_length (rs_app site)
           (site_request site (dump_request True (Req_GetTask \<lparr>gtr_id = IdStr (je_uuid e), gtr_params = q\<rparr>)))"
    and "rs_handler site = default_request_handler cfg gt gc p sched producer agent_cancel other"
    and "hc_store_ops cfg = mem_ops" and "mem_inv (hs_store s)" and "pred_option json_Task (mem_view (hs_store s) (tqp_id q))"
  shows "jt_get_task e q extensions (t, s) =
           ((case mem_view (hs_store s) (tqp_id q) of
               Some x \<Rightarrow> Done (apply_history_length x (tqp_history_length q))
             | None \<Rightarrow> Raised (A2AClientJSONRPCError (TaskNotFoundError\<lparr>err_kind := K_JSONRPCError\<rparr>)
                               (et (TaskNotFoundError\<lparr>err_kind := K_JSONRPCError\<rparr>)))), t, s)"
proof -
  let ?req = "Req_GetTask \<lparr>gtr_id = IdStr (je_uuid e), gtr_params = q\<rparr>"
  let ?res = "case mem_view (hs_store s) (tqp_id q) of
      None \<Rightarrow> Raised (raise_server TaskNotFoundError)
    | Some x \<Rightarrow> Done (Some (apply_history_length x (tqp_history_length q)))"
  let ?g = "\<lambda>v. case v of
      Some t \<Rightarrow> prepare_response_object (Some (IdStr (je_uuid e))) (HR_Task t) is_task
    | None \<Rightarrow> build_error_response (Some (IdStr (je_uuid e))) TaskNotFoundError"
  have "rh_get_task (rs_handler site) q call s = (?res, s)" for call
    using get_task_served [OF assms(8,9), of q] assms(7)
    by (cases "on_get_task cfg q s") (auto simp: default_request_handler_def split: option.splits)
  then have ns: "process_non_streaming (app_handler (rs_app site)) (rs_handler site) ?req (with_method (request_method ?req) c) s =
      (catch_server_error (request_rpc_id ?req) (await_map ?g ?res), s)"
    by (simp add: rpc_get_task_def respond_task_def)
  have ok: "answer_ok (\<lambda>v. readable px (read_GetTaskSuccess px) (?g v)) ?res"
    using assms(10)
    by (auto simp: answer_ok_def prepare_response_object_def read_GetTaskSuccess_def as_variant_def json_apply_history_length
        error_opt_ok_def error_ok_def TaskNotFoundError_def wire_simps split: option.split)
  have j: "json_request ?req" using assms(5) by (simp add: json_GetTaskRequest_def)
  have ps: "process_streaming (app_handler (rs_app site)) (rs_handler site) ?req (with_method (request_method ?req) c) s = None"
    by simp
  have m: "err_message TaskNotFoundError = Some ''Task not found''" by (simp add: TaskNotFoundError_def)
  have rd: "rpc_result (je_codec e) HttpClient.as_task (rs_dump site (?g (Some (apply_history_length x n)))) = Inr (apply_history_length x n)"
    if "mem_view (hs_store s) (tqp_id q) = Some x" for x n
    using that assms(10) wire_result [OF assms(3,4), of "Some (IdStr (je_uuid e))" "HR_Task (apply_history_length x n)" HttpClient.as_task]
    by (simp add: prepare_response_object_def read_GetTaskSuccess_def as_variant_def json_apply_history_length wire_simps)
  show ?thesis
    using wire_unary [OF assms(1-4) j assms(6) ps ns ok, of HttpClient.as_task extensions] rd wire_client_error [OF assms(3) m]
    by (auto simp: jt_get_task_def split: option.splits)
qed

subsection \<open>Cancelling a task\<close>

text \<open>
  A cancellation over the wire: the client gets the outcome of \<open>on_cancel_task\<close>, an error of the server as one error object; and
  it gets a task only if the store had a task under the id that was not in a terminal state, and the agent has brought it to
  the canceled state.
\<close>

theorem cancel_on_the_wire:
  assumes "jt_interceptors t = []" and "je_http e = site_http site"
    and "je_codec e = wire_client px (read_CancelTaskSuccess px) et" and "wire_site px site c" and "json_TaskIdParams q"
    and "allowed_content_length (rs_app site)
           (site_request site (dump_request True (Req_CancelTask \<lparr>ctr_id = IdStr (je_uuid e), ctr_params = q\<rparr>)))"
    and "rs_handler site = default_request_handler cfg gt gc p sched producer agent_cancel other"
    and "hc_store_ops cfg = mem_ops" and "on_cancel_task cfg q agent_cancel other s = (res, s')" and "answer_ok json_Task res"
  shows "\<exists>r. jt_cancel_task e q extensions (t, s) = (r, t, s') \<and> call_gives (je_codec e) Done res r \<and>
           (\<forall>x. r = Done x \<longrightarrow> status_state (task_status x) = canceled \<and>
              (\<exists>x0. mem_view (hs_store s) (tip_id q) = Some x0 \<and> \<not> in_terminal_state x0))"
proof -
  let ?req = "Req_CancelTask \<lparr>ctr_id = IdStr (je_uuid e), ctr_params = q\<rparr>"
  let ?g = "\<lambda>v. case v of
      Some t \<Rightarrow> prepare_response_object (Some (IdStr (je_uuid e))) (HR_Task t) is_task
    | None \<Rightarrow> build_error_response (Some (IdStr (je_uuid e))) TaskNotFoundError"
  have ns: "process_non_streaming (app_handler (rs_app site)) (rs_handler site) ?req (with_method (request_method ?req) c) s =
      (catch_server_error (request_rpc_id ?req) (await_map ?g (await_map Some res)), s')"
    using assms(9) by (simp add: assms(7) rpc_cancel_task_def respond_task_def default_request_handler_def)
  have r: "readable px (read_CancelTaskSuccess px) (?g (Some x))" if "json_Task x" for x
    using that by (simp add: prepare_response_object_def read_CancelTaskSuccess_def as_variant_def wire_simps)
  have ok: "answer_ok (\<lambda>v. readable px (read_CancelTaskSuccess px) (?g v)) (await_map Some res)"
    using assms(10) r by (cases res) (auto simp: answer_ok_def)
  have j: "json_request ?req" using assms(5) by (simp add: json_CancelTaskRequest_def)
  have ps: "process_streaming (app_handler (rs_app site)) (rs_handler site) ?req (with_method (request_method ?req) c) s = None"
    by simp
  from wire_unary [OF assms(1-4) j assms(6) ps ns ok, of HttpClient.as_task extensions] obtain r where
    r: "jt_cancel_task e q extensions (t, s) = (r, t, s')"
    and g: "call_gives (je_codec e) (\<lambda>v. await_of (rpc_result (je_codec e) HttpClient.as_task (rs_dump site (?g v)))) (await_map Some res) r"
    by (auto simp: jt_cancel_task_def)
  have "rpc_result (je_codec e) HttpClient.as_task (rs_dump site (?g (Some x))) = Inr x" if "json_Task x" for x
    using wire_result [OF assms(3,4), of "Some (IdStr (je_uuid e))" "HR_Task x" HttpClient.as_task] that
    by (simp add: prepare_response_object_def read_CancelTaskSuccess_def as_variant_def wire_simps)
  with g assms(10) have g': "call_gives (je_codec e) Done res r"
    by (cases res) (auto simp: answer_ok_def call_gives_def)
  have "res = Done x" if "r = Done x" for x
    using g' that by (auto simp: call_gives_def split: await.splits exn.splits)
  with r g' cancel_returns_canceled [OF assms(8)] assms(9) show ?thesis by blast
qed

subsection \<open>Push notification configurations\<close>

lemma set_config_served:
  assumes "hc_store_ops cfg = mem_ops" and "hc_push_store cfg = Some mem_push_ops" and "mem_inv (hs_store s)"
    and "mem_view (hs_store s) tid = Some x"
  shows "on_set_task_push_notification_config cfg \<lparr>tpnc_push_notification_config = c, tpnc_task_id = tid\<rparr> s =
     (Inr \<lparr>tpnc_push_notification_config = with_default_id tid c, tpnc_task_id = tid\<rparr>,
      s\<lparr>hs_push := snd (mem_set_info tid c (hs_push s))\<rparr>)"
  using store_get_mem(2) [OF assms(1,3,4)] assms(2)
  by (auto simp: on_set_task_push_notification_config_def with_push_store_def mem_push_ops_def mem_set_info_def Let_def)

lemma get_config_served:
  assumes "hc_store_ops cfg = mem_ops" and "hc_push_store cfg = Some mem_push_ops" and "mem_inv (hs_store s)"
    and "mem_view (hs_store s) (gtp_id q) = Some x" and "mem_get_info (gtp_id q) (hs_push s) = d # ds"
  shows "on_get_task_push_notification_config cfg (GCP_Config q) s =
     (Inr \<lparr>tpnc_push_notification_config = d, tpnc_task_id = gtp_id q\<rparr>, s)"
  using store_get_mem(2) [OF assms(1,3,4)] assms(2,5)
  by (auto simp: on_get_task_push_notification_config_def with_push_store_def mem_push_ops_def get_config_task_id_def)

text \<open>A configuration in the answer to a call.\<close>

lemma wire_config_call:
  assumes "jt_interceptors t = []" and "je_http e = site_http site"
    and "je_codec e = wire_client px (as_variant HR_PushConfig read_TaskPushNotificationConfig) et" and "wire_site px site c"
    and "json_request req" and "allowed_content_length (rs_app site) (site_request site (dump_request True req))"
    and "process_streaming (app_handler (rs_app site)) (rs_handler site) req (with_method (request_method req) c) s = None"
    and "process_non_streaming (app_handler (rs_app site)) (rs_handler site) req (with_method (request_method req) c) s =
           (respond (request_rpc_id req) is_push_config (await_map HR_PushConfig (Done v)), s')"
  shows "jt_call e HttpClient.as_push_config req extensions (t, s) = (Done v, t, s')"
proof -
  let ?g = "\<lambda>v. prepare_response_object (Some (request_rpc_id req)) (HR_PushConfig v) is_push_config"
  have g: "?g v = Rsp_Success \<lparr>srs_id = Some (request_rpc_id req), srs_result = HR_PushConfig v\<rparr>" for v
    by (simp add: prepare_response_object_def)
  have r: "readable px (as_variant HR_PushConfig read_TaskPushNotificationConfig) (?g v)" for v
    by (simp add: g as_variant_def wire_simps)
  have ns: "process_non_streaming (app_handler (rs_app site)) (rs_handler site) req (with_method (request_method req) c) s =
      (catch_server_error (request_rpc_id req) (await_map ?g (Done v)), s')"
    using assms(8) by (simp add: respond_def)
  have ok: "answer_ok (\<lambda>v. readable px (as_variant HR_PushConfig read_TaskPushNotificationConfig) (?g v)) (Done v)"
    using r by (simp add: answer_ok_def)
  from wire_unary [OF assms(1-7) ns ok, of HttpClient.as_push_config extensions]
    wire_result [OF assms(3,4) r [unfolded g], of HttpClient.as_push_config v]
  show ?thesis by (simp add: g)
qed

text \<open>
  Claim C10. A push notification configuration set over the wire and read again, with the in-memory task and configuration
  stores. Setting: for a known task and a card that offers push notifications the caller gets the configuration under its id (the
  task's id when it has none), and in the server it replaces the task's configuration with that id or is added to the task's
  configurations; the configurations of other tasks and the tasks do not change. Getting: when the task has no configuration
  under another id, the get call that follows returns the configuration that was set, whatever configuration id it
  asks for, and changes nothing. The two requests are within the content length that the application allows.
\<close>

theorem push_config_on_the_wire:
  assumes "jt_interceptors t = []" and "wire_site px site ctx" and "push_supported (app_card (rs_app site))"
    and "je_http e = site_http site" and "je_codec e = wire_client px read_SetPushConfigSuccess et"
    and "je_http e' = site_http site" and "je_codec e' = wire_client px read_GetPushConfigSuccess et"
    and "json_GetTaskPushNotificationConfigParams q" and "gtp_id q = tid" and "gtp_push_notification_config_id q = Some i"
    and "allowed_content_length (rs_app site) (site_request site (dump_request True (Req_SetPushConfig
           \<lparr>spr_id = IdStr (je_uuid e), spr_params = \<lparr>tpnc_push_notification_config = c, tpnc_task_id = tid\<rparr>\<rparr>)))"
    and "allowed_content_length (rs_app site) (site_request site (dump_request True (Req_GetPushConfig
           \<lparr>gpr_id = IdStr (je_uuid e'), gpr_params = GCP_Config q\<rparr>)))"
    and "rs_handler site = default_request_handler cfg gt gc p sched producer agent_cancel other"
    and "hc_store_ops cfg = mem_ops" and "hc_push_store cfg = Some mem_push_ops" and "mem_inv (hs_store s)"
    and "mem_push_inv (hs_push s)" and "mem_view (hs_store s) tid = Some x"
  shows "\<exists>s1. jt_set_task_callback e \<lparr>tpnc_push_notification_config = c, tpnc_task_id = tid\<rparr> extensions (t, s) =
              (Done \<lparr>tpnc_push_notification_config = with_default_id tid c, tpnc_task_id = tid\<rparr>, t, s1) \<and>
            set (mem_get_info tid (hs_push s1)) = insert (with_default_id tid c)
              {d \<in> set (mem_get_info tid (hs_push s)). pnc_id d \<noteq> Some (effective_id tid c)} \<and>
            hs_store s1 = hs_store s \<and> (\<forall>i. i \<noteq> tid \<longrightarrow> mem_get_info i (hs_push s1) = mem_get_info i (hs_push s)) \<and>
            ((\<forall>d \<in> set (mem_get_info tid (hs_push s)). pnc_id d = Some (effective_id tid c)) \<longrightarrow>
             jt_get_task_callback e' q extensions (t, s1) =
               (Done \<lparr>tpnc_push_notification_config = with_default_id tid c, tpnc_task_id = tid\<rparr>, t, s1))"
proof -
  let ?v = "\<lparr>tpnc_push_notification_config = with_default_id tid c, tpnc_task_id = tid\<rparr>"
  let ?p = "\<lparr>tpnc_push_notification_config = c, tpnc_task_id = tid\<rparr>"
  let ?s1 = "s\<lparr>hs_push := snd (mem_set_info tid c (hs_push s))\<rparr>"
  let ?set = "Req_SetPushConfig \<lparr>spr_id = IdStr (je_uuid e), spr_params = ?p\<rparr>"
  let ?get = "Req_GetPushConfig \<lparr>gpr_id = IdStr (je_uuid e'), gpr_params = GCP_Config q\<rparr>"
  note def = assms(13)
  have set: "rh_set_config (rs_handler site) ?p call s = (Done ?v, ?s1)" for call
    by (simp add: def default_request_handler_def set_config_served [OF assms(14-16,18)])
  have stored: "set (mem_get_info tid (hs_push ?s1)) = insert (with_default_id tid c)
      {d \<in> set (mem_get_info tid (hs_push s)). pnc_id d \<noteq> Some (effective_id tid c)}"
    using memp.set_then_get [OF assms(17), of tid c] by (simp add: mem_push_ops_def)
  have "jt_call e HttpClient.as_push_config ?set extensions (t, s) = (Done ?v, t, ?s1)"
    by (rule wire_config_call [OF assms(1,4) assms(5) [unfolded read_SetPushConfigSuccess_def] assms(2) _ assms(11)])
       (simp_all add: rpc_set_config_def guarded_simps app_handler_def assms(3) set)
  moreover have "jt_call e' HttpClient.as_push_config ?get extensions (t, ?s1) = (Done ?v, t, ?s1)"
    if "\<forall>d \<in> set (mem_get_info tid (hs_push s)). pnc_id d = Some (effective_id tid c)"
  proof -
    from that stored obtain ds where ds: "mem_get_info tid (hs_push ?s1) = with_default_id tid c # ds"
      by (cases "mem_get_info tid (hs_push ?s1)") auto
    have get: "rh_get_config (rs_handler site) (GCP_Config q) call ?s1 = (Done ?v, ?s1)" for call
      using get_config_served [OF assms(14,15), of ?s1 q x "with_default_id tid c" ds] assms(9,16,18) ds
      by (simp add: def default_request_handler_def)
    show ?thesis
      by (rule wire_config_call [OF assms(1,6) assms(7) [unfolded read_GetPushConfigSuccess_def] assms(2) _ assms(12)])
         (use assms(8,10) in \<open>simp_all add: rpc_get_config_def get json_GetTaskPushNotificationConfigRequest_def\<close>)
  qed
  moreover have "mem_get_info i (hs_push ?s1) = mem_get_info i (hs_push s)" if "i \<noteq> tid" for i
    using that by (simp add: mem_get_info_def mem_set_info_def Let_def)
  ultimately show ?thesis
    using stored by (intro exI [of _ ?s1]) (simp add: jt_set_task_callback_def jt_get_task_callback_def)
qed

text \<open>The application in front of a handler.\<close>

definition life_site :: "'s request_handler \<Rightarrow> 's rpc_site" where
  "life_site rh =
     \<lparr>rs_app = sample_app (Some True), rs_codec = wire_rpc strict_pydantic, rs_handler = rh, rs_activated = {},
      rs_context = Inr default_call_context, rs_length = (\<lambda>v. None), rs_dump = dump_response True\<rparr>"

definition call_env :: "(pyval \<Rightarrow> exn + handler_result) \<Rightarrow> 's request_handler \<Rightarrow> 's jt_env" where
  "call_env rd rh =
     \<lparr>je_http = site_http (life_site rh), je_codec = wire_client strict_pydantic rd (\<lambda>e. []),
      je_card_codec = \<lparr>cdk_read = (\<lambda>v. Inl [])\<rparr>, je_uuid = ''u1'', je_context = None\<rparr>"

lemma call_env_simps [simp]:
  "je_http (call_env rd rh) = site_http (life_site rh)"
  "je_codec (call_env rd rh) = wire_client strict_pydantic rd (\<lambda>e. [])"
  "wire_site strict_pydantic (life_site rh) default_call_context"
  "rs_handler (life_site rh) = rh"
  "allowed_content_length (rs_app (life_site rh)) (site_request (life_site rh) v)"
  "push_supported (app_card (rs_app (life_site rh)))"
  by (simp_all add: call_env_def life_site_def wire_site_def allowed_content_length_def site_request_def sample_app_def
      push_supported_def sample_card_def)

definition plain_transport :: "'s json_rpc_transport" where
  "plain_transport = \<lparr>jt_url = ''u'', jt_agent_card = None, jt_interceptors = [], jt_needs_extended_card = None, jt_extensions = None\<rparr>"

definition store_handler :: "(mem_store, mem_push) handler_state request_handler" where
  "store_handler = default_request_handler sample_cfg ''g'' ''h'' 0 [] (Done ()) (\<lambda>rc. Inr []) []"

lemma store_handler_site:
  "rs_handler (life_site store_handler) = default_request_handler sample_cfg ''g'' ''h'' 0 [] (Done ()) (\<lambda>rc. Inr []) []"
  by (simp add: store_handler_def)

theorem get_task_on_the_wire_witness:
  "jt_get_task (call_env (read_GetTaskSuccess strict_pydantic) store_handler)
       \<lparr>tqp_history_length = None, tqp_id = ''t'', tqp_metadata = None\<rparr> None (plain_transport, sample_handler working) =
     (Done (sample_task\<lparr>task_status := plain_status working\<rparr>), plain_transport, sample_handler working) \<and>
   fst (jt_get_task (call_env (read_GetTaskSuccess strict_pydantic) store_handler)
       \<lparr>tqp_history_length = None, tqp_id = ''x'', tqp_metadata = None\<rparr> None (plain_transport, sample_handler working)) =
     Raised (A2AClientJSONRPCError (TaskNotFoundError\<lparr>err_kind := K_JSONRPCError\<rparr>) [])"
proof -
  have t: "json_Task (sample_task\<lparr>task_status := plain_status working\<rparr>)"
    by (simp add: sample_task_def json_Task_def json_TaskStatus_def plain_status_def)
  have j: "jt_interceptors plain_transport = []" by (simp add: plain_transport_def)
  have q: "json_TaskQueryParams \<lparr>tqp_history_length = None, tqp_id = i, tqp_metadata = None\<rparr>" for i
    by (simp add: json_TaskQueryParams_def)
  note get = get_task_on_the_wire [OF j call_env_simps(1-3) q call_env_simps(5) store_handler_site
      sample_handler_store(4) sample_handler_store(1), where extensions = None]
  from get [of working "''t''"] get [of working "''x''"] t show ?thesis
    by (simp add: apply_history_length_def)
qed

text \<open>The agent answers a cancellation with its final status.\<close>

definition cancel_handler :: "(mem_store, mem_push) handler_state request_handler" where
  "cancel_handler = default_request_handler sample_cfg ''g'' ''h'' 0 [] (Done ())
     (\<lambda>rc. Inr [Op_Enqueue (EvStatus ((sample_status canceled None)\<lparr>sue_final := True\<rparr>))]) (EventConsumer.quiet 2)"

theorem cancel_on_the_wire_witness:
  "\<exists>s'. jt_cancel_task (call_env (read_CancelTaskSuccess strict_pydantic) cancel_handler) \<lparr>tip_id = ''x'', tip_metadata = None\<rparr> None
       (plain_transport, sample_handler working) =
     (Raised (A2AClientJSONRPCError (TaskNotFoundError\<lparr>err_kind := K_JSONRPCError\<rparr>) []), plain_transport, s')"
proof -
  have j: "jt_interceptors plain_transport = []" by (simp add: plain_transport_def)
  have q: "json_TaskIdParams \<lparr>tip_id = ''x'', tip_metadata = None\<rparr>" by (simp add: json_TaskIdParams_def)
  have site: "rs_handler (life_site cancel_handler) = default_request_handler sample_cfg ''g'' ''h'' 0 [] (Done ())
     (\<lambda>rc. Inr [Op_Enqueue (EvStatus ((sample_status canceled None)\<lparr>sue_final := True\<rparr>))]) (EventConsumer.quiet 2)"
    by (simp add: cancel_handler_def)
  have c: "on_cancel_task sample_cfg \<lparr>tip_id = ''x'', tip_metadata = None\<rparr>
     (\<lambda>rc. Inr [Op_Enqueue (EvStatus ((sample_status canceled None)\<lparr>sue_final := True\<rparr>))]) (EventConsumer.quiet 2) (sample_handler working) =
     (Raised (raise_server TaskNotFoundError), sample_handler working)"
    using store_get_mem(1) [OF sample_handler_store(4,1), of working "''x''"] by (simp add: on_cancel_task_def)
  have ok: "answer_ok json_Task (Raised (raise_server TaskNotFoundError))"
    by (simp add: answer_ok_def error_opt_ok_def error_ok_def TaskNotFoundError_def)
  have m: "err_message TaskNotFoundError = Some ''Task not found''" by (simp add: TaskNotFoundError_def)
  show ?thesis
    using cancel_on_the_wire [OF j call_env_simps(1-3) q call_env_simps(5) site sample_handler_store(4) c ok, of None]
      wire_client_error [OF call_env_simps(2) m, of "read_CancelTaskSuccess strict_pydantic" cancel_handler]
    by auto
qed

theorem push_config_on_the_wire_witness:
  "\<exists>s1. jt_set_task_callback (call_env read_SetPushConfigSuccess store_handler)
       \<lparr>tpnc_push_notification_config = sample_config None ''u'', tpnc_task_id = ''t''\<rparr> None
       (plain_transport, sample_handler working) =
     (Done \<lparr>tpnc_push_notification_config = sample_config (Some ''t'') ''u'', tpnc_task_id = ''t''\<rparr>, plain_transport, s1) \<and>
     jt_get_task_callback (call_env read_GetPushConfigSuccess store_handler)
       \<lparr>gtp_id = ''t'', gtp_metadata = None, gtp_push_notification_config_id = Some ''b''\<rparr> None (plain_transport, s1) =
     (Done \<lparr>tpnc_push_notification_config = sample_config (Some ''t'') ''u'', tpnc_task_id = ''t''\<rparr>, plain_transport, s1)"
proof -
  have j: "jt_interceptors plain_transport = []" by (simp add: plain_transport_def)
  have q: "json_GetTaskPushNotificationConfigParams
      \<lparr>gtp_id = ''t'', gtp_metadata = None, gtp_push_notification_config_id = Some ''b''\<rparr>"
    and g: "gtp_id \<lparr>gtp_id = ''t'', gtp_metadata = None, gtp_push_notification_config_id = Some ''b''\<rparr> = ''t''"
      "gtp_push_notification_config_id \<lparr>gtp_id = ''t'', gtp_metadata = None, gtp_push_notification_config_id = Some ''b''\<rparr> = Some ''b''"
    by (simp_all add: json_GetTaskPushNotificationConfigParams_def)
  have p: "mem_push_inv (hs_push (sample_handler working))"
    "\<forall>d \<in> set (mem_get_info ''t'' (hs_push (sample_handler working))). pnc_id d = Some (effective_id ''t'' (sample_config None ''u''))"
    by (auto simp: sample_handler_def mem_push_inv_def mem_infos_def mem_get_info_def or_else_def)
  have w: "with_default_id ''t'' (sample_config None ''u'') = sample_config (Some ''t'') ''u''"
    by (simp add: with_default_id_def sample_config_def)
  from push_config_on_the_wire [OF j call_env_simps(3,6,1,2,1,2) q g call_env_simps(5,5) store_handler_site
      sample_handler_store(4,5,1) p(1) sample_handler_store(2), where c = "sample_config None ''u''" and extensions = None] p(2)
  show ?thesis unfolding w by blast
qed

end
