(* ===== verification/GrpcService.thy ===== *)
theory GrpcService
  imports GrpcClient
begin

section \<open>The generated service (grpc/a2a_pb2_grpc.py)\<close>

text \<open>
  What the grpc plugin generated for the service: the stub with a call per method, the base servicer whose methods are not
  implemented, and the table that is added to a server. The grpc library is not part of the repository; what is modelled of
  it is that a channel carries a call to the server's method of the same path, and that a path without a method is
  UNIMPLEMENTED. Bytes are kept as the message they encode, tagged with its class; a reader of another class fails.
\<close>

subsection \<open>Messages\<close>

datatype pb_request =
    Pb_SendMessageRequest pb_SendMessageRequest
  | Pb_GetTaskRequest pb_GetTaskRequest
  | Pb_CancelTaskRequest string
  | Pb_TaskSubscriptionRequest string
  | Pb_CreateConfigRequest pb_CreateTaskPushNotificationConfigRequest
  | Pb_GetConfigRequest string
  | Pb_ListConfigRequest string
  | Pb_DeleteConfigRequest string
  | Pb_GetAgentCardRequest

datatype pb_reply =
    Pb_SendMessageResponse pb_SendMessageResponse
  | Pb_StreamResponse pb_StreamResponse
  | Pb_TaskReply pb_Task
  | Pb_ConfigReply pb_TaskPushNotificationConfig
  | Pb_ListConfigResponse "pb_TaskPushNotificationConfig list"
  | Pb_CardReply pb_AgentCard
  | Pb_Empty

text \<open>\<open>FromString\<close> of each class.\<close>

fun send_request_of :: "pb_request \<Rightarrow> pb_SendMessageRequest option" where
  "send_request_of (Pb_SendMessageRequest r) = Some r"
| "send_request_of r = None"

fun get_task_of :: "pb_request \<Rightarrow> pb_GetTaskRequest option" where
  "get_task_of (Pb_GetTaskRequest r) = Some r"
| "get_task_of r = None"

fun cancel_of :: "pb_request \<Rightarrow> string option" where
  "cancel_of (Pb_CancelTaskRequest n) = Some n"
| "cancel_of r = None"

fun subscription_of :: "pb_request \<Rightarrow> string option" where
  "subscription_of (Pb_TaskSubscriptionRequest n) = Some n"
| "subscription_of r = None"

fun create_config_of :: "pb_request \<Rightarrow> pb_CreateTaskPushNotificationConfigRequest option" where
  "create_config_of (Pb_CreateConfigRequest r) = Some r"
| "create_config_of r = None"

fun get_config_of :: "pb_request \<Rightarrow> string option" where
  "get_config_of (Pb_GetConfigRequest n) = Some n"
| "get_config_of r = None"

fun list_config_of :: "pb_request \<Rightarrow> string option" where
  "list_config_of (Pb_ListConfigRequest n) = Some n"
| "list_config_of r = None"

fun delete_config_of :: "pb_request \<Rightarrow> string option" where
  "delete_config_of (Pb_DeleteConfigRequest n) = Some n"
| "delete_config_of r = None"

fun get_card_of :: "pb_request \<Rightarrow> unit option" where
  "get_card_of Pb_GetAgentCardRequest = Some ()"
| "get_card_of r = None"

fun send_response_of :: "pb_reply \<Rightarrow> pb_SendMessageResponse option" where
  "send_response_of (Pb_SendMessageResponse r) = Some r"
| "send_response_of r = None"

fun stream_response_of :: "pb_reply \<Rightarrow> pb_StreamResponse option" where
  "stream_response_of (Pb_StreamResponse r) = Some r"
| "stream_response_of r = None"

fun task_of :: "pb_reply \<Rightarrow> pb_Task option" where
  "task_of (Pb_TaskReply t) = Some t"
| "task_of r = None"

fun config_of :: "pb_reply \<Rightarrow> pb_TaskPushNotificationConfig option" where
  "config_of (Pb_ConfigReply c) = Some c"
| "config_of r = None"

fun config_list_of :: "pb_reply \<Rightarrow> pb_TaskPushNotificationConfig list option" where
  "config_list_of (Pb_ListConfigResponse cs) = Some cs"
| "config_list_of r = None"

fun card_reply_of :: "pb_reply \<Rightarrow> pb_AgentCard option" where
  "card_reply_of (Pb_CardReply c) = Some c"
| "card_reply_of r = None"

fun empty_of :: "pb_reply \<Rightarrow> unit option" where
  "empty_of Pb_Empty = Some ()"
| "empty_of r = None"

subsection \<open>Servicers\<close>

record 's servicer =
  sv_SendMessage :: "pb_SendMessageRequest \<Rightarrow> 's \<Rightarrow> pb_SendMessageResponse grpc_outcome \<times> 's"
  sv_SendStreamingMessage :: "pb_SendMessageRequest \<Rightarrow> 's \<Rightarrow> (pb_StreamResponse list \<times> unit grpc_outcome) \<times> 's"
  sv_GetTask :: "pb_GetTaskRequest \<Rightarrow> 's \<Rightarrow> pb_Task grpc_outcome \<times> 's"
  sv_CancelTask :: "string \<Rightarrow> 's \<Rightarrow> pb_Task grpc_outcome \<times> 's"
  sv_TaskSubscription :: "string \<Rightarrow> 's \<Rightarrow> (pb_StreamResponse list \<times> unit grpc_outcome) \<times> 's"
  sv_CreateTaskPushNotificationConfig ::
    "pb_CreateTaskPushNotificationConfigRequest \<Rightarrow> 's \<Rightarrow> pb_TaskPushNotificationConfig grpc_outcome \<times> 's"
  sv_GetTaskPushNotificationConfig :: "string \<Rightarrow> 's \<Rightarrow> pb_TaskPushNotificationConfig grpc_outcome \<times> 's"
  sv_ListTaskPushNotificationConfig :: "string \<Rightarrow> 's \<Rightarrow> pb_TaskPushNotificationConfig list grpc_outcome \<times> 's"
  sv_GetAgentCard :: "unit \<Rightarrow> 's \<Rightarrow> pb_AgentCard grpc_outcome \<times> 's"
  sv_DeleteTaskPushNotificationConfig :: "string \<Rightarrow> 's \<Rightarrow> unit grpc_outcome \<times> 's"

text \<open>
  A method of the base class sets code and details of the context and raises \<open>NotImplementedError\<close>; the server reports the
  code that was set.
\<close>

definition base_servicer :: "'s servicer" where
  "base_servicer =
     \<lparr>sv_SendMessage = (\<lambda>r s. (grpc_unimplemented, s)),
      sv_SendStreamingMessage = (\<lambda>r s. (([], grpc_unimplemented), s)),
      sv_GetTask = (\<lambda>r s. (grpc_unimplemented, s)),
      sv_CancelTask = (\<lambda>r s. (grpc_unimplemented, s)),
      sv_TaskSubscription = (\<lambda>r s. (([], grpc_unimplemented), s)),
      sv_CreateTaskPushNotificationConfig = (\<lambda>r s. (grpc_unimplemented, s)),
      sv_GetTaskPushNotificationConfig = (\<lambda>r s. (grpc_unimplemented, s)),
      sv_ListTaskPushNotificationConfig = (\<lambda>r s. (grpc_unimplemented, s)),
      sv_GetAgentCard = (\<lambda>r s. (grpc_unimplemented, s)),
      sv_DeleteTaskPushNotificationConfig = (\<lambda>r s. (grpc_unimplemented, s))\<rparr>"

text \<open>\<open>class GrpcHandler(a2a_grpc.A2AServiceServicer)\<close>: the methods that it overrides.\<close>

definition handler_servicer :: "grpc_env \<Rightarrow> grpc_handler \<Rightarrow> 's request_handler \<Rightarrow> 's servicer" where
  "handler_servicer ge h rh =
     base_servicer
       \<lparr>sv_SendMessage := grpc_SendMessage ge rh,
        sv_SendStreamingMessage := grpc_SendStreamingMessage ge h rh,
        sv_GetTask := grpc_GetTask ge rh,
        sv_CancelTask := grpc_CancelTask ge rh,
        sv_TaskSubscription := grpc_TaskSubscription ge h rh,
        sv_CreateTaskPushNotificationConfig := grpc_CreateTaskPushNotificationConfig ge h rh,
        sv_GetTaskPushNotificationConfig := grpc_GetTaskPushNotificationConfig ge rh,
        sv_GetAgentCard := (\<lambda>r s. (grpc_GetAgentCard ge h, s))\<rparr>"

subsection \<open>The table of a server\<close>

datatype 's method_handler =
    Unary_Unary "pb_request \<Rightarrow> 's \<Rightarrow> pb_reply grpc_outcome \<times> 's"
  | Unary_Stream "pb_request \<Rightarrow> 's \<Rightarrow> (pb_reply list \<times> unit grpc_outcome) \<times> 's"

text \<open>Bytes that are no message of the expected class.\<close>

definition not_decoded :: "'a grpc_outcome" where
  "not_decoded = G_Abort INTERNAL ''Exception deserializing message!''"

definition unary_unary_handler ::
  "('r \<Rightarrow> 's \<Rightarrow> 'a grpc_outcome \<times> 's) \<Rightarrow> (pb_request \<Rightarrow> 'r option) \<Rightarrow> ('a \<Rightarrow> pb_reply) \<Rightarrow> 's method_handler" where
  "unary_unary_handler f deserializer serializer =
     Unary_Unary (\<lambda>q s.
       case deserializer q of
         None \<Rightarrow> (not_decoded, s)
       | Some r \<Rightarrow> (let (x, s') = f r s in (map_grpc_outcome serializer x, s')))"

definition unary_stream_handler ::
  "('r \<Rightarrow> 's \<Rightarrow> ('a list \<times> unit grpc_outcome) \<times> 's) \<Rightarrow> (pb_request \<Rightarrow> 'r option) \<Rightarrow> ('a \<Rightarrow> pb_reply) \<Rightarrow> 's method_handler" where
  "unary_stream_handler f deserializer serializer =
     Unary_Stream (\<lambda>q s.
       case deserializer q of
         None \<Rightarrow> (([], not_decoded), s)
       | Some r \<Rightarrow> (let ((xs, z), s') = f r s in ((map serializer xs, z), s')))"

type_synonym 's grpc_server = "(string \<times> 's method_handler) list"

definition service_path :: "string \<Rightarrow> string" where
  "service_path name = ''/a2a.v1.A2AService/'' @ name"

definition rpc_method_handlers :: "'s servicer \<Rightarrow> (string \<times> 's method_handler) list" where
  "rpc_method_handlers sv =
     [(''SendMessage'', unary_unary_handler (sv_SendMessage sv) send_request_of Pb_SendMessageResponse),
      (''SendStreamingMessage'', unary_stream_handler (sv_SendStreamingMessage sv) send_request_of Pb_StreamResponse),
      (''GetTask'', unary_unary_handler (sv_GetTask sv) get_task_of Pb_TaskReply),
      (''CancelTask'', unary_unary_handler (sv_CancelTask sv) cancel_of Pb_TaskReply),
      (''TaskSubscription'', unary_stream_handler (sv_TaskSubscription sv) subscription_of Pb_StreamResponse),
      (''CreateTaskPushNotificationConfig'',
         unary_unary_handler (sv_CreateTaskPushNotificationConfig sv) create_config_of Pb_ConfigReply),
      (''GetTaskPushNotificationConfig'',
         unary_unary_handler (sv_GetTaskPushNotificationConfig sv) get_config_of Pb_ConfigReply),
      (''ListTaskPushNotificationConfig'',
         unary_unary_handler (sv_ListTaskPushNotificationConfig sv) list_config_of Pb_ListConfigResponse),
      (''GetAgentCard'', unary_unary_handler (sv_GetAgentCard sv) get_card_of Pb_CardReply),
      (''DeleteTaskPushNotificationConfig'',
         unary_unary_handler (sv_DeleteTaskPushNotificationConfig sv) delete_config_of (\<lambda>u. Pb_Empty))]"

text \<open>A method of the service is found under the path of the service and its name.\<close>

definition add_servicer_to_server :: "'s servicer \<Rightarrow> 's grpc_server \<Rightarrow> 's grpc_server" where
  "add_servicer_to_server sv server =
     server @ map (\<lambda>(n, m). (service_path n, m)) (rpc_method_handlers sv)"

subsection \<open>The stub\<close>

fun decode_reply :: "(pb_reply \<Rightarrow> 'a option) \<Rightarrow> pb_reply grpc_outcome \<Rightarrow> 'a grpc_outcome" where
  "decode_reply d (G_Reply r md) = (case d r of None \<Rightarrow> not_decoded | Some a \<Rightarrow> G_Reply a md)"
| "decode_reply d (G_Abort c t) = G_Abort c t"
| "decode_reply d (G_Fail e) = G_Fail e"
| "decode_reply d G_Hang = G_Hang"

text \<open>A streaming call of the client reads until a response cannot be decoded.\<close>

fun decode_stream :: "(pb_reply \<Rightarrow> 'a option) \<Rightarrow> pb_reply list \<Rightarrow> unit grpc_outcome \<Rightarrow> 'a list \<times> unit grpc_outcome" where
  "decode_stream d [] z = ([], z)"
| "decode_stream d (r # rs) z =
     (case d r of None \<Rightarrow> ([], not_decoded) | Some a \<Rightarrow> (let (xs, e) = decode_stream d rs z in (a # xs, e)))"

definition no_such_method :: "'a grpc_outcome" where
  "no_such_method = G_Abort UNIMPLEMENTED ''Method not found!''"

text \<open>\<open>channel.unary_unary(path, serializer, deserializer)\<close>; a method of the other kind is refused.\<close>

definition unary_unary ::
  "'s grpc_server \<Rightarrow> string \<Rightarrow> ('r \<Rightarrow> pb_request) \<Rightarrow> (pb_reply \<Rightarrow> 'a option) \<Rightarrow> 'r \<Rightarrow> 's \<Rightarrow> 'a grpc_outcome \<times> 's" where
  "unary_unary server path serializer deserializer request s =
     (case map_of server path of
        None \<Rightarrow> (no_such_method, s)
      | Some (Unary_Stream f) \<Rightarrow> (not_decoded, s)
      | Some (Unary_Unary f) \<Rightarrow>
          (let (x, s') = f (serializer request) s in (decode_reply deserializer x, s')))"

definition unary_stream ::
  "'s grpc_server \<Rightarrow> string \<Rightarrow> ('r \<Rightarrow> pb_request) \<Rightarrow> (pb_reply \<Rightarrow> 'a option) \<Rightarrow> 'r \<Rightarrow> 's \<Rightarrow>
   ('a list \<times> unit grpc_outcome) \<times> 's" where
  "unary_stream server path serializer deserializer request s =
     (case map_of server path of
        None \<Rightarrow> (([], no_such_method), s)
      | Some (Unary_Unary f) \<Rightarrow> (([], not_decoded), s)
      | Some (Unary_Stream f) \<Rightarrow>
          (let ((xs, z), s') = f (serializer request) s in (decode_stream deserializer xs z, s')))"

text \<open>\<open>A2AServiceStub.__init__\<close>; the two methods that no transport of the SDK calls are definitions of their own.\<close>

definition service_stub :: "(status_code \<Rightarrow> exn) \<Rightarrow> 's grpc_server \<Rightarrow> 's grpc_stub" where
  "service_stub err server =
     \<lparr>gs_SendMessage = (\<lambda>r md.
        unary_unary server (service_path ''SendMessage'') Pb_SendMessageRequest send_response_of r),
      gs_SendStreamingMessage = (\<lambda>r md.
        unary_stream server (service_path ''SendStreamingMessage'') Pb_SendMessageRequest stream_response_of r),
      gs_TaskSubscription = (\<lambda>n md.
        unary_stream server (service_path ''TaskSubscription'') Pb_TaskSubscriptionRequest stream_response_of n),
      gs_GetTask = (\<lambda>r md. unary_unary server (service_path ''GetTask'') Pb_GetTaskRequest task_of r),
      gs_CancelTask = (\<lambda>n md. unary_unary server (service_path ''CancelTask'') Pb_CancelTaskRequest task_of n),
      gs_CreateTaskPushNotificationConfig = (\<lambda>r md.
        unary_unary server (service_path ''CreateTaskPushNotificationConfig'') Pb_CreateConfigRequest config_of r),
      gs_GetTaskPushNotificationConfig = (\<lambda>n md.
        unary_unary server (service_path ''GetTaskPushNotificationConfig'') Pb_GetConfigRequest config_of n),
      gs_GetAgentCard = (\<lambda>md.
        unary_unary server (service_path ''GetAgentCard'') (\<lambda>u. Pb_GetAgentCardRequest) card_reply_of ()),
      gs_error = err\<rparr>"

definition stub_list_configs ::
  "'s grpc_server \<Rightarrow> string \<Rightarrow> 's \<Rightarrow> pb_TaskPushNotificationConfig list grpc_outcome \<times> 's" where
  "stub_list_configs server =
     unary_unary server (service_path ''ListTaskPushNotificationConfig'') Pb_ListConfigRequest config_list_of"

definition stub_delete_config :: "'s grpc_server \<Rightarrow> string \<Rightarrow> 's \<Rightarrow> unit grpc_outcome \<times> 's" where
  "stub_delete_config server =
     unary_unary server (service_path ''DeleteTaskPushNotificationConfig'') Pb_DeleteConfigRequest empty_of"
subsection \<open>The experimental interface\<close>

text \<open>
  The static methods of \<open>A2AService\<close> make a channel to the target for the one call; \<open>connect\<close> is the network. Credentials,
  compression and time limits are passed on to grpc.
\<close>

definition service_SendMessage ::
  "(string \<Rightarrow> 's grpc_server) \<Rightarrow> pb_SendMessageRequest \<Rightarrow> string \<Rightarrow> 's \<Rightarrow> pb_SendMessageResponse grpc_outcome \<times> 's" where
  "service_SendMessage connect request target =
     unary_unary (connect target) (service_path ''SendMessage'') Pb_SendMessageRequest send_response_of request"

definition service_SendStreamingMessage ::
  "(string \<Rightarrow> 's grpc_server) \<Rightarrow> pb_SendMessageRequest \<Rightarrow> string \<Rightarrow> 's \<Rightarrow> (pb_StreamResponse list \<times> unit grpc_outcome) \<times> 's" where
  "service_SendStreamingMessage connect request target =
     unary_stream (connect target) (service_path ''SendStreamingMessage'') Pb_SendMessageRequest stream_response_of request"

definition service_GetTask ::
  "(string \<Rightarrow> 's grpc_server) \<Rightarrow> pb_GetTaskRequest \<Rightarrow> string \<Rightarrow> 's \<Rightarrow> pb_Task grpc_outcome \<times> 's" where
  "service_GetTask connect request target =
     unary_unary (connect target) (service_path ''GetTask'') Pb_GetTaskRequest task_of request"

definition service_CancelTask ::
  "(string \<Rightarrow> 's grpc_server) \<Rightarrow> string \<Rightarrow> string \<Rightarrow> 's \<Rightarrow> pb_Task grpc_outcome \<times> 's" where
  "service_CancelTask connect request target =
     unary_unary (connect target) (service_path ''CancelTask'') Pb_CancelTaskRequest task_of request"

definition service_TaskSubscription ::
  "(string \<Rightarrow> 's grpc_server) \<Rightarrow> string \<Rightarrow> string \<Rightarrow> 's \<Rightarrow> (pb_StreamResponse list \<times> unit grpc_outcome) \<times> 's" where
  "service_TaskSubscription connect request target =
     unary_stream (connect target) (service_path ''TaskSubscription'') Pb_TaskSubscriptionRequest stream_response_of request"

definition service_CreateTaskPushNotificationConfig ::
  "(string \<Rightarrow> 's grpc_server) \<Rightarrow> pb_CreateTaskPushNotificationConfigRequest \<Rightarrow> string \<Rightarrow> 's \<Rightarrow> pb_TaskPushNotificationConfig grpc_outcome \<times> 's" where
  "service_CreateTaskPushNotificationConfig connect request target =
     unary_unary (connect target) (service_path ''CreateTaskPushNotificationConfig'') Pb_CreateConfigRequest config_of request"

definition service_GetTaskPushNotificationConfig ::
  "(string \<Rightarrow> 's grpc_server) \<Rightarrow> string \<Rightarrow> string \<Rightarrow> 's \<Rightarrow> pb_TaskPushNotificationConfig grpc_outcome \<times> 's" where
  "service_GetTaskPushNotificationConfig connect request target =
     unary_unary (connect target) (service_path ''GetTaskPushNotificationConfig'') Pb_GetConfigRequest config_of request"

definition service_ListTaskPushNotificationConfig ::
  "(string \<Rightarrow> 's grpc_server) \<Rightarrow> string \<Rightarrow> string \<Rightarrow> 's \<Rightarrow> pb_TaskPushNotificationConfig list grpc_outcome \<times> 's" where
  "service_ListTaskPushNotificationConfig connect request target =
     unary_unary (connect target) (service_path ''ListTaskPushNotificationConfig'') Pb_ListConfigRequest config_list_of request"

definition service_GetAgentCard ::
  "(string \<Rightarrow> 's grpc_server) \<Rightarrow> unit \<Rightarrow> string \<Rightarrow> 's \<Rightarrow> pb_AgentCard grpc_outcome \<times> 's" where
  "service_GetAgentCard connect request target =
     unary_unary (connect target) (service_path ''GetAgentCard'') (\<lambda>u. Pb_GetAgentCardRequest) card_reply_of request"

definition service_DeleteTaskPushNotificationConfig ::
  "(string \<Rightarrow> 's grpc_server) \<Rightarrow> string \<Rightarrow> string \<Rightarrow> 's \<Rightarrow> unit grpc_outcome \<times> 's" where
  "service_DeleteTaskPushNotificationConfig connect request target =
     unary_unary (connect target) (service_path ''DeleteTaskPushNotificationConfig'') Pb_DeleteConfigRequest empty_of request"

subsection \<open>What reaches the handler\<close>

lemma decode_serialized: "(\<And>a. d (ser a) = Some a) \<Longrightarrow> decode_reply d (map_grpc_outcome ser x) = x"
  by (cases x) simp_all

lemma decode_serialized_stream: "(\<And>a. d (ser a) = Some a) \<Longrightarrow> decode_stream d (map ser xs) z = (xs, z)"
  by (induction xs) simp_all

lemma service_path_inj [simp]: "service_path m = service_path n \<longleftrightarrow> m = n"
  by (simp add: service_path_def)

lemma registered:
  assumes "map_of server (service_path n) = None"
  shows "map_of (add_servicer_to_server sv server) (service_path n) = map_of (rpc_method_handlers sv) n"
proof -
  have "map_of (map (\<lambda>(n, m). (service_path n, m)) hs) (service_path n) = map_of hs n" for hs :: "(string \<times> 'a method_handler) list"
    by (induction hs) auto
  with assms show ?thesis by (simp add: add_servicer_to_server_def map_add_def)
qed

lemma unary_reaches:
  assumes "map_of server (service_path n) = None"
    and "map_of (rpc_method_handlers sv) n = Some (unary_unary_handler f de ser)"
    and "\<And>r. de (wrap r) = Some r" and "\<And>a. out (ser a) = Some a"
  shows "unary_unary (add_servicer_to_server sv server) (service_path n) wrap out = f"
  using registered [OF assms(1), of sv] assms(2-4)
  by (intro ext) (simp add: unary_unary_def unary_unary_handler_def decode_serialized split: prod.split)

lemma stream_reaches:
  assumes "map_of server (service_path n) = None"
    and "map_of (rpc_method_handlers sv) n = Some (unary_stream_handler f de ser)"
    and "\<And>r. de (wrap r) = Some r" and "\<And>a. out (ser a) = Some a"
  shows "unary_stream (add_servicer_to_server sv server) (service_path n) wrap out = f"
  using registered [OF assms(1), of sv] assms(2-4)
  by (intro ext) (simp add: unary_stream_def unary_stream_handler_def decode_serialized_stream split: prod.split)

text \<open>Every method of the table, called with the serializers of the stub.\<close>

lemma service_methods:
  assumes "\<And>n. map_of server (service_path n) = None" and srv: "srv = add_servicer_to_server sv server"
  shows "unary_unary srv (service_path ''SendMessage'') Pb_SendMessageRequest send_response_of = sv_SendMessage sv"
    "unary_stream srv (service_path ''SendStreamingMessage'') Pb_SendMessageRequest stream_response_of = sv_SendStreamingMessage sv"
    "unary_unary srv (service_path ''GetTask'') Pb_GetTaskRequest task_of = sv_GetTask sv"
    "unary_unary srv (service_path ''CancelTask'') Pb_CancelTaskRequest task_of = sv_CancelTask sv"
    "unary_stream srv (service_path ''TaskSubscription'') Pb_TaskSubscriptionRequest stream_response_of = sv_TaskSubscription sv"
    "unary_unary srv (service_path ''CreateTaskPushNotificationConfig'') Pb_CreateConfigRequest config_of =
       sv_CreateTaskPushNotificationConfig sv"
    "unary_unary srv (service_path ''GetTaskPushNotificationConfig'') Pb_GetConfigRequest config_of =
       sv_GetTaskPushNotificationConfig sv"
    "unary_unary srv (service_path ''ListTaskPushNotificationConfig'') Pb_ListConfigRequest config_list_of =
       sv_ListTaskPushNotificationConfig sv"
    "unary_unary srv (service_path ''GetAgentCard'') (\<lambda>u. Pb_GetAgentCardRequest) card_reply_of = sv_GetAgentCard sv"
    "unary_unary srv (service_path ''DeleteTaskPushNotificationConfig'') Pb_DeleteConfigRequest empty_of =
       sv_DeleteTaskPushNotificationConfig sv"
  unfolding srv
  by - ((rule unary_reaches [OF assms(1)] stream_reaches [OF assms(1)], simp add: rpc_method_handlers_def, simp, simp)+)

text \<open>
  Claim C32. The generated code connects the client transport with the handler: a stub over a server to which \<open>GrpcHandler\<close> was added
  calls for each of its methods the method of the handler with the message that was given, and returns its outcome, so the
  stub that the theorems about gRPC use is the generated one. The two methods that \<open>GrpcHandler\<close> does not override, listing and
  deleting push notification configurations, are UNIMPLEMENTED, although the request handler has them.
\<close>

theorem generated_stub_reaches_handler:
  assumes "\<And>n. map_of server (service_path n) = None" and "srv = add_servicer_to_server (handler_servicer ge h rh) server"
  shows "service_stub err srv = grpc_service ge h rh err \<and>
         stub_list_configs srv name s = (grpc_unimplemented, s) \<and>
         stub_delete_config srv name s = (grpc_unimplemented, s) \<and>
         service_SendMessage (\<lambda>t. srv) request target = grpc_SendMessage ge rh request"
  using service_methods [OF assms]
  by (simp add: service_stub_def grpc_service_def stub_list_configs_def stub_delete_config_def service_SendMessage_def
      handler_servicer_def base_servicer_def)

theorem generated_stub_reaches_handler_witness:
  "service_stub sample_status_error
     (add_servicer_to_server (handler_servicer sample_grpc_env sample_grpc_handler sample_rh) []) =
   grpc_service sample_grpc_env sample_grpc_handler sample_rh sample_status_error"
  using generated_stub_reaches_handler [of "[]" _ sample_grpc_env sample_grpc_handler sample_rh sample_status_error] by simp

end
