(* ===== verification/Apps.thy ===== *)
theory Apps
  imports RestRoutes JsonRpc HttpClient
begin

section \<open>The HTTP applications (apps/jsonrpc/starlette_app.py, apps/jsonrpc/fastapi_app.py, apps/rest/fastapi_app.py)\<close>

text \<open>
  How the server's endpoints are put under URLs: the Starlette and the FastAPI application for JSON-RPC and the FastAPI
  application for REST. The frameworks are not part of the repository; their router is the documented one: the first
  route that matches path and method is used, a path that only routes for other methods have is answered with 405, a path
  that matches with its last slash added or removed is redirected, any other path is answered with 404. The frameworks
  write the last two answers each in its own way. \<open>agent_card_url\<close>, \<open>rpc_url\<close> and \<open>extended_agent_card_url\<close> are the arguments of \<open>build\<close>.
\<close>

subsection \<open>Constants (utils/constants.py)\<close>

definition AGENT_CARD_WELL_KNOWN_PATH :: string where
  "AGENT_CARD_WELL_KNOWN_PATH = ''/.well-known/agent-card.json''"

definition PREV_AGENT_CARD_WELL_KNOWN_PATH :: string where
  "PREV_AGENT_CARD_WELL_KNOWN_PATH = ''/.well-known/agent.json''"

definition EXTENDED_AGENT_CARD_PATH :: string where
  "EXTENDED_AGENT_CARD_PATH = ''/agent/authenticatedExtendedCard''"

definition DEFAULT_RPC_URL :: string where
  "DEFAULT_RPC_URL = ''/''"

lemmas path_constants =
  AGENT_CARD_WELL_KNOWN_PATH_def PREV_AGENT_CARD_WELL_KNOWN_PATH_def EXTENDED_AGENT_CARD_PATH_def DEFAULT_RPC_URL_def

subsection \<open>Path templates\<close>

text \<open>The router reads \<open>{name}\<close> in a path as a parameter.\<close>

definition lit :: "string \<Rightarrow> piece list" where
  "lit l = (if l = [] then [] else [Lit l])"

function template :: "string \<Rightarrow> piece list" where
  "template s =
     (case dropWhile (\<lambda>c. c \<noteq> CHR ''{'') s of
        [] \<Rightarrow> lit s
      | c # rest \<Rightarrow>
          lit (takeWhile (\<lambda>c. c \<noteq> CHR ''{'') s) @
          Param (takeWhile (\<lambda>c. c \<noteq> CHR ''}'') rest) # template (tl (dropWhile (\<lambda>c. c \<noteq> CHR ''}'') rest)))"
  by pat_completeness auto

termination template
proof (relation "measure length")
  fix s c and rest :: string
  assume "dropWhile (\<lambda>c. c \<noteq> CHR ''{'') s = c # rest"
  then have "length rest < length s"
    using length_dropWhile_le [of "\<lambda>c. c \<noteq> CHR ''{''" s] by simp
  moreover have "length (tl (dropWhile (\<lambda>c. c \<noteq> CHR ''}'') rest)) \<le> length rest"
    using length_dropWhile_le [of "\<lambda>c. c \<noteq> CHR ''}''" rest] by simp
  ultimately show "(tl (dropWhile (\<lambda>c. c \<noteq> CHR ''}'') rest), s) \<in> measure length" by simp
qed simp

declare template.simps [simp del]

definition plain :: "string \<Rightarrow> bool" where
  "plain s \<longleftrightarrow> CHR ''{'' \<notin> set s"

subsection \<open>Routes\<close>

record 'e app_route =
  art_path :: "piece list"
  art_methods :: "string list"
  art_endpoint :: 'e
  art_name :: string

datatype rpc_endpoint = EP_Requests | EP_AgentCard | EP_ExtendedCard

text \<open>
  \<open>Route.__init__\<close> asserts that a path starts with a slash, which FastAPI's decorators do not.
\<close>

definition slashed :: "string \<Rightarrow> bool" where
  "slashed path \<longleftrightarrow> take 1 path = ''/''"

definition unslashed_path :: exn where
  "unslashed_path = OtherException (''Routed paths must start with '' @ [CHR 0x27] @ ''/'' @ [CHR 0x27])"

text \<open>A Starlette \<open>Route\<close> for GET answers HEAD as well; a FastAPI route has the methods it was given.\<close>

definition starlette_route :: "string \<Rightarrow> 'e \<Rightarrow> string list \<Rightarrow> string \<Rightarrow> 'e app_route" where
  "starlette_route path ep methods n =
     \<lparr>art_path = template path, art_methods = methods @ (if ''GET'' \<in> set methods then [''HEAD''] else []),
      art_endpoint = ep, art_name = n\<rparr>"

definition starlette_new :: "string \<Rightarrow> 'e \<Rightarrow> string list \<Rightarrow> string \<Rightarrow> exn + 'e app_route" where
  "starlette_new path ep methods n =
     (if slashed path then Inr (starlette_route path ep methods n) else Inl unslashed_path)"

definition fastapi_route :: "string \<Rightarrow> 'e \<Rightarrow> string list \<Rightarrow> string \<Rightarrow> 'e app_route" where
  "fastapi_route path ep methods n =
     \<lparr>art_path = template path, art_methods = methods, art_endpoint = ep, art_name = n\<rparr>"

datatype 'e routed = Routed 'e "(string \<times> string) list" | Redirected string | Method_Not_Allowed | Not_Found

definition path_matches :: "'e app_route \<Rightarrow> string \<Rightarrow> bool" where
  "path_matches r path \<longleftrightarrow> match_path (art_path r) path \<noteq> None"

text \<open>\<open>redirect_slashes\<close>: the path with its slashes at the end removed, or with one added.\<close>

definition toggle_slash :: "string \<Rightarrow> string" where
  "toggle_slash path = (if path \<noteq> [] \<and> last path = CHR ''/'' then rstrip_slash path else path @ ''/'')"

definition dispatch :: "'e app_route list \<Rightarrow> string \<Rightarrow> string \<Rightarrow> 'e routed" where
  "dispatch rs m path =
     (case find (\<lambda>r. path_matches r path \<and> m \<in> set (art_methods r)) rs of
        Some r \<Rightarrow> Routed (art_endpoint r) (the (match_path (art_path r) path))
      | None \<Rightarrow>
          if list_ex (\<lambda>r. path_matches r path) rs then Method_Not_Allowed
          else if path \<noteq> ''/'' \<and> list_ex (\<lambda>r. path_matches r (toggle_slash path)) rs then Redirected (toggle_slash path)
          else Not_Found)"

subsection \<open>The JSON-RPC applications\<close>

definition serves_extended_card :: "rpc_app \<Rightarrow> bool" where
  "serves_extended_card a \<longleftrightarrow> card_supports_authenticated_extended_card (app_card a) = Some True"

definition starlette_routes :: "rpc_app \<Rightarrow> string \<Rightarrow> string \<Rightarrow> string \<Rightarrow> exn + rpc_endpoint app_route list" where
  "starlette_routes a agent_card_url rpc_url extended_agent_card_url =
     res_bind (starlette_new rpc_url EP_Requests [''POST''] ''a2a_handler'') (\<lambda>r1.
     res_bind (starlette_new agent_card_url EP_AgentCard [''GET''] ''agent_card'') (\<lambda>r2.
     let app_routes = [r1, r2]
     in res_bind (if agent_card_url = AGENT_CARD_WELL_KNOWN_PATH
                  then res_bind (starlette_new PREV_AGENT_CARD_WELL_KNOWN_PATH EP_AgentCard [''GET''] ''deprecated_agent_card'')
                         (\<lambda>r. Inr (app_routes @ [r]))
                  else Inr app_routes) (\<lambda>app_routes.
          if serves_extended_card a
          then res_bind (starlette_new extended_agent_card_url EP_ExtendedCard [''GET''] ''authenticated_extended_agent_card'')
                 (\<lambda>r. Inr (app_routes @ [r]))
          else Inr app_routes)))"

definition starlette_add_routes ::
  "rpc_app \<Rightarrow> rpc_endpoint app_route list \<Rightarrow> string \<Rightarrow> string \<Rightarrow> string \<Rightarrow> exn + rpc_endpoint app_route list" where
  "starlette_add_routes a own agent_card_url rpc_url extended_agent_card_url =
     res_bind (starlette_routes a agent_card_url rpc_url extended_agent_card_url) (\<lambda>routes. Inr (own @ routes))"

text \<open>A new Starlette application has the routes of its \<open>kwargs\<close>; a new FastAPI one has those and its documentation.\<close>

definition starlette_build ::
  "rpc_app \<Rightarrow> rpc_endpoint app_route list \<Rightarrow> string \<Rightarrow> string \<Rightarrow> string \<Rightarrow> exn + rpc_endpoint app_route list" where
  "starlette_build a own agent_card_url rpc_url extended_agent_card_url =
     starlette_add_routes a own agent_card_url rpc_url extended_agent_card_url"

definition fastapi_add_routes ::
  "rpc_app \<Rightarrow> rpc_endpoint app_route list \<Rightarrow> string \<Rightarrow> string \<Rightarrow> string \<Rightarrow> rpc_endpoint app_route list" where
  "fastapi_add_routes a own agent_card_url rpc_url extended_agent_card_url =
     (let rs1 = own @ [fastapi_route rpc_url EP_Requests [''POST''] ''_handle_requests''];
          rs2 = rs1 @ [fastapi_route agent_card_url EP_AgentCard [''GET''] ''_handle_get_agent_card''];
          rs3 = (if agent_card_url = AGENT_CARD_WELL_KNOWN_PATH
                 then rs2 @ [fastapi_route PREV_AGENT_CARD_WELL_KNOWN_PATH EP_AgentCard [''GET''] ''_handle_get_agent_card'']
                 else rs2)
      in if serves_extended_card a
         then rs3 @ [fastapi_route extended_agent_card_url EP_ExtendedCard [''GET'']
                       ''_handle_get_authenticated_extended_agent_card'']
         else rs3)"

definition fastapi_build ::
  "rpc_app \<Rightarrow> rpc_endpoint app_route list \<Rightarrow> string \<Rightarrow> string \<Rightarrow> string \<Rightarrow> rpc_endpoint app_route list" where
  "fastapi_build a own agent_card_url rpc_url extended_agent_card_url =
     fastapi_add_routes a own agent_card_url rpc_url extended_agent_card_url"

text \<open>
  A request to such an application. The framework's own answers: Starlette's handler of an \<open>HTTPException\<close> writes its
  detail as plain text, FastAPI's as a JSON object; a redirection (status 307) has the new path and no body.
\<close>

datatype web_framework = Starlette | FastAPI

datatype framework_body = PlainText string | JsonDetail string

fun framework_detail :: "web_framework \<Rightarrow> string \<Rightarrow> framework_body" where
  "framework_detail Starlette detail = PlainText detail"
| "framework_detail FastAPI detail = JsonDetail detail"

datatype app_reply =
    AR_Rpc rpc_reply
  | AR_Card AgentCard
  | AR_Extended card_reply
  | AR_Redirect string
  | AR_Framework int framework_body

fun app_endpoint ::
  "rpc_app \<Rightarrow> rpc_codec \<Rightarrow> 's request_handler \<Rightarrow> string set \<Rightarrow> ServerCallContext \<Rightarrow> http_request \<Rightarrow> rpc_endpoint \<Rightarrow> 's \<Rightarrow>
   app_reply \<times> 's" where
  "app_endpoint a cd rh activated call request EP_Requests s =
     (let (r, s') = handle_rpc a cd rh activated request s in (AR_Rpc r, s'))"
| "app_endpoint a cd rh activated call request EP_AgentCard s = (AR_Card (serve_agent_card a), s)"
| "app_endpoint a cd rh activated call request EP_ExtendedCard s = (AR_Extended (serve_extended_card a call), s)"

definition app_serve ::
  "web_framework \<Rightarrow> rpc_endpoint app_route list \<Rightarrow> rpc_app \<Rightarrow> rpc_codec \<Rightarrow> 's request_handler \<Rightarrow> string set \<Rightarrow> ServerCallContext \<Rightarrow> string \<Rightarrow>
   string \<Rightarrow> http_request \<Rightarrow> 's \<Rightarrow> app_reply \<times> 's" where
  "app_serve fw rs a cd rh activated call m path request s =
     (case dispatch rs m path of
        Routed ep ids \<Rightarrow> app_endpoint a cd rh activated call request ep s
      | Redirected p \<Rightarrow> (AR_Redirect p, s)
      | Method_Not_Allowed \<Rightarrow> (AR_Framework 405 (framework_detail fw ''Method Not Allowed''), s)
      | Not_Found \<Rightarrow> (AR_Framework 404 (framework_detail fw ''Not Found''), s))"

subsection \<open>The schema of the FastAPI application\<close>

text \<open>
  \<open>A2AFastAPI.openapi\<close>: FastAPI makes the schema of the routes once and keeps it; the definitions of \<open>A2ARequest\<close> are
  added to the kept object, once. \<open>generated\<close> is FastAPI's schema, \<open>request_schema\<close> Pydantic's of the request.
\<close>

record a2a_fastapi =
  af_schema :: "pydict option"
  af_components_added :: bool

definition as_dict :: "string \<Rightarrow> pyval \<Rightarrow> exn + pydict" where
  "as_dict attr v = (case v of PyDict d \<Rightarrow> Inr d | _ \<Rightarrow> Inl (AttributeErr attr))"

text \<open>\<open>d.setdefault(k, {})\<close> for a key whose value is a dictionary.\<close>

definition subdict :: "pydict \<Rightarrow> string \<Rightarrow> string \<Rightarrow> exn + pydict" where
  "subdict d k attr = (case map_of d k of None \<Rightarrow> Inr [] | Some v \<Rightarrow> as_dict attr v)"

definition openapi :: "pydict \<Rightarrow> pydict \<Rightarrow> a2a_fastapi \<Rightarrow> (exn + pydict) \<times> a2a_fastapi" where
  "openapi generated request_schema app =
     (let schema = (case af_schema app of None \<Rightarrow> generated | Some d \<Rightarrow> d);
          app1 = app\<lparr>af_schema := Some schema\<rparr>
      in if af_components_added app then (Inr schema, app1)
         else
           (case res_bind (case map_of request_schema ''$defs'' of None \<Rightarrow> Inr [] | Some v \<Rightarrow> as_dict ''keys'' v) (\<lambda>defs.
                 res_bind (subdict schema ''components'' ''setdefault'') (\<lambda>components.
                 res_bind (subdict components ''schemas'' ''update'') (\<lambda>schemas.
                   Inr (AList.update ''components''
                          (PyDict (AList.update ''schemas''
                             (PyDict (AList.update ''A2ARequest'' (PyDict (AList.delete ''$defs'' request_schema))
                                (dict_update schemas defs))) components)) schema)))) of
              Inl e \<Rightarrow> (Inl e, app1)
            | Inr d \<Rightarrow> (Inr d, app1\<lparr>af_schema := Some d, af_components_added := True\<rparr>)))"

subsection \<open>The REST application\<close>

text \<open>
  The routes of the adapter, each under the prefix \<open>rpc_url\<close>, then the one of the agent card. The templates of
  \<open>routes\<close> are given as the router reads them, so a prefix is put before the first piece.
\<close>

datatype rest_endpoint = EP_Operation rest_operation | EP_RestCard

definition prefixed :: "string \<Rightarrow> piece list \<Rightarrow> piece list" where
  "prefixed p ps = (case ps of Lit l # rest \<Rightarrow> Lit (p @ l) # rest | _ \<Rightarrow> lit p @ ps)"

definition rest_app_routes :: "rest_app \<Rightarrow> rest_endpoint app_route list \<Rightarrow> string \<Rightarrow> string \<Rightarrow> rest_endpoint app_route list" where
  "rest_app_routes a own agent_card_url rpc_url =
     own @
     map (\<lambda>((ps, m), oper). \<lparr>art_path = prefixed rpc_url ps, art_methods = [m], art_endpoint = EP_Operation oper,
                             art_name = []\<rparr>) (routes a) @
     [fastapi_route (rpc_url @ agent_card_url) EP_RestCard [''GET''] ''get_agent_card'']"

text \<open>A request to it; \<open>find_route\<close> is the dispatch of the adapter's own table.\<close>

datatype rest_app_reply = RA_Reply rest_reply | RA_Redirect string

definition rest_app_serve ::
  "rest_endpoint app_route list \<Rightarrow> pb_json \<Rightarrow> rest_app \<Rightarrow> 's request_handler \<Rightarrow> (exn + ServerCallContext) \<Rightarrow> string \<Rightarrow>
   string \<Rightarrow> (string \<times> string) list \<Rightarrow> rest_body \<Rightarrow> 's \<Rightarrow> rest_app_reply \<times> 's" where
  "rest_app_serve rs pj a rh context m path params body s =
     (case dispatch rs m path of
        Routed (EP_Operation oper) ids \<Rightarrow>
          map_prod RA_Reply id (rest_operate pj a rh oper
            \<lparr>rr_body = body, rr_id = (case map_of ids ''id'' of None \<Rightarrow> [] | Some i \<Rightarrow> i),
             rr_push_id = (case map_of ids ''push_id'' of None \<Rightarrow> [] | Some i \<Rightarrow> i),
             rr_history_length = map_of params ''historyLength'', rr_context = context\<rparr> s)
      | Routed EP_RestCard ids \<Rightarrow> (RA_Reply (Rest_Json 200 (pj_card pj (rest_agent_card a))), s)
      | Redirected p \<Rightarrow> (RA_Redirect p, s)
      | Method_Not_Allowed \<Rightarrow> (RA_Reply (Rest_Json 405 (PyDict [(''detail'', PyStr ''Method Not Allowed'')])), s)
      | Not_Found \<Rightarrow> (RA_Reply (Rest_Json 404 (PyDict [(''detail'', PyStr ''Not Found'')])), s))"

subsection \<open>Templates and dispatch\<close>

lemma template_plain: "plain s \<Longrightarrow> template s = lit s"
proof -
  assume "plain s"
  then have "dropWhile (\<lambda>c. c \<noteq> CHR ''{'') s = []" by (auto simp: plain_def dropWhile_eq_Nil_conv)
  then show ?thesis by (simp only: template.simps [of s] list.case)
qed

lemma match_lit: "match_path (lit l @ ps) (l @ s) = match_path ps s"
  by (simp add: lit_def)

lemma match_lit_split: "match_path (lit (p @ l) @ ps) (p @ s) = match_path (lit l @ ps) s"
  by (cases "l = []") (simp_all add: lit_def)

lemma match_plain: "plain p \<Longrightarrow> match_path (template p) s = (if s = p then Some [] else None)"
proof -
  assume p: "plain p"
  show ?thesis
  proof (cases "s = p")
    case True
    then show ?thesis using match_lit [of p "[]" "[]"] template_plain [OF p] by simp
  next
    case False
    then have "\<not> (take (length p) s = p \<and> drop (length p) s = [])"
      by (metis append_Nil2 append_take_drop_id)
    with False show ?thesis using template_plain [OF p] by (auto simp: lit_def)
  qed
qed

text \<open>A prefix without parameters is matched by itself.\<close>

lemma template_prefix:
  assumes "plain p"
  shows "\<exists>l ps. template q = lit l @ ps \<and> template (p @ q) = lit (p @ l) @ ps"
proof -
  have tk: "takeWhile (\<lambda>c. c \<noteq> CHR ''{'') (p @ q) = p @ takeWhile (\<lambda>c. c \<noteq> CHR ''{'') q"
    and dr: "dropWhile (\<lambda>c. c \<noteq> CHR ''{'') (p @ q) = dropWhile (\<lambda>c. c \<noteq> CHR ''{'') q"
    using assms by (auto simp: plain_def intro!: takeWhile_append2 dropWhile_append2)
  show ?thesis
  proof (cases "dropWhile (\<lambda>c. c \<noteq> CHR ''{'') q")
    case Nil
    then have "template q = lit q @ []" and "template (p @ q) = lit (p @ q) @ []"
      using dr by (simp_all only: template.simps [of q] template.simps [of "p @ q"] list.case append_Nil2)
    then show ?thesis by blast
  next
    case (Cons c rest)
    let ?ps = "Param (takeWhile (\<lambda>c. c \<noteq> CHR ''}'') rest) # template (tl (dropWhile (\<lambda>c. c \<noteq> CHR ''}'') rest))"
    have "template q = lit (takeWhile (\<lambda>c. c \<noteq> CHR ''{'') q) @ ?ps"
      using Cons by (simp only: template.simps [of q] list.case)
    moreover have "template (p @ q) = lit (p @ takeWhile (\<lambda>c. c \<noteq> CHR ''{'') q) @ ?ps"
      using Cons dr tk by (simp only: template.simps [of "p @ q"] list.case)
    ultimately show ?thesis by blast
  qed
qed

lemma match_prefix: "plain p \<Longrightarrow> match_path (template (p @ q)) (p @ s) = match_path (template q) s"
  by (metis template_prefix match_lit_split)

lemma match_prefixed: "match_path (prefixed p ps) (p @ s) = match_path ps s"
proof (cases ps)
  case (Cons x xs)
  then show ?thesis using match_lit [of p ps s] by (cases x) (simp_all add: prefixed_def)
qed (use match_lit [of p "[]" s] in \<open>simp add: prefixed_def\<close>)

text \<open>The adapter's table is written with templates.\<close>

lemma adapter_templates:
  "template ''/v1/message:send'' = [Lit ''/v1/message:send'']"
  "template ''/v1/message:stream'' = [Lit ''/v1/message:stream'']"
  "template ''/v1/tasks/{id}:cancel'' = [Lit ''/v1/tasks/'', Param ''id'', Lit '':cancel'']"
  "template ''/v1/tasks/{id}:subscribe'' = [Lit ''/v1/tasks/'', Param ''id'', Lit '':subscribe'']"
  "template ''/v1/tasks/{id}'' = [Lit ''/v1/tasks/'', Param ''id'']"
  "template ''/v1/tasks/{id}/pushNotificationConfigs/{push_id}'' =
     [Lit ''/v1/tasks/'', Param ''id'', Lit ''/pushNotificationConfigs/'', Param ''push_id'']"
  "template ''/v1/tasks/{id}/pushNotificationConfigs'' =
     [Lit ''/v1/tasks/'', Param ''id'', Lit ''/pushNotificationConfigs'']"
  "template ''/v1/tasks'' = [Lit ''/v1/tasks'']"
  "template ''/v1/card'' = [Lit ''/v1/card'']"
  by (simp_all add: template.simps lit_def)

text \<open>Dispatch looks at the path, the methods and the endpoint of the routes only.\<close>

definition same_route :: "string \<Rightarrow> 'e app_route \<Rightarrow> 'e app_route \<Rightarrow> bool" where
  "same_route m r r' \<longleftrightarrow>
     art_path r = art_path r' \<and> art_endpoint r = art_endpoint r' \<and> (m \<in> set (art_methods r) \<longleftrightarrow> m \<in> set (art_methods r'))"

lemma dispatch_same:
  assumes "list_all2 (same_route m) rs rs'"
  shows "dispatch rs m path = dispatch rs' m path"
proof -
  have "rel_option (same_route m)
      (find (\<lambda>r. path_matches r path \<and> m \<in> set (art_methods r)) rs)
      (find (\<lambda>r. path_matches r path \<and> m \<in> set (art_methods r)) rs')"
    using assms by (induction rule: list_all2_induct) (auto simp: same_route_def path_matches_def)
  moreover have "list_ex (\<lambda>r. path_matches r p) rs = list_ex (\<lambda>r. path_matches r p) rs'" for p
    using assms by (induction rule: list_all2_induct) (auto simp: same_route_def path_matches_def)
  ultimately show ?thesis
    by (cases "find (\<lambda>r. path_matches r path \<and> m \<in> set (art_methods r)) rs";
        cases "find (\<lambda>r. path_matches r path \<and> m \<in> set (art_methods r)) rs'")
      (auto simp: dispatch_def same_route_def)
qed

definition leaves_path :: "'e app_route list \<Rightarrow> string \<Rightarrow> bool" where
  "leaves_path own path \<longleftrightarrow> list_all (\<lambda>r. \<not> path_matches r path) own"

lemma dispatch_own:
  assumes "leaves_path own path" and "leaves_path own (toggle_slash path)"
  shows "dispatch (own @ rs) m path = dispatch rs m path"
proof -
  have "find (\<lambda>r. path_matches r path \<and> m \<in> set (art_methods r)) own = None"
    using assms by (auto simp: leaves_path_def find_None_iff list_all_iff)
  then have f: "find (\<lambda>r. path_matches r path \<and> m \<in> set (art_methods r)) (own @ rs) =
      find (\<lambda>r. path_matches r path \<and> m \<in> set (art_methods r)) rs"
    by (simp add: find_append)
  have e: "list_ex (\<lambda>r. path_matches r p) (own @ rs) = list_ex (\<lambda>r. path_matches r p) rs" if "leaves_path own p" for p
    using that by (auto simp: leaves_path_def list_all_iff list_ex_iff)
  show ?thesis by (simp only: dispatch_def f e [OF assms(1)] e [OF assms(2)])
qed

lemma dispatch_own_routed:
  "leaves_path own path \<Longrightarrow> dispatch rs m path = Routed ep ids \<Longrightarrow> dispatch (own @ rs) m path = Routed ep ids"
proof -
  assume own: "leaves_path own path" and r: "dispatch rs m path = Routed ep ids"
  have "find (\<lambda>r. path_matches r path \<and> m \<in> set (art_methods r)) own = None"
    using own by (auto simp: leaves_path_def find_None_iff list_all_iff)
  with r show ?thesis by (auto simp: dispatch_def find_append split: option.splits if_splits)
qed

lemma dispatch_Nil [simp]: "dispatch [] m path = Not_Found"
  by (simp add: dispatch_def)

lemma dispatch_hit:
  "path_matches r path \<Longrightarrow> m \<in> set (art_methods r) \<Longrightarrow>
   dispatch (r # rs) m path = Routed (art_endpoint r) (the (match_path (art_path r) path))"
  by (simp add: dispatch_def)

subsection \<open>What the applications serve\<close>

text \<open>The routes of the Starlette application when all URLs start with a slash.\<close>

definition starlette_table :: "rpc_app \<Rightarrow> string \<Rightarrow> string \<Rightarrow> string \<Rightarrow> rpc_endpoint app_route list" where
  "starlette_table a card_path rpc_url ext_url =
     [starlette_route rpc_url EP_Requests [''POST''] ''a2a_handler'',
      starlette_route card_path EP_AgentCard [''GET''] ''agent_card''] @
     (if card_path = AGENT_CARD_WELL_KNOWN_PATH
      then [starlette_route PREV_AGENT_CARD_WELL_KNOWN_PATH EP_AgentCard [''GET''] ''deprecated_agent_card''] else []) @
     (if serves_extended_card a
      then [starlette_route ext_url EP_ExtendedCard [''GET''] ''authenticated_extended_agent_card''] else [])"

definition urls_slashed :: "rpc_app \<Rightarrow> string \<Rightarrow> string \<Rightarrow> string \<Rightarrow> bool" where
  "urls_slashed a card_path rpc_url ext_url \<longleftrightarrow>
     slashed rpc_url \<and> slashed card_path \<and> (serves_extended_card a \<longrightarrow> slashed ext_url)"

lemma slashed_constants [simp]:
  "slashed AGENT_CARD_WELL_KNOWN_PATH" "slashed PREV_AGENT_CARD_WELL_KNOWN_PATH" "slashed EXTENDED_AGENT_CARD_PATH"
  "slashed DEFAULT_RPC_URL"
  by (simp_all add: slashed_def path_constants)

lemma starlette_build_iff:
  "starlette_build a own card_path rpc_url ext_url =
     (if urls_slashed a card_path rpc_url ext_url then Inr (own @ starlette_table a card_path rpc_url ext_url)
      else Inl unslashed_path)"
  by (simp add: starlette_build_def starlette_add_routes_def starlette_routes_def starlette_new_def urls_slashed_def
      starlette_table_def res_bind_def Let_def)

lemma same_routes:
  assumes "m \<noteq> ''HEAD''"
  shows "dispatch (fastapi_build a own card_path rpc_url ext_url) m path =
         dispatch (own @ starlette_table a card_path rpc_url ext_url) m path"
  using assms
  by (intro dispatch_same)
    (auto simp: fastapi_build_def fastapi_add_routes_def starlette_table_def
       same_route_def starlette_route_def fastapi_route_def Let_def intro!: list_all2_appendI list.rel_refl)

text \<open>
  Claim C30. The Starlette and the FastAPI application agree. Built with URLs that start with a slash (with another one
  Starlette's application is not built at all), they send a request, by any method but HEAD (which only Starlette answers on
  the card's URLs), to the same endpoint, with the same answer and the same effect on the handler's state, or redirect it to
  the same path, or refuse it with the same status (405 or 404) and detail, which Starlette writes as plain text and FastAPI
  as JSON. FastAPI's documentation pages come before the SDK's routes, so their paths, with and without a slash at the end,
  are left out. What a framework makes of an exception that leaves an endpoint is not followed.
\<close>

theorem applications_agree:
  assumes "m \<noteq> ''HEAD''" and "leaves_path docs path" and "leaves_path docs (toggle_slash path)"
  shows "case starlette_build a [] card_path rpc_url ext_url of
           Inl e \<Rightarrow> e = unslashed_path \<and>
             (\<not> slashed rpc_url \<or> \<not> slashed card_path \<or> serves_extended_card a \<and> \<not> slashed ext_url)
         | Inr rs \<Rightarrow>
             slashed rpc_url \<and> slashed card_path \<and> (serves_extended_card a \<longrightarrow> slashed ext_url) \<and>
             (let st = app_serve Starlette rs a cd rh activated call m path request s;
                  fa = app_serve FastAPI (fastapi_build a docs card_path rpc_url ext_url) a cd rh activated call m path request s
              in case dispatch rs m path of
                   Routed ep ids \<Rightarrow> st = app_endpoint a cd rh activated call request ep s \<and> fa = st
                 | Redirected p \<Rightarrow> st = (AR_Redirect p, s) \<and> fa = st
                 | Method_Not_Allowed \<Rightarrow>
                     st = (AR_Framework 405 (PlainText ''Method Not Allowed''), s) \<and>
                     fa = (AR_Framework 405 (JsonDetail ''Method Not Allowed''), s)
                 | Not_Found \<Rightarrow>
                     st = (AR_Framework 404 (PlainText ''Not Found''), s) \<and>
                     fa = (AR_Framework 404 (JsonDetail ''Not Found''), s))"
proof -
  have "dispatch (fastapi_build a docs card_path rpc_url ext_url) m path =
      dispatch (starlette_table a card_path rpc_url ext_url) m path"
    unfolding same_routes [OF assms(1)] by (rule dispatch_own [OF assms(2,3)])
  then show ?thesis
    by (auto simp: starlette_build_iff urls_slashed_def app_serve_def Let_def split: routed.split)
qed

lemma toggle_well_known: "toggle_slash AGENT_CARD_WELL_KNOWN_PATH = AGENT_CARD_WELL_KNOWN_PATH @ ''/''"
  by (simp add: toggle_slash_def path_constants)

lemma path_matches_plain [simp]:
  "plain p \<Longrightarrow> path_matches (starlette_route p ep ms n) path \<longleftrightarrow> path = p"
  "plain p \<Longrightarrow> path_matches (fastapi_route p ep ms n) path \<longleftrightarrow> path = p"
  by (simp_all add: path_matches_def starlette_route_def fastapi_route_def match_plain)

lemma plain_constants [simp]:
  "plain AGENT_CARD_WELL_KNOWN_PATH" "plain PREV_AGENT_CARD_WELL_KNOWN_PATH" "plain EXTENDED_AGENT_CARD_PATH"
  "plain DEFAULT_RPC_URL"
  by (simp_all add: plain_def path_constants)

lemma route_fields [simp]:
  "art_endpoint (starlette_route p ep ms n) = ep" "art_endpoint (fastapi_route p ep ms n) = ep"
  "art_methods (starlette_route p ep ms n) = ms @ (if ''GET'' \<in> set ms then [''HEAD''] else [])"
  "art_methods (fastapi_route p ep ms n) = ms"
  "plain p \<Longrightarrow> match_path (art_path (starlette_route p ep ms n)) p = Some []"
  "plain p \<Longrightarrow> match_path (art_path (fastapi_route p ep ms n)) p = Some []"
  by (simp_all add: starlette_route_def fastapi_route_def match_plain)

text \<open>
  Where the endpoints are: JSON-RPC at \<open>rpc_url\<close>, the card at \<open>card_path\<close> and, for the default \<open>card_path\<close> only, at the
  deprecated one as well; the extended card when the card says that there is one.
\<close>

lemma starlette_endpoints:
  assumes "plain card_path" and "plain rpc_url" and "plain ext_url"
  shows "dispatch (starlette_table a card_path rpc_url ext_url) ''POST'' rpc_url = Routed EP_Requests []"
    and "dispatch (starlette_table a card_path rpc_url ext_url) ''GET'' card_path = Routed EP_AgentCard []"
    and "card_path = AGENT_CARD_WELL_KNOWN_PATH \<Longrightarrow>
      dispatch (starlette_table a card_path rpc_url ext_url) ''GET'' PREV_AGENT_CARD_WELL_KNOWN_PATH = Routed EP_AgentCard []"
    and "ext_url \<notin> {card_path, PREV_AGENT_CARD_WELL_KNOWN_PATH} \<Longrightarrow> serves_extended_card a \<Longrightarrow>
      dispatch (starlette_table a card_path rpc_url ext_url) ''GET'' ext_url = Routed EP_ExtendedCard []"
  using assms
  by (simp_all add: dispatch_def starlette_table_def)

subsection \<open>The card that a resolver finds\<close>

text \<open>
  The application at a base URL as the client's HTTP library sees it when it gets a URL: \<open>dump\<close> is Pydantic's rendering of
  a card, \<open>status_text\<close> httpx's text for a status.
\<close>

record rpc_web_site =
  rws_base :: string
  rws_routes :: "rpc_endpoint app_route list"
  rws_app :: rpc_app
  rws_dump :: "AgentCard \<Rightarrow> pyval"
  rws_status_text :: "int \<Rightarrow> string"
  rws_call :: ServerCallContext

definition rpc_web_get :: "rpc_web_site \<Rightarrow> string \<Rightarrow> http_outcome" where
  "rpc_web_get w path =
     (let failed = (\<lambda>status body. Http_Response status (rws_status_text w status) body)
      in case dispatch (rws_routes w) ''GET'' path of
           Routed EP_AgentCard ids \<Rightarrow> Http_Response 200 [] (Inr (rws_dump w (serve_agent_card (rws_app w))))
         | Routed EP_ExtendedCard ids \<Rightarrow>
             (case serve_extended_card (rws_app w) (rws_call w) of
                Card_Json c \<Rightarrow> Http_Response 200 [] (Inr (rws_dump w c))
              | Card_Error t status \<Rightarrow> failed status (Inr (PyDict [(''error'', PyStr t)])))
         | Redirected p \<Rightarrow> failed 307 (Inl ''Expecting value'')
         | Not_Found \<Rightarrow> failed 404 (Inl ''Expecting value'')
         | _ \<Rightarrow> failed 405 (Inl ''Expecting value''))"

definition rpc_web_http :: "rpc_web_site \<Rightarrow> 's http_client" where
  "rpc_web_http w =
     \<lparr>hc_post = (\<lambda>u p k s. (Http_Waiting, s)),
      hc_get = (\<lambda>url kw s.
        (if take (length (rws_base w)) url = rws_base w then rpc_web_get w (drop (length (rws_base w)) url)
         else Http_RequestError ''All connection attempts failed'', s)),
      hc_stream = (\<lambda>u p k s. (Sse_Waiting, s)), hc_headers = [], hc_read_timeout = PyNone\<rparr>"

lemma get_card_request:
  assumes "rws_base w = rstrip_slash base_url"
    and "''/'' @ lstrip_slash (or_else relative AGENT_CARD_WELL_KNOWN_PATH) = path"
  shows "hc_get (rpc_web_http w) (card_url_of base_url AGENT_CARD_WELL_KNOWN_PATH relative) kw s = (rpc_web_get w path, s)"
proof -
  have "card_url_of base_url AGENT_CARD_WELL_KNOWN_PATH relative = rws_base w @ path"
    using assms by (simp add: card_url_of_def or_else_def)
  then show ?thesis by (simp add: rpc_web_http_def)
qed

text \<open>
  A client that resolves the card of an application built with the default card URL, by Starlette or by FastAPI, gets the
  card that the server modified for it, if its verifier accepts that card, from the well-known path and from the old one.
\<close>

theorem card_is_resolved:
  assumes "starlette_build (rws_app w) [] AGENT_CARD_WELL_KNOWN_PATH rpc_url ext_url = Inr (rws_routes w) \<or>
           rws_routes w = fastapi_build (rws_app w) [] AGENT_CARD_WELL_KNOWN_PATH rpc_url ext_url"
    and "plain rpc_url" and "plain ext_url" and "rws_base w = rstrip_slash base_url"
    and "''/'' @ lstrip_slash (or_else relative AGENT_CARD_WELL_KNOWN_PATH) \<in>
           {AGENT_CARD_WELL_KNOWN_PATH, PREV_AGENT_CARD_WELL_KNOWN_PATH}"
    and "cdk_read ck (rws_dump w (serve_agent_card (rws_app w))) = Inr (serve_agent_card (rws_app w))"
  shows "get_agent_card (rpc_web_http w) ck base_url AGENT_CARD_WELL_KNOWN_PATH relative kw verifier s =
    ((case verifier of
        None \<Rightarrow> Done (serve_agent_card (rws_app w))
      | Some verify \<Rightarrow>
          (case verify (serve_agent_card (rws_app w)) of
             None \<Rightarrow> Done (serve_agent_card (rws_app w)) | Some x \<Rightarrow> Raised x)), s)"
proof -
  define path where "path = ''/'' @ lstrip_slash (or_else relative AGENT_CARD_WELL_KNOWN_PATH)"
  have "dispatch (rws_routes w) ''GET'' path =
      dispatch (starlette_table (rws_app w) AGENT_CARD_WELL_KNOWN_PATH rpc_url ext_url) ''GET'' path"
    using assms(1) same_routes [of "''GET''"] by (auto simp: starlette_build_iff split: if_splits)
  also have "\<dots> = Routed EP_AgentCard []"
    using assms(5) starlette_endpoints(2,3) [OF plain_constants(1) assms(2,3), of "rws_app w"]
    unfolding path_def [symmetric] by auto
  finally have "rpc_web_get w path = Http_Response 200 [] (Inr (rws_dump w (serve_agent_card (rws_app w))))"
    by (simp add: rpc_web_get_def Let_def)
  then show ?thesis
    using get_card_request [OF assms(4) path_def [symmetric], of kw s] assms(6)
    by (auto simp: get_agent_card_def Let_def is_success_def split: option.splits)
qed

text \<open>An application built with another card URL is not found by a resolver with the default path.\<close>

lemma moved_card_not_found:
  assumes "starlette_build (rws_app w) [] card_path rpc_url ext_url = Inr (rws_routes w)" and "rws_base w = rstrip_slash base_url"
    and "plain card_path" and "plain rpc_url" and "plain ext_url"
    and "{AGENT_CARD_WELL_KNOWN_PATH, AGENT_CARD_WELL_KNOWN_PATH @ ''/''} \<inter> {card_path, rpc_url, ext_url} = {}"
  shows "\<exists>t. get_agent_card (rpc_web_http w) ck base_url AGENT_CARD_WELL_KNOWN_PATH None kw verifier s =
           (Raised (A2AClientHTTPError 404 t), s)"
proof -
  have "dispatch (rws_routes w) ''GET'' AGENT_CARD_WELL_KNOWN_PATH = Not_Found"
  proof -
    have t: "rws_routes w = starlette_table (rws_app w) card_path rpc_url ext_url"
      using assms(1) by (auto simp: starlette_build_iff split: if_splits)
    have "list_all (\<lambda>r. \<not> path_matches r p) (rws_routes w)"
      if "p \<in> {AGENT_CARD_WELL_KNOWN_PATH, AGENT_CARD_WELL_KNOWN_PATH @ ''/''}" for p
      using that assms(3-6) unfolding t by (auto simp: starlette_table_def)
    then have n: "list_all (\<lambda>r. \<not> path_matches r AGENT_CARD_WELL_KNOWN_PATH) (rws_routes w)"
      "list_all (\<lambda>r. \<not> path_matches r (toggle_slash AGENT_CARD_WELL_KNOWN_PATH)) (rws_routes w)"
      by (simp_all add: toggle_well_known)
    then have "find (\<lambda>r. path_matches r AGENT_CARD_WELL_KNOWN_PATH \<and> ''GET'' \<in> set (art_methods r)) (rws_routes w) = None"
      by (auto simp: find_None_iff list_all_iff)
    with n show ?thesis by (auto simp: dispatch_def list_all_iff list_ex_iff)
  qed
  then have "rpc_web_get w AGENT_CARD_WELL_KNOWN_PATH = Http_Response 404 (rws_status_text w 404) (Inl ''Expecting value'')"
    by (simp add: rpc_web_get_def Let_def)
  moreover have "''/'' @ lstrip_slash (or_else None AGENT_CARD_WELL_KNOWN_PATH) = AGENT_CARD_WELL_KNOWN_PATH"
    by (simp add: path_constants lstrip_slash_def)
  ultimately show ?thesis
    using get_card_request [OF assms(2), of None _ kw s] by (auto simp: get_agent_card_def Let_def is_success_def)
qed

text \<open>A site with a card modifier, asked for the old path without its slash.\<close>

definition sample_web :: rpc_web_site where
  "sample_web =
     (let a = (sample_app (Some True))\<lparr>app_card_modifier := Some (\<lambda>c. c\<lparr>card_name := ''modified''\<rparr>)\<rparr>
      in \<lparr>rws_base = ''http://agent'',
          rws_routes = fastapi_build a [] AGENT_CARD_WELL_KNOWN_PATH DEFAULT_RPC_URL EXTENDED_AGENT_CARD_PATH,
          rws_app = a, rws_dump = (\<lambda>c. PyDict [(''name'', PyStr (card_name c))]), rws_status_text = (\<lambda>n. ''status''),
          rws_call = default_call_context\<rparr>)"

theorem card_is_resolved_witness:
  "get_agent_card (rpc_web_http sample_web) \<lparr>cdk_read = (\<lambda>v. Inr ((sample_card (Some True))\<lparr>card_name := ''modified''\<rparr>))\<rparr>
     ''http://agent/'' AGENT_CARD_WELL_KNOWN_PATH (Some ''.well-known/agent.json'') no_kwargs None ()
   = (Done ((sample_card (Some True))\<lparr>card_name := ''modified''\<rparr>), ())"
proof -
  have c: "serve_agent_card (rws_app sample_web) = (sample_card (Some True))\<lparr>card_name := ''modified''\<rparr>"
    by (simp add: sample_web_def Let_def serve_agent_card_def sample_app_def)
  show ?thesis
    using card_is_resolved [of sample_web DEFAULT_RPC_URL EXTENDED_AGENT_CARD_PATH "''http://agent/''"
        "Some ''.well-known/agent.json''" "\<lparr>cdk_read = (\<lambda>v. Inr ((sample_card (Some True))\<lparr>card_name := ''modified''\<rparr>))\<rparr>"
        no_kwargs None "()"] c
    by (simp add: sample_web_def Let_def rstrip_slash_def lstrip_slash_def) (simp add: path_constants)
qed

theorem applications_agree_witness:
  "app_serve FastAPI (fastapi_build (sample_app None) [fastapi_route ''/docs'' EP_AgentCard [''GET''] ''docs'']
       AGENT_CARD_WELL_KNOWN_PATH ''/rpc'' EXTENDED_AGENT_CARD_PATH) (sample_app None)
       (sample_rpc_codec ''message/send'' (Req_SendMessage \<lparr>smr_id = IdInt 7, smr_params = sample_rpc_params\<rparr>)) sample_rh {}
       default_call_context ''GET'' ''/rpc'' sample_http () =
   (AR_Framework 405 (JsonDetail ''Method Not Allowed''), ())"
proof -
  let ?docs = "[fastapi_route ''/docs'' EP_AgentCard [''GET''] ''docs'']"
  have p: "plain ''/docs''" "plain ''/rpc''" by (simp_all add: plain_def)
  then have "leaves_path ?docs ''/rpc''" "leaves_path ?docs (toggle_slash ''/rpc'')"
    by (simp_all add: leaves_path_def toggle_slash_def)
  moreover have "dispatch (starlette_table (sample_app None) AGENT_CARD_WELL_KNOWN_PATH ''/rpc'' EXTENDED_AGENT_CARD_PATH)
      ''GET'' ''/rpc'' = Method_Not_Allowed"
    using p by (simp add: dispatch_def starlette_table_def
        serves_extended_card_def sample_app_def sample_card_def) (simp add: path_constants)
  moreover have "urls_slashed (sample_app None) AGENT_CARD_WELL_KNOWN_PATH ''/rpc'' EXTENDED_AGENT_CARD_PATH"
    by (simp add: urls_slashed_def) (simp add: slashed_def)
  ultimately show ?thesis
    using applications_agree [where m = "''GET''" and docs = ?docs and path = "''/rpc''" and a = "sample_app None"
        and card_path = AGENT_CARD_WELL_KNOWN_PATH and rpc_url = "''/rpc''" and ext_url = EXTENDED_AGENT_CARD_PATH
        and cd = "sample_rpc_codec ''message/send'' (Req_SendMessage \<lparr>smr_id = IdInt 7, smr_params = sample_rpc_params\<rparr>)"
        and rh = sample_rh and activated = "{}" and call = default_call_context and request = sample_http and s = "()"]
    by (simp add: starlette_build_iff Let_def)
qed

subsection \<open>The REST application and the schema\<close>

lemma find_route_find:
  "find_route rts m path =
     map_option (\<lambda>r. (snd r, the (match_path (fst (fst r)) path)))
       (find (\<lambda>r. snd (fst r) = m \<and> match_path (fst (fst r)) path \<noteq> None) rts)"
  by (induction rts m path rule: find_route.induct) auto

text \<open>Under its prefix the REST application does what the adapter's own table says.\<close>

lemma rest_app_serves_adapter:
  assumes "find_route (routes a) m path \<noteq> None" and "leaves_path own (rpc_url @ path)"
  shows "rest_app_serve (rest_app_routes a own card_path rpc_url) pj a rh context m (rpc_url @ path) params body s =
         map_prod RA_Reply id (rest_serve pj a rh context m path params body s)"
proof -
  obtain r where r: "find (\<lambda>r. snd (fst r) = m \<and> match_path (fst (fst r)) path \<noteq> None) (routes a) = Some r"
    using assms(1) by (auto simp: find_route_find)
  let ?f = "\<lambda>((ps, m), oper). \<lparr>art_path = prefixed rpc_url ps, art_methods = [m], art_endpoint = EP_Operation oper, art_name = []\<rparr>"
  have "find (\<lambda>r. path_matches r (rpc_url @ path) \<and> m \<in> set (art_methods r)) (map ?f rts) =
      map_option ?f (find (\<lambda>r. snd (fst r) = m \<and> match_path (fst (fst r)) path \<noteq> None) rts)" for rts
    by (induction rts) (auto simp: path_matches_def match_prefixed split: prod.splits)
  with r have "find (\<lambda>r. path_matches r (rpc_url @ path) \<and> m \<in> set (art_methods r)) (map ?f (routes a)) = Some (?f r)" by simp
  then have "dispatch (rest_app_routes a own card_path rpc_url) m (rpc_url @ path) =
      Routed (EP_Operation (snd r)) (the (match_path (fst (fst r)) path))"
    unfolding rest_app_routes_def
    by (intro dispatch_own_routed [OF assms(2)]) (auto simp: dispatch_def find_append match_prefixed split: prod.splits)
  moreover have "find_route (routes a) m path = Some (snd r, the (match_path (fst (fst r)) path))"
    using r by (simp add: find_route_find)
  ultimately show ?thesis by (simp add: rest_app_serve_def rest_serve_def)
qed

text \<open>Asking for the schema again gives the same schema and changes nothing.\<close>

lemma openapi_once:
  assumes "openapi generated schema app = (Inr d, app')"
  shows "openapi generated' schema' app' = (Inr d, app')"
  using assms
  by (auto simp: openapi_def Let_def split: if_splits sum.splits option.splits)

lemma openapi_has_request:
  assumes "openapi generated schema app = (Inr d, app')" and "\<not> af_components_added app"
  shows "\<exists>components schemas. map_of d ''components'' = Some (PyDict components) \<and>
    map_of components ''schemas'' = Some (PyDict schemas) \<and>
    map_of schemas ''A2ARequest'' = Some (PyDict (AList.delete ''$defs'' schema))"
  using assms
  by (auto simp: openapi_def Let_def update_conv' res_bind_Inr_iff split: if_splits sum.splits option.splits)

end
