(* ===== verification/Telemetry.thy ===== *)
theory Telemetry
  imports A2A_Types
begin

section \<open>Tracing (utils/telemetry.py)\<close>

text \<open>
  The decorators \<open>trace_function\<close> and \<open>trace_class\<close>, which wrap the request handlers, the queues and the client
  transports. OpenTelemetry is not part of the repository: what the wrappers do to a span is the list of the calls they
  make on it. A traced function is a state transformer that may raise; the state is that of the whole program.
\<close>

subsection \<open>Spans\<close>

datatype span_kind = SK_INTERNAL | SK_SERVER | SK_CLIENT

datatype span_call =
    Sp_Start string span_kind
  | Sp_Attribute string pyval
  | Sp_StatusOk
  | Sp_StatusError string
  | Sp_Record exn
  | Sp_End "exn option"

text \<open>
  The modules \<open>trace\<close>, \<open>SpanKind\<close> and \<open>StatusCode\<close>: those of OpenTelemetry when it is installed, otherwise \<open>_NoOp\<close>
  objects, which take every call and return themselves; leaving their \<open>with\<close> block does not suppress an exception.
\<close>

datatype tracer_module = OpenTelemetry | NoOp

fun tracer_sees :: "tracer_module \<Rightarrow> span_call list \<Rightarrow> span_call list" where
  "tracer_sees OpenTelemetry cs = cs"
| "tracer_sees NoOp cs = []"

subsection \<open>Functions\<close>

text \<open>
  A Python function as the decorator sees it: \<open>inspect.iscoroutinefunction\<close>, its module and name, and its call. For a
  coroutine function the call is the awaited run; for an asynchronous generator function, which is not a coroutine
  function, it only makes the generator.
\<close>

record ('s, 'a) py_function =
  pf_coroutine :: bool
  pf_module :: string
  pf_name :: string
  pf_call :: "'s \<Rightarrow> (exn + 'a) \<times> 's"

text \<open>
  The attribute extractor, applied to its span, arguments, result and exception: the attributes it sets and what it raises.
\<close>

type_synonym ('s, 'a) extractor = "'a option \<Rightarrow> exn option \<Rightarrow> 's \<Rightarrow> (exn option \<times> span_call list) \<times> 's"

record ('s, 'a) trace_options =
  to_span_name :: "string option"
  to_kind :: span_kind
  to_attributes :: "pydict option"
  to_extractor :: "('s, 'a) extractor option"

definition trace_defaults :: "('s, 'a) trace_options" where
  "trace_defaults = \<lparr>to_span_name = None, to_kind = SK_INTERNAL, to_attributes = None, to_extractor = None\<rparr>"

definition actual_span_name :: "('s, 'a) trace_options \<Rightarrow> ('s, 'a) py_function \<Rightarrow> string" where
  "actual_span_name opts f =
     (if truthy (to_span_name opts) then the (to_span_name opts) else pf_module f @ ''.'' @ pf_name f)"

definition static_attributes :: "('s, 'a) trace_options \<Rightarrow> span_call list" where
  "static_attributes opts =
     (case to_attributes opts of None \<Rightarrow> [] | Some d \<Rightarrow> map (\<lambda>(k, v). Sp_Attribute k v) d)"

text \<open>\<open>asyncio.CancelledError\<close> is a \<open>BaseException\<close> only.\<close>

fun is_cancelled :: "exn \<Rightarrow> bool" where
  "is_cancelled (CancelledError t) = True"
| "is_cancelled e = False"

subsection \<open>The wrappers\<close>

text \<open>
  What the \<open>except\<close> clauses do with the outcome of the call: the calls on the span, the value of the variable
  \<open>exception\<close> and the outcome that leaves the \<open>try\<close> block. Rendering the exception for the status may itself raise; its
  exception then replaces the one that was caught.
\<close>

definition except_exception :: "string \<Rightarrow> exn \<Rightarrow> span_call list \<times> exn option \<times> (exn + 'a)" where
  "except_exception vtext e =
     (case exn_str vtext e of
        Inr d \<Rightarrow> ([Sp_Record e, Sp_StatusError d], Some e, Inl e)
      | Inl x \<Rightarrow> ([Sp_Record e], Some e, Inl x))"

fun async_clauses :: "string \<Rightarrow> exn + 'a \<Rightarrow> span_call list \<times> exn option \<times> (exn + 'a)" where
  "async_clauses vtext (Inr a) = ([Sp_StatusOk], None, Inr a)"
| "async_clauses vtext (Inl e) =
     (if is_cancelled e then ([Sp_Record e], None, Inl e) else except_exception vtext e)"

fun sync_clauses :: "string \<Rightarrow> exn + 'a \<Rightarrow> span_call list \<times> exn option \<times> (exn + 'a)" where
  "sync_clauses vtext (Inr a) = ([Sp_StatusOk], None, Inr a)"
| "sync_clauses vtext (Inl e) =
     (if is_cancelled e then ([], None, Inl e) else except_exception vtext e)"

text \<open>
  The \<open>finally\<close> block: an exception of the extractor is logged, unless it is no \<open>Exception\<close>; that one replaces the outcome.
\<close>

definition finally_block ::
  "('s, 'a) extractor option \<Rightarrow> 'a option \<Rightarrow> exn option \<Rightarrow> exn + 'a \<Rightarrow> 's \<Rightarrow> (span_call list \<times> (exn + 'a)) \<times> 's" where
  "finally_block ext result exception out s =
     (case ext of
        None \<Rightarrow> (([], out), s)
      | Some f \<Rightarrow>
          (case f result exception s of
             ((None, cs), s') \<Rightarrow> ((cs, out), s')
           | ((Some x, cs), s') \<Rightarrow> ((cs, if is_cancelled x then Inl x else out), s')))"

definition raised :: "exn + 'a \<Rightarrow> exn option" where
  "raised out = (case out of Inl e \<Rightarrow> Some e | Inr a \<Rightarrow> None)"

definition run_wrapper ::
  "(exn + 'a \<Rightarrow> span_call list \<times> exn option \<times> (exn + 'a)) \<Rightarrow> ('s, 'a) trace_options \<Rightarrow> ('s, 'a) py_function \<Rightarrow> 's \<Rightarrow>
   ((exn + 'a) \<times> span_call list) \<times> 's" where
  "run_wrapper clauses opts f s =
     (let (out, s1) = pf_call f s;
          (cs, exception, out1) = clauses out;
          result = (case out of Inr a \<Rightarrow> Some a | Inl e \<Rightarrow> None);
          ((xs, out2), s2) = finally_block (to_extractor opts) result exception out1 s1
      in ((out2, Sp_Start (actual_span_name opts f) (to_kind opts) # static_attributes opts @ cs @ xs @ [Sp_End (raised out2)]),
          s2))"

definition async_wrapper ::
  "string \<Rightarrow> ('s, 'a) trace_options \<Rightarrow> ('s, 'a) py_function \<Rightarrow> 's \<Rightarrow> ((exn + 'a) \<times> span_call list) \<times> 's" where
  "async_wrapper vtext = run_wrapper (async_clauses vtext)"

definition sync_wrapper ::
  "string \<Rightarrow> ('s, 'a) trace_options \<Rightarrow> ('s, 'a) py_function \<Rightarrow> 's \<Rightarrow> ((exn + 'a) \<times> span_call list) \<times> 's" where
  "sync_wrapper vtext = run_wrapper (sync_clauses vtext)"

text \<open>The state of a traced program: the spans' calls so far beside the program's own state.\<close>

definition trace_function ::
  "tracer_module \<Rightarrow> string \<Rightarrow> ('s, 'a) trace_options \<Rightarrow> ('s, 'a) py_function \<Rightarrow> (span_call list \<times> 's, 'a) py_function" where
  "trace_function m vtext opts f =
     \<lparr>pf_coroutine = pf_coroutine f, pf_module = pf_module f, pf_name = pf_name f,
      pf_call = (\<lambda>(log, s).
        let ((out, cs), s') = (if pf_coroutine f then async_wrapper vtext opts f s else sync_wrapper vtext opts f s)
        in (out, (log @ tracer_sees m cs, s')))\<rparr>"

subsection \<open>Classes\<close>

text \<open>
  \<open>trace_class\<close> goes over the functions among the members of the class. A name is skipped when it both starts and ends with
  a double underscore.
\<close>

definition is_dunder :: "string \<Rightarrow> bool" where
  "is_dunder n \<longleftrightarrow> take 2 n = ''__'' \<and> drop (length n - 2) n = ''__'' \<and> 2 \<le> length n"

definition traces_method :: "string list option \<Rightarrow> string list option \<Rightarrow> string \<Rightarrow> bool" where
  "traces_method include_list exclude_list n \<longleftrightarrow>
     \<not> is_dunder n \<and>
     (if truthy include_list then n \<in> set (the include_list) else n \<notin> set (or_else exclude_list []))"

definition class_span_name :: "string \<Rightarrow> string \<Rightarrow> string \<Rightarrow> string" where
  "class_span_name module cls n = module @ ''.'' @ cls @ ''.'' @ n"

text \<open>
  A function among the members. \<open>inspect.getmembers(cls, inspect.isfunction)\<close> also returns the functions of static methods;
  \<open>setattr\<close> then puts the wrapper into the class as a plain function, so that a call through an instance has the instance
  in front of its arguments. \<open>cf_shifted\<close> is what such a call of a static method does (a \<open>TypeError\<close> unless it takes one
  more argument); calls are through an instance.
\<close>

record ('s, 'a) class_function =
  cf_function :: "('s, 'a) py_function"
  cf_static :: bool
  cf_shifted :: "('s, 'a) py_function"

text \<open>A method of the class after the decorator: wrapped, or the function as it was.\<close>

datatype ('s, 'a) class_member =
    Wrapped "(span_call list \<times> 's, 'a) py_function"
  | AsWritten "('s, 'a) py_function"

definition trace_class ::
  "tracer_module \<Rightarrow> string \<Rightarrow> string list option \<Rightarrow> string list option \<Rightarrow> span_kind \<Rightarrow> string \<Rightarrow> string \<Rightarrow>
   (string \<times> ('s, 'a) class_function) list \<Rightarrow> (string \<times> ('s, 'a) class_member) list" where
  "trace_class m vtext include_list exclude_list kind module cls members =
     map (\<lambda>(n, f).
       (n, if traces_method include_list exclude_list n
           then Wrapped (trace_function m vtext
                  (trace_defaults\<lparr>to_span_name := Some (class_span_name module cls n), to_kind := kind\<rparr>)
                  (if cf_static f then cf_shifted f else cf_function f))
           else AsWritten (cf_function f))) members"

text \<open>Calling a member of the decorated class.\<close>

fun call_member :: "('s, 'a) class_member \<Rightarrow> span_call list \<times> 's \<Rightarrow> (exn + 'a) \<times> (span_call list \<times> 's)" where
  "call_member (Wrapped f) ls = pf_call f ls"
| "call_member (AsWritten f) (log, s) = (let (out, s') = pf_call f s in (out, (log, s')))"

subsection \<open>What tracing leaves alone\<close>

text \<open>An outcome whose exception, if the wrapper catches it, can be rendered.\<close>

fun renders :: "string \<Rightarrow> exn + 'a \<Rightarrow> bool" where
  "renders vtext (Inr a) = True"
| "renders vtext (Inl e) = (is_cancelled e \<or> (\<exists>d. exn_str vtext e = Inr d))"

lemma renders_iff: "renders vtext out \<longleftrightarrow> (\<nexists>t. out = Inl (ServerErrorStr t))"
proof (cases out)
  case (Inl e)
  then show ?thesis by (cases e) auto
qed simp

lemma clauses_keep_outcome:
  assumes "renders vtext out"
  shows "snd (snd (async_clauses vtext out)) = out" and "snd (snd (sync_clauses vtext out)) = out"
  using assms by (cases out; auto simp: except_exception_def split: sum.splits)+

text \<open>What an extractor may do without being noticed: keep the program's state, raise nothing but an \<open>Exception\<close>.\<close>

definition extractor_ok :: "('s, 'a) extractor option \<Rightarrow> bool" where
  "extractor_ok ext \<longleftrightarrow>
     (\<forall>f r e s. ext = Some f \<longrightarrow> snd (f r e s) = s \<and> (\<forall>x. fst (fst (f r e s)) = Some x \<longrightarrow> \<not> is_cancelled x))"

lemma extractor_ok_None [simp]: "extractor_ok None"
  by (simp add: extractor_ok_def)

lemma finally_keeps:
  assumes "extractor_ok ext"
  shows "snd (fst (finally_block ext r e out s)) = out" and "snd (finally_block ext r e out s) = s"
proof -
  have "snd (fst (finally_block ext r e out s)) = out \<and> snd (finally_block ext r e out s) = s"
  proof (cases ext)
    case (Some f)
    obtain ro cs s' where f: "f r e s = ((ro, cs), s')" by (metis prod.collapse)
    from assms Some f have "s' = s" and "\<And>x. ro = Some x \<Longrightarrow> \<not> is_cancelled x"
      unfolding extractor_ok_def by (metis snd_conv, metis fst_conv)
    with Some f show ?thesis by (cases ro) (auto simp: finally_block_def)
  qed (simp add: finally_block_def)
  then show "snd (fst (finally_block ext r e out s)) = out" and "snd (finally_block ext r e out s) = s" by auto
qed

lemma wrapper_keeps:
  assumes "extractor_ok (to_extractor opts)" and "snd (snd (clauses (fst (pf_call f s)))) = fst (pf_call f s)"
  shows "fst (fst (run_wrapper clauses opts f s)) = fst (pf_call f s)"
    and "snd (run_wrapper clauses opts f s) = snd (pf_call f s)"
  using assms(2) finally_keeps [OF assms(1)]
  by (simp_all add: run_wrapper_def Let_def case_prod_beta)

text \<open>
  A traced function has the result and the effect of the function it wraps: whatever the tracer, the attributes and the
  extractor are.
\<close>

lemma traced_call:
  assumes "extractor_ok (to_extractor opts)" and "renders vtext (fst (pf_call f s))"
  shows "fst (pf_call (trace_function m vtext opts f) (log, s)) = fst (pf_call f s) \<and>
         snd (snd (pf_call (trace_function m vtext opts f) (log, s))) = snd (pf_call f s)"
  using wrapper_keeps [OF assms(1)] clauses_keep_outcome [OF assms(2)]
  by (simp add: trace_function_def async_wrapper_def sync_wrapper_def Let_def case_prod_beta)

lemma trace_class_lookup:
  "map_of (trace_class m vtext inc exc kind module cls members) n =
     map_option (\<lambda>f. if traces_method inc exc n
       then Wrapped (trace_function m vtext (trace_defaults\<lparr>to_span_name := Some (class_span_name module cls n), to_kind := kind\<rparr>)
         (if cf_static f then cf_shifted f else cf_function f))
       else AsWritten (cf_function f)) (map_of members n)"
  unfolding trace_class_def by (induction members) (auto split: prod.splits)

lemma traced_member:
  assumes "map_of (trace_class m vtext inc exc kind module cls members) n = Some mem"
  obtains f where "map_of members n = Some f"
    and "\<And>log s. renders vtext (fst (pf_call (cf_function f) s)) \<Longrightarrow> cf_static f \<longrightarrow> \<not> traces_method inc exc n \<Longrightarrow>
           fst (call_member mem (log, s)) = fst (pf_call (cf_function f) s) \<and>
           snd (snd (call_member mem (log, s))) = snd (pf_call (cf_function f) s)"
proof -
  note map = trace_class_lookup [of m vtext inc exc kind module cls members n]
  with assms obtain f where f: "map_of members n = Some f" by auto
  show ?thesis
  proof (rule that [OF f])
    fix log s
    assume r: "renders vtext (fst (pf_call (cf_function f) s))" and st: "cf_static f \<longrightarrow> \<not> traces_method inc exc n"
    show "fst (call_member mem (log, s)) = fst (pf_call (cf_function f) s) \<and>
        snd (snd (call_member mem (log, s))) = snd (pf_call (cf_function f) s)"
    proof (cases "traces_method inc exc n")
      case True
      with map assms f st have "mem = Wrapped (trace_function m vtext
          (trace_defaults\<lparr>to_span_name := Some (class_span_name module cls n), to_kind := kind\<rparr>) (cf_function f))" by simp
      then show ?thesis using traced_call [OF _ r] by (simp add: trace_defaults_def)
    next
      case False
      with map assms f have "mem = AsWritten (cf_function f)" by simp
      then show ?thesis by (simp add: Let_def case_prod_beta)
    qed
  qed
qed

subsection \<open>A program over a traced class\<close>

text \<open>
  A client calls methods one after the other; the next call may depend on the outcomes so far. It has at most as many steps
  as the list of its decisions. The state the object reaches and all outcomes are compared between the decorated class and
  the class as written.
\<close>

type_synonym 'a calls = "((exn + 'a) list \<Rightarrow> string) list"

fun run_plain :: "(string \<times> ('s, 'a) class_function) list \<Rightarrow> 'a calls \<Rightarrow> (exn + 'a) list \<Rightarrow> 's \<Rightarrow> (exn + 'a) list \<times> 's" where
  "run_plain members [] outs s = (outs, s)"
| "run_plain members (c # cs) outs s =
     (case map_of members (c outs) of
        None \<Rightarrow> run_plain members cs (outs @ [Inl (AttributeErr (c outs))]) s
      | Some f \<Rightarrow> (let (out, s') = pf_call (cf_function f) s in run_plain members cs (outs @ [out]) s'))"

fun run_traced ::
  "(string \<times> ('s, 'a) class_member) list \<Rightarrow> 'a calls \<Rightarrow> (exn + 'a) list \<Rightarrow> span_call list \<times> 's \<Rightarrow>
   (exn + 'a) list \<times> (span_call list \<times> 's)" where
  "run_traced members [] outs ls = (outs, ls)"
| "run_traced members (c # cs) outs ls =
     (case map_of members (c outs) of
        None \<Rightarrow> run_traced members cs (outs @ [Inl (AttributeErr (c outs))]) ls
      | Some f \<Rightarrow> (let (out, ls') = call_member f ls in run_traced members cs (outs @ [out]) ls'))"

definition members_render :: "string \<Rightarrow> (string \<times> ('s, 'a) class_function) list \<Rightarrow> bool" where
  "members_render vtext members \<longleftrightarrow>
     (\<forall>n f s. map_of members n = Some f \<longrightarrow> renders vtext (fst (pf_call (cf_function f) s)))"

text \<open>The lists select no static method (none of the SDK's traced classes has one).\<close>

definition no_static_traced :: "string list option \<Rightarrow> string list option \<Rightarrow> (string \<times> ('s, 'a) class_function) list \<Rightarrow> bool" where
  "no_static_traced inc exc members \<longleftrightarrow>
     (\<forall>n f. map_of members n = Some f \<longrightarrow> cf_static f \<longrightarrow> \<not> traces_method inc exc n)"

lemma traced_None: "map_of members n = None \<longleftrightarrow> map_of (trace_class m vtext inc exc kind module cls members) n = None"
  unfolding trace_class_def by (induction members) (auto split: prod.splits)

text \<open>
  Claim C31. Tracing a class is invisible to the program that uses it: the same calls through an instance give the same outcomes
  and leave the same state, with OpenTelemetry and without, whichever methods the lists select. Two things are excepted,
  and they do show: a method that raises an exception whose \<open>str()\<close> raises (a \<open>ServerError\<close> that holds a plain string, see
  \<open>unprintable_error_replaced\<close>), and a static method that the lists select (see \<open>traced_static_method\<close>).
\<close>

theorem tracing_is_transparent:
  assumes "members_render vtext members" and "no_static_traced inc exc members"
  shows "fst (run_traced (trace_class m vtext inc exc kind module cls members) calls outs (log, s)) =
           fst (run_plain members calls outs s) \<and>
         snd (snd (run_traced (trace_class m vtext inc exc kind module cls members) calls outs (log, s))) =
           snd (run_plain members calls outs s)"
proof (induction calls arbitrary: outs log s)
  case (Cons c cs)
  show ?case
  proof (cases "map_of (trace_class m vtext inc exc kind module cls members) (c outs)")
    case None
    moreover from None have "map_of members (c outs) = None" using traced_None by metis
    ultimately show ?thesis using Cons.IH by simp
  next
    case (Some mem)
    then obtain f where f: "map_of members (c outs) = Some f"
      and k: "\<And>log s. renders vtext (fst (pf_call (cf_function f) s)) \<Longrightarrow> cf_static f \<longrightarrow> \<not> traces_method inc exc (c outs) \<Longrightarrow>
           fst (call_member mem (log, s)) = fst (pf_call (cf_function f) s) \<and>
           snd (snd (call_member mem (log, s))) = snd (pf_call (cf_function f) s)"
      by (rule traced_member) blast
    have "renders vtext (fst (pf_call (cf_function f) s))" using assms(1) f by (simp add: members_render_def)
    moreover have "cf_static f \<longrightarrow> \<not> traces_method inc exc (c outs)" using assms(2) f by (simp add: no_static_traced_def)
    ultimately obtain log' where
      c: "call_member mem (log, s) = (fst (pf_call (cf_function f) s), (log', snd (pf_call (cf_function f) s)))"
      using k [of s log] by (metis prod.collapse)
    show ?thesis using Some f c Cons.IH [of "outs @ [fst (pf_call (cf_function f) s)]" log' "snd (pf_call (cf_function f) s)"]
      by (simp add: case_prod_beta)
  qed
qed simp

text \<open>A counter whose second method raises; the first one is excluded from tracing.\<close>

definition counter_members :: "(string \<times> (nat, nat) class_function) list" where
  "counter_members = map (\<lambda>(n, f). (n, \<lparr>cf_function = f, cf_static = False, cf_shifted = f\<rparr>))
     [(''__init__'', \<lparr>pf_coroutine = False, pf_module = ''app'', pf_name = ''__init__'', pf_call = \<lambda>s. (Inr 0, 0)\<rparr>),
      (''next'', \<lparr>pf_coroutine = True, pf_module = ''app'', pf_name = ''next'', pf_call = \<lambda>s. (Inr s, Suc s)\<rparr>),
      (''fail'', \<lparr>pf_coroutine = True, pf_module = ''app'', pf_name = ''fail'',
                pf_call = \<lambda>s. (Inl (ValueErr ''bad''), s + 2)\<rparr>)]"

theorem tracing_is_transparent_witness:
  "fst (run_traced (trace_class OpenTelemetry [] None None SK_SERVER ''app'' ''Counter'' counter_members)
          [\<lambda>outs. ''next'', \<lambda>outs. ''fail'', \<lambda>outs. if outs = [] then ''none'' else ''next''] [] ([], 5)) =
     [Inr 5, Inl (ValueErr ''bad''), Inr 8] \<and>
   snd (snd (run_traced (trace_class OpenTelemetry [] None None SK_SERVER ''app'' ''Counter'' counter_members)
          [\<lambda>outs. ''next'', \<lambda>outs. ''fail'', \<lambda>outs. if outs = [] then ''none'' else ''next''] [] ([], 5))) = 9"
proof -
  have "members_render [] counter_members"
    by (auto simp: members_render_def counter_members_def split: if_splits)
  moreover have "no_static_traced None None counter_members"
    by (auto simp: no_static_traced_def counter_members_def split: if_splits)
  ultimately show ?thesis using tracing_is_transparent [of "[]" counter_members None None OpenTelemetry SK_SERVER "''app''" "''Counter''"
      "[\<lambda>outs. ''next'', \<lambda>outs. ''fail'', \<lambda>outs. if outs = [] then ''none'' else ''next'']" "[]" "[]" 5]
    by (simp add: counter_members_def)
qed

subsection \<open>What a span records\<close>

text \<open>
  The span of a call, without an extractor: started with its name and attributes, one status or exception, ended with the
  exception that leaves the function.
\<close>

definition outcome_calls :: "string \<Rightarrow> bool \<Rightarrow> exn + 'a \<Rightarrow> span_call list" where
  "outcome_calls vtext coroutine out =
     (case out of
        Inr a \<Rightarrow> [Sp_StatusOk]
      | Inl e \<Rightarrow>
          (if is_cancelled e then (if coroutine then [Sp_Record e] else [])
           else Sp_Record e # (case exn_str vtext e of Inr d \<Rightarrow> [Sp_StatusError d] | Inl x \<Rightarrow> [])))"

lemma span_of_call:
  assumes "to_extractor opts = None" and "renders vtext (fst (pf_call f s))"
  shows "fst (snd (pf_call (trace_function OpenTelemetry vtext opts f) (log, s))) =
    log @ Sp_Start (actual_span_name opts f) (to_kind opts) # static_attributes opts @
      outcome_calls vtext (pf_coroutine f) (fst (pf_call f s)) @ [Sp_End (raised (fst (pf_call f s)))]"
  using assms
  by (cases "fst (pf_call f s)")
    (auto simp: trace_function_def async_wrapper_def sync_wrapper_def run_wrapper_def finally_block_def
       outcome_calls_def except_exception_def Let_def case_prod_beta)

lemma no_op_records_nothing: "fst (snd (pf_call (trace_function NoOp vtext opts f) (log, s))) = log"
  by (simp add: trace_function_def Let_def case_prod_beta)

text \<open>
  The exception is not always the function's own: a \<open>ServerError\<close> that holds a plain string cannot be rendered, and the
  caller sees the \<open>AttributeError\<close> instead. It makes no difference whether OpenTelemetry is installed.
\<close>

lemma unprintable_error_replaced:
  assumes "fst (pf_call f s) = Inl (ServerErrorStr t)" and "to_extractor opts = None"
  shows "\<exists>x. fst (pf_call (trace_function m vtext opts f) (log, s)) = Inl (AttributeErr x)"
  using assms
  by (auto simp: trace_function_def async_wrapper_def sync_wrapper_def run_wrapper_def finally_block_def
       except_exception_def Let_def case_prod_beta)

text \<open>
  A static method that is selected is called with the instance in front of its arguments afterwards: the caller gets
  what that call does, for a method of the usual kind a \<open>TypeError\<close>.
\<close>

lemma traced_static_method:
  assumes "map_of members n = Some f" and "cf_static f" and "traces_method inc exc n"
    and "renders vtext (fst (pf_call (cf_shifted f) s))"
  shows "\<exists>g. map_of (trace_class m vtext inc exc kind module cls members) n = Some g \<and>
    fst (call_member g (log, s)) = fst (pf_call (cf_shifted f) s)"
  using assms traced_call [OF _ assms(4)] by (simp add: trace_class_lookup trace_defaults_def)

text \<open>
  The call of an asynchronous generator function makes the generator and runs nothing of its body: its span has the status
  OK and has ended before the first item, whatever the body does later. \<open>gen_body\<close> is that later run.
\<close>

definition async_generator :: "string \<Rightarrow> string \<Rightarrow> ('s \<Rightarrow> (exn + 'b list) \<times> 's) \<Rightarrow> ('s, 's \<Rightarrow> (exn + 'b list) \<times> 's) py_function" where
  "async_generator module n gen_body = \<lparr>pf_coroutine = False, pf_module = module, pf_name = n, pf_call = \<lambda>s. (Inr gen_body, s)\<rparr>"

lemma stream_span_ends_before_first_item:
  assumes "to_extractor opts = None" and "to_attributes opts = None"
  shows "pf_call (trace_function OpenTelemetry vtext opts (async_generator module n gen_body)) (log, s) =
    (Inr gen_body, (log @ [Sp_Start (actual_span_name opts (async_generator module n gen_body)) (to_kind opts), Sp_StatusOk, Sp_End None], s))"
  using assms
  by (simp add: trace_function_def sync_wrapper_def run_wrapper_def finally_block_def async_generator_def
       actual_span_name_def static_attributes_def raised_def)

text \<open>
  The selection: an include list that is not empty makes the exclude list irrelevant; a special method is never traced, a
  name that only ends with a double underscore is.
\<close>

lemma include_list_wins:
  "xs \<noteq> [] \<Longrightarrow> traces_method (Some xs) exc n \<longleftrightarrow> n \<in> set xs \<and> \<not> is_dunder n"
  by (cases xs) (auto simp: traces_method_def)

lemma dunder_never_traced: "traces_method inc exc (''__'' @ n @ ''__'') = False"
  by (simp add: traces_method_def is_dunder_def)

lemma trailing_underscores_traced: "traces_method None None ''helper__''"
  by (simp add: traces_method_def is_dunder_def)

end
