(* ===== verification/Spec2Isabelle.thy ===== *)
theory Spec2Isabelle
  imports HandlerInvariant TaskUpdater KafkaServer MessageBindings LegacyClient ClientFactory CallContexts CardSigning
    WireCalls GrpcService Apps DbModels Telemetry
begin

text \<open>
  Verification library for the A2A SDK for Python with its Kafka transport (package \<open>a2a\<close>, \<open>src/src/a2a\<close>).

  \<^bold>\<open>The program.\<close> An agent is served by \<open>DefaultRequestHandler\<close>: it loads the task of a message from a task store, starts
  the agent executor with an event queue, and a result aggregator consumes the queue through an event consumer while a task
  manager applies every event to the task and saves it. Queues are shared through a queue manager, so that a second request
  can tap a running task. JSON-RPC, gRPC, REST and Kafka servers turn requests into calls of the request handler; the client
  transports are their counterparts; \<open>BaseClient\<close> sits on a transport and keeps a task of its own with a client task manager.

  \<^bold>\<open>Theories and sources.\<close>
  Shared: \<open>Prelude\<close> (Python values, dictionaries, results), \<open>PyNumbers\<close> (int and str), \<open>A2A_Types\<close> and \<open>A2A_Protocol\<close>
  (types.py, utils/errors.py, client/errors.py), \<open>Utils\<close> (utils/parts, message, artifact, task, helpers), \<open>JsonValues\<close>
  (untyped values of utils/proto_utils.py and helpers.py), \<open>CardSigning\<close> (utils/signing.py), \<open>Telemetry\<close> (utils/telemetry.py).
  JSON form of the data model (types.py, _base.py): \<open>WireBase\<close> (fields, unions, aliases), \<open>WireTasks\<close> (messages, tasks, events,
  parameters), \<open>WireCards\<close> (agent cards), \<open>WireRpc\<close> (errors, requests, responses): \<open>dump_C\<close> and \<open>read_C\<close> for a class \<open>C\<close>;
  \<open>WireTransports\<close> (the codecs of JSON-RPC, Kafka and the database made of them), \<open>WireCalls\<close> (task and configuration calls
  from the client transport to the stores).
  Server core: \<open>TaskStore\<close> (server/tasks/*task_store.py), \<open>TaskManager\<close> (task_manager.py), \<open>PushConfigStore\<close> (push notification
  stores and sender), \<open>EventQueue\<close>, \<open>QueueManager\<close>, \<open>EventConsumer\<close> (server/events), \<open>TaskUpdater\<close>, \<open>ResultAggregator\<close>,
  \<open>RequestContext\<close> (agent_execution/context.py), \<open>CallContexts\<close> (context builders, extensions/common.py), \<open>RequestHandler\<close>
  (default_request_handler.py), \<open>HandlerInvariant\<close> (its reachable states), \<open>HandlerInterface\<close> (request_handler.py as a record of
  methods), \<open>DbModels\<close> (server/models.py and the table of database_task_store.py).
  Kafka: \<open>KafkaCorrelation\<close>, \<open>KafkaTransport\<close> (client/transports/kafka*.py), \<open>KafkaServer\<close> (kafka_handler.py, apps/kafka/app.py).
  JSON-RPC: \<open>JsonRpc\<close> (jsonrpc_handler.py, jsonrpc_app.py, response_helpers.py), \<open>HttpClient\<close> (card_resolver.py and what HTTP
  transports share), \<open>JsonRpcClient\<close> (transports/jsonrpc.py), \<open>Apps\<close> (the Starlette and FastAPI applications and their routes).
  Protocol buffers: \<open>ProtoMessages\<close>, \<open>ProtoRequests\<close>, \<open>ProtoCard\<close> (utils/proto_utils.py), \<open>ProtoClient\<close> (what the gRPC and REST
  transports share).
  gRPC: \<open>GrpcHandler\<close> (grpc_handler.py), \<open>GrpcClient\<close> (transports/grpc.py), \<open>GrpcService\<close> (grpc/a2a_pb2_grpc.py).
  REST: \<open>RestHandler\<close> (rest_handler.py, error_handlers.py, rest_adapter.py), \<open>RestRoutes\<close> (its route table), \<open>RestClient\<close>
  (transports/rest.py), \<open>RestSite\<close> (client and server together).
  Client: \<open>ClientTaskManager\<close>, \<open>BaseClient\<close>, \<open>ClientFactory\<close>, \<open>ClientAuth\<close> (client/*.py, client/auth), \<open>LegacyClient\<close>
  (legacy.py, legacy_grpc.py). All bindings: \<open>MessageBindings\<close> and this theory.
  Each theory has the state of its component as a record, its operations as functions that return the new state with a value,
  an exception (\<open>Raised\<close>, \<open>Inl\<close>) or no return (\<open>Blocked\<close>), then the lemmas about them.

  \<^bold>\<open>What the lemmas show.\<close> Data: artifacts are assembled from their chunks; both task stores and both push configuration stores
  refine one abstract map, the database store also over its JSON columns; the JSON form of every class is lossless, but error
  objects lose their class and parameters of a get call without a configuration id are read as those of a task id; conversions to protocol buffers are inverse up to an explicit normal form; large integers survive.
  Queues: the tree of queues keeps its bounds, conserves and orders events, a consumer drains it. Server: a message starts a
  task and cleans up, terminal tasks are frozen, streams are saved before they are emitted, failures that leave state behind;
  an invariant of the handler's state over any sequence of its operations.
  Correlation: a request is settled once, by the first outcome, and \<open>stop\<close> settles everything. Bindings: for each of
  JSON-RPC, gRPC, REST and Kafka the client gets what the request handler returned, and what becomes of its errors (for gRPC by
  a written table of status codes); the two HTTP applications agree on every route; the same
  message over three bindings gives the same result; the generated stub reaches the handler's methods; on the wire a
  task is read as it is stored, a configuration as it was set. Client:
  the task that a client builds from a stream, compared with the server's.

  \<^bold>\<open>Interfaces.\<close> The stores, the request handler, the client transports and the libraries are records of functions, or locales
  where several components rely on laws: task stores (\<open>task_store\<close>) and push configuration stores (\<open>push_store\<close>), interpreted
  for the in-memory and the database store; the queue manager; a transport that carries a message (\<open>message_binding\<close>),
  interpreted for JSON-RPC, gRPC and REST; a class with a lossless JSON form (\<open>wire\<close>), interpreted for every class.

  \<^bold>\<open>Parameters.\<close> Third-party code is a parameter: httpx, httpx_sse, Starlette and FastAPI (whose router \<open>Apps\<close> writes out), grpc, protobuf's JSON form and value set,
  PyJWT, aiokafka and SQLAlchemy appear as records of functions or of outcomes, with the law that a theorem needs as its
  hypothesis. The components take Pydantic as a codec. \<open>WireTransports\<close> gives the codecs from the declarations of the classes:
  \<open>WireBase\<close> writes out what Pydantic documents of a declared field (alias and name, default, literal, optional value, union),
  and the record \<open>pydantic\<close> holds what it decides by itself. Generated ids, times and what an agent does are arguments.

  \<^bold>\<open>Bounds and schedules.\<close> Queues have the capacity they are created with (1024 by default). What other tasks of the event loop do
  between two steps of an operation is an explicit finite list of steps, so waiting for ever is the value \<open>Blocked\<close> and not
  missing fuel; a loop that polls runs over the list of what happens at each poll. The loop that clears a queue has the
  queue's length as fuel, which \<open>clear_loop_enough\<close> shows to be enough.

  \<^bold>\<open>Not modelled.\<close> Logging, which changes no result; the generated descriptors of grpc/a2a_pb2.py; abstract classes without
  code; locks, except where one is held across an await. Percent encoding of URLs: ids in REST paths are assumed to need none.
  Strings are Latin-1. The demonstration programs beside the package are not part of it.

  \<^bold>\<open>Beyond this development.\<close> Requests that share a task are sequences of operations (\<open>HandlerInvariant\<close>) with schedules
  for what happens to a queue between two polls; a simulation at the level of single awaits is not attempted. Over the wire the
  calls of the JSON-RPC transport and messages over Kafka are followed from end to end; gRPC and REST rest on the JSON form and
  the \<open>Struct\<close> values of protobuf as parameters.
\<close>

section \<open>Messages over Kafka, from the client to the handler and back\<close>

lemma kafka_message_law:
  assumes "kc_ready c" and "truthy (kc_reply_topic c)" and "ce_outcome env = Acknowledged" and "ce_cid env \<noteq> []"
    and "can_send broker h" and "cd_send_params cd (dump_send_params cd req) = Inr req"
    and "rh_message_send rh req default_call_context s = (res, s1)"
    and "\<And>r. res = Done r \<Longrightarrow> event_read cd (send_result_event r)"
    and "handle_request cd broker rh (request_record ''message_send'' (dump_send_params cd req) False env c) (s, h) =
           (Done (), s', h')"
    and "ce_waiting env = before @ consume_responses cd (drop (length (kh_sent h)) (kh_sent h')) @ after"
    and "id_fresh (ce_cid env) (ce_waiting env)"
    and "\<forall>op \<in> set before. outcome_of (ce_cid env) (call_future env c) op = FPending"
  shows "s' = s1 \<and>
         fst (kc_send_message cd req env c) =
           (case res of
              Done r \<Rightarrow> Inr (send_result_event r)
            | Raised e \<Rightarrow> Inl (A2AClientError (the (report_text cd e)))
            | Blocked \<Rightarrow> Inl (timed_out ''Request'' env))"
proof -
  let ?topic = "the (kc_reply_topic c)" and ?cid = "ce_cid env"
  note served = assms(9) [unfolded handle_request_ok [OF request_record_ok [OF assms(2,4)]]]
  have res: "single_result cd rh (PyStr ''message_send'') (dump_send_params cd req) s =
      (await_map (\<lambda>r. (event_type (send_result_event r), dump_event cd (send_result_event r))) res, s1)"
    using assms(6,7) by (simp add: single_result_def with_params_def)
  have reg: "Register ?cid \<notin> set (ce_waiting env)" using assms(11) by (simp add: id_fresh_def)
  have first: "first_outcome cid f (ops @ ops') = first_outcome cid f ops'"
    if "\<forall>op \<in> set ops. outcome_of cid f op = FPending" for cid f ops ops'
    using that by (induction ops) (auto simp: fut_done_def)
  note call = kafka_call_result [OF assms(1,3) reg, of "''Request''" "''message_send''"]
  show ?thesis
  proof (cases res)
    case (Done r)
    with served res assms(5,8) have "consume_responses cd (drop (length (kh_sent h)) (kh_sent h')) =
        [Complete ?cid (send_result_event r)]" and "s' = s1"
      by (auto simp: dict_get_def handle_single_sends event_record_def [symmetric] response_op_reply assms(4))
    with Done call first [OF assms(12)] assms(10) show ?thesis by (simp add: kc_send_message_def fut_done_def)
  next
    case Blocked
    with served res assms(5) show ?thesis by (simp add: dict_get_def handle_single_sends)
  next
    case (Raised e)
    with served res assms(5) obtain tx where "report_text cd e = Some tx"
      and "consume_responses cd (drop (length (kh_sent h)) (kh_sent h')) = [CompleteException ?cid (A2AClientError tx)]"
      and "s' = s1"
      by (auto simp: dict_get_def handle_single_sends response_op_reply assms(4) split: option.splits)
    with Raised call first [OF assms(12)] assms(10) show ?thesis by (simp add: kc_send_message_def fut_done_def)
  qed
qed

text \<open>
  A message sent over Kafka: when the codec reads back what it wrote, the client gets exactly
  what the request handler of the server returned, and an exception of the handler becomes an
  \<open>A2AClientError\<close> with the reported text, whatever else the client's manager processes meanwhile for
  other requests.
\<close>

theorem kafka_message_roundtrip:
  assumes "kc_ready c" and "truthy (kc_reply_topic c)" and "ce_outcome env = Acknowledged" and "ce_cid env \<noteq> []"
    and "can_send broker h" and "cd_send_params cd (dump_send_params cd req) = Inr req"
    and "rh_message_send rh req default_call_context s = (res, s1)"
    and "\<And>r. res = Done r \<Longrightarrow> event_read cd (send_result_event r)"
    and "handle_request cd broker rh (request_record ''message_send'' (dump_send_params cd req) False env c) (s, h) =
           (Done (), s', h')"
    and "ce_waiting env = before @ consume_responses cd (drop (length (kh_sent h)) (kh_sent h')) @ after"
    and "id_fresh (ce_cid env) (ce_waiting env)"
    and "\<forall>op \<in> set before. outcome_of (ce_cid env) (call_future env c) op = FPending"
  shows "s' = s1 \<and>
         fst (kc_send_message cd req env c) =
           (case res of
              Done r \<Rightarrow> Inr (send_result_event r)
            | Raised e \<Rightarrow> Inl (A2AClientError (the (report_text cd e)))
            | Blocked \<Rightarrow> Inl (timed_out ''Request'' env))"
  by (rule kafka_message_law [OF assms])

theorem kafka_message_roundtrip_witness:
  "fst (kc_send_message sample_codec sample_request
          (sample_env [] [CancelFuture 5, Complete ''r1'' (EvTask sample_task)]) sample_client) = Inr (EvTask sample_task)"
proof -
  let ?env = "sample_env [] [CancelFuture 5, Complete ''r1'' (EvTask sample_task)]"
  let ?r = "request_record ''message_send'' (dump_send_params sample_codec sample_request) False ?env sample_client"
  have p: "cd_send_params sample_codec (dump_send_params sample_codec sample_request) = Inr sample_request"
    and rd: "event_read sample_codec (EvTask sample_task)"
    by (simp_all add: sample_codec_def sample_request_def)
  have h: "handle_request sample_codec accepting sample_rh ?r ((), sample_server) =
      (Done (), (), sample_server\<lparr>kh_sent := [event_record sample_codec ''a2a-reply-my_agent-abcd1234'' ''r1'' (EvTask sample_task)]\<rparr>)"
    using p request_record_ok [of sample_client ?env "''message_send''" "dump_send_params sample_codec sample_request" False]
    by (simp add: sample_client_topic handle_request_ok dict_get_def handle_single_sends single_result_def with_params_def
        sample_rh_def event_record_def)
  from kafka_message_roundtrip [OF _ _ _ _ _ p _ _ h, where before = "[CancelFuture 5]" and after = "[]" and
      res = "Done (SR_Task sample_task)"] rd show ?thesis
    by (simp add: sample_client_topic sample_rh_def response_op_reply call_future_def cm_new_def)
qed

text \<open>
  Claim C13. The same with the real form of the messages on the wire: parameters and answers of JSON values need no assumption about the
  codec. A message sent over Kafka reaches the request handler as it was sent, and the client gets exactly what the handler
  returned, or an \<open>A2AClientError\<close> with the text of what it raised.
\<close>

theorem kafka_message_on_the_wire:
  assumes "cd = wire_kafka px str_of" and "json_MessageSendParams req"
    and "kc_ready c" and "truthy (kc_reply_topic c)" and "ce_outcome env = Acknowledged" and "ce_cid env \<noteq> []"
    and "can_send broker h" and "rh_message_send rh req default_call_context s = (res, s1)"
    and "\<And>r. res = Done r \<Longrightarrow> json_event (send_result_event r)"
    and "handle_request cd broker rh (request_record ''message_send'' (dump_send_params cd req) False env c) (s, h) =
           (Done (), s', h')"
    and "ce_waiting env = before @ consume_responses cd (drop (length (kh_sent h)) (kh_sent h')) @ after"
    and "id_fresh (ce_cid env) (ce_waiting env)"
    and "\<forall>op \<in> set before. outcome_of (ce_cid env) (call_future env c) op = FPending"
  shows "s' = s1 \<and>
         fst (kc_send_message cd req env c) =
           (case res of
              Done r \<Rightarrow> Inr (send_result_event r)
            | Raised e \<Rightarrow> Inl (A2AClientError (the (report_text cd e)))
            | Blocked \<Rightarrow> Inl (timed_out ''Request'' env))"
proof (rule kafka_message_law [OF assms(3-7) _ assms(8) _ assms(10-13)])
  show "cd_send_params cd (dump_send_params cd req) = Inr req"
    using assms(1,2) by (simp add: wire_kafka_params_read)
  show "event_read cd (send_result_event r)" if "res = Done r" for r
    using assms(1,9) that by (simp add: wire_kafka_event_read)
qed

theorem kafka_message_on_the_wire_witness:
  "fst (kc_send_message (wire_kafka strict_pydantic (\<lambda>v. [])) sample_request
          (sample_env [] [CancelFuture 5, Complete ''r1'' (EvTask sample_task)]) sample_client) = Inr (EvTask sample_task)"
proof -
  let ?cd = "wire_kafka strict_pydantic (\<lambda>v. [])"
  let ?env = "sample_env [] [CancelFuture 5, Complete ''r1'' (EvTask sample_task)]"
  let ?r = "request_record ''message_send'' (dump_send_params ?cd sample_request) False ?env sample_client"
  have j: "json_MessageSendParams sample_request" "json_event (send_result_event (SR_Task sample_task))"
    by (simp_all add: sample_request_def sample_message_def sample_task_def json_MessageSendParams_def json_Message_def json_Task_def
        json_TaskStatus_def plain_status_def json_TextPart_def)
  have h: "handle_request ?cd accepting sample_rh ?r ((), sample_server) =
      (Done (), (), sample_server\<lparr>kh_sent := [event_record ?cd ''a2a-reply-my_agent-abcd1234'' ''r1'' (EvTask sample_task)]\<rparr>)"
    using wire_kafka_params_read [OF j(1), of strict_pydantic "\<lambda>v. []"]
      request_record_ok [of sample_client ?env "''message_send''" "dump_send_params ?cd sample_request" False]
    by (simp add: sample_client_topic handle_request_ok dict_get_def handle_single_sends single_result_def with_params_def
        sample_rh_def event_record_def)
  have rd: "event_read ?cd (EvTask sample_task)" using j(2) by (intro wire_kafka_event_read) simp
  from kafka_message_on_the_wire [OF refl j(1) _ _ _ _ _ _ _ h, where before = "[CancelFuture 5]" and after = "[]" and
      res = "Done (SR_Task sample_task)"] rd j(2) show ?thesis
    by (simp add: sample_client_topic sample_rh_def response_op_reply call_future_def cm_new_def)
qed

text \<open>
  Claim C20. A streamed message over Kafka: when the client processes the server's records one at a time, it
  gets exactly the events that the handler produced, in order; but whether the handler then
  finished or failed makes no difference to it: the stream ends in the same way and the error
  is swallowed.
\<close>

theorem kafka_stream_roundtrip:
  assumes "kc_ready c" and "truthy (kc_reply_topic c)" and "ce_outcome env = Acknowledged" and "ce_cid env \<noteq> []"
    and "map_of (cm_pending (corr_run (ce_sending env) (kc_corr c))) (ce_cid env) = None"
    and "can_send broker h" and "cd_send_params cd (dump_send_params cd req) = Inr req"
    and "rh_message_send_stream rh req default_call_context s = ((evs, en), s1)"
    and "list_all (event_read cd) evs"
    and "handle_request cd broker rh (request_record ''message_send'' (dump_send_params cd req) True env c) (s, h) =
           (Done (), s', h')"
  shows "fst (kc_send_message_streaming cd req env
           (map (\<lambda>op. turn [] [op]) (consume_responses cd (drop (length (kh_sent h)) (kh_sent h')))) c) =
         (evs, StreamEnded)"
proof -
  let ?topic = "the (kc_reply_topic c)" and ?cid = "ce_cid env"
  note served = assms(10) [unfolded handle_request_ok [OF request_record_ok [OF assms(2,4)]]]
  from served have "handle_streaming_request cd broker rh (PyStr ''message_send'') (dump_send_params cd req) ?topic ?cid (s, h) =
      (Done (), s', h')" by (simp add: dict_get_def)
  note out = this [unfolded handle_streaming_sends [OF assms(6,7,8)] Let_def]
  have "\<exists>op. consume_responses cd (drop (length (kh_sent h)) (kh_sent h')) = map (Complete ?cid) evs @ [op] \<and>
      closes ?cid op \<and> op \<noteq> Register ?cid \<and> op \<noteq> RegisterStreaming ?cid"
  proof (cases en)
    case (Done u)
    with out show ?thesis
      by (auto simp: consume_event_records assms(4,9) complete_record_def [symmetric] response_op_reply)
  next
    case Blocked
    with out show ?thesis by simp
  next
    case (Raised e)
    with out show ?thesis
      by (auto simp: consume_event_records assms(4,9) response_op_reply split: option.splits)
  qed
  then obtain op where op: "consume_responses cd (drop (length (kh_sent h)) (kh_sent h')) = map (Complete ?cid) evs @ [op]"
    "closes ?cid op" "op \<noteq> Register ?cid" "op \<noteq> RegisterStreaming ?cid" by blast
  show ?thesis unfolding op(1) by (rule streaming_one_per_turn [OF assms(1,3,5) op(2-4)])
qed

theorem kafka_stream_roundtrip_witness:
  "fst (kc_send_message_streaming sample_codec sample_request (sample_env [] [])
     (map (\<lambda>op. turn [] [op]) [Complete ''r1'' (EvTask sample_task), Complete ''r1'' (EvMessage sample_message),
        CompleteException ''r1'' (A2AClientError ''Internal error'')]) sample_client) =
   ([EvTask sample_task, EvMessage sample_message], StreamEnded)"
proof -
  let ?env = "sample_env [] []" and ?topic = "''a2a-reply-my_agent-abcd1234''"
  let ?r = "request_record ''message_send'' (dump_send_params sample_codec sample_request) True ?env sample_client"
  let ?evs = "[EvTask sample_task, EvMessage sample_message]"
  have p: "cd_send_params sample_codec (dump_send_params sample_codec sample_request) = Inr sample_request"
    and rd: "list_all (event_read sample_codec) ?evs"
    by (simp_all add: sample_codec_def sample_request_def)
  have st: "rh_message_send_stream sample_rh sample_request default_call_context () =
      ((?evs, Raised (raise_server InternalError)), ())"
    by (simp add: sample_rh_def)
  have h: "handle_request sample_codec accepting sample_rh ?r ((), sample_server) =
      (Done (), (), sample_server\<lparr>kh_sent := map (event_record sample_codec ?topic ''r1'') ?evs @
                                     [error_record ?topic ''r1'' ''Internal error'']\<rparr>)"
    using request_record_ok [of sample_client ?env "''message_send''" "dump_send_params sample_codec sample_request" True]
    by (simp add: sample_client_topic handle_request_ok dict_get_def handle_streaming_sends [OF _ p st] report_text_def
        InternalError_def)
  from kafka_stream_roundtrip [OF _ _ _ _ _ _ p st rd h] rd show ?thesis
    by (simp add: sample_client_topic response_op_reply cm_new_def)
qed

section \<open>Messages over JSON-RPC, from the client to the handler and back\<close>

text \<open>
  A streamed message through every layer of the JSON-RPC binding: \<open>BaseClient.send_message\<close> over
  \<open>JsonRpcTransport\<close> over \<open>JSONRPCApplication\<close> yields one pair per event that the server's request handler yielded, in
  order, and leaves on the client the task that these events make; the stream ends for the client as the
  handler ended it, a \<open>ServerError\<close> as an \<open>A2AClientJSONRPCError\<close> with the same error object.
\<close>

theorem streamed_message_end_to_end:
  assumes "bc_transport bc = json_rpc_client_transport e" and "streams bc" and "quiet (bc_consumers bc)"
    and "te_task_id te \<noteq> []" and "\<forall>u \<in> set tes. is_update u"
    and "st w = (t, s)" and "jt_interceptors t = []" and "je_http e = site_http site"
    and "req = Req_SendStreamingMessage \<lparr>ssr_id = IdStr (je_uuid e), ssr_params = params_of (send_params bc m conf md)\<rparr>"
    and "reads_reply (je_codec e) site req s" and "site_accepts (je_codec e) site req call"
    and "streaming_supported (app_card (rs_app site))"
    and "rh_message_send_stream (rs_handler site) (params_of (send_params bc m conf md)) call s =
           ((map task_event_event (te # tes), en), s')"
  shows "\<exists>w'. bc_send_message bc m conf md exts w =
             ((map (\<lambda>u. CE_Task (length (heap w)) (update_of u)) (te # tes), stream_end_at_client (je_codec e) en), w') \<and>
           heap w' = heap w @ [foldl client_update (client_start te) tes]"
proof -
  have "ct_send_message_streaming (bc_transport bc) (send_params bc m conf md) exts (st w) =
      ((map task_event_event (te # tes) @ [], stream_end_at_client (je_codec e) en), t, s')"
    using jt_stream_site [OF assms(7,8) assms(10,11) [unfolded assms(9)] assms(12,13)] assms(1,6)
    by (simp add: json_rpc_client_transport_def)
  from bc_send_message_stream [OF assms(2-5) this] show ?thesis by auto
qed

theorem streamed_message_end_to_end_witness:
  "\<exists>(bc :: (unit json_rpc_transport \<times> unit) base_client) w'.
     bc_send_message bc sample_message None None None \<lparr>heap = [], st = (sample_jt, ())\<rparr> = (([CE_Task 0 None], Done ()), w') \<and>
     heap w' = [sample_task]"
proof -
  let ?req = "Req_SendStreamingMessage \<lparr>ssr_id = IdStr ''u1'', ssr_params = params_of sample_sent\<rparr>"
  let ?rh = "sample_rh\<lparr>rh_message_send_stream := \<lambda>p call s. (([EvTask sample_task], Done ()), s)\<rparr>"
  let ?site = "(sample_site ?req)\<lparr>rs_handler := ?rh\<rparr>"
  let ?ok = "Rsp_Success \<lparr>srs_id = Some (IdStr ''u1''), srs_result = HR_Task sample_task\<rparr>"
  let ?e = "sample_jt_env ?ok (error_response (IdStr ''u1'') None) (site_http ?site)"
  let ?bc = "\<lparr>bc_card = sample_card (Some True), bc_config = sample_client_config,
     bc_transport = json_rpc_client_transport ?e, bc_consumers = []\<rparr>"
  have e: "je_uuid ?e = ''u1''" "je_http ?e = site_http ?site"
    "je_codec ?e = sample_client_codec ?ok (error_response (IdStr ''u1'') None)" by (simp_all add: sample_jt_env_def)
  have p: "send_params ?bc sample_message None None = sample_sent"
    by (simp add: send_params_def sample_sent_def merge_configuration_def)
  have acc: "site_accepts (je_codec ?e) ?site ?req (with_method ''message/stream'' default_call_context)"
    using sample_site_accepts [of ?req]
    by (simp add: e METHOD_TO_MODEL_def site_accepts_def site_request_def)
  have str: "streaming_supported (app_card (rs_app ?site))"
    by (simp add: sample_site_def sample_app_def streaming_supported_def sample_card_def)
  have "site_reply ?site (cdc_dump (je_codec ?e) ?req) () = (Rpc_Stream [?ok] (Done ()) None, ())"
    using rpc_stream_reply [OF acc [unfolded site_accepts_def] str, of ?rh "()" "[EvTask sample_task]" "Done ()" "()"]
    by (simp add: site_reply_def stream_end_response_def extension_header_def default_call_context_def with_method_def)
  then have rd: "reads_reply (je_codec ?e) ?site ?req ()"
    by (simp add: reads_reply_def reads_one_def e) (simp add: sample_site_def sample_client_codec_def)
  have h: "rh_message_send_stream (rs_handler ?site) (params_of (send_params ?bc sample_message None None))
      (with_method ''message/stream'' default_call_context) () = ((map task_event_event [TE_Task sample_task], Done ()), ())"
    by simp
  have b: "bc_transport ?bc = json_rpc_client_transport ?e" "streams ?bc" "quiet (bc_consumers ?bc)"
    by (simp_all add: streams_def sample_client_config_def sample_card_def quiet_def)
  have t: "te_task_id (TE_Task sample_task) \<noteq> []" "\<forall>u \<in> set []. is_update u" "jt_interceptors sample_jt = []"
    by (simp_all add: sample_task_def sample_jt_def)
  have r: "?req = Req_SendStreamingMessage
      \<lparr>ssr_id = IdStr (je_uuid ?e), ssr_params = params_of (send_params ?bc sample_message None None)\<rparr>"
    by (simp add: e p)
  from streamed_message_end_to_end [OF b t(1,2) _ t(3) e(2) r rd acc str h, of "\<lparr>heap = [], st = (sample_jt, ())\<rparr>" None]
  have "\<exists>w'. bc_send_message ?bc sample_message None None None \<lparr>heap = [], st = (sample_jt, ())\<rparr> =
      (([CE_Task 0 None], Done ()), w') \<and> heap w' = [sample_task]"
    by (simp add: update_of_def stream_end_at_client_def)
  then show ?thesis by blast
qed




section \<open>A task from the client's call to the store\<close>

text \<open>
  The whole life of a task from the client's call, for any codec that reads what the other side wrote.
\<close>

definition answered :: "MessageSendParams \<Rightarrow> Task \<Rightarrow> Task" where
  "answered params x =
     (case msp_configuration params of None \<Rightarrow> x | Some c \<Rightarrow> apply_history_length x (msc_history_length c))"

lemma message_life_law:
  assumes "bc_transport bc = json_rpc_client_transport e" and "\<not> streams bc" and "silent (bc_consumers bc)" and "st w = (t, s)"
    and "params = params_of (send_params bc m conf md)"
    and "json_rpc_legit e site call (send_params bc m conf md) t s"
    and "rs_handler site = default_request_handler cfg gt gc p sched (Done ()) agent_cancel other"
    and "hc_store_ops cfg = mem_ops" and "hc_push_sender cfg = None" and "\<not> hc_populate_referred_tasks cfg"
    and "mem_inv (hs_store s)" and "qm_free (hs_queues s)" and "gt \<notin> qm_known (hs_queues s)"
    and "fresh_message params" and "gt \<noteq> []" and "gc \<noteq> []" and "is_blocking params"
    and "consume_all (hc_py313 cfg) sched None eq_new = (evs, C_Ended, q')"
    and "list_all (stream_of gt gc) evs" and "no_message evs" and "evs \<noteq> []" and "\<not> list_ex is_auth_required evs"
  shows "\<exists>x s'. bc_send_message bc m conf md exts w =
             (([CE_Task (length (heap w)) None], Done ()), w\<lparr>heap := heap w @ [answered params x], st := (t, s')\<rparr>) \<and>
           Some x = spec_fold (Some (bound_message gt gc params)) (mem_view (hs_store s) gt) evs \<and>
           mem_view (hs_store s') = (mem_view (hs_store s))(gt \<mapsto> x) \<and>
           gt \<notin> qm_known (hs_queues s') \<and> hs_running_agents s' gt = None"
proof -
  from fresh_message_run [OF assms(8-22), of "Some call" p] obtain x s' where
    r: "on_message_send cfg params (Some call) gt gc p sched (Done ()) s = ((Done (SR_Task (answered params x)), []), s')"
    and x: "Some x = spec_fold (Some (bound_message gt gc params)) (mem_view (hs_store s) gt) evs"
      "mem_view (hs_store s') = (mem_view (hs_store s))(gt \<mapsto> x)" "gt \<notin> qm_known (hs_queues s')"
      "hs_running_agents s' gt = None" unfolding answered_def by blast
  have h: "rh_message_send (rs_handler site) (params_of (send_params bc m conf md)) call s =
      (Done (SR_Task (answered params x)), s')"
    using r assms(5,7) by (simp add: default_request_handler_def)
  have d: "sum_of_send (SR_Task (answered params x)) = Inl (answered params x)" by (simp add: sum_of_send_def)
  from over_json_rpc.client_message_leaves [OF assms(1-4,6) h d] x show ?thesis by blast
qed

text \<open>
  Claim C1. The whole life of a task from the client's call, on the wire: \<open>BaseClient.send_message\<close> writes the message as JSON-RPC; an
  application with the \<open>DefaultRequestHandler\<close> reads it; the agent ends its stream of events for the new task and finishes.
  Nothing is assumed of the form on the wire but that the untyped values of message and events are JSON. The handler is configured
  with the in-memory store, without a push notification sender and without referred tasks; the message is blocking and starts
  a new task; the agent succeeds and does not ask for authentication; the client does not stream, has no interceptors, and its
  event consumers change nothing. The client gets one event, with the task that the agent's events make of a new task whose
  history starts with the client's message (truncated as the configuration asks), and nothing else changes on its side. After
  the call the server's state is that of a handler that stores this task under the generated id, leaves the other tasks alone,
  and has closed the task's queue and forgotten the agent.
\<close>

theorem message_life_on_the_wire:
  assumes "bc_transport bc = json_rpc_client_transport e" and "\<not> streams bc" and "silent (bc_consumers bc)" and "st w = (t, s)"
    and "params = params_of (send_params bc m conf md)"
    and "je_codec e = wire_client px (read_SendMessageSuccess px) et" and "je_http e = site_http site"
    and "jt_interceptors t = []" and "wire_site px site c"
    and "allowed_content_length (rs_app site)
           (site_request site (dump_request True (Req_SendMessage \<lparr>smr_id = IdStr (je_uuid e), smr_params = params\<rparr>)))"
    and "json_MessageSendParams params" and "list_all json_event evs" and "pred_option json_Task (mem_view (hs_store s) gt)"
    and "rs_handler site = default_request_handler cfg gt gc p sched (Done ()) agent_cancel other"
    and "hc_store_ops cfg = mem_ops" and "hc_push_sender cfg = None" and "\<not> hc_populate_referred_tasks cfg"
    and "mem_inv (hs_store s)" and "qm_free (hs_queues s)" and "gt \<notin> qm_known (hs_queues s)"
    and "fresh_message params" and "gt \<noteq> []" and "gc \<noteq> []" and "is_blocking params"
    and "consume_all (hc_py313 cfg) sched None eq_new = (evs, C_Ended, q')"
    and "list_all (stream_of gt gc) evs" and "no_message evs" and "evs \<noteq> []" and "\<not> list_ex is_auth_required evs"
  shows "\<exists>x s'. bc_send_message bc m conf md exts w =
             (([CE_Task (length (heap w)) None], Done ()), w\<lparr>heap := heap w @ [answered params x], st := (t, s')\<rparr>) \<and>
           Some x = spec_fold (Some (bound_message gt gc params)) (mem_view (hs_store s) gt) evs \<and>
           mem_view (hs_store s') = (mem_view (hs_store s))(gt \<mapsto> x) \<and>
           gt \<notin> qm_known (hs_queues s') \<and> hs_running_agents s' gt = None"
proof (rule message_life_law [OF assms(1-5) _ assms(14-29)])
  let ?call = "with_method ''message/send'' c"
  from fresh_message_run [OF assms(15-29), of "Some ?call" p] obtain x s' where
    r: "on_message_send cfg params (Some ?call) gt gc p sched (Done ()) s =
      ((Done (SR_Task (answered params x)), []), s')"
    and x: "Some x = spec_fold (Some (bound_message gt gc params)) (mem_view (hs_store s) gt) evs" unfolding answered_def by blast
  have "json_Message (bound_message gt gc params)"
    using assms(11) by (simp add: json_MessageSendParams_def json_Message_def bound_message_def)
  then have "json_Task x" using json_spec_fold [OF _ assms(13,12), of "Some (bound_message gt gc params)"] x
    by (metis option.pred_inject(2))
  then have "json_event (send_result_event (SR_Task (answered params x)))"
    by (simp add: answered_def json_apply_history_length split: option.split)
  then have "answer_ok (\<lambda>v. json_event (send_result_event v)) (fst (rh_message_send (rs_handler site) params ?call s))"
    using r assms(14) by (simp add: default_request_handler_def answer_ok_def)
  then show "json_rpc_legit e site ?call (send_params bc m conf md) t s"
    by (intro wire_json_rpc_legit [OF assms(6-9)]) (use assms(5,10,11) in simp_all)
qed

definition life_env :: "'s request_handler \<Rightarrow> 's jt_env" where
  "life_env rh =
     \<lparr>je_http = site_http (life_site rh),
      je_codec = wire_client strict_pydantic (read_SendMessageSuccess strict_pydantic) (\<lambda>e. []),
      je_card_codec = \<lparr>cdk_read = (\<lambda>v. Inl [])\<rparr>, je_uuid = ''u1'', je_context = None\<rparr>"

text \<open>The agent completes the task at once.\<close>

definition life_message :: Message where
  "life_message = sample_message\<lparr>msg_task_id := None, msg_context_id := None\<rparr>"

definition life_schedule :: schedule where
  "life_schedule = [([Op_Enqueue (EvStatus ((sample_status completed None)\<lparr>sue_final := True\<rparr>))], None)]"

definition life_handler :: "(mem_store, mem_push) handler_state request_handler" where
  "life_handler = default_request_handler sample_cfg ''t'' ''c'' 0 life_schedule (Done ()) (\<lambda>rc. Inr []) []"

lemma life_schedule_consumed:
  "\<exists>q. consume_all (hc_py313 sample_cfg) life_schedule None eq_new =
     ([EvStatus ((sample_status completed None)\<lparr>sue_final := True\<rparr>)], C_Ended, q)"
proof -
  let ?ev = "EvStatus ((sample_status completed None)\<lparr>sue_final := True\<rparr>)"
  let ?q = "EQ [?ev] 1024 1 False False []"
  have d: "disturb True ([Op_Enqueue ?ev], None) None eq_new = (None, ?q)"
    by (simp add: disturb_def eq_new_def DEFAULT_MAX_QUEUE_SIZE_def)
  have w: "eq_wf True ?q" by simp
  have fe: "is_final_event ?ev" by (simp add: is_final_event_def)
  from consume_pass_item [OF w] fe obtain q2 where "consume_pass True None ?q = (C_Last ?ev, None, closed_empty True q2)"
    by auto
  then have "consume_all True life_schedule None eq_new = ([?ev], C_Ended, closed_empty True q2)"
    unfolding life_schedule_def consume_all.simps d Let_def prod.case by simp
  then show ?thesis by (simp add: sample_cfg_def)
qed

theorem message_life_on_the_wire_witness:
  "\<exists>x s'. bc_send_message (sample_plain_client (json_rpc_client_transport (life_env life_handler))) life_message None None None
       \<lparr>heap = [], st = (plain_transport, empty_handler)\<rparr> =
     (([CE_Task 0 None], Done ()), \<lparr>heap = [x], st = (plain_transport, s')\<rparr>) \<and>
     status_state (task_status x) = completed \<and> (\<exists>y. mem_view (hs_store s') ''t'' = Some y) \<and>
     hs_running_agents s' ''t'' = None"
proof -
  let ?ev = "EvStatus ((sample_status completed None)\<lparr>sue_final := True\<rparr>)"
  let ?t = "plain_transport :: (mem_store, mem_push) handler_state json_rpc_transport"
  let ?e = "life_env life_handler" and ?site = "life_site life_handler"
  define p where "p = send_params (sample_plain_client (json_rpc_client_transport ?e)) life_message None None"
  have f: "fresh_message (params_of p)" "is_blocking (params_of p)" "json_MessageSendParams (params_of p)"
    by (simp_all add: p_def fresh_message_def is_blocking_def send_params_def params_of_def life_message_def sample_plain_client_def
        merge_configuration_def base_configuration_def sample_client_config_def json_MessageSendParams_def json_Message_def
        sample_message_def json_TextPart_def)
  obtain q where c: "consume_all (hc_py313 sample_cfg) life_schedule None eq_new = ([?ev], C_Ended, q)"
    using life_schedule_consumed by blast
  have h: "hc_store_ops sample_cfg = mem_ops" "hc_push_sender sample_cfg = None" "\<not> hc_populate_referred_tasks sample_cfg"
    by (simp_all add: sample_cfg_def)
  have g: "mem_inv (hs_store empty_handler)" "qm_free (hs_queues empty_handler)" "''t'' \<notin> qm_known (hs_queues empty_handler)"
    by (simp_all add: empty_handler_def qm_init_def qm_free_def qm_known_def)
  have g4: "pred_option json_Task (mem_view (hs_store empty_handler) ''t'')"
    by (simp add: empty_handler_def mem_view_def mem_init_def)
  have ev: "list_all (stream_of ''t'' ''c'') [?ev]" "no_message [?ev]" "[?ev] \<noteq> []" "\<not> list_ex is_auth_required [?ev]"
    "list_all json_event [?ev]"
    by (simp_all add: stream_of_def no_message_def is_auth_required_def sample_status_def json_TaskStatusUpdateEvent_def
        json_TaskStatus_def)
  have n: "''t'' \<noteq> []" "''c'' \<noteq> []" by simp_all
  have e: "je_codec ?e = wire_client strict_pydantic (read_SendMessageSuccess strict_pydantic) (\<lambda>e. [])"
    "je_http ?e = site_http ?site" "wire_site strict_pydantic ?site default_call_context"
    "rs_handler ?site = default_request_handler sample_cfg ''t'' ''c'' 0 life_schedule (Done ()) (\<lambda>rc. Inr []) []"
    "allowed_content_length (rs_app ?site) (site_request ?site v)" for v
    by (simp_all add: life_env_def life_site_def wire_site_def life_handler_def allowed_content_length_def site_request_def
        sample_app_def)
  let ?w = "\<lparr>heap = [], st = (?t, empty_handler)\<rparr>"
  have bc: "bc_transport (sample_plain_client T) = T" "\<not> streams (sample_plain_client T)" "silent (bc_consumers (sample_plain_client T))"
    for T :: "'w client_transport"
    by (simp_all add: sample_plain_client_def streams_def sample_client_config_def silent_def)
  have ti: "jt_interceptors ?t = []" by (simp add: plain_transport_def)
  have st: "st ?w = (?t, empty_handler)" by simp
  from message_life_on_the_wire [OF bc st refl e(1,2) ti e(3), where m = life_message and conf = None and md = None and
        exts = None, folded p_def, OF e(5) f(3) ev(5) g4 e(4) h g(1-3) f(1) n f(2) c ev(1-4)]
  obtain x s' where x: "bc_send_message (sample_plain_client (json_rpc_client_transport ?e)) life_message None None None ?w =
      (([CE_Task (length (heap ?w)) None], Done ()), ?w\<lparr>heap := heap ?w @ [answered (params_of p) x], st := (?t, s')\<rparr>)"
    and t: "Some x = spec_fold (Some (bound_message ''t'' ''c'' (params_of p))) (mem_view (hs_store empty_handler) ''t'') [?ev]"
    and m: "mem_view (hs_store s') = (mem_view (hs_store empty_handler))(''t'' \<mapsto> x)" "hs_running_agents s' ''t'' = None"
    by blast
  have "status_state (task_status x) = completed" using t by (simp add: spec_fold_simps sample_status_def)
  then have "status_state (task_status (answered (params_of p) x)) = completed"
    by (simp add: answered_def apply_history_length_def Let_def split: option.split)
  with x m show ?thesis by (intro exI [of _ "answered (params_of p) x"] exI [of _ s']) simp
qed

end
